(* ===== verification/Prelude.thy ===== *)
theory Prelude
  imports Main "HOL-Library.Word" "HOL-Library.AList"
begin

text \<open>
  Shared vocabulary of the development: Rust results, machine integers, UTF-8 strings,
  ordered maps as association lists, JSON values, clocks and file metadata. The component
  theories state their operations over these definitions and prove with the lemmas
  collected here.

  \<^item> \<open>Result<T, E>\<close> is the sum \<open>'e + 'a\<close>, with \<open>Inl\<close> for \<open>Err\<close>; \<open>and_then\<close> is the
    question-mark operator.
  \<^item> \<open>u32\<close> and \<open>u64\<close> are words; \<open>usize\<close> lengths are \<open>nat\<close>.
  \<^item> \<open>String\<close> and \<open>&str\<close> are their UTF-8 bytes, \<open>string\<close>; \<open>utf8_chars\<close> is \<open>str::chars\<close>.
  \<^item> \<open>BTreeMap\<close> and \<open>HashMap\<close> are association lists with distinct keys.
  \<^item> \<open>world\<close> is one sample of the system clock, the monotonic clock and the file system.
\<close>

section \<open>Collections of facts\<close>

named_theorems result_simps \<open>evaluation and inversion of Result values\<close>
named_theorems word_saturation \<open>saturating and checked arithmetic on words\<close>
named_theorems scope_simps \<open>definitions of the closed vocabularies of the Host\<close>

section \<open>Results\<close>

type_synonym u32 = "32 word"
type_synonym u64 = "64 word"

definition and_then :: "'e + 'a \<Rightarrow> ('a \<Rightarrow> 'e + 'b) \<Rightarrow> 'e + 'b" where
  "and_then r k = (case r of Inl e \<Rightarrow> Inl e | Inr v \<Rightarrow> k v)"

definition is_ok :: "'e + 'a \<Rightarrow> bool" where
  "is_ok r \<longleftrightarrow> (case r of Inl _ \<Rightarrow> False | Inr _ \<Rightarrow> True)"

definition map_err :: "('e \<Rightarrow> 'f) \<Rightarrow> 'e + 'a \<Rightarrow> 'f + 'a" where
  "map_err f r = (case r of Inl e \<Rightarrow> Inl (f e) | Inr v \<Rightarrow> Inr v)"

fun all_ok :: "('a \<Rightarrow> 'e + unit) \<Rightarrow> 'a list \<Rightarrow> 'e + unit" where
  "all_ok f [] = Inr ()"
| "all_ok f (x # xs) = and_then (f x) (\<lambda>_. all_ok f xs)"

lemma and_then_simps [simp, result_simps]:
  "and_then (Inl e) k = Inl e"
  "and_then (Inr v) k = k v"
  by (simp_all add: and_then_def)

lemma and_then_Inr_iff [result_simps]:
  "and_then r k = Inr v \<longleftrightarrow> (\<exists>x. r = Inr x \<and> k x = Inr v)"
  by (cases r) auto

lemma and_then_Inl_iff [result_simps]:
  "and_then r k = Inl e \<longleftrightarrow> r = Inl e \<or> (\<exists>x. r = Inr x \<and> k x = Inl e)"
  by (cases r) auto

lemma is_ok_simps [simp, result_simps]: "is_ok (Inr v)" "\<not> is_ok (Inl e)"
  by (simp_all add: is_ok_def)

lemma is_ok_iff [result_simps]: "is_ok r \<longleftrightarrow> (\<exists>v. r = Inr v)"
  by (cases r) auto

lemma is_ok_unit: "is_ok r \<longleftrightarrow> r = Inr ()"
  by (cases r) auto

lemma map_err_simps [simp, result_simps]:
  "map_err f (Inl e) = Inl (f e)"
  "map_err f (Inr v) = Inr v"
  by (simp_all add: map_err_def)

lemma map_err_Inr_iff [result_simps]: "map_err f r = Inr v \<longleftrightarrow> r = Inr v"
  by (cases r) auto

lemma all_ok_Inr_iff [result_simps]: "all_ok f xs = Inr u \<longleftrightarrow> (\<forall>x\<in>set xs. f x = Inr ())"
  by (induction xs) (auto simp: and_then_Inr_iff)

definition guard :: "bool \<Rightarrow> 'e \<Rightarrow> 'e + unit" where
  "guard bad e = (if bad then Inl e else Inr ())"

lemma guard_simps [simp, result_simps]:
  "guard True e = Inl e" "guard False e = Inr ()" "guard b e = Inr u \<longleftrightarrow> \<not> b"
  by (simp_all add: guard_def)

section \<open>Machine integers\<close>

definition saturating_sub :: "'a::len word \<Rightarrow> 'a word \<Rightarrow> 'a word" where
  "saturating_sub a b = (if b \<le> a then a - b else 0)"

definition saturating_add :: "'a::len word \<Rightarrow> 'a word \<Rightarrow> 'a word" where
  "saturating_add a b = (if unat a + unat b < 2 ^ LENGTH('a) then a + b else - 1)"

definition checked_add :: "'a::len word \<Rightarrow> 'a word \<Rightarrow> 'a word option" where
  "checked_add a b = (if unat a + unat b < 2 ^ LENGTH('a) then Some (a + b) else None)"

lemma unat_max_word: "unat (- 1 :: 'a::len word) = 2 ^ LENGTH('a) - 1"
  by (simp add: unsigned_minus_1_eq_mask mask_eq_exp_minus_1)

lemma unat_saturating_sub [word_saturation]: "unat (saturating_sub a b) = unat a - unat b"
  by (auto simp: saturating_sub_def unat_sub word_le_nat_alt)

lemma unat_saturating_add [word_saturation]:
  "unat (saturating_add a (b :: 'a::len word)) = min (unat a + unat b) (2 ^ LENGTH('a) - 1)"
proof (cases "unat a + unat b < 2 ^ LENGTH('a)")
  case True
  then show ?thesis by (simp add: saturating_add_def unat_word_ariths)
next
  case False
  then show ?thesis by (simp add: saturating_add_def unat_max_word)
qed

lemma checked_add_SomeD [word_saturation]:
  "checked_add a b = Some c \<Longrightarrow> unat c = unat a + unat b"
  by (auto simp: checked_add_def unat_word_ariths split: if_splits)

lemma saturating_add_1_gt:
  "(a :: 'a::len word) \<noteq> - 1 \<Longrightarrow> a < saturating_add a 1"
proof -
  assume neq: "a \<noteq> - 1"
  have "unat a < 2 ^ LENGTH('a) - 1"
  proof (rule ccontr)
    assume "\<not> ?thesis"
    moreover have "unat a < 2 ^ LENGTH('a)" by simp
    ultimately have "unat a = unat (- 1 :: 'a word)"
      unfolding unat_max_word by linarith
    with neq show False by (simp add: word_unat_eq_iff)
  qed
  then show ?thesis
    by (simp add: word_less_nat_alt unat_saturating_add unat_1)
qed

section \<open>Strings: UTF-8 bytes and characters\<close>

abbreviation byte :: "char \<Rightarrow> nat" where
  "byte \<equiv> of_char"

definition utf8_cont :: "string \<Rightarrow> nat \<Rightarrow> nat" where
  "utf8_cont s i = (if i < length s then byte (s ! i) - 128 else 0)"

text \<open>\<open>str::chars\<close>: the scalar values of a well-formed UTF-8 string.\<close>

fun utf8_chars :: "string \<Rightarrow> nat list" where
  "utf8_chars [] = []"
| "utf8_chars (a # s) =
     (let n = byte a in
      if n < 128 then n # utf8_chars s
      else if n < 224 then ((n - 192) * 64 + utf8_cont s 0) # utf8_chars (drop 1 s)
      else if n < 240 then
        ((n - 224) * 4096 + utf8_cont s 0 * 64 + utf8_cont s 1) # utf8_chars (drop 2 s)
      else ((n - 240) * 262144 + utf8_cont s 0 * 4096 + utf8_cont s 1 * 64 + utf8_cont s 2)
             # utf8_chars (drop 3 s))"

definition utf8_encode_char :: "nat \<Rightarrow> string" where
  "utf8_encode_char c =
     (if c < 128 then [char_of c]
      else if c < 2048 then [char_of (192 + c div 64), char_of (128 + c mod 64)]
      else if c < 65536 then
        [char_of (224 + c div 4096), char_of (128 + c div 64 mod 64), char_of (128 + c mod 64)]
      else
        [char_of (240 + c div 262144), char_of (128 + c div 4096 mod 64),
         char_of (128 + c div 64 mod 64), char_of (128 + c mod 64)])"

definition utf8_encode :: "nat list \<Rightarrow> string" where
  "utf8_encode cs = concat (map utf8_encode_char cs)"

definition char_count :: "string \<Rightarrow> nat" where
  "char_count s = length (utf8_chars s)"

text \<open>\<open>char::is_control\<close> (general category Cc) and \<open>char::is_whitespace\<close> (White\_Space).\<close>

definition is_control :: "nat \<Rightarrow> bool" where
  "is_control c \<longleftrightarrow> c < 32 \<or> 127 \<le> c \<and> c < 160"

definition is_whitespace :: "nat \<Rightarrow> bool" where
  "is_whitespace c \<longleftrightarrow>
     9 \<le> c \<and> c \<le> 13 \<or> c \<in> {32, 133, 160, 5760, 8232, 8233, 8239, 8287, 12288}
     \<or> 8192 \<le> c \<and> c \<le> 8202"

definition trim_end_chars :: "(nat \<Rightarrow> bool) \<Rightarrow> nat list \<Rightarrow> nat list" where
  "trim_end_chars p cs = rev (dropWhile p (rev cs))"

definition str_trim :: "string \<Rightarrow> string" where
  "str_trim s = utf8_encode (trim_end_chars is_whitespace (dropWhile is_whitespace (utf8_chars s)))"

definition has_control :: "string \<Rightarrow> bool" where
  "has_control s \<longleftrightarrow> list_ex is_control (utf8_chars s)"

definition starts_with :: "string \<Rightarrow> string \<Rightarrow> bool" where
  "starts_with p s \<longleftrightarrow> take (length p) s = p"

definition ends_with :: "string \<Rightarrow> string \<Rightarrow> bool" where
  "ends_with p s \<longleftrightarrow> starts_with (rev p) (rev s)"

definition to_ascii_lower_char :: "char \<Rightarrow> char" where
  "to_ascii_lower_char c =
     (if 65 \<le> byte c \<and> byte c \<le> 90 then char_of (byte c + 32) else c)"

definition to_ascii_upper_char :: "char \<Rightarrow> char" where
  "to_ascii_upper_char c =
     (if 97 \<le> byte c \<and> byte c \<le> 122 then char_of (byte c - 32) else c)"

definition to_ascii_lowercase :: "string \<Rightarrow> string" where
  "to_ascii_lowercase = map to_ascii_lower_char"

definition to_ascii_uppercase :: "string \<Rightarrow> string" where
  "to_ascii_uppercase = map to_ascii_upper_char"

definition eq_ignore_ascii_case :: "string \<Rightarrow> string \<Rightarrow> bool" where
  "eq_ignore_ascii_case a b \<longleftrightarrow> to_ascii_lowercase a = to_ascii_lowercase b"

definition is_ascii_alphanumeric :: "char \<Rightarrow> bool" where
  "is_ascii_alphanumeric c \<longleftrightarrow>
     48 \<le> byte c \<and> byte c \<le> 57 \<or> 65 \<le> byte c \<and> byte c \<le> 90 \<or> 97 \<le> byte c \<and> byte c \<le> 122"

definition is_ascii_digit :: "char \<Rightarrow> bool" where
  "is_ascii_digit c \<longleftrightarrow> 48 \<le> byte c \<and> byte c \<le> 57"

fun split_on :: "(char \<Rightarrow> bool) \<Rightarrow> string \<Rightarrow> string list" where
  "split_on p [] = [[]]"
| "split_on p (c # s) =
     (if p c then [] # split_on p s
      else (case split_on p s of [] \<Rightarrow> [[c]] | w # ws \<Rightarrow> (c # w) # ws))"

fun show_nat :: "nat \<Rightarrow> string" where
  "show_nat n = (if n < 10 then [char_of (48 + n)] else show_nat (n div 10) @ [char_of (48 + n mod 10)])"

declare show_nat.simps [simp del]

lemma byte_char_of [simp]: "n < 256 \<Longrightarrow> byte (char_of n) = n"
  by simp

lemma utf8_cont_byte [simp]: "b < 64 \<Longrightarrow> byte (char_of (128 + b)) - 128 = b"
  by simp

lemma div64_digits:
  fixes c :: nat
  shows "c div 4096 = c div 64 div 64" "c div 262144 = c div 64 div 64 div 64"
  by (simp_all add: div_mult2_eq [symmetric])

lemma base64_sum:
  fixes c :: nat
  assumes "c = q1 * 64 + d0" and "q1 = q2 * 64 + d1" and "q2 = d3 * 64 + d2"
  shows "c = d3 * 262144 + d2 * 4096 + d1 * 64 + d0"
  using assms by simp

lemma utf8_chars_encode_char:
  assumes "c < 1114112"
  shows "utf8_chars (utf8_encode_char c @ s) = c # utf8_chars s"
proof -
  define d0 d1 d2 d3 where "d0 = c mod 64" and "d1 = c div 64 mod 64"
    and "d2 = c div 64 div 64 mod 64" and "d3 = c div 64 div 64 div 64"
  have "c = d3 * 262144 + d2 * 4096 + d1 * 64 + d0"
    by (rule base64_sum [of _ "c div 64" _ "c div 64 div 64"])
       (simp_all only: d0_def d1_def d2_def d3_def div_mult_mod_eq)
  then have digits: "c = d3 * 262144 + d2 * 4096 + d1 * 64 + d0" "d0 < 64" "d1 < 64" "d2 < 64"
    by (simp_all add: d0_def d1_def d2_def)
  have parts: "c mod 64 = d0" "c div 64 mod 64 = d1" "c div 4096 mod 64 = d2" "c div 262144 = d3"
    by (simp_all add: d0_def d1_def d2_def d3_def div64_digits)
  consider "c < 128" | "128 \<le> c" "c < 2048" | "2048 \<le> c" "c < 65536" | "65536 \<le> c"
    by linarith
  then show ?thesis
  proof cases
    case 1
    then show ?thesis by (simp add: utf8_encode_char_def)
  next
    case 2
    then have zero: "d3 = 0" "d2 = 0" and small: "d1 < 32" using digits by linarith+
    then have "c = d1 * 64 + d0" using digits by simp
    then have "c div 64 = d1" using digits by simp
    with 2 digits zero small parts show ?thesis
      by (simp add: utf8_encode_char_def utf8_cont_def Let_def)
  next
    case 3
    then have zero: "d3 = 0" and small: "d2 < 16" using digits by linarith+
    then have "c = d2 * 4096 + (d1 * 64 + d0)" using digits by simp
    moreover have "d1 * 64 + d0 < 4096" using digits by linarith
    ultimately have "c div 4096 = d2" by simp
    with 3 digits zero small parts show ?thesis
      by (simp add: utf8_encode_char_def utf8_cont_def Let_def)
  next
    case 4
    then have "d3 < 5" using digits assms by linarith
    with 4 digits parts show ?thesis
      by (simp add: utf8_encode_char_def utf8_cont_def Let_def)
  qed
qed

lemma utf8_roundtrip:
  "(\<And>c. c \<in> set cs \<Longrightarrow> c < 1114112) \<Longrightarrow> utf8_chars (utf8_encode cs) = cs"
  by (induction cs) (auto simp: utf8_encode_def utf8_chars_encode_char)

section \<open>Printable ASCII strings\<close>

definition graphic :: "string \<Rightarrow> bool" where
  "graphic s \<longleftrightarrow> list_all (\<lambda>c. 33 \<le> byte c \<and> byte c < 127) s"

lemma utf8_chars_graphic: "graphic s \<Longrightarrow> utf8_chars s = map byte s"
  by (induction s) (auto simp: graphic_def)

lemma utf8_encode_graphic: "graphic s \<Longrightarrow> utf8_encode (map byte s) = s"
  by (induction s) (auto simp: graphic_def utf8_encode_def utf8_encode_char_def)

lemma dropWhile_whitespace_graphic: "graphic s \<Longrightarrow> dropWhile is_whitespace (map byte s) = map byte s"
  by (cases s) (auto simp: graphic_def is_whitespace_def)

lemma graphic_rev: "graphic (rev s) \<longleftrightarrow> graphic s"
  by (simp add: graphic_def list_all_iff)

lemma str_trim_graphic: "graphic s \<Longrightarrow> str_trim s = s"
  by (simp add: str_trim_def trim_end_chars_def utf8_chars_graphic dropWhile_whitespace_graphic
      utf8_encode_graphic graphic_rev rev_map)

lemma char_count_graphic: "graphic s \<Longrightarrow> char_count s = length s"
  by (simp add: char_count_def utf8_chars_graphic)

lemma has_control_graphic: "graphic s \<Longrightarrow> \<not> has_control s"
  by (auto simp: has_control_def utf8_chars_graphic list_ex_iff graphic_def list_all_iff
      is_control_def)

lemmas graphic_simps = str_trim_graphic char_count_graphic has_control_graphic

end
