(* ===== verification/Externals.thy ===== *)
theory Externals
  imports Prelude
begin

text \<open>
  What the modelled components take from outside the repository: JSON values and their
  accessors (\<open>serde_json::Value\<close>), one sample of the clocks and the file system (\<open>world\<close>),
  Unix paths (\<open>std::path\<close>), and the third-party functions (\<open>externs\<close>) that are parameters
  of the model: \<open>url::Url::parse\<close>, \<open>serde_json::to_vec\<close>, \<open>serde_jcs::to_vec\<close>,
  \<open>serde_json::from_slice\<close>, SHA-256, base64 and Ed25519.
\<close>

section \<open>JSON values\<close>

text \<open>A \<open>Float\<close> carries its IEEE 754 bit pattern.\<close>

datatype json_number = PosInt u64 | NegInt int | Float u64

datatype json =
    JNull
  | JBool bool
  | JNum json_number
  | JStr string
  | JArr "json list"
  | JObj "(string \<times> json) list"

fun json_get :: "json \<Rightarrow> string \<Rightarrow> json option" where
  "json_get (JObj fields) k = map_of fields k"
| "json_get _ k = None"

definition json_index :: "json \<Rightarrow> string \<Rightarrow> json" where
  "json_index v k = (case json_get v k of Some x \<Rightarrow> x | None \<Rightarrow> JNull)"

fun as_str :: "json \<Rightarrow> string option" where
  "as_str (JStr s) = Some s"
| "as_str _ = None"

fun as_bool :: "json \<Rightarrow> bool option" where
  "as_bool (JBool b) = Some b"
| "as_bool _ = None"

fun as_u64 :: "json \<Rightarrow> u64 option" where
  "as_u64 (JNum (PosInt n)) = Some n"
| "as_u64 _ = None"

definition get_str :: "json \<Rightarrow> string \<Rightarrow> string option" where
  "get_str v k = Option.bind (json_get v k) as_str"

text \<open>\<open>From\<close> conversions used by \<open>#[derive(Serialize)]\<close>.\<close>

definition json_u64 :: "u64 \<Rightarrow> json" where
  "json_u64 n = JNum (PosInt n)"

definition json_u32 :: "u32 \<Rightarrow> json" where
  "json_u32 n = JNum (PosInt (ucast n))"

definition json_opt :: "('a \<Rightarrow> json) \<Rightarrow> 'a option \<Rightarrow> json" where
  "json_opt f x = (case x of None \<Rightarrow> JNull | Some v \<Rightarrow> f v)"

lemma json_u32_inj [simp]: "json_u32 a = json_u32 b \<longleftrightarrow> a = b"
proof
  assume "json_u32 a = json_u32 b"
  then have "(ucast (ucast a :: u64) :: u32) = ucast (ucast b :: u64)" by (simp add: json_u32_def)
  moreover have "is_up (ucast :: u32 \<Rightarrow> u64)" by (simp add: is_up)
  ultimately show "a = b" by (simp only: ucast_up_ucast_id)
qed simp

lemma json_u64_inj [simp]: "json_u64 a = json_u64 b \<longleftrightarrow> a = b"
  by (simp add: json_u64_def)

section \<open>Clocks and file system\<close>

record file_meta =
  is_dir :: bool
  is_symlink :: bool

text \<open>
  \<open>system_ns\<close> is the wall clock in nanoseconds relative to the Unix epoch (negative before
  it), \<open>mono_ns\<close> the monotonic \<open>Instant\<close>, \<open>symlink_metadata\<close> the answer of \<open>lstat\<close> per path and
  \<open>process_identity\<close> the creation identity of the process that owns a window, if it is live.
\<close>

record world =
  system_ns :: int
  mono_ns :: nat
  symlink_metadata :: "string \<Rightarrow> file_meta option"
  process_identity :: "u32 \<Rightarrow> u64 \<Rightarrow> string option"

type_synonym clock = "nat \<Rightarrow> world"

definition millis_u64 :: "int \<Rightarrow> u64" where
  "millis_u64 ns =
     (let ms = nat (ns div 1000000) in if ms < 2 ^ 64 then of_nat ms else - 1)"

text \<open>\<open>Instant::checked_add\<close> with a millisecond duration; seconds are an \<open>i64\<close> on Unix.\<close>

definition instant_checked_add :: "nat \<Rightarrow> u64 \<Rightarrow> nat option" where
  "instant_checked_add t ms =
     (let t' = t + unat ms * 1000000 in if t' div 1000000000 < 2 ^ 63 then Some t' else None)"

section \<open>Unix paths\<close>

datatype component = RootDir | CurDir | ParentDir | Normal string

abbreviation slash :: "char \<Rightarrow> bool" where
  "slash c \<equiv> c = CHR ''/''"

definition path_is_absolute :: "string \<Rightarrow> bool" where
  "path_is_absolute p \<longleftrightarrow> starts_with ''/'' p"

definition path_part :: "string \<Rightarrow> component" where
  "path_part w = (if w = ''..'' then ParentDir else Normal w)"

definition path_components :: "string \<Rightarrow> component list" where
  "path_components p =
     (if path_is_absolute p then [RootDir]
      else if starts_with ''./'' p \<or> p = ''.'' then [CurDir] else [])
     @ map path_part (filter (\<lambda>w. w \<noteq> [] \<and> w \<noteq> ''.'') (split_on slash p))"

text \<open>
  \<open>Path::parent\<close> and \<open>Path::ancestors\<close> for paths without a \<open>.\<close> part, the only ones the
  callers reach: trailing separators are dropped, then the last part, then the separators
  before it; the root has no parent.
\<close>

definition rstrip :: "(char \<Rightarrow> bool) \<Rightarrow> string \<Rightarrow> string" where
  "rstrip p s = rev (dropWhile p (rev s))"

definition path_parent :: "string \<Rightarrow> string option" where
  "path_parent p =
     (let t = rstrip slash p in
      if t = [] then None
      else let d = rstrip (\<lambda>c. \<not> slash c) t in
        if d = [] then Some []
        else let u = rstrip slash d in Some (if u = [] then ''/'' else u))"

lemma length_rstrip: "length (rstrip p s) \<le> length s"
  unfolding rstrip_def by (metis length_dropWhile_le length_rev)

lemma rstrip_shorter:
  assumes "rstrip slash p \<noteq> []"
  shows "length (rstrip (\<lambda>c. \<not> slash c) (rstrip slash p)) < length (rstrip slash p)"
proof -
  define xs where "xs = dropWhile slash (rev p)"
  from assms have ne: "xs \<noteq> []" by (simp add: rstrip_def xs_def)
  then have "\<not> slash (hd xs)" unfolding xs_def by (rule hd_dropWhile)
  with ne have "dropWhile (\<lambda>c. \<not> slash c) xs = dropWhile (\<lambda>c. \<not> slash c) (tl xs)"
    by (cases xs) simp_all
  moreover have "length (dropWhile (\<lambda>c. \<not> slash c) (tl xs)) \<le> length (tl xs)"
    by (rule length_dropWhile_le)
  ultimately have "length (dropWhile (\<lambda>c. \<not> slash c) xs) < length xs"
    using ne by (cases xs) simp_all
  then show ?thesis by (simp add: rstrip_def xs_def)
qed

lemma path_parent_shorter: "path_parent p = Some q \<Longrightarrow> length q < length p"
proof -
  assume par: "path_parent p = Some q"
  define t where "t = rstrip slash p"
  define d where "d = rstrip (\<lambda>c. \<not> slash c) t"
  have t: "t \<noteq> []" using par by (auto simp: path_parent_def t_def Let_def split: if_splits)
  have "length d < length t" using rstrip_shorter t by (simp add: t_def d_def)
  moreover have "length t \<le> length p" by (simp add: t_def length_rstrip)
  moreover have "length (rstrip slash d) \<le> length d" by (rule length_rstrip)
  moreover have "length q = 0 \<or> 0 < length d \<and> (length q = 1 \<or> length q = length (rstrip slash d))"
    using par t by (auto simp: path_parent_def t_def [symmetric] d_def [symmetric] Let_def
      split: if_splits)
  moreover have "0 < length t" using t by simp
  ultimately show ?thesis by linarith
qed

function path_ancestors :: "string \<Rightarrow> string list" where
  "path_ancestors p =
     p # (case path_parent p of None \<Rightarrow> [] | Some q \<Rightarrow> path_ancestors q)"
  by pat_completeness auto
termination
  by (relation "measure length") (auto dest: path_parent_shorter)

declare path_ancestors.simps [simp del]

section \<open>Third-party functions\<close>

record url =
  scheme :: string
  has_host :: bool
  username :: string
  password :: "string option"
  url_path :: string
  query :: "string option"
  fragment :: "string option"
  ascii_origin :: string

record externs =
  url_parse :: "string \<Rightarrow> url option"
  to_vec :: "json \<Rightarrow> string + string"
  sha256_hex :: "string \<Rightarrow> string"

section \<open>Association lists as ordered maps\<close>

abbreviation keys_of :: "('k \<times> 'v) list \<Rightarrow> 'k list" where
  "keys_of m \<equiv> map fst m"

definition retain :: "('v \<Rightarrow> bool) \<Rightarrow> ('k \<times> 'v) list \<Rightarrow> ('k \<times> 'v) list" where
  "retain p m = filter (\<lambda>(k, v). p v) m"

lemma map_of_update [simp]: "map_of (AList.update k v m) = (map_of m)(k \<mapsto> v)"
  by (simp add: update_conv')

lemma length_update:
  "length (AList.update k v m) = (if k \<in> set (keys_of m) then length m else Suc (length m))"
  by (induction m) auto

lemma length_retain: "length (retain p m) \<le> length m"
  by (simp add: retain_def)

lemma distinct_retain: "distinct (keys_of m) \<Longrightarrow> distinct (keys_of (retain p m))"
  by (simp add: retain_def distinct_map_filter)

lemma distinct_keys_update: "distinct (keys_of m) \<Longrightarrow> distinct (keys_of (AList.update k v m))"
  by (rule distinct_update)

lemma map_of_retain:
  "distinct (keys_of m) \<Longrightarrow>
   map_of (retain p m) k = (case map_of m k of Some v \<Rightarrow> if p v then Some v else None | None \<Rightarrow> None)"
  by (induction m) (auto simp: retain_def split: option.splits dest: map_of_SomeD intro: rev_image_eqI)

end
