(* ===== verification/Host_Error.thy ===== *)
theory Host_Error
  imports Externals
begin

text \<open>
  The error values of the Host (\<open>crates/dcc-cua-host/src/error_contract.rs\<close>), the error
  codes of the Computer Use core (\<open>crates/dcc-cua-core/src/contracts.rs\<close>) and their wire
  codes (\<open>crates/dcc-cua-host/src/wire.rs\<close>). I/O errors keep no payload: nothing in the
  modelled code inspects one.
\<close>

datatype ComputerUseErrorCode =
    BackendUnavailable | OverlayExclusionUnavailable | NoAccessibilityProvider | BrowserRefused
  | ClipboardRefused | RecordingRefused | MissingWindow | InvalidTarget | TargetMinimized
  | TargetUnavailable | TargetModalChanged | StaleObservation | UserInterrupted | InvalidAction
  | InteractiveDesktopUnavailable | InputFailed | SessionRefreshRequired | CompletionUnknown
  | CaptureFailed | ForegroundActivationRefused

datatype HostProtocolErrorCode =
    ProtocolMismatch | RawInputNotGranted | AppLaunchNotGranted | AppTerminateNotGranted
  | BrowserInputNotGranted | BrowserPrepareNotGranted | BrowserDownloadNotGranted
  | ClipboardReadNotGranted | ClipboardWriteNotGranted | SecretVaultUnavailable | SecretNotFound
  | SecretCaptureFailed | TaskAuthorizationRequired | TaskAuthorizationDenied
  | TaskAuthorizationExpired | TaskAuthorizationRevoked | RecordingNotGranted
  | NativeToolNotGranted | MenuInvokeNotGranted | SessionEscalationNotGranted
  | SessionLimitReached | SessionNotFound | RequestInProgress | RequestNotFound | Forbidden
  | Unsupported

datatype HostError =
    Io
  | EndpointHijacked string
  | Protocol string
  | CodedProtocol HostProtocolErrorCode string
  | ComputerUse ComputerUseErrorCode string

fun as_wire_code :: "HostProtocolErrorCode \<Rightarrow> string" where
  "as_wire_code ProtocolMismatch = ''protocol_mismatch''"
| "as_wire_code RawInputNotGranted = ''raw_input_not_granted''"
| "as_wire_code AppLaunchNotGranted = ''app_launch_not_granted''"
| "as_wire_code AppTerminateNotGranted = ''app_terminate_not_granted''"
| "as_wire_code BrowserInputNotGranted = ''browser_input_not_granted''"
| "as_wire_code BrowserPrepareNotGranted = ''browser_prepare_not_granted''"
| "as_wire_code BrowserDownloadNotGranted = ''browser_download_not_granted''"
| "as_wire_code ClipboardReadNotGranted = ''clipboard_read_not_granted''"
| "as_wire_code ClipboardWriteNotGranted = ''clipboard_write_not_granted''"
| "as_wire_code SecretVaultUnavailable = ''secret_vault_unavailable''"
| "as_wire_code SecretNotFound = ''secret_not_found''"
| "as_wire_code SecretCaptureFailed = ''secret_capture_failed''"
| "as_wire_code TaskAuthorizationRequired = ''task_authorization_required''"
| "as_wire_code TaskAuthorizationDenied = ''task_authorization_denied''"
| "as_wire_code TaskAuthorizationExpired = ''task_authorization_expired''"
| "as_wire_code TaskAuthorizationRevoked = ''task_authorization_revoked''"
| "as_wire_code RecordingNotGranted = ''recording_not_granted''"
| "as_wire_code NativeToolNotGranted = ''native_tool_not_granted''"
| "as_wire_code MenuInvokeNotGranted = ''menu_invoke_not_granted''"
| "as_wire_code SessionEscalationNotGranted = ''session_escalation_not_granted''"
| "as_wire_code SessionLimitReached = ''session_limit_reached''"
| "as_wire_code SessionNotFound = ''session_not_found''"
| "as_wire_code RequestInProgress = ''request_in_progress''"
| "as_wire_code RequestNotFound = ''request_not_found''"
| "as_wire_code Forbidden = ''forbidden''"
| "as_wire_code Unsupported = ''unsupported''"

fun computer_use_wire_code :: "ComputerUseErrorCode \<Rightarrow> string" where
  "computer_use_wire_code StaleObservation = ''stale_observation''"
| "computer_use_wire_code UserInterrupted = ''user_interrupted''"
| "computer_use_wire_code InvalidTarget = ''invalid_target''"
| "computer_use_wire_code TargetMinimized = ''target_minimized''"
| "computer_use_wire_code TargetUnavailable = ''target_unavailable''"
| "computer_use_wire_code TargetModalChanged = ''target_modal_changed''"
| "computer_use_wire_code BrowserRefused = ''browser_refused''"
| "computer_use_wire_code ClipboardRefused = ''clipboard_refused''"
| "computer_use_wire_code RecordingRefused = ''recording_refused''"
| "computer_use_wire_code CaptureFailed = ''capture_failed''"
| "computer_use_wire_code InteractiveDesktopUnavailable = ''interactive_desktop_unavailable''"
| "computer_use_wire_code InputFailed = ''input_failed''"
| "computer_use_wire_code SessionRefreshRequired = ''session_refresh_required''"
| "computer_use_wire_code CompletionUnknown = ''completion_unknown''"
| "computer_use_wire_code InvalidAction = ''invalid_request''"
| "computer_use_wire_code MissingWindow = ''target_unavailable''"
| "computer_use_wire_code BackendUnavailable = ''backend_unavailable''"
| "computer_use_wire_code OverlayExclusionUnavailable = ''overlay_exclusion_unavailable''"
| "computer_use_wire_code NoAccessibilityProvider = ''no_accessibility_provider''"
| "computer_use_wire_code ForegroundActivationRefused = ''foreground_activation_refused''"

fun error_code :: "HostError \<Rightarrow> string" where
  "error_code (ComputerUse code _) = computer_use_wire_code code"
| "error_code Io = ''backend_unavailable''"
| "error_code (EndpointHijacked _) = ''backend_unavailable''"
| "error_code (CodedProtocol code _) = as_wire_code code"
| "error_code (Protocol _) = ''invalid_request''"

text \<open>The invalid-request and authorization errors the components raise.\<close>

definition task_authorization_required :: "string \<Rightarrow> HostError" where
  "task_authorization_required message = CodedProtocol TaskAuthorizationRequired message"

definition browser_scope_denied :: "string \<Rightarrow> HostError" where
  "browser_scope_denied message = CodedProtocol TaskAuthorizationDenied message"

definition session_not_found :: HostError where
  "session_not_found = CodedProtocol SessionNotFound
     ''session not found on this Host connection; keep the connection that opened the session alive, or open a new authorized session and take a fresh observation; session IDs and capabilities cannot resume another connection's session''"

lemma as_wire_code_inject: "as_wire_code a = as_wire_code b \<Longrightarrow> a = b"
  by (cases a; cases b; simp)

lemma as_wire_code_not_computer_use: "as_wire_code a \<noteq> computer_use_wire_code b"
  by (cases a; cases b; simp)

end
