(* ===== verification/Action_Scope.thy ===== *)
theory Action_Scope
  imports Host_Error
begin

text \<open>
  The closed vocabularies of a trusted task authorization: identity strings, browser
  origins, action scopes and Host methods
  (\<open>crates/dcc-cua-host/src/task_authorization.rs\<close>, \<open>task_authorization_scope.rs\<close>).
\<close>

section \<open>Identity strings\<close>

definition identity_ok :: "nat \<Rightarrow> string \<Rightarrow> bool" where
  "identity_ok max_chars value \<longleftrightarrow>
     value \<noteq> [] \<and> value = str_trim value \<and> char_count value \<le> max_chars \<and> \<not> has_control value"

lemma identity_ok_graphic: "graphic s \<Longrightarrow> identity_ok n s \<longleftrightarrow> s \<noteq> [] \<and> length s \<le> n"
  by (simp add: identity_ok_def graphic_simps)

text \<open>
  Four components validate identity strings with their own error type. The contract they
  share is that exactly the bounded, trimmed, printable strings pass.
\<close>

locale identity_validator =
  fixes validate :: "nat \<Rightarrow> string \<Rightarrow> 'e + unit"
  assumes accepts_iff: "validate n s = Inr () \<longleftrightarrow> identity_ok n s"
begin

lemma rejects_iff: "(\<exists>e. validate n s = Inl e) \<longleftrightarrow> \<not> identity_ok n s"
  using accepts_iff [of n s] by (cases "validate n s") auto

lemma accepts_is_ok: "is_ok (validate n s) \<longleftrightarrow> identity_ok n s"
  by (simp add: is_ok_unit accepts_iff)

lemma accepts_all_iff: "all_ok (validate n) xs = Inr () \<longleftrightarrow> (\<forall>x\<in>set xs. identity_ok n x)"
  by (simp add: all_ok_Inr_iff accepts_iff)

lemma accepted_bounded: "validate n s = Inr () \<Longrightarrow> 0 < length s \<and> char_count s \<le> n"
  by (simp add: accepts_iff identity_ok_def)

lemma accepts_mono: "validate n s = Inr () \<Longrightarrow> n \<le> m \<Longrightarrow> validate m s = Inr ()"
  by (simp add: accepts_iff identity_ok_def)

end

definition MAX_TASK_AUTHORIZATION_ID_CHARS :: nat where
  "MAX_TASK_AUTHORIZATION_ID_CHARS = 128"

definition MAX_TASK_AUTHORIZATION_ACTIONS :: nat where
  "MAX_TASK_AUTHORIZATION_ACTIONS = 32"

definition MAX_TASK_AUTHORIZATION_TTL_MS :: u64 where
  "MAX_TASK_AUTHORIZATION_TTL_MS = 86400000"

definition validate_authorization_id :: "string \<Rightarrow> HostError + unit" where
  "validate_authorization_id value =
     (if value = [] \<or> value \<noteq> str_trim value
         \<or> char_count value > MAX_TASK_AUTHORIZATION_ID_CHARS \<or> has_control value
      then Inl (Protocol (''task_authorization_id must contain 1..''
        @ show_nat MAX_TASK_AUTHORIZATION_ID_CHARS
        @ '' printable characters without surrounding whitespace''))
      else Inr ())"

lemma validate_authorization_id_iff:
  "validate_authorization_id s = Inr () \<longleftrightarrow> identity_ok MAX_TASK_AUTHORIZATION_ID_CHARS s"
  by (auto simp: validate_authorization_id_def identity_ok_def)

section \<open>Browser origins\<close>

definition valid_browser_origin :: "externs \<Rightarrow> string \<Rightarrow> bool" where
  "valid_browser_origin x value \<longleftrightarrow>
     (if value = [] \<or> length value > 2048 then False
      else case url_parse x value of None \<Rightarrow> False
        | Some origin \<Rightarrow>
            scheme origin \<in> {''http'', ''https''} \<and> has_host origin \<and> username origin = []
            \<and> password origin = None \<and> url_path origin = ''/'' \<and> query origin = None
            \<and> fragment origin = None \<and> ascii_origin origin = value)"

record TrustedTaskAuthorizationBrowserScope =
  bs_host_target_id :: string
  bs_tab_id :: string
  bs_document_generation :: string
  bs_origin :: string

definition browser_scope_validate :: "externs \<Rightarrow> TrustedTaskAuthorizationBrowserScope \<Rightarrow> bool" where
  "browser_scope_validate x s \<longleftrightarrow>
     list_all (\<lambda>value. value \<noteq> [] \<and> value = str_trim value \<and> char_count value \<le> 256
                       \<and> \<not> has_control value)
       [bs_host_target_id s, bs_tab_id s, bs_document_generation s]
     \<and> valid_browser_origin x (bs_origin s)"

section \<open>Action scopes\<close>

record TrustedTaskActionScope =
  sc_action :: string
  sc_input_kind :: string
  sc_secret_input :: bool
  sc_authorization_category :: string
  sc_browser_origin :: "string option"

definition is_native_capture_popup_keyboard :: "TrustedTaskActionScope \<Rightarrow> bool" where
  "is_native_capture_popup_keyboard s \<longleftrightarrow>
     sc_action s = ''native_capture_popup_keyboard'' \<and> sc_input_kind s = ''window_state''
     \<and> \<not> sc_secret_input s \<and> sc_authorization_category s = ''window_state''
     \<and> sc_browser_origin s = None"

definition PIXELS_INPUT_ACTIONS :: "string list" where
  "PIXELS_INPUT_ACTIONS =
     [''click'', ''double_click'', ''right_click'', ''toggle'', ''drag'', ''keypress'',
      ''keyboard_shortcut'', ''type'', ''type_chars'']"

definition is_pixels_input :: "TrustedTaskActionScope \<Rightarrow> bool" where
  "is_pixels_input s \<longleftrightarrow>
     sc_action s \<in> set PIXELS_INPUT_ACTIONS \<and> sc_input_kind s = ''raw_input''
     \<and> \<not> sc_secret_input s \<and> sc_authorization_category s = ''raw_input''
     \<and> sc_browser_origin s = None"

definition is_window_minimize :: "TrustedTaskActionScope \<Rightarrow> bool" where
  "is_window_minimize s \<longleftrightarrow>
     sc_action s = ''minimize_window'' \<and> sc_input_kind s = ''window_state''
     \<and> \<not> sc_secret_input s \<and> sc_authorization_category s = ''window_state''
     \<and> sc_browser_origin s = None"

definition is_window_frame :: "TrustedTaskActionScope \<Rightarrow> bool" where
  "is_window_frame s \<longleftrightarrow>
     sc_action s = ''set_window_frame'' \<and> sc_input_kind s = ''window_state''
     \<and> \<not> sc_secret_input s \<and> sc_authorization_category s = ''window_state''
     \<and> sc_browser_origin s = None"

definition is_native_menu_dismiss :: "TrustedTaskActionScope \<Rightarrow> bool" where
  "is_native_menu_dismiss s \<longleftrightarrow>
     sc_action s = ''dismiss_menu'' \<and> sc_input_kind s = ''window_state''
     \<and> \<not> sc_secret_input s \<and> sc_authorization_category s = ''window_state''
     \<and> sc_browser_origin s = None"

definition is_capture_preparation :: "TrustedTaskActionScope \<Rightarrow> bool" where
  "is_capture_preparation s \<longleftrightarrow>
     sc_action s = ''capture_preparation_begin'' \<and> sc_input_kind s = ''window_state''
     \<and> \<not> sc_secret_input s \<and> sc_authorization_category s = ''window_state''
     \<and> sc_browser_origin s = None"

definition NATIVE_ACTIONS :: "string list" where
  "NATIVE_ACTIONS =
     [''move'', ''scroll'', ''click'', ''double_click'', ''right_click'', ''toggle'', ''drag'',
      ''type'', ''type_chars'', ''set_text'', ''set_value'', ''set_checked'', ''keypress'',
      ''press'', ''press_key'', ''keyboard_shortcut'', ''hotkey'']"

definition RAW_INPUT_CATEGORIES :: "string list" where
  "RAW_INPUT_CATEGORIES = [''raw_input'', ''credential'']"

definition SEMANTIC_CATEGORIES :: "string list" where
  "SEMANTIC_CATEGORIES =
     [''task_grant'', ''account_access'', ''account_security'', ''content_change'', ''credential'',
      ''destructive'', ''destructive_write'', ''external_effect'', ''payment'', ''publishing'']"

definition action_scope_validate :: "externs \<Rightarrow> TrustedTaskActionScope \<Rightarrow> bool" where
  "action_scope_validate x s \<longleftrightarrow>
     (if sc_input_kind s = ''window_state'' then
        is_window_minimize s \<or> is_native_capture_popup_keyboard s \<or> is_window_frame s
        \<or> is_native_menu_dismiss s \<or> is_capture_preparation s
      else if sc_input_kind s = ''browser'' then
        (sc_action s = ''browser_type'' \<and> sc_secret_input s
           \<and> sc_authorization_category s = ''credential''
         \<or> sc_action s = ''browser_extension_navigate'' \<and> \<not> sc_secret_input s
           \<and> sc_authorization_category s = ''external_effect'')
        \<and> (case sc_browser_origin s of None \<Rightarrow> False | Some b \<Rightarrow> valid_browser_origin x b)
      else if sc_input_kind s = ''clipboard'' then
        sc_action s = ''clipboard_capture_secret'' \<and> sc_secret_input s
        \<and> sc_authorization_category s = ''credential'' \<and> sc_browser_origin s = None
      else if sc_input_kind s = ''raw_input'' then
        sc_action s \<in> set NATIVE_ACTIONS
        \<and> sc_authorization_category s \<in> set RAW_INPUT_CATEGORIES \<and> sc_browser_origin s = None
      else if sc_input_kind s = ''semantic'' then
        sc_action s \<in> set NATIVE_ACTIONS
        \<and> sc_authorization_category s \<in> set SEMANTIC_CATEGORIES
        \<and> (sc_authorization_category s \<noteq> ''task_grant'' \<or> \<not> sc_secret_input s)
        \<and> sc_browser_origin s = None
      else False)"

section \<open>Host methods\<close>

definition task_authorizable_host_methods :: "string list" where
  "task_authorizable_host_methods =
     [''browser_extension_status'', ''browser_extension_call'', ''terminate_app'',
      ''clipboard_read'', ''clipboard_capture_secret'', ''clipboard_write'', ''recording_start'',
      ''recording_stop'', ''recording_state'', ''capture_preparation_begin'',
      ''capture_preparation_state'', ''capture_preparation_stop'', ''capture_preparation_snapshot'',
      ''live_observation_start'', ''live_observation_state'', ''live_observation_stop'',
      ''get_window_state'', ''change_window_state'', ''minimize_window'', ''set_window_frame'',
      ''invoke_menu'', ''snapshot'', ''zoom'', ''accessibility_snapshot'', ''verify_state'',
      ''call_tool'', ''browser_snapshot'', ''browser_prepare'', ''browser_navigate'',
      ''browser_click'', ''browser_type'', ''browser_pointer'', ''browser_set_input_files'',
      ''browser_download'', ''browser_dialog'', ''find'', ''wait_for'', ''execute_action'',
      ''resume_session'', ''get_session_state'', ''get_input_state'', ''session_health'',
      ''poll_session_events'', ''cursor_tool'', ''escalate_session'']"

definition is_task_authorizable_host_method :: "string \<Rightarrow> bool" where
  "is_task_authorizable_host_method m \<longleftrightarrow> m \<in> set task_authorizable_host_methods"

lemmas closed_scopes [scope_simps] =
  is_native_capture_popup_keyboard_def is_pixels_input_def is_window_minimize_def
  is_window_frame_def is_native_menu_dismiss_def is_capture_preparation_def

lemmas closed_lists [scope_simps] =
  PIXELS_INPUT_ACTIONS_def NATIVE_ACTIONS_def RAW_INPUT_CATEGORIES_def SEMANTIC_CATEGORIES_def

lemma card_set_eq_length: "card (set xs) = length xs \<longleftrightarrow> distinct xs"
  by (metis card_distinct distinct_card)

section \<open>What a valid scope can authorize\<close>

lemma pixels_actions_native: "set PIXELS_INPUT_ACTIONS \<subseteq> set NATIVE_ACTIONS"
  by (simp add: closed_lists)

lemma pixels_input_valid: "is_pixels_input s \<Longrightarrow> action_scope_validate x s"
  using pixels_actions_native by (auto simp: is_pixels_input_def action_scope_validate_def
    RAW_INPUT_CATEGORIES_def)

lemma valid_scope_kind:
  "action_scope_validate x s \<Longrightarrow>
     sc_input_kind s \<in> {''window_state'', ''browser'', ''clipboard'', ''raw_input'', ''semantic''}"
  by (simp add: action_scope_validate_def split: if_splits)

lemma valid_scope_window_state:
  "action_scope_validate x s \<Longrightarrow> sc_input_kind s = ''window_state'' \<Longrightarrow>
     \<not> sc_secret_input s \<and> sc_browser_origin s = None \<and> sc_action s \<notin> set NATIVE_ACTIONS"
  by (auto simp: action_scope_validate_def closed_scopes NATIVE_ACTIONS_def)

lemma valid_scope_browser:
  "action_scope_validate x s \<Longrightarrow> sc_input_kind s = ''browser'' \<Longrightarrow>
     (\<exists>b. sc_browser_origin s = Some b \<and> valid_browser_origin x b)
     \<and> (sc_secret_input s \<longleftrightarrow> sc_authorization_category s = ''credential'')"
  by (auto simp: action_scope_validate_def split: option.splits)

lemma valid_scope_native_origin:
  "action_scope_validate x s \<Longrightarrow> sc_input_kind s \<noteq> ''browser'' \<Longrightarrow> sc_browser_origin s = None"
  by (auto simp: action_scope_validate_def closed_scopes split: if_splits)

lemma valid_scope_secret:
  "action_scope_validate x s \<Longrightarrow> sc_secret_input s \<Longrightarrow>
     sc_authorization_category s \<noteq> ''task_grant'' \<and> sc_input_kind s \<noteq> ''window_state''"
  by (auto simp: action_scope_validate_def closed_scopes RAW_INPUT_CATEGORIES_def split: if_splits)

section \<open>Properties\<close>

text \<open>
  A valid action scope is closed. A browser origin is present exactly for the browser
  kind and is then an exact HTTP(S) origin; a scope with secret input is never authorized by
  the plain task-grant category and never a window-state scope; a window-state scope
  authorizes no native input action; a pixel-input scope is always valid.
\<close>

theorem action_scope_closed:
  "(action_scope_validate x s \<longrightarrow>
      ((sc_browser_origin s \<noteq> None) = (sc_input_kind s = ''browser''))
      \<and> (\<forall>b. sc_browser_origin s = Some b \<longrightarrow> valid_browser_origin x b)
      \<and> (sc_secret_input s \<longrightarrow>
           sc_authorization_category s \<noteq> ''task_grant'' \<and> sc_input_kind s \<noteq> ''window_state'')
      \<and> (sc_input_kind s = ''window_state'' \<longrightarrow> sc_action s \<notin> set NATIVE_ACTIONS))
   \<and> (is_pixels_input s \<longrightarrow> action_scope_validate x s)"
proof (intro conjI impI)
  assume v: "action_scope_validate x s"
  show "(sc_browser_origin s \<noteq> None) = (sc_input_kind s = ''browser'')"
    using valid_scope_browser [OF v] valid_scope_native_origin [OF v]
    by (cases "sc_input_kind s = ''browser''") auto
  show "\<forall>b. sc_browser_origin s = Some b \<longrightarrow> valid_browser_origin x b"
    using valid_scope_browser [OF v] valid_scope_native_origin [OF v]
    by (cases "sc_input_kind s = ''browser''") auto
  show "sc_secret_input s \<Longrightarrow> sc_authorization_category s \<noteq> ''task_grant''"
    and "sc_secret_input s \<Longrightarrow> sc_input_kind s \<noteq> ''window_state''"
    using valid_scope_secret [OF v] by auto
  show "sc_input_kind s = ''window_state'' \<Longrightarrow> sc_action s \<notin> set NATIVE_ACTIONS"
    using valid_scope_window_state [OF v] by auto
next
  show "is_pixels_input s \<Longrightarrow> action_scope_validate x s" by (rule pixels_input_valid)
qed

definition example_url :: url where
  "example_url = \<lparr>scheme = ''https'', has_host = True, username = [], password = None,
     url_path = ''/'', query = None, fragment = None, ascii_origin = ''https://a.example''\<rparr>"

definition example_externs :: externs where
  "example_externs = \<lparr>url_parse = (\<lambda>s. if s = ''https://a.example'' then Some example_url else None),
     to_vec = (\<lambda>_. Inr ''json''), sha256_hex = (\<lambda>_. ''00'')\<rparr>"

definition example_browser_scope :: TrustedTaskActionScope where
  "example_browser_scope = \<lparr>sc_action = ''browser_type'', sc_input_kind = ''browser'',
     sc_secret_input = True, sc_authorization_category = ''credential'',
     sc_browser_origin = Some ''https://a.example''\<rparr>"

theorem action_scope_closed_witness:
  "action_scope_validate example_externs example_browser_scope
   \<and> valid_browser_origin example_externs ''https://a.example''
   \<and> sc_authorization_category example_browser_scope \<noteq> ''task_grant''"
proof -
  have v: "action_scope_validate example_externs example_browser_scope"
    by (simp add: action_scope_validate_def example_browser_scope_def valid_browser_origin_def
        example_externs_def example_url_def)
  show ?thesis
    using v action_scope_closed [of example_externs example_browser_scope]
    by (simp add: example_browser_scope_def)
qed

end
