(* ===== verification/Task_Grant.thy ===== *)
theory Task_Grant
  imports Action_Scope
begin

text \<open>
  The task grant a client presents when it opens a session and its validation
  (\<open>crates/dcc-cua-host/src/task_grant.rs\<close>), for the Unix configuration: every root is an
  ordinary one and a link is a symbolic link. Paths are \<open>path_components\<close> and
  \<open>path_ancestors\<close>; file metadata comes from the \<open>world\<close> sample.
\<close>

definition MAX_APPLICATION_LABEL_CHARS :: nat where
  "MAX_APPLICATION_LABEL_CHARS = 80"

definition MAX_TASK_GRANT_ID_CHARS :: nat where
  "MAX_TASK_GRANT_ID_CHARS = 128"

section \<open>Observation mode\<close>

datatype TaskObservationMode = Semantic | PixelsOnly

definition pixels_only_methods :: "string list" where
  "pixels_only_methods =
     [''get_window_state'', ''change_window_state'', ''minimize_window'', ''set_window_frame'',
      ''snapshot'', ''execute_action'', ''get_session_state'', ''get_input_state'',
      ''session_health'', ''poll_session_events'', ''live_observation_start'',
      ''live_observation_state'', ''live_observation_stop'', ''recording_start'',
      ''recording_state'', ''recording_stop'', ''capture_preparation_begin'',
      ''capture_preparation_state'', ''capture_preparation_stop'', ''capture_preparation_snapshot'']"

definition permits_method :: "TaskObservationMode \<Rightarrow> string \<Rightarrow> bool" where
  "permits_method mode method \<longleftrightarrow> mode = Semantic \<or> method \<in> set pixels_only_methods"

section \<open>The grant\<close>

datatype ComputerUseOwnedBrowserFamily = Chromium
datatype ComputerUseOwnedBrowserProfile = IsolatedNew

record ComputerUseOwnedBrowserLaunchSpec =
  ob_browser :: ComputerUseOwnedBrowserFamily
  ob_profile :: ComputerUseOwnedBrowserProfile

record ConfirmationWindowIdentity =
  cw_process_id :: u32
  cw_window_handle :: u64

record TaskGrant =
  tg_task_grant_id :: string
  tg_application_label :: string
  tg_observation_mode :: TaskObservationMode
  tg_process_id :: "u32 option"
  tg_window_handle :: "u64 option"
  tg_window_title :: "string option"
  tg_owned_browser_launch :: "ComputerUseOwnedBrowserLaunchSpec option"
  tg_allowed_browser_origins :: "string list"
  tg_allow_raw_input :: bool
  tg_allow_app_launch :: bool
  tg_allow_app_terminate :: bool
  tg_allow_clipboard_read :: bool
  tg_allow_clipboard_write :: bool
  tg_allow_recording :: bool
  tg_allow_capture_preparation :: bool
  tg_showcase_output_dir :: "string option"
  tg_recording_output_dir :: "string option"
  tg_allow_live_observation :: bool
  tg_allow_browser_input :: bool
  tg_allow_browser_prepare :: bool
  tg_allow_browser_download :: bool
  tg_allow_native_tool :: bool
  tg_allow_menu_invoke :: bool
  tg_allow_session_escalation :: bool
  tg_allow_trusted_confirmation :: bool
  tg_task_authorization_id :: "string option"
  tg_task_authorization_window_capability :: "string option"

section \<open>Recording directories\<close>

definition recording_component_bad :: "component \<Rightarrow> bool" where
  "recording_component_bad c =
     (case c of CurDir \<Rightarrow> True | ParentDir \<Rightarrow> True
      | Normal name \<Rightarrow> CHR '':'' \<in> set name \<or> ends_with ''.'' name \<or> ends_with '' '' name
      | RootDir \<Rightarrow> False)"

definition validate_recording_output_dir :: "string \<Rightarrow> HostError + unit" where
  "validate_recording_output_dir value =
     (if value = [] \<or> value \<noteq> str_trim value \<or> length value > 4096 \<or> has_control value
         \<or> list_ex (\<lambda>part. part = ''.'' \<or> part = ''..'')
             (split_on (\<lambda>c. c = CHR ''/'' \<or> c = CHR 0x5C) value)
         \<or> \<not> path_is_absolute value
         \<or> list_ex recording_component_bad (path_components value)
      then Inl (Protocol ''recording_output_dir must be an exact absolute directory without traversal or alternate streams'')
      else Inr ())"

definition ordinary_directory :: "world \<Rightarrow> string \<Rightarrow> HostError + unit" where
  "ordinary_directory w path =
     (case symlink_metadata w path of
        None \<Rightarrow> Inl (Protocol ''recording output must be a pre-created directory with ordinary ancestors'')
      | Some m \<Rightarrow>
          if \<not> is_dir m \<or> is_symlink m
          then Inl (Protocol ''recording output cannot traverse a file, symlink or reparse directory'')
          else Inr ())"

definition validate_recording_output_location :: "world \<Rightarrow> string \<Rightarrow> HostError + unit" where
  "validate_recording_output_location w value =
     and_then (validate_recording_output_dir value)
       (\<lambda>_. all_ok (ordinary_directory w) (path_ancestors value))"

section \<open>Grant validation\<close>

definition validate_identity_field :: "nat \<Rightarrow> string \<Rightarrow> string \<Rightarrow> HostError + unit" where
  "validate_identity_field max_chars field value =
     (if value = [] \<or> value \<noteq> str_trim value \<or> char_count value > max_chars \<or> has_control value
      then Inl (Protocol (field @ '' must contain 1..'' @ show_nat max_chars
        @ '' printable characters without surrounding whitespace''))
      else Inr ())"

interpretation grant_identity: identity_validator "\<lambda>n s. validate_identity_field n field s"
  by unfold_locales (auto simp: validate_identity_field_def identity_ok_def)

definition grant_target_exact :: "TaskGrant \<Rightarrow> bool" where
  "grant_target_exact g \<longleftrightarrow>
     (case tg_process_id g of Some pid \<Rightarrow> pid \<noteq> 0 | None \<Rightarrow> False)
     \<and> (case tg_window_handle g of Some hwnd \<Rightarrow> hwnd \<noteq> 0 | None \<Rightarrow> False)"

text \<open>
  \<open>TaskGrant::validate_identity\<close>, one stage per group of checks in the order of the code:
  identity fields and pixel target, authorization identity, owned browser launch, recording
  and preparation, browser origins.
\<close>

definition validate_grant_fields :: "TaskGrant \<Rightarrow> HostError + unit" where
  "validate_grant_fields g =
     and_then (validate_identity_field MAX_TASK_GRANT_ID_CHARS ''task_grant_id'' (tg_task_grant_id g)) (\<lambda>_.
     and_then (validate_identity_field MAX_APPLICATION_LABEL_CHARS ''application_label''
                 (tg_application_label g)) (\<lambda>_.
     guard (tg_observation_mode g = PixelsOnly
            \<and> (\<not> grant_target_exact g \<or> tg_window_title g \<noteq> None
               \<or> tg_owned_browser_launch g \<noteq> None))
       (Protocol ''pixels_only requires an exact nonzero process_id/window_handle without a title or owned browser launch'')))"

definition validate_grant_authorization :: "TaskGrant \<Rightarrow> HostError + unit" where
  "validate_grant_authorization g =
     and_then (case tg_task_authorization_id g of
                 Some i \<Rightarrow> validate_authorization_id i | None \<Rightarrow> Inr ()) (\<lambda>_.
     case (tg_task_authorization_id g, tg_task_authorization_window_capability g) of
       (Some _, Some capability) \<Rightarrow>
         validate_identity_field 512 ''task_authorization_window_capability'' capability
     | (Some _, None) \<Rightarrow>
         Inl (Protocol ''task_authorization_id requires task_authorization_window_capability'')
     | (None, Some _) \<Rightarrow>
         Inl (Protocol ''task_authorization_window_capability requires task_authorization_id'')
     | (None, None) \<Rightarrow> Inr ())"

definition validate_grant_owned_browser :: "TaskGrant \<Rightarrow> HostError + unit" where
  "validate_grant_owned_browser g =
     (if tg_owned_browser_launch g \<noteq> None then
        and_then (guard (tg_process_id g \<noteq> None \<or> tg_window_handle g \<noteq> None
                         \<or> tg_window_title g \<noteq> None \<or> tg_allow_app_launch g
                         \<or> tg_allow_browser_prepare g)
                    (Protocol ''owned_browser_launch cannot nominate a target, launch an app, or grant browser_prepare''))
          (\<lambda>_. guard (tg_task_authorization_id g = None)
                 (Protocol ''owned_browser_launch requires trusted task authorization''))
      else Inr ())"

definition validate_grant_recording :: "TaskGrant \<Rightarrow> HostError + unit" where
  "validate_grant_recording g =
     and_then (guard (tg_allow_capture_preparation g
                      \<and> (tg_observation_mode g \<noteq> PixelsOnly \<or> tg_task_authorization_id g = None))
                 (Protocol ''capture preparation requires a trusted pixels_only exact-window task'')) (\<lambda>_.
     and_then (guard (tg_showcase_output_dir g \<noteq> None \<and> \<not> tg_allow_recording g)
                 (Protocol ''showcase_output_dir requires allow_recording'')) (\<lambda>_.
     and_then (guard (tg_recording_output_dir g \<noteq> None \<and> \<not> tg_allow_recording g)
                 (Protocol ''recording_output_dir requires allow_recording'')) (\<lambda>_.
     and_then (case tg_recording_output_dir g of
                 Some d \<Rightarrow> validate_recording_output_dir d | None \<Rightarrow> Inr ()) (\<lambda>_.
     guard (tg_observation_mode g = PixelsOnly \<and> tg_allow_recording g
            \<and> (tg_recording_output_dir g = None \<or> tg_task_authorization_id g = None
               \<or> tg_showcase_output_dir g \<noteq> None \<or> \<not> tg_allow_live_observation g))
       (Protocol ''pixels_only recording requires trusted manual output authorization and live observation; automatic showcase attach is unavailable'')))))"

definition validate_grant_origins :: "externs \<Rightarrow> TaskGrant \<Rightarrow> HostError + unit" where
  "validate_grant_origins x g =
     guard (length (tg_allowed_browser_origins g) > 32
            \<or> list_ex (\<lambda>origin. \<not> valid_browser_origin x origin) (tg_allowed_browser_origins g)
            \<or> card (set (tg_allowed_browser_origins g)) \<noteq> length (tg_allowed_browser_origins g))
       (Protocol ''allowed_browser_origins must contain at most 32 unique exact HTTP(S) origins'')"

definition validate_identity :: "externs \<Rightarrow> TaskGrant \<Rightarrow> HostError + unit" where
  "validate_identity x g =
     and_then (validate_grant_fields g) (\<lambda>_.
     and_then (validate_grant_authorization g) (\<lambda>_.
     and_then (validate_grant_owned_browser g) (\<lambda>_.
     and_then (validate_grant_recording g) (\<lambda>_.
     validate_grant_origins x g))))"

definition reject_task_authorization :: "TaskGrant \<Rightarrow> string \<Rightarrow> HostError + unit" where
  "reject_task_authorization g route =
     (if tg_observation_mode g = PixelsOnly
      then Inl (Protocol (''pixels_only cannot authorize the global '' @ route @ '' route''))
      else if tg_task_authorization_id g \<noteq> None
      then Inl (CodedProtocol TaskAuthorizationDenied
             (''task authorization cannot authorize the global '' @ route @ '' route''))
      else Inr ())"

definition reject_task_authorization_activation :: "TaskGrant \<Rightarrow> bool \<Rightarrow> HostError + unit" where
  "reject_task_authorization_activation g activate_before =
     guard (tg_task_authorization_id g \<noteq> None \<and> activate_before)
       (CodedProtocol TaskAuthorizationDenied
          ''task-authorized sessions cannot activate a window during open_session'')"

definition task_authorization_preflight_target ::
  "TaskGrant \<Rightarrow> HostError + ConfirmationWindowIdentity option" where
  "task_authorization_preflight_target g =
     (if tg_task_authorization_id g = None \<or> tg_owned_browser_launch g \<noteq> None then Inr None
      else case (tg_process_id g, tg_window_handle g) of
          (Some pid, Some hwnd) \<Rightarrow>
            if pid \<noteq> 0 \<and> hwnd \<noteq> 0
            then Inr (Some \<lparr>cw_process_id = pid, cw_window_handle = hwnd\<rparr>)
            else Inl (task_authorization_required ''task authorization requires an exact nonzero process_id and window_handle before opening the session'')
        | _ \<Rightarrow> Inl (task_authorization_required ''task authorization requires an exact nonzero process_id and window_handle before opening the session''))"

section \<open>Ancestors of a path\<close>

inductive is_ancestor :: "string \<Rightarrow> string \<Rightarrow> bool" where
  self: "is_ancestor p p"
| up: "is_ancestor q p \<Longrightarrow> path_parent q = Some r \<Longrightarrow> is_ancestor r p"

inductive_cases is_ancestorE: "is_ancestor q p"

lemma is_ancestor_below: "is_ancestor q p \<Longrightarrow> path_parent p' = Some p \<Longrightarrow> is_ancestor q p'"
  by (induction rule: is_ancestor.induct) (auto intro: is_ancestor.intros)

lemma is_ancestor_parent:
  "is_ancestor q p \<Longrightarrow> q = p \<or> (\<exists>p'. path_parent p = Some p' \<and> is_ancestor q p')"
  by (induction rule: is_ancestor.induct) (auto intro: is_ancestor.intros)

lemma set_path_ancestors: "set (path_ancestors p) = {q. is_ancestor q p}"
proof (induction p rule: path_ancestors.induct)
  case (1 p)
  show ?case
  proof (cases "path_parent p")
    case None
    then have "q = p" if "is_ancestor q p" for q using is_ancestor_parent [OF that] by simp
    with None show ?thesis by (subst path_ancestors.simps) (auto intro: is_ancestor.self)
  next
    case (Some p')
    then have "set (path_ancestors p) = insert p {q. is_ancestor q p'}"
      using 1 by (subst path_ancestors.simps) simp
    also have "\<dots> = {q. is_ancestor q p}"
      using Some is_ancestor_below [OF _ Some]
      by (auto intro: is_ancestor.self dest: is_ancestor_parent)
    finally show ?thesis .
  qed
qed

lemma validate_recording_output_location_iff:
  "validate_recording_output_location w v = Inr () \<longleftrightarrow>
     validate_recording_output_dir v = Inr ()
     \<and> (\<forall>q. is_ancestor q v \<longrightarrow>
          (\<exists>m. symlink_metadata w q = Some m \<and> is_dir m \<and> \<not> is_symlink m))"
  by (auto simp: validate_recording_output_location_def and_then_Inr_iff all_ok_Inr_iff
      set_path_ancestors ordinary_directory_def split: option.splits if_splits)

lemma recording_dir_absolute:
  "validate_recording_output_dir v = Inr () \<Longrightarrow>
     path_is_absolute v \<and> ParentDir \<notin> set (path_components v) \<and> CurDir \<notin> set (path_components v)
     \<and> length v \<le> 4096"
  by (auto simp: validate_recording_output_dir_def list_ex_iff recording_component_bad_def
      split: if_splits)

section \<open>Grants that pass validation\<close>

lemmas grant_stages =
  validate_identity_def validate_grant_fields_def validate_grant_authorization_def
  validate_grant_owned_browser_def validate_grant_recording_def validate_grant_origins_def

lemma validated_grant_stages:
  "validate_identity x g = Inr () \<longleftrightarrow>
     validate_grant_fields g = Inr () \<and> validate_grant_authorization g = Inr ()
     \<and> validate_grant_owned_browser g = Inr () \<and> validate_grant_recording g = Inr ()
     \<and> validate_grant_origins x g = Inr ()"
  by (simp add: validate_identity_def and_then_Inr_iff)

lemma validated_grant_identity:
  "validate_grant_fields g = Inr () \<Longrightarrow>
     identity_ok MAX_TASK_GRANT_ID_CHARS (tg_task_grant_id g)
     \<and> identity_ok MAX_APPLICATION_LABEL_CHARS (tg_application_label g)"
  by (simp add: validate_grant_fields_def and_then_Inr_iff grant_identity.accepts_iff)

lemma validated_pixels_target:
  assumes "validate_grant_fields g = Inr ()" and "tg_observation_mode g = PixelsOnly"
  obtains pid hwnd where "tg_process_id g = Some pid" "pid \<noteq> 0"
    "tg_window_handle g = Some hwnd" "hwnd \<noteq> 0"
    "tg_window_title g = None" "tg_owned_browser_launch g = None"
  using assms
  by (auto simp: validate_grant_fields_def and_then_Inr_iff grant_target_exact_def
      split: option.splits)

lemma validated_authorization_pair:
  "validate_grant_authorization g = Inr () \<Longrightarrow>
     (tg_task_authorization_id g = None \<longleftrightarrow> tg_task_authorization_window_capability g = None)"
  by (auto simp: validate_grant_authorization_def and_then_Inr_iff split: option.splits)

section \<open>Properties\<close>

text \<open>
  A \<open>pixels_only\<close> grant that passes validation names one exact nonzero window and no
  title or owned browser, so it can never authorize a global route; if it carries a task
  authorization, the preflight target is exactly that window; it records only to a trusted
  directory under an authorization and with live observation.
\<close>

theorem pixels_grant_is_exact:
  assumes "validate_identity x g = Inr ()" and "tg_observation_mode g = PixelsOnly"
  shows "\<exists>pid hwnd. tg_process_id g = Some pid \<and> pid \<noteq> 0 \<and> tg_window_handle g = Some hwnd
      \<and> hwnd \<noteq> 0 \<and> tg_window_title g = None
      \<and> task_authorization_preflight_target g =
          (if tg_task_authorization_id g = None then Inr None
           else Inr (Some \<lparr>cw_process_id = pid, cw_window_handle = hwnd\<rparr>))
      \<and> \<not> is_ok (reject_task_authorization g route)
      \<and> (tg_allow_recording g \<longrightarrow>
           tg_task_authorization_id g \<noteq> None \<and> tg_showcase_output_dir g = None
           \<and> tg_allow_live_observation g
           \<and> (\<exists>d. tg_recording_output_dir g = Some d \<and> validate_recording_output_dir d = Inr ()))"
proof -
  have fields: "validate_grant_fields g = Inr ()" and recording: "validate_grant_recording g = Inr ()"
    using assms(1) by (simp_all add: validated_grant_stages)
  obtain pid hwnd where t: "tg_process_id g = Some pid" "pid \<noteq> 0" "tg_window_handle g = Some hwnd"
    "hwnd \<noteq> 0" "tg_window_title g = None" "tg_owned_browser_launch g = None"
    by (rule validated_pixels_target [OF fields assms(2)])
  have rec: "tg_allow_recording g \<Longrightarrow>
      tg_task_authorization_id g \<noteq> None \<and> tg_showcase_output_dir g = None
      \<and> tg_allow_live_observation g
      \<and> (\<exists>d. tg_recording_output_dir g = Some d \<and> validate_recording_output_dir d = Inr ())"
    using recording assms(2)
    by (auto simp: validate_grant_recording_def and_then_Inr_iff split: option.splits)
  show ?thesis
    using t rec assms(2)
    by (intro exI [of _ pid] exI [of _ hwnd])
       (simp add: task_authorization_preflight_target_def reject_task_authorization_def)
qed

definition example_grant :: TaskGrant where
  "example_grant = \<lparr>tg_task_grant_id = ''g'', tg_application_label = ''app'',
     tg_observation_mode = PixelsOnly, tg_process_id = Some 7, tg_window_handle = Some 9,
     tg_window_title = None, tg_owned_browser_launch = None, tg_allowed_browser_origins = [],
     tg_allow_raw_input = True, tg_allow_app_launch = False, tg_allow_app_terminate = False,
     tg_allow_clipboard_read = False, tg_allow_clipboard_write = False,
     tg_allow_recording = False, tg_allow_capture_preparation = False,
     tg_showcase_output_dir = None, tg_recording_output_dir = None,
     tg_allow_live_observation = False, tg_allow_browser_input = False,
     tg_allow_browser_prepare = False, tg_allow_browser_download = False,
     tg_allow_native_tool = False, tg_allow_menu_invoke = False,
     tg_allow_session_escalation = False, tg_allow_trusted_confirmation = False,
     tg_task_authorization_id = Some ''a'', tg_task_authorization_window_capability = Some ''c''\<rparr>"

lemma ascii_identity_examples:
  "identity_ok 128 ''g'' \<and> identity_ok 80 ''app'' \<and> identity_ok 128 ''a'' \<and> identity_ok 512 ''c''"
  by (simp add: identity_ok_graphic graphic_def)

theorem pixels_grant_is_exact_witness:
  "task_authorization_preflight_target example_grant =
     Inr (Some \<lparr>cw_process_id = 7, cw_window_handle = 9\<rparr>)"
proof -
  have ok: "validate_identity example_externs example_grant = Inr ()"
    using ascii_identity_examples
    by (simp add: grant_stages and_then_Inr_iff grant_identity.accepts_iff
        validate_authorization_id_iff grant_target_exact_def example_grant_def
        MAX_TASK_GRANT_ID_CHARS_def MAX_APPLICATION_LABEL_CHARS_def
        MAX_TASK_AUTHORIZATION_ID_CHARS_def)
  have "tg_observation_mode example_grant = PixelsOnly" by (simp add: example_grant_def)
  from pixels_grant_is_exact [OF ok this, of "[]"] show ?thesis
    by (auto simp: example_grant_def)
qed

text \<open>
  A recording location passes exactly when its path is an accepted directory string and
  every ancestor the path has, itself and the root included, is a directory and not a
  symbolic link according to \<open>lstat\<close>.
\<close>

theorem recording_location_ordinary:
  "validate_recording_output_location w v = Inr () \<longleftrightarrow>
     validate_recording_output_dir v = Inr ()
     \<and> {q. is_ancestor q v} \<subseteq>
         {q. \<exists>m. symlink_metadata w q = Some m \<and> is_dir m \<and> \<not> is_symlink m}"
  by (auto simp: validate_recording_output_location_iff)

lemma path_parent_trailing: "p \<noteq> [] \<Longrightarrow> \<not> slash (last p) \<Longrightarrow> path_parent (p @ ''/'') = path_parent p"
  by (simp add: path_parent_def rstrip_def)

lemma is_ancestor_trailing:
  assumes "p \<noteq> []" "\<not> slash (last p)"
  shows "is_ancestor q (p @ ''/'') \<longleftrightarrow> q = p @ ''/'' \<or> is_ancestor q p \<and> q \<noteq> p"
proof -
  have "is_ancestor q r \<longleftrightarrow> q = r \<or> (\<exists>r'. path_parent r = Some r' \<and> is_ancestor q r')" for r
    using is_ancestor_parent is_ancestor_below is_ancestor.self by metis
  moreover have "q \<noteq> p" if "path_parent p = Some r'" "is_ancestor q r'" for r'
  proof -
    from that(2) have "length q \<le> length r'"
      by (induction rule: is_ancestor.induct) (auto dest: path_parent_shorter)
    with path_parent_shorter [OF that(1)] show ?thesis by auto
  qed
  ultimately show ?thesis using path_parent_trailing [OF assms] by metis
qed

text \<open>
  C27. The location check does not normalise a trailing separator. A symbolic link is refused under
  its name, but written with a trailing separator it is accepted exactly when \<open>lstat\<close> of that
  spelling, which resolves the link, reports a directory, and the directories above are ordinary.
\<close>

theorem recording_location_trailing_separator:
  assumes "validate_recording_output_dir (p @ ''/'') = Inr ()" and "p \<noteq> []" "\<not> slash (last p)"
    and "symlink_metadata w p = Some m" "is_symlink m"
  shows "\<not> is_ok (validate_recording_output_location w p)
    \<and> (is_ok (validate_recording_output_location w (p @ ''/'')) \<longleftrightarrow>
       is_ok (ordinary_directory w (p @ ''/'')) \<and> (\<forall>q. is_ancestor q p \<and> q \<noteq> p \<longrightarrow> is_ok (ordinary_directory w q)))"
proof -
  have "\<not> is_ok (ordinary_directory w p)" using assms(4,5) by (simp add: ordinary_directory_def)
  then have "\<not> is_ok (validate_recording_output_location w p)"
    using is_ancestor.self [of p]
    by (auto simp: validate_recording_output_location_def is_ok_unit and_then_Inr_iff all_ok_Inr_iff set_path_ancestors)
  moreover have "is_ok (validate_recording_output_location w (p @ ''/'')) \<longleftrightarrow>
      (\<forall>q. is_ancestor q (p @ ''/'') \<longrightarrow> is_ok (ordinary_directory w q))"
    using assms(1)
    by (auto simp: validate_recording_output_location_def is_ok_unit and_then_Inr_iff all_ok_Inr_iff set_path_ancestors)
  ultimately show ?thesis using is_ancestor_trailing [OF assms(2,3)] by auto
qed

definition linked_world :: world where
  "linked_world = \<lparr>system_ns = 0, mono_ns = 0,
     symlink_metadata = (\<lambda>p.
       if p = ''/r/link'' then Some \<lparr>is_dir = False, is_symlink = True\<rparr>
       else if p \<in> {''/r/link/'', ''/r'', ''/''} then Some \<lparr>is_dir = True, is_symlink = False\<rparr>
       else None), process_identity = (\<lambda>_ _. None)\<rparr>"

theorem recording_location_trailing_separator_witness:
  "\<not> is_ok (validate_recording_output_location linked_world ''/r/link'')
   \<and> is_ok (validate_recording_output_location linked_world ''/r/link/'')"
proof -
  have dir: "validate_recording_output_dir (''/r/link'' @ ''/'') = Inr ()"
    by (simp add: validate_recording_output_dir_def graphic_simps graphic_def
        path_is_absolute_def path_components_def path_part_def starts_with_def ends_with_def
        recording_component_bad_def)
  have link: "symlink_metadata linked_world ''/r/link'' = Some \<lparr>is_dir = False, is_symlink = True\<rparr>"
    by (simp add: linked_world_def)
  have "path_ancestors ''/r/link'' = [''/r/link'', ''/r'', ''/'']"
    by (simp add: path_ancestors.simps path_parent_def rstrip_def)
  then have "is_ancestor q ''/r/link'' \<longleftrightarrow> q \<in> {''/r/link'', ''/r'', ''/''}" for q
    using set_path_ancestors [of "''/r/link''"] by auto
  moreover have "is_ok (ordinary_directory linked_world q)" if "q \<in> {''/r/link/'', ''/r'', ''/''}" for q
    using that by (auto simp: ordinary_directory_def linked_world_def)
  ultimately show ?thesis
    using recording_location_trailing_separator [OF dir _ _ link] by auto
qed

end
