(* ===== verification/Action_Confirmation.thy ===== *)
theory Action_Confirmation
  imports Task_Grant
begin

text \<open>
  The action-time confirmation boundary
  (\<open>crates/dcc-cua-host/src/action_confirmation.rs\<close>): the request built for one action, its
  digest, and the decision taken from the embedding's confirmation host. The confirmation
  host is a parameter, a function on its own state. UUIDs are arguments.
\<close>

definition TRUSTED_ACTION_CONFIRMATION_SCHEMA :: string where
  "TRUSTED_ACTION_CONFIRMATION_SCHEMA = ''dcc-cua-trusted-action-confirmation-request-v2''"

record TrustedActionConfirmationRequest =
  cr_schema :: string
  cr_request_id :: string
  cr_session_id :: string
  cr_task_grant_id :: string
  cr_window_capability :: string
  cr_target_process_id :: "u32 option"
  cr_target_window_handle :: "u64 option"
  cr_observation_id :: string
  cr_accessibility_state_id :: "string option"
  cr_intent :: string
  cr_action :: json
  cr_request_digest :: string

record ConfirmationBinding =
  cb_session_id :: string
  cb_task_grant_id :: string
  cb_window_capability :: string
  cb_target :: "ConfirmationWindowIdentity option"
  cb_observation_id :: string
  cb_accessibility_state_id :: "string option"

definition confirmation_binding_window ::
  "string \<Rightarrow> string \<Rightarrow> string \<Rightarrow> ConfirmationWindowIdentity \<Rightarrow> string \<Rightarrow> string option
   \<Rightarrow> ConfirmationBinding" where
  "confirmation_binding_window session_id task_grant_id window_capability target
     observation_id accessibility_state_id =
     \<lparr>cb_session_id = session_id, cb_task_grant_id = task_grant_id,
      cb_window_capability = window_capability, cb_target = Some target,
      cb_observation_id = observation_id, cb_accessibility_state_id = accessibility_state_id\<rparr>"

definition confirmation_binding_desktop ::
  "string \<Rightarrow> string \<Rightarrow> string \<Rightarrow> string \<Rightarrow> ConfirmationBinding" where
  "confirmation_binding_desktop session_id task_grant_id desktop_capability observation_id =
     \<lparr>cb_session_id = session_id, cb_task_grant_id = task_grant_id,
      cb_window_capability = desktop_capability, cb_target = None,
      cb_observation_id = observation_id, cb_accessibility_state_id = None\<rparr>"

definition unsigned_confirmation :: "string \<Rightarrow> ConfirmationBinding \<Rightarrow> string \<Rightarrow> json \<Rightarrow> json" where
  "unsigned_confirmation request_id b intent action = JObj
     [(''schema'', JStr TRUSTED_ACTION_CONFIRMATION_SCHEMA),
      (''request_id'', JStr request_id),
      (''session_id'', JStr (cb_session_id b)),
      (''task_grant_id'', JStr (cb_task_grant_id b)),
      (''window_capability'', JStr (cb_window_capability b)),
      (''target_process_id'', json_opt json_u32 (map_option cw_process_id (cb_target b))),
      (''target_window_handle'', json_opt json_u64 (map_option cw_window_handle (cb_target b))),
      (''observation_id'', JStr (cb_observation_id b)),
      (''accessibility_state_id'', json_opt JStr (cb_accessibility_state_id b)),
      (''intent'', JStr intent),
      (''action'', action)]"

text \<open>\<open>sha256:\<close> and the hexadecimal digest of an encoded value.\<close>

definition digest_with_context :: "externs \<Rightarrow> string \<Rightarrow> json \<Rightarrow> HostError + string" where
  "digest_with_context x failure v =
     (case to_vec x v of
        Inl error \<Rightarrow> Inl (Protocol (failure @ '': '' @ error))
      | Inr encoded \<Rightarrow> Inr (''sha256:'' @ sha256_hex x encoded))"

definition confirmation_new_value ::
  "externs \<Rightarrow> string \<Rightarrow> ConfirmationBinding \<Rightarrow> string \<Rightarrow> json
   \<Rightarrow> HostError + TrustedActionConfirmationRequest" where
  "confirmation_new_value x uuid b intent action =
     and_then (digest_with_context x ''could not digest action confirmation''
                 (unsigned_confirmation uuid b intent action))
       (\<lambda>request_digest. Inr
         \<lparr>cr_schema = TRUSTED_ACTION_CONFIRMATION_SCHEMA, cr_request_id = uuid,
          cr_session_id = cb_session_id b, cr_task_grant_id = cb_task_grant_id b,
          cr_window_capability = cb_window_capability b,
          cr_target_process_id = map_option cw_process_id (cb_target b),
          cr_target_window_handle = map_option cw_window_handle (cb_target b),
          cr_observation_id = cb_observation_id b,
          cr_accessibility_state_id = cb_accessibility_state_id b,
          cr_intent = intent, cr_action = action, cr_request_digest = request_digest\<rparr>)"

datatype TrustedActionConfirmationAction = Allow | Deny | Cancel

record TrustedActionConfirmationDecision =
  cd_action :: TrustedActionConfirmationAction
  cd_request_digest :: string

type_synonym 'c confirmation_host =
  "TrustedActionConfirmationRequest \<Rightarrow> 'c \<Rightarrow> (string + TrustedActionConfirmationDecision) \<times> 'c"

datatype ActionConfirmationOutcome =
    Allowed | Required | Denied | Cancelled | TaskAuthorizationRequired
  | TaskAuthorizationOutOfScope | TaskAuthorizationExpired | TaskAuthorizationRevoked

definition authorize_action_confirmation ::
  "'c confirmation_host option \<Rightarrow> bool \<Rightarrow> TrustedActionConfirmationRequest \<Rightarrow> 'c
   \<Rightarrow> ActionConfirmationOutcome \<times> 'c" where
  "authorize_action_confirmation host grant_allows_confirmation request c =
     (if \<not> grant_allows_confirmation then (Required, c)
      else case host of None \<Rightarrow> (Required, c)
        | Some confirm \<Rightarrow>
          (let (answer, c') = confirm request c in
           case answer of Inl _ \<Rightarrow> (Required, c')
           | Inr decision \<Rightarrow>
             if cd_request_digest decision \<noteq> cr_request_digest request then (Required, c')
             else ((case cd_action decision of Allow \<Rightarrow> Allowed | Deny \<Rightarrow> Denied
                    | Cancel \<Rightarrow> Cancelled), c')))"

section \<open>Lemmas\<close>

lemma confirmation_new_value_fields:
  assumes "confirmation_new_value x uuid b intent action = Inr r"
  shows "cr_session_id r = cb_session_id b" "cr_task_grant_id r = cb_task_grant_id b"
    "cr_window_capability r = cb_window_capability b" "cr_action r = action"
    "cr_target_process_id r = map_option cw_process_id (cb_target b)"
    "cr_target_window_handle r = map_option cw_window_handle (cb_target b)"
    "cr_observation_id r = cb_observation_id b" "cr_intent r = intent"
    "\<exists>e. to_vec x (unsigned_confirmation uuid b intent action) = Inr e
         \<and> cr_request_digest r = ''sha256:'' @ sha256_hex x e"
  using assms
  by (auto simp: confirmation_new_value_def and_then_Inr_iff digest_with_context_def
      split: sum.splits)

lemma json_opt_inj: "(\<And>a b. f a = f b \<longleftrightarrow> a = b) \<Longrightarrow> (\<And>a. f a \<noteq> JNull) \<Longrightarrow>
   json_opt f a = json_opt f b \<longleftrightarrow> a = b"
  by (auto simp: json_opt_def split: option.splits) metis

lemma unsigned_confirmation_inj:
  "unsigned_confirmation u b i a = unsigned_confirmation u' b' i' a' \<longleftrightarrow>
     u = u' \<and> b = b' \<and> i = i' \<and> a = a'"
proof
  assume eq: "unsigned_confirmation u b i a = unsigned_confirmation u' b' i' a'"
  have "json_u64 v \<noteq> JNull" "json_u32 q \<noteq> JNull" for v q
    by (simp_all add: json_u64_def json_u32_def)
  then have "map_option cw_process_id (cb_target b) = map_option cw_process_id (cb_target b')"
    and "map_option cw_window_handle (cb_target b) = map_option cw_window_handle (cb_target b')"
    using eq by (simp_all add: unsigned_confirmation_def json_opt_inj)
  then have "cb_target b = cb_target b'"
    by (cases "cb_target b"; cases "cb_target b'") simp_all
  with eq show "u = u' \<and> b = b' \<and> i = i' \<and> a = a'"
    by (simp add: unsigned_confirmation_def json_opt_inj)
qed simp

section \<open>Properties\<close>

text \<open>
  A confirmation decision allows an action only if the grant allows trusted
  confirmation, a constructor-owned host is installed, and that host answered \<open>Allow\<close> with
  the digest of this very request.
\<close>

theorem confirmation_allowed_iff:
  "fst (authorize_action_confirmation host allow request c) = Allowed \<longleftrightarrow>
     allow \<and> (\<exists>confirm d. host = Some confirm \<and> fst (confirm request c) = Inr d
        \<and> cd_action d = Allow \<and> cd_request_digest d = cr_request_digest request)"
  by (auto simp: authorize_action_confirmation_def case_prod_beta
      split: option.splits sum.splits TrustedActionConfirmationAction.splits)

text \<open>
  The digest binds a confirmation to its evidence: if two requests built by the code
  carry the same digest and the JSON encoder is injective, then they agree on the request
  id, session, grant, capability, target window, observation, intent and action, or the
  two encodings are a SHA-256 collision.
\<close>

theorem confirmation_digest_binds:
  assumes "confirmation_new_value x u b i a = Inr r" and "confirmation_new_value x u' b' i' a' = Inr r'"
    and "cr_request_digest r = cr_request_digest r'"
    and "\<And>v v' e. to_vec x v = Inr e \<Longrightarrow> to_vec x v' = Inr e \<Longrightarrow> v = v'"
  shows "r = r' \<or> (\<exists>e e'. e \<noteq> e' \<and> sha256_hex x e = sha256_hex x e')"
proof -
  obtain e where e: "to_vec x (unsigned_confirmation u b i a) = Inr e"
    "cr_request_digest r = ''sha256:'' @ sha256_hex x e"
    using confirmation_new_value_fields(9) [OF assms(1)] by blast
  obtain e' where e': "to_vec x (unsigned_confirmation u' b' i' a') = Inr e'"
    "cr_request_digest r' = ''sha256:'' @ sha256_hex x e'"
    using confirmation_new_value_fields(9) [OF assms(2)] by blast
  show ?thesis
  proof (cases "e = e'")
    case True
    then have "unsigned_confirmation u b i a = unsigned_confirmation u' b' i' a'"
      using e(1) e'(1) by (intro assms(4)) auto
    then have "u = u' \<and> b = b' \<and> i = i' \<and> a = a'"
      by (simp only: unsigned_confirmation_inj)
    then show ?thesis using assms(1,2) by simp
  next
    case False
    moreover have "sha256_hex x e = sha256_hex x e'" using e(2) e'(2) assms(3) by simp
    ultimately show ?thesis by blast
  qed
qed

definition example_binding :: ConfirmationBinding where
  "example_binding = confirmation_binding_window ''s'' ''g'' ''c''
     \<lparr>cw_process_id = 7, cw_window_handle = 9\<rparr> ''o'' None"

text \<open>The witness encodes two requests, for a click and for a drag, to different texts.\<close>

definition two_value_externs :: externs where
  "two_value_externs = \<lparr>url_parse = (\<lambda>_. None),
     to_vec = (\<lambda>v. if v = unsigned_confirmation ''u'' example_binding ''navigate'' (JStr ''click'')
                   then Inr ''1''
                   else if v = unsigned_confirmation ''u'' example_binding ''navigate'' (JStr ''drag'')
                   then Inr ''2'' else Inl ''unsupported''),
     sha256_hex = (\<lambda>e. e)\<rparr>"

theorem confirmation_digest_binds_witness:
  "\<exists>r. confirmation_new_value two_value_externs ''u'' example_binding ''navigate'' (JStr ''click'') = Inr r
     \<and> cr_action r = JStr ''click''"
proof -
  let ?x = two_value_externs
  obtain r where r: "confirmation_new_value ?x ''u'' example_binding ''navigate'' (JStr ''click'') = Inr r"
    by (simp add: confirmation_new_value_def digest_with_context_def two_value_externs_def)
  have inj: "\<And>v v' e. to_vec ?x v = Inr e \<Longrightarrow> to_vec ?x v' = Inr e \<Longrightarrow> v = v'"
    by (auto simp: two_value_externs_def split: if_splits)
  have "\<not> (\<exists>e e'. e \<noteq> e' \<and> sha256_hex ?x e = sha256_hex ?x e')"
    by (simp add: two_value_externs_def)
  then have "r = r" using confirmation_digest_binds [OF r r refl inj] by blast
  then show ?thesis using r confirmation_new_value_fields(4) [OF r] by blast
qed

end
