(* ===== verification/Task_Authorization.thy ===== *)
theory Task_Authorization
  imports Action_Confirmation
begin

text \<open>
  Trusted task authorization (\<open>crates/dcc-cua-host/src/task_authorization.rs\<close>): requests and
  leases, the lease check, the authorization of one action under a lease, and the
  revalidation of a lease. The trait \<open>TrustedTaskAuthorizationHost\<close> is the record
  \<open>task_authorization_host\<close> of functions on the state of an implementation; the broker and
  the cross-client verifier are its two implementations in the repository.
\<close>

section \<open>Requests, leases, decisions\<close>

definition TRUSTED_TASK_AUTHORIZATION_SCHEMA :: string where
  "TRUSTED_TASK_AUTHORIZATION_SCHEMA = ''dcc-cua-trusted-task-authorization-v1''"

definition TRUSTED_TASK_AUTHORIZATION_VALIDATION_SCHEMA :: string where
  "TRUSTED_TASK_AUTHORIZATION_VALIDATION_SCHEMA =
     ''dcc-cua-trusted-task-authorization-validation-v1''"

definition TRUSTED_TASK_AUTHORIZATION_LEASE_VALIDATION_SCHEMA :: string where
  "TRUSTED_TASK_AUTHORIZATION_LEASE_VALIDATION_SCHEMA =
     ''dcc-cua-trusted-task-authorization-lease-validation-v1''"

definition MAX_PREPARATION_LIFETIME_MS :: u64 where
  "MAX_PREPARATION_LIFETIME_MS = 30000"

record CapturePreparationAuthorization =
  cp_journal_directory :: string
  cp_max_lifetime_ms :: u64

record TrustedTaskAuthorizationRequest =
  rq_schema :: string
  rq_request_id :: string
  rq_connection_id :: string
  rq_authorization_id :: string
  rq_session_id :: string
  rq_task_grant_id :: string
  rq_application_label :: string
  rq_window_capability :: string
  rq_target_process_id :: u32
  rq_target_window_handle :: u64
  rq_request_digest :: string

record TrustedTaskAuthorizationLease =
  ls_connection_id :: string
  ls_authorization_id :: string
  ls_session_id :: string
  ls_task_grant_id :: string
  ls_application_label :: string
  ls_window_capability :: string
  ls_target_process_id :: u32
  ls_target_window_handle :: u64
  ls_allowed_host_methods :: "string list"
  ls_allowed_actions :: "TrustedTaskActionScope list"
  ls_allowed_browser_origins :: "string list"
  ls_browser_scope :: "TrustedTaskAuthorizationBrowserScope option"
  ls_recording_output_dir :: "string option"
  ls_capture_preparation :: "CapturePreparationAuthorization option"
  ls_issued_at_unix_ms :: u64
  ls_expires_at_unix_ms :: u64
  ls_request_digest :: string

record TrustedTaskAuthorizationLeaseValidationRequest =
  lv_schema :: string
  lv_request_id :: string
  lv_connection_id :: string
  lv_authorization_id :: string
  lv_session_id :: string
  lv_task_grant_id :: string
  lv_application_label :: string
  lv_window_capability :: string
  lv_target_process_id :: u32
  lv_target_window_handle :: u64
  lv_lease_request_digest :: string
  lv_request_digest :: string

record TrustedTaskAuthorizationValidationRequest =
  vr_schema :: string
  vr_request_id :: string
  vr_connection_id :: string
  vr_authorization_id :: string
  vr_session_id :: string
  vr_task_grant_id :: string
  vr_application_label :: string
  vr_window_capability :: string
  vr_target_process_id :: u32
  vr_target_window_handle :: u64
  vr_action_scope :: TrustedTaskActionScope
  vr_action_request_digest :: string
  vr_lease_request_digest :: string
  vr_request_digest :: string

datatype TrustedTaskAuthorizationStatus = Active | Revoked

record TrustedTaskAuthorizationValidationDecision =
  vd_status :: TrustedTaskAuthorizationStatus
  vd_request_digest :: string

datatype TrustedTaskAuthorizationHostError = HostDenied | HostUnavailable string

datatype TaskAuthorizationOutcome =
    OutcomeAllowed | NotConfigured | OutOfScope | OutcomeExpired | OutcomeRevoked | OutcomeRequired

section \<open>The trait\<close>

text \<open>A call reads the clocks and the system several times; reading \<open>k\<close> of a call is \<open>clk k\<close>.\<close>

record 'st task_authorization_host =
  h_authorize :: "clock \<Rightarrow> TrustedTaskAuthorizationRequest \<Rightarrow> 'st
     \<Rightarrow> (TrustedTaskAuthorizationHostError + TrustedTaskAuthorizationLease) \<times> 'st"
  h_validate :: "clock \<Rightarrow> TrustedTaskAuthorizationValidationRequest \<Rightarrow> 'st
     \<Rightarrow> (TrustedTaskAuthorizationHostError + TrustedTaskAuthorizationValidationDecision) \<times> 'st"
  h_validate_lease :: "clock \<Rightarrow> TrustedTaskAuthorizationLeaseValidationRequest \<Rightarrow> 'st
     \<Rightarrow> (TrustedTaskAuthorizationHostError + TrustedTaskAuthorizationValidationDecision) \<times> 'st"

section \<open>Clock and digest\<close>

definition unix_time_millis :: "world \<Rightarrow> u64" where
  "unix_time_millis w = (if system_ns w < 0 then 0 else millis_u64 (system_ns w))"

definition digest :: "externs \<Rightarrow> string \<Rightarrow> json \<Rightarrow> HostError + string" where
  "digest x context v = digest_with_context x (''could not digest '' @ context) v"

section \<open>Issuing a lease\<close>

record TaskAuthorizationBinding =
  tb_connection_id :: string
  tb_authorization_id :: string
  tb_session_id :: string
  tb_task_grant_id :: string
  tb_application_label :: string
  tb_window_capability :: string
  tb_target :: ConfirmationWindowIdentity

definition unsigned_authorization :: "string \<Rightarrow> TaskAuthorizationBinding \<Rightarrow> json" where
  "unsigned_authorization request_id b = JObj
     [(''schema'', JStr TRUSTED_TASK_AUTHORIZATION_SCHEMA),
      (''request_id'', JStr request_id),
      (''connection_id'', JStr (tb_connection_id b)),
      (''authorization_id'', JStr (tb_authorization_id b)),
      (''session_id'', JStr (tb_session_id b)),
      (''task_grant_id'', JStr (tb_task_grant_id b)),
      (''application_label'', JStr (tb_application_label b)),
      (''window_capability'', JStr (tb_window_capability b)),
      (''target_process_id'', json_u32 (cw_process_id (tb_target b))),
      (''target_window_handle'', json_u64 (cw_window_handle (tb_target b)))]"

definition binding_request ::
  "externs \<Rightarrow> string \<Rightarrow> TaskAuthorizationBinding \<Rightarrow> HostError + TrustedTaskAuthorizationRequest" where
  "binding_request x uuid b =
     and_then (validate_authorization_id (tb_authorization_id b)) (\<lambda>_.
     and_then (digest x ''task authorization'' (unsigned_authorization uuid b)) (\<lambda>d. Inr
       \<lparr>rq_schema = TRUSTED_TASK_AUTHORIZATION_SCHEMA, rq_request_id = uuid,
        rq_connection_id = tb_connection_id b, rq_authorization_id = tb_authorization_id b,
        rq_session_id = tb_session_id b, rq_task_grant_id = tb_task_grant_id b,
        rq_application_label = tb_application_label b,
        rq_window_capability = tb_window_capability b,
        rq_target_process_id = cw_process_id (tb_target b),
        rq_target_window_handle = cw_window_handle (tb_target b), rq_request_digest = d\<rparr>))"

definition recording_methods :: "string list" where
  "recording_methods = [''recording_start'', ''recording_state'', ''recording_stop'']"

definition preparation_methods :: "string list" where
  "preparation_methods =
     [''get_window_state'', ''capture_preparation_begin'', ''capture_preparation_state'',
      ''capture_preparation_stop'']"

text \<open>The conditions of \<open>validate_lease\<close>, one definition per local binding of the code.\<close>

definition lease_fields_match ::
  "TrustedTaskAuthorizationRequest \<Rightarrow> TrustedTaskAuthorizationLease \<Rightarrow> bool" where
  "lease_fields_match r l \<longleftrightarrow>
     ls_authorization_id l = rq_authorization_id r \<and> ls_connection_id l = rq_connection_id r
     \<and> ls_session_id l = rq_session_id r \<and> ls_task_grant_id l = rq_task_grant_id r
     \<and> ls_application_label l = rq_application_label r
     \<and> ls_window_capability l = rq_window_capability r
     \<and> ls_target_process_id l = rq_target_process_id r
     \<and> ls_target_window_handle l = rq_target_window_handle r
     \<and> ls_request_digest l = rq_request_digest r"

definition lease_valid_time :: "u64 \<Rightarrow> TrustedTaskAuthorizationLease \<Rightarrow> bool" where
  "lease_valid_time now l \<longleftrightarrow>
     ls_issued_at_unix_ms l \<le> now \<and> now < ls_expires_at_unix_ms l
     \<and> saturating_sub (ls_expires_at_unix_ms l) (ls_issued_at_unix_ms l)
         \<le> MAX_TASK_AUTHORIZATION_TTL_MS"

definition valid_actions :: "externs \<Rightarrow> TrustedTaskActionScope list \<Rightarrow> bool" where
  "valid_actions x actions \<longleftrightarrow>
     card (set actions) = length actions
     \<and> card (set actions) \<le> MAX_TASK_AUTHORIZATION_ACTIONS
     \<and> (\<forall>s\<in>set actions. action_scope_validate x s)"

definition valid_methods :: "string list \<Rightarrow> bool" where
  "valid_methods methods \<longleftrightarrow>
     set methods \<noteq> {} \<and> card (set methods) = length methods \<and> card (set methods) \<le> 64
     \<and> (\<forall>m\<in>set methods. is_task_authorizable_host_method m)"

definition valid_origins :: "externs \<Rightarrow> string list \<Rightarrow> bool" where
  "valid_origins x origins \<longleftrightarrow>
     card (set origins) = length origins
     \<and> card (set origins) \<le> MAX_TASK_AUTHORIZATION_ACTIONS
     \<and> (\<forall>b\<in>set origins. valid_browser_origin x b)"

definition lease_valid_browser_scope :: "externs \<Rightarrow> TrustedTaskAuthorizationLease \<Rightarrow> bool" where
  "lease_valid_browser_scope x l \<longleftrightarrow>
     (case ls_browser_scope l of None \<Rightarrow> True
      | Some s \<Rightarrow> browser_scope_validate x s \<and> ls_allowed_browser_origins l = [bs_origin s])"

definition lease_valid_recording_scope :: "TrustedTaskAuthorizationLease \<Rightarrow> bool" where
  "lease_valid_recording_scope l \<longleftrightarrow>
     (case ls_recording_output_dir l of None \<Rightarrow> True
      | Some d \<Rightarrow> is_ok (validate_recording_output_dir d)
          \<and> set recording_methods \<subseteq> set (ls_allowed_host_methods l))"

definition lease_valid_preparation_scope :: "world \<Rightarrow> TrustedTaskAuthorizationLease \<Rightarrow> bool" where
  "lease_valid_preparation_scope w l \<longleftrightarrow>
     (list_ex (starts_with ''capture_preparation_'') (ls_allowed_host_methods l)
        \<longleftrightarrow> ls_capture_preparation l \<noteq> None)
     \<and> (list_ex is_capture_preparation (ls_allowed_actions l) \<longleftrightarrow> ls_capture_preparation l \<noteq> None)
     \<and> (case ls_capture_preparation l of None \<Rightarrow> True
        | Some a \<Rightarrow>
            0 < cp_max_lifetime_ms a \<and> cp_max_lifetime_ms a \<le> MAX_PREPARATION_LIFETIME_MS
            \<and> is_ok (validate_recording_output_location w (cp_journal_directory a))
            \<and> ls_recording_output_dir l \<noteq> Some (cp_journal_directory a)
            \<and> ls_browser_scope l = None \<and> ls_allowed_browser_origins l = []
            \<and> set preparation_methods \<subseteq> set (ls_allowed_host_methods l))"

definition validate_lease ::
  "externs \<Rightarrow> world \<Rightarrow> TrustedTaskAuthorizationRequest \<Rightarrow> TrustedTaskAuthorizationLease
   \<Rightarrow> HostError + unit" where
  "validate_lease x w r l =
     (if \<not> lease_fields_match r l \<or> \<not> lease_valid_time (unix_time_millis w) l
         \<or> \<not> valid_methods (ls_allowed_host_methods l)
         \<or> \<not> valid_actions x (ls_allowed_actions l)
         \<or> \<not> valid_origins x (ls_allowed_browser_origins l)
         \<or> \<not> lease_valid_browser_scope x l \<or> \<not> lease_valid_recording_scope l
         \<or> \<not> lease_valid_preparation_scope w l
      then Inl (task_authorization_required
             ''the trusted task authorization lease is invalid or out of scope'')
      else Inr ())"

fun issue_error :: "TrustedTaskAuthorizationHostError \<Rightarrow> HostError" where
  "issue_error HostDenied =
     CodedProtocol HostProtocolErrorCode.TaskAuthorizationDenied
       ''the trusted task authorization was denied''"
| "issue_error (HostUnavailable _) =
     task_authorization_required ''the trusted task authorization was not available''"

definition issue_task_authorization ::
  "externs \<Rightarrow> 'st task_authorization_host option \<Rightarrow> string \<Rightarrow> clock \<Rightarrow> world
   \<Rightarrow> TaskAuthorizationBinding \<Rightarrow> 'st \<Rightarrow> (HostError + TrustedTaskAuthorizationLease) \<times> 'st" where
  "issue_task_authorization x host uuid clk w b st =
     (case host of
        None \<Rightarrow> (Inl (task_authorization_required
                    ''task authorization requires a constructor-owned host''), st)
      | Some h \<Rightarrow>
        (case binding_request x uuid b of
           Inl e \<Rightarrow> (Inl e, st)
         | Inr request \<Rightarrow>
           (let (answer, st') = h_authorize h clk request st in
            case answer of
              Inl e \<Rightarrow> (Inl (issue_error e), st')
            | Inr lease \<Rightarrow>
                (and_then (validate_lease x w request lease) (\<lambda>_. Inr lease), st'))))"

section \<open>Authorizing one action under a lease\<close>

definition from_confirmation ::
  "TrustedActionConfirmationRequest \<Rightarrow> TrustedTaskActionScope option" where
  "from_confirmation r =
     (if get_str (cr_action r) ''method'' = Some ''browser_type'' then
        map_option (\<lambda>origin. \<lparr>sc_action = ''browser_type'', sc_input_kind = ''browser'',
            sc_secret_input = True, sc_authorization_category = ''credential'',
            sc_browser_origin = Some origin\<rparr>)
          (get_str (cr_action r) ''browser_origin'')
      else case get_str (cr_action r) ''action'' of None \<Rightarrow> None
      | Some action \<Rightarrow>
        if action = ''browser_extension_navigate'' then
          map_option (\<lambda>origin. \<lparr>sc_action = action, sc_input_kind = ''browser'',
              sc_secret_input = False, sc_authorization_category = ''external_effect'',
              sc_browser_origin = Some origin\<rparr>)
            (get_str (cr_action r) ''browser_origin'')
        else if action = ''clipboard_capture_secret'' then
          Some \<lparr>sc_action = action, sc_input_kind = ''clipboard'', sc_secret_input = True,
            sc_authorization_category = ''credential'', sc_browser_origin = None\<rparr>
        else
          (case (get_str (cr_action r) ''input_kind'', get_str (cr_action r) ''authorization_category'') of
             (Some kind, Some category) \<Rightarrow>
               Some \<lparr>sc_action = action, sc_input_kind = kind,
                 sc_secret_input = json_get (cr_action r) ''secret_handle'' \<noteq> None,
                 sc_authorization_category = category, sc_browser_origin = None\<rparr>
           | _ \<Rightarrow> None))"

definition json_action_scope :: "TrustedTaskActionScope \<Rightarrow> json" where
  "json_action_scope s = JObj
     ([(''action'', JStr (sc_action s)), (''input_kind'', JStr (sc_input_kind s)),
       (''secret_input'', JBool (sc_secret_input s)),
       (''authorization_category'', JStr (sc_authorization_category s))]
      @ (case sc_browser_origin s of None \<Rightarrow> [] | Some b \<Rightarrow> [(''browser_origin'', JStr b)]))"

definition unsigned_validation ::
  "string \<Rightarrow> TrustedTaskAuthorizationLease \<Rightarrow> TrustedTaskActionScope \<Rightarrow> string \<Rightarrow> json" where
  "unsigned_validation request_id l scope action_digest = JObj
     [(''schema'', JStr TRUSTED_TASK_AUTHORIZATION_VALIDATION_SCHEMA),
      (''request_id'', JStr request_id),
      (''connection_id'', JStr (ls_connection_id l)),
      (''authorization_id'', JStr (ls_authorization_id l)),
      (''session_id'', JStr (ls_session_id l)),
      (''task_grant_id'', JStr (ls_task_grant_id l)),
      (''application_label'', JStr (ls_application_label l)),
      (''window_capability'', JStr (ls_window_capability l)),
      (''target_process_id'', json_u32 (ls_target_process_id l)),
      (''target_window_handle'', json_u64 (ls_target_window_handle l)),
      (''action_scope'', json_action_scope scope),
      (''action_request_digest'', JStr action_digest),
      (''lease_request_digest'', JStr (ls_request_digest l))]"

definition validation_request ::
  "externs \<Rightarrow> string \<Rightarrow> TrustedTaskAuthorizationLease \<Rightarrow> TrustedActionConfirmationRequest
   \<Rightarrow> TrustedTaskActionScope \<Rightarrow> HostError + TrustedTaskAuthorizationValidationRequest" where
  "validation_request x uuid l c scope =
     and_then (digest x ''task authorization validation''
                 (unsigned_validation uuid l scope (cr_request_digest c))) (\<lambda>d. Inr
       \<lparr>vr_schema = TRUSTED_TASK_AUTHORIZATION_VALIDATION_SCHEMA, vr_request_id = uuid,
        vr_connection_id = ls_connection_id l, vr_authorization_id = ls_authorization_id l,
        vr_session_id = ls_session_id l, vr_task_grant_id = ls_task_grant_id l,
        vr_application_label = ls_application_label l,
        vr_window_capability = ls_window_capability l,
        vr_target_process_id = ls_target_process_id l,
        vr_target_window_handle = ls_target_window_handle l, vr_action_scope = scope,
        vr_action_request_digest = cr_request_digest c,
        vr_lease_request_digest = ls_request_digest l, vr_request_digest = d\<rparr>)"

definition confirmation_out_of_lease ::
  "TrustedActionConfirmationRequest \<Rightarrow> TrustedTaskAuthorizationLease \<Rightarrow> bool" where
  "confirmation_out_of_lease c l \<longleftrightarrow>
     cr_session_id c \<noteq> ls_session_id l \<or> cr_task_grant_id c \<noteq> ls_task_grant_id l
     \<or> cr_window_capability c \<noteq> ls_window_capability l
     \<or> cr_target_process_id c \<noteq> Some (ls_target_process_id l)
     \<or> cr_target_window_handle c \<noteq> Some (ls_target_window_handle l)"

definition authorize_task_scoped_action ::
  "externs \<Rightarrow> 'st task_authorization_host option \<Rightarrow> string \<Rightarrow> world \<Rightarrow> clock
   \<Rightarrow> TrustedTaskAuthorizationLease option \<Rightarrow> TrustedActionConfirmationRequest \<Rightarrow> 'st
   \<Rightarrow> TaskAuthorizationOutcome \<times> 'st" where
  "authorize_task_scoped_action x host uuid w clk lease c st =
     (case lease of None \<Rightarrow> (NotConfigured, st)
      | Some l \<Rightarrow>
        if unix_time_millis w > ls_expires_at_unix_ms l then (OutcomeExpired, st)
        else if confirmation_out_of_lease c l then (OutOfScope, st)
        else case from_confirmation c of None \<Rightarrow> (OutOfScope, st)
        | Some scope \<Rightarrow>
          if scope \<notin> set (ls_allowed_actions l) then (OutOfScope, st)
          else case host of None \<Rightarrow> (OutcomeRequired, st)
          | Some h \<Rightarrow>
            case validation_request x uuid l c scope of Inl _ \<Rightarrow> (OutcomeRequired, st)
            | Inr request \<Rightarrow>
              (let (answer, st') = h_validate h clk request st in
               case answer of Inl _ \<Rightarrow> (OutcomeRequired, st')
               | Inr decision \<Rightarrow>
                 if vd_request_digest decision \<noteq> vr_request_digest request
                 then (OutcomeRequired, st')
                 else ((case vd_status decision of Active \<Rightarrow> OutcomeAllowed
                        | Revoked \<Rightarrow> OutcomeRevoked), st')))"

text \<open>\<open>authorize_window_confirmation\<close>: a lease decides alone; without one the user is asked.\<close>

definition authorize_window_confirmation ::
  "externs \<Rightarrow> 'st task_authorization_host option \<Rightarrow> 'c confirmation_host option \<Rightarrow> string
   \<Rightarrow> world \<Rightarrow> clock \<Rightarrow> TrustedTaskAuthorizationLease option \<Rightarrow> bool
   \<Rightarrow> TrustedActionConfirmationRequest \<Rightarrow> 'st \<times> 'c
   \<Rightarrow> ActionConfirmationOutcome \<times> ('st \<times> 'c)" where
  "authorize_window_confirmation x host confirm uuid w clk lease allow_trusted_confirmation c s =
     (let (outcome, st') = authorize_task_scoped_action x host uuid w clk lease c (fst s) in
      case outcome of
        OutcomeAllowed \<Rightarrow> (Allowed, st', snd s)
      | NotConfigured \<Rightarrow>
          (let (o', c') = authorize_action_confirmation confirm allow_trusted_confirmation c (snd s)
           in (o', st', c'))
      | OutOfScope \<Rightarrow> (TaskAuthorizationOutOfScope, st', snd s)
      | OutcomeExpired \<Rightarrow> (ActionConfirmationOutcome.TaskAuthorizationExpired, st', snd s)
      | OutcomeRevoked \<Rightarrow> (ActionConfirmationOutcome.TaskAuthorizationRevoked, st', snd s)
      | OutcomeRequired \<Rightarrow> (ActionConfirmationOutcome.TaskAuthorizationRequired, st', snd s))"

section \<open>Revalidating a lease\<close>

definition retained_request :: "TrustedTaskAuthorizationLease \<Rightarrow> TrustedTaskAuthorizationRequest" where
  "retained_request l =
     \<lparr>rq_schema = TRUSTED_TASK_AUTHORIZATION_SCHEMA, rq_request_id = [],
      rq_connection_id = ls_connection_id l, rq_authorization_id = ls_authorization_id l,
      rq_session_id = ls_session_id l, rq_task_grant_id = ls_task_grant_id l,
      rq_application_label = ls_application_label l,
      rq_window_capability = ls_window_capability l,
      rq_target_process_id = ls_target_process_id l,
      rq_target_window_handle = ls_target_window_handle l,
      rq_request_digest = ls_request_digest l\<rparr>"

definition unsigned_lease_validation :: "string \<Rightarrow> TrustedTaskAuthorizationLease \<Rightarrow> json" where
  "unsigned_lease_validation request_id l = JObj
     [(''schema'', JStr TRUSTED_TASK_AUTHORIZATION_LEASE_VALIDATION_SCHEMA),
      (''request_id'', JStr request_id),
      (''connection_id'', JStr (ls_connection_id l)),
      (''authorization_id'', JStr (ls_authorization_id l)),
      (''session_id'', JStr (ls_session_id l)),
      (''task_grant_id'', JStr (ls_task_grant_id l)),
      (''application_label'', JStr (ls_application_label l)),
      (''window_capability'', JStr (ls_window_capability l)),
      (''target_process_id'', json_u32 (ls_target_process_id l)),
      (''target_window_handle'', json_u64 (ls_target_window_handle l)),
      (''lease_request_digest'', JStr (ls_request_digest l))]"

definition lease_validation_request ::
  "string \<Rightarrow> TrustedTaskAuthorizationLease \<Rightarrow> string
   \<Rightarrow> TrustedTaskAuthorizationLeaseValidationRequest" where
  "lease_validation_request uuid l d =
     \<lparr>lv_schema = TRUSTED_TASK_AUTHORIZATION_LEASE_VALIDATION_SCHEMA, lv_request_id = uuid,
      lv_connection_id = ls_connection_id l, lv_authorization_id = ls_authorization_id l,
      lv_session_id = ls_session_id l, lv_task_grant_id = ls_task_grant_id l,
      lv_application_label = ls_application_label l,
      lv_window_capability = ls_window_capability l,
      lv_target_process_id = ls_target_process_id l,
      lv_target_window_handle = ls_target_window_handle l,
      lv_lease_request_digest = ls_request_digest l, lv_request_digest = d\<rparr>"

definition validate_active_task_authorization ::
  "externs \<Rightarrow> 'st task_authorization_host option \<Rightarrow> string \<Rightarrow> world \<Rightarrow> clock
   \<Rightarrow> TrustedTaskAuthorizationLease option \<Rightarrow> 'st \<Rightarrow> (HostError + unit) \<times> 'st" where
  "validate_active_task_authorization x host uuid w clk lease st =
     (case lease of None \<Rightarrow> (Inr (), st)
      | Some l \<Rightarrow>
        case host of
          None \<Rightarrow> (Inl (task_authorization_required
                  ''the constructor-owned task authorization validator is unavailable''), st)
        | Some h \<Rightarrow>
          if \<not> is_ok (validate_lease x w (retained_request l) l)
          then (Inl (CodedProtocol HostProtocolErrorCode.TaskAuthorizationExpired
                  ''the trusted task authorization lease expired or became invalid''), st)
          else case digest x ''task authorization lease validation''
                      (unsigned_lease_validation uuid l) of
            Inl e \<Rightarrow> (Inl e, st)
          | Inr d \<Rightarrow>
            (let (answer, st') = h_validate_lease h clk (lease_validation_request uuid l d) st in
             case answer of
               Inl _ \<Rightarrow> (Inl (task_authorization_required
                  ''the trusted task authorization could not be revalidated''), st')
             | Inr decision \<Rightarrow>
               if vd_request_digest decision \<noteq> d
               then (Inl (task_authorization_required
                  ''the trusted task authorization validator returned a mismatched lease decision''), st')
               else case vd_status decision of
                 Active \<Rightarrow> (Inr (), st')
               | Revoked \<Rightarrow> (Inl (CodedProtocol HostProtocolErrorCode.TaskAuthorizationRevoked
                  ''the trusted task authorization was revoked''), st')))"

section \<open>Lemmas\<close>

lemmas lease_checks = lease_fields_match_def lease_valid_time_def valid_methods_def valid_actions_def
  valid_origins_def lease_valid_browser_scope_def lease_valid_recording_scope_def
  lease_valid_preparation_scope_def

lemma validate_lease_ok_iff:
  "validate_lease x w r l = Inr () \<longleftrightarrow>
     lease_fields_match r l \<and> lease_valid_time (unix_time_millis w) l
     \<and> valid_methods (ls_allowed_host_methods l) \<and> valid_actions x (ls_allowed_actions l)
     \<and> valid_origins x (ls_allowed_browser_origins l) \<and> lease_valid_browser_scope x l
     \<and> lease_valid_recording_scope l \<and> lease_valid_preparation_scope w l"
  by (simp add: validate_lease_def)

lemma binding_request_fields:
  assumes "binding_request x uuid b = Inr r"
  shows "rq_schema r = TRUSTED_TASK_AUTHORIZATION_SCHEMA" "rq_connection_id r = tb_connection_id b"
    "rq_authorization_id r = tb_authorization_id b" "rq_session_id r = tb_session_id b"
    "rq_task_grant_id r = tb_task_grant_id b" "rq_application_label r = tb_application_label b"
    "rq_window_capability r = tb_window_capability b"
    "rq_target_process_id r = cw_process_id (tb_target b)"
    "rq_target_window_handle r = cw_window_handle (tb_target b)"
    "validate_authorization_id (tb_authorization_id b) = Inr ()"
  using assms by (auto simp: binding_request_def and_then_Inr_iff)

lemma validation_request_fields:
  assumes "validation_request x uuid l c scope = Inr r"
  shows "vr_schema r = TRUSTED_TASK_AUTHORIZATION_VALIDATION_SCHEMA"
    "vr_connection_id r = ls_connection_id l" "vr_authorization_id r = ls_authorization_id l"
    "vr_session_id r = ls_session_id l" "vr_task_grant_id r = ls_task_grant_id l"
    "vr_application_label r = ls_application_label l"
    "vr_window_capability r = ls_window_capability l"
    "vr_target_process_id r = ls_target_process_id l"
    "vr_target_window_handle r = ls_target_window_handle l" "vr_action_scope r = scope"
    "vr_lease_request_digest r = ls_request_digest l"
  using assms by (auto simp: validation_request_def and_then_Inr_iff)

lemma issue_okD:
  assumes "issue_task_authorization x host uuid clk w b st = (Inr l, st')"
  obtains h r where "host = Some h" "binding_request x uuid b = Inr r"
    "h_authorize h clk r st = (Inr l, st')" "validate_lease x w r l = Inr ()"
  using assms
  by (auto simp: issue_task_authorization_def and_then_Inr_iff and_then_Inl_iff case_prod_beta
      prod_eq_iff split: option.splits sum.splits)

lemma task_allowedD:
  assumes "authorize_task_scoped_action x host uuid w clk lease c st = (OutcomeAllowed, st')"
  obtains l h scope r d where "lease = Some l" "host = Some h" "from_confirmation c = Some scope"
    "unix_time_millis w \<le> ls_expires_at_unix_ms l" "\<not> confirmation_out_of_lease c l"
    "scope \<in> set (ls_allowed_actions l)" "validation_request x uuid l c scope = Inr r"
    "h_validate h clk r st = (Inr d, st')" "vd_request_digest d = vr_request_digest r"
    "vd_status d = Active"
  using assms
  by (auto simp: authorize_task_scoped_action_def case_prod_beta prod_eq_iff
      split: option.splits sum.splits if_splits TrustedTaskAuthorizationStatus.splits)

lemma validate_active_okD:
  assumes "validate_active_task_authorization x host uuid w clk (Some l) st = (Inr (), st')"
  obtains h dg d where "host = Some h" "validate_lease x w (retained_request l) l = Inr ()"
    "h_validate_lease h clk (lease_validation_request uuid l dg) st = (Inr d, st')"
    "vd_status d = Active" "vd_request_digest d = dg"
  using assms
  by (auto simp: validate_active_task_authorization_def case_prod_beta prod_eq_iff is_ok_unit
      split: option.splits sum.splits if_splits TrustedTaskAuthorizationStatus.splits)

lemma from_confirmation_secret:
  "from_confirmation c = Some s \<Longrightarrow> json_get (cr_action c) ''secret_handle'' \<noteq> None \<Longrightarrow>
   sc_secret_input s \<or> get_str (cr_action c) ''action'' = Some ''browser_extension_navigate''"
  by (auto simp: from_confirmation_def split: if_splits option.splits)

section \<open>Contract: a task authorization host\<close>

text \<open>
  The calls the Host makes to its authorization host, as data, and the authorization each
  call relied on when it was granted.
\<close>

datatype task_call =
    IssueCall string clock world TaskAuthorizationBinding
  | ActionCall string world clock TrustedTaskAuthorizationLease TrustedActionConfirmationRequest
  | RevalidateCall string world clock TrustedTaskAuthorizationLease

fun task_call_step ::
  "externs \<Rightarrow> 'st task_authorization_host \<Rightarrow> task_call \<Rightarrow> 'st \<Rightarrow> string option \<times> 'st" where
  "task_call_step x h (IssueCall uuid clk w b) st =
     (let (r, st') = issue_task_authorization x (Some h) uuid clk w b st in
      (if is_ok r then Some (tb_authorization_id b) else None, st'))"
| "task_call_step x h (ActionCall uuid w clk l c) st =
     (let (r, st') = authorize_task_scoped_action x (Some h) uuid w clk (Some l) c st in
      (if r = OutcomeAllowed then Some (ls_authorization_id l) else None, st'))"
| "task_call_step x h (RevalidateCall uuid w clk l) st =
     (let (r, st') = validate_active_task_authorization x (Some h) uuid w clk (Some l) st in
      (if is_ok r then Some (ls_authorization_id l) else None, st'))"

fun run_task_calls ::
  "externs \<Rightarrow> 'st task_authorization_host \<Rightarrow> task_call list \<Rightarrow> 'st \<Rightarrow> string option list \<times> 'st" where
  "run_task_calls x h [] st = ([], st)"
| "run_task_calls x h (c # cs) st =
     (let (g, st') = task_call_step x h c st; (gs, st'') = run_task_calls x h cs st' in
      (g # gs, st''))"

lemma issue_state:
  "snd (issue_task_authorization x (Some h) uuid clk w b st) \<in>
     {st} \<union> {snd (h_authorize h clk r st) | r. True}"
  by (auto simp: issue_task_authorization_def case_prod_beta split: sum.splits)

lemma authorize_task_state:
  "snd (authorize_task_scoped_action x (Some h) uuid w clk lease c st) \<in>
     {st} \<union> {snd (h_validate h clk r st) | r. True}"
  by (auto simp: authorize_task_scoped_action_def case_prod_beta split: sum.splits option.splits)

lemma validate_active_state:
  "snd (validate_active_task_authorization x (Some h) uuid w clk lease st) \<in>
     {st} \<union> {snd (h_validate_lease h clk r st) | r. True}"
  by (auto simp: validate_active_task_authorization_def case_prod_beta
      split: sum.splits option.splits TrustedTaskAuthorizationStatus.splits)

text \<open>
  \<open>dead a st\<close>: the authorization \<open>a\<close> carries no authority in \<open>st\<close>. An implementation answers
  with the identity of the request, never grants a dead authorization, and no answer revives
  one.
\<close>

locale authorization_host =
  fixes h :: "'st task_authorization_host"
    and dead :: "string \<Rightarrow> 'st \<Rightarrow> bool"
  assumes authorize_exact:
      "h_authorize h clk r st = (Inr l, st') \<Longrightarrow>
         lease_fields_match r l \<and> \<not> dead (rq_authorization_id r) st"
    and validate_exact:
      "h_validate h clk v st = (Inr d, st') \<Longrightarrow>
         vd_request_digest d = vr_request_digest v
         \<and> (vd_status d = Active \<longrightarrow> \<not> dead (vr_authorization_id v) st)"
    and validate_lease_exact:
      "h_validate_lease h clk lv st = (Inr d, st') \<Longrightarrow>
         vd_request_digest d = lv_request_digest lv
         \<and> (vd_status d = Active \<longrightarrow> \<not> dead (lv_authorization_id lv) st)"
    and authorize_dead: "dead a st \<Longrightarrow> dead a (snd (h_authorize h clk r st))"
    and validate_dead: "dead a st \<Longrightarrow> dead a (snd (h_validate h clk v st))"
    and validate_lease_dead: "dead a st \<Longrightarrow> dead a (snd (h_validate_lease h clk lv st))"
begin

lemma dead_issue: "dead a st \<Longrightarrow> dead a (snd (issue_task_authorization x (Some h) u clk w b st))"
  using issue_state [of x h u clk w b st] authorize_dead by auto

lemma dead_action:
  "dead a st \<Longrightarrow> dead a (snd (authorize_task_scoped_action x (Some h) u w clk l c st))"
  using authorize_task_state [of x h u w clk l c st] validate_dead by auto

lemma dead_revalidate:
  "dead a st \<Longrightarrow> dead a (snd (validate_active_task_authorization x (Some h) u w clk l st))"
  using validate_active_state [of x h u w clk l st] validate_lease_dead by auto

lemma dead_step: "dead a st \<Longrightarrow> dead a (snd (task_call_step x h c st))"
  by (cases c) (simp_all add: case_prod_beta dead_issue dead_action dead_revalidate)

lemma issue_refused:
  assumes "dead (tb_authorization_id b) st"
  shows "\<not> is_ok (fst (issue_task_authorization x (Some h) u clk w b st))"
proof
  assume "is_ok (fst (issue_task_authorization x (Some h) u clk w b st))"
  then obtain l st' where "issue_task_authorization x (Some h) u clk w b st = (Inr l, st')"
    by (cases "issue_task_authorization x (Some h) u clk w b st") (auto simp: is_ok_iff)
  then obtain r where "binding_request x u b = Inr r" "h_authorize h clk r st = (Inr l, st')"
    by (auto elim: issue_okD)
  then show False using authorize_exact assms binding_request_fields(3) by metis
qed

lemma action_refused:
  assumes "dead (ls_authorization_id l) st"
  shows "fst (authorize_task_scoped_action x (Some h) u w clk (Some l) c st) \<noteq> OutcomeAllowed"
proof
  assume "fst (authorize_task_scoped_action x (Some h) u w clk (Some l) c st) = OutcomeAllowed"
  then obtain st' where
    "authorize_task_scoped_action x (Some h) u w clk (Some l) c st = (OutcomeAllowed, st')"
    by (metis prod.collapse)
  then obtain scope r d where "validation_request x u l c scope = Inr r"
    "h_validate h clk r st = (Inr d, st')" "vd_status d = Active"
    by (auto elim: task_allowedD)
  then show False using validate_exact assms validation_request_fields(3) by metis
qed

lemma revalidate_refused:
  assumes "dead (ls_authorization_id l) st"
  shows "\<not> is_ok (fst (validate_active_task_authorization x (Some h) u w clk (Some l) st))"
proof
  assume "is_ok (fst (validate_active_task_authorization x (Some h) u w clk (Some l) st))"
  then obtain st' where
    "validate_active_task_authorization x (Some h) u w clk (Some l) st = (Inr (), st')"
    by (metis is_ok_unit prod.collapse)
  then obtain dg d where "h_validate_lease h clk (lease_validation_request u l dg) st = (Inr d, st')"
    "vd_status d = Active"
    by (auto elim: validate_active_okD)
  then show False using validate_lease_exact assms
    by (fastforce simp: lease_validation_request_def)
qed

lemma dead_not_granted: "dead a st \<Longrightarrow> fst (task_call_step x h c st) \<noteq> Some a"
  using issue_refused action_refused revalidate_refused
  by (cases c) (auto simp: case_prod_beta split: if_splits)

text \<open>No sequence of Host calls is ever granted under a dead authorization.\<close>

lemma dead_never_granted: "dead a st \<Longrightarrow> Some a \<notin> set (fst (run_task_calls x h cs st))"
  by (induction cs arbitrary: st)
     (auto simp: case_prod_beta dead_not_granted [symmetric] dest: dead_step [of a])

lemma dead_run: "dead a st \<Longrightarrow> dead a (snd (run_task_calls x h cs st))"
  by (induction cs arbitrary: st) (auto simp: case_prod_beta dest: dead_step [of a])

end

section \<open>Properties\<close>

text \<open>
  C2. An action allowed under a task lease is inside it: a lease is held and not past its
  expiry, the confirmation request names the session, the grant, the window capability and
  the window of the lease, the scope derived from the action is one the lease lists, and the
  constructor-owned host, asked about this very scope and lease, answered \<open>Active\<close> with the
  digest of the request it was sent. A secret handle passes only under a secret scope.
\<close>

theorem task_action_within_lease:
  assumes "authorize_task_scoped_action x host uuid w clk lease c st = (OutcomeAllowed, st')"
  shows "\<exists>l h scope r d. lease = Some l \<and> host = Some h
     \<and> unix_time_millis w \<le> ls_expires_at_unix_ms l
     \<and> cr_session_id c = ls_session_id l \<and> cr_task_grant_id c = ls_task_grant_id l
     \<and> cr_window_capability c = ls_window_capability l
     \<and> cr_target_process_id c = Some (ls_target_process_id l)
     \<and> cr_target_window_handle c = Some (ls_target_window_handle l)
     \<and> from_confirmation c = Some scope \<and> scope \<in> set (ls_allowed_actions l)
     \<and> (json_get (cr_action c) ''secret_handle'' \<noteq> None
         \<and> get_str (cr_action c) ''action'' \<noteq> Some ''browser_extension_navigate''
         \<longrightarrow> sc_secret_input scope)
     \<and> vr_action_scope r = scope \<and> vr_authorization_id r = ls_authorization_id l
     \<and> vr_lease_request_digest r = ls_request_digest l
     \<and> h_validate h clk r st = (Inr d, st')
     \<and> d = \<lparr>vd_status = Active, vd_request_digest = vr_request_digest r\<rparr>"
proof -
  obtain l h scope r d where *: "lease = Some l" "host = Some h" "from_confirmation c = Some scope"
    "unix_time_millis w \<le> ls_expires_at_unix_ms l" "\<not> confirmation_out_of_lease c l"
    "scope \<in> set (ls_allowed_actions l)" "validation_request x uuid l c scope = Inr r"
    "h_validate h clk r st = (Inr d, st')" "vd_request_digest d = vr_request_digest r"
    "vd_status d = Active"
    using assms by (rule task_allowedD)
  have "d = \<lparr>vd_status = Active, vd_request_digest = vr_request_digest r\<rparr>" using * by simp
  moreover have "json_get (cr_action c) ''secret_handle'' \<noteq> None
      \<and> get_str (cr_action c) ''action'' \<noteq> Some ''browser_extension_navigate''
      \<longrightarrow> sc_secret_input scope"
    using from_confirmation_secret *(3) by blast
  ultimately show ?thesis
    using * validation_request_fields [OF *(7)] by (auto simp: confirmation_out_of_lease_def)
qed

definition example_scope :: TrustedTaskActionScope where
  "example_scope = \<lparr>sc_action = ''click'', sc_input_kind = ''raw_input'', sc_secret_input = False,
     sc_authorization_category = ''raw_input'', sc_browser_origin = None\<rparr>"

definition example_lease :: TrustedTaskAuthorizationLease where
  "example_lease = \<lparr>ls_connection_id = ''c'', ls_authorization_id = ''a'', ls_session_id = ''s'',
     ls_task_grant_id = ''g'', ls_application_label = ''l'', ls_window_capability = ''w'',
     ls_target_process_id = 7, ls_target_window_handle = 9,
     ls_allowed_host_methods = [''execute_action''], ls_allowed_actions = [example_scope],
     ls_allowed_browser_origins = [], ls_browser_scope = None, ls_recording_output_dir = None,
     ls_capture_preparation = None, ls_issued_at_unix_ms = 0, ls_expires_at_unix_ms = 60000,
     ls_request_digest = ''sha256:00''\<rparr>"

definition example_confirmation :: TrustedActionConfirmationRequest where
  "example_confirmation = \<lparr>cr_schema = TRUSTED_ACTION_CONFIRMATION_SCHEMA, cr_request_id = ''u'',
     cr_session_id = ''s'', cr_task_grant_id = ''g'', cr_window_capability = ''w'',
     cr_target_process_id = Some 7, cr_target_window_handle = Some 9, cr_observation_id = ''o'',
     cr_accessibility_state_id = None, cr_intent = ''send'',
     cr_action = JObj [(''action'', JStr ''click''), (''input_kind'', JStr ''raw_input''),
       (''authorization_category'', JStr ''raw_input'')],
     cr_request_digest = ''sha256:00''\<rparr>"

definition example_world :: world where
  "example_world = \<lparr>system_ns = 0, mono_ns = 0, symlink_metadata = (\<lambda>_. None),
     process_identity = (\<lambda>_ _. None)\<rparr>"

text \<open>A host that answers every request, without a state.\<close>

definition example_host :: "unit task_authorization_host" where
  "example_host = \<lparr>h_authorize = (\<lambda>_ _ s. (Inr example_lease, s)),
     h_validate = (\<lambda>_ r s. (Inr \<lparr>vd_status = Active, vd_request_digest = vr_request_digest r\<rparr>, s)),
     h_validate_lease = (\<lambda>_ r s. (Inr \<lparr>vd_status = Active, vd_request_digest = lv_request_digest r\<rparr>, s))\<rparr>"

theorem task_action_within_lease_witness:
  "\<exists>l. Some example_lease = Some l \<and> cr_session_id example_confirmation = ls_session_id l
     \<and> from_confirmation example_confirmation = Some example_scope"
proof -
  have "authorize_task_scoped_action example_externs (Some example_host) ''u'' example_world
      (\<lambda>_. example_world) (Some example_lease) example_confirmation () = (OutcomeAllowed, ())"
    by (simp add: authorize_task_scoped_action_def example_lease_def example_confirmation_def
        example_world_def example_host_def example_scope_def unix_time_millis_def millis_u64_def
        confirmation_out_of_lease_def from_confirmation_def get_str_def validation_request_def
        digest_def digest_with_context_def example_externs_def)
  from task_action_within_lease [OF this] show ?thesis
    by (auto simp: example_lease_def)
qed

text \<open>
  C25. A lease that \<open>issue_task_authorization\<close> hands out is the one that was asked for: it
  names the connection, session, grant, label, capability and window of the binding, was
  issued in the past, expires in the future and at most 24 hours after its issue, and lists
  distinct authorizable methods and distinct closed action scopes within the bounds.
\<close>

theorem issued_lease_exact_and_bounded:
  assumes "issue_task_authorization x host uuid clk w b st = (Inr l, st')"
  shows "ls_connection_id l = tb_connection_id b \<and> ls_authorization_id l = tb_authorization_id b
     \<and> ls_session_id l = tb_session_id b \<and> ls_task_grant_id l = tb_task_grant_id b
     \<and> ls_application_label l = tb_application_label b
     \<and> ls_window_capability l = tb_window_capability b
     \<and> ls_target_process_id l = cw_process_id (tb_target b)
     \<and> ls_target_window_handle l = cw_window_handle (tb_target b)
     \<and> unat (ls_issued_at_unix_ms l) \<le> unat (unix_time_millis w)
     \<and> unat (unix_time_millis w) < unat (ls_expires_at_unix_ms l)
     \<and> unat (ls_expires_at_unix_ms l) \<le> unat (ls_issued_at_unix_ms l) + 24 * 60 * 60 * 1000
     \<and> distinct (ls_allowed_host_methods l) \<and> ls_allowed_host_methods l \<noteq> []
     \<and> list_all is_task_authorizable_host_method (ls_allowed_host_methods l)
     \<and> distinct (ls_allowed_actions l)
     \<and> length (ls_allowed_actions l) \<le> MAX_TASK_AUTHORIZATION_ACTIONS
     \<and> list_all (action_scope_validate x) (ls_allowed_actions l)"
proof -
  obtain h r where r: "binding_request x uuid b = Inr r" and v: "validate_lease x w r l = Inr ()"
    using assms by (rule issue_okD)
  from v have fields: "lease_fields_match r l" and time: "lease_valid_time (unix_time_millis w) l"
    and methods: "valid_methods (ls_allowed_host_methods l)"
    and actions: "valid_actions x (ls_allowed_actions l)"
    by (simp_all add: validate_lease_ok_iff)
  have "unat (saturating_sub (ls_expires_at_unix_ms l) (ls_issued_at_unix_ms l)) \<le> 24 * 60 * 60 * 1000"
    using time by (simp add: lease_valid_time_def word_le_nat_alt MAX_TASK_AUTHORIZATION_TTL_MS_def)
  then have "unat (ls_expires_at_unix_ms l) \<le> unat (ls_issued_at_unix_ms l) + 24 * 60 * 60 * 1000"
    by (simp add: unat_saturating_sub)
  moreover have "unat (ls_issued_at_unix_ms l) \<le> unat (unix_time_millis w)"
    and "unat (unix_time_millis w) < unat (ls_expires_at_unix_ms l)"
    using time by (simp_all add: lease_valid_time_def word_le_nat_alt word_less_nat_alt)
  moreover have "distinct (ls_allowed_host_methods l) \<and> ls_allowed_host_methods l \<noteq> []
     \<and> list_all is_task_authorizable_host_method (ls_allowed_host_methods l)"
    using methods by (auto simp: valid_methods_def card_set_eq_length list_all_iff)
  moreover have "distinct (ls_allowed_actions l)
     \<and> length (ls_allowed_actions l) \<le> MAX_TASK_AUTHORIZATION_ACTIONS
     \<and> list_all (action_scope_validate x) (ls_allowed_actions l)"
    using actions by (auto simp: valid_actions_def card_set_eq_length list_all_iff distinct_card)
  ultimately show ?thesis
    using fields binding_request_fields [OF r] by (simp add: lease_fields_match_def)
qed

definition example_task_binding :: TaskAuthorizationBinding where
  "example_task_binding = \<lparr>tb_connection_id = ''c'', tb_authorization_id = ''a'', tb_session_id = ''s'',
     tb_task_grant_id = ''g'', tb_application_label = ''l'', tb_window_capability = ''w'',
     tb_target = \<lparr>cw_process_id = 7, cw_window_handle = 9\<rparr>\<rparr>"

lemma example_lease_valid:
  "validate_lease example_externs example_world (retained_request example_lease) example_lease = Inr ()"
  by (simp add: validate_lease_def lease_checks retained_request_def example_lease_def
      example_world_def unix_time_millis_def millis_u64_def saturating_sub_def
      MAX_TASK_AUTHORIZATION_TTL_MS_def MAX_TASK_AUTHORIZATION_ACTIONS_def example_scope_def
      action_scope_validate_def is_task_authorizable_host_method_def task_authorizable_host_methods_def
      scope_simps starts_with_def)

theorem issued_lease_exact_and_bounded_witness:
  "fst (issue_task_authorization example_externs (Some example_host) ''u'' (\<lambda>_. example_world)
      example_world example_task_binding ()) = Inr example_lease
   \<and> ls_session_id example_lease = tb_session_id example_task_binding"
proof -
  have "lease_fields_match r example_lease"
    if "binding_request example_externs ''u'' example_task_binding = Inr r" for r
    using that by (auto simp: lease_fields_match_def example_lease_def example_task_binding_def
        binding_request_def and_then_Inr_iff digest_def digest_with_context_def example_externs_def)
  moreover have "validate_authorization_id ''a'' = Inr ()"
    by (simp add: validate_authorization_id_iff identity_ok_graphic graphic_def
        MAX_TASK_AUTHORIZATION_ID_CHARS_def)
  then obtain r where r: "binding_request example_externs ''u'' example_task_binding = Inr r"
    by (simp add: binding_request_def example_task_binding_def digest_def digest_with_context_def
        example_externs_def)
  ultimately have "validate_lease example_externs example_world r example_lease = Inr ()"
    using example_lease_valid by (simp add: validate_lease_ok_iff)
  with r have i: "issue_task_authorization example_externs (Some example_host) ''u''
      (\<lambda>_. example_world) example_world example_task_binding () = (Inr example_lease, ())"
    by (simp add: issue_task_authorization_def example_host_def)
  from issued_lease_exact_and_bounded [OF i] i show ?thesis by simp
qed

text \<open>
  C26. A task lease decides alone. With a lease the user-facing confirmation host is never
  asked, and an action is allowed exactly when the lease authorizes it; without one the
  authorization host is never asked, and the confirmation decides.
\<close>

theorem lease_decides_alone:
  "snd (snd (authorize_window_confirmation x host confirm uuid w clk (Some l) allow c s)) = snd s
   \<and> (fst (authorize_window_confirmation x host confirm uuid w clk (Some l) allow c s) = Allowed \<longleftrightarrow>
        fst (authorize_task_scoped_action x host uuid w clk (Some l) c (fst s)) = OutcomeAllowed)
   \<and> authorize_window_confirmation x host confirm uuid w clk None allow c s =
       (fst (authorize_action_confirmation confirm allow c (snd s)), fst s,
        snd (authorize_action_confirmation confirm allow c (snd s)))"
proof -
  have no: "fst (authorize_task_scoped_action x host uuid w clk (Some l) c st) \<noteq> NotConfigured" for st
    by (auto simp: authorize_task_scoped_action_def case_prod_beta
        split: option.splits sum.splits TrustedTaskAuthorizationStatus.splits)
  show ?thesis
    using no [of "fst s"]
    by (auto simp: authorize_window_confirmation_def case_prod_beta
        authorize_task_scoped_action_def [of _ _ _ _ _ None]
        split: TaskAuthorizationOutcome.splits)
qed

end
