(* ===== verification/Recording_Authorization.thy ===== *)
theory Recording_Authorization
  imports Host_Error
begin

text \<open>
  The admission fence shared by the issuer, the capture producer and the encoder
  (\<open>crates/dcc-cua-showcase/src/recording_authorization.rs\<close>) and the login-window permission
  that shares its lifetime (\<open>crates/dcc-cua-core/src/native_task_authorization.rs\<close>).

  A \<open>RecordingAuthorization\<close> lives behind an \<open>Arc\<close>: the broker, the Host and a
  \<open>NativeTaskAuthorization\<close> hold the same object. The model keeps the objects in a store
  from addresses to values and the handles are addresses, so that a revocation through one
  handle is seen through every other one. A poisoned mutex is a field of the object; an
  admission through it fails and a revocation through it has no effect, as in the code.
\<close>

section \<open>The fence\<close>

record RecordingAuthorization =
  ra_poisoned :: bool
  ra_revoked :: bool
  ra_expires_at_unix_ms :: u64
  ra_monotonic_deadline :: "nat option"

text \<open>The wall clock of the fence fails closed: a time before the epoch reads as the maximum.\<close>

definition recording_clock :: "world \<Rightarrow> u64" where
  "recording_clock w = (if system_ns w < 0 then - 1 else millis_u64 (system_ns w))"

definition recording_authorization_new :: "world \<Rightarrow> u64 \<Rightarrow> RecordingAuthorization" where
  "recording_authorization_new w expires_at =
     \<lparr>ra_poisoned = False, ra_revoked = False, ra_expires_at_unix_ms = expires_at,
      ra_monotonic_deadline =
        instant_checked_add (mono_ns w) (saturating_sub expires_at (recording_clock w))\<rparr>"

definition with_monotonic_deadline :: "world \<Rightarrow> u64 \<Rightarrow> nat \<Rightarrow> RecordingAuthorization" where
  "with_monotonic_deadline w expires_at deadline =
     (let a = recording_authorization_new w expires_at in
      a\<lparr>ra_monotonic_deadline :=
          Some (case ra_monotonic_deadline a of None \<Rightarrow> deadline | Some e \<Rightarrow> min e deadline)\<rparr>)"

definition ra_revoke :: "RecordingAuthorization \<Rightarrow> RecordingAuthorization" where
  "ra_revoke a = (if ra_poisoned a then a else a\<lparr>ra_revoked := True\<rparr>)"

definition ra_expired :: "world \<Rightarrow> RecordingAuthorization \<Rightarrow> bool" where
  "ra_expired w a \<longleftrightarrow>
     ra_expires_at_unix_ms a \<le> recording_clock w
     \<or> (case ra_monotonic_deadline a of None \<Rightarrow> False | Some d \<Rightarrow> d \<le> mono_ns w)"

definition admit ::
  "world \<Rightarrow> RecordingAuthorization \<Rightarrow> (string + unit) \<times> RecordingAuthorization" where
  "admit w a =
     (if ra_poisoned a then (Inl ''recording authorization poisoned'', a)
      else if ra_revoked a \<or> ra_expired w a
      then (Inl ''recording task authorization expired or was revoked'', a\<lparr>ra_revoked := True\<rparr>)
      else (Inr (), a))"

definition ra_active :: "world \<Rightarrow> RecordingAuthorization \<Rightarrow> bool" where
  "ra_active w a \<longleftrightarrow> \<not> ra_poisoned a \<and> \<not> ra_revoked a \<and> \<not> ra_expired w a"

lemma admit_ok_iff: "is_ok (fst (admit w a)) \<longleftrightarrow> ra_active w a"
  by (simp add: admit_def ra_active_def)

lemma admit_active: "ra_active w a \<Longrightarrow> admit w a = (Inr (), a)"
  by (simp add: admit_def ra_active_def)

lemma admit_refused_sticky: "\<not> ra_active w a \<Longrightarrow> \<not> ra_active w' (snd (admit w a))"
  by (auto simp: admit_def ra_active_def)

lemma admit_never_activates: "ra_active w' (snd (admit w a)) \<Longrightarrow> ra_active w' a"
  by (auto simp: admit_def ra_active_def ra_expired_def split: if_splits)

lemma ra_revoke_inactive: "\<not> ra_active w (ra_revoke a)"
  by (simp add: ra_revoke_def ra_active_def)

section \<open>Contract: a revocable fence\<close>

text \<open>
  What every client of a fence relies on: an admission is refused for good once the fence
  was revoked or refused, and no operation turns a closed fence into an open one.
\<close>

fun run_probes :: "('w \<Rightarrow> 'f \<Rightarrow> bool \<times> 'f) \<Rightarrow> 'w list \<Rightarrow> 'f \<Rightarrow> bool list \<times> 'f" where
  "run_probes probe [] f = ([], f)"
| "run_probes probe (w # ws) f =
     (let (b, f') = probe w f; (bs, f'') = run_probes probe ws f' in (b # bs, f''))"

locale revocable_fence =
  fixes open_at :: "'w \<Rightarrow> 'f \<Rightarrow> bool"
    and probe :: "'w \<Rightarrow> 'f \<Rightarrow> bool \<times> 'f"
    and close :: "'f \<Rightarrow> 'f"
  assumes probe_result: "fst (probe w f) \<longleftrightarrow> open_at w f"
    and probe_keeps_closed: "\<not> open_at w f \<Longrightarrow> \<not> open_at w' (snd (probe w f))"
    and probe_no_open: "open_at w' (snd (probe w f)) \<Longrightarrow> open_at w' f"
    and close_closes: "\<not> open_at w (close f)"
begin

lemma shut_probes: "(\<And>w. \<not> open_at w f) \<Longrightarrow> True \<notin> set (fst (run_probes probe ws f))"
proof (induction ws arbitrary: f)
  case Nil
  then show ?case by simp
next
  case (Cons w ws)
  obtain b f' where p: "probe w f = (b, f')" by fastforce
  have "\<not> b" using probe_result [of w f] p Cons.prems by simp
  moreover have "\<And>w'. \<not> open_at w' f'" using probe_no_open [of _ w f] p Cons.prems by auto
  ultimately show ?case using Cons.IH [of f'] p by (auto simp: case_prod_beta)
qed

text \<open>A refusal is final: after one \<open>False\<close> no later probe answers \<open>True\<close>.\<close>

lemma refusal_is_final:
  "\<not> fst (probe w f) \<Longrightarrow> True \<notin> set (fst (run_probes probe ws (snd (probe w f))))"
  using probe_keeps_closed probe_result by (intro shut_probes) auto

lemma closed_is_final: "True \<notin> set (fst (run_probes probe ws (close f)))"
  by (intro shut_probes close_closes)

end

definition ra_probe :: "world \<Rightarrow> RecordingAuthorization \<Rightarrow> bool \<times> RecordingAuthorization" where
  "ra_probe w a = (let (r, a') = admit w a in (is_ok r, a'))"

interpretation fence: revocable_fence ra_active ra_probe ra_revoke
proof unfold_locales
  fix w w' f
  show "fst (ra_probe w f) \<longleftrightarrow> ra_active w f"
    by (simp add: ra_probe_def case_prod_beta admit_ok_iff)
  show "\<not> ra_active w f \<Longrightarrow> \<not> ra_active w' (snd (ra_probe w f))"
    by (simp add: ra_probe_def case_prod_beta admit_refused_sticky)
  show "ra_active w' (snd (ra_probe w f)) \<Longrightarrow> ra_active w' f"
    using admit_never_activates by (simp add: ra_probe_def case_prod_beta)
  show "\<not> ra_active w (ra_revoke f)"
    by (rule ra_revoke_inactive)
qed

section \<open>The store of shared fences\<close>

type_synonym addr = nat
type_synonym fences = "addr \<Rightarrow> RecordingAuthorization option"

text \<open>\<open>with_active(|| ()).is_ok()\<close> through a handle; an unallocated handle never occurs.\<close>

definition fence_active :: "world \<Rightarrow> addr \<Rightarrow> fences \<Rightarrow> bool \<times> fences" where
  "fence_active w p s =
     (case s p of None \<Rightarrow> (False, s)
      | Some a \<Rightarrow> (let (b, a') = ra_probe w a in (b, s(p \<mapsto> a'))))"

definition fence_revoke :: "addr \<Rightarrow> fences \<Rightarrow> fences" where
  "fence_revoke p s = (case s p of None \<Rightarrow> s | Some a \<Rightarrow> s(p \<mapsto> ra_revoke a))"

definition fence_open :: "world \<Rightarrow> fences \<Rightarrow> addr \<Rightarrow> bool" where
  "fence_open w s p \<longleftrightarrow> (case s p of None \<Rightarrow> False | Some a \<Rightarrow> ra_active w a)"

lemma fst_fence_active [simp]: "fst (fence_active w p s) = fence_open w s p"
  by (auto simp: fence_active_def fence_open_def case_prod_beta fence.probe_result
      split: option.splits)

lemma fence_active_no_open: "fence_open w' (snd (fence_active w p s)) q \<Longrightarrow> fence_open w' s q"
  by (auto simp: fence_active_def fence_open_def case_prod_beta dest: fence.probe_no_open
      split: option.splits if_splits)

lemma fence_active_other: "q \<noteq> p \<Longrightarrow> snd (fence_active w p s) q = s q"
  by (auto simp: fence_active_def case_prod_beta split: option.splits)

lemma fence_active_open_id: "fence_open w s p \<Longrightarrow> snd (fence_active w p s) = s"
  by (auto simp: fence_active_def fence_open_def ra_probe_def admit_active split: option.splits)

lemma fence_active_dom: "dom (snd (fence_active w p s)) = dom s"
  by (auto simp: fence_active_def case_prod_beta split: option.splits)

lemma fence_revoke_closed: "\<not> fence_open w (fence_revoke p s) p"
  by (auto simp: fence_revoke_def fence_open_def ra_revoke_inactive split: option.splits)

lemma fence_revoke_no_open: "fence_open w (fence_revoke p s) q \<Longrightarrow> fence_open w s q"
  by (auto simp: fence_revoke_def fence_open_def ra_revoke_inactive split: option.splits if_splits)

lemma fence_revoke_dom: "dom (fence_revoke p s) = dom s"
  by (auto simp: fence_revoke_def split: option.splits)

section \<open>The login-window permission\<close>

record NativeTaskAuthorization =
  na_process_id :: u32
  na_window_handle :: u64
  na_session_poisoned :: bool
  na_runtime_session :: "string option"
  na_lifetime :: addr

definition native_refused :: HostError where
  "native_refused = ComputerUse InvalidTarget
     ''normal application authorization is expired, revoked or outside this exact session target''"

definition with_shared_lifetime :: "u32 \<Rightarrow> u64 \<Rightarrow> addr \<Rightarrow> NativeTaskAuthorization" where
  "with_shared_lifetime pid hwnd lifetime =
     \<lparr>na_process_id = pid, na_window_handle = hwnd, na_session_poisoned = False,
      na_runtime_session = None, na_lifetime = lifetime\<rparr>"

definition native_revoke :: "NativeTaskAuthorization \<Rightarrow> fences \<Rightarrow> fences" where
  "native_revoke a s = fence_revoke (na_lifetime a) s"

definition native_validate_target ::
  "NativeTaskAuthorization \<Rightarrow> u32 \<Rightarrow> u64 \<Rightarrow> HostError + unit" where
  "native_validate_target a pid hwnd =
     (if pid \<noteq> 0 \<and> hwnd \<noteq> 0 \<and> na_process_id a = pid \<and> na_window_handle a = hwnd
      then Inr () else Inl native_refused)"

definition bind_session ::
  "world \<Rightarrow> NativeTaskAuthorization \<Rightarrow> string \<Rightarrow> u32 \<Rightarrow> u64 \<Rightarrow> fences
   \<Rightarrow> (HostError + unit) \<times> NativeTaskAuthorization \<times> fences" where
  "bind_session w a session_id pid hwnd s =
     (case native_validate_target a pid hwnd of
        Inl e \<Rightarrow> (Inl e, a, s)
      | Inr _ \<Rightarrow>
        (let (active, s') = fence_active w (na_lifetime a) s in
         if \<not> active then (Inl native_refused, a, s')
         else if na_session_poisoned a then (Inl native_refused, a, s')
         else case na_runtime_session a of
             Some expected \<Rightarrow>
               if expected \<noteq> session_id then (Inl native_refused, a, s') else (Inr (), a, s')
           | None \<Rightarrow>
               if session_id \<noteq> [] then (Inr (), a\<lparr>na_runtime_session := Some session_id\<rparr>, s')
               else (Inl native_refused, a, s')))"

definition native_validate ::
  "world \<Rightarrow> NativeTaskAuthorization \<Rightarrow> string \<Rightarrow> u32 \<Rightarrow> u64 \<Rightarrow> fences
   \<Rightarrow> (HostError + unit) \<times> fences" where
  "native_validate w a session_id pid hwnd s =
     (case native_validate_target a pid hwnd of
        Inl e \<Rightarrow> (Inl e, s)
      | Inr _ \<Rightarrow>
        (let (active, s') = fence_active w (na_lifetime a) s in
         if \<not> active then (Inl native_refused, s')
         else if na_session_poisoned a then (Inl native_refused, s')
         else if na_runtime_session a = Some session_id then (Inr (), s')
         else (Inl native_refused, s')))"

lemma native_validate_ok_iff:
  "fst (native_validate w a sid pid hwnd s) = Inr () \<longleftrightarrow>
     pid \<noteq> 0 \<and> hwnd \<noteq> 0 \<and> na_process_id a = pid \<and> na_window_handle a = hwnd
     \<and> fence_open w s (na_lifetime a) \<and> \<not> na_session_poisoned a
     \<and> na_runtime_session a = Some sid"
  by (auto simp: native_validate_def native_validate_target_def case_prod_beta)

lemma bind_session_once:
  assumes "bind_session w a sid pid hwnd s = (Inr (), a', s')"
  shows "na_runtime_session a' = Some sid \<and> (na_runtime_session a = None \<or> a' = a)"
  using assms
  by (auto simp: bind_session_def native_validate_target_def case_prod_beta
      split: if_splits option.splits)

section \<open>Properties\<close>

text \<open>
  Revocation of the shared fence is final for every holder of a handle to it: after
  \<open>revoke\<close> no later admission of the fence succeeds, whatever the clocks read.
\<close>

theorem recording_revoke_final: "True \<notin> set (fst (run_probes ra_probe ws (ra_revoke a)))"
  by (rule fence.closed_is_final)

text \<open>
  An admission is granted exactly when the fence is neither poisoned nor revoked and
  the clocks are strictly before the wall-clock expiry and the retained monotonic deadline;
  a second admission succeeds exactly when the first did and the clocks allow it, so a
  refusal stands even if the wall clock is set back.
\<close>

theorem recording_admission_fails_closed:
  "(is_ok (fst (admit w a)) \<longleftrightarrow>
      \<not> ra_poisoned a \<and> \<not> ra_revoked a \<and> recording_clock w < ra_expires_at_unix_ms a
      \<and> (case ra_monotonic_deadline a of None \<Rightarrow> True | Some d \<Rightarrow> mono_ns w < d))
   \<and> (is_ok (fst (admit w' (snd (admit w a)))) \<longleftrightarrow>
      is_ok (fst (admit w a)) \<and> is_ok (fst (admit w' a)))"
proof (rule conjI)
  show "is_ok (fst (admit w a)) \<longleftrightarrow>
      \<not> ra_poisoned a \<and> \<not> ra_revoked a \<and> recording_clock w < ra_expires_at_unix_ms a
      \<and> (case ra_monotonic_deadline a of None \<Rightarrow> True | Some d \<Rightarrow> mono_ns w < d)"
    by (auto simp: admit_ok_iff ra_active_def ra_expired_def not_le split: option.splits)
  show "is_ok (fst (admit w' (snd (admit w a)))) \<longleftrightarrow>
      is_ok (fst (admit w a)) \<and> is_ok (fst (admit w' a))"
    using admit_refused_sticky [of w a w'] admit_active [of w a]
    by (cases "ra_active w a") (simp_all add: admit_ok_iff)
qed

end
