(* ===== verification/Broker.thy ===== *)
theory Broker
  imports Task_Authorization Recording_Authorization
begin

text \<open>
  The split-capability broker (\<open>crates/dcc-cua-host/src/task_authorization_broker.rs\<close>). The
  issuer half (\<open>register\<close>, \<open>revoke\<close>) stays with the authenticated embedding; the Host half
  implements the trait \<open>TrustedTaskAuthorizationHost\<close>. Both share one \<open>BrokerState\<close>.

  The state holds the \<open>BTreeMap\<close> of records as an association list, the flag of the poisoned
  mutex, and the store of the objects behind the \<open>Arc\<close>s a record shares with the Host: the
  recording fences and the login-window permissions. UUIDs are drawn from a sequence.
\<close>

section \<open>State\<close>

definition MAX_BROKER_AUTHORIZATIONS :: nat where
  "MAX_BROKER_AUTHORIZATIONS = 256"

datatype TrustedTaskAuthorizationTarget =
    ExactWindow (et_process_id: u32) (et_window_handle: u64)
  | OwnedBrowser ComputerUseOwnedBrowserLaunchSpec

record TrustedTaskAuthorizationRegistration =
  rg_connection_id :: "string option"
  rg_task_id :: "string option"
  rg_task_grant_id :: string
  rg_application_label :: string
  rg_target :: TrustedTaskAuthorizationTarget
  rg_allowed_host_methods :: "string list"
  rg_allowed_actions :: "TrustedTaskActionScope list"
  rg_allowed_browser_origins :: "string list"
  rg_browser_scope :: "TrustedTaskAuthorizationBrowserScope option"
  rg_recording_output_dir :: "string option"
  rg_capture_preparation :: "CapturePreparationAuthorization option"
  rg_expires_at_unix_ms :: u64

record TrustedTaskAuthorizationReceipt =
  rc_authorization_id :: string
  rc_window_capability :: string
  rc_expires_at_unix_ms :: u64

datatype TrustedTaskAuthorizationBrokerError =
    InvalidRegistration string | NotFound | Unavailable

record BrokerBinding =
  bb_connection_id :: string
  bb_session_id :: string
  bb_lease_request_digest :: string
  bb_target_process_id :: u32
  bb_target_window_handle :: u64

record BrokerRecord =
  br_registration :: TrustedTaskAuthorizationRegistration
  br_window_capability :: string
  br_binding :: "BrokerBinding option"
  br_revoked :: bool
  br_recording_authorization :: addr
  br_native_target_authorization :: "addr option"

record BrokerState =
  bk_poisoned :: bool
  bk_authorizations :: "(string \<times> BrokerRecord) list"
  bk_fences :: fences
  bk_natives :: "addr \<Rightarrow> NativeTaskAuthorization option"
  bk_next :: addr

definition trusted_task_authorization_broker :: BrokerState where
  "trusted_task_authorization_broker =
     \<lparr>bk_poisoned = False, bk_authorizations = [], bk_fences = (\<lambda>_. None),
      bk_natives = (\<lambda>_. None), bk_next = 0\<rparr>"

section \<open>Validating a registration\<close>

definition broker_validate_identity ::
  "string \<Rightarrow> nat \<Rightarrow> string \<Rightarrow> TrustedTaskAuthorizationBrokerError + unit" where
  "broker_validate_identity value max_chars field =
     guard (value = [] \<or> value \<noteq> str_trim value \<or> char_count value > max_chars \<or> has_control value)
       (InvalidRegistration (field @ '' must contain 1..'' @ show_nat max_chars
          @ '' printable characters without surrounding whitespace''))"

interpretation broker_identity: identity_validator "\<lambda>n s. broker_validate_identity s n field"
  by unfold_locales (auto simp: broker_validate_identity_def guard_def identity_ok_def)

definition validate_registration_identities ::
  "TrustedTaskAuthorizationRegistration \<Rightarrow> TrustedTaskAuthorizationBrokerError + unit" where
  "validate_registration_identities r =
     and_then (case rg_connection_id r of None \<Rightarrow> Inr ()
               | Some c \<Rightarrow> broker_validate_identity c 256 ''connection_id'') (\<lambda>_.
     and_then (case rg_task_id r of None \<Rightarrow> Inr ()
               | Some t \<Rightarrow> broker_validate_identity t 256 ''task_id'') (\<lambda>_.
     and_then (broker_validate_identity (rg_task_grant_id r) MAX_TASK_GRANT_ID_CHARS ''task_grant_id'') (\<lambda>_.
     and_then (broker_validate_identity (rg_application_label r) MAX_APPLICATION_LABEL_CHARS
                 ''application_label'') (\<lambda>_.
     guard (case rg_target r of ExactWindow pid hwnd \<Rightarrow> pid = 0 \<or> hwnd = 0 | OwnedBrowser _ \<Rightarrow> False)
       (InvalidRegistration ''the exact target PID and window handle must be non-zero'')))))"

definition validate_registration_scopes ::
  "externs \<Rightarrow> u64 \<Rightarrow> TrustedTaskAuthorizationRegistration \<Rightarrow> TrustedTaskAuthorizationBrokerError + unit" where
  "validate_registration_scopes x now r =
     and_then (guard (rg_expires_at_unix_ms r \<le> now
           \<or> saturating_sub (rg_expires_at_unix_ms r) now > MAX_TASK_AUTHORIZATION_TTL_MS)
         (InvalidRegistration ''expiry must be in the future and no more than 24 hours away'')) (\<lambda>_.
     and_then (guard (card (set (rg_allowed_actions r)) \<noteq> length (rg_allowed_actions r)
           \<or> card (set (rg_allowed_actions r)) > MAX_TASK_AUTHORIZATION_ACTIONS
           \<or> \<not> (\<forall>s\<in>set (rg_allowed_actions r). action_scope_validate x s))
         (InvalidRegistration ''allowed actions must be unique, closed, and bounded'')) (\<lambda>_.
     guard (set (rg_allowed_host_methods r) = {}
           \<or> card (set (rg_allowed_host_methods r)) \<noteq> length (rg_allowed_host_methods r)
           \<or> card (set (rg_allowed_host_methods r)) > 64
           \<or> (\<exists>m\<in>set (rg_allowed_host_methods r). \<not> is_task_authorizable_host_method m))
         (InvalidRegistration ''allowed Host methods must be unique, closed, and non-empty'')))"

definition is_exact_window :: "TrustedTaskAuthorizationTarget \<Rightarrow> bool" where
  "is_exact_window t \<longleftrightarrow> (case t of ExactWindow _ _ \<Rightarrow> True | OwnedBrowser _ \<Rightarrow> False)"

definition validate_registration_preparation ::
  "world \<Rightarrow> TrustedTaskAuthorizationRegistration \<Rightarrow> TrustedTaskAuthorizationBrokerError + unit" where
  "validate_registration_preparation w r =
     and_then (guard (list_ex (starts_with ''capture_preparation_'') (rg_allowed_host_methods r)
             \<noteq> (rg_capture_preparation r \<noteq> None)
           \<or> list_ex is_capture_preparation (rg_allowed_actions r) \<noteq> (rg_capture_preparation r \<noteq> None))
         (InvalidRegistration ''capture preparation requires its trusted journal permission and closed action scope'')) (\<lambda>_.
     guard (case rg_capture_preparation r of None \<Rightarrow> False
         | Some a \<Rightarrow> \<not> is_exact_window (rg_target r) \<or> cp_max_lifetime_ms a = 0
             \<or> cp_max_lifetime_ms a > MAX_PREPARATION_LIFETIME_MS
             \<or> \<not> is_ok (validate_recording_output_location w (cp_journal_directory a))
             \<or> rg_recording_output_dir r = Some (cp_journal_directory a)
             \<or> rg_browser_scope r \<noteq> None \<or> rg_allowed_browser_origins r \<noteq> []
             \<or> \<not> set preparation_methods \<subseteq> set (rg_allowed_host_methods r))
         (InvalidRegistration ''capture preparation requires an exact window, separate ordinary stable journal root, bounded lifetime, native state read and complete begin/state/stop methods''))"

definition validate_registration_recording ::
  "world \<Rightarrow> TrustedTaskAuthorizationRegistration \<Rightarrow> TrustedTaskAuthorizationBrokerError + unit" where
  "validate_registration_recording w r =
     guard (case rg_recording_output_dir r of None \<Rightarrow> False
         | Some d \<Rightarrow> \<not> is_exact_window (rg_target r)
             \<or> \<not> is_ok (validate_recording_output_location w d)
             \<or> \<not> set recording_methods \<subseteq> set (rg_allowed_host_methods r))
       (InvalidRegistration ''manual recording requires an exact window, a pre-created ordinary directory, and start/state/stop methods'')"

definition validate_registration_browser ::
  "externs \<Rightarrow> TrustedTaskAuthorizationRegistration \<Rightarrow> TrustedTaskAuthorizationBrokerError + unit" where
  "validate_registration_browser x r =
     and_then (guard (card (set (rg_allowed_browser_origins r)) \<noteq> length (rg_allowed_browser_origins r)
           \<or> card (set (rg_allowed_browser_origins r)) > MAX_TASK_AUTHORIZATION_ACTIONS
           \<or> (\<exists>b\<in>set (rg_allowed_browser_origins r). \<not> valid_browser_origin x b))
         (InvalidRegistration ''allowed browser origins must be unique exact HTTP(S) origins'')) (\<lambda>_.
     guard (case rg_browser_scope r of None \<Rightarrow> False
         | Some s \<Rightarrow> \<not> browser_scope_validate x s \<or> \<not> is_exact_window (rg_target r)
             \<or> rg_allowed_browser_origins r \<noteq> [bs_origin s]
             \<or> ''browser_snapshot'' \<notin> set (rg_allowed_host_methods r))
         (InvalidRegistration ''an exact browser scope requires an exact window, its sole origin, and browser_snapshot''))"

definition validate_registration ::
  "externs \<Rightarrow> world \<Rightarrow> TrustedTaskAuthorizationRegistration
   \<Rightarrow> TrustedTaskAuthorizationBrokerError + unit" where
  "validate_registration x w r =
     and_then (validate_registration_identities r) (\<lambda>_.
     and_then (validate_registration_scopes x (unix_time_millis w) r) (\<lambda>_.
     and_then (validate_registration_preparation w r) (\<lambda>_.
     and_then (validate_registration_recording w r) (\<lambda>_.
     validate_registration_browser x r))))"

section \<open>The issuer\<close>

definition authorization_id_of :: "string \<Rightarrow> string" where
  "authorization_id_of uuid = ''task-auth-'' @ uuid"

text \<open>The identifier loop of \<open>register_inner\<close>; \<open>None\<close> is a loop that never ends.\<close>

partial_function (option) draw_authorization_id ::
  "(string \<times> BrokerRecord) list \<Rightarrow> (nat \<Rightarrow> string) \<Rightarrow> nat \<Rightarrow> (string \<times> nat) option" where
  "draw_authorization_id records uuids k =
     (let candidate = authorization_id_of (uuids k) in
      if candidate \<notin> set (keys_of records) then Some (candidate, Suc k)
      else draw_authorization_id records uuids (Suc k))"

definition window_capability_of :: "string \<Rightarrow> string" where
  "window_capability_of uuid = ''cua-window-'' @ uuid"

definition registered_record ::
  "TrustedTaskAuthorizationRegistration \<Rightarrow> string \<Rightarrow> addr \<Rightarrow> BrokerRecord" where
  "registered_record g capability p =
     \<lparr>br_registration = g, br_window_capability = capability, br_binding = None, br_revoked = False,
      br_recording_authorization = p, br_native_target_authorization = None\<rparr>"

definition registration_fence :: "clock \<Rightarrow> u64 \<Rightarrow> nat option \<Rightarrow> RecordingAuthorization" where
  "registration_fence clk expires_at deadline =
     (case deadline of Some d \<Rightarrow> with_monotonic_deadline (clk 2) expires_at d
      | None \<Rightarrow> recording_authorization_new (clk 2) expires_at)"

definition live_records :: "clock \<Rightarrow> BrokerState \<Rightarrow> (string \<times> BrokerRecord) list" where
  "live_records clk st =
     retain (\<lambda>r. rg_expires_at_unix_ms (br_registration r) > unix_time_millis (clk 1)) (bk_authorizations st)"

definition register_inner ::
  "externs \<Rightarrow> clock \<Rightarrow> (nat \<Rightarrow> string) \<Rightarrow> TrustedTaskAuthorizationRegistration \<Rightarrow> nat option \<Rightarrow> BrokerState
   \<Rightarrow> ((TrustedTaskAuthorizationBrokerError + TrustedTaskAuthorizationReceipt) \<times> BrokerState) option" where
  "register_inner x clk uuids registration deadline st =
     (case validate_registration x (clk 0) registration of
        Inl e \<Rightarrow> Some (Inl e, st)
      | Inr _ \<Rightarrow>
        if bk_poisoned st then Some (Inl Unavailable, st)
        else if length (live_records clk st) \<ge> MAX_BROKER_AUTHORIZATIONS
        then Some (Inl Unavailable, st\<lparr>bk_authorizations := live_records clk st\<rparr>)
        else Option.bind (draw_authorization_id (live_records clk st) uuids 0) (\<lambda>(authorization_id, k).
          if \<not> is_ok (fst (admit (clk 3)
                 (registration_fence clk (rg_expires_at_unix_ms registration) deadline)))
          then Some (Inl (InvalidRegistration ''the retained task deadline has expired''),
                 st\<lparr>bk_authorizations := live_records clk st\<rparr>)
          else Some
            (Inr \<lparr>rc_authorization_id = authorization_id,
                  rc_window_capability = window_capability_of (uuids k),
                  rc_expires_at_unix_ms = rg_expires_at_unix_ms registration\<rparr>,
             st\<lparr>bk_authorizations := AList.update authorization_id
                   (registered_record registration (window_capability_of (uuids k)) (bk_next st))
                   (live_records clk st),
                bk_fences := (bk_fences st)(bk_next st \<mapsto>
                   registration_fence clk (rg_expires_at_unix_ms registration) deadline),
                bk_next := Suc (bk_next st)\<rparr>)))"

definition register ::
  "externs \<Rightarrow> clock \<Rightarrow> (nat \<Rightarrow> string) \<Rightarrow> TrustedTaskAuthorizationRegistration \<Rightarrow> BrokerState
   \<Rightarrow> ((TrustedTaskAuthorizationBrokerError + TrustedTaskAuthorizationReceipt) \<times> BrokerState) option" where
  "register x clk uuids registration st = register_inner x clk uuids registration None st"

definition register_with_monotonic_deadline ::
  "externs \<Rightarrow> clock \<Rightarrow> (nat \<Rightarrow> string) \<Rightarrow> TrustedTaskAuthorizationRegistration \<Rightarrow> nat \<Rightarrow> BrokerState
   \<Rightarrow> ((TrustedTaskAuthorizationBrokerError + TrustedTaskAuthorizationReceipt) \<times> BrokerState) option" where
  "register_with_monotonic_deadline x clk uuids registration deadline st =
     register_inner x clk uuids registration (Some deadline) st"

definition revoke_handles :: "BrokerState \<Rightarrow> BrokerRecord \<Rightarrow> fences" where
  "revoke_handles st r =
     (let fences = fence_revoke (br_recording_authorization r) (bk_fences st) in
      case Option.bind (br_native_target_authorization r) (bk_natives st) of
        None \<Rightarrow> fences
      | Some authorization \<Rightarrow> native_revoke authorization fences)"

definition broker_revoke ::
  "string \<Rightarrow> BrokerState \<Rightarrow> (TrustedTaskAuthorizationBrokerError + unit) \<times> BrokerState" where
  "broker_revoke a st =
     (if bk_poisoned st then (Inl Unavailable, st)
      else case map_of (bk_authorizations st) a of
        None \<Rightarrow> (Inl NotFound, st)
      | Some r \<Rightarrow>
        (Inr (), st\<lparr>bk_fences := revoke_handles st r,
           bk_authorizations := AList.update a (r\<lparr>br_revoked := True\<rparr>) (bk_authorizations st)\<rparr>))"

section \<open>The Host half\<close>

definition broker_unavailable :: TrustedTaskAuthorizationHostError where
  "broker_unavailable =
     HostUnavailable ''the constructor-owned task authorization broker rejected the request''"

text \<open>\<open>BrokerRecord::is_active\<close>; the fence is asked only for a record that is not revoked.\<close>

definition record_is_active :: "world \<Rightarrow> BrokerRecord \<Rightarrow> fences \<Rightarrow> bool \<times> fences" where
  "record_is_active w r s =
     (if br_revoked r then (False, s) else fence_active w (br_recording_authorization r) s)"

definition target_matches :: "TrustedTaskAuthorizationRequest \<Rightarrow> TrustedTaskAuthorizationTarget \<Rightarrow> bool" where
  "target_matches q t \<longleftrightarrow>
     (case t of
        ExactWindow pid hwnd \<Rightarrow> rq_target_process_id q = pid \<and> rq_target_window_handle q = hwnd
      | OwnedBrowser _ \<Rightarrow> rq_target_process_id q \<noteq> 0 \<and> rq_target_window_handle q \<noteq> 0)"

definition authorize_exact_match :: "TrustedTaskAuthorizationRequest \<Rightarrow> BrokerRecord \<Rightarrow> bool" where
  "authorize_exact_match q r \<longleftrightarrow>
     rq_task_grant_id q = rg_task_grant_id (br_registration r)
     \<and> rq_application_label q = rg_application_label (br_registration r)
     \<and> rq_window_capability q = br_window_capability r
     \<and> (case rg_task_id (br_registration r) of None \<Rightarrow> True | Some t \<Rightarrow> rq_session_id q = t)
     \<and> (case rg_connection_id (br_registration r) of None \<Rightarrow> True | Some c \<Rightarrow> rq_connection_id q = c)
     \<and> target_matches q (rg_target (br_registration r))"

definition needs_native_target :: "TrustedTaskAuthorizationRegistration \<Rightarrow> bool" where
  "needs_native_target g \<longleftrightarrow>
     list_ex (\<lambda>a. sc_authorization_category a \<in> {''credential'', ''account_access''}
       \<and> (if sc_input_kind a = ''semantic'' \<or> sc_input_kind a = ''raw_input''
          then ''execute_action'' \<in> set (rg_allowed_host_methods g)
          else if sc_input_kind a = ''browser''
          then sc_action a = ''browser_type'' \<and> sc_secret_input a
               \<and> ''browser_type'' \<in> set (rg_allowed_host_methods g)
          else False)) (rg_allowed_actions g)"

definition lease_of ::
  "u64 \<Rightarrow> TrustedTaskAuthorizationRequest \<Rightarrow> TrustedTaskAuthorizationRegistration
   \<Rightarrow> TrustedTaskAuthorizationLease" where
  "lease_of now q g =
     \<lparr>ls_connection_id = rq_connection_id q, ls_authorization_id = rq_authorization_id q,
      ls_session_id = rq_session_id q, ls_task_grant_id = rq_task_grant_id q,
      ls_application_label = rq_application_label q, ls_window_capability = rq_window_capability q,
      ls_target_process_id = rq_target_process_id q,
      ls_target_window_handle = rq_target_window_handle q,
      ls_allowed_host_methods = rg_allowed_host_methods g,
      ls_allowed_actions = rg_allowed_actions g,
      ls_allowed_browser_origins = rg_allowed_browser_origins g,
      ls_browser_scope = rg_browser_scope g, ls_recording_output_dir = rg_recording_output_dir g,
      ls_capture_preparation = rg_capture_preparation g, ls_issued_at_unix_ms = now,
      ls_expires_at_unix_ms = rg_expires_at_unix_ms g, ls_request_digest = rq_request_digest q\<rparr>"

definition broker_authorize ::
  "clock \<Rightarrow> TrustedTaskAuthorizationRequest \<Rightarrow> BrokerState
   \<Rightarrow> (TrustedTaskAuthorizationHostError + TrustedTaskAuthorizationLease) \<times> BrokerState" where
  "broker_authorize clk q st =
     (if rq_schema q \<noteq> TRUSTED_TASK_AUTHORIZATION_SCHEMA then (Inl HostDenied, st)
      else let now = unix_time_millis (clk 0) in
      if bk_poisoned st then (Inl broker_unavailable, st)
      else case map_of (bk_authorizations st) (rq_authorization_id q) of
        None \<Rightarrow> (Inl HostDenied, st)
      | Some r \<Rightarrow>
        let (active, fences) = record_is_active (clk 1) r (bk_fences st);
            st = st\<lparr>bk_fences := fences\<rparr>
        in if \<not> active \<or> br_binding r \<noteq> None
              \<or> rg_expires_at_unix_ms (br_registration r) \<le> now \<or> \<not> authorize_exact_match q r
           then (Inl HostDenied, st)
           else
             let r = r\<lparr>br_binding := Some \<lparr>bb_connection_id = rq_connection_id q,
                     bb_session_id = rq_session_id q, bb_lease_request_digest = rq_request_digest q,
                     bb_target_process_id = rq_target_process_id q,
                     bb_target_window_handle = rq_target_window_handle q\<rparr>\<rparr>;
                 p = bk_next st;
                 st = (if needs_native_target (br_registration r)
                   then st\<lparr>bk_natives := (bk_natives st)(p \<mapsto> with_shared_lifetime (rq_target_process_id q)
                            (rq_target_window_handle q) (br_recording_authorization r)),
                          bk_next := Suc p\<rparr> else st);
                 r = (if needs_native_target (br_registration r)
                   then r\<lparr>br_native_target_authorization := Some p\<rparr> else r)
             in (Inr (lease_of now q (br_registration r)),
                 st\<lparr>bk_authorizations := AList.update (rq_authorization_id q) r (bk_authorizations st)\<rparr>))"

definition validate_exact_match ::
  "TrustedTaskAuthorizationValidationRequest \<Rightarrow> BrokerRecord \<Rightarrow> BrokerBinding \<Rightarrow> bool" where
  "validate_exact_match v r b \<longleftrightarrow>
     vr_session_id v = bb_session_id b \<and> vr_connection_id v = bb_connection_id b
     \<and> vr_lease_request_digest v = bb_lease_request_digest b
     \<and> vr_task_grant_id v = rg_task_grant_id (br_registration r)
     \<and> vr_application_label v = rg_application_label (br_registration r)
     \<and> vr_window_capability v = br_window_capability r
     \<and> vr_target_process_id v = bb_target_process_id b
     \<and> vr_target_window_handle v = bb_target_window_handle b
     \<and> vr_action_scope v \<in> set (rg_allowed_actions (br_registration r))"

definition validate_lease_exact_match ::
  "TrustedTaskAuthorizationLeaseValidationRequest \<Rightarrow> BrokerRecord \<Rightarrow> BrokerBinding \<Rightarrow> bool" where
  "validate_lease_exact_match v r b \<longleftrightarrow>
     lv_session_id v = bb_session_id b \<and> lv_connection_id v = bb_connection_id b
     \<and> lv_lease_request_digest v = bb_lease_request_digest b
     \<and> lv_task_grant_id v = rg_task_grant_id (br_registration r)
     \<and> lv_application_label v = rg_application_label (br_registration r)
     \<and> lv_window_capability v = br_window_capability r
     \<and> lv_target_process_id v = bb_target_process_id b
     \<and> lv_target_window_handle v = bb_target_window_handle b"

text \<open>The common tail of the two validations: look the bound record up, match it, report its status.\<close>

definition broker_decide ::
  "world \<Rightarrow> string \<Rightarrow> (BrokerRecord \<Rightarrow> BrokerBinding \<Rightarrow> bool) \<Rightarrow> string \<Rightarrow> BrokerState
   \<Rightarrow> (TrustedTaskAuthorizationHostError + TrustedTaskAuthorizationValidationDecision) \<times> BrokerState" where
  "broker_decide w a exact_match request_digest st =
     (if bk_poisoned st then (Inl broker_unavailable, st)
      else case map_of (bk_authorizations st) a of
        None \<Rightarrow> (Inl broker_unavailable, st)
      | Some r \<Rightarrow>
        case br_binding r of
          None \<Rightarrow> (Inl broker_unavailable, st)
        | Some b \<Rightarrow>
          if \<not> exact_match r b then (Inl broker_unavailable, st)
          else let (active, fences) = record_is_active w r (bk_fences st) in
            (Inr \<lparr>vd_status = (if \<not> active then Revoked else Active),
                  vd_request_digest = request_digest\<rparr>, st\<lparr>bk_fences := fences\<rparr>))"

definition broker_validate ::
  "clock \<Rightarrow> TrustedTaskAuthorizationValidationRequest \<Rightarrow> BrokerState
   \<Rightarrow> (TrustedTaskAuthorizationHostError + TrustedTaskAuthorizationValidationDecision) \<times> BrokerState" where
  "broker_validate clk v st =
     (if vr_schema v \<noteq> TRUSTED_TASK_AUTHORIZATION_VALIDATION_SCHEMA then (Inl broker_unavailable, st)
      else broker_decide (clk 0) (vr_authorization_id v) (validate_exact_match v) (vr_request_digest v) st)"

definition broker_validate_lease ::
  "clock \<Rightarrow> TrustedTaskAuthorizationLeaseValidationRequest \<Rightarrow> BrokerState
   \<Rightarrow> (TrustedTaskAuthorizationHostError + TrustedTaskAuthorizationValidationDecision) \<times> BrokerState" where
  "broker_validate_lease clk v st =
     (if lv_schema v \<noteq> TRUSTED_TASK_AUTHORIZATION_LEASE_VALIDATION_SCHEMA then (Inl broker_unavailable, st)
      else broker_decide (clk 0) (lv_authorization_id v) (validate_lease_exact_match v) (lv_request_digest v) st)"

definition lease_matches_binding ::
  "TrustedTaskAuthorizationLease \<Rightarrow> BrokerRecord \<Rightarrow> BrokerBinding \<Rightarrow> bool" where
  "lease_matches_binding l r b \<longleftrightarrow>
     bb_connection_id b = ls_connection_id l \<and> bb_session_id b = ls_session_id l
     \<and> bb_lease_request_digest b = ls_request_digest l
     \<and> bb_target_process_id b = ls_target_process_id l
     \<and> bb_target_window_handle b = ls_target_window_handle l
     \<and> br_window_capability r = ls_window_capability l
     \<and> rg_task_grant_id (br_registration r) = ls_task_grant_id l
     \<and> rg_application_label (br_registration r) = ls_application_label l"

definition lease_matches_scope ::
  "TrustedTaskAuthorizationLease \<Rightarrow> TrustedTaskAuthorizationRegistration \<Rightarrow> bool" where
  "lease_matches_scope l g \<longleftrightarrow>
     rg_allowed_actions g = ls_allowed_actions l
     \<and> rg_allowed_host_methods g = ls_allowed_host_methods l
     \<and> rg_allowed_browser_origins g = ls_allowed_browser_origins l
     \<and> rg_browser_scope g = ls_browser_scope l
     \<and> rg_recording_output_dir g = ls_recording_output_dir l
     \<and> rg_capture_preparation g = ls_capture_preparation l"

definition native_target_authorization ::
  "clock \<Rightarrow> TrustedTaskAuthorizationLease \<Rightarrow> BrokerState \<Rightarrow> addr option \<times> BrokerState" where
  "native_target_authorization clk l st =
     (if bk_poisoned st then (None, st)
      else case map_of (bk_authorizations st) (ls_authorization_id l) of None \<Rightarrow> (None, st)
      | Some r \<Rightarrow>
        case br_binding r of None \<Rightarrow> (None, st)
        | Some b \<Rightarrow>
          let (active, fences) = record_is_active (clk 0) r (bk_fences st);
              st = st\<lparr>bk_fences := fences\<rparr>
          in if \<not> active
                \<or> rg_expires_at_unix_ms (br_registration r) \<noteq> ls_expires_at_unix_ms l
                \<or> rg_expires_at_unix_ms (br_registration r) \<le> unix_time_millis (clk 1)
                \<or> \<not> lease_matches_binding l r b \<or> \<not> lease_matches_scope l (br_registration r)
             then (None, st) else (br_native_target_authorization r, st))"

definition broker_recording_authorization ::
  "clock \<Rightarrow> TrustedTaskAuthorizationLease \<Rightarrow> BrokerState \<Rightarrow> addr option \<times> BrokerState" where
  "broker_recording_authorization clk l st =
     (if bk_poisoned st then (None, st)
      else case map_of (bk_authorizations st) (ls_authorization_id l) of None \<Rightarrow> (None, st)
      | Some r \<Rightarrow>
        case br_binding r of None \<Rightarrow> (None, st)
        | Some b \<Rightarrow>
          let (active, fences) = record_is_active (clk 0) r (bk_fences st) in
          if \<not> active \<or> rg_expires_at_unix_ms (br_registration r) \<noteq> ls_expires_at_unix_ms l
             \<or> \<not> lease_matches_binding l r b
          then (None, st\<lparr>bk_fences := fences\<rparr>)
          else let (again, fences') = fence_active (clk 1) (br_recording_authorization r) fences in
            (if again then Some (br_recording_authorization r) else None, st\<lparr>bk_fences := fences'\<rparr>))"

definition broker_host :: "BrokerState task_authorization_host" where
  "broker_host = \<lparr>h_authorize = broker_authorize, h_validate = broker_validate,
     h_validate_lease = broker_validate_lease\<rparr>"

section \<open>A dead authorization\<close>

definition fence_shut :: "fences \<Rightarrow> addr \<Rightarrow> bool" where
  "fence_shut s p \<longleftrightarrow> (case s p of None \<Rightarrow> True | Some a \<Rightarrow> ra_poisoned a \<or> ra_revoked a)"

definition record_dead :: "fences \<Rightarrow> BrokerRecord \<Rightarrow> bool" where
  "record_dead s r \<longleftrightarrow> br_revoked r \<or> fence_shut s (br_recording_authorization r)"

definition broker_dead :: "string \<Rightarrow> BrokerState \<Rightarrow> bool" where
  "broker_dead a st \<longleftrightarrow>
     (case map_of (bk_authorizations st) a of None \<Rightarrow> True | Some r \<Rightarrow> record_dead (bk_fences st) r)"

lemma fence_shut_not_open: "fence_shut s p \<Longrightarrow> \<not> fence_open w s p"
  by (auto simp: fence_shut_def fence_open_def ra_active_def split: option.splits)

lemma fence_shut_active: "fence_shut s q \<Longrightarrow> fence_shut (snd (fence_active w p s)) q"
  by (auto simp: fence_shut_def fence_active_def ra_probe_def admit_def case_prod_beta
      split: option.splits if_splits)

lemma fence_shut_revoke: "fence_shut s q \<Longrightarrow> fence_shut (fence_revoke p s) q"
  by (auto simp: fence_shut_def fence_revoke_def ra_revoke_def split: option.splits if_splits)

lemma fence_shut_revoked: "fence_shut (fence_revoke p s) p"
  by (auto simp: fence_shut_def fence_revoke_def ra_revoke_def split: option.splits if_splits)

lemma record_is_active_iff:
  "fst (record_is_active w r s) \<longleftrightarrow> \<not> br_revoked r \<and> fence_open w s (br_recording_authorization r)"
  by (simp add: record_is_active_def)

lemma record_active_not_dead: "fst (record_is_active w r s) \<Longrightarrow> \<not> record_dead s r"
  using fence_shut_not_open by (auto simp: record_is_active_iff record_dead_def)

lemma record_dead_active: "record_dead s q \<Longrightarrow> record_dead (snd (record_is_active w r s)) q"
  by (auto simp: record_dead_def record_is_active_def fence_shut_active)

lemma broker_dead_fences:
  "broker_dead a st \<Longrightarrow> broker_dead a (st\<lparr>bk_fences := snd (record_is_active w r (bk_fences st))\<rparr>)"
  by (auto simp: broker_dead_def record_dead_active split: option.splits)

lemma broker_decideD:
  assumes "broker_decide w a m dg st = (Inr d, st')"
  obtains r b where "\<not> bk_poisoned st" "map_of (bk_authorizations st) a = Some r"
    "br_binding r = Some b" "m r b" "vd_request_digest d = dg"
    "vd_status d = Active \<longleftrightarrow> fst (record_is_active w r (bk_fences st))"
    "st' = st\<lparr>bk_fences := snd (record_is_active w r (bk_fences st))\<rparr>"
  using assms
  by (auto simp: broker_decide_def case_prod_beta split: if_splits option.splits)

lemma broker_validate_okD:
  assumes "is_ok (fst (broker_validate clk v st))"
  obtains r b where "map_of (bk_authorizations st) (vr_authorization_id v) = Some r"
    "br_binding r = Some b" "validate_exact_match v r b"
proof -
  obtain d st' where "broker_validate clk v st = (Inr d, st')"
    using assms by (metis is_ok_iff prod.collapse)
  then have "broker_decide (clk 0) (vr_authorization_id v) (validate_exact_match v)
      (vr_request_digest v) st = (Inr d, st')"
    by (simp add: broker_validate_def split: if_splits)
  then show ?thesis using that by (rule broker_decideD)
qed

lemma broker_validate_lease_okD:
  assumes "is_ok (fst (broker_validate_lease clk v st))"
  obtains r b where "map_of (bk_authorizations st) (lv_authorization_id v) = Some r"
    "br_binding r = Some b" "validate_lease_exact_match v r b"
proof -
  obtain d st' where "broker_validate_lease clk v st = (Inr d, st')"
    using assms by (metis is_ok_iff prod.collapse)
  then have "broker_decide (clk 0) (lv_authorization_id v) (validate_lease_exact_match v)
      (lv_request_digest v) st = (Inr d, st')"
    by (simp add: broker_validate_lease_def split: if_splits)
  then show ?thesis using that by (rule broker_decideD)
qed

lemma broker_decide_state:
  "snd (broker_decide w a m dg st) \<in>
     {st} \<union> {st\<lparr>bk_fences := snd (record_is_active w r (bk_fences st))\<rparr> | r. True}"
  by (auto simp: broker_decide_def case_prod_beta split: option.splits)

lemma broker_decide_active:
  "broker_decide w a m dg st = (Inr d, st') \<Longrightarrow> vd_status d = Active \<Longrightarrow> \<not> broker_dead a st"
  by (auto elim!: broker_decideD simp: broker_dead_def dest: record_active_not_dead)

lemma broker_decide_dead: "broker_dead a st \<Longrightarrow> broker_dead a (snd (broker_decide w b m dg st))"
  using broker_decide_state [of w b m dg st] broker_dead_fences by auto

lemma broker_authorizeD:
  assumes "broker_authorize clk q st = (Inr l, st')"
  obtains r where "rq_schema q = TRUSTED_TASK_AUTHORIZATION_SCHEMA" "\<not> bk_poisoned st"
    "map_of (bk_authorizations st) (rq_authorization_id q) = Some r"
    "fst (record_is_active (clk 1) r (bk_fences st))" "br_binding r = None"
    "unix_time_millis (clk 0) < rg_expires_at_unix_ms (br_registration r)"
    "authorize_exact_match q r" "l = lease_of (unix_time_millis (clk 0)) q (br_registration r)"
  using assms
  by (auto simp: broker_authorize_def case_prod_beta Let_def not_le split: if_splits option.splits)

lemma broker_authorize_dead: "broker_dead a st \<Longrightarrow> broker_dead a (snd (broker_authorize clk q st))"
  by (auto simp: broker_authorize_def broker_dead_def case_prod_beta Let_def record_dead_active
      dest: record_active_not_dead split: option.splits)

interpretation broker: authorization_host broker_host broker_dead
proof unfold_locales
  fix clk r st l st'
  assume "h_authorize broker_host clk r st = (Inr l, st')"
  then have "broker_authorize clk r st = (Inr l, st')" by (simp add: broker_host_def)
  then show "lease_fields_match r l \<and> \<not> broker_dead (rq_authorization_id r) st"
    by (auto elim!: broker_authorizeD
        simp: lease_fields_match_def lease_of_def broker_dead_def dest: record_active_not_dead)
next
  fix clk v st d st'
  assume "h_validate broker_host clk v st = (Inr d, st')"
  then have "broker_decide (clk 0) (vr_authorization_id v) (validate_exact_match v)
      (vr_request_digest v) st = (Inr d, st')"
    by (simp add: broker_host_def broker_validate_def split: if_splits)
  then show "vd_request_digest d = vr_request_digest v
      \<and> (vd_status d = Active \<longrightarrow> \<not> broker_dead (vr_authorization_id v) st)"
    using broker_decide_active by (auto elim: broker_decideD)
next
  fix clk v st d st'
  assume "h_validate_lease broker_host clk v st = (Inr d, st')"
  then have "broker_decide (clk 0) (lv_authorization_id v) (validate_lease_exact_match v)
      (lv_request_digest v) st = (Inr d, st')"
    by (simp add: broker_host_def broker_validate_lease_def split: if_splits)
  then show "vd_request_digest d = lv_request_digest v
      \<and> (vd_status d = Active \<longrightarrow> \<not> broker_dead (lv_authorization_id v) st)"
    using broker_decide_active by (auto elim: broker_decideD)
qed (simp_all add: broker_host_def broker_authorize_dead broker_validate_def
    broker_validate_lease_def broker_decide_dead)

end
