(* ===== verification/Broker_Runs.thy ===== *)
theory Broker_Runs
  imports Broker
begin

text \<open>
  Runs of the broker: a step relation over the issuer's calls, the Host's calls and the
  operations of the holders of a fence or a login-window permission; the invariant of the
  reachable states; finality of revocation, single use, termination of registration, and
  the agreement between what the broker registers and what the Host accepts.
\<close>

section \<open>Steps of the broker and of the holders of its handles\<close>

text \<open>
  An event says which authorization a step registered or granted, which fence it admitted
  through a handle, or which login-window permission it validated.
\<close>

datatype broker_event = Registers string | Grants string | Admits addr | Permits addr | Quiet

definition ok_event :: "bool \<Rightarrow> broker_event \<Rightarrow> broker_event" where
  "ok_event b e = (if b then e else Quiet)"

definition decision_active ::
  "TrustedTaskAuthorizationHostError + TrustedTaskAuthorizationValidationDecision \<Rightarrow> bool" where
  "decision_active res \<longleftrightarrow> (case res of Inl _ \<Rightarrow> False | Inr d \<Rightarrow> vd_status d = Active)"

inductive broker_step :: "externs \<Rightarrow> BrokerState \<Rightarrow> broker_event \<Rightarrow> BrokerState \<Rightarrow> bool" for x where
  step_registered: "register_inner x clk uuids g deadline st = Some (Inr rc, st') \<Longrightarrow>
     broker_step x st (Registers (rc_authorization_id rc)) st'"
| step_not_registered: "register_inner x clk uuids g deadline st = Some (Inl e, st') \<Longrightarrow>
     broker_step x st Quiet st'"
| step_revoke: "broker_revoke a st = (res, st') \<Longrightarrow> broker_step x st Quiet st'"
| step_authorize: "broker_authorize clk q st = (res, st') \<Longrightarrow>
     broker_step x st (ok_event (is_ok res) (Grants (rq_authorization_id q))) st'"
| step_validate: "broker_validate clk v st = (res, st') \<Longrightarrow>
     broker_step x st (ok_event (decision_active res) (Grants (vr_authorization_id v))) st'"
| step_validate_lease: "broker_validate_lease clk lv st = (res, st') \<Longrightarrow>
     broker_step x st (ok_event (decision_active res) (Grants (lv_authorization_id lv))) st'"
| step_native: "native_target_authorization clk l st = (h, st') \<Longrightarrow>
     broker_step x st (ok_event (h \<noteq> None) (Grants (ls_authorization_id l))) st'"
| step_recording: "broker_recording_authorization clk l st = (h, st') \<Longrightarrow>
     broker_step x st (ok_event (h \<noteq> None) (Grants (ls_authorization_id l))) st'"
| step_admit: "fence_active w p (bk_fences st) = (b, s') \<Longrightarrow>
     broker_step x st (ok_event b (Admits p)) (st\<lparr>bk_fences := s'\<rparr>)"
| step_fence_revoke: "broker_step x st Quiet (st\<lparr>bk_fences := fence_revoke p (bk_fences st)\<rparr>)"
| step_bind: "bk_natives st n = Some na \<Longrightarrow>
     bind_session w na sid pid hwnd (bk_fences st) = (res, na', s') \<Longrightarrow>
     broker_step x st (ok_event (is_ok res) (Permits n))
       (st\<lparr>bk_natives := (bk_natives st)(n \<mapsto> na'), bk_fences := s'\<rparr>)"
| step_permit: "bk_natives st n = Some na \<Longrightarrow>
     native_validate w na sid pid hwnd (bk_fences st) = (res, s') \<Longrightarrow>
     broker_step x st (ok_event (is_ok res) (Permits n)) (st\<lparr>bk_fences := s'\<rparr>)"

inductive broker_run :: "externs \<Rightarrow> BrokerState \<Rightarrow> broker_event list \<Rightarrow> BrokerState \<Rightarrow> bool" for x where
  run_done: "broker_run x st [] st"
| run_step: "broker_step x st e st' \<Longrightarrow> broker_run x st' es st'' \<Longrightarrow> broker_run x st (e # es) st''"

definition broker_reachable :: "externs \<Rightarrow> BrokerState \<Rightarrow> bool" where
  "broker_reachable x st \<longleftrightarrow> (\<exists>es. broker_run x trusted_task_authorization_broker es st)"

section \<open>Well-formed states\<close>

definition native_wf :: "BrokerState \<Rightarrow> BrokerRecord \<Rightarrow> addr \<Rightarrow> bool" where
  "native_wf st r n \<longleftrightarrow>
     (case (bk_natives st n, br_binding r) of
        (Some na, Some b) \<Rightarrow>
          na_lifetime na = br_recording_authorization r
          \<and> na_process_id na = bb_target_process_id b \<and> na_window_handle na = bb_target_window_handle b
      | _ \<Rightarrow> False)"

definition record_wf :: "BrokerState \<Rightarrow> BrokerRecord \<Rightarrow> bool" where
  "record_wf st r \<longleftrightarrow>
     bk_fences st (br_recording_authorization r) \<noteq> None
     \<and> (br_revoked r \<longrightarrow> fence_shut (bk_fences st) (br_recording_authorization r))
     \<and> (case br_native_target_authorization r of None \<Rightarrow> True | Some n \<Rightarrow> native_wf st r n)"

definition broker_wf :: "BrokerState \<Rightarrow> bool" where
  "broker_wf st \<longleftrightarrow>
     distinct (keys_of (bk_authorizations st))
     \<and> length (bk_authorizations st) \<le> MAX_BROKER_AUTHORIZATIONS
     \<and> distinct (map (br_recording_authorization \<circ> snd) (bk_authorizations st))
     \<and> (\<forall>r\<in>set (map snd (bk_authorizations st)). record_wf st r)
     \<and> (\<forall>p\<ge>bk_next st. bk_fences st p = None \<and> bk_natives st p = None)"

text \<open>What every operation does to the shared objects: none is freed, none is reopened or retargeted.\<close>

definition heap_le :: "BrokerState \<Rightarrow> BrokerState \<Rightarrow> bool" where
  "heap_le st st' \<longleftrightarrow>
     (\<forall>p. bk_fences st p \<noteq> None \<longrightarrow> bk_fences st' p \<noteq> None
        \<and> (fence_shut (bk_fences st) p \<longrightarrow> fence_shut (bk_fences st') p))
     \<and> (\<forall>n na. bk_natives st n = Some na \<longrightarrow> (\<exists>na'. bk_natives st' n = Some na'
        \<and> na_lifetime na' = na_lifetime na \<and> na_process_id na' = na_process_id na
        \<and> na_window_handle na' = na_window_handle na))"

lemma heap_le_nativeD:
  "heap_le st st' \<Longrightarrow> bk_natives st n = Some na \<Longrightarrow>
   \<exists>na'. bk_natives st' n = Some na' \<and> na_lifetime na' = na_lifetime na"
  by (fastforce simp: heap_le_def)

lemma heap_le_refl [simp]: "heap_le st st"
  by (simp add: heap_le_def)

lemma heap_le_record_wf: "heap_le st st' \<Longrightarrow> record_wf st r \<Longrightarrow> record_wf st' r"
proof -
  assume le: "heap_le st st'" and wf: "record_wf st r"
  have "native_wf st' r n" if "native_wf st r n" for n
    using that le by (fastforce simp: native_wf_def heap_le_def split: option.splits)
  then show ?thesis
    using le wf by (auto simp: record_wf_def heap_le_def split: option.splits)
qed

text \<open>An operation that only changes shared objects and allocates nothing.\<close>

lemma broker_wf_heap:
  assumes "broker_wf st" and "heap_le st st'" and "bk_authorizations st' = bk_authorizations st"
    and "bk_next st' = bk_next st"
    and "\<And>p. bk_fences st p = None \<Longrightarrow> bk_fences st' p = None"
    and "\<And>p. bk_natives st p = None \<Longrightarrow> bk_natives st' p = None"
  shows "broker_wf st'"
  using assms heap_le_record_wf [OF assms(2)] by (auto simp: broker_wf_def)

lemma fence_active_None: "snd (fence_active w p s) q = None \<longleftrightarrow> s q = None"
  by (metis domIff fence_active_dom)

lemma fence_revoke_None: "fence_revoke p s q = None \<longleftrightarrow> s q = None"
  by (metis domIff fence_revoke_dom)

lemma record_is_active_None: "snd (record_is_active w r s) q = None \<longleftrightarrow> s q = None"
  by (simp add: record_is_active_def fence_active_None)

lemma record_is_active_shut: "fence_shut s q \<Longrightarrow> fence_shut (snd (record_is_active w r s)) q"
  by (simp add: record_is_active_def fence_shut_active)

lemma heap_le_probe: "heap_le st (st\<lparr>bk_fences := snd (fence_active w p (bk_fences st))\<rparr>)"
  using fence_active_None [of w p "bk_fences st"] by (auto simp: heap_le_def fence_shut_active)

lemma heap_le_active: "heap_le st (st\<lparr>bk_fences := snd (record_is_active w r (bk_fences st))\<rparr>)"
  using record_is_active_None [of w r "bk_fences st"] by (auto simp: heap_le_def record_is_active_shut)

lemma heap_le_revoke: "heap_le st (st\<lparr>bk_fences := fence_revoke p (bk_fences st)\<rparr>)"
  using fence_revoke_None [of p "bk_fences st"] by (auto simp: heap_le_def fence_shut_revoke)

lemma broker_wf_probe: "broker_wf st \<Longrightarrow> broker_wf (st\<lparr>bk_fences := snd (fence_active w p (bk_fences st))\<rparr>)"
  by (erule broker_wf_heap [OF _ heap_le_probe]) (simp_all add: fence_active_None)

lemma broker_wf_active: "broker_wf st \<Longrightarrow> broker_wf (st\<lparr>bk_fences := snd (record_is_active w r (bk_fences st))\<rparr>)"
  by (erule broker_wf_heap [OF _ heap_le_active]) (simp_all add: record_is_active_None)

lemma broker_wf_revoke: "broker_wf st \<Longrightarrow> broker_wf (st\<lparr>bk_fences := fence_revoke p (bk_fences st)\<rparr>)"
  by (erule broker_wf_heap [OF _ heap_le_revoke]) (simp_all add: fence_revoke_None)

lemma map_update_same:
  "map_of m k = Some r \<Longrightarrow> f r' = f r \<Longrightarrow> map (f \<circ> snd) (AList.update k r' m) = map (f \<circ> snd) m"
  by (induction m) (auto split: if_splits)

lemma values_update: "set (map snd (AList.update k v m)) \<subseteq> insert v (set (map snd m))"
  by (induction m) auto

lemma record_wf_records [simp]: "record_wf (st\<lparr>bk_authorizations := m\<rparr>) r = record_wf st r"
  by (cases "br_native_target_authorization r") (simp_all add: record_wf_def native_wf_def)

lemma broker_wf_recordD: "broker_wf st \<Longrightarrow> map_of (bk_authorizations st) a = Some r \<Longrightarrow> record_wf st r"
  by (force simp: broker_wf_def dest: map_of_SomeD)

lemma broker_wf_update:
  assumes "broker_wf st" and a: "map_of (bk_authorizations st) a = Some r"
    and "br_recording_authorization r' = br_recording_authorization r" and "record_wf st r'"
  shows "broker_wf (st\<lparr>bk_authorizations := AList.update a r' (bk_authorizations st)\<rparr>)"
proof -
  have "a \<in> set (keys_of (bk_authorizations st))" using a by (force dest: map_of_SomeD)
  then have "length (AList.update a r' (bk_authorizations st)) = length (bk_authorizations st)"
    by (simp only: length_update if_True)
  moreover have "map (br_recording_authorization \<circ> snd) (AList.update a r' (bk_authorizations st))
      = map (br_recording_authorization \<circ> snd) (bk_authorizations st)"
    using a assms(3) by (rule map_update_same)
  moreover have "\<forall>q\<in>set (map snd (AList.update a r' (bk_authorizations st))). record_wf st q"
  proof
    fix q
    assume "q \<in> set (map snd (AList.update a r' (bk_authorizations st)))"
    then have "q = r' \<or> q \<in> set (map snd (bk_authorizations st))" using values_update by fast
    then show "record_wf st q" using assms(1,4) by (auto simp: broker_wf_def)
  qed
  ultimately show ?thesis
    using assms(1) distinct_keys_update [of "bk_authorizations st" a r'] by (simp add: broker_wf_def)
qed

lemma heap_le_native:
  "bk_natives st p = None \<Longrightarrow> heap_le st (st\<lparr>bk_natives := (bk_natives st)(p \<mapsto> na), bk_next := n\<rparr>)"
  by (auto simp: heap_le_def)

lemma broker_wf_alloc_native:
  assumes "broker_wf st"
  shows "broker_wf (st\<lparr>bk_natives := (bk_natives st)(bk_next st \<mapsto> na), bk_next := Suc (bk_next st)\<rparr>)"
proof -
  have "bk_natives st (bk_next st) = None" using assms by (simp add: broker_wf_def)
  then have "heap_le st (st\<lparr>bk_natives := (bk_natives st)(bk_next st \<mapsto> na), bk_next := Suc (bk_next st)\<rparr>)"
    by (rule heap_le_native)
  then show ?thesis
    using assms heap_le_record_wf by (auto simp: broker_wf_def)
qed

lemma set_retain: "set (retain P m) = {kv \<in> set m. P (snd kv)}"
  by (auto simp: retain_def)

lemma update_fresh: "k \<notin> set (keys_of m) \<Longrightarrow> AList.update k v m = m @ [(k, v)]"
  by (induction m) auto

lemma broker_wf_retain:
  assumes "broker_wf st"
  shows "broker_wf (st\<lparr>bk_authorizations := retain P (bk_authorizations st)\<rparr>)"
proof -
  have "length (retain P (bk_authorizations st)) \<le> length (bk_authorizations st)"
    by (rule length_retain)
  moreover have "distinct (map (br_recording_authorization \<circ> snd) (retain P (bk_authorizations st)))"
    using assms by (simp add: broker_wf_def retain_def distinct_map_filter)
  ultimately show ?thesis
    using assms distinct_retain [of "bk_authorizations st" P]
    by (auto simp: broker_wf_def set_retain)
qed

lemma broker_wf_insert:
  assumes wf: "broker_wf st" and fresh: "a \<notin> set (keys_of (bk_authorizations st))"
    and cap: "length (bk_authorizations st) < MAX_BROKER_AUTHORIZATIONS"
    and r: "br_recording_authorization r = bk_next st" "\<not> br_revoked r"
      "br_native_target_authorization r = None"
  shows "broker_wf (st\<lparr>bk_authorizations := AList.update a r (bk_authorizations st),
     bk_fences := (bk_fences st)(bk_next st \<mapsto> f), bk_next := Suc (bk_next st)\<rparr>)" (is "broker_wf ?st")
proof -
  have none: "bk_fences st (bk_next st) = None" using wf by (simp add: broker_wf_def)
  then have "heap_le st ?st" by (auto simp: heap_le_def fence_shut_def)
  then have old: "record_wf ?st q" if "record_wf st q" for q
    using that by (rule heap_le_record_wf)
  have new: "record_wf ?st r" using r by (simp add: record_wf_def)
  have app: "AList.update a r (bk_authorizations st) = bk_authorizations st @ [(a, r)]"
    using fresh by (rule update_fresh)
  have "bk_next st \<notin> br_recording_authorization ` snd ` set (bk_authorizations st)"
    using wf none by (auto simp: broker_wf_def record_wf_def)
  then have "distinct (map (br_recording_authorization \<circ> snd) (bk_authorizations st @ [(a, r)]))"
    using wf r by (auto simp: broker_wf_def)
  then show ?thesis
    using wf old new fresh cap by (auto simp: broker_wf_def app)
qed

lemma broker_wf_empty: "broker_wf trusted_task_authorization_broker"
  by (simp add: broker_wf_def trusted_task_authorization_broker_def)

lemma draw_authorization_id_result:
  assumes "draw_authorization_id m uuids k = Some y"
  shows "fst y \<notin> set (keys_of m) \<and> k < snd y \<and> fst y = authorization_id_of (uuids (snd y - 1))"
  by (rule draw_authorization_id.raw_induct [of "\<lambda>m uuids k y. fst y \<notin> set (keys_of m) \<and> k < snd y
        \<and> fst y = authorization_id_of (uuids (snd y - 1))", OF _ assms])
     (fastforce simp: Let_def split: if_splits)

lemma draw_authorization_id_returns:
  "k \<le> j \<Longrightarrow> authorization_id_of (uuids j) \<notin> set (keys_of m) \<Longrightarrow>
   \<exists>y. draw_authorization_id m uuids k = Some y \<and> snd y \<le> Suc j"
proof (induction "j - k" arbitrary: k)
  case 0
  then show ?case by (subst draw_authorization_id.simps) (simp add: Let_def)
next
  case (Suc d)
  then obtain y where "draw_authorization_id m uuids (Suc k) = Some y" "snd y \<le> Suc j"
    by (metis Suc_leI diff_Suc_Suc diff_diff_cancel diff_le_self le_less less_Suc_eq_le
        nat_less_le not_less_eq_eq zero_less_Suc zero_less_diff Suc_diff_Suc diff_Suc_1')
  then show ?case
    using Suc.prems by (subst draw_authorization_id.simps) (cases y, simp add: Let_def)
qed

lemma fresh_candidate:
  assumes "inj_on uuids {..length m}"
  shows "\<exists>j\<le>length m. authorization_id_of (uuids j) \<notin> set (keys_of m)"
proof (rule ccontr)
  let ?c = "\<lambda>j. authorization_id_of (uuids j)"
  assume "\<not> ?thesis"
  then have "?c ` {..length m} \<subseteq> set (keys_of m)" by auto
  then have "card (?c ` {..length m}) \<le> card (set (keys_of m))" by (intro card_mono) auto
  also have "\<dots> \<le> length m" by (metis card_length length_map)
  finally have "card (?c ` {..length m}) \<le> length m" .
  moreover have "inj_on ?c {..length m}" using assms by (auto simp: inj_on_def authorization_id_of_def)
  then have "card (?c ` {..length m}) = Suc (length m)" by (simp add: card_image)
  ultimately show False by simp
qed

lemma register_okD:
  assumes "register_inner x clk uuids g deadline st = Some (Inr rc, st')"
  obtains k where "validate_registration x (clk 0) g = Inr ()" "\<not> bk_poisoned st"
    "length (live_records clk st) < MAX_BROKER_AUTHORIZATIONS"
    "draw_authorization_id (live_records clk st) uuids 0 = Some (rc_authorization_id rc, k)"
    "is_ok (fst (admit (clk 3) (registration_fence clk (rg_expires_at_unix_ms g) deadline)))"
    "rc = \<lparr>rc_authorization_id = rc_authorization_id rc, rc_window_capability = window_capability_of (uuids k),
       rc_expires_at_unix_ms = rg_expires_at_unix_ms g\<rparr>"
    "st' = st\<lparr>bk_authorizations := AList.update (rc_authorization_id rc)
         (registered_record g (rc_window_capability rc) (bk_next st)) (live_records clk st),
       bk_fences := (bk_fences st)(bk_next st \<mapsto>
         registration_fence clk (rg_expires_at_unix_ms g) deadline),
       bk_next := Suc (bk_next st)\<rparr>"
  using assms by (auto simp: register_inner_def bind_eq_Some_conv split: sum.splits if_splits)

lemma register_err_state:
  assumes "register_inner x clk uuids g deadline st = Some (Inl e, st')"
  shows "st' = st \<or> st' = st\<lparr>bk_authorizations := live_records clk st\<rparr>"
  using assms by (auto simp: register_inner_def bind_eq_Some_conv split: sum.splits if_splits)

lemma broker_wf_live: "broker_wf st \<Longrightarrow> broker_wf (st\<lparr>bk_authorizations := live_records clk st\<rparr>)"
  by (simp add: live_records_def broker_wf_retain)

lemma register_wf:
  assumes "broker_wf st" and "register_inner x clk uuids g deadline st = Some (res, st')"
  shows "broker_wf st'"
proof (cases res)
  case (Inl e)
  then have "st' = st \<or> st' = st\<lparr>bk_authorizations := live_records clk st\<rparr>"
    using assms(2) by (simp add: register_err_state)
  then show ?thesis using assms(1) broker_wf_live by auto
next
  case (Inr rc)
  then have "register_inner x clk uuids g deadline st = Some (Inr rc, st')" using assms(2) by simp
  then obtain k where
    draw: "draw_authorization_id (live_records clk st) uuids 0 = Some (rc_authorization_id rc, k)"
    and cap: "length (live_records clk st) < MAX_BROKER_AUTHORIZATIONS"
    and st': "st' = st\<lparr>bk_authorizations := AList.update (rc_authorization_id rc)
         (registered_record g (rc_window_capability rc) (bk_next st)) (live_records clk st),
       bk_fences := (bk_fences st)(bk_next st \<mapsto>
         registration_fence clk (rg_expires_at_unix_ms g) deadline),
       bk_next := Suc (bk_next st)\<rparr>"
    by (rule register_okD)
  let ?st = "st\<lparr>bk_authorizations := live_records clk st\<rparr>"
  have "rc_authorization_id rc \<notin> set (keys_of (bk_authorizations ?st))"
    using conjunct1 [OF draw_authorization_id_result [OF draw]] by simp
  from broker_wf_insert [OF broker_wf_live [OF assms(1), of clk] this, of
      "registered_record g (rc_window_capability rc) (bk_next st)"] cap
  show ?thesis by (simp add: st' registered_record_def)
qed

lemma revoke_handles_None: "revoke_handles st r p = None \<longleftrightarrow> bk_fences st p = None"
  by (simp add: revoke_handles_def Let_def native_revoke_def fence_revoke_None split: option.splits)

lemma revoke_handles_shut: "fence_shut (bk_fences st) p \<Longrightarrow> fence_shut (revoke_handles st r) p"
  by (simp add: revoke_handles_def Let_def native_revoke_def fence_shut_revoke split: option.splits)

lemma revoke_handles_own: "fence_shut (revoke_handles st r) (br_recording_authorization r)"
  by (simp add: revoke_handles_def Let_def native_revoke_def fence_shut_revoke fence_shut_revoked
      split: option.splits)

lemma heap_le_revoke_handles: "heap_le st (st\<lparr>bk_fences := revoke_handles st r\<rparr>)"
  using revoke_handles_None [of st r] by (auto simp: heap_le_def revoke_handles_shut)

lemma revoke_wf:
  assumes wf: "broker_wf st" and rev: "broker_revoke a st = (res, st')"
  shows "broker_wf st'"
proof (cases "bk_poisoned st \<or> map_of (bk_authorizations st) a = None")
  case True
  then show ?thesis using assms by (auto simp: broker_revoke_def split: if_splits option.splits)
next
  case False
  then obtain r where r: "map_of (bk_authorizations st) a = Some r" and np: "\<not> bk_poisoned st" by auto
  let ?st = "st\<lparr>bk_fences := revoke_handles st r\<rparr>"
  have wf': "broker_wf ?st"
    by (rule broker_wf_heap [OF wf heap_le_revoke_handles]) (simp_all add: revoke_handles_None)
  have "record_wf ?st r" using r by (intro broker_wf_recordD [OF wf']) simp
  then have "record_wf ?st (r\<lparr>br_revoked := True\<rparr>)"
    by (simp add: record_wf_def native_wf_def revoke_handles_own cong: option.case_cong)
  from broker_wf_update [OF wf' _ _ this, of a r] r np rev show ?thesis
    by (auto simp: broker_revoke_def)
qed

definition bound_record :: "TrustedTaskAuthorizationRequest \<Rightarrow> addr \<Rightarrow> BrokerRecord \<Rightarrow> BrokerRecord" where
  "bound_record q p r =
     (let r' = r\<lparr>br_binding := Some \<lparr>bb_connection_id = rq_connection_id q,
          bb_session_id = rq_session_id q, bb_lease_request_digest = rq_request_digest q,
          bb_target_process_id = rq_target_process_id q,
          bb_target_window_handle = rq_target_window_handle q\<rparr>\<rparr>
      in if needs_native_target (br_registration r)
         then r'\<lparr>br_native_target_authorization := Some p\<rparr> else r')"

definition bound_heap :: "TrustedTaskAuthorizationRequest \<Rightarrow> BrokerRecord \<Rightarrow> BrokerState \<Rightarrow> BrokerState" where
  "bound_heap q r st =
     (if needs_native_target (br_registration r)
      then st\<lparr>bk_natives := (bk_natives st)(bk_next st \<mapsto> with_shared_lifetime (rq_target_process_id q)
               (rq_target_window_handle q) (br_recording_authorization r)),
             bk_next := Suc (bk_next st)\<rparr> else st)"

lemma broker_authorize_ok_state:
  assumes "broker_authorize clk q st = (Inr l, st')"
    and "map_of (bk_authorizations st) (rq_authorization_id q) = Some r"
  shows "st' = (bound_heap q r st)\<lparr>bk_authorizations := AList.update (rq_authorization_id q)
      (bound_record q (bk_next st) r) (bk_authorizations st)\<rparr>"
  using assms fence_active_open_id [of "clk 1" "bk_fences st"]
  by (auto simp: broker_authorize_def bound_record_def bound_heap_def case_prod_beta Let_def
      record_is_active_def split: if_splits)

lemma broker_authorize_err_state:
  "broker_authorize clk q st = (Inl e, st') \<Longrightarrow>
   st' = st \<or> (\<exists>r. st' = st\<lparr>bk_fences := snd (record_is_active (clk 1) r (bk_fences st))\<rparr>)"
  by (auto simp: broker_authorize_def case_prod_beta Let_def split: if_splits option.splits)

lemma authorize_wf:
  assumes wf: "broker_wf st" and auth: "broker_authorize clk q st = (res, st')"
  shows "broker_wf st'"
proof (cases res)
  case (Inl e)
  with auth have "broker_authorize clk q st = (Inl e, st')" by simp
  from broker_authorize_err_state [OF this] show ?thesis using wf broker_wf_active by auto
next
  case (Inr l)
  then have ok: "broker_authorize clk q st = (Inr l, st')" using auth by simp
  then obtain r where r: "map_of (bk_authorizations st) (rq_authorization_id q) = Some r"
    and unbound: "br_binding r = None"
    by (rule broker_authorizeD)
  let ?st = "bound_heap q r st" and ?r = "bound_record q (bk_next st) r"
  have wf': "broker_wf ?st" using broker_wf_alloc_native [OF wf] wf by (simp add: bound_heap_def)
  have "record_wf st r" using wf r by (rule broker_wf_recordD)
  moreover have "br_native_target_authorization r = None"
    using calculation unbound by (auto simp: record_wf_def native_wf_def split: option.splits)
  ultimately have "record_wf ?st ?r"
    by (simp add: record_wf_def native_wf_def bound_heap_def bound_record_def with_shared_lifetime_def)
  from broker_wf_update [OF wf' _ _ this, of "rq_authorization_id q" r] r
  show ?thesis unfolding broker_authorize_ok_state [OF ok r]
    by (auto simp: bound_heap_def bound_record_def Let_def)
qed

lemma decide_wf: "broker_wf st \<Longrightarrow> broker_wf (snd (broker_decide w a m dg st))"
  using broker_decide_state [of w a m dg st] broker_wf_active by auto

lemma validate_wf: "broker_wf st \<Longrightarrow> broker_validate clk v st = (res, st') \<Longrightarrow> broker_wf st'"
  using decide_wf by (metis broker_validate_def snd_conv)

lemma validate_lease_wf: "broker_wf st \<Longrightarrow> broker_validate_lease clk v st = (res, st') \<Longrightarrow> broker_wf st'"
  using decide_wf by (metis broker_validate_lease_def snd_conv)

lemma native_target_state:
  "snd (native_target_authorization clk l st) \<in>
     {st} \<union> {st\<lparr>bk_fences := snd (record_is_active (clk 0) r (bk_fences st))\<rparr> | r. True}"
  by (auto simp: native_target_authorization_def case_prod_beta Let_def split: option.splits)

lemma recording_state:
  "\<exists>r p. snd (broker_recording_authorization clk l st) \<in>
     (let st1 = st\<lparr>bk_fences := snd (record_is_active (clk 0) r (bk_fences st))\<rparr> in
      {st, st1, st1\<lparr>bk_fences := snd (fence_active (clk 1) p (bk_fences st1))\<rparr>})"
proof (cases "map_of (bk_authorizations st) (ls_authorization_id l)")
  case None
  then show ?thesis by (simp add: broker_recording_authorization_def Let_def)
next
  case (Some r)
  then show ?thesis
    by (intro exI [of _ r] exI [of _ "br_recording_authorization r"])
       (auto simp: broker_recording_authorization_def case_prod_beta Let_def split: option.splits)
qed

lemma bind_session_heap:
  assumes "bk_natives st n = Some na" and "bind_session w na sid pid hwnd (bk_fences st) = (res, na', s')"
  shows "na_lifetime na' = na_lifetime na \<and> na_process_id na' = na_process_id na
     \<and> na_window_handle na' = na_window_handle na
     \<and> (s' = bk_fences st \<or> s' = snd (fence_active w (na_lifetime na) (bk_fences st)))"
  using assms by (auto simp: bind_session_def case_prod_beta split: sum.splits if_splits option.splits)

lemma native_validate_heap:
  "native_validate w na sid pid hwnd s = (res, s') \<Longrightarrow> s' = s \<or> s' = snd (fence_active w (na_lifetime na) s)"
  by (auto simp: native_validate_def case_prod_beta split: sum.splits if_splits)

lemma heap_le_retarget:
  assumes "bk_natives st n = Some na" and "na_lifetime na' = na_lifetime na"
    and "na_process_id na' = na_process_id na" and "na_window_handle na' = na_window_handle na"
  shows "heap_le st (st\<lparr>bk_natives := (bk_natives st)(n \<mapsto> na')\<rparr>)"
  using assms by (auto simp: heap_le_def)

lemma broker_wf_retarget:
  assumes "broker_wf st" and "bk_natives st n = Some na" and "na_lifetime na' = na_lifetime na"
    and "na_process_id na' = na_process_id na" and "na_window_handle na' = na_window_handle na"
  shows "broker_wf (st\<lparr>bk_natives := (bk_natives st)(n \<mapsto> na')\<rparr>)"
  by (rule broker_wf_heap [OF assms(1) heap_le_retarget [OF assms(2-5)]]) (use assms in auto)

lemma broker_step_wf: "broker_step x st e st' \<Longrightarrow> broker_wf st \<Longrightarrow> broker_wf st'"
proof (induction rule: broker_step.induct)
  case (step_native clk l st h st')
  then show ?case using native_target_state [of clk l st] broker_wf_active by auto
next
  case (step_recording clk l st h st')
  obtain r p where "st' \<in> (let st1 = st\<lparr>bk_fences := snd (record_is_active (clk 0) r (bk_fences st))\<rparr> in
      {st, st1, st1\<lparr>bk_fences := snd (fence_active (clk 1) p (bk_fences st1))\<rparr>})"
    using recording_state [of clk l st] step_recording(1) by auto
  then show ?case
    using step_recording(2) broker_wf_active [of st "clk 0" r]
      broker_wf_probe [of "st\<lparr>bk_fences := snd (record_is_active (clk 0) r (bk_fences st))\<rparr>" "clk 1" p]
    by (auto simp: Let_def)
next
  case (step_admit w p st b s')
  then show ?case using broker_wf_probe [of st w p] by simp
next
  case (step_bind st n na w sid pid hwnd res na' s')
  then have wf: "broker_wf (st\<lparr>bk_natives := (bk_natives st)(n \<mapsto> na')\<rparr>)"
    using bind_session_heap [OF step_bind(1,2)] broker_wf_retarget by simp
  show ?case
    using bind_session_heap [OF step_bind(1,2)] wf
      broker_wf_probe [OF wf, of w "na_lifetime na"] by (auto simp del: fun_upd_apply)
next
  case (step_permit st n na w sid pid hwnd res s')
  then show ?case
    using native_validate_heap [OF step_permit(2)] broker_wf_probe [of st w "na_lifetime na"] by auto
qed (auto intro: register_wf revoke_wf authorize_wf validate_wf validate_lease_wf broker_wf_revoke)

lemma broker_run_wf: "broker_run x st es st' \<Longrightarrow> broker_wf st \<Longrightarrow> broker_wf st'"
  by (induction rule: broker_run.induct) (auto intro: broker_step_wf)

lemma reachable_wf: "broker_reachable x st \<Longrightarrow> broker_wf st"
  using broker_run_wf broker_wf_empty by (auto simp: broker_reachable_def)

section \<open>Revocation and binding along runs\<close>

lemma heap_le_trans: "heap_le s t \<Longrightarrow> heap_le t u \<Longrightarrow> heap_le s u"
  unfolding heap_le_def by metis

lemma register_heap:
  assumes "broker_wf st" and "register_inner x clk uuids g deadline st = Some (res, st')"
  shows "heap_le st st'"
proof (cases res)
  case (Inl e)
  then show ?thesis using register_err_state assms(2) by (fastforce simp: heap_le_def)
next
  case (Inr rc)
  have "bk_fences st (bk_next st) = None" using assms(1) by (simp add: broker_wf_def)
  then show ?thesis
    using assms(2) Inr by (auto elim!: register_okD simp: heap_le_def fence_shut_def)
qed

lemma revoke_heap: "broker_revoke a st = (res, st') \<Longrightarrow> heap_le st st'"
  using heap_le_revoke_handles
  by (fastforce simp: broker_revoke_def heap_le_def split: if_splits option.splits)

lemma authorize_heap:
  assumes "broker_wf st" and "broker_authorize clk q st = (res, st')"
  shows "heap_le st st'"
proof (cases res)
  case (Inl e)
  with assms have "broker_authorize clk q st = (Inl e, st')" by simp
  from broker_authorize_err_state [OF this] show ?thesis using heap_le_active by auto
next
  case (Inr l)
  with assms have ok: "broker_authorize clk q st = (Inr l, st')" by simp
  then obtain r where r: "map_of (bk_authorizations st) (rq_authorization_id q) = Some r"
    by (rule broker_authorizeD)
  have "bk_natives st (bk_next st) = None" using assms(1) by (simp add: broker_wf_def)
  then show ?thesis
    unfolding broker_authorize_ok_state [OF ok r] by (auto simp: bound_heap_def heap_le_def)
qed

lemma decide_heap: "heap_le st (snd (broker_decide w a m dg st))"
  using broker_decide_state [of w a m dg st] heap_le_active by auto

lemma recording_heap: "heap_le st (snd (broker_recording_authorization clk l st))"
proof -
  obtain r p where *: "snd (broker_recording_authorization clk l st) \<in>
     (let st1 = st\<lparr>bk_fences := snd (record_is_active (clk 0) r (bk_fences st))\<rparr> in
      {st, st1, st1\<lparr>bk_fences := snd (fence_active (clk 1) p (bk_fences st1))\<rparr>})"
    using recording_state by blast
  let ?st1 = "st\<lparr>bk_fences := snd (record_is_active (clk 0) r (bk_fences st))\<rparr>"
  have "heap_le st (?st1\<lparr>bk_fences := snd (fence_active (clk 1) p (bk_fences ?st1))\<rparr>)"
    by (rule heap_le_trans [OF heap_le_active heap_le_probe])
  then show ?thesis using * heap_le_active [of st "clk 0" r] by (auto simp: Let_def)
qed

lemma broker_step_heap: "broker_step x st e st' \<Longrightarrow> broker_wf st \<Longrightarrow> heap_le st st'"
proof (induction rule: broker_step.induct)
  case (step_validate clk v st res st')
  then show ?case using decide_heap by (metis broker_validate_def heap_le_refl snd_conv)
next
  case (step_validate_lease clk lv st res st')
  then show ?case using decide_heap by (metis broker_validate_lease_def heap_le_refl snd_conv)
next
  case (step_native clk l st h st')
  then show ?case using native_target_state [of clk l st] heap_le_active by auto
next
  case (step_recording clk l st h st')
  then show ?case using recording_heap [of st clk l] by simp
next
  case (step_admit w p st b s')
  then show ?case using heap_le_probe [of st w p] by simp
next
  case (step_bind st n na w sid pid hwnd res na' s')
  let ?st = "st\<lparr>bk_natives := (bk_natives st)(n \<mapsto> na')\<rparr>"
  have le: "heap_le st ?st"
    using bind_session_heap [OF step_bind(1,2)] heap_le_retarget step_bind(1) by blast
  have "heap_le st (?st\<lparr>bk_fences := snd (fence_active w (na_lifetime na) (bk_fences ?st))\<rparr>)"
    by (rule heap_le_trans [OF le heap_le_probe])
  then show ?case using bind_session_heap [OF step_bind(1,2)] le by auto
next
  case (step_permit st n na w sid pid hwnd res s')
  then show ?case
    using native_validate_heap [OF step_permit(2)] heap_le_probe [of st w "na_lifetime na"] by auto
qed (auto intro: register_heap revoke_heap authorize_heap heap_le_revoke)

lemma broker_run_heap: "broker_run x st es st' \<Longrightarrow> broker_wf st \<Longrightarrow> heap_le st st'"
  by (induction rule: broker_run.induct)
     (auto intro: heap_le_trans broker_step_heap dest: broker_step_wf)

text \<open>A record never changes its registration or its fence, and keeps a revocation and a binding.\<close>

definition record_le :: "BrokerRecord \<Rightarrow> BrokerRecord \<Rightarrow> bool" where
  "record_le r r' \<longleftrightarrow>
     br_registration r' = br_registration r \<and> br_window_capability r' = br_window_capability r
     \<and> br_recording_authorization r' = br_recording_authorization r
     \<and> (br_revoked r \<longrightarrow> br_revoked r')
     \<and> (br_binding r \<noteq> None \<longrightarrow> br_binding r' = br_binding r)"

definition keeps_record :: "string \<Rightarrow> BrokerState \<Rightarrow> BrokerState \<Rightarrow> bool" where
  "keeps_record a st st' \<longleftrightarrow>
     (case map_of (bk_authorizations st') a of None \<Rightarrow> True
      | Some r' \<Rightarrow> (case map_of (bk_authorizations st) a of None \<Rightarrow> False | Some r \<Rightarrow> record_le r r'))"

lemma record_le_refl [simp]: "record_le r r"
  by (simp add: record_le_def)

lemma keeps_record_refl: "bk_authorizations st' = bk_authorizations st \<Longrightarrow> keeps_record a st st'"
  by (simp add: keeps_record_def split: option.splits)

lemma keeps_record_trans: "keeps_record a s t \<Longrightarrow> keeps_record a t u \<Longrightarrow> keeps_record a s u"
  by (force simp: keeps_record_def record_le_def split: option.splits)

lemma keeps_record_live:
  "broker_wf st \<Longrightarrow> keeps_record a st (st\<lparr>bk_authorizations := live_records clk st\<rparr>)"
  by (auto simp: keeps_record_def live_records_def broker_wf_def map_of_retain split: option.splits if_splits)

lemma register_keeps:
  assumes "broker_wf st" and "register_inner x clk uuids g deadline st = Some (res, st')"
    and "\<And>rc. res = Inr rc \<Longrightarrow> rc_authorization_id rc \<noteq> a"
  shows "keeps_record a st st'"
proof (cases res)
  case (Inl e)
  then have "st' = st \<or> st' = st\<lparr>bk_authorizations := live_records clk st\<rparr>"
    using assms(2) by (simp add: register_err_state)
  then show ?thesis using keeps_record_live [OF assms(1)] keeps_record_refl by auto
next
  case (Inr rc)
  have "map_of (bk_authorizations st') a = map_of (live_records clk st) a"
    using assms(2,3) Inr by (auto elim!: register_okD)
  then show ?thesis using keeps_record_live [OF assms(1), of a clk] by (simp add: keeps_record_def)
qed

lemma revoke_keeps: "broker_revoke b st = (res, st') \<Longrightarrow> keeps_record a st st'"
  by (auto simp: broker_revoke_def keeps_record_def record_le_def split: if_splits option.splits)

lemma authorize_keeps:
  assumes "broker_authorize clk q st = (res, st')"
  shows "keeps_record a st st'"
proof (cases res)
  case (Inl e)
  with assms have "broker_authorize clk q st = (Inl e, st')" by simp
  from broker_authorize_err_state [OF this] show ?thesis using keeps_record_refl by auto
next
  case (Inr l)
  with assms have ok: "broker_authorize clk q st = (Inr l, st')" by simp
  then obtain r where r: "map_of (bk_authorizations st) (rq_authorization_id q) = Some r"
    and "br_binding r = None" by (rule broker_authorizeD)
  then have "record_le r (bound_record q (bk_next st) r)" by (simp add: record_le_def bound_record_def Let_def)
  then show ?thesis
    unfolding broker_authorize_ok_state [OF ok r] using r
    by (auto simp: keeps_record_def split: option.splits)
qed

lemma decide_keeps: "keeps_record a st (snd (broker_decide w b m dg st))"
  using broker_decide_state [of w b m dg st] by (auto intro: keeps_record_refl)

lemma broker_step_keeps: "broker_step x st e st' \<Longrightarrow> broker_wf st \<Longrightarrow> e \<noteq> Registers a \<Longrightarrow> keeps_record a st st'"
proof (induction rule: broker_step.induct)
  case (step_validate clk v st res st')
  then show ?case using decide_keeps by (metis broker_validate_def keeps_record_refl snd_conv)
next
  case (step_validate_lease clk lv st res st')
  then show ?case using decide_keeps by (metis broker_validate_lease_def keeps_record_refl snd_conv)
next
  case (step_native clk l st h st')
  then show ?case using native_target_state [of clk l st] by (auto intro: keeps_record_refl)
next
  case (step_recording clk l st h st')
  then show ?case using recording_state [of clk l st] by (auto intro: keeps_record_refl simp: Let_def)
qed (auto intro: register_keeps revoke_keeps authorize_keeps keeps_record_refl)

lemma broker_run_keeps:
  "broker_run x st es st' \<Longrightarrow> broker_wf st \<Longrightarrow> Registers a \<notin> set es \<Longrightarrow> keeps_record a st st'"
  by (induction rule: broker_run.induct)
     (auto intro: keeps_record_trans broker_step_keeps keeps_record_refl dest: broker_step_wf)

lemma keeps_dead:
  assumes "broker_wf st" and "heap_le st st'" and "keeps_record a st st'" and "broker_dead a st"
  shows "broker_dead a st'"
proof (cases "map_of (bk_authorizations st') a")
  case None
  then show ?thesis by (simp add: broker_dead_def)
next
  case (Some r')
  then obtain r where r: "map_of (bk_authorizations st) a = Some r" "record_le r r'"
    using assms(3) by (auto simp: keeps_record_def split: option.splits)
  have "record_wf st r" using assms(1) r(1) by (rule broker_wf_recordD)
  moreover have "record_dead (bk_fences st) r" using assms(4) r(1) by (simp add: broker_dead_def)
  ultimately have "record_dead (bk_fences st') r'"
    using assms(2) r(2) unfolding record_dead_def record_le_def record_wf_def heap_le_def by metis
  then show ?thesis using Some by (simp add: broker_dead_def)
qed

lemma broker_step_dead:
  "broker_step x st e st' \<Longrightarrow> broker_wf st \<Longrightarrow> e \<noteq> Registers a \<Longrightarrow> broker_dead a st \<Longrightarrow> broker_dead a st'"
  using keeps_dead broker_step_heap broker_step_keeps by blast

text \<open>No step grants a dead authorization, admits a shut fence or permits through one.\<close>

lemma native_target_granted:
  "native_target_authorization clk l st = (Some h, st') \<Longrightarrow> \<not> broker_dead (ls_authorization_id l) st"
  by (auto simp: native_target_authorization_def broker_dead_def case_prod_beta Let_def
      dest: record_active_not_dead split: if_splits option.splits)

lemma recording_granted:
  "broker_recording_authorization clk l st = (Some h, st') \<Longrightarrow> \<not> broker_dead (ls_authorization_id l) st"
  by (auto simp: broker_recording_authorization_def broker_dead_def case_prod_beta Let_def
      dest: record_active_not_dead split: if_splits option.splits)

lemma decision_active_iff: "decision_active res \<longleftrightarrow> (\<exists>d. res = Inr d \<and> vd_status d = Active)"
  by (auto simp: decision_active_def split: sum.splits)

lemma ok_event_eq [simp]:
  "e \<noteq> Quiet \<Longrightarrow> ok_event b f = e \<longleftrightarrow> b \<and> f = e" "ok_event b f = Registers a \<longleftrightarrow> b \<and> f = Registers a"
  by (auto simp: ok_event_def)

lemma broker_step_grant: "broker_step x st e st' \<Longrightarrow> e = Grants a \<Longrightarrow> \<not> broker_dead a st"
proof (induction rule: broker_step.induct)
  case (step_authorize clk q st res st')
  then show ?case
    using broker.authorize_exact [of clk q st _ st'] by (auto simp: broker_host_def is_ok_iff)
next
  case (step_validate clk v st res st')
  then show ?case
    using broker.validate_exact [of clk v st _ st'] by (auto simp: broker_host_def decision_active_iff)
next
  case (step_validate_lease clk lv st res st')
  then show ?case
    using broker.validate_lease_exact [of clk lv st _ st']
    by (auto simp: broker_host_def decision_active_iff)
qed (auto dest: native_target_granted recording_granted)

lemma bind_session_open:
  "bind_session w na sid pid hwnd s = (Inr v, na', s') \<Longrightarrow> fence_open w s (na_lifetime na)"
  by (auto simp: bind_session_def case_prod_beta split: sum.splits if_splits option.splits)

lemma native_validate_open:
  "native_validate w na sid pid hwnd s = (Inr v, s') \<Longrightarrow> fence_open w s (na_lifetime na)"
  by (auto simp: native_validate_def case_prod_beta split: sum.splits if_splits option.splits)

lemma broker_step_admit: "broker_step x st e st' \<Longrightarrow> e = Admits p \<Longrightarrow> \<not> fence_shut (bk_fences st) p"
proof (induction rule: broker_step.induct)
  case (step_admit w q st b s')
  then have "b" "q = p" by auto
  then have "fence_open w (bk_fences st) p" using step_admit(1) by (metis fst_conv fst_fence_active)
  then show ?case using fence_shut_not_open by blast
qed auto

lemma broker_step_permit:
  "broker_step x st e st' \<Longrightarrow> e = Permits n \<Longrightarrow>
   \<exists>na. bk_natives st n = Some na \<and> \<not> fence_shut (bk_fences st) (na_lifetime na)"
proof (induction rule: broker_step.induct)
  case (step_bind st n na w sid pid hwnd res na' s')
  then show ?case using bind_session_open fence_shut_not_open by (fastforce simp: is_ok_iff)
next
  case (step_permit st n na w sid pid hwnd res s')
  then show ?case using native_validate_open fence_shut_not_open by (fastforce simp: is_ok_iff)
qed auto

lemma retired_run:
  assumes "broker_run x st es st'" and "broker_wf st" and "Registers a \<notin> set es"
    and "broker_dead a st" and "fence_shut (bk_fences st) p" and "bk_fences st p \<noteq> None"
  shows "Grants a \<notin> set es \<and> Admits p \<notin> set es
     \<and> (\<forall>n na. bk_natives st n = Some na \<and> na_lifetime na = p \<longrightarrow> Permits n \<notin> set es)"
  using assms
proof (induction rule: broker_run.induct)
  case (run_done st)
  then show ?case by simp
next
  case (run_step st e st' es st'')
  have le: "heap_le st st'" using run_step by (simp add: broker_step_heap)
  have wf': "broker_wf st'" using run_step broker_step_wf by blast
  have "broker_dead a st'" using run_step by (auto intro: broker_step_dead)
  moreover have "fence_shut (bk_fences st') p" "bk_fences st' p \<noteq> None"
    using le run_step by (auto simp: heap_le_def)
  ultimately have IH: "Grants a \<notin> set es \<and> Admits p \<notin> set es
     \<and> (\<forall>n na. bk_natives st' n = Some na \<and> na_lifetime na = p \<longrightarrow> Permits n \<notin> set es)"
    using run_step wf' by simp
  moreover have "e \<noteq> Grants a" "e \<noteq> Admits p"
    using broker_step_grant broker_step_admit run_step by blast+
  moreover have "Permits n \<notin> set (e # es)" if n: "bk_natives st n = Some na" "na_lifetime na = p" for n na
  proof -
    obtain na' where "bk_natives st' n = Some na'" "na_lifetime na' = p"
      using heap_le_nativeD [OF le n(1)] n(2) by metis
    moreover have "e \<noteq> Permits n" using broker_step_permit run_step n by fastforce
    ultimately show ?thesis using IH by auto
  qed
  ultimately show ?case by auto
qed

lemma broker_revoke_okD:
  assumes "broker_revoke a st = (Inr (), st')"
  obtains r where "map_of (bk_authorizations st) a = Some r"
    "map_of (bk_authorizations st') a = Some (r\<lparr>br_revoked := True\<rparr>)"
    "bk_fences st' = revoke_handles st r" "bk_natives st' = bk_natives st" "broker_dead a st'"
  using assms
  by (auto simp: broker_revoke_def broker_dead_def record_dead_def split: if_splits option.splits)

section \<open>Properties\<close>

text \<open>
  C15. In every reachable state the broker holds at most 256 authorizations under distinct
  identifiers, no two of them share a fence, a revoked one has a closed fence, and a
  login-window permission exists only for a bound record, for the window of the binding and
  with the lifetime of the record.
\<close>

theorem broker_invariant:
  assumes "broker_reachable x st"
  shows "length (bk_authorizations st) \<le> 256 \<and> distinct (keys_of (bk_authorizations st))
     \<and> inj_on (\<lambda>a. br_recording_authorization (the (map_of (bk_authorizations st) a)))
         (set (keys_of (bk_authorizations st)))
     \<and> (\<forall>a r. map_of (bk_authorizations st) a = Some r \<longrightarrow>
          (br_revoked r \<longrightarrow> \<not> fence_open w (bk_fences st) (br_recording_authorization r))
          \<and> (\<forall>n. br_native_target_authorization r = Some n \<longrightarrow> (\<exists>na b. bk_natives st n = Some na
               \<and> br_binding r = Some b \<and> na_lifetime na = br_recording_authorization r
               \<and> na_process_id na = bb_target_process_id b
               \<and> na_window_handle na = bb_target_window_handle b)))"
proof -
  have wf: "broker_wf st" using assms by (rule reachable_wf)
  have dist: "distinct (keys_of (bk_authorizations st))"
    "distinct (map (br_recording_authorization \<circ> snd) (bk_authorizations st))"
    using wf by (simp_all add: broker_wf_def)
  have "inj_on (br_recording_authorization \<circ> snd) (set (bk_authorizations st))"
    using dist(2) by (simp add: distinct_map)
  then have "inj_on (\<lambda>a. br_recording_authorization (the (map_of (bk_authorizations st) a)))
      (set (keys_of (bk_authorizations st)))"
    using dist(1) by (fastforce simp: inj_on_def map_of_is_SomeI)
  moreover have "\<not> fence_open w (bk_fences st) (br_recording_authorization r)"
    if "map_of (bk_authorizations st) a = Some r" "br_revoked r" for a r
    using broker_wf_recordD [OF wf that(1)] that(2) fence_shut_not_open by (auto simp: record_wf_def)
  moreover have "\<exists>na b. bk_natives st n = Some na \<and> br_binding r = Some b
      \<and> na_lifetime na = br_recording_authorization r \<and> na_process_id na = bb_target_process_id b
      \<and> na_window_handle na = bb_target_window_handle b"
    if "map_of (bk_authorizations st) a = Some r" "br_native_target_authorization r = Some n" for a r n
    using broker_wf_recordD [OF wf that(1)] that(2)
    by (auto simp: record_wf_def native_wf_def split: option.splits)
  ultimately show ?thesis
    using wf dist(1) by (auto simp: broker_wf_def MAX_BROKER_AUTHORIZATIONS_def)
qed

text \<open>
  C1. Revocation is final across every interleaving of the issuer, the Host and the holders
  of the handles: once \<open>revoke\<close> answered \<open>Ok\<close> for an authorization of a reachable broker, and
  as long as no later registration draws the same identifier, no step grants it, no holder
  of its fence is admitted, and no login-window permission with its lifetime is validated.
\<close>

theorem revocation_is_final:
  assumes "broker_reachable x st" and "map_of (bk_authorizations st) a = Some r"
    and "broker_revoke a st = (Inr (), st')"
    and "broker_run x st' es st''" and "Registers a \<notin> set es"
  shows "Grants a \<notin> set es \<and> Admits (br_recording_authorization r) \<notin> set es
     \<and> (\<forall>n na. bk_natives st' n = Some na \<and> na_lifetime na = br_recording_authorization r
          \<longrightarrow> Permits n \<notin> set es)
     \<and> Some a \<notin> set (fst (run_task_calls y broker_host calls st''))"
proof -
  have wf: "broker_wf st" using assms(1) by (rule reachable_wf)
  then have wf': "broker_wf st'" using assms(3) by (rule revoke_wf)
  have r: "bk_fences st' = revoke_handles st r" and dead: "broker_dead a st'"
    using assms(2,3) by (auto elim: broker_revoke_okD)
  have "fence_shut (bk_fences st') (br_recording_authorization r)"
    by (simp add: r revoke_handles_own)
  moreover have "bk_fences st' (br_recording_authorization r) \<noteq> None"
    using broker_wf_recordD [OF wf assms(2)] revoke_handles_None [of st r] by (simp add: r record_wf_def)
  ultimately have run: "Grants a \<notin> set es \<and> Admits (br_recording_authorization r) \<notin> set es
     \<and> (\<forall>n na. bk_natives st' n = Some na \<and> na_lifetime na = br_recording_authorization r
          \<longrightarrow> Permits n \<notin> set es)"
    using retired_run [OF assms(4) wf' assms(5) dead] by blast
  have "broker_dead a st''"
    using keeps_dead [OF wf' broker_run_heap [OF assms(4) wf'] broker_run_keeps [OF assms(4) wf' assms(5)] dead] .
  then show ?thesis using run broker.dead_never_granted [of a st''] by blast
qed

text \<open>
  C14. An authorization binds once. After a lease was issued for a request, and as long as no
  registration draws the identifier again, every further \<open>authorize\<close> for it fails, and an
  \<open>Active\<close> answer to an action or a lease check is given only to the connection and the
  session, with the request digest and the window, of that first request, and only for an
  action scope the registration lists.
\<close>

theorem authorization_binds_once:
  assumes "broker_reachable x st" and "broker_authorize clk q st = (Inr l, st')"
    and "broker_run x st' es st''" and "Registers (rq_authorization_id q) \<notin> set es"
  shows "(rq_authorization_id q' = rq_authorization_id q \<longrightarrow> \<not> is_ok (fst (broker_authorize clk' q' st'')))
     \<and> (vr_authorization_id v = rq_authorization_id q \<and> decision_active (fst (broker_validate clk' v st''))
        \<longrightarrow> vr_connection_id v = rq_connection_id q \<and> vr_session_id v = rq_session_id q
          \<and> vr_lease_request_digest v = rq_request_digest q
          \<and> vr_target_process_id v = rq_target_process_id q
          \<and> vr_target_window_handle v = rq_target_window_handle q
          \<and> vr_action_scope v \<in> set (ls_allowed_actions l))
     \<and> (lv_authorization_id lv = rq_authorization_id q \<and> decision_active (fst (broker_validate_lease clk' lv st''))
        \<longrightarrow> lv_connection_id lv = rq_connection_id q \<and> lv_session_id lv = rq_session_id q
          \<and> lv_lease_request_digest lv = rq_request_digest q
          \<and> lv_task_grant_id lv = ls_task_grant_id l \<and> lv_window_capability lv = ls_window_capability l
          \<and> lv_target_process_id lv = rq_target_process_id q
          \<and> lv_target_window_handle lv = rq_target_window_handle q)"
proof -
  let ?a = "rq_authorization_id q"
  have wf': "broker_wf st'" using authorize_wf reachable_wf assms(1,2) by blast
  obtain r where r: "map_of (bk_authorizations st) ?a = Some r"
    and exact: "authorize_exact_match q r" and l: "l = lease_of (unix_time_millis (clk 0)) q (br_registration r)"
    using assms(2) by (rule broker_authorizeD)
  have st': "map_of (bk_authorizations st') ?a = Some (bound_record q (bk_next st) r)"
    by (simp add: broker_authorize_ok_state [OF assms(2) r])
  have keep: "keeps_record ?a st' st''" using broker_run_keeps [OF assms(3) wf' assms(4)] .
  have bound: "br_registration r'' = br_registration r \<and> br_window_capability r'' = br_window_capability r \<and> (\<exists>b. br_binding r'' = Some b
      \<and> bb_connection_id b = rq_connection_id q \<and> bb_session_id b = rq_session_id q
      \<and> bb_lease_request_digest b = rq_request_digest q \<and> bb_target_process_id b = rq_target_process_id q
      \<and> bb_target_window_handle b = rq_target_window_handle q)"
    if "map_of (bk_authorizations st'') ?a = Some r''" for r''
    using keep that st' by (auto simp: keeps_record_def record_le_def bound_record_def Let_def split: if_splits)
  have "\<not> is_ok (fst (broker_authorize clk' q' st''))" if "rq_authorization_id q' = ?a"
  proof
    assume "is_ok (fst (broker_authorize clk' q' st''))"
    then obtain l' s where "broker_authorize clk' q' st'' = (Inr l', s)"
      by (metis is_ok_iff prod.collapse)
    then obtain r'' where "map_of (bk_authorizations st'') (rq_authorization_id q') = Some r''"
      and "br_binding r'' = None" by (rule broker_authorizeD)
    with bound [of r''] show False using that by simp
  qed
  moreover have "vr_connection_id v = rq_connection_id q \<and> vr_session_id v = rq_session_id q
      \<and> vr_lease_request_digest v = rq_request_digest q \<and> vr_target_process_id v = rq_target_process_id q
      \<and> vr_target_window_handle v = rq_target_window_handle q
      \<and> vr_action_scope v \<in> set (ls_allowed_actions l)"
    if active: "vr_authorization_id v = ?a" "decision_active (fst (broker_validate clk' v st''))"
  proof -
    have "is_ok (fst (broker_validate clk' v st''))" using active(2) by (auto simp: decision_active_iff)
    then obtain r'' b where "map_of (bk_authorizations st'') (vr_authorization_id v) = Some r''"
      and r'': "br_binding r'' = Some b" "validate_exact_match v r'' b"
      by (rule broker_validate_okD)
    then have a: "map_of (bk_authorizations st'') ?a = Some r''" by (simp only: active(1))
    from bound [OF a] r'' show ?thesis
      by (simp add: validate_exact_match_def l lease_of_def)
  qed
  moreover have "lv_connection_id lv = rq_connection_id q \<and> lv_session_id lv = rq_session_id q
      \<and> lv_lease_request_digest lv = rq_request_digest q
      \<and> lv_task_grant_id lv = ls_task_grant_id l \<and> lv_window_capability lv = ls_window_capability l
      \<and> lv_target_process_id lv = rq_target_process_id q \<and> lv_target_window_handle lv = rq_target_window_handle q"
    if active: "lv_authorization_id lv = ?a" "decision_active (fst (broker_validate_lease clk' lv st''))"
  proof -
    have "is_ok (fst (broker_validate_lease clk' lv st''))" using active(2) by (auto simp: decision_active_iff)
    then obtain r'' b where "map_of (bk_authorizations st'') (lv_authorization_id lv) = Some r''"
      and r'': "br_binding r'' = Some b" "validate_lease_exact_match lv r'' b"
      by (rule broker_validate_lease_okD)
    then have a: "map_of (bk_authorizations st'') ?a = Some r''" by (simp only: active(1))
    from bound [OF a] r'' exact show ?thesis
      by (simp add: authorize_exact_match_def validate_lease_exact_match_def l lease_of_def)
  qed
  ultimately show ?thesis by blast
qed

text \<open>
  C17. Registration terminates: with UUIDs that do not repeat within 257 draws, every call of
  \<open>register_inner\<close> on a reachable broker returns, and the identifier loop draws at most one
  UUID more than there are live authorizations.
\<close>

theorem registration_returns:
  assumes "broker_reachable x st" and "inj_on uuids {..256}"
  shows "register_inner x clk uuids g deadline st \<noteq> None
     \<and> (length (live_records clk st) < 256 \<longrightarrow>
         (\<exists>a k. draw_authorization_id (live_records clk st) uuids 0 = Some (a, k)
            \<and> k \<le> Suc (length (live_records clk st)) \<and> a \<notin> set (keys_of (live_records clk st))))"
proof -
  have "length (live_records clk st) \<le> 256"
    using reachable_wf [OF assms(1)] broker_wf_live [of st clk]
    by (simp add: broker_wf_def MAX_BROKER_AUTHORIZATIONS_def)
  then have "inj_on uuids {..length (live_records clk st)}"
    using assms(2) by (auto intro: inj_on_subset)
  then obtain j where "j \<le> length (live_records clk st)"
    "authorization_id_of (uuids j) \<notin> set (keys_of (live_records clk st))"
    using fresh_candidate by blast
  then obtain a k where draw: "draw_authorization_id (live_records clk st) uuids 0 = Some (a, k)"
    "k \<le> Suc (length (live_records clk st))"
    using draw_authorization_id_returns [of 0 j uuids "live_records clk st"] by fastforce
  moreover have "a \<notin> set (keys_of (live_records clk st))"
    using conjunct1 [OF draw_authorization_id_result [OF draw(1)]] by simp
  ultimately show ?thesis
    by (auto simp: register_inner_def split: sum.splits)
qed

section \<open>Agreement of the issuer and the Host\<close>

lemma validate_registrationD:
  assumes "validate_registration x w g = Inr ()"
  shows "unix_time_millis w < rg_expires_at_unix_ms g"
    "saturating_sub (rg_expires_at_unix_ms g) (unix_time_millis w) \<le> MAX_TASK_AUTHORIZATION_TTL_MS"
    "valid_actions x (rg_allowed_actions g)" "valid_methods (rg_allowed_host_methods g)"
    "valid_origins x (rg_allowed_browser_origins g)"
    "rg_browser_scope g = Some s \<Longrightarrow> browser_scope_validate x s \<and> rg_allowed_browser_origins g = [bs_origin s]"
    "rg_recording_output_dir g = Some d \<Longrightarrow> validate_recording_output_location w d = Inr ()
       \<and> set recording_methods \<subseteq> set (rg_allowed_host_methods g)"
  using assms
  by (auto simp: validate_registration_def validate_registration_scopes_def
      validate_registration_browser_def validate_registration_recording_def and_then_Inr_iff
      valid_actions_def valid_methods_def valid_origins_def is_ok_unit not_less not_le
      split: option.splits)

lemma validate_registration_preparationD:
  assumes "validate_registration x w g = Inr ()"
  shows "list_ex (starts_with ''capture_preparation_'') (rg_allowed_host_methods g) \<longleftrightarrow> rg_capture_preparation g \<noteq> None"
    "list_ex is_capture_preparation (rg_allowed_actions g) \<longleftrightarrow> rg_capture_preparation g \<noteq> None"
    "rg_capture_preparation g = Some a \<Longrightarrow>
       0 < cp_max_lifetime_ms a \<and> cp_max_lifetime_ms a \<le> MAX_PREPARATION_LIFETIME_MS
       \<and> validate_recording_output_location w (cp_journal_directory a) = Inr ()
       \<and> rg_recording_output_dir g \<noteq> Some (cp_journal_directory a)
       \<and> rg_browser_scope g = None \<and> rg_allowed_browser_origins g = []
       \<and> set preparation_methods \<subseteq> set (rg_allowed_host_methods g)"
  using assms
  by (auto simp: validate_registration_def validate_registration_preparation_def and_then_Inr_iff
      is_ok_unit not_less word_greater_zero_iff split: option.splits)

lemma location_dir: "validate_recording_output_location w d = Inr () \<Longrightarrow> validate_recording_output_dir d = Inr ()"
  by (auto simp: validate_recording_output_location_def and_then_Inr_iff)

lemma location_cong:
  "symlink_metadata w = symlink_metadata w' \<Longrightarrow>
   validate_recording_output_location w d = validate_recording_output_location w' d"
proof -
  assume "symlink_metadata w = symlink_metadata w'"
  then have "ordinary_directory w = ordinary_directory w'" by (intro ext) (simp add: ordinary_directory_def)
  then show ?thesis by (simp add: validate_recording_output_location_def)
qed

lemma saturating_sub_antimono:
  "a \<le> b \<Longrightarrow> saturating_sub (c :: 'a::len word) b \<le> saturating_sub c a"
  by (simp add: word_le_nat_alt unat_saturating_sub)

text \<open>Every lease cut from a valid registration passes the lease check of the Host.\<close>

lemma registered_lease_valid:
  assumes g: "validate_registration x w0 g = Inr ()" and l: "l = lease_of now q g"
    and time: "unix_time_millis w0 \<le> now" "now \<le> unix_time_millis w"
      "unix_time_millis w < rg_expires_at_unix_ms g"
    and fs: "symlink_metadata w = symlink_metadata w0"
  shows "validate_lease x w q l = Inr ()"
proof -
  have "lease_fields_match q l" by (simp add: l lease_of_def lease_fields_match_def)
  moreover have "lease_valid_time (unix_time_millis w) l"
    using time saturating_sub_antimono [OF time(1)] validate_registrationD(2) [OF g]
    by (auto simp: l lease_of_def lease_valid_time_def intro: order_trans)
  moreover have "lease_valid_browser_scope x l"
    using validate_registrationD(6) [OF g] by (simp add: l lease_of_def lease_valid_browser_scope_def split: option.splits)
  moreover have "lease_valid_recording_scope l"
    using validate_registrationD(7) [OF g] location_dir
    by (auto simp: l lease_of_def lease_valid_recording_scope_def is_ok_unit split: option.splits)
  moreover have "lease_valid_preparation_scope w l"
    using validate_registration_preparationD [OF g] location_cong [OF fs]
    by (auto simp: l lease_of_def lease_valid_preparation_scope_def is_ok_unit split: option.splits)
  ultimately show ?thesis
    using validate_registrationD(3-5) [OF g] by (simp add: validate_lease_ok_iff l lease_of_def)
qed

text \<open>
  C16. What the issuer registers, the Host can use: after a successful registration, a
  binding that names the receipt's identifier and capability, the registered grant, label
  and target, and the session and the connection the registration fixes, is issued a lease
  with exactly the registered scope and expiry, provided the clocks have not gone back or
  past the expiry and the file system is the one that was checked.
\<close>

theorem registered_task_is_authorized:
  assumes reach: "broker_reachable x st"
    and reg: "register_inner x clk uuids g deadline st = Some (Inr rc, st')"
    and req: "binding_request x uuid b = Inr q"
    and names: "tb_authorization_id b = rc_authorization_id rc" "tb_window_capability b = rc_window_capability rc"
      "tb_task_grant_id b = rg_task_grant_id g" "tb_application_label b = rg_application_label g"
    and session: "rg_task_id g \<in> {None, Some (tb_session_id b)}"
    and connection: "rg_connection_id g \<in> {None, Some (tb_connection_id b)}"
    and target: "rg_target g = ExactWindow (cw_process_id (tb_target b)) (cw_window_handle (tb_target b))"
    and time: "unix_time_millis (clk 0) \<le> unix_time_millis (clk' 0)"
      "unix_time_millis (clk' 0) \<le> unix_time_millis w" "unix_time_millis w < rg_expires_at_unix_ms g"
    and fence: "is_ok (fst (admit (clk' 1) (registration_fence clk (rg_expires_at_unix_ms g) deadline)))"
    and fs: "symlink_metadata w = symlink_metadata (clk 0)"
  shows "\<exists>l st''. issue_task_authorization x (Some broker_host) uuid clk' w b st' = (Inr l, st'')
     \<and> ls_allowed_actions l = rg_allowed_actions g \<and> ls_allowed_host_methods l = rg_allowed_host_methods g
     \<and> ls_allowed_browser_origins l = rg_allowed_browser_origins g \<and> ls_browser_scope l = rg_browser_scope g
     \<and> ls_recording_output_dir l = rg_recording_output_dir g
     \<and> ls_capture_preparation l = rg_capture_preparation g
     \<and> ls_expires_at_unix_ms l = rg_expires_at_unix_ms g"
proof -
  let ?r = "registered_record g (rc_window_capability rc) (bk_next st)"
  let ?l = "lease_of (unix_time_millis (clk' 0)) q g"
  have g: "validate_registration x (clk 0) g = Inr ()" and np: "\<not> bk_poisoned st'"
    and r: "map_of (bk_authorizations st') (rc_authorization_id rc) = Some ?r"
    and f: "bk_fences st' (bk_next st) = Some (registration_fence clk (rg_expires_at_unix_ms g) deadline)"
    using reg by (auto elim!: register_okD)
  note qf = binding_request_fields [OF req]
  have "fst (record_is_active (clk' 1) ?r (bk_fences st'))"
    using fence f by (simp add: record_is_active_iff registered_record_def fence_open_def admit_ok_iff)
  moreover have "authorize_exact_match q ?r"
    using names session connection target qf
    by (auto simp: authorize_exact_match_def registered_record_def target_matches_def)
  moreover have "unix_time_millis (clk' 0) < rg_expires_at_unix_ms g" using time by simp
  ultimately obtain st'' where auth: "broker_authorize clk' q st' = (Inr ?l, st'')"
    using r np qf names
    by (fastforce simp: broker_authorize_def case_prod_beta Let_def registered_record_def)
  have "validate_lease x w q ?l = Inr ()" by (rule registered_lease_valid [OF g refl time fs])
  then have "issue_task_authorization x (Some broker_host) uuid clk' w b st' = (Inr ?l, st'')"
    using auth req by (simp add: issue_task_authorization_def broker_host_def)
  then show ?thesis by (intro exI [of _ ?l] exI [of _ st'']) (simp add: lease_of_def)
qed

section \<open>A concrete task\<close>

definition example_registration :: TrustedTaskAuthorizationRegistration where
  "example_registration = \<lparr>rg_connection_id = None, rg_task_id = Some ''s'', rg_task_grant_id = ''g'',
     rg_application_label = ''l'', rg_target = ExactWindow 7 9,
     rg_allowed_host_methods = [''execute_action''], rg_allowed_actions = [example_scope],
     rg_allowed_browser_origins = [], rg_browser_scope = None, rg_recording_output_dir = None,
     rg_capture_preparation = None, rg_expires_at_unix_ms = 60000\<rparr>"

definition example_uuids :: "nat \<Rightarrow> string" where
  "example_uuids n = replicate n CHR ''u''"

definition example_receipt :: TrustedTaskAuthorizationReceipt where
  "example_receipt = \<lparr>rc_authorization_id = authorization_id_of [],
     rc_window_capability = window_capability_of ''u'', rc_expires_at_unix_ms = 60000\<rparr>"

definition registered_broker :: BrokerState where
  "registered_broker = \<lparr>bk_poisoned = False,
     bk_authorizations = [(authorization_id_of [], registered_record example_registration (window_capability_of ''u'') 0)],
     bk_fences = [0 \<mapsto> registration_fence (\<lambda>_. example_world) 60000 None],
     bk_natives = (\<lambda>_. None), bk_next = 1\<rparr>"

lemma example_registration_valid: "validate_registration example_externs example_world example_registration = Inr ()"
proof -
  have "graphic ''g''" "graphic ''l''" "graphic ''s''" by (simp_all add: graphic_def)
  then have "validate_registration_identities example_registration = Inr ()"
    by (simp add: validate_registration_identities_def example_registration_def
        broker_validate_identity_def graphic_simps MAX_TASK_GRANT_ID_CHARS_def MAX_APPLICATION_LABEL_CHARS_def)
  moreover have "validate_registration_scopes example_externs (unix_time_millis example_world) example_registration = Inr ()"
    by (simp add: validate_registration_scopes_def example_registration_def example_world_def
        unix_time_millis_def millis_u64_def saturating_sub_def MAX_TASK_AUTHORIZATION_TTL_MS_def
        MAX_TASK_AUTHORIZATION_ACTIONS_def example_scope_def action_scope_validate_def
        is_task_authorizable_host_method_def task_authorizable_host_methods_def scope_simps)
  ultimately show ?thesis
    by (simp add: validate_registration_def validate_registration_preparation_def
        validate_registration_recording_def validate_registration_browser_def
        example_registration_def starts_with_def example_scope_def scope_simps
        MAX_TASK_AUTHORIZATION_ACTIONS_def)
qed

lemma example_fence_open: "ra_active example_world (registration_fence (\<lambda>_. example_world) 60000 None)"
  by (simp add: registration_fence_def ra_active_def ra_expired_def recording_authorization_new_def
      recording_clock_def example_world_def millis_u64_def instant_checked_add_def saturating_sub_def)

lemma example_registers:
  "register_inner example_externs (\<lambda>_. example_world) example_uuids example_registration None
     trusted_task_authorization_broker = Some (Inr example_receipt, registered_broker)"
proof -
  have "draw_authorization_id [] example_uuids 0 = Some (authorization_id_of [], 1)"
    by (subst draw_authorization_id.simps) (simp add: example_uuids_def)
  moreover have "live_records clk trusted_task_authorization_broker = []" for clk
    by (simp add: live_records_def trusted_task_authorization_broker_def retain_def)
  ultimately show ?thesis
    using example_registration_valid example_fence_open
    by (simp add: register_inner_def trusted_task_authorization_broker_def registered_broker_def
        example_receipt_def admit_ok_iff MAX_BROKER_AUTHORIZATIONS_def example_uuids_def
        example_registration_def fun_eq_iff)
qed

lemma registered_reachable: "broker_reachable example_externs registered_broker"
  using broker_run.run_step [OF broker_step.step_registered [OF example_registers] broker_run.run_done]
  by (auto simp: broker_reachable_def)

theorem broker_invariant_witness:
  "broker_reachable example_externs registered_broker \<and> length (bk_authorizations registered_broker) = 1
   \<and> distinct (keys_of (bk_authorizations registered_broker))"
  using broker_invariant [OF registered_reachable] registered_reachable
  by (simp add: registered_broker_def)

theorem revocation_is_final_witness:
  "\<exists>st'. broker_revoke (authorization_id_of []) registered_broker = (Inr (), st')
     \<and> broker_run example_externs st' [Quiet] st'
     \<and> Grants (authorization_id_of []) \<notin> set [Quiet]"
proof -
  let ?a = "authorization_id_of []"
  obtain r where r: "map_of (bk_authorizations registered_broker) ?a = Some r"
    by (simp add: registered_broker_def)
  then obtain st' where rev: "broker_revoke ?a registered_broker = (Inr (), st')"
    by (simp add: broker_revoke_def registered_broker_def)
  have "broker_revoke ''none'' st' = (Inl NotFound, st')"
    using rev by (auto simp: broker_revoke_def registered_broker_def authorization_id_of_def)
  then have run: "broker_run example_externs st' [Quiet] st'"
    using broker_run.run_step [OF broker_step.step_revoke broker_run.run_done] by blast
  from revocation_is_final [OF registered_reachable r rev run] rev run show ?thesis by auto
qed

theorem registration_returns_witness:
  "register_inner example_externs (\<lambda>_. example_world) example_uuids example_registration None
     registered_broker \<noteq> None"
proof -
  have "inj_on example_uuids {..256}"
    by (rule inj_onI) (metis example_uuids_def length_replicate)
  from registration_returns [OF registered_reachable this] show ?thesis by blast
qed

definition registered_binding :: TaskAuthorizationBinding where
  "registered_binding = example_task_binding\<lparr>tb_authorization_id := authorization_id_of [],
     tb_window_capability := window_capability_of ''u''\<rparr>"

lemma registered_binding_request:
  "\<exists>q. binding_request example_externs ''v'' registered_binding = Inr q"
proof -
  have "validate_authorization_id (authorization_id_of []) = Inr ()"
    by (simp add: validate_authorization_id_iff identity_ok_graphic graphic_def authorization_id_of_def
        MAX_TASK_AUTHORIZATION_ID_CHARS_def)
  then show ?thesis
    by (simp add: binding_request_def registered_binding_def digest_def digest_with_context_def
        example_externs_def)
qed

theorem registered_task_is_authorized_witness:
  "\<exists>l st''. issue_task_authorization example_externs (Some broker_host) ''v'' (\<lambda>_. example_world)
      example_world registered_binding registered_broker = (Inr l, st'')
     \<and> ls_allowed_actions l = [example_scope]"
proof -
  obtain q where q: "binding_request example_externs ''v'' registered_binding = Inr q"
    using registered_binding_request by blast
  have "\<exists>l st''. issue_task_authorization example_externs (Some broker_host) ''v'' (\<lambda>_. example_world)
      example_world registered_binding registered_broker = (Inr l, st'')
     \<and> ls_allowed_actions l = rg_allowed_actions example_registration
     \<and> ls_allowed_host_methods l = rg_allowed_host_methods example_registration
     \<and> ls_allowed_browser_origins l = rg_allowed_browser_origins example_registration
     \<and> ls_browser_scope l = rg_browser_scope example_registration
     \<and> ls_recording_output_dir l = rg_recording_output_dir example_registration
     \<and> ls_capture_preparation l = rg_capture_preparation example_registration
     \<and> ls_expires_at_unix_ms l = rg_expires_at_unix_ms example_registration"
  proof (rule registered_task_is_authorized [OF _ example_registers q])
    show "broker_reachable example_externs trusted_task_authorization_broker"
      using broker_run.run_done by (auto simp: broker_reachable_def)
  qed (use example_fence_open in \<open>simp_all add: registered_binding_def example_receipt_def
      example_registration_def example_task_binding_def admit_ok_iff example_world_def
      unix_time_millis_def millis_u64_def\<close>)
  then show ?thesis by (auto simp: example_registration_def)
qed

definition example_request :: TrustedTaskAuthorizationRequest where
  "example_request = \<lparr>rq_schema = TRUSTED_TASK_AUTHORIZATION_SCHEMA, rq_request_id = ''v'',
     rq_connection_id = ''c'', rq_authorization_id = authorization_id_of [], rq_session_id = ''s'',
     rq_task_grant_id = ''g'', rq_application_label = ''l'',
     rq_window_capability = window_capability_of ''u'', rq_target_process_id = 7,
     rq_target_window_handle = 9, rq_request_digest = ''sha256:00''\<rparr>"

theorem authorization_binds_once_witness:
  "\<exists>l st'. broker_authorize (\<lambda>_. example_world) example_request registered_broker = (Inr l, st')
     \<and> \<not> is_ok (fst (broker_authorize (\<lambda>_. example_world) example_request st'))"
proof -
  have "fst (record_is_active example_world
      (registered_record example_registration (window_capability_of ''u'') 0) (bk_fences registered_broker))"
    using example_fence_open
    by (simp add: record_is_active_iff registered_record_def registered_broker_def fence_open_def)
  moreover have "unix_time_millis example_world = 0"
    by (simp add: unix_time_millis_def example_world_def millis_u64_def)
  ultimately obtain l st' where
    auth: "broker_authorize (\<lambda>_. example_world) example_request registered_broker = (Inr l, st')"
    by (simp add: broker_authorize_def example_request_def registered_broker_def
        authorize_exact_match_def registered_record_def example_registration_def target_matches_def
        case_prod_beta Let_def)
  have "Registers (rq_authorization_id example_request) \<notin> set []" by simp
  from authorization_binds_once [OF registered_reachable auth broker_run.run_done this] auth
  show ?thesis by blast
qed

end
