(* ===== verification/Cross_Client.thy ===== *)
theory Cross_Client
  imports Broker_Runs
begin

text \<open>
  Cross-client task authorization
  (\<open>crates/dcc-cua-host/src/cross_client_task_authorization.rs\<close>): the verifier prepares a
  challenge, consumes one signed decision for it and registers the authorization with its
  own broker; its Host half wraps the broker's with the clock, the trust registry and the
  live target. The trust registry and its administration are in the same file.

  Parameters: canonical JSON (\<open>serde_jcs\<close>), the derived decoder of a signed decision
  (\<open>serde_json::from_slice\<close>), base64 and Ed25519, and the clock trait. The target observer is
  \<open>process_identity\<close> of the sampled world.
\<close>

section \<open>Data\<close>

definition CROSS_CLIENT_TASK_AUTHORIZATION_CHALLENGE_SCHEMA :: string where
  "CROSS_CLIENT_TASK_AUTHORIZATION_CHALLENGE_SCHEMA = ''dcc-cua.task-authorization-challenge.v2''"

definition CROSS_CLIENT_TASK_AUTHORIZATION_RECEIPT_SCHEMA :: string where
  "CROSS_CLIENT_TASK_AUTHORIZATION_RECEIPT_SCHEMA = ''dcc-cua.task-authorization-receipt.v2''"

definition SIGNING_DOMAIN :: string where
  "SIGNING_DOMAIN = ''dcc-cua.task-authorization-receipt.v2''"

definition PROVIDER :: string where "PROVIDER = ''dcc-cua''"
definition MAX_PENDING_CHALLENGES :: nat where "MAX_PENDING_CHALLENGES = 256"
definition MAX_PENDING_TTL_MS :: u64 where "MAX_PENDING_TTL_MS = 300000"
definition MAX_SAFE_JSON_INTEGER :: u64 where "MAX_SAFE_JSON_INTEGER = 9007199254740991"
definition MAX_IDENTITY_CHARS :: nat where "MAX_IDENTITY_CHARS = 256"
definition MAX_LABEL_CHARS :: nat where "MAX_LABEL_CHARS = 512"
definition MAX_HOST_METHODS :: nat where "MAX_HOST_METHODS = 64"
definition MAX_SIGNED_RECEIPT_BYTES :: nat where "MAX_SIGNED_RECEIPT_BYTES = 16384"

record CrossClientTaskAuthorizationAudience =
  au_client_id :: string
  au_tenant_id :: string
  au_user_id :: string

record CrossClientTaskAuthorizationRuntime =
  rt_runtime_version :: string
  rt_runtime_instance_id :: string
  rt_boot_generation :: u64

datatype CrossClientTaskAuthorizationSecretPolicy = Forbidden | NamedHandlesOnly

record BrowserTab =
  bt_host_target_id :: string
  bt_tab_id :: string
  bt_document_generation :: string
  bt_origin :: string

text \<open>\<open>CrossClientTaskAuthorizationTarget\<close>; the last four fields of \<open>ExactBrowser\<close> are grouped.\<close>

datatype CrossClientTaskAuthorizationTarget =
    CrossExactWindow u32 string u64
  | CrossExactBrowser u32 string u64 BrowserTab
  | BrowserBootstrapExactWindow u32 string u64
  | BrowserBootstrapOwned ComputerUseOwnedBrowserFamily ComputerUseOwnedBrowserProfile

fun is_bootstrap :: "CrossClientTaskAuthorizationTarget \<Rightarrow> bool" where
  "is_bootstrap (BrowserBootstrapExactWindow _ _ _) = True"
| "is_bootstrap (BrowserBootstrapOwned _ _) = True"
| "is_bootstrap _ = False"

fun exact_window :: "CrossClientTaskAuthorizationTarget \<Rightarrow> (u32 \<times> u64) option" where
  "exact_window (CrossExactWindow pid _ hwnd) = Some (pid, hwnd)"
| "exact_window (CrossExactBrowser pid _ hwnd _) = Some (pid, hwnd)"
| "exact_window _ = None"

record CrossClientTaskAuthorizationChallengeRequest =
  qr_audience :: CrossClientTaskAuthorizationAudience
  qr_task_id :: string
  qr_connection_id :: string
  qr_task_grant_id :: string
  qr_application_label :: string
  qr_purpose :: string
  qr_target :: CrossClientTaskAuthorizationTarget
  qr_allowed_host_methods :: "string list"
  qr_allowed_actions :: "TrustedTaskActionScope list"
  qr_allowed_browser_origins :: "string list"
  qr_secret_handle_policy :: CrossClientTaskAuthorizationSecretPolicy
  qr_irreversible_operation :: "string option"
  qr_expires_at_unix_ms :: u64

record CrossClientTaskAuthorizationChallenge =
  ch_schema :: string
  ch_provider :: string
  ch_runtime_version :: string
  ch_runtime_instance_id :: string
  ch_boot_generation :: u64
  ch_audience :: CrossClientTaskAuthorizationAudience
  ch_challenge_id :: string
  ch_nonce :: string
  ch_task_id :: string
  ch_connection_id :: string
  ch_task_grant_id :: string
  ch_application_label :: string
  ch_purpose :: string
  ch_target :: CrossClientTaskAuthorizationTarget
  ch_allowed_host_methods :: "string list"
  ch_allowed_actions :: "TrustedTaskActionScope list"
  ch_allowed_browser_origins :: "string list"
  ch_secret_handle_policy :: CrossClientTaskAuthorizationSecretPolicy
  ch_irreversible_operation :: "string option"
  ch_issued_at_unix_ms :: u64
  ch_confirmation_deadline_unix_ms :: u64
  ch_expires_at_unix_ms :: u64
  ch_challenge_sha256 :: string

datatype CrossClientTaskAuthorizationDecision = DecisionAllow | DecisionDeny

record CrossClientTaskAuthorizationUnsignedDecision =
  ud_schema :: string
  ud_issuer_key_id :: string
  ud_audience :: CrossClientTaskAuthorizationAudience
  ud_runtime_instance_id :: string
  ud_boot_generation :: u64
  ud_challenge_id :: string
  ud_nonce :: string
  ud_challenge_sha256 :: string
  ud_decision :: CrossClientTaskAuthorizationDecision
  ud_issued_at_unix_ms :: u64
  ud_expires_at_unix_ms :: u64

record CrossClientTaskAuthorizationSignedDecision =
  sd_decision :: CrossClientTaskAuthorizationUnsignedDecision
  sd_signature :: string

record TrustedTaskAuthorizationKey =
  tk_key_id :: string
  tk_audience :: CrossClientTaskAuthorizationAudience
  tk_verifying_key :: string

datatype CrossClientTaskAuthorizationTrustState =
    TrustActive TrustedTaskAuthorizationKey
  | TrustRevoked u64

datatype CrossClientTaskAuthorizationError =
    InvalidConfiguration | InvalidChallenge | Capacity | ClockUnavailable | ClockRollback
  | TargetUnavailable | MalformedReceipt | NoncanonicalReceipt | UnknownKey | RevokedKey
  | TrustUnavailable | InvalidSignature | BindingMismatch | Expired | Replay | BrokerUnavailable

record CrossClientTaskAuthorizationBootstrap =
  bo_challenge_id :: string
  bo_target :: CrossClientTaskAuthorizationTarget
  bo_expires_at_unix_ms :: u64

datatype CrossClientTaskAuthorizationConsumption =
    Task TrustedTaskAuthorizationReceipt
  | BrowserBootstrap CrossClientTaskAuthorizationBootstrap
  | Denied

record AuthorizationProvenance =
  pv_key :: TrustedTaskAuthorizationKey
  pv_process_creation_identity :: string
  pv_expires_at_unix_ms :: u64

record ChallengeRecord =
  cl_challenge :: CrossClientTaskAuthorizationChallenge
  cl_consumed :: bool

record VerifierState =
  vs_poisoned :: bool
  vs_challenges :: "(string \<times> ChallengeRecord) list"
  vs_authorizations :: "(string \<times> AuthorizationProvenance) list"
  vs_last_observed_unix_ms :: "u64 option"
  vs_clock_failed :: bool

record RegistryKey =
  rk_key :: TrustedTaskAuthorizationKey
  rk_revoked_at_epoch :: "u64 option"

record TrustRegistry =
  tr_poisoned :: bool
  tr_keys :: "(string \<times> RegistryKey) list"

text \<open>The verifier, its Host half and the trust registry share their states behind \<open>Arc\<close>s.\<close>

record CrossState =
  cs_verifier :: VerifierState
  cs_trust :: TrustRegistry
  cs_broker :: BrokerState

record cross_externs =
  cx_base :: externs
  jcs :: "json \<Rightarrow> string option"
  signed_from_slice :: "string \<Rightarrow> CrossClientTaskAuthorizationSignedDecision option"
  base64_encode :: "string \<Rightarrow> string"
  base64_decode :: "string \<Rightarrow> string option"
  valid_verifying_key :: "string \<Rightarrow> bool"
  valid_signature :: "string \<Rightarrow> bool"
  verify_strict :: "string \<Rightarrow> string \<Rightarrow> string \<Rightarrow> bool"
  trait_clock :: "world \<Rightarrow> CrossClientTaskAuthorizationError + u64"

text \<open>\<open>SystemClock\<close>, the clock \<open>cross_client_task_authorization\<close> installs.\<close>

definition system_clock :: "world \<Rightarrow> CrossClientTaskAuthorizationError + u64" where
  "system_clock w = Inr (unix_time_millis w)"

section \<open>Serialization\<close>

definition json_audience :: "CrossClientTaskAuthorizationAudience \<Rightarrow> json" where
  "json_audience a = JObj [(''client_id'', JStr (au_client_id a)),
     (''tenant_id'', JStr (au_tenant_id a)), (''user_id'', JStr (au_user_id a))]"

fun json_secret_policy :: "CrossClientTaskAuthorizationSecretPolicy \<Rightarrow> json" where
  "json_secret_policy Forbidden = JStr ''forbidden''"
| "json_secret_policy NamedHandlesOnly = JStr ''named_handles_only''"

definition json_window :: "string \<Rightarrow> u32 \<Rightarrow> string \<Rightarrow> u64 \<Rightarrow> (string \<times> json) list" where
  "json_window kind pid identity hwnd =
     [(''kind'', JStr kind), (''process_id'', json_u32 pid),
      (''process_creation_identity'', JStr identity), (''window_handle'', json_u64 hwnd)]"

fun json_target :: "CrossClientTaskAuthorizationTarget \<Rightarrow> json" where
  "json_target (CrossExactWindow pid identity hwnd) = JObj (json_window ''exact_window'' pid identity hwnd)"
| "json_target (CrossExactBrowser pid identity hwnd t) = JObj (json_window ''exact_browser'' pid identity hwnd
     @ [(''host_target_id'', JStr (bt_host_target_id t)), (''tab_id'', JStr (bt_tab_id t)),
        (''document_generation'', JStr (bt_document_generation t)), (''origin'', JStr (bt_origin t))])"
| "json_target (BrowserBootstrapExactWindow pid identity hwnd) =
     JObj (json_window ''browser_bootstrap_exact_window'' pid identity hwnd)"
| "json_target (BrowserBootstrapOwned Chromium IsolatedNew) =
     JObj [(''kind'', JStr ''browser_bootstrap_owned''), (''browser'', JStr ''chromium''),
           (''profile'', JStr ''isolated_new'')]"

definition json_strings :: "string list \<Rightarrow> json" where
  "json_strings xs = JArr (map JStr xs)"

definition json_challenge :: "CrossClientTaskAuthorizationChallenge \<Rightarrow> json" where
  "json_challenge c = JObj
     ([(''schema'', JStr (ch_schema c)), (''provider'', JStr (ch_provider c)),
       (''runtime_version'', JStr (ch_runtime_version c)),
       (''runtime_instance_id'', JStr (ch_runtime_instance_id c)),
       (''boot_generation'', json_u64 (ch_boot_generation c)),
       (''audience'', json_audience (ch_audience c)),
       (''challenge_id'', JStr (ch_challenge_id c)), (''nonce'', JStr (ch_nonce c)),
       (''task_id'', JStr (ch_task_id c)), (''connection_id'', JStr (ch_connection_id c)),
       (''task_grant_id'', JStr (ch_task_grant_id c)),
       (''application_label'', JStr (ch_application_label c)), (''purpose'', JStr (ch_purpose c)),
       (''target'', json_target (ch_target c)),
       (''allowed_host_methods'', json_strings (ch_allowed_host_methods c)),
       (''allowed_actions'', JArr (map json_action_scope (ch_allowed_actions c))),
       (''allowed_browser_origins'', json_strings (ch_allowed_browser_origins c)),
       (''secret_handle_policy'', json_secret_policy (ch_secret_handle_policy c))]
      @ (case ch_irreversible_operation c of None \<Rightarrow> [] | Some i \<Rightarrow> [(''irreversible_operation'', JStr i)])
      @ [(''issued_at_unix_ms'', json_u64 (ch_issued_at_unix_ms c)),
         (''confirmation_deadline_unix_ms'', json_u64 (ch_confirmation_deadline_unix_ms c)),
         (''expires_at_unix_ms'', json_u64 (ch_expires_at_unix_ms c))])"

fun json_decision :: "CrossClientTaskAuthorizationDecision \<Rightarrow> json" where
  "json_decision DecisionAllow = JStr ''allow''"
| "json_decision DecisionDeny = JStr ''deny''"

definition json_unsigned_decision :: "CrossClientTaskAuthorizationUnsignedDecision \<Rightarrow> json" where
  "json_unsigned_decision d = JObj
     [(''schema'', JStr (ud_schema d)), (''issuer_key_id'', JStr (ud_issuer_key_id d)),
      (''audience'', json_audience (ud_audience d)),
      (''runtime_instance_id'', JStr (ud_runtime_instance_id d)),
      (''boot_generation'', json_u64 (ud_boot_generation d)),
      (''challenge_id'', JStr (ud_challenge_id d)), (''nonce'', JStr (ud_nonce d)),
      (''challenge_sha256'', JStr (ud_challenge_sha256 d)),
      (''decision'', json_decision (ud_decision d)),
      (''issued_at_unix_ms'', json_u64 (ud_issued_at_unix_ms d)),
      (''expires_at_unix_ms'', json_u64 (ud_expires_at_unix_ms d))]"

definition json_signed_decision :: "CrossClientTaskAuthorizationSignedDecision \<Rightarrow> json" where
  "json_signed_decision s = JObj
     [(''decision'', json_unsigned_decision (sd_decision s)), (''signature'', JStr (sd_signature s))]"

definition jcs_or :: "cross_externs \<Rightarrow> CrossClientTaskAuthorizationError \<Rightarrow> json
   \<Rightarrow> CrossClientTaskAuthorizationError + string" where
  "jcs_or x e v = (case jcs x v of None \<Rightarrow> Inl e | Some s \<Rightarrow> Inr s)"

definition cross_client_task_authorization_signing_payload ::
  "cross_externs \<Rightarrow> CrossClientTaskAuthorizationUnsignedDecision
   \<Rightarrow> CrossClientTaskAuthorizationError + string" where
  "cross_client_task_authorization_signing_payload x d =
     and_then (jcs_or x MalformedReceipt (json_unsigned_decision d))
       (\<lambda>canonical. Inr (SIGNING_DOMAIN @ [CHR 0x00] @ canonical))"

definition canonical_cross_client_task_authorization_receipt ::
  "cross_externs \<Rightarrow> CrossClientTaskAuthorizationSignedDecision
   \<Rightarrow> CrossClientTaskAuthorizationError + string" where
  "canonical_cross_client_task_authorization_receipt x s = jcs_or x MalformedReceipt (json_signed_decision s)"

definition canonical_cross_client_task_authorization_challenge ::
  "cross_externs \<Rightarrow> CrossClientTaskAuthorizationChallenge
   \<Rightarrow> CrossClientTaskAuthorizationError + string" where
  "canonical_cross_client_task_authorization_challenge x c = jcs_or x InvalidChallenge (json_challenge c)"

definition challenge_digest ::
  "cross_externs \<Rightarrow> CrossClientTaskAuthorizationChallenge
   \<Rightarrow> CrossClientTaskAuthorizationError + string" where
  "challenge_digest x c =
     and_then (canonical_cross_client_task_authorization_challenge x c)
       (\<lambda>canonical. Inr (''sha256:'' @ sha256_hex (cx_base x) canonical))"

definition for_challenge ::
  "cross_externs \<Rightarrow> CrossClientTaskAuthorizationChallenge \<Rightarrow> string
   \<Rightarrow> CrossClientTaskAuthorizationDecision \<Rightarrow> u64 \<Rightarrow> u64
   \<Rightarrow> CrossClientTaskAuthorizationError + CrossClientTaskAuthorizationUnsignedDecision" where
  "for_challenge x c key_id decision issued expires =
     and_then (challenge_digest x c) (\<lambda>sha.
       if sha \<noteq> ch_challenge_sha256 c then Inl InvalidChallenge
       else Inr \<lparr>ud_schema = CROSS_CLIENT_TASK_AUTHORIZATION_RECEIPT_SCHEMA, ud_issuer_key_id = key_id,
         ud_audience = ch_audience c, ud_runtime_instance_id = ch_runtime_instance_id c,
         ud_boot_generation = ch_boot_generation c, ud_challenge_id = ch_challenge_id c,
         ud_nonce = ch_nonce c, ud_challenge_sha256 = sha, ud_decision = decision,
         ud_issued_at_unix_ms = issued, ud_expires_at_unix_ms = expires\<rparr>)"

section \<open>Validation\<close>

definition cross_validate_identity :: "string \<Rightarrow> nat \<Rightarrow> CrossClientTaskAuthorizationError + unit" where
  "cross_validate_identity value max_chars =
     guard (value = [] \<or> value \<noteq> str_trim value \<or> char_count value > max_chars \<or> has_control value)
       InvalidChallenge"

interpretation cross_identity: identity_validator "\<lambda>n s. cross_validate_identity s n"
  by unfold_locales (auto simp: cross_validate_identity_def guard_def identity_ok_def)

definition validate_label :: "string \<Rightarrow> CrossClientTaskAuthorizationError + unit" where
  "validate_label value = cross_validate_identity value MAX_LABEL_CHARS"

definition validate_safe_integer :: "u64 \<Rightarrow> CrossClientTaskAuthorizationError + unit" where
  "validate_safe_integer value = guard (value > MAX_SAFE_JSON_INTEGER) MalformedReceipt"

definition validate_audience ::
  "CrossClientTaskAuthorizationAudience \<Rightarrow> CrossClientTaskAuthorizationError + unit" where
  "validate_audience a =
     all_ok (\<lambda>value. cross_validate_identity value MAX_IDENTITY_CHARS)
       [au_client_id a, au_tenant_id a, au_user_id a]"

definition validate_runtime ::
  "CrossClientTaskAuthorizationRuntime \<Rightarrow> CrossClientTaskAuthorizationError + unit" where
  "validate_runtime r = map_err (\<lambda>_. InvalidConfiguration)
     (and_then (cross_validate_identity (rt_runtime_version r) MAX_IDENTITY_CHARS) (\<lambda>_.
      and_then (cross_validate_identity (rt_runtime_instance_id r) MAX_IDENTITY_CHARS) (\<lambda>_.
      validate_safe_integer (rt_boot_generation r))))"

definition validate_window_target :: "u32 \<Rightarrow> u64 \<Rightarrow> CrossClientTaskAuthorizationError + unit" where
  "validate_window_target pid hwnd =
     and_then (guard (pid = 0 \<or> hwnd = 0) InvalidChallenge) (\<lambda>_.
     map_err (\<lambda>_. InvalidChallenge) (validate_safe_integer hwnd))"

fun validate_target ::
  "externs \<Rightarrow> CrossClientTaskAuthorizationTarget \<Rightarrow> CrossClientTaskAuthorizationError + unit" where
  "validate_target x (CrossExactWindow pid identity hwnd) =
     and_then (validate_window_target pid hwnd) (\<lambda>_. cross_validate_identity identity MAX_IDENTITY_CHARS)"
| "validate_target x (BrowserBootstrapExactWindow pid identity hwnd) =
     and_then (validate_window_target pid hwnd) (\<lambda>_. cross_validate_identity identity MAX_IDENTITY_CHARS)"
| "validate_target x (CrossExactBrowser pid identity hwnd t) =
     and_then (validate_window_target pid hwnd) (\<lambda>_.
     and_then (all_ok (\<lambda>v. cross_validate_identity v MAX_IDENTITY_CHARS)
        [identity, bt_host_target_id t, bt_tab_id t, bt_document_generation t]) (\<lambda>_.
     guard (\<not> valid_browser_origin x (bt_origin t)) InvalidChallenge))"
| "validate_target x (BrowserBootstrapOwned _ _) = Inr ()"

fun live_binding :: "CrossClientTaskAuthorizationTarget \<Rightarrow> (u32 \<times> u64 \<times> string) option" where
  "live_binding (CrossExactWindow pid identity hwnd) = Some (pid, hwnd, identity)"
| "live_binding (CrossExactBrowser pid identity hwnd _) = Some (pid, hwnd, identity)"
| "live_binding (BrowserBootstrapExactWindow pid identity hwnd) = Some (pid, hwnd, identity)"
| "live_binding (BrowserBootstrapOwned _ _) = None"

definition validate_live_target ::
  "world \<Rightarrow> CrossClientTaskAuthorizationTarget \<Rightarrow> CrossClientTaskAuthorizationError + unit" where
  "validate_live_target w t =
     (case live_binding t of None \<Rightarrow> Inr ()
      | Some (pid, hwnd, expected) \<Rightarrow>
        (case process_identity w pid hwnd of None \<Rightarrow> Inl TargetUnavailable
         | Some observed \<Rightarrow> guard (observed \<noteq> expected) TargetUnavailable))"

definition validate_challenge_identities ::
  "externs \<Rightarrow> CrossClientTaskAuthorizationChallengeRequest \<Rightarrow> u64 \<Rightarrow> CrossClientTaskAuthorizationError + unit" where
  "validate_challenge_identities x q now =
     and_then (validate_audience (qr_audience q)) (\<lambda>_.
     and_then (cross_validate_identity (qr_task_id q) MAX_IDENTITY_CHARS) (\<lambda>_.
     and_then (cross_validate_identity (qr_connection_id q) MAX_IDENTITY_CHARS) (\<lambda>_.
     and_then (cross_validate_identity (qr_task_grant_id q) MAX_TASK_GRANT_ID_CHARS) (\<lambda>_.
     and_then (cross_validate_identity (qr_application_label q) MAX_APPLICATION_LABEL_CHARS) (\<lambda>_.
     and_then (validate_label (qr_purpose q)) (\<lambda>_.
     and_then (case qr_irreversible_operation q of None \<Rightarrow> Inr () | Some i \<Rightarrow> validate_label i) (\<lambda>_.
     and_then (map_err (\<lambda>_. InvalidChallenge) (validate_safe_integer now)) (\<lambda>_.
     and_then (map_err (\<lambda>_. InvalidChallenge) (validate_safe_integer (qr_expires_at_unix_ms q))) (\<lambda>_.
     and_then (guard (qr_expires_at_unix_ms q \<le> now
          \<or> saturating_sub (qr_expires_at_unix_ms q) now > MAX_TASK_AUTHORIZATION_TTL_MS) InvalidChallenge) (\<lambda>_.
     and_then (validate_target x (qr_target q)) (\<lambda>_.
     guard (set (qr_allowed_host_methods q) = {}
          \<or> card (set (qr_allowed_host_methods q)) \<noteq> length (qr_allowed_host_methods q)
          \<or> card (set (qr_allowed_host_methods q)) > MAX_HOST_METHODS
          \<or> (\<exists>m\<in>set (qr_allowed_host_methods q). \<not> is_ok (cross_validate_identity m 80)))
        InvalidChallenge)))))))))))"

fun bootstrap_method :: "CrossClientTaskAuthorizationTarget \<Rightarrow> string option" where
  "bootstrap_method (BrowserBootstrapExactWindow _ _ _) = Some ''attach_exact_window''"
| "bootstrap_method (BrowserBootstrapOwned _ _) = Some ''launch_owned_browser''"
| "bootstrap_method _ = None"

definition bootstrap_request_bad ::
  "string \<Rightarrow> CrossClientTaskAuthorizationChallengeRequest \<Rightarrow> bool" where
  "bootstrap_request_bad expected q \<longleftrightarrow>
     qr_allowed_host_methods q \<noteq> [expected] \<or> qr_allowed_actions q \<noteq> []
     \<or> qr_allowed_browser_origins q \<noteq> [] \<or> qr_secret_handle_policy q \<noteq> Forbidden
     \<or> qr_irreversible_operation q \<noteq> None"

definition validate_challenge_scopes ::
  "externs \<Rightarrow> CrossClientTaskAuthorizationChallengeRequest \<Rightarrow> CrossClientTaskAuthorizationError + unit" where
  "validate_challenge_scopes x q =
     and_then (guard (\<exists>m\<in>set (qr_allowed_host_methods q). \<not> is_task_authorizable_host_method m)
        InvalidChallenge) (\<lambda>_.
     and_then (guard (set (qr_allowed_actions q) = {}
          \<or> card (set (qr_allowed_actions q)) \<noteq> length (qr_allowed_actions q)
          \<or> card (set (qr_allowed_actions q)) > MAX_TASK_AUTHORIZATION_ACTIONS
          \<or> \<not> (\<forall>s\<in>set (qr_allowed_actions q). action_scope_validate x s)
          \<or> qr_secret_handle_policy q = Forbidden \<and> (\<exists>s\<in>set (qr_allowed_actions q). sc_secret_input s))
        InvalidChallenge) (\<lambda>_.
     guard (card (set (qr_allowed_browser_origins q)) \<noteq> length (qr_allowed_browser_origins q)
          \<or> card (set (qr_allowed_browser_origins q)) > MAX_TASK_AUTHORIZATION_ACTIONS
          \<or> (\<exists>b\<in>set (qr_allowed_browser_origins q). \<not> valid_browser_origin x b))
        InvalidChallenge))"

text \<open>The last match; its bootstrap arms are unreachable in the code and refuse here.\<close>

definition target_scope_bad :: "CrossClientTaskAuthorizationChallengeRequest \<Rightarrow> bool" where
  "target_scope_bad q \<longleftrightarrow>
     (case qr_target q of
        CrossExactWindow _ _ _ \<Rightarrow>
          qr_allowed_browser_origins q \<noteq> []
          \<or> list_ex (\<lambda>s. sc_browser_origin s \<noteq> None) (qr_allowed_actions q)
          \<or> list_ex (\<lambda>m. starts_with ''browser_'' m \<or> m = ''browser_extension_status'')
              (qr_allowed_host_methods q)
      | CrossExactBrowser _ _ _ t \<Rightarrow>
          qr_allowed_browser_origins q \<noteq> [bt_origin t]
          \<or> ''browser_snapshot'' \<notin> set (qr_allowed_host_methods q)
          \<or> list_ex (\<lambda>m. m \<in> {''browser_prepare'', ''browser_extension_status'', ''browser_extension_call''})
              (qr_allowed_host_methods q)
          \<or> list_ex (\<lambda>s. sc_browser_origin s \<noteq> Some (bt_origin t)) (qr_allowed_actions q)
      | _ \<Rightarrow> True)"

definition validate_challenge_request ::
  "externs \<Rightarrow> CrossClientTaskAuthorizationChallengeRequest \<Rightarrow> u64 \<Rightarrow> CrossClientTaskAuthorizationError + unit" where
  "validate_challenge_request x q now =
     and_then (validate_challenge_identities x q now) (\<lambda>_.
     case bootstrap_method (qr_target q) of
       Some expected \<Rightarrow> guard (bootstrap_request_bad expected q) InvalidChallenge
     | None \<Rightarrow>
       and_then (validate_challenge_scopes x q) (\<lambda>_. guard (target_scope_bad q) InvalidChallenge))"

definition decode_receipt ::
  "cross_externs \<Rightarrow> string \<Rightarrow> CrossClientTaskAuthorizationError + CrossClientTaskAuthorizationSignedDecision" where
  "decode_receipt x encoded =
     and_then (guard (encoded = [] \<or> length encoded > MAX_SIGNED_RECEIPT_BYTES) MalformedReceipt) (\<lambda>_.
     case signed_from_slice x encoded of None \<Rightarrow> Inl MalformedReceipt
     | Some s \<Rightarrow>
       and_then (canonical_cross_client_task_authorization_receipt x s) (\<lambda>canonical.
       and_then (guard (canonical \<noteq> encoded) NoncanonicalReceipt) (\<lambda>_.
       and_then (all_ok validate_safe_integer [ud_boot_generation (sd_decision s),
          ud_issued_at_unix_ms (sd_decision s), ud_expires_at_unix_ms (sd_decision s)]) (\<lambda>_.
       and_then (map_err (\<lambda>_. MalformedReceipt)
          (all_ok (\<lambda>v. cross_validate_identity v MAX_LABEL_CHARS)
            [ud_schema (sd_decision s), ud_issuer_key_id (sd_decision s),
             ud_runtime_instance_id (sd_decision s), ud_challenge_id (sd_decision s),
             ud_nonce (sd_decision s), ud_challenge_sha256 (sd_decision s), sd_signature s])) (\<lambda>_.
       and_then (map_err (\<lambda>_. MalformedReceipt) (validate_audience (ud_audience (sd_decision s)))) (\<lambda>_.
       Inr s))))))"

definition verify_signature ::
  "cross_externs \<Rightarrow> TrustedTaskAuthorizationKey \<Rightarrow> CrossClientTaskAuthorizationSignedDecision
   \<Rightarrow> CrossClientTaskAuthorizationError + unit" where
  "verify_signature x key s =
     and_then (guard (\<not> valid_verifying_key x (tk_verifying_key key)) InvalidConfiguration) (\<lambda>_.
     case base64_decode x (sd_signature s) of None \<Rightarrow> Inl MalformedReceipt
     | Some bytes \<Rightarrow>
       and_then (guard (\<not> valid_signature x bytes) MalformedReceipt) (\<lambda>_.
       and_then (cross_client_task_authorization_signing_payload x (sd_decision s)) (\<lambda>payload.
       guard (\<not> verify_strict x (tk_verifying_key key) payload bytes) InvalidSignature)))"

definition validate_decision_binding ::
  "CrossClientTaskAuthorizationRuntime \<Rightarrow> CrossClientTaskAuthorizationChallenge
   \<Rightarrow> CrossClientTaskAuthorizationUnsignedDecision \<Rightarrow> u64 \<Rightarrow> CrossClientTaskAuthorizationError + unit" where
  "validate_decision_binding rt c d now =
     and_then (guard (ud_schema d \<noteq> CROSS_CLIENT_TASK_AUTHORIZATION_RECEIPT_SCHEMA
          \<or> ud_audience d \<noteq> ch_audience c \<or> ud_runtime_instance_id d \<noteq> rt_runtime_instance_id rt
          \<or> ud_boot_generation d \<noteq> rt_boot_generation rt \<or> ud_challenge_id d \<noteq> ch_challenge_id c
          \<or> ud_nonce d \<noteq> ch_nonce c \<or> ud_challenge_sha256 d \<noteq> ch_challenge_sha256 c)
        BindingMismatch) (\<lambda>_.
     guard (ud_issued_at_unix_ms d < ch_issued_at_unix_ms c \<or> ud_issued_at_unix_ms d > now
          \<or> ud_issued_at_unix_ms d > ch_confirmation_deadline_unix_ms c
          \<or> now > ch_confirmation_deadline_unix_ms c \<or> ud_expires_at_unix_ms d \<le> now
          \<or> ud_expires_at_unix_ms d > ch_expires_at_unix_ms c
          \<or> ud_expires_at_unix_ms d < ud_issued_at_unix_ms d)
        Expired)"

section \<open>The trust registry\<close>

definition trust_lookup ::
  "string \<Rightarrow> TrustRegistry \<Rightarrow> CrossClientTaskAuthorizationTrustState option option" where
  "trust_lookup key_id t =
     (if tr_poisoned t then None
      else Some (map_option (\<lambda>r. case rk_revoked_at_epoch r of
          None \<Rightarrow> TrustActive (rk_key r) | Some epoch \<Rightarrow> TrustRevoked epoch)
        (map_of (tr_keys t) key_id)))"

definition trust_revoke ::
  "string \<Rightarrow> u64 \<Rightarrow> TrustRegistry \<Rightarrow> (CrossClientTaskAuthorizationError + unit) \<times> TrustRegistry" where
  "trust_revoke key_id epoch t =
     (if epoch = 0 \<or> epoch > MAX_SAFE_JSON_INTEGER then (Inl InvalidConfiguration, t)
      else if tr_poisoned t then (Inl TrustUnavailable, t)
      else case map_of (tr_keys t) key_id of None \<Rightarrow> (Inl UnknownKey, t)
      | Some r \<Rightarrow>
        if (case rk_revoked_at_epoch r of None \<Rightarrow> False | Some previous \<Rightarrow> epoch \<le> previous)
        then (Inl InvalidConfiguration, t)
        else (Inr (), t\<lparr>tr_keys := AList.update key_id (r\<lparr>rk_revoked_at_epoch := Some epoch\<rparr>) (tr_keys t)\<rparr>))"

fun insert_trusted_keys ::
  "cross_externs \<Rightarrow> TrustedTaskAuthorizationKey list \<Rightarrow> (string \<times> RegistryKey) list
   \<Rightarrow> CrossClientTaskAuthorizationError + (string \<times> RegistryKey) list" where
  "insert_trusted_keys x [] records = Inr records"
| "insert_trusted_keys x (key # keys) records =
     and_then (map_err (\<lambda>_. InvalidConfiguration) (cross_validate_identity (tk_key_id key) MAX_IDENTITY_CHARS)) (\<lambda>_.
     and_then (map_err (\<lambda>_. InvalidConfiguration) (validate_audience (tk_audience key))) (\<lambda>_.
     and_then (guard (\<not> valid_verifying_key x (tk_verifying_key key)) InvalidConfiguration) (\<lambda>_.
     and_then (guard (tk_key_id key \<in> set (keys_of records)) InvalidConfiguration) (\<lambda>_.
     insert_trusted_keys x keys
       (AList.update (tk_key_id key) \<lparr>rk_key = key, rk_revoked_at_epoch = None\<rparr> records)))))"

definition trusted_task_authorization_trust_registry ::
  "cross_externs \<Rightarrow> TrustedTaskAuthorizationKey list \<Rightarrow> CrossClientTaskAuthorizationError + TrustRegistry" where
  "trusted_task_authorization_trust_registry x keys =
     and_then (guard (keys = [] \<or> length keys > 64) InvalidConfiguration) (\<lambda>_.
     and_then (insert_trusted_keys x keys []) (\<lambda>records.
     Inr \<lparr>tr_poisoned = False, tr_keys = records\<rparr>))"

section \<open>The verifier\<close>

definition observe_clock ::
  "u64 \<Rightarrow> VerifierState \<Rightarrow> (CrossClientTaskAuthorizationError + unit) \<times> VerifierState" where
  "observe_clock now s =
     (if vs_clock_failed s then (Inl ClockRollback, s)
      else if \<not> is_ok (validate_safe_integer now) then (Inl ClockUnavailable, s)
      else if (case vs_last_observed_unix_ms s of None \<Rightarrow> False | Some previous \<Rightarrow> now < previous)
      then (Inl ClockRollback, s\<lparr>vs_clock_failed := True\<rparr>)
      else (Inr (), s\<lparr>vs_last_observed_unix_ms := Some now\<rparr>))"

definition new_challenge ::
  "CrossClientTaskAuthorizationRuntime \<Rightarrow> CrossClientTaskAuthorizationChallengeRequest \<Rightarrow> string \<Rightarrow> string
   \<Rightarrow> u64 \<Rightarrow> CrossClientTaskAuthorizationChallenge" where
  "new_challenge rt q challenge_id nonce now =
     \<lparr>ch_schema = CROSS_CLIENT_TASK_AUTHORIZATION_CHALLENGE_SCHEMA, ch_provider = PROVIDER,
      ch_runtime_version = rt_runtime_version rt, ch_runtime_instance_id = rt_runtime_instance_id rt,
      ch_boot_generation = rt_boot_generation rt, ch_audience = qr_audience q,
      ch_challenge_id = challenge_id, ch_nonce = nonce, ch_task_id = qr_task_id q,
      ch_connection_id = qr_connection_id q, ch_task_grant_id = qr_task_grant_id q,
      ch_application_label = qr_application_label q, ch_purpose = qr_purpose q,
      ch_target = qr_target q, ch_allowed_host_methods = qr_allowed_host_methods q,
      ch_allowed_actions = qr_allowed_actions q,
      ch_allowed_browser_origins = qr_allowed_browser_origins q,
      ch_secret_handle_policy = qr_secret_handle_policy q,
      ch_irreversible_operation = qr_irreversible_operation q, ch_issued_at_unix_ms = now,
      ch_confirmation_deadline_unix_ms =
        min (qr_expires_at_unix_ms q) (saturating_add now MAX_PENDING_TTL_MS),
      ch_expires_at_unix_ms = qr_expires_at_unix_ms q, ch_challenge_sha256 = []\<rparr>"

definition challenge_id_of :: "string \<Rightarrow> string" where
  "challenge_id_of uuid = ''task-challenge-'' @ uuid"

definition pending_challenges :: "u64 \<Rightarrow> VerifierState \<Rightarrow> (string \<times> ChallengeRecord) list" where
  "pending_challenges now s =
     retain (\<lambda>r. ch_confirmation_deadline_unix_ms (cl_challenge r) \<ge> now) (vs_challenges s)"

text \<open>
  \<open>prepare\<close>: \<open>uuid\<close> names the challenge, \<open>nonce_bytes\<close> are the bytes of two more UUIDs. The
  part under the lock is \<open>prepare_locked\<close>.
\<close>

definition prepare_locked ::
  "cross_externs \<Rightarrow> CrossClientTaskAuthorizationRuntime \<Rightarrow> u64 \<Rightarrow> string \<Rightarrow> string
   \<Rightarrow> CrossClientTaskAuthorizationChallengeRequest \<Rightarrow> VerifierState
   \<Rightarrow> (CrossClientTaskAuthorizationError + CrossClientTaskAuthorizationChallenge) \<times> VerifierState" where
  "prepare_locked x rt now uuid nonce_bytes q s =
     (case observe_clock now s of
        (Inl e, s) \<Rightarrow> (Inl e, s)
      | (Inr _, s) \<Rightarrow>
        let s = s\<lparr>vs_challenges := pending_challenges now s\<rparr> in
        if length (vs_challenges s) \<ge> MAX_PENDING_CHALLENGES then (Inl Capacity, s)
        else
          let c = new_challenge rt q (challenge_id_of uuid) (base64_encode x nonce_bytes) now in
          case challenge_digest x c of Inl e \<Rightarrow> (Inl e, s)
          | Inr sha \<Rightarrow>
            let c = c\<lparr>ch_challenge_sha256 := sha\<rparr> in
            (Inr c, s\<lparr>vs_challenges := AList.update (challenge_id_of uuid)
               \<lparr>cl_challenge = c, cl_consumed = False\<rparr> (vs_challenges s)\<rparr>))"

definition prepare_checks ::
  "cross_externs \<Rightarrow> clock \<Rightarrow> CrossClientTaskAuthorizationChallengeRequest
   \<Rightarrow> CrossClientTaskAuthorizationError + u64" where
  "prepare_checks x clk q =
     and_then (trait_clock x (clk 0)) (\<lambda>now.
     and_then (validate_challenge_request (cx_base x) q now) (\<lambda>_.
     and_then (validate_live_target (clk 1) (qr_target q)) (\<lambda>_. Inr now)))"

definition prepare ::
  "cross_externs \<Rightarrow> CrossClientTaskAuthorizationRuntime \<Rightarrow> clock \<Rightarrow> string \<Rightarrow> string
   \<Rightarrow> CrossClientTaskAuthorizationChallengeRequest \<Rightarrow> CrossState
   \<Rightarrow> (CrossClientTaskAuthorizationError + CrossClientTaskAuthorizationChallenge) \<times> CrossState" where
  "prepare x rt clk uuid nonce_bytes q st =
     (case prepare_checks x clk q of
        Inl e \<Rightarrow> (Inl e, st)
      | Inr now \<Rightarrow>
        if vs_poisoned (cs_verifier st) then (Inl TrustUnavailable, st)
        else let (r, s) = prepare_locked x rt now uuid nonce_bytes q (cs_verifier st) in
          (r, st\<lparr>cs_verifier := s\<rparr>))"

definition trusted_key ::
  "string \<Rightarrow> TrustRegistry \<Rightarrow> CrossClientTaskAuthorizationError + TrustedTaskAuthorizationKey" where
  "trusted_key key_id t =
     (case trust_lookup key_id t of
        None \<Rightarrow> Inl TrustUnavailable
      | Some (Some (TrustActive key)) \<Rightarrow> Inr key
      | Some (Some (TrustRevoked _)) \<Rightarrow> Inl RevokedKey
      | Some None \<Rightarrow> Inl UnknownKey)"

text \<open>The checks of \<open>consume\<close> between the lock and the consumption of the challenge.\<close>

definition check_decision ::
  "cross_externs \<Rightarrow> CrossClientTaskAuthorizationRuntime \<Rightarrow> world \<Rightarrow> u64
   \<Rightarrow> CrossClientTaskAuthorizationSignedDecision \<Rightarrow> VerifierState \<Rightarrow> TrustRegistry
   \<Rightarrow> CrossClientTaskAuthorizationError + (CrossClientTaskAuthorizationChallenge \<times> TrustedTaskAuthorizationKey)" where
  "check_decision x rt w now receipt s t =
     (case map_of (vs_challenges s) (ud_challenge_id (sd_decision receipt)) of
        None \<Rightarrow> Inl BindingMismatch
      | Some record \<Rightarrow>
        and_then (guard (cl_consumed record) Replay) (\<lambda>_.
        and_then (validate_decision_binding rt (cl_challenge record) (sd_decision receipt) now) (\<lambda>_.
        and_then (trusted_key (ud_issuer_key_id (sd_decision receipt)) t) (\<lambda>key.
        and_then (guard (tk_audience key \<noteq> ch_audience (cl_challenge record)) BindingMismatch) (\<lambda>_.
        and_then (verify_signature x key receipt) (\<lambda>_.
        and_then (if ud_decision (sd_decision receipt) = DecisionAllow
                  then validate_live_target w (ch_target (cl_challenge record)) else Inr ()) (\<lambda>_.
        Inr (cl_challenge record, key))))))))"

definition mark_consumed :: "string \<Rightarrow> VerifierState \<Rightarrow> VerifierState option" where
  "mark_consumed challenge_id s =
     (case map_of (vs_challenges s) challenge_id of None \<Rightarrow> None
      | Some r \<Rightarrow> Some (s\<lparr>vs_challenges :=
          AList.update challenge_id (r\<lparr>cl_consumed := True\<rparr>) (vs_challenges s)\<rparr>))"

fun target_identity :: "CrossClientTaskAuthorizationTarget \<Rightarrow> string option" where
  "target_identity (CrossExactWindow _ identity _) = Some identity"
| "target_identity (CrossExactBrowser _ identity _ _) = Some identity"
| "target_identity _ = None"

fun target_browser_scope ::
  "CrossClientTaskAuthorizationTarget \<Rightarrow> TrustedTaskAuthorizationBrowserScope option" where
  "target_browser_scope (CrossExactBrowser _ _ _ t) =
     Some \<lparr>bs_host_target_id = bt_host_target_id t, bs_tab_id = bt_tab_id t,
           bs_document_generation = bt_document_generation t, bs_origin = bt_origin t\<rparr>"
| "target_browser_scope _ = None"

definition challenge_registration ::
  "CrossClientTaskAuthorizationChallenge \<Rightarrow> u32 \<Rightarrow> u64 \<Rightarrow> u64 \<Rightarrow> TrustedTaskAuthorizationRegistration" where
  "challenge_registration c pid hwnd expires_at =
     \<lparr>rg_connection_id = Some (ch_connection_id c), rg_task_id = Some (ch_task_id c),
      rg_task_grant_id = ch_task_grant_id c, rg_application_label = ch_application_label c,
      rg_target = ExactWindow pid hwnd, rg_allowed_host_methods = ch_allowed_host_methods c,
      rg_allowed_actions = ch_allowed_actions c,
      rg_allowed_browser_origins = ch_allowed_browser_origins c,
      rg_browser_scope = target_browser_scope (ch_target c), rg_recording_output_dir = None,
      rg_capture_preparation = None, rg_expires_at_unix_ms = expires_at\<rparr>"

text \<open>The tail of \<open>consume\<close> for an allowed, consumed challenge.\<close>

definition consume_allowed ::
  "cross_externs \<Rightarrow> clock \<Rightarrow> (nat \<Rightarrow> string) \<Rightarrow> u64 \<Rightarrow> CrossClientTaskAuthorizationChallenge
   \<Rightarrow> TrustedTaskAuthorizationKey \<Rightarrow> u64 \<Rightarrow> CrossState
   \<Rightarrow> ((CrossClientTaskAuthorizationError + CrossClientTaskAuthorizationConsumption) \<times> CrossState) option" where
  "consume_allowed x clk uuids now c key expires_at st =
     (if is_bootstrap (ch_target c)
      then Some (Inr (BrowserBootstrap \<lparr>bo_challenge_id = ch_challenge_id c, bo_target = ch_target c,
                   bo_expires_at_unix_ms = expires_at\<rparr>), st)
      else case (exact_window (ch_target c), target_identity (ch_target c)) of
        (Some (pid, hwnd), Some identity) \<Rightarrow>
          Option.bind (register (cx_base x) clk uuids (challenge_registration c pid hwnd expires_at) (cs_broker st))
            (\<lambda>(registered, broker).
              case registered of
                Inl _ \<Rightarrow> Some (Inl BrokerUnavailable, st\<lparr>cs_broker := broker\<rparr>)
              | Inr opaque \<Rightarrow>
                let s = cs_verifier st;
                    provenance = retain (\<lambda>p. pv_expires_at_unix_ms p > now) (vs_authorizations s)
                in Some (Inr (Task opaque), st\<lparr>cs_broker := broker,
                     cs_verifier := s\<lparr>vs_authorizations := AList.update (rc_authorization_id opaque)
                       \<lparr>pv_key = key, pv_process_creation_identity = identity,
                        pv_expires_at_unix_ms = expires_at\<rparr> provenance\<rparr>\<rparr>))
      | _ \<Rightarrow> Some (Inl InvalidChallenge, st))"

definition consume ::
  "cross_externs \<Rightarrow> CrossClientTaskAuthorizationRuntime \<Rightarrow> clock \<Rightarrow> (nat \<Rightarrow> string) \<Rightarrow> string \<Rightarrow> CrossState
   \<Rightarrow> ((CrossClientTaskAuthorizationError + CrossClientTaskAuthorizationConsumption) \<times> CrossState) option" where
  "consume x rt clk uuids encoded st =
     (case and_then (decode_receipt x encoded) (\<lambda>receipt.
           and_then (trait_clock x (clk 0)) (\<lambda>now. Inr (receipt, now))) of
        Inl e \<Rightarrow> Some (Inl e, st)
      | Inr (receipt, now) \<Rightarrow>
        if vs_poisoned (cs_verifier st) then Some (Inl TrustUnavailable, st)
        else let (observed, s) = observe_clock now (cs_verifier st);
                 st = st\<lparr>cs_verifier := s\<rparr>
        in case observed of Inl e \<Rightarrow> Some (Inl e, st)
        | Inr _ \<Rightarrow>
          case check_decision x rt (clk 1) now receipt s (cs_trust st) of
            Inl e \<Rightarrow> Some (Inl e, st)
          | Inr (c, key) \<Rightarrow>
            case mark_consumed (ch_challenge_id c) s of
              None \<Rightarrow> Some (Inl BindingMismatch, st)
            | Some s' \<Rightarrow>
              let st = st\<lparr>cs_verifier := s'\<rparr> in
              if ud_decision (sd_decision receipt) = DecisionDeny then Some (Inr Denied, st)
              else consume_allowed x (\<lambda>k. clk (k + 2)) uuids now c key
                     (ud_expires_at_unix_ms (sd_decision receipt)) st)"

definition cross_client_task_authorization ::
  "CrossClientTaskAuthorizationRuntime \<Rightarrow> TrustRegistry \<Rightarrow> CrossClientTaskAuthorizationError + CrossState" where
  "cross_client_task_authorization rt trust =
     and_then (validate_runtime rt) (\<lambda>_. Inr
       \<lparr>cs_verifier = \<lparr>vs_poisoned = False, vs_challenges = [], vs_authorizations = [],
          vs_last_observed_unix_ms = None, vs_clock_failed = False\<rparr>,
        cs_trust = trust, cs_broker = trusted_task_authorization_broker\<rparr>)"

section \<open>The Host half\<close>

definition unavailable_host :: TrustedTaskAuthorizationHostError where
  "unavailable_host = HostUnavailable ''the constructor-provisioned cross-client trust state is unavailable''"

definition validate_clock ::
  "cross_externs \<Rightarrow> world \<Rightarrow> CrossState \<Rightarrow> (TrustedTaskAuthorizationHostError + unit) \<times> CrossState" where
  "validate_clock x w st =
     (case trait_clock x w of Inl _ \<Rightarrow> (Inl unavailable_host, st)
      | Inr now \<Rightarrow>
        if vs_poisoned (cs_verifier st) then (Inl unavailable_host, st)
        else let (observed, s) = observe_clock now (cs_verifier st) in
          (map_err (\<lambda>_. unavailable_host) observed, st\<lparr>cs_verifier := s\<rparr>))"

definition provenance ::
  "string \<Rightarrow> CrossState \<Rightarrow> TrustedTaskAuthorizationHostError + AuthorizationProvenance" where
  "provenance a st =
     (if vs_poisoned (cs_verifier st) then Inl unavailable_host
      else case map_of (vs_authorizations (cs_verifier st)) a of
        None \<Rightarrow> Inl HostDenied | Some p \<Rightarrow> Inr p)"

definition live_key ::
  "TrustRegistry \<Rightarrow> AuthorizationProvenance
   \<Rightarrow> TrustedTaskAuthorizationHostError + TrustedTaskAuthorizationStatus" where
  "live_key t p =
     (case trust_lookup (tk_key_id (pv_key p)) t of
        Some (Some (TrustActive key)) \<Rightarrow> if key = pv_key p then Inr Active else Inl unavailable_host
      | Some (Some (TrustRevoked _)) \<Rightarrow> Inr Revoked
      | _ \<Rightarrow> Inl unavailable_host)"

definition live_target ::
  "world \<Rightarrow> AuthorizationProvenance \<Rightarrow> u32 \<Rightarrow> u64 \<Rightarrow> TrustedTaskAuthorizationHostError + unit" where
  "live_target w p pid hwnd =
     (case process_identity w pid hwnd of None \<Rightarrow> Inl unavailable_host
      | Some observed \<Rightarrow> guard (observed \<noteq> pv_process_creation_identity p) HostDenied)"

text \<open>The common prefix of the three calls: clock, provenance, live target, live key.\<close>

definition cross_admission ::
  "cross_externs \<Rightarrow> clock \<Rightarrow> string \<Rightarrow> u32 \<Rightarrow> u64 \<Rightarrow> CrossState
   \<Rightarrow> (TrustedTaskAuthorizationHostError + TrustedTaskAuthorizationStatus) \<times> CrossState" where
  "cross_admission x clk a pid hwnd st =
     (let (clock_ok, st') = validate_clock x (clk 0) st in
      (and_then clock_ok (\<lambda>_.
       and_then (provenance a st') (\<lambda>p.
       and_then (live_target (clk 1) p pid hwnd) (\<lambda>_.
       live_key (cs_trust st') p))), st'))"

definition inner_call ::
  "(BrokerState \<Rightarrow> 'r \<times> BrokerState) \<Rightarrow> CrossState \<Rightarrow> 'r \<times> CrossState" where
  "inner_call f st = (let (r, b) = f (cs_broker st) in (r, st\<lparr>cs_broker := b\<rparr>))"

definition cross_authorize ::
  "cross_externs \<Rightarrow> clock \<Rightarrow> TrustedTaskAuthorizationRequest \<Rightarrow> CrossState
   \<Rightarrow> (TrustedTaskAuthorizationHostError + TrustedTaskAuthorizationLease) \<times> CrossState" where
  "cross_authorize x clk q st =
     (let (status, st') = cross_admission x clk (rq_authorization_id q) (rq_target_process_id q)
            (rq_target_window_handle q) st in
      case status of Inl e \<Rightarrow> (Inl e, st')
      | Inr Active \<Rightarrow> inner_call (broker_authorize (\<lambda>k. clk (k + 2)) q) st'
      | Inr Revoked \<Rightarrow> (Inl HostDenied, st'))"

definition cross_validate ::
  "cross_externs \<Rightarrow> clock \<Rightarrow> TrustedTaskAuthorizationValidationRequest \<Rightarrow> CrossState
   \<Rightarrow> (TrustedTaskAuthorizationHostError + TrustedTaskAuthorizationValidationDecision) \<times> CrossState" where
  "cross_validate x clk v st =
     (let (status, st') = cross_admission x clk (vr_authorization_id v) (vr_target_process_id v)
            (vr_target_window_handle v) st in
      case status of Inl e \<Rightarrow> (Inl e, st')
      | Inr Revoked \<Rightarrow> (Inr \<lparr>vd_status = Revoked, vd_request_digest = vr_request_digest v\<rparr>, st')
      | Inr Active \<Rightarrow> inner_call (broker_validate (\<lambda>k. clk (k + 2)) v) st')"

definition cross_validate_lease ::
  "cross_externs \<Rightarrow> clock \<Rightarrow> TrustedTaskAuthorizationLeaseValidationRequest \<Rightarrow> CrossState
   \<Rightarrow> (TrustedTaskAuthorizationHostError + TrustedTaskAuthorizationValidationDecision) \<times> CrossState" where
  "cross_validate_lease x clk v st =
     (let (status, st') = cross_admission x clk (lv_authorization_id v) (lv_target_process_id v)
            (lv_target_window_handle v) st in
      case status of Inl e \<Rightarrow> (Inl e, st')
      | Inr Revoked \<Rightarrow> (Inr \<lparr>vd_status = Revoked, vd_request_digest = lv_request_digest v\<rparr>, st')
      | Inr Active \<Rightarrow> inner_call (broker_validate_lease (\<lambda>k. clk (k + 2)) v) st')"

definition cross_host :: "cross_externs \<Rightarrow> CrossState task_authorization_host" where
  "cross_host x = \<lparr>h_authorize = cross_authorize x, h_validate = cross_validate x,
     h_validate_lease = cross_validate_lease x\<rparr>"

section \<open>The contract of the Host half\<close>

text \<open>
  An authorization is dead when the broker holds it dead, the clock has failed, its
  provenance is gone, or its key is no longer active.
\<close>

definition cross_dead :: "string \<Rightarrow> CrossState \<Rightarrow> bool" where
  "cross_dead a st \<longleftrightarrow>
     broker_dead a (cs_broker st) \<or> vs_clock_failed (cs_verifier st)
     \<or> (case map_of (vs_authorizations (cs_verifier st)) a of None \<Rightarrow> True
        | Some p \<Rightarrow> live_key (cs_trust st) p \<noteq> Inr Active)"

lemma observe_clock_keeps:
  "vs_challenges (snd (observe_clock now s)) = vs_challenges s"
  "vs_authorizations (snd (observe_clock now s)) = vs_authorizations s"
  "vs_poisoned (snd (observe_clock now s)) = vs_poisoned s"
  "vs_clock_failed s \<Longrightarrow> vs_clock_failed (snd (observe_clock now s))"
  by (auto simp: observe_clock_def)

lemma observe_clock_okD:
  "observe_clock now s = (Inr u, s') \<Longrightarrow> \<not> vs_clock_failed s \<and> now \<le> MAX_SAFE_JSON_INTEGER
     \<and> (\<forall>p. vs_last_observed_unix_ms s = Some p \<longrightarrow> p \<le> now)
     \<and> s' = s\<lparr>vs_last_observed_unix_ms := Some now\<rparr>"
  by (auto simp: observe_clock_def validate_safe_integer_def is_ok_def guard_def
      split: if_splits option.splits)

lemma validate_clock_keeps:
  "cs_broker (snd (validate_clock x w st)) = cs_broker st"
  "cs_trust (snd (validate_clock x w st)) = cs_trust st"
  "vs_authorizations (cs_verifier (snd (validate_clock x w st))) = vs_authorizations (cs_verifier st)"
  "vs_clock_failed (cs_verifier st) \<Longrightarrow> vs_clock_failed (cs_verifier (snd (validate_clock x w st)))"
  "fst (validate_clock x w st) = Inr u \<Longrightarrow> \<not> vs_clock_failed (cs_verifier st)"
  by (auto simp: validate_clock_def Let_def case_prod_beta observe_clock_keeps map_err_Inr_iff
      observe_clock_def split: sum.splits if_splits)

lemma cross_admission_keeps:
  "cs_broker (snd (cross_admission x clk a pid hwnd st)) = cs_broker st"
  "cross_dead b st \<Longrightarrow> cross_dead b (snd (cross_admission x clk a pid hwnd st))"
  by (auto simp: cross_admission_def case_prod_beta cross_dead_def validate_clock_keeps split: option.splits)

lemma cross_admission_active:
  assumes "fst (cross_admission x clk a pid hwnd st) = Inr Active"
  shows "\<not> vs_clock_failed (cs_verifier st)
     \<and> (\<exists>p. map_of (vs_authorizations (cs_verifier st)) a = Some p \<and> live_key (cs_trust st) p = Inr Active
          \<and> process_identity (clk 1) pid hwnd = Some (pv_process_creation_identity p))"
  using assms
  by (auto simp: cross_admission_def case_prod_beta and_then_Inr_iff validate_clock_keeps provenance_def
      live_target_def guard_def split: if_splits option.splits dest: validate_clock_keeps(5))

lemma cross_not_dead:
  "fst (cross_admission x clk a pid hwnd st) = Inr Active \<Longrightarrow> \<not> broker_dead a (cs_broker st) \<Longrightarrow>
   \<not> cross_dead a st"
  by (auto simp: cross_dead_def dest!: cross_admission_active)

lemma inner_call_dead:
  "(\<And>b. broker_dead a b \<Longrightarrow> broker_dead a (snd (f b))) \<Longrightarrow> cross_dead a st \<Longrightarrow> cross_dead a (snd (inner_call f st))"
  by (auto simp: inner_call_def cross_dead_def case_prod_beta split: option.splits)

lemma inner_call_eq:
  "inner_call f st = (r, st') \<longleftrightarrow> (\<exists>b. f (cs_broker st) = (r, b) \<and> st' = st\<lparr>cs_broker := b\<rparr>)"
  by (cases "f (cs_broker st)") (auto simp: inner_call_def)

lemma cross_authorizeD:
  assumes "cross_authorize x clk q st = (Inr l, st')"
  obtains b where "fst (cross_admission x clk (rq_authorization_id q) (rq_target_process_id q)
      (rq_target_window_handle q) st) = Inr Active"
    "broker_authorize (\<lambda>k. clk (k + 2)) q (cs_broker st) = (Inr l, b)"
  using assms
  by (auto simp: cross_authorize_def case_prod_beta inner_call_eq cross_admission_keeps
      split: sum.splits TrustedTaskAuthorizationStatus.splits)

lemma cross_validateD:
  assumes "cross_validate x clk v st = (Inr d, st')"
  shows "d = \<lparr>vd_status = Revoked, vd_request_digest = vr_request_digest v\<rparr> \<or>
     fst (cross_admission x clk (vr_authorization_id v) (vr_target_process_id v) (vr_target_window_handle v) st)
       = Inr Active \<and> (\<exists>b. broker_validate (\<lambda>k. clk (k + 2)) v (cs_broker st) = (Inr d, b))"
  using assms
  by (auto simp: cross_validate_def case_prod_beta inner_call_eq cross_admission_keeps
      split: sum.splits TrustedTaskAuthorizationStatus.splits)

lemma cross_validate_leaseD:
  assumes "cross_validate_lease x clk v st = (Inr d, st')"
  shows "d = \<lparr>vd_status = Revoked, vd_request_digest = lv_request_digest v\<rparr> \<or>
     fst (cross_admission x clk (lv_authorization_id v) (lv_target_process_id v) (lv_target_window_handle v) st)
       = Inr Active \<and> (\<exists>b. broker_validate_lease (\<lambda>k. clk (k + 2)) v (cs_broker st) = (Inr d, b))"
  using assms
  by (auto simp: cross_validate_lease_def case_prod_beta inner_call_eq cross_admission_keeps
      split: sum.splits TrustedTaskAuthorizationStatus.splits)

lemma broker_host_simps:
  "h_authorize broker_host = broker_authorize" "h_validate broker_host = broker_validate"
  "h_validate_lease broker_host = broker_validate_lease"
  by (simp_all add: broker_host_def)

lemma cross_host_simps:
  "h_authorize (cross_host x) = cross_authorize x" "h_validate (cross_host x) = cross_validate x"
  "h_validate_lease (cross_host x) = cross_validate_lease x"
  by (simp_all add: cross_host_def)

interpretation cross: authorization_host "cross_host x" cross_dead
proof unfold_locales
  fix clk q st l st'
  assume "h_authorize (cross_host x) clk q st = (Inr l, st')"
  then have "cross_authorize x clk q st = (Inr l, st')" by (simp add: cross_host_simps)
  then obtain b where "fst (cross_admission x clk (rq_authorization_id q) (rq_target_process_id q)
      (rq_target_window_handle q) st) = Inr Active"
    and "broker_authorize (\<lambda>k. clk (k + 2)) q (cs_broker st) = (Inr l, b)"
    by (rule cross_authorizeD)
  then show "lease_fields_match q l \<and> \<not> cross_dead (rq_authorization_id q) st"
    using broker.authorize_exact cross_not_dead unfolding broker_host_simps by blast
next
  fix clk v st d st'
  assume "h_validate (cross_host x) clk v st = (Inr d, st')"
  then have "cross_validate x clk v st = (Inr d, st')" by (simp add: cross_host_simps)
  from cross_validateD [OF this]
  show "vd_request_digest d = vr_request_digest v \<and> (vd_status d = Active \<longrightarrow> \<not> cross_dead (vr_authorization_id v) st)"
    using broker.validate_exact cross_not_dead unfolding broker_host_simps by fastforce
next
  fix clk v st d st'
  assume "h_validate_lease (cross_host x) clk v st = (Inr d, st')"
  then have "cross_validate_lease x clk v st = (Inr d, st')" by (simp add: cross_host_simps)
  from cross_validate_leaseD [OF this]
  show "vd_request_digest d = lv_request_digest v \<and> (vd_status d = Active \<longrightarrow> \<not> cross_dead (lv_authorization_id v) st)"
    using broker.validate_lease_exact cross_not_dead unfolding broker_host_simps by fastforce
next
  fix a st clk q
  assume "cross_dead a st"
  then show "cross_dead a (snd (h_authorize (cross_host x) clk q st))"
    using broker.authorize_dead unfolding broker_host_simps
    by (auto simp: cross_host_simps cross_authorize_def case_prod_beta cross_admission_keeps
        intro!: inner_call_dead split: sum.splits TrustedTaskAuthorizationStatus.splits)
next
  fix a st clk v
  assume "cross_dead a st"
  then show "cross_dead a (snd (h_validate (cross_host x) clk v st))"
    using broker.validate_dead unfolding broker_host_simps
    by (auto simp: cross_host_simps cross_validate_def case_prod_beta cross_admission_keeps
        intro!: inner_call_dead split: sum.splits TrustedTaskAuthorizationStatus.splits)
next
  fix a st clk v
  assume "cross_dead a st"
  then show "cross_dead a (snd (h_validate_lease (cross_host x) clk v st))"
    using broker.validate_lease_dead unfolding broker_host_simps
    by (auto simp: cross_host_simps cross_validate_lease_def case_prod_beta cross_admission_keeps
        intro!: inner_call_dead split: sum.splits TrustedTaskAuthorizationStatus.splits)
qed

end
