(* ===== verification/Cross_Client_Runs.thy ===== *)
theory Cross_Client_Runs
  imports Cross_Client
begin

text \<open>
  Runs of the cross-client verifier: each challenge is consumed at most once per
  preparation, a consumed decision registers exactly the retained challenge, the revocation
  of a key and a clock that moves backwards end every authority that rests on them.
\<close>

section \<open>Runs of the verifier\<close>

datatype cross_event = Prepared string | Consumed string | Other

inductive cross_step ::
  "cross_externs \<Rightarrow> CrossClientTaskAuthorizationRuntime \<Rightarrow> CrossState \<Rightarrow> cross_event \<Rightarrow> CrossState \<Rightarrow> bool"
  for x rt where
  cross_prepared: "prepare x rt clk uuid nonce q st = (Inr c, st') \<Longrightarrow>
     cross_step x rt st (Prepared (ch_challenge_id c)) st'"
| cross_not_prepared: "prepare x rt clk uuid nonce q st = (Inl e, st') \<Longrightarrow> cross_step x rt st Other st'"
| cross_consumed: "consume x rt clk uuids encoded st = Some (Inr r, st') \<Longrightarrow>
     decode_receipt x encoded = Inr receipt \<Longrightarrow>
     cross_step x rt st (Consumed (ud_challenge_id (sd_decision receipt))) st'"
| cross_not_consumed: "consume x rt clk uuids encoded st = Some (Inl e, st') \<Longrightarrow> cross_step x rt st Other st'"
| cross_revoke: "trust_revoke key epoch (cs_trust st) = (res, t) \<Longrightarrow>
     cross_step x rt st Other (st\<lparr>cs_trust := t\<rparr>)"
| cross_issuer_revoke: "broker_revoke a (cs_broker st) = (res, b) \<Longrightarrow>
     cross_step x rt st Other (st\<lparr>cs_broker := b\<rparr>)"
| cross_call: "run_task_calls y (cross_host x) [call] st = (gs, st') \<Longrightarrow> cross_step x rt st Other st'"

inductive cross_run ::
  "cross_externs \<Rightarrow> CrossClientTaskAuthorizationRuntime \<Rightarrow> CrossState \<Rightarrow> cross_event list \<Rightarrow> CrossState \<Rightarrow> bool"
  for x rt where
  cross_done: "cross_run x rt st [] st"
| cross_more: "cross_step x rt st e st' \<Longrightarrow> cross_run x rt st' es st'' \<Longrightarrow> cross_run x rt st (e # es) st''"

definition pending :: "string \<Rightarrow> CrossState \<Rightarrow> nat" where
  "pending c st =
     (case map_of (vs_challenges (cs_verifier st)) c of None \<Rightarrow> 0
      | Some r \<Rightarrow> if cl_consumed r then 0 else 1)"

definition challenges_wf :: "CrossState \<Rightarrow> bool" where
  "challenges_wf st \<longleftrightarrow>
     distinct (keys_of (vs_challenges (cs_verifier st)))
     \<and> length (vs_challenges (cs_verifier st)) \<le> MAX_PENDING_CHALLENGES
     \<and> (\<forall>(k, r)\<in>set (vs_challenges (cs_verifier st)). ch_challenge_id (cl_challenge r) = k)"

text \<open>\<open>prepare\<close> is a refusal that keeps the challenges or prunes them, or an insertion.\<close>

lemma prepare_locked_cases:
  assumes "prepare_locked x rt now uuid nonce q s = (res, s')"
  obtains (same) e where "res = Inl e" "vs_challenges s' = vs_challenges s"
  | (pruned) e where "res = Inl e" "vs_challenges s' = pending_challenges now s"
  | (added) c where "res = Inr c" "ch_challenge_id c = challenge_id_of uuid"
      "length (pending_challenges now s) < MAX_PENDING_CHALLENGES"
      "vs_challenges s' = AList.update (ch_challenge_id c)
         \<lparr>cl_challenge = c, cl_consumed = False\<rparr> (pending_challenges now s)"
proof -
  obtain ob s1 where ob: "observe_clock now s = (ob, s1)" by fastforce
  have ch: "vs_challenges s1 = vs_challenges s" using observe_clock_keeps(1) [of now s] ob by simp
  then have pend: "pending_challenges now s1 = pending_challenges now s" by (simp add: pending_challenges_def)
  show thesis
  proof (cases ob)
    case (Inl e)
    then show thesis using assms ob ch same by (auto simp: prepare_locked_def)
  next
    case (Inr u)
    then show thesis
      using assms ob pend pruned added
      by (auto simp: prepare_locked_def Let_def new_challenge_def not_le
          split: if_split_asm sum.split_asm)
  qed
qed

lemma prepare_state:
  assumes "prepare x rt clk uuid nonce q st = (res, st')"
  obtains (untouched) e where "res = Inl e" "st' = st"
  | (locked) now s where "prepare_locked x rt now uuid nonce q (cs_verifier st) = (res, s)"
      "st' = st\<lparr>cs_verifier := s\<rparr>"
proof -
  consider (early) e where "res = Inl e" "st' = st"
    | (late) now where "prepare_checks x clk q = Inr now" "\<not> vs_poisoned (cs_verifier st)"
    using assms by (auto simp: prepare_def split: sum.split_asm if_split_asm)
  then show thesis
  proof cases
    case late
    obtain r s where "prepare_locked x rt now uuid nonce q (cs_verifier st) = (r, s)" by fastforce
    then show thesis using assms late locked by (auto simp: prepare_def)
  qed (rule untouched)
qed

lemma pending_prune:
  "distinct (keys_of (vs_challenges s)) \<Longrightarrow>
   map_of (pending_challenges now s) c \<in> {None, map_of (vs_challenges s) c}"
  by (auto simp: pending_challenges_def map_of_retain split: option.splits)

lemma prepare_pending:
  assumes "challenges_wf st" and "prepare x rt clk uuid nonce q st = (res, st')"
  shows "pending c st' \<le> pending c st + (case res of Inl _ \<Rightarrow> 0 | Inr ch \<Rightarrow> if ch_challenge_id ch = c then 1 else 0)"
proof -
  have d: "distinct (keys_of (vs_challenges (cs_verifier st)))" using assms(1) by (simp add: challenges_wf_def)
  show ?thesis using assms(2)
  proof (cases rule: prepare_state)
    case (locked now s)
    from locked(1) show ?thesis
      using locked(2) pending_prune [OF d, of now c]
      by (cases rule: prepare_locked_cases) (auto simp: pending_def split: option.splits)
  qed simp
qed

lemma check_decisionD:
  assumes "check_decision x rt w now receipt s t = Inr (c, key)"
  obtains r where "map_of (vs_challenges s) (ud_challenge_id (sd_decision receipt)) = Some r"
    "\<not> cl_consumed r" "c = cl_challenge r" "validate_decision_binding rt c (sd_decision receipt) now = Inr ()"
    "trusted_key (ud_issuer_key_id (sd_decision receipt)) t = Inr key" "tk_audience key = ch_audience c"
    "verify_signature x key receipt = Inr ()"
    "ud_decision (sd_decision receipt) = DecisionAllow \<Longrightarrow> validate_live_target w (ch_target c) = Inr ()"
  using assms by (auto simp: check_decision_def and_then_Inr_iff split: option.splits if_splits)

lemma decision_binding_id:
  "validate_decision_binding rt c d now = Inr () \<Longrightarrow> ch_challenge_id c = ud_challenge_id d"
  by (auto simp: validate_decision_binding_def and_then_Inr_iff)

text \<open>\<open>consume\<close> keeps the challenges, or marks the one it names and goes on.\<close>

lemma consume_allowed_cases:
  assumes "consume_allowed x clk uuids now c key expires_at st = Some (res, st')"
  obtains (bootstrap) b where "is_bootstrap (ch_target c)" "res = Inr (BrowserBootstrap b)" "st' = st"
      "bo_challenge_id b = ch_challenge_id c" "bo_expires_at_unix_ms b = expires_at"
  | (refused) e b where "res = Inl e" "st' = st\<lparr>cs_broker := b\<rparr>"
  | (task) pid hwnd identity rc b where "exact_window (ch_target c) = Some (pid, hwnd)"
      "target_identity (ch_target c) = Some identity" "res = Inr (Task rc)"
      "register (cx_base x) clk uuids (challenge_registration c pid hwnd expires_at) (cs_broker st)
         = Some (Inr rc, b)"
      "st' = st\<lparr>cs_broker := b, cs_verifier := (cs_verifier st)\<lparr>vs_authorizations :=
         AList.update (rc_authorization_id rc)
           \<lparr>pv_key = key, pv_process_creation_identity = identity, pv_expires_at_unix_ms = expires_at\<rparr>
           (retain (\<lambda>p. pv_expires_at_unix_ms p > now) (vs_authorizations (cs_verifier st)))\<rparr>\<rparr>"
proof (cases "is_bootstrap (ch_target c)")
  case True
  then show thesis using assms bootstrap by (auto simp: consume_allowed_def)
next
  case False
  show thesis
  proof (cases "(exact_window (ch_target c), target_identity (ch_target c))")
    case (Pair w i)
    show thesis
    proof (cases "w = None \<or> i = None")
      case True
      then show thesis
        using assms Pair False refused [of _ "cs_broker st"]
        by (auto simp: consume_allowed_def split: option.split_asm)
    next
      case defined: False
      then obtain pid hwnd identity where t: "exact_window (ch_target c) = Some (pid, hwnd)"
        "target_identity (ch_target c) = Some identity" using Pair by auto
      let ?reg = "register (cx_base x) clk uuids (challenge_registration c pid hwnd expires_at) (cs_broker st)"
      obtain r b where reg: "?reg = Some (r, b)"
        using assms False t by (cases ?reg) (auto simp: consume_allowed_def)
      show thesis
        using assms False t reg refused [of _ b] task [OF t _ , of _ b]
        by (cases r) (auto simp: consume_allowed_def Let_def)
    qed
  qed
qed

lemma consume_allowed_verifier:
  assumes "consume_allowed x clk uuids now c key expires_at st = Some (res, st')"
  shows "vs_challenges (cs_verifier st') = vs_challenges (cs_verifier st)"
  using assms by (cases rule: consume_allowed_cases) auto

lemma consume_cases:
  assumes "consume x rt clk uuids encoded st = Some (res, st')"
  obtains (refused) e s where "res = Inl e" "st' = st\<lparr>cs_verifier := s\<rparr>"
      "vs_challenges s = vs_challenges (cs_verifier st)" "vs_authorizations s = vs_authorizations (cs_verifier st)"
  | (decided) receipt now c key s s' where "decode_receipt x encoded = Inr receipt"
      "trait_clock x (clk 0) = Inr now" "observe_clock now (cs_verifier st) = (Inr (), s)"
      "check_decision x rt (clk 1) now receipt s (cs_trust st) = Inr (c, key)"
      "mark_consumed (ch_challenge_id c) s = Some s'"
      "if ud_decision (sd_decision receipt) = DecisionDeny
       then res = Inr Denied \<and> st' = st\<lparr>cs_verifier := s'\<rparr>
       else consume_allowed x (\<lambda>k. clk (k + 2)) uuids now c key
              (ud_expires_at_unix_ms (sd_decision receipt)) (st\<lparr>cs_verifier := s'\<rparr>) = Some (res, st')"
proof -
  consider (early) e where "res = Inl e" "st' = st"
    | (locked) receipt now where "decode_receipt x encoded = Inr receipt" "trait_clock x (clk 0) = Inr now"
        "\<not> vs_poisoned (cs_verifier st)"
    using assms by (auto simp: consume_def and_then_Inr_iff and_then_Inl_iff split: sum.split_asm if_split_asm)
  then show thesis
  proof cases
    case early
    then show thesis using refused [of _ "cs_verifier st"] by simp
  next
    case locked
    obtain ob s where ob: "observe_clock now (cs_verifier st) = (ob, s)" by fastforce
    have keep: "vs_challenges s = vs_challenges (cs_verifier st)"
      "vs_authorizations s = vs_authorizations (cs_verifier st)"
      using observe_clock_keeps(1,2) [of now "cs_verifier st"] ob by simp_all
    show thesis
      using assms locked ob keep refused [of _ s] decided [of receipt now s]
      by (auto simp: consume_def Let_def split: sum.split_asm if_split_asm option.split_asm)
  qed
qed

lemma mark_consumed_eq:
  "mark_consumed c s = Some s' \<Longrightarrow> \<exists>r. map_of (vs_challenges s) c = Some r
     \<and> s' = s\<lparr>vs_challenges := AList.update c (r\<lparr>cl_consumed := True\<rparr>) (vs_challenges s)\<rparr>"
  by (auto simp: mark_consumed_def split: option.splits)

text \<open>A decided consumption turns the pending challenge it names into a consumed one.\<close>

lemma decided_challenges:
  assumes "observe_clock now (cs_verifier st) = (Inr (), s)"
    and "check_decision x rt w now receipt s t = Inr (c, key)"
    and "mark_consumed (ch_challenge_id c) s = Some s'"
  obtains r where "map_of (vs_challenges (cs_verifier st)) (ud_challenge_id (sd_decision receipt)) = Some r"
    "\<not> cl_consumed r" "c = cl_challenge r" "ch_challenge_id c = ud_challenge_id (sd_decision receipt)"
    "vs_challenges s' = AList.update (ud_challenge_id (sd_decision receipt)) (r\<lparr>cl_consumed := True\<rparr>)
       (vs_challenges (cs_verifier st))"
    "vs_authorizations s' = vs_authorizations (cs_verifier st)"
proof -
  have keep: "vs_challenges s = vs_challenges (cs_verifier st)"
    "vs_authorizations s = vs_authorizations (cs_verifier st)"
    using observe_clock_keeps(1,2) [of now "cs_verifier st"] assms(1) by simp_all
  obtain r where r: "map_of (vs_challenges s) (ud_challenge_id (sd_decision receipt)) = Some r"
    "\<not> cl_consumed r" "c = cl_challenge r" "validate_decision_binding rt c (sd_decision receipt) now = Inr ()"
    using assms(2) by (rule check_decisionD)
  have "ch_challenge_id c = ud_challenge_id (sd_decision receipt)" using r(4) by (rule decision_binding_id)
  then show thesis using that [of r] r keep mark_consumed_eq [OF assms(3)] by auto
qed

lemma decided_pending:
  assumes "observe_clock now (cs_verifier st) = (Inr (), s)"
    and "check_decision x rt w now receipt s t = Inr (c, key)"
    and "mark_consumed (ch_challenge_id c) s = Some s'"
    and "vs_challenges (cs_verifier st') = vs_challenges s'"
  shows "pending k st' + (if ud_challenge_id (sd_decision receipt) = k then 1 else 0) = pending k st"
  using assms(1-3) by (rule decided_challenges) (auto simp: pending_def assms(4))

lemma decided_verifier:
  assumes "if ud_decision d = DecisionDeny then res = Inr Denied \<and> st' = st\<lparr>cs_verifier := s'\<rparr>
     else consume_allowed x clk uuids now c key expires_at (st\<lparr>cs_verifier := s'\<rparr>) = Some (res, st')"
  shows "vs_challenges (cs_verifier st') = vs_challenges s'"
  using assms consume_allowed_verifier [of x clk uuids now c key expires_at "st\<lparr>cs_verifier := s'\<rparr>" res st']
  by (simp split: if_splits)

lemma consume_pending:
  assumes "consume x rt clk uuids encoded st = Some (res, st')"
  shows "pending k st' \<le> pending k st"
    and "res = Inr r \<Longrightarrow> decode_receipt x encoded = Inr receipt \<Longrightarrow>
       pending k st' + (if ud_challenge_id (sd_decision receipt) = k then 1 else 0) = pending k st"
proof -
  show "pending k st' \<le> pending k st"
    using assms
  proof (cases rule: consume_cases)
    case refused
    then show ?thesis by (simp add: pending_def)
  next
    case (decided receipt now c key s s')
    from decided_pending [OF decided(3-5) decided_verifier [OF decided(6)], of k]
    show ?thesis by linarith
  qed
  assume ok: "res = Inr r" "decode_receipt x encoded = Inr receipt"
  from assms show "pending k st' + (if ud_challenge_id (sd_decision receipt) = k then 1 else 0) = pending k st"
  proof (cases rule: consume_cases)
    case refused
    then show ?thesis using ok by simp
  next
    case (decided receipt' now c key s s')
    then have "receipt' = receipt" using ok by simp
    then show ?thesis using decided_pending [OF decided(3-5) decided_verifier [OF decided(6)], of k] by simp
  qed
qed

lemma host_call_challenges:
  "vs_challenges (cs_verifier (snd (h_authorize (cross_host x) clk q st))) = vs_challenges (cs_verifier st)"
  "vs_challenges (cs_verifier (snd (h_validate (cross_host x) clk v st))) = vs_challenges (cs_verifier st)"
  "vs_challenges (cs_verifier (snd (h_validate_lease (cross_host x) clk lv st))) = vs_challenges (cs_verifier st)"
  by (auto simp: cross_host_simps cross_authorize_def cross_validate_def cross_validate_lease_def
      cross_admission_def validate_clock_def inner_call_def case_prod_beta Let_def observe_clock_keeps
      split: sum.splits TrustedTaskAuthorizationStatus.splits)

lemma task_call_challenges:
  "vs_challenges (cs_verifier (snd (task_call_step y (cross_host x) call st))) = vs_challenges (cs_verifier st)"
proof (cases call)
  case (IssueCall u clk w b)
  then show ?thesis
    using issue_state [of y "cross_host x" u clk w b st] by (auto simp: case_prod_beta host_call_challenges)
next
  case (ActionCall u w clk l c)
  then show ?thesis
    using authorize_task_state [of y "cross_host x" u w clk "Some l" c st]
    by (auto simp: case_prod_beta host_call_challenges)
next
  case (RevalidateCall u w clk l)
  then show ?thesis
    using validate_active_state [of y "cross_host x" u w clk "Some l" st]
    by (auto simp: case_prod_beta host_call_challenges)
qed

lemma run_one_call:
  "run_task_calls y h [call] st = (gs, st') \<Longrightarrow> st' = snd (task_call_step y h call st)"
  by (auto simp: case_prod_beta)

lemma challenges_wf_cong:
  "vs_challenges (cs_verifier st') = vs_challenges (cs_verifier st) \<Longrightarrow> challenges_wf st \<Longrightarrow> challenges_wf st'"
  by (simp add: challenges_wf_def)

lemma prune_wf:
  assumes "challenges_wf st"
  shows "distinct (keys_of (pending_challenges now (cs_verifier st)))"
    "length (pending_challenges now (cs_verifier st)) \<le> MAX_PENDING_CHALLENGES"
    "(k, r) \<in> set (pending_challenges now (cs_verifier st)) \<Longrightarrow> ch_challenge_id (cl_challenge r) = k"
  using assms length_retain [of _ "vs_challenges (cs_verifier st)"] order_trans
  by (auto simp: challenges_wf_def pending_challenges_def distinct_retain set_retain)

lemma update_entries: "set (AList.update k v m) \<subseteq> insert (k, v) (set m)"
  by (induction m) auto

lemma prepare_wf:
  assumes wf: "challenges_wf st" and prep: "prepare x rt clk uuid nonce q st = (res, st')"
  shows "challenges_wf st'"
  using prep
proof (cases rule: prepare_state)
  case (locked now s)
  from locked(1) show ?thesis
  proof (cases rule: prepare_locked_cases)
    case same
    then show ?thesis using locked(2) wf by (simp add: challenges_wf_def)
  next
    case pruned
    then show ?thesis using locked(2) prune_wf [OF wf, where now = now] by (auto simp: challenges_wf_def)
  next
    case (added c)
    let ?m = "pending_challenges now (cs_verifier st)" and ?r = "\<lparr>cl_challenge = c, cl_consumed = False\<rparr>"
    have "length (AList.update (ch_challenge_id c) ?r ?m) \<le> MAX_PENDING_CHALLENGES"
      using added(3) by (simp add: length_update)
    moreover have "ch_challenge_id (cl_challenge r) = k"
      if "(k, r) \<in> set (AList.update (ch_challenge_id c) ?r ?m)" for k r
      using subsetD [OF update_entries that] prune_wf(3) [OF wf, where now = now and k = k and r = r] by auto
    ultimately show ?thesis
      using locked(2) added(4) distinct_keys_update [OF prune_wf(1) [OF wf, of now]]
      by (auto simp: challenges_wf_def)
  qed
qed (simp add: wf)

lemma consume_wf:
  assumes wf: "challenges_wf st" and con: "consume x rt clk uuids encoded st = Some (res, st')"
  shows "challenges_wf st'"
  using con
proof (cases rule: consume_cases)
  case refused
  then show ?thesis using wf by (simp add: challenges_wf_def)
next
  case (decided receipt now c key s s')
  let ?k = "ud_challenge_id (sd_decision receipt)"
  obtain r where r: "map_of (vs_challenges (cs_verifier st)) ?k = Some r" "c = cl_challenge r"
    and s': "vs_challenges s' = AList.update ?k (r\<lparr>cl_consumed := True\<rparr>) (vs_challenges (cs_verifier st))"
    using decided(3-5) by (rule decided_challenges)
  have "?k \<in> set (keys_of (vs_challenges (cs_verifier st)))" using r(1) by (force dest: map_of_SomeD)
  then have "length (vs_challenges s') \<le> MAX_PENDING_CHALLENGES"
    using wf by (simp only: s' length_update if_True challenges_wf_def)
  moreover have "ch_challenge_id (cl_challenge q) = k" if "(k, q) \<in> set (vs_challenges s')" for k q
    using subsetD [OF update_entries that [unfolded s']] wf map_of_SomeD [OF r(1)]
    by (auto simp: challenges_wf_def)
  moreover have "distinct (keys_of (vs_challenges s'))"
    using wf by (simp add: s' distinct_keys_update challenges_wf_def)
  ultimately show ?thesis using decided_verifier [OF decided(6)] by (auto simp: challenges_wf_def)
qed

lemma cross_step_wf: "cross_step x rt st e st' \<Longrightarrow> challenges_wf st \<Longrightarrow> challenges_wf st'"
proof (induction rule: cross_step.induct)
  case cross_prepared
  then show ?case using prepare_wf by blast
next
  case cross_not_prepared
  then show ?case using prepare_wf by blast
next
  case cross_consumed
  then show ?case using consume_wf by blast
next
  case cross_not_consumed
  then show ?case using consume_wf by blast
next
  case (cross_call y call st gs st')
  then have "vs_challenges (cs_verifier st') = vs_challenges (cs_verifier st)"
    using run_one_call task_call_challenges by metis
  then show ?case using cross_call(2) by (rule challenges_wf_cong)
qed (simp_all add: challenges_wf_def)

text \<open>One step moves at most one unit between preparations, pending challenges and consumptions.\<close>

lemma cross_step_count:
  "cross_step x rt st e st' \<Longrightarrow> challenges_wf st \<Longrightarrow>
   pending k st' + (if e = Consumed k then 1 else 0) \<le> pending k st + (if e = Prepared k then 1 else 0)"
proof (induction rule: cross_step.induct)
  case (cross_prepared clk uuid nonce q st c st')
  then show ?case using prepare_pending [OF cross_prepared(2,1), of k] by simp
next
  case (cross_not_prepared clk uuid nonce q st e st')
  then show ?case using prepare_pending [OF cross_not_prepared(2,1), of k] by simp
next
  case (cross_consumed clk uuids encoded st r st' receipt)
  then show ?case using consume_pending(2) [OF cross_consumed(1) refl cross_consumed(2), of k] by simp
next
  case (cross_not_consumed clk uuids encoded st e st')
  then show ?case using consume_pending(1) [OF cross_not_consumed(1), of k] by simp
next
  case (cross_call y call st gs st')
  then have "vs_challenges (cs_verifier st') = vs_challenges (cs_verifier st)"
    using run_one_call task_call_challenges by metis
  then show ?case by (simp add: pending_def)
qed (simp_all add: pending_def)

lemma cross_run_count:
  "cross_run x rt st es st' \<Longrightarrow> challenges_wf st \<Longrightarrow>
   count_list es (Consumed k) + pending k st' \<le> count_list es (Prepared k) + pending k st"
proof (induction rule: cross_run.induct)
  case (cross_more st e st' es st'')
  then have "challenges_wf st'" by (blast intro: cross_step_wf)
  then show ?case using cross_more cross_step_count [of x rt st e st' k] by (simp split: if_splits)
qed simp

lemma cross_initial:
  "cross_client_task_authorization rt t = Inr st \<Longrightarrow> challenges_wf st \<and> pending k st = 0"
  by (auto simp: cross_client_task_authorization_def and_then_Inr_iff challenges_wf_def pending_def)

lemma trust_lookup_revoked:
  "trust_lookup k t = Some (Some (TrustRevoked e)) \<longleftrightarrow>
     \<not> tr_poisoned t \<and> (\<exists>r. map_of (tr_keys t) k = Some r \<and> rk_revoked_at_epoch r = Some e)"
  by (auto simp: trust_lookup_def split: option.splits)

lemma trust_revoke_lookup:
  assumes "trust_revoke k epoch t = (Inr (), t')"
  shows "trust_lookup k t' = Some (Some (TrustRevoked epoch))"
  using assms unfolding trust_lookup_revoked
  by (auto simp: trust_revoke_def split: if_split_asm option.split_asm)

lemma trust_revoke_keeps:
  assumes "trust_lookup k t = Some (Some (TrustRevoked e))"
  shows "\<exists>e'. trust_lookup k (snd (trust_revoke k' epoch t)) = Some (Some (TrustRevoked e'))"
  using assms unfolding trust_lookup_revoked by (auto simp: trust_revoke_def split: option.split)

section \<open>Properties\<close>

text \<open>
  C11. No replay: in every run of a fresh verifier, whatever prepares, receipts, revocations
  and Host calls are interleaved, the decisions accepted for a challenge identifier are at
  most as many as the times that identifier was prepared, so with fresh identifiers a
  challenge is decided at most once; the registry never exceeds its 256 entries.
\<close>

theorem challenge_decided_at_most_once:
  assumes "cross_client_task_authorization rt t = Inr st" and "cross_run x rt st es st'"
  shows "count_list es (Consumed k) \<le> count_list es (Prepared k)
     \<and> length (vs_challenges (cs_verifier st')) \<le> 256"
proof -
  have wf: "challenges_wf st" "pending k st = 0" using cross_initial [OF assms(1)] by auto
  have "challenges_wf st'" using assms(2) wf(1)
    by (induction rule: cross_run.induct) (auto intro: cross_step_wf)
  then show ?thesis
    using cross_run_count [OF assms(2) wf(1), of k] wf(2)
    by (auto simp: challenges_wf_def MAX_PENDING_CHALLENGES_def)
qed

text \<open>
  C12. A task receipt is worth exactly what its holder signed. When \<open>consume\<close> hands out a task
  authorization, the receipt was canonical and names a retained challenge that was not
  consumed before; the key is active in the trust registry, belongs to the audience of the
  challenge and verifies the signature; the decision is \<open>Allow\<close>, carries the nonce and the
  digest of the challenge, and is inside its deadline and expiry; the process that owns the
  window is the one the challenge names; and what the broker now holds, unbound, is the
  scope of the challenge with the expiry of the decision, and nothing else.
\<close>

theorem task_receipt_exact:
  assumes "consume x rt clk uuids encoded st = Some (Inr (Task rc), st')"
  shows "\<exists>receipt now r key pid hwnd p.
     decode_receipt x encoded = Inr receipt \<and> trait_clock x (clk 0) = Inr now
     \<and> map_of (vs_challenges (cs_verifier st)) (ud_challenge_id (sd_decision receipt)) = Some r
     \<and> \<not> cl_consumed r
     \<and> trust_lookup (ud_issuer_key_id (sd_decision receipt)) (cs_trust st) = Some (Some (TrustActive key))
     \<and> tk_audience key = ch_audience (cl_challenge r) \<and> verify_signature x key receipt = Inr ()
     \<and> ud_decision (sd_decision receipt) = DecisionAllow
     \<and> ud_nonce (sd_decision receipt) = ch_nonce (cl_challenge r)
     \<and> ud_challenge_sha256 (sd_decision receipt) = ch_challenge_sha256 (cl_challenge r)
     \<and> now \<le> ch_confirmation_deadline_unix_ms (cl_challenge r)
     \<and> now < ud_expires_at_unix_ms (sd_decision receipt)
     \<and> ud_expires_at_unix_ms (sd_decision receipt) \<le> ch_expires_at_unix_ms (cl_challenge r)
     \<and> exact_window (ch_target (cl_challenge r)) = Some (pid, hwnd)
     \<and> process_identity (clk 1) pid hwnd = target_identity (ch_target (cl_challenge r))
     \<and> map_of (bk_authorizations (cs_broker st')) (rc_authorization_id rc)
         = Some (registered_record (challenge_registration (cl_challenge r) pid hwnd
             (ud_expires_at_unix_ms (sd_decision receipt))) (rc_window_capability rc) p)
     \<and> map_option cl_consumed (map_of (vs_challenges (cs_verifier st')) (ud_challenge_id (sd_decision receipt)))
         = Some True"
  using assms
proof (cases rule: consume_cases)
  case (decided receipt now c key s s')
  let ?d = "sd_decision receipt"
  obtain r where r: "map_of (vs_challenges (cs_verifier st)) (ud_challenge_id ?d) = Some r"
      "\<not> cl_consumed r" "c = cl_challenge r"
    and s': "vs_challenges s' = AList.update (ud_challenge_id ?d) (r\<lparr>cl_consumed := True\<rparr>)
       (vs_challenges (cs_verifier st))"
    using decided(3-5) by (rule decided_challenges)
  have chk: "validate_decision_binding rt c ?d now = Inr ()"
    "trusted_key (ud_issuer_key_id ?d) (cs_trust st) = Inr key" "tk_audience key = ch_audience c"
    "verify_signature x key receipt = Inr ()"
    "ud_decision ?d = DecisionAllow \<Longrightarrow> validate_live_target (clk 1) (ch_target c) = Inr ()"
    using decided(4) by (auto elim: check_decisionD)
  have allow: "ud_decision ?d = DecisionAllow"
    using decided(6) by (cases "ud_decision ?d") auto
  then have "consume_allowed x (\<lambda>k. clk (k + 2)) uuids now c key (ud_expires_at_unix_ms ?d)
      (st\<lparr>cs_verifier := s'\<rparr>) = Some (Inr (Task rc), st')"
    using decided(6) by simp
  then obtain pid hwnd identity b where w: "exact_window (ch_target c) = Some (pid, hwnd)"
      "target_identity (ch_target c) = Some identity"
    and reg: "register (cx_base x) (\<lambda>k. clk (k + 2)) uuids
        (challenge_registration c pid hwnd (ud_expires_at_unix_ms ?d)) (cs_broker st) = Some (Inr rc, b)"
    and st': "cs_broker st' = b" "vs_challenges (cs_verifier st') = vs_challenges s'"
    by (cases rule: consume_allowed_cases) auto
  have "live_binding (ch_target c) = Some (pid, hwnd, identity)"
    using w by (cases "ch_target c") auto
  then have "process_identity (clk 1) pid hwnd = Some identity"
    using chk(5) [OF allow] by (auto simp: validate_live_target_def split: option.splits)
  moreover have "map_of (bk_authorizations b) (rc_authorization_id rc) = Some (registered_record
      (challenge_registration c pid hwnd (ud_expires_at_unix_ms ?d)) (rc_window_capability rc)
      (bk_next (cs_broker st)))"
    using reg unfolding register_def by (rule register_okD) simp
  moreover have "trust_lookup (ud_issuer_key_id ?d) (cs_trust st) = Some (Some (TrustActive key))"
    using chk(2) by (auto simp: trusted_key_def split: option.splits CrossClientTaskAuthorizationTrustState.splits)
  ultimately show ?thesis
    using decided(1,2) r s' w st' allow chk(1,3,4)
    by (intro exI [of _ receipt] exI [of _ now] exI [of _ r] exI [of _ key] exI [of _ pid] exI [of _ hwnd]
        exI [of _ "bk_next (cs_broker st)"])
       (auto simp: validate_decision_binding_def and_then_Inr_iff not_less not_le)
qed simp

text \<open>
  A denial and a browser bootstrap grant no task authority: \<open>consume\<close> then leaves the
  broker and the provenance of the authorizations as they were, while the challenge is spent.
\<close>

theorem denial_and_bootstrap_register_nothing:
  assumes "consume x rt clk uuids encoded st = Some (Inr r, st')" and "\<forall>rc. r \<noteq> Task rc"
    and "decode_receipt x encoded = Inr receipt"
  shows "cs_broker st' = cs_broker st \<and> vs_authorizations (cs_verifier st') = vs_authorizations (cs_verifier st)
     \<and> pending (ud_challenge_id (sd_decision receipt)) st = 1
     \<and> pending (ud_challenge_id (sd_decision receipt)) st' = 0"
proof -
  have "pending (ud_challenge_id (sd_decision receipt)) st' + 1 = pending (ud_challenge_id (sd_decision receipt)) st"
    using consume_pending(2) [OF assms(1) refl assms(3), of "ud_challenge_id (sd_decision receipt)"] by simp
  moreover have "pending k st \<le> 1" for k by (simp add: pending_def split: option.splits)
  ultimately have pend: "pending (ud_challenge_id (sd_decision receipt)) st = 1"
    "pending (ud_challenge_id (sd_decision receipt)) st' = 0"
    by (metis add_diff_cancel_right' add_leE le_antisym le_add2 diff_self_eq_0)+
  from assms(1) show ?thesis
  proof (cases rule: consume_cases)
    case (decided receipt' now c key s s')
    have a: "vs_authorizations s' = vs_authorizations (cs_verifier st)"
      using decided(3-5) by (rule decided_challenges)
    show ?thesis
    proof (cases "ud_decision (sd_decision receipt') = DecisionDeny")
      case True
      then show ?thesis using decided(6) a pend by simp
    next
      case False
      then have "consume_allowed x (\<lambda>k. clk (k + 2)) uuids now c key
          (ud_expires_at_unix_ms (sd_decision receipt')) (st\<lparr>cs_verifier := s'\<rparr>) = Some (Inr r, st')"
        using decided(6) by simp
      then show ?thesis using a pend assms(2) by (cases rule: consume_allowed_cases) auto
    qed
  qed simp
qed

text \<open>
  C18. Revoking an issuer key is final: once the administrator revoked a key, no Host call
  under any authorization that a decision of that key created is ever granted, and no later
  administration call makes the key active again.
\<close>

theorem key_revocation_is_final:
  assumes "trust_revoke key_id epoch (cs_trust st) = (Inr (), t)"
    and "map_of (vs_authorizations (cs_verifier st)) a = Some p" and "tk_key_id (pv_key p) = key_id"
  shows "Some a \<notin> set (fst (run_task_calls y (cross_host x) calls (st\<lparr>cs_trust := t\<rparr>)))
     \<and> trusted_key key_id t = Inl RevokedKey
     \<and> trusted_key key_id (snd (trust_revoke key_id' epoch' t)) = Inl RevokedKey"
proof -
  have lookup: "trust_lookup key_id t = Some (Some (TrustRevoked epoch))"
    using assms(1) by (rule trust_revoke_lookup)
  then have "live_key t p \<noteq> Inr Active" using assms(3) by (simp add: live_key_def)
  then have "cross_dead a (st\<lparr>cs_trust := t\<rparr>)" using assms(2) by (simp add: cross_dead_def)
  moreover have "\<exists>e. trust_lookup key_id (snd (trust_revoke key_id' epoch' t)) = Some (Some (TrustRevoked e))"
    using lookup by (rule trust_revoke_keeps)
  ultimately show ?thesis using cross.dead_never_granted lookup by (auto simp: trusted_key_def)
qed

text \<open>
  C19. A clock that moves backwards ends everything. Once the trusted clock reads earlier
  than a time observed before, that call is refused, and from then on the verifier prepares
  no challenge, consumes no receipt, and no Host call under any authorization is granted.
\<close>

theorem clock_rollback_fails_closed:
  assumes "vs_last_observed_unix_ms (cs_verifier st) = Some previous" and "now < previous"
    and "now \<le> MAX_SAFE_JSON_INTEGER"
    and "observe_clock now (cs_verifier st) = (res, s)" and "cs_verifier st' = s"
  shows "res = Inl ClockRollback \<and> \<not> is_ok (fst (prepare x rt clk uuid nonce q st'))
     \<and> (\<forall>r st''. consume x rt clk uuids encoded st' \<noteq> Some (Inr r, st''))
     \<and> Some a \<notin> set (fst (run_task_calls y (cross_host x) calls st'))"
proof -
  have "observe_clock now (cs_verifier st) = (Inl ClockRollback, (cs_verifier st)\<lparr>vs_clock_failed := True\<rparr>)
      \<or> observe_clock now (cs_verifier st) = (Inl ClockRollback, cs_verifier st) \<and> vs_clock_failed (cs_verifier st)"
    using assms(1-3) by (auto simp: observe_clock_def validate_safe_integer_def guard_def not_less [symmetric])
  then have failed: "vs_clock_failed (cs_verifier st')" and res: "res = Inl ClockRollback"
    using assms(4,5) by auto
  have "\<not> is_ok (fst (prepare x rt clk uuid nonce q st'))"
    using failed
    by (auto simp: prepare_def prepare_locked_def observe_clock_def split: sum.splits)
  moreover have "consume x rt clk uuids encoded st' \<noteq> Some (Inr r, st'')" for r st''
  proof
    assume "consume x rt clk uuids encoded st' = Some (Inr r, st'')"
    then show False using failed by (cases rule: consume_cases) (auto dest: observe_clock_okD)
  qed
  moreover have "cross_dead a st'" using failed by (simp add: cross_dead_def)
  ultimately show ?thesis using res cross.dead_never_granted by blast
qed

section \<open>A concrete exchange\<close>

definition example_audience :: CrossClientTaskAuthorizationAudience where
  "example_audience = \<lparr>au_client_id = ''c'', au_tenant_id = ''t'', au_user_id = ''u''\<rparr>"

definition example_runtime :: CrossClientTaskAuthorizationRuntime where
  "example_runtime = \<lparr>rt_runtime_version = ''1'', rt_runtime_instance_id = ''i'', rt_boot_generation = 1\<rparr>"

definition example_key :: TrustedTaskAuthorizationKey where
  "example_key = \<lparr>tk_key_id = ''k'', tk_audience = example_audience, tk_verifying_key = ''v''\<rparr>"

definition example_challenge_request :: CrossClientTaskAuthorizationChallengeRequest where
  "example_challenge_request = \<lparr>qr_audience = example_audience, qr_task_id = ''s'', qr_connection_id = ''c'',
     qr_task_grant_id = ''g'', qr_application_label = ''l'', qr_purpose = ''p'',
     qr_target = CrossExactWindow 7 ''p'' 9, qr_allowed_host_methods = [''execute_action''],
     qr_allowed_actions = [example_scope], qr_allowed_browser_origins = [],
     qr_secret_handle_policy = Forbidden, qr_irreversible_operation = None,
     qr_expires_at_unix_ms = 60000\<rparr>"

definition example_challenge :: CrossClientTaskAuthorizationChallenge where
  "example_challenge = (new_challenge example_runtime example_challenge_request (challenge_id_of ''x'') ''n'' 0)
     \<lparr>ch_challenge_sha256 := ''sha256:00''\<rparr>"

definition example_decision ::
  "CrossClientTaskAuthorizationDecision \<Rightarrow> CrossClientTaskAuthorizationSignedDecision" where
  "example_decision d = \<lparr>sd_decision = \<lparr>ud_schema = CROSS_CLIENT_TASK_AUTHORIZATION_RECEIPT_SCHEMA,
       ud_issuer_key_id = ''k'', ud_audience = example_audience, ud_runtime_instance_id = ''i'',
       ud_boot_generation = 1, ud_challenge_id = challenge_id_of ''x'', ud_nonce = ''n'',
       ud_challenge_sha256 = ''sha256:00'', ud_decision = d, ud_issued_at_unix_ms = 0,
       ud_expires_at_unix_ms = 60000\<rparr>, sd_signature = ''z''\<rparr>"

text \<open>Two canonical texts, one per decision; every signature verifies; the clock is the system's.\<close>

definition example_cross_externs :: cross_externs where
  "example_cross_externs = \<lparr>cx_base = example_externs,
     jcs = (\<lambda>v. if v = json_signed_decision (example_decision DecisionDeny) then Some ''deny'' else Some ''allow''),
     signed_from_slice = (\<lambda>s. if s = ''allow'' then Some (example_decision DecisionAllow)
       else if s = ''deny'' then Some (example_decision DecisionDeny) else None),
     base64_encode = (\<lambda>_. ''n''), base64_decode = Some, valid_verifying_key = (\<lambda>_. True),
     valid_signature = (\<lambda>_. True), verify_strict = (\<lambda>_ _ _. True), trait_clock = system_clock\<rparr>"

definition example_live_world :: world where
  "example_live_world = example_world\<lparr>process_identity := (\<lambda>_ _. Some ''p'')\<rparr>"

definition fresh_verifier :: CrossState where
  "fresh_verifier = \<lparr>cs_verifier = \<lparr>vs_poisoned = False, vs_challenges = [], vs_authorizations = [],
       vs_last_observed_unix_ms = None, vs_clock_failed = False\<rparr>,
     cs_trust = \<lparr>tr_poisoned = False, tr_keys = [(''k'', \<lparr>rk_key = example_key, rk_revoked_at_epoch = None\<rparr>)]\<rparr>,
     cs_broker = trusted_task_authorization_broker\<rparr>"

definition prepared_verifier :: CrossState where
  "prepared_verifier = fresh_verifier\<lparr>cs_verifier := \<lparr>vs_poisoned = False,
     vs_challenges = [(challenge_id_of ''x'', \<lparr>cl_challenge = example_challenge, cl_consumed = False\<rparr>)],
     vs_authorizations = [], vs_last_observed_unix_ms = Some 0, vs_clock_failed = False\<rparr>\<rparr>"

lemma live_world_time: "unix_time_millis example_live_world = 0" "recording_clock example_live_world = 0"
  "mono_ns example_live_world = 0"
  by (simp_all add: unix_time_millis_def recording_clock_def millis_u64_def example_live_world_def example_world_def)

lemma identity_letters:
  "cross_validate_identity [c] n = Inr ()" if "33 \<le> byte c" "byte c < 127" "0 < n"
  using that cross_identity.accepts_iff [of "[c]" n] by (simp add: identity_ok_graphic graphic_def)

lemma fresh_verifier_created:
  "cross_client_task_authorization example_runtime (cs_trust fresh_verifier) = Inr fresh_verifier"
  by (simp add: cross_client_task_authorization_def validate_runtime_def example_runtime_def
      identity_letters MAX_IDENTITY_CHARS_def validate_safe_integer_def MAX_SAFE_JSON_INTEGER_def
      fresh_verifier_def guard_def)

lemma example_request_valid:
  "validate_challenge_request example_externs example_challenge_request 0 = Inr ()"
proof -
  have "cross_validate_identity ''execute_action'' 80 = Inr ()"
    using cross_identity.accepts_iff [of "''execute_action''" 80] by (simp add: identity_ok_graphic graphic_def)
  then have "validate_challenge_identities example_externs example_challenge_request 0 = Inr ()"
    by (simp add: validate_challenge_identities_def example_challenge_request_def validate_audience_def
        example_audience_def identity_letters MAX_IDENTITY_CHARS_def MAX_TASK_GRANT_ID_CHARS_def
        MAX_APPLICATION_LABEL_CHARS_def validate_label_def MAX_LABEL_CHARS_def validate_safe_integer_def
        MAX_SAFE_JSON_INTEGER_def saturating_sub_def MAX_TASK_AUTHORIZATION_TTL_MS_def
        validate_window_target_def MAX_HOST_METHODS_def guard_def)
  moreover have "validate_challenge_scopes example_externs example_challenge_request = Inr ()"
    by (simp add: validate_challenge_scopes_def example_challenge_request_def example_scope_def
        MAX_TASK_AUTHORIZATION_ACTIONS_def action_scope_validate_def is_task_authorizable_host_method_def
        task_authorizable_host_methods_def scope_simps)
  ultimately show ?thesis
    by (simp add: validate_challenge_request_def example_challenge_request_def target_scope_bad_def
        example_scope_def starts_with_def)
qed

lemma example_prepares:
  "prepare example_cross_externs example_runtime (\<lambda>_. example_live_world) ''x'' ''nn''
     example_challenge_request fresh_verifier = (Inr example_challenge, prepared_verifier)"
proof -
  have "validate_live_target example_live_world (qr_target example_challenge_request) = Inr ()"
    by (simp add: validate_live_target_def example_challenge_request_def example_live_world_def)
  then have "prepare_checks example_cross_externs (\<lambda>_. example_live_world) example_challenge_request = Inr 0"
    using example_request_valid
    by (simp add: prepare_checks_def example_cross_externs_def system_clock_def live_world_time)
  moreover have "challenge_digest example_cross_externs c = Inr ''sha256:00''" if "json_challenge c \<noteq> json_signed_decision (example_decision DecisionDeny)" for c
    using that by (simp add: challenge_digest_def canonical_cross_client_task_authorization_challenge_def
        jcs_or_def example_cross_externs_def example_externs_def)
  then have "challenge_digest example_cross_externs (new_challenge example_runtime example_challenge_request
      (challenge_id_of ''x'') ''n'' 0) = Inr ''sha256:00''"
    by (simp add: json_challenge_def json_signed_decision_def)
  ultimately show ?thesis
    by (simp add: prepare_def prepare_locked_def fresh_verifier_def observe_clock_def
        validate_safe_integer_def pending_challenges_def retain_def MAX_PENDING_CHALLENGES_def
        prepared_verifier_def example_challenge_def example_cross_externs_def guard_def Let_def)
qed

lemma example_decodes:
  "decode_receipt example_cross_externs ''allow'' = Inr (example_decision DecisionAllow)"
  "decode_receipt example_cross_externs ''deny'' = Inr (example_decision DecisionDeny)"
proof -
  have g: "cross_validate_identity s n = Inr ()" if "graphic s" "s \<noteq> []" "length s \<le> n" for s n
    using that cross_identity.accepts_iff [of s n] by (simp add: identity_ok_graphic)
  have ids: "all_ok (\<lambda>v. cross_validate_identity v MAX_LABEL_CHARS)
      [ud_schema (sd_decision (example_decision d)), ud_issuer_key_id (sd_decision (example_decision d)),
       ud_runtime_instance_id (sd_decision (example_decision d)), ud_challenge_id (sd_decision (example_decision d)),
       ud_nonce (sd_decision (example_decision d)), ud_challenge_sha256 (sd_decision (example_decision d)),
       sd_signature (example_decision d)] = Inr ()" for d
    by (simp add: g all_ok_Inr_iff example_decision_def MAX_LABEL_CHARS_def challenge_id_of_def graphic_def
        CROSS_CLIENT_TASK_AUTHORIZATION_RECEIPT_SCHEMA_def)
  have aud: "validate_audience (ud_audience (sd_decision (example_decision d))) = Inr ()" for d
    by (simp add: validate_audience_def example_decision_def example_audience_def identity_letters
        MAX_IDENTITY_CHARS_def)
  have ints: "all_ok validate_safe_integer [ud_boot_generation (sd_decision (example_decision d)),
      ud_issued_at_unix_ms (sd_decision (example_decision d)),
      ud_expires_at_unix_ms (sd_decision (example_decision d))] = Inr ()" for d
    by (simp add: example_decision_def validate_safe_integer_def MAX_SAFE_JSON_INTEGER_def)
  have ne: "json_signed_decision (example_decision DecisionAllow) \<noteq> json_signed_decision (example_decision DecisionDeny)"
    by (simp add: json_signed_decision_def json_unsigned_decision_def example_decision_def)
  have canon: "canonical_cross_client_task_authorization_receipt example_cross_externs (example_decision DecisionAllow) = Inr ''allow''"
    "canonical_cross_client_task_authorization_receipt example_cross_externs (example_decision DecisionDeny) = Inr ''deny''"
    using ne by (simp_all add: canonical_cross_client_task_authorization_receipt_def jcs_or_def example_cross_externs_def)
  have slice: "signed_from_slice example_cross_externs ''allow'' = Some (example_decision DecisionAllow)"
    "signed_from_slice example_cross_externs ''deny'' = Some (example_decision DecisionDeny)"
    by (simp_all add: example_cross_externs_def)
  show "decode_receipt example_cross_externs ''allow'' = Inr (example_decision DecisionAllow)"
    "decode_receipt example_cross_externs ''deny'' = Inr (example_decision DecisionDeny)"
    by (simp_all add: decode_receipt_def slice canon ids aud ints MAX_SIGNED_RECEIPT_BYTES_def
        del: all_ok.simps)
qed

lemma example_checks:
  "check_decision example_cross_externs example_runtime example_live_world 0 (example_decision d)
     (cs_verifier prepared_verifier) (cs_trust prepared_verifier) = Inr (example_challenge, example_key)"
proof -
  have "validate_decision_binding example_runtime example_challenge (sd_decision (example_decision d)) 0 = Inr ()"
    by (simp add: validate_decision_binding_def example_decision_def example_challenge_def new_challenge_def
        example_challenge_request_def example_runtime_def saturating_add_def MAX_PENDING_TTL_MS_def min_def)
  moreover have "verify_signature example_cross_externs example_key (example_decision d) = Inr ()"
    by (simp add: verify_signature_def example_cross_externs_def
        cross_client_task_authorization_signing_payload_def jcs_or_def)
  moreover have "trusted_key ''k'' (cs_trust prepared_verifier) = Inr example_key"
    by (simp add: trusted_key_def trust_lookup_def prepared_verifier_def fresh_verifier_def)
  moreover have "validate_live_target example_live_world (ch_target example_challenge) = Inr ()"
    by (simp add: validate_live_target_def example_challenge_def new_challenge_def
        example_challenge_request_def example_live_world_def)
  moreover have "tk_audience example_key = ch_audience example_challenge"
    by (simp add: example_key_def example_challenge_def new_challenge_def example_challenge_request_def)
  moreover have "ud_challenge_id (sd_decision (example_decision d)) = challenge_id_of ''x''"
    "ud_issuer_key_id (sd_decision (example_decision d)) = ''k''"
    by (simp_all add: example_decision_def)
  ultimately show ?thesis by (simp add: check_decision_def prepared_verifier_def)
qed

definition consumed_verifier :: VerifierState where
  "consumed_verifier = (cs_verifier prepared_verifier)\<lparr>vs_challenges :=
     [(challenge_id_of ''x'', \<lparr>cl_challenge = example_challenge, cl_consumed = True\<rparr>)]\<rparr>"

lemma example_consume_step:
  assumes "decode_receipt example_cross_externs encoded = Inr (example_decision d)"
  shows "consume example_cross_externs example_runtime (\<lambda>_. example_live_world) uuids encoded prepared_verifier =
     (if d = DecisionDeny then Some (Inr Denied, prepared_verifier\<lparr>cs_verifier := consumed_verifier\<rparr>)
      else consume_allowed example_cross_externs (\<lambda>_. example_live_world) uuids 0 example_challenge example_key
             60000 (prepared_verifier\<lparr>cs_verifier := consumed_verifier\<rparr>))"
proof -
  have "observe_clock 0 (cs_verifier prepared_verifier) = (Inr (), cs_verifier prepared_verifier)"
    by (simp add: observe_clock_def prepared_verifier_def validate_safe_integer_def)
  moreover have "trait_clock example_cross_externs example_live_world = Inr 0"
    by (simp add: example_cross_externs_def system_clock_def live_world_time)
  moreover have "mark_consumed (ch_challenge_id example_challenge) (cs_verifier prepared_verifier) = Some consumed_verifier"
    by (simp add: mark_consumed_def prepared_verifier_def consumed_verifier_def example_challenge_def new_challenge_def)
  moreover have "\<not> vs_poisoned (cs_verifier prepared_verifier)" by (simp add: prepared_verifier_def)
  moreover have "ud_expires_at_unix_ms (sd_decision (example_decision d)) = 60000"
    "ud_decision (sd_decision (example_decision d)) = d"
    by (simp_all add: example_decision_def)
  ultimately show ?thesis
    using assms example_checks by (simp add: consume_def)
qed

theorem denial_and_bootstrap_register_nothing_witness:
  "\<exists>st'. consume example_cross_externs example_runtime (\<lambda>_. example_live_world) example_uuids ''deny''
       prepared_verifier = Some (Inr Denied, st')
     \<and> cs_broker st' = trusted_task_authorization_broker \<and> pending (challenge_id_of ''x'') st' = 0"
proof -
  let ?st = "prepared_verifier\<lparr>cs_verifier := consumed_verifier\<rparr>"
  have con: "consume example_cross_externs example_runtime (\<lambda>_. example_live_world) example_uuids ''deny''
      prepared_verifier = Some (Inr Denied, ?st)"
    by (simp add: example_consume_step [OF example_decodes(2)])
  have "\<forall>rc. Denied \<noteq> Task rc" by simp
  from denial_and_bootstrap_register_nothing [OF con this example_decodes(2)] con show ?thesis
    by (simp add: example_decision_def prepared_verifier_def fresh_verifier_def)
qed

theorem challenge_decided_at_most_once_witness:
  "\<exists>st'. cross_run example_cross_externs example_runtime fresh_verifier
       [Prepared (challenge_id_of ''x''), Consumed (challenge_id_of ''x'')] st'
     \<and> length (vs_challenges (cs_verifier st')) \<le> 256"
proof -
  have "ch_challenge_id example_challenge = challenge_id_of ''x''"
    by (simp add: example_challenge_def new_challenge_def)
  then have s1: "cross_step example_cross_externs example_runtime fresh_verifier (Prepared (challenge_id_of ''x''))
      prepared_verifier"
    using cross_prepared [OF example_prepares] by metis
  let ?st = "prepared_verifier\<lparr>cs_verifier := consumed_verifier\<rparr>"
  have "consume example_cross_externs example_runtime (\<lambda>_. example_live_world) example_uuids ''deny''
      prepared_verifier = Some (Inr Denied, ?st)"
    by (simp add: example_consume_step [OF example_decodes(2)])
  from cross_consumed [OF this example_decodes(2)]
  have s2: "cross_step example_cross_externs example_runtime prepared_verifier (Consumed (challenge_id_of ''x'')) ?st"
    by (simp add: example_decision_def)
  have run: "cross_run example_cross_externs example_runtime fresh_verifier
       [Prepared (challenge_id_of ''x''), Consumed (challenge_id_of ''x'')] ?st"
    by (rule cross_more [OF s1 cross_more [OF s2 cross_done]])
  from challenge_decided_at_most_once [OF fresh_verifier_created run] run show ?thesis by blast
qed

lemma example_cross_registration:
  "validate_registration example_externs example_live_world (challenge_registration example_challenge 7 9 60000) = Inr ()"
proof -
  have "validate_registration_identities (challenge_registration example_challenge 7 9 60000) = Inr ()"
    by (simp add: validate_registration_identities_def challenge_registration_def example_challenge_def
        new_challenge_def example_challenge_request_def broker_validate_identity_def graphic_simps graphic_def
        MAX_TASK_GRANT_ID_CHARS_def MAX_APPLICATION_LABEL_CHARS_def)
  moreover have "validate_registration_scopes example_externs 0 (challenge_registration example_challenge 7 9 60000) = Inr ()"
    by (simp add: validate_registration_scopes_def challenge_registration_def example_challenge_def
        new_challenge_def example_challenge_request_def saturating_sub_def MAX_TASK_AUTHORIZATION_TTL_MS_def
        MAX_TASK_AUTHORIZATION_ACTIONS_def example_scope_def action_scope_validate_def
        is_task_authorizable_host_method_def task_authorizable_host_methods_def scope_simps)
  ultimately show ?thesis
    by (simp add: validate_registration_def live_world_time validate_registration_preparation_def
        validate_registration_recording_def validate_registration_browser_def challenge_registration_def
        example_challenge_def new_challenge_def example_challenge_request_def starts_with_def
        example_scope_def scope_simps MAX_TASK_AUTHORIZATION_ACTIONS_def)
qed

lemma example_cross_registers:
  "\<exists>b. register example_externs (\<lambda>_. example_live_world) example_uuids
     (challenge_registration example_challenge 7 9 60000) trusted_task_authorization_broker
     = Some (Inr example_receipt, b)"
proof -
  have "draw_authorization_id [] example_uuids 0 = Some (authorization_id_of [], 1)"
    by (subst draw_authorization_id.simps) (simp add: example_uuids_def)
  moreover have "live_records clk trusted_task_authorization_broker = []" for clk
    by (simp add: live_records_def trusted_task_authorization_broker_def retain_def)
  moreover have "is_ok (fst (admit example_live_world (registration_fence (\<lambda>_. example_live_world) 60000 None)))"
    by (simp add: admit_ok_iff registration_fence_def ra_active_def ra_expired_def live_world_time
        recording_authorization_new_def instant_checked_add_def saturating_sub_def)
  ultimately show ?thesis
    using example_cross_registration
    by (simp add: register_def register_inner_def MAX_BROKER_AUTHORIZATIONS_def example_receipt_def
        example_uuids_def challenge_registration_def trusted_task_authorization_broker_def)
qed

lemma example_consumes:
  "\<exists>st'. consume example_cross_externs example_runtime (\<lambda>_. example_live_world) example_uuids ''allow''
     prepared_verifier = Some (Inr (Task example_receipt), st')
     \<and> cs_trust st' = cs_trust fresh_verifier
     \<and> vs_authorizations (cs_verifier st') = [(authorization_id_of [], \<lparr>pv_key = example_key,
          pv_process_creation_identity = ''p'', pv_expires_at_unix_ms = 60000\<rparr>)]"
proof -
  obtain b where "register example_externs (\<lambda>_. example_live_world) example_uuids
     (challenge_registration example_challenge 7 9 60000) trusted_task_authorization_broker
     = Some (Inr example_receipt, b)"
    using example_cross_registers by blast
  moreover have "ch_target example_challenge = CrossExactWindow 7 ''p'' 9"
    by (simp add: example_challenge_def new_challenge_def example_challenge_request_def)
  moreover have "cx_base example_cross_externs = example_externs" by (simp add: example_cross_externs_def)
  moreover have "rc_authorization_id example_receipt = authorization_id_of []" by (simp add: example_receipt_def)
  moreover have "cs_broker prepared_verifier = trusted_task_authorization_broker"
    "cs_trust prepared_verifier = cs_trust fresh_verifier" "vs_authorizations consumed_verifier = []"
    by (simp_all add: prepared_verifier_def fresh_verifier_def consumed_verifier_def)
  ultimately show ?thesis
    by (simp add: example_consume_step [OF example_decodes(1)] consume_allowed_def retain_def Let_def)
qed

theorem task_receipt_exact_witness:
  "\<exists>st' r. consume example_cross_externs example_runtime (\<lambda>_. example_live_world) example_uuids ''allow''
       prepared_verifier = Some (Inr (Task example_receipt), st')
     \<and> map_of (bk_authorizations (cs_broker st')) (rc_authorization_id example_receipt) = Some r
     \<and> br_binding r = None"
proof -
  obtain st' where con: "consume example_cross_externs example_runtime (\<lambda>_. example_live_world) example_uuids ''allow''
     prepared_verifier = Some (Inr (Task example_receipt), st')"
    using example_consumes by blast
  then obtain g cap p where "map_of (bk_authorizations (cs_broker st')) (rc_authorization_id example_receipt)
      = Some (registered_record g cap p)"
    using task_receipt_exact [OF con] by blast
  with con show ?thesis
    by (intro exI [of _ st'] exI [of _ "registered_record g cap p"]) (simp add: registered_record_def)
qed

theorem key_revocation_is_final_witness:
  "\<exists>(st :: CrossState) t. trust_revoke ''k'' 1 (cs_trust st) = (Inr (), t)
     \<and> map_of (vs_authorizations (cs_verifier st)) (authorization_id_of []) \<noteq> None
     \<and> trusted_key ''k'' t = Inl RevokedKey
     \<and> trusted_key ''k'' (snd (trust_revoke ''k'' 2 t)) = Inl RevokedKey"
proof -
  obtain st :: CrossState where trust: "cs_trust st = cs_trust fresh_verifier"
    and auth: "vs_authorizations (cs_verifier st) = [(authorization_id_of [], \<lparr>pv_key = example_key,
          pv_process_creation_identity = ''p'', pv_expires_at_unix_ms = 60000\<rparr>)]"
    using example_consumes by blast
  obtain r where "map_of (tr_keys (cs_trust st)) ''k'' = Some r" "rk_revoked_at_epoch r = None"
    "\<not> tr_poisoned (cs_trust st)"
    by (simp add: trust fresh_verifier_def)
  then obtain t where t: "trust_revoke ''k'' 1 (cs_trust st) = (Inr (), t)"
    by (simp add: trust_revoke_def MAX_SAFE_JSON_INTEGER_def)
  have p: "map_of (vs_authorizations (cs_verifier st)) (authorization_id_of []) =
      Some \<lparr>pv_key = example_key, pv_process_creation_identity = ''p'', pv_expires_at_unix_ms = 60000\<rparr>"
    by (simp add: auth)
  have k: "tk_key_id (pv_key \<lparr>pv_key = example_key, pv_process_creation_identity = ''p'', pv_expires_at_unix_ms = 60000\<rparr>) = ''k''"
    by (simp add: example_key_def)
  from key_revocation_is_final [OF t p k] t p show ?thesis by blast
qed

theorem clock_rollback_fails_closed_witness:
  "\<exists>st. vs_last_observed_unix_ms (cs_verifier st) = Some 5
     \<and> fst (observe_clock 4 (cs_verifier st)) = Inl ClockRollback
     \<and> \<not> is_ok (fst (prepare example_cross_externs example_runtime (\<lambda>_. example_live_world) ''x'' ''nn''
          example_challenge_request (st\<lparr>cs_verifier := snd (observe_clock 4 (cs_verifier st))\<rparr>)))"
proof -
  define st where "st = fresh_verifier\<lparr>cs_verifier := (cs_verifier fresh_verifier)\<lparr>vs_last_observed_unix_ms := Some 5\<rparr>\<rparr>"
  have last: "vs_last_observed_unix_ms (cs_verifier st) = Some 5" by (simp add: st_def)
  have "(4 :: u64) < 5" "(4 :: u64) \<le> MAX_SAFE_JSON_INTEGER" by (simp_all add: MAX_SAFE_JSON_INTEGER_def)
  note rollback = clock_rollback_fails_closed [OF last this surjective_pairing,
      where st' = "st\<lparr>cs_verifier := snd (observe_clock 4 (cs_verifier st))\<rparr>"]
  have "fst (observe_clock 4 (cs_verifier st)) = Inl ClockRollback"
    and "\<not> is_ok (fst (prepare example_cross_externs example_runtime (\<lambda>_. example_live_world) ''x'' ''nn''
          example_challenge_request (st\<lparr>cs_verifier := snd (observe_clock 4 (cs_verifier st))\<rparr>)))"
    using rollback by simp_all
  with last show ?thesis by blast
qed

end
