(* ===== verification/Session_Events.thy ===== *)
theory Session_Events
  imports Externals
begin

text \<open>
  The bounded per-session event stream: readiness samples of the interactive desktop and
  availability samples of the exact target window (\<open>dcc-cua-core/src/input_state.rs\<close>), and
  the queue that turns status changes into sequenced events and serves cursor pages
  (\<open>dcc-cua-host/src/session_events.rs\<close>).

  The two observing operations share one contract, the locale \<open>event_source\<close>: a sample
  either keeps the stream or appends one event with the next sequence number and trims the
  oldest events above the capacity. The abstract specification is \<open>transitions\<close>, the
  unbounded list of status changes of a sample sequence; the queue refines it.
\<close>

section \<open>Samples and states (input_state.rs)\<close>

datatype ComputerUseInputStatus = Ready | Suspended

record ComputerUseInputReadiness =
  ir_status :: ComputerUseInputStatus
  ir_code :: string
  ir_reason :: "string option"

definition or_else :: "'a option \<Rightarrow> 'a option \<Rightarrow> 'a option" where
  "or_else a b = (case a of Some x \<Rightarrow> Some x | None \<Rightarrow> b)"

definition unwrap_or :: "'a option \<Rightarrow> 'a \<Rightarrow> 'a" where
  "unwrap_or a d = (case a of Some x \<Rightarrow> x | None \<Rightarrow> d)"

definition from_diagnostic :: "json \<Rightarrow> ComputerUseInputReadiness" where
  "from_diagnostic diagnostic =
     (let ready = (json_index diagnostic ''success'' = JBool True
                   \<and> json_index diagnostic ''input_ready'' = JBool True);
          code = unwrap_or
            (if ready then as_str (json_index diagnostic ''code'')
             else or_else (as_str (json_index diagnostic ''input_code''))
                          (as_str (json_index diagnostic ''code'')))
            (if ready then ''interactive_desktop_ready'' else ''interactive_desktop_unavailable'');
          reason = (if ready then None
             else Some (unwrap_or
               (or_else (as_str (json_index diagnostic ''input_message''))
                        (as_str (json_index diagnostic ''message'')))
               ''Windows input surface is unavailable''))
      in \<lparr>ir_status = (if ready then Ready else Suspended), ir_code = code, ir_reason = reason\<rparr>)"

record ComputerUseInputTarget =
  it_session_id :: string
  it_process_id :: u32
  it_window_handle :: u64

record ComputerUseSessionInputState =
  is_status :: ComputerUseInputStatus
  is_code :: string
  is_reason :: "string option"
  is_observed_at :: u64
  is_sequence :: u64
  is_target :: ComputerUseInputTarget

datatype ComputerUseTargetStatus = Available | Minimized | Unavailable

record ComputerUseTargetAvailability =
  ta_status :: ComputerUseTargetStatus
  ta_code :: string
  ta_visible :: bool
  ta_minimized :: bool
  ta_foreground :: bool

definition flag_of :: "json \<Rightarrow> string \<Rightarrow> string \<Rightarrow> bool" where
  "flag_of state a b =
     unwrap_or (or_else (as_bool (json_index state a)) (as_bool (json_index state b))) False"

definition from_window_state :: "json \<Rightarrow> ComputerUseTargetAvailability" where
  "from_window_state state =
     (let minimized = flag_of state ''minimized'' ''is_minimized'';
          visible = flag_of state ''visible'' ''is_on_screen'';
          foreground = flag_of state ''foreground'' ''is_foreground''
      in \<lparr>ta_status = (if minimized then Minimized else if visible then Available else Unavailable),
          ta_code = (if minimized then ''target_minimized''
                     else if visible then ''target_available'' else ''target_unavailable''),
          ta_visible = visible, ta_minimized = minimized, ta_foreground = foreground\<rparr>)"

record ComputerUseSessionTargetState =
  ts_status :: ComputerUseTargetStatus
  ts_code :: string
  ts_visible :: bool
  ts_minimized :: bool
  ts_foreground :: bool
  ts_observed_at :: u64
  ts_sequence :: u64
  ts_target :: ComputerUseInputTarget

definition target_state_initial ::
  "ComputerUseInputTarget \<Rightarrow> ComputerUseTargetAvailability \<Rightarrow> u64 \<Rightarrow> ComputerUseSessionTargetState" where
  "target_state_initial target a observed_at =
     \<lparr>ts_status = ta_status a, ts_code = ta_code a, ts_visible = ta_visible a,
      ts_minimized = ta_minimized a, ts_foreground = ta_foreground a,
      ts_observed_at = observed_at, ts_sequence = 1, ts_target = target\<rparr>"

definition input_state_initial ::
  "ComputerUseInputTarget \<Rightarrow> ComputerUseInputReadiness \<Rightarrow> u64 \<Rightarrow> ComputerUseSessionInputState" where
  "input_state_initial target r observed_at =
     \<lparr>is_status = ir_status r, is_code = ir_code r, is_reason = ir_reason r,
      is_observed_at = observed_at, is_sequence = 1, is_target = target\<rparr>"

datatype ComputerUseSessionEventKind = InputSuspended | InputResumed

record ComputerUseInputResumeRequirements =
  rr_automatic_input :: bool
  rr_exact_target_revalidation :: bool
  rr_fresh_observation :: bool
  rr_foreground_or_explicit_activation :: bool
  rr_upstream_session_refresh_may_be_required :: bool

definition safe_continuation :: ComputerUseInputResumeRequirements where
  "safe_continuation =
     \<lparr>rr_automatic_input = False, rr_exact_target_revalidation = True,
      rr_fresh_observation = True, rr_foreground_or_explicit_activation = True,
      rr_upstream_session_refresh_may_be_required = True\<rparr>"

record ComputerUseSessionEvent =
  ie_kind :: ComputerUseSessionEventKind
  ie_sequence :: u64
  ie_previous :: ComputerUseSessionInputState
  ie_current :: ComputerUseSessionInputState
  ie_resume_requirements :: "ComputerUseInputResumeRequirements option"

datatype ComputerUseSessionTargetEventKind =
  TargetMinimized | TargetRestored | TargetUnavailable | TargetAvailable

record ComputerUseTargetRecoveryRequirements =
  tr_automatic_input :: bool
  tr_explicit_request_required :: bool
  tr_operation :: string
  tr_exact_target_revalidation :: bool
  tr_fresh_observation :: bool
  tr_foreground_validation :: bool
  tr_blind_retry :: bool

definition explicit_restore_activate :: ComputerUseTargetRecoveryRequirements where
  "explicit_restore_activate =
     \<lparr>tr_automatic_input = False, tr_explicit_request_required = True,
      tr_operation = ''restore_activate'', tr_exact_target_revalidation = True,
      tr_fresh_observation = True, tr_foreground_validation = True, tr_blind_retry = False\<rparr>"

record ComputerUseSessionTargetEvent =
  te_kind :: ComputerUseSessionTargetEventKind
  te_sequence :: u64
  te_previous :: ComputerUseSessionTargetState
  te_current :: ComputerUseSessionTargetState
  te_recovery_requirements :: "ComputerUseTargetRecoveryRequirements option"
  te_continuation_requirements :: "ComputerUseInputResumeRequirements option"

datatype ComputerUseSessionEventEnvelope =
    InputEvent ComputerUseSessionEvent
  | TargetEvent ComputerUseSessionTargetEvent

fun env_sequence :: "ComputerUseSessionEventEnvelope \<Rightarrow> u64" where
  "env_sequence (InputEvent event) = ie_sequence event"
| "env_sequence (TargetEvent event) = te_sequence event"

record ComputerUseSessionEventsPage =
  ep_after_sequence :: u64
  ep_latest_sequence :: u64
  ep_oldest_available_sequence :: "u64 option"
  ep_resync_required :: bool
  ep_timed_out :: bool
  ep_current_state :: ComputerUseSessionInputState
  ep_current_target_state :: ComputerUseSessionTargetState
  ep_events :: "ComputerUseSessionEventEnvelope list"

section \<open>The queue (session_events.rs)\<close>

definition observed_at_millis :: "world \<Rightarrow> u64" where
  "observed_at_millis w = (if system_ns w < 0 then 0 else millis_u64 (system_ns w))"

definition MAX_SESSION_INPUT_EVENTS :: nat where
  "MAX_SESSION_INPUT_EVENTS = 64"

record SessionEventQueue =
  input_current :: ComputerUseSessionInputState
  target_current :: ComputerUseSessionTargetState
  queue_events :: "ComputerUseSessionEventEnvelope list"
  latest_sequence :: u64
  restore_activate_available :: bool
  queue_capacity :: nat

definition with_capacity ::
  "ComputerUseInputTarget \<Rightarrow> ComputerUseInputReadiness \<Rightarrow> ComputerUseTargetAvailability \<Rightarrow> bool
   \<Rightarrow> u64 \<Rightarrow> nat \<Rightarrow> SessionEventQueue" where
  "with_capacity target readiness availability restore observed_at capacity =
     \<lparr>input_current = input_state_initial target readiness observed_at,
      target_current = target_state_initial target availability observed_at,
      queue_events = [], latest_sequence = 1, restore_activate_available = restore,
      queue_capacity = max capacity 1\<rparr>"

definition new_with_restore_capability ::
  "ComputerUseInputTarget \<Rightarrow> ComputerUseInputReadiness \<Rightarrow> ComputerUseTargetAvailability \<Rightarrow> bool
   \<Rightarrow> u64 \<Rightarrow> SessionEventQueue" where
  "new_with_restore_capability target readiness availability restore observed_at =
     with_capacity target readiness availability restore observed_at MAX_SESSION_INPUT_EVENTS"

text \<open>\<open>while self.events.len() > self.capacity { self.events.pop_front(); }\<close>\<close>

fun pop_excess :: "nat \<Rightarrow> 'a list \<Rightarrow> 'a list" where
  "pop_excess capacity [] = []"
| "pop_excess capacity (x # xs) =
     (if length (x # xs) > capacity then pop_excess capacity xs else x # xs)"

definition push_event ::
  "ComputerUseSessionEventEnvelope \<Rightarrow> SessionEventQueue \<Rightarrow> SessionEventQueue" where
  "push_event event q =
     q\<lparr>queue_events := pop_excess (queue_capacity q) (queue_events q @ [event])\<rparr>"

definition input_transition ::
  "SessionEventQueue \<Rightarrow> ComputerUseInputReadiness \<Rightarrow> u64 \<Rightarrow> ComputerUseSessionEvent" where
  "input_transition q r observed_at =
     (let previous = input_current q;
          sequence = saturating_add (latest_sequence q) 1;
          current = \<lparr>is_status = ir_status r, is_code = ir_code r, is_reason = ir_reason r,
                     is_observed_at = observed_at, is_sequence = sequence,
                     is_target = is_target previous\<rparr>
      in \<lparr>ie_kind = (if is_status current = Ready then InputResumed else InputSuspended),
          ie_sequence = is_sequence current, ie_previous = previous, ie_current = current,
          ie_resume_requirements =
            (if is_status current = Ready then Some safe_continuation else None)\<rparr>)"

definition observe ::
  "ComputerUseInputReadiness \<Rightarrow> u64 \<Rightarrow> SessionEventQueue
   \<Rightarrow> SessionEventQueue \<times> ComputerUseSessionEvent option" where
  "observe r observed_at q =
     (if is_status (input_current q) = ir_status r then
        (q\<lparr>input_current := (input_current q)
            \<lparr>is_code := ir_code r, is_reason := ir_reason r, is_observed_at := observed_at\<rparr>\<rparr>, None)
      else
        let event = input_transition q r observed_at
        in (push_event (InputEvent event)
              (q\<lparr>input_current := ie_current event, latest_sequence := ie_sequence event\<rparr>),
            Some event))"

fun target_event_kind ::
  "ComputerUseTargetStatus \<Rightarrow> ComputerUseTargetStatus \<Rightarrow> ComputerUseSessionTargetEventKind" where
  "target_event_kind _ Minimized = TargetMinimized"
| "target_event_kind Minimized Available = TargetRestored"
| "target_event_kind _ Available = TargetAvailable"
| "target_event_kind _ Unavailable = TargetUnavailable"

definition target_transition ::
  "SessionEventQueue \<Rightarrow> ComputerUseTargetAvailability \<Rightarrow> u64 \<Rightarrow> ComputerUseSessionTargetEvent" where
  "target_transition q a observed_at =
     (let previous = target_current q;
          sequence = saturating_add (latest_sequence q) 1;
          current = \<lparr>ts_status = ta_status a, ts_code = ta_code a, ts_visible = ta_visible a,
                     ts_minimized = ta_minimized a, ts_foreground = ta_foreground a,
                     ts_observed_at = observed_at, ts_sequence = sequence,
                     ts_target = ts_target previous\<rparr>
      in \<lparr>te_kind = target_event_kind (ts_status previous) (ts_status current),
          te_sequence = sequence, te_previous = previous, te_current = current,
          te_recovery_requirements =
            (if ts_status current = Minimized \<and> restore_activate_available q
             then Some explicit_restore_activate else None),
          te_continuation_requirements =
            (if ts_status current = Available then Some safe_continuation else None)\<rparr>)"

definition observe_target ::
  "ComputerUseTargetAvailability \<Rightarrow> u64 \<Rightarrow> SessionEventQueue
   \<Rightarrow> SessionEventQueue \<times> ComputerUseSessionEventEnvelope option" where
  "observe_target a observed_at q =
     (if ts_status (target_current q) = ta_status a then
        (q\<lparr>target_current := (target_current q)
            \<lparr>ts_code := ta_code a, ts_visible := ta_visible a, ts_minimized := ta_minimized a,
             ts_foreground := ta_foreground a, ts_observed_at := observed_at\<rparr>\<rparr>, None)
      else
        let event = target_transition q a observed_at
        in (push_event (TargetEvent event)
              (q\<lparr>target_current := te_current event, latest_sequence := te_sequence event\<rparr>),
            Some (TargetEvent event)))"

definition refresh_target_availability ::
  "world \<Rightarrow> ComputerUseTargetAvailability \<Rightarrow> SessionEventQueue \<Rightarrow> SessionEventQueue \<times> bool" where
  "refresh_target_availability w a q =
     (let (q', event) = observe_target a (observed_at_millis w) q in (q', event \<noteq> None))"

definition events_after :: "u64 \<Rightarrow> SessionEventQueue \<Rightarrow> ComputerUseSessionEventEnvelope list" where
  "events_after sequence q = filter (\<lambda>event. env_sequence event > sequence) (queue_events q)"

definition page_after :: "u64 \<Rightarrow> bool \<Rightarrow> SessionEventQueue \<Rightarrow> ComputerUseSessionEventsPage" where
  "page_after after timed_out q =
     (let oldest = (case queue_events q of [] \<Rightarrow> None | e # _ \<Rightarrow> Some (env_sequence e));
          resync = (after > latest_sequence q
                    \<or> (case oldest of None \<Rightarrow> False
                       | Some oldest \<Rightarrow> saturating_add after 1 < oldest))
      in \<lparr>ep_after_sequence = after, ep_latest_sequence = latest_sequence q,
          ep_oldest_available_sequence = oldest, ep_resync_required = resync,
          ep_timed_out = (timed_out \<and> \<not> resync),
          ep_current_state = input_current q, ep_current_target_state = target_current q,
          ep_events = events_after after q\<rparr>)"

section \<open>Sample sequences and their specification\<close>

datatype sample =
    InputSample ComputerUseInputReadiness u64
  | TargetSample ComputerUseTargetAvailability u64

fun take_sample ::
  "sample \<Rightarrow> SessionEventQueue \<Rightarrow> SessionEventQueue \<times> ComputerUseSessionEventEnvelope option" where
  "take_sample (InputSample r t) q = map_prod id (map_option InputEvent) (observe r t q)"
| "take_sample (TargetSample a t) q = observe_target a t q"

fun run_samples :: "sample list \<Rightarrow> SessionEventQueue \<Rightarrow> SessionEventQueue" where
  "run_samples [] q = q"
| "run_samples (s # ss) q = run_samples ss (fst (take_sample s q))"

text \<open>The specification: the list of status changes, neither bounded nor sequenced.\<close>

datatype transition =
    InputChange ComputerUseInputStatus
  | TargetChange ComputerUseTargetStatus ComputerUseTargetStatus

fun transitions ::
  "ComputerUseInputStatus \<Rightarrow> ComputerUseTargetStatus \<Rightarrow> sample list \<Rightarrow> transition list" where
  "transitions i t [] = []"
| "transitions i t (InputSample r _ # ss) =
     (if i = ir_status r then [] else [InputChange (ir_status r)]) @ transitions (ir_status r) t ss"
| "transitions i t (TargetSample a _ # ss) =
     (if t = ta_status a then [] else [TargetChange t (ta_status a)]) @ transitions i (ta_status a) ss"

fun event_transition :: "ComputerUseSessionEventEnvelope \<Rightarrow> transition" where
  "event_transition (InputEvent e) = InputChange (is_status (ie_current e))"
| "event_transition (TargetEvent e) =
     TargetChange (ts_status (te_previous e)) (ts_status (te_current e))"

text \<open>
  The refinement relation: the queue retains the newest events of a log whose sequence
  numbers run from two without a gap.
\<close>

definition retains :: "SessionEventQueue \<Rightarrow> ComputerUseSessionEventEnvelope list \<Rightarrow> bool" where
  "retains q log \<longleftrightarrow>
     queue_events q = drop (length log - queue_capacity q) log
     \<and> map (unat \<circ> env_sequence) log = [2..<length log + 2]
     \<and> unat (latest_sequence q) = length log + 1"

section \<open>The shared contract of the observing operations\<close>

lemma pop_excess_drop: "pop_excess c xs = drop (length xs - c) xs"
proof (induction xs)
  case (Cons x xs)
  then show ?case
    by (cases "length xs \<ge> c") (auto simp: Suc_diff_le)
qed simp

lemma drop_drop_append:
  "pop_excess c (drop (length xs - c) xs @ [x]) = drop (length (xs @ [x]) - c) (xs @ [x])"
  by (cases "length xs \<le> c") (auto simp: pop_excess_drop Suc_diff_le not_le)

locale event_source =
  fixes obs :: "'s \<Rightarrow> SessionEventQueue \<Rightarrow> SessionEventQueue \<times> ComputerUseSessionEventEnvelope option"
  assumes quiet: "obs s q = (q', None) \<Longrightarrow>
      queue_events q' = queue_events q \<and> latest_sequence q' = latest_sequence q
      \<and> queue_capacity q' = queue_capacity q"
    and emits: "obs s q = (q', Some e) \<Longrightarrow>
      queue_events q' = pop_excess (queue_capacity q) (queue_events q @ [e])
      \<and> latest_sequence q' = saturating_add (latest_sequence q) 1
      \<and> env_sequence e = latest_sequence q' \<and> queue_capacity q' = queue_capacity q"
begin

lemma capacity_kept: "queue_capacity (fst (obs s q)) = queue_capacity q"
  using quiet [of s q] emits [of s q] by (cases "obs s q"; cases "snd (obs s q)") auto

lemma within_capacity:
  assumes "length (queue_events q) \<le> queue_capacity q"
  shows "length (queue_events (fst (obs s q))) \<le> queue_capacity q"
  using assms quiet [of s q] emits [of s q]
  by (cases "obs s q"; cases "snd (obs s q)") (auto simp: pop_excess_drop)

lemma retains_log:
  assumes "retains q log" and room: "length log + 2 < 2 ^ 64"
  shows "retains (fst (obs s q)) (log @ (case snd (obs s q) of None \<Rightarrow> [] | Some e \<Rightarrow> [e]))"
proof (cases "snd (obs s q)")
  case None
  then have "obs s q = (fst (obs s q), None)" by (simp add: prod_eq_iff)
  from quiet [OF this] assms None show ?thesis by (simp add: retains_def)
next
  case (Some e)
  then have "obs s q = (fst (obs s q), Some e)" by (simp add: prod_eq_iff)
  note e = emits [OF this]
  have "unat (saturating_add (latest_sequence q) 1) = length log + 2"
    using assms by (simp add: unat_saturating_add retains_def)
  with e assms Some show ?thesis
    by (simp add: retains_def drop_drop_append [unfolded length_append, simplified])
qed

end

lemma observe_quiet_or_emits:
  "take_sample (InputSample r t) q =
     (if is_status (input_current q) = ir_status r then
        (q\<lparr>input_current := (input_current q)
            \<lparr>is_code := ir_code r, is_reason := ir_reason r, is_observed_at := t\<rparr>\<rparr>, None)
      else (push_event (InputEvent (input_transition q r t))
              (q\<lparr>input_current := ie_current (input_transition q r t),
                 latest_sequence := ie_sequence (input_transition q r t)\<rparr>),
            Some (InputEvent (input_transition q r t))))"
  by (simp add: observe_def Let_def)

interpretation input_source: event_source "\<lambda>(r, t). take_sample (InputSample r t)"
  by unfold_locales
     (auto simp: observe_quiet_or_emits push_event_def input_transition_def Let_def
       simp del: take_sample.simps split: if_splits)

interpretation target_source: event_source "\<lambda>(a, t). take_sample (TargetSample a t)"
  by unfold_locales
     (auto simp: observe_target_def push_event_def target_transition_def Let_def split: if_splits)

interpretation sample_source: event_source take_sample
proof
  fix s q q' and e :: ComputerUseSessionEventEnvelope
  show "take_sample s q = (q', None) \<Longrightarrow> queue_events q' = queue_events q
      \<and> latest_sequence q' = latest_sequence q \<and> queue_capacity q' = queue_capacity q"
    using input_source.quiet [of "(_, _)" q q'] target_source.quiet [of "(_, _)" q q']
    by (cases s) auto
  show "take_sample s q = (q', Some e) \<Longrightarrow>
      queue_events q' = pop_excess (queue_capacity q) (queue_events q @ [e])
      \<and> latest_sequence q' = saturating_add (latest_sequence q) 1
      \<and> env_sequence e = latest_sequence q' \<and> queue_capacity q' = queue_capacity q"
    using input_source.emits [of "(_, _)" q q' e] target_source.emits [of "(_, _)" q q' e]
    by (cases s) auto
qed

section \<open>Refinement\<close>

lemma take_sample_transitions:
  "transitions (is_status (input_current q)) (ts_status (target_current q)) (s # ss) =
     (case snd (take_sample s q) of None \<Rightarrow> [] | Some e \<Rightarrow> [event_transition e])
     @ transitions (is_status (input_current (fst (take_sample s q))))
         (ts_status (target_current (fst (take_sample s q)))) ss"
  by (cases s) (auto simp: observe_def observe_target_def push_event_def input_transition_def
      target_transition_def Let_def)

lemma run_samples_retains:
  assumes "retains q log" and "length log + length ss + 2 \<le> 2 ^ 64"
  shows "\<exists>log'. retains (run_samples ss q) (log @ log')
    \<and> map event_transition log' =
        transitions (is_status (input_current q)) (ts_status (target_current q)) ss
    \<and> queue_capacity (run_samples ss q) = queue_capacity q"
  using assms
proof (induction ss arbitrary: q log)
  case (Cons s ss)
  define es where "es = (case snd (take_sample s q) of None \<Rightarrow> [] | Some e \<Rightarrow> [e])"
  have es: "length es \<le> 1" by (simp add: es_def split: option.split)
  have "retains (fst (take_sample s q)) (log @ es)"
    unfolding es_def by (rule sample_source.retains_log) (use Cons.prems in simp_all)
  from Cons.IH [OF this] Cons.prems es obtain log' where
    "retains (run_samples ss (fst (take_sample s q))) ((log @ es) @ log')"
    "map event_transition log' = transitions (is_status (input_current (fst (take_sample s q))))
       (ts_status (target_current (fst (take_sample s q)))) ss"
    "queue_capacity (run_samples ss (fst (take_sample s q))) = queue_capacity q"
    by (auto simp: sample_source.capacity_kept)
  then show ?case
    by (intro exI [of _ "es @ log'"])
       (simp add: take_sample_transitions es_def split: option.split)
qed (auto intro: exI [of _ "[]"])

lemma retains_new: "retains (new_with_restore_capability target r a restore t) []"
  by (simp add: retains_def new_with_restore_capability_def with_capacity_def)

lemma new_queue [simp]:
  "is_status (input_current (new_with_restore_capability target r a restore t)) = ir_status r"
  "ts_status (target_current (new_with_restore_capability target r a restore t)) = ta_status a"
  "queue_capacity (new_with_restore_capability target r a restore t) = 64"
  "restore_activate_available (new_with_restore_capability target r a restore t) = restore"
  "is_target (input_current (new_with_restore_capability target r a restore t)) = target"
  "ts_target (target_current (new_with_restore_capability target r a restore t)) = target"
  "queue_events (new_with_restore_capability target r a restore t) = []"
  by (simp_all add: new_with_restore_capability_def with_capacity_def input_state_initial_def
      target_state_initial_def MAX_SESSION_INPUT_EVENTS_def)

lemma run_new_retains:
  assumes "length ss + 2 \<le> 2 ^ 64"
  obtains log where
    "retains (run_samples ss (new_with_restore_capability target r a restore t)) log"
    "map event_transition log = transitions (ir_status r) (ta_status a) ss"
    "queue_capacity (run_samples ss (new_with_restore_capability target r a restore t)) = 64"
  using run_samples_retains [OF retains_new [of target r a restore t], of ss] assms by auto

lemma filter_sequence_drop:
  assumes "map (unat \<circ> env_sequence) log = [m..<m + length log]"
  shows "filter (\<lambda>e. env_sequence e > after) log = drop (Suc (unat after) - m) log"
  using assms
proof (induction log arbitrary: m)
  case (Cons e log)
  have "[m..<m + length (e # log)] = m # [Suc m..<Suc m + length log]"
    by (simp add: upt_conv_Cons del: upt_Suc)
  with Cons.prems have "(unat \<circ> env_sequence) e # map (unat \<circ> env_sequence) log
      = m # [Suc m..<Suc m + length log]" by (simp only: list.map)
  then have e: "unat (env_sequence e) = m"
    and log: "map (unat \<circ> env_sequence) log = [Suc m..<Suc m + length log]"
    by (simp_all only: list.inject comp_apply)
  show ?case
  proof (cases "unat after < m")
    case True
    with Cons.IH [OF log] e show ?thesis by (simp add: word_less_nat_alt)
  next
    case False
    then have "Suc (unat after) - m = Suc (Suc (unat after) - Suc m)" by linarith
    with Cons.IH [OF log] e False show ?thesis by (simp add: word_less_nat_alt)
  qed
qed simp

lemma retains_sequences:
  assumes "retains q log"
  shows "map (unat \<circ> env_sequence) (queue_events q) =
    [2 + (length log - queue_capacity q)..<length log + 2]"
proof -
  have "map (unat \<circ> env_sequence) (queue_events q) =
      drop (length log - queue_capacity q) [2..<length log + 2]"
    using assms by (simp add: retains_def flip: drop_map del: upt_Suc)
  then show ?thesis by (simp only: drop_upt)
qed

lemma retains_events_after:
  assumes "retains q log"
  shows "events_after after q = drop (max (unat after - 1) (length log - queue_capacity q)) log"
proof -
  define k where "k = length log - queue_capacity q"
  have ev: "queue_events q = drop k log" using assms by (simp add: retains_def k_def)
  have "map (unat \<circ> env_sequence) (drop k log) = [2 + k..<2 + k + length (drop k log)]"
    using retains_sequences [OF assms] by (simp add: ev k_def add.commute)
  from filter_sequence_drop [OF this, of after]
  have "events_after after q = drop (Suc (unat after) - (2 + k)) (drop k log)"
    by (simp add: events_after_def ev)
  moreover have "Suc (unat after) - (2 + k) + k = max (unat after - 1) k" by linarith
  ultimately show ?thesis by (simp add: k_def)
qed

lemma retains_oldest:
  assumes "retains q log" and "0 < queue_capacity q" and "log \<noteq> []"
  shows "\<exists>e es. queue_events q = e # es
    \<and> unat (env_sequence e) = 2 + (length log - queue_capacity q)"
proof -
  have "length log - queue_capacity q < length log" using assms by (cases log) auto
  then have "[2 + (length log - queue_capacity q)..<length log + 2] =
     (2 + (length log - queue_capacity q))
       # [Suc (2 + (length log - queue_capacity q))..<length log + 2]"
    by (subst upt_rec) simp
  with retains_sequences [OF assms(1)] show ?thesis by (cases "queue_events q") auto
qed

lemma retains_resync:
  assumes ret: "retains q log" and cap: "queue_capacity q = 64"
  shows "ep_resync_required (page_after after timed_out q) \<longleftrightarrow>
    length log + 1 < unat after
    \<or> log \<noteq> [] \<and> (unat after = 0 \<or> 64 < length (drop (unat after - 1) log))"
proof (cases "log = []")
  case True
  with ret show ?thesis by (simp add: page_after_def retains_def Let_def word_less_nat_alt)
next
  case False
  from retains_oldest [OF ret _ False] cap obtain e es where
    e: "queue_events q = e # es" "unat (env_sequence e) = 2 + (length log - 64)" by auto
  have latest: "unat (latest_sequence q) = length log + 1" using ret by (simp add: retains_def)
  have "unat (latest_sequence q) < 2 ^ LENGTH(64)" by (rule unsigned_less)
  then have "length log + 1 < 2 ^ 64" using latest by simp
  with e latest False show ?thesis
    by (auto simp: page_after_def Let_def word_less_nat_alt unat_saturating_add)
qed

section \<open>Properties of the event stream\<close>

text \<open>
  C23. The event stream refines the unbounded list of status changes. After any sequence of
  fewer than \<open>2^64 - 1\<close> samples the queue holds exactly the newest 64 changes of the list, in
  order, with consecutive sequence numbers of which the last is \<open>latest_sequence\<close>; nothing is
  duplicated, reordered or skipped, and the two observing operations share one numbering.
\<close>
theorem event_stream_refines_transitions:
  assumes "length ss + 2 \<le> 2 ^ 64"
    and "q = run_samples ss (new_with_restore_capability target r a restore t)"
    and "changes = transitions (ir_status r) (ta_status a) ss"
  shows "(map event_transition (queue_events q) = drop (length changes - 64) changes)
    \<and> (map (unat \<circ> env_sequence) (queue_events q) =
      [length changes - 64 + 2..<length changes + 2])
    \<and> (unat (latest_sequence q) = length changes + 1)"
proof (rule conjI [OF _ conjI [OF _ _]])
  from run_new_retains [OF assms(1), of target r a restore t] assms(2) obtain log where
    log: "retains q log" "map event_transition log = changes" "queue_capacity q = 64"
    by (auto simp: assms(3))
  then have len: "length log = length changes" by (metis length_map)
  show "map event_transition (queue_events q) = drop (length changes - 64) changes"
    using log len by (auto simp: retains_def drop_map)
  show "map (unat \<circ> env_sequence) (queue_events q) = [length changes - 64 + 2..<length changes + 2]"
    using retains_sequences [OF log(1)] log(3) len by (simp add: add.commute)
  show "unat (latest_sequence q) = length changes + 1" using log len by (simp add: retains_def)
qed

text \<open>
  C24. A page is complete or says so. For a cursor \<open>after\<close> the page holds the status changes
  after the cursor that are still retained, and \<open>resync_required\<close> is raised exactly when the
  cursor is ahead of the stream, when more than the 64 retained changes follow the cursor, or
  when the cursor is zero and something happened; a page without it holds every change after
  the cursor.
\<close>
theorem page_complete_or_resync:
  assumes "length ss + 2 \<le> 2 ^ 64"
    and "page = page_after after timed_out
      (run_samples ss (new_with_restore_capability target r a restore t))"
    and "changes = transitions (ir_status r) (ta_status a) ss"
  shows "(map event_transition (ep_events page) =
      drop (max (unat after - 1) (length changes - 64)) changes)
    \<and> (ep_resync_required page \<longleftrightarrow> length changes + 1 < unat after
      \<or> changes \<noteq> [] \<and> (unat after = 0 \<or> 64 < length (drop (unat after - 1) changes)))
    \<and> (\<not> ep_resync_required page \<longrightarrow> (map event_transition (ep_events page) = drop (unat after - 1) changes))"
proof (rule conjI [OF _ conjI [OF _ impI]])
  define q where "q = run_samples ss (new_with_restore_capability target r a restore t)"
  from run_new_retains [OF assms(1), of target r a restore t] obtain log where
    log: "retains q log" "map event_transition log = changes" "queue_capacity q = 64"
    by (auto simp: assms(3) q_def)
  then have len: "length log = length changes" and nil: "log = [] \<longleftrightarrow> changes = []"
    by (auto simp flip: log(2))
  have "ep_events page = drop (max (unat after - 1) (length changes - 64)) log"
    using retains_events_after [OF log(1), of after] log(3) len
    by (simp add: assms(2) q_def [symmetric] page_after_def Let_def)
  then show 1: "map event_transition (ep_events page) =
      drop (max (unat after - 1) (length changes - 64)) changes"
    using log(2) by (metis drop_map)
  show 2: "ep_resync_required page \<longleftrightarrow> length changes + 1 < unat after
      \<or> changes \<noteq> [] \<and> (unat after = 0 \<or> 64 < length (drop (unat after - 1) changes))"
    using retains_resync [OF log(1,3), of after timed_out] len nil
    by (simp add: assms(2) q_def [symmetric])
  show "map event_transition (ep_events page) = drop (unat after - 1) changes"
    if resync: "\<not> ep_resync_required page"
  proof (cases "changes = []")
    case False
    with 2 resync have "\<not> 64 < length (drop (unat after - 1) changes)" by blast
    then have "max (unat after - 1) (length changes - 64) = unat after - 1" by simp
    with 1 show ?thesis by simp
  qed (use 1 in simp)
qed

text \<open>A session whose ready, visible target is minimized before the desktop is suspended.\<close>

definition example_ready :: ComputerUseInputReadiness where
  "example_ready =
     from_diagnostic (JObj [(''success'', JBool True), (''input_ready'', JBool True)])"

definition example_visible :: ComputerUseTargetAvailability where
  "example_visible = from_window_state (JObj [(''is_on_screen'', JBool True)])"

definition example_samples :: "sample list" where
  "example_samples =
     [TargetSample (from_window_state (JObj [(''is_minimized'', JBool True)])) 5,
      TargetSample (from_window_state (JObj [(''minimized'', JBool True)])) 6,
      InputSample (from_diagnostic JNull) 7]"

definition example_input_target :: ComputerUseInputTarget where
  "example_input_target = \<lparr>it_session_id = ''s'', it_process_id = 4, it_window_handle = 9\<rparr>"

definition example_queue :: SessionEventQueue where
  "example_queue = run_samples example_samples
     (new_with_restore_capability example_input_target example_ready example_visible True 1)"

lemma example_transitions:
  "length example_samples + 2 \<le> 2 ^ 64"
  "transitions (ir_status example_ready) (ta_status example_visible) example_samples
     = [TargetChange Available Minimized, InputChange Suspended]"
  by (simp_all add: example_samples_def example_ready_def example_visible_def from_window_state_def
      from_diagnostic_def flag_of_def or_else_def unwrap_or_def json_index_def Let_def)

theorem event_stream_refines_transitions_witness:
  "map event_transition (queue_events example_queue)
     = [TargetChange Available Minimized, InputChange Suspended]
   \<and> map (unat \<circ> env_sequence) (queue_events example_queue) = [2, 3]"
  using event_stream_refines_transitions [OF example_transitions(1) example_queue_def refl]
  by (simp add: example_transitions(2))

theorem page_complete_or_resync_witness:
  "map event_transition (ep_events (page_after 2 False example_queue)) = [InputChange Suspended]
   \<and> \<not> ep_resync_required (page_after 2 False example_queue)"
  using page_complete_or_resync [OF example_transitions(1) refl refl, of 2 False
      example_input_target example_ready example_visible True 1]
  by (simp add: example_transitions(2) example_queue_def)

section \<open>The contract of a single event\<close>

definition input_event_ok :: "ComputerUseInputTarget \<Rightarrow> ComputerUseSessionEvent \<Rightarrow> bool" where
  "input_event_ok target e \<longleftrightarrow>
     is_status (ie_previous e) \<noteq> is_status (ie_current e)
     \<and> is_target (ie_previous e) = target \<and> is_target (ie_current e) = target
     \<and> is_sequence (ie_current e) = ie_sequence e
     \<and> ie_resume_requirements e =
         (if ie_kind e = InputResumed then Some safe_continuation else None)
     \<and> (ie_kind e = InputResumed \<longleftrightarrow> is_status (ie_current e) = Ready)"

definition target_event_ok ::
  "ComputerUseInputTarget \<Rightarrow> bool \<Rightarrow> ComputerUseSessionTargetEvent \<Rightarrow> bool" where
  "target_event_ok target restore e \<longleftrightarrow>
     ts_status (te_previous e) \<noteq> ts_status (te_current e)
     \<and> ts_target (te_previous e) = target \<and> ts_target (te_current e) = target
     \<and> ts_sequence (te_current e) = te_sequence e
     \<and> te_kind e = target_event_kind (ts_status (te_previous e)) (ts_status (te_current e))
     \<and> te_recovery_requirements e =
         (if te_kind e = TargetMinimized \<and> restore then Some explicit_restore_activate else None)
     \<and> te_continuation_requirements e =
         (if te_kind e \<in> {TargetRestored, TargetAvailable} then Some safe_continuation else None)"

fun event_ok :: "ComputerUseInputTarget \<Rightarrow> bool \<Rightarrow> ComputerUseSessionEventEnvelope \<Rightarrow> bool" where
  "event_ok target restore (InputEvent e) = input_event_ok target e"
| "event_ok target restore (TargetEvent e) = target_event_ok target restore e"

definition stream_wf :: "ComputerUseInputTarget \<Rightarrow> bool \<Rightarrow> SessionEventQueue \<Rightarrow> bool" where
  "stream_wf target restore q \<longleftrightarrow>
     length (queue_events q) \<le> queue_capacity q \<and> restore_activate_available q = restore
     \<and> is_target (input_current q) = target \<and> ts_target (target_current q) = target
     \<and> (\<forall>e \<in> set (queue_events q). event_ok target restore e)"

lemma target_event_kind_iff [simp]:
  "target_event_kind p c = TargetMinimized \<longleftrightarrow> c = Minimized"
  "target_event_kind p c = TargetUnavailable \<longleftrightarrow> c = Unavailable"
  "target_event_kind p c = TargetRestored \<or> target_event_kind p c = TargetAvailable
     \<longleftrightarrow> c = Available"
  by (cases p; cases c; simp)+

lemma set_pop_excess: "set (pop_excess c xs) \<subseteq> set xs"
  by (simp add: pop_excess_drop set_drop_subset)

lemma stream_wf_push:
  assumes "stream_wf target restore q" and "event_ok target restore e"
  shows "stream_wf target restore (push_event e q)"
  using assms set_pop_excess [of "queue_capacity q" "queue_events q @ [e]"]
  by (auto simp: stream_wf_def push_event_def pop_excess_drop)

lemma stream_wf_take_sample:
  assumes wf: "stream_wf target restore q"
  shows "stream_wf target restore (fst (take_sample s q))"
proof (cases s)
  case (InputSample r t)
  show ?thesis
  proof (cases "is_status (input_current q) = ir_status r")
    case True
    with wf InputSample show ?thesis by (simp add: observe_def stream_wf_def)
  next
    case False
    define e where "e = input_transition q r t"
    have "input_event_ok target e"
      using wf False by (simp add: e_def input_event_ok_def input_transition_def stream_wf_def Let_def)
    moreover have "stream_wf target restore
        (q\<lparr>input_current := ie_current e, latest_sequence := ie_sequence e\<rparr>)"
      using wf by (simp add: e_def stream_wf_def input_transition_def Let_def)
    ultimately show ?thesis
      using InputSample False by (simp add: observe_def e_def [symmetric] stream_wf_push)
  qed
next
  case (TargetSample a t)
  show ?thesis
  proof (cases "ts_status (target_current q) = ta_status a")
    case True
    with wf TargetSample show ?thesis by (simp add: observe_target_def stream_wf_def)
  next
    case False
    define e where "e = target_transition q a t"
    have "target_event_ok target restore e"
      using wf False
      by (auto simp: e_def target_event_ok_def target_transition_def stream_wf_def Let_def)
    moreover have "stream_wf target restore
        (q\<lparr>target_current := te_current e, latest_sequence := te_sequence e\<rparr>)"
      using wf by (simp add: e_def stream_wf_def target_transition_def Let_def)
    ultimately show ?thesis
      using TargetSample False by (simp add: observe_target_def e_def [symmetric] stream_wf_push)
  qed
qed

lemma stream_wf_run: "stream_wf target restore q \<Longrightarrow> stream_wf target restore (run_samples ss q)"
  by (induction ss arbitrary: q) (simp_all add: stream_wf_take_sample)

lemma run_samples_capacity: "queue_capacity (run_samples ss q) = queue_capacity q"
  by (induction ss arbitrary: q) (simp_all add: sample_source.capacity_kept)

text \<open>
  Every event a session ever retains is safe to act on: whatever samples arrive and
  however many, at most 64 events are kept, each records a real status change of the exact
  session target, a resumed input or an available target demands revalidation and a fresh
  observation and never automatic input, and the explicit restore operation is advertised
  only for a minimized target on a Host that can restore it.
\<close>
theorem session_event_contract:
  fixes target readiness availability restore observed_at ss
  defines "q \<equiv> run_samples ss
    (new_with_restore_capability target readiness availability restore observed_at)"
  shows "(length (queue_events q) \<le> 64)
    \<and> (InputEvent e \<in> set (queue_events q) \<longrightarrow> (is_status (ie_previous e) \<noteq> is_status (ie_current e) \<and> is_target (ie_current e) = target
      \<and> (ie_kind e = InputResumed \<longleftrightarrow> is_status (ie_current e) = Ready)
      \<and> (\<forall>req. ie_resume_requirements e = Some req \<longrightarrow> \<not> rr_automatic_input req
           \<and> rr_exact_target_revalidation req \<and> rr_fresh_observation req)
      \<and> (ie_kind e = InputResumed \<longrightarrow> ie_resume_requirements e \<noteq> None)))
    \<and> (TargetEvent f \<in> set (queue_events q) \<longrightarrow> (ts_status (te_previous f) \<noteq> ts_status (te_current f) \<and> ts_target (te_current f) = target
      \<and> (te_recovery_requirements f \<noteq> None \<longleftrightarrow> ts_status (te_current f) = Minimized \<and> restore)
      \<and> (te_continuation_requirements f \<noteq> None \<longleftrightarrow> ts_status (te_current f) = Available)
      \<and> (\<forall>req. te_recovery_requirements f = Some req \<longrightarrow>
           tr_explicit_request_required req \<and> \<not> tr_automatic_input req \<and> \<not> tr_blind_retry req)))"
proof (rule conjI [OF _ conjI [OF impI impI]])
  have "stream_wf target restore
      (new_with_restore_capability target readiness availability restore observed_at)"
    by (simp add: stream_wf_def)
  then have wf: "stream_wf target restore q" unfolding q_def by (rule stream_wf_run)
  have cap: "queue_capacity q = 64" by (simp add: q_def run_samples_capacity)
  show "length (queue_events q) \<le> 64" using wf cap by (simp add: stream_wf_def)
  show "is_status (ie_previous e) \<noteq> is_status (ie_current e) \<and> is_target (ie_current e) = target
      \<and> (ie_kind e = InputResumed \<longleftrightarrow> is_status (ie_current e) = Ready)
      \<and> (\<forall>req. ie_resume_requirements e = Some req \<longrightarrow> \<not> rr_automatic_input req
           \<and> rr_exact_target_revalidation req \<and> rr_fresh_observation req)
      \<and> (ie_kind e = InputResumed \<longrightarrow> ie_resume_requirements e \<noteq> None)"
    if mem: "InputEvent e \<in> set (queue_events q)"
  proof -
    from wf mem have "input_event_ok target e" by (fastforce simp: stream_wf_def)
    then show ?thesis by (auto simp: input_event_ok_def safe_continuation_def split: if_splits)
  qed
  show "ts_status (te_previous f) \<noteq> ts_status (te_current f) \<and> ts_target (te_current f) = target
      \<and> (te_recovery_requirements f \<noteq> None \<longleftrightarrow> ts_status (te_current f) = Minimized \<and> restore)
      \<and> (te_continuation_requirements f \<noteq> None \<longleftrightarrow> ts_status (te_current f) = Available)
      \<and> (\<forall>req. te_recovery_requirements f = Some req \<longrightarrow>
           tr_explicit_request_required req \<and> \<not> tr_automatic_input req \<and> \<not> tr_blind_retry req)"
    if mem: "TargetEvent f \<in> set (queue_events q)"
  proof -
    from wf mem have "target_event_ok target restore f" by (fastforce simp: stream_wf_def)
    then show ?thesis
      by (auto simp: target_event_ok_def explicit_restore_activate_def split: if_splits)
  qed
qed

lemma example_queue_events:
  "length (queue_events example_queue) = 2"
  "\<exists>e. TargetEvent e = queue_events example_queue ! 0"
proof -
  have ev: "map event_transition (queue_events example_queue)
      = [TargetChange Available Minimized, InputChange Suspended]"
    by (simp add: example_queue_def example_samples_def example_ready_def example_visible_def
        from_window_state_def from_diagnostic_def flag_of_def or_else_def unwrap_or_def
        json_index_def new_with_restore_capability_def with_capacity_def observe_def
        observe_target_def push_event_def input_transition_def target_transition_def
        input_state_initial_def target_state_initial_def MAX_SESSION_INPUT_EVENTS_def Let_def)
  then show len: "length (queue_events example_queue) = 2"
    by (metis length_Cons length_map list.size(3) One_nat_def Suc_1)
  from ev have "event_transition (queue_events example_queue ! 0) = TargetChange Available Minimized"
    by (metis len nth_Cons_0 nth_map zero_less_numeral)
  then show "\<exists>e. TargetEvent e = queue_events example_queue ! 0"
    by (cases "queue_events example_queue ! 0") auto
qed

theorem session_event_contract_witness:
  "\<exists>f. TargetEvent f \<in> set (queue_events example_queue)
     \<and> (te_recovery_requirements f \<noteq> None \<longleftrightarrow> ts_status (te_current f) = Minimized)"
proof -
  from example_queue_events obtain f where "TargetEvent f = queue_events example_queue ! 0" by auto
  with example_queue_events(1) have mem: "TargetEvent f \<in> set (queue_events example_queue)"
    by (metis nth_mem zero_less_numeral)
  with session_event_contract [THEN conjunct2, THEN conjunct2, THEN mp, OF mem [unfolded example_queue_def]] show ?thesis by auto
qed

end
