(* ===== verification/Request_Payloads.thy ===== *)
theory Request_Payloads
  imports Session_Events Task_Authorization
begin

text \<open>
  The payloads of Host requests and the checks they carry: target scopes, window queries,
  frames, menus and live observations (\<open>dcc-cua-core/src/contracts.rs\<close>), the browser requests
  (\<open>dcc-cua-browser/src/lib.rs\<close>), secret handles (\<open>dcc-cua-protocol/src/lib.rs\<close>) and the begin
  request of a capture preparation (\<open>dcc-cua-protocol/src/capture_preparation.rs\<close>).

  An \<open>f64\<close> is its IEEE 754 bit pattern and an \<open>i32\<close> its two's complement word.
  \<open>ComputerUseResult\<close> fails with a code and a message.
\<close>

type_synonym f64 = u64
type_synonym i32 = "32 word"
type_synonym 'a ComputerUseResult = "ComputerUseErrorCode \<times> string + 'a"

definition to_host_error :: "'a ComputerUseResult \<Rightarrow> HostError + 'a" where
  "to_host_error r = map_err (\<lambda>(code, message). ComputerUse code message) r"

definition is_some_and :: "'a option \<Rightarrow> ('a \<Rightarrow> bool) \<Rightarrow> bool" where
  "is_some_and a p \<longleftrightarrow> (case a of Some x \<Rightarrow> p x | None \<Rightarrow> False)"

definition is_none_or :: "'a option \<Rightarrow> ('a \<Rightarrow> bool) \<Rightarrow> bool" where
  "is_none_or a p \<longleftrightarrow> (case a of Some x \<Rightarrow> p x | None \<Rightarrow> True)"

lemma is_some_and_simps [simp]:
  "is_some_and (Some x) p = p x" "\<not> is_some_and None p"
  "is_none_or (Some x) p = p x" "is_none_or None p"
  by (simp_all add: is_some_and_def is_none_or_def)

lemma is_some_and_iff: "is_some_and a p \<longleftrightarrow> (\<exists>x. a = Some x \<and> p x)"
  by (cases a) auto

text \<open>\<open>f64::is_finite\<close> and \<open>x < 1.0\<close> for a finite \<open>x\<close>.\<close>

definition f64_is_finite :: "f64 \<Rightarrow> bool" where
  "f64_is_finite x \<longleftrightarrow> unat x div 2 ^ 52 mod 2 ^ 11 \<noteq> 2047"

definition f64_lt_one :: "f64 \<Rightarrow> bool" where
  "f64_lt_one x \<longleftrightarrow> 2 ^ 63 \<le> unat x \<or> unat x < 1023 * 2 ^ 52"

section \<open>Targets and windows (contracts.rs)\<close>

definition MAX_WINDOW_QUERY_CHARS :: nat where "MAX_WINDOW_QUERY_CHARS = 512"
definition MAX_WINDOW_WAIT_TIMEOUT_MS :: u64 where "MAX_WINDOW_WAIT_TIMEOUT_MS = 30000"
definition MAX_WINDOW_WAIT_INTERVAL_MS :: u64 where "MAX_WINDOW_WAIT_INTERVAL_MS = 1000"
definition MAX_MENU_PATH_SEGMENTS :: nat where "MAX_MENU_PATH_SEGMENTS = 16"
definition MAX_MENU_PATH_SEGMENT_CHARS :: nat where "MAX_MENU_PATH_SEGMENT_CHARS = 200"
definition MAX_LIVE_OBSERVATION_FPS :: u32 where "MAX_LIVE_OBSERVATION_FPS = 30"
definition MIN_LIVE_OBSERVATION_MAX_DIMENSION :: u32 where
  "MIN_LIVE_OBSERVATION_MAX_DIMENSION = 256"
definition MAX_LIVE_OBSERVATION_MAX_DIMENSION :: u32 where
  "MAX_LIVE_OBSERVATION_MAX_DIMENSION = 4096"
definition DEFAULT_LIVE_OBSERVATION_FPS :: u32 where "DEFAULT_LIVE_OBSERVATION_FPS = 10"
definition DEFAULT_LIVE_OBSERVATION_MAX_DIMENSION :: u32 where
  "DEFAULT_LIVE_OBSERVATION_MAX_DIMENSION = 1568"

lemmas payload_limits = MAX_WINDOW_QUERY_CHARS_def MAX_WINDOW_WAIT_TIMEOUT_MS_def
  MAX_WINDOW_WAIT_INTERVAL_MS_def MAX_MENU_PATH_SEGMENTS_def MAX_MENU_PATH_SEGMENT_CHARS_def
  MAX_LIVE_OBSERVATION_FPS_def MIN_LIVE_OBSERVATION_MAX_DIMENSION_def
  MAX_LIVE_OBSERVATION_MAX_DIMENSION_def DEFAULT_LIVE_OBSERVATION_FPS_def
  DEFAULT_LIVE_OBSERVATION_MAX_DIMENSION_def

record ComputerUseTargetScope =
  sp_process_id :: "u32 option"
  sp_window_handle :: "u64 option"
  sp_window_title :: "string option"

definition target_scope_validate :: "ComputerUseTargetScope \<Rightarrow> unit ComputerUseResult" where
  "target_scope_validate s =
     (if sp_process_id s = None \<and> sp_window_handle s = None \<and> sp_window_title s = None
      then Inl (MissingWindow,
        ''Computer Use requires an exact process_id, window_handle, or window_title'')
      else if is_some_and (sp_window_title s)
          (\<lambda>title. title = [] \<or> char_count title > MAX_WINDOW_QUERY_CHARS)
      then Inl (InvalidTarget, ''window_title must contain 1..512 characters'')
      else Inr ())"

datatype IndicatorMotionPolicy = Auto | Reduce | Animate

record ComputerUseSessionStartRequest =
  sr_activate_before :: bool
  sr_indicator_motion :: IndicatorMotionPolicy

definition validate_for_scope ::
  "ComputerUseSessionStartRequest \<Rightarrow> ComputerUseTargetScope \<Rightarrow> unit ComputerUseResult" where
  "validate_for_scope r scope =
     guard (sr_activate_before r \<and> (sp_process_id scope = None \<or> sp_window_handle scope = None))
       (InvalidTarget, ''activate_before requires an exact process_id and window_handle'')"

record ComputerUseWindowQuery =
  wq_app :: "string option"
  wq_process_id :: "u32 option"
  wq_window_handle :: "u64 option"
  wq_window_title :: "string option"
  wq_on_screen_only :: bool

definition validate_selectors :: "ComputerUseWindowQuery \<Rightarrow> unit ComputerUseResult" where
  "validate_selectors q =
     (if is_some_and (wq_app q) (\<lambda>v. v = []) \<or> is_some_and (wq_window_title q) (\<lambda>v. v = [])
      then Inl (InvalidTarget, ''window query selectors cannot be empty'')
      else all_ok (\<lambda>(name, value).
          guard (is_some_and value (\<lambda>v. char_count v > MAX_WINDOW_QUERY_CHARS))
            (InvalidTarget, name @ '' exceeds 512 characters''))
        [(''app'', wq_app q), (''window_title'', wq_window_title q)])"

definition window_query_validate :: "ComputerUseWindowQuery \<Rightarrow> unit ComputerUseResult" where
  "window_query_validate q =
     and_then (validate_selectors q) (\<lambda>_.
       guard (wq_app q = None \<and> wq_process_id q = None \<and> wq_window_handle q = None
              \<and> wq_window_title q = None)
         (MissingWindow, ''window query requires app, process_id, window_handle, or window_title''))"

definition matches_window :: "ComputerUseWindowQuery \<Rightarrow> json \<Rightarrow> bool" where
  "matches_window q window \<longleftrightarrow>
     is_none_or (wq_app q) (\<lambda>app.
       is_some_and (as_str (json_index window ''app_name'')) (\<lambda>name. eq_ignore_ascii_case name app))
     \<and> is_none_or (wq_process_id q) (\<lambda>pid. json_index window ''pid'' = json_u32 pid)
     \<and> is_none_or (wq_window_handle q) (\<lambda>handle. json_index window ''window_id'' = json_u64 handle)
     \<and> is_none_or (wq_window_title q) (\<lambda>title. as_str (json_index window ''title'') = Some title)"

record ComputerUseWindowWaitRequest =
  ww_query :: ComputerUseWindowQuery
  ww_timeout_ms :: "u64 option"
  ww_interval_ms :: "u64 option"

definition clamp :: "'a::linorder \<Rightarrow> 'a \<Rightarrow> 'a \<Rightarrow> 'a" where
  "clamp x lo hi = (if x < lo then lo else if x > hi then hi else x)"

definition window_wait_limits :: "ComputerUseWindowWaitRequest \<Rightarrow> (u64 \<times> u64) ComputerUseResult" where
  "window_wait_limits r =
     and_then (window_query_validate (ww_query r)) (\<lambda>_.
       Inr (min (unwrap_or (ww_timeout_ms r) 5000) MAX_WINDOW_WAIT_TIMEOUT_MS,
            clamp (unwrap_or (ww_interval_ms r) 100) 10 MAX_WINDOW_WAIT_INTERVAL_MS))"

record ComputerUseWindowFrameRequest =
  wf_x :: f64
  wf_y :: f64
  wf_width :: f64
  wf_height :: f64

definition window_frame_validate :: "ComputerUseWindowFrameRequest \<Rightarrow> unit ComputerUseResult" where
  "window_frame_validate r =
     guard (\<not> list_all f64_is_finite [wf_x r, wf_y r, wf_width r, wf_height r]
            \<or> f64_lt_one (wf_width r) \<or> f64_lt_one (wf_height r))
       (InvalidAction,
        ''window frame coordinates must be finite and dimensions must be at least 1'')"

record ComputerUseMenuRequest =
  mr_path :: "string list"

definition menu_validate :: "ComputerUseMenuRequest \<Rightarrow> unit ComputerUseResult" where
  "menu_validate r =
     guard (mr_path r = [] \<or> length (mr_path r) > MAX_MENU_PATH_SEGMENTS
            \<or> list_ex (\<lambda>segment. str_trim segment = []
                 \<or> char_count segment > MAX_MENU_PATH_SEGMENT_CHARS) (mr_path r))
       (InvalidAction,
        ''menu path requires 1..16 non-empty segments of at most 200 characters'')"

record ComputerUsePoint =
  pt_x :: f64
  pt_y :: f64

record ComputerUseAction =
  ca_action :: string
  ca_observation_id :: "string option"
  ca_element_index :: "u32 option"
  ca_element_token :: "string option"
  ca_delivery_mode :: "string option"
  ca_input_backend_id :: "string option"
  ca_x :: "f64 option"
  ca_y :: "f64 option"
  ca_button :: "string option"
  ca_scroll_x :: "i32 option"
  ca_scroll_y :: "i32 option"
  ca_scroll_by :: "string option"
  ca_path :: "ComputerUsePoint list"
  ca_text :: "string option"
  ca_delay_ms :: "u64 option"
  ca_duration_ms :: "u64 option"
  ca_steps :: "u32 option"
  ca_type_chars_only :: bool
  ca_keys :: "string list"
  ca_modifiers :: "string list"

record ComputerUseZoomRequest =
  zr_observation_id :: string
  zr_x1 :: f64
  zr_y1 :: f64
  zr_x2 :: f64
  zr_y2 :: f64

record ComputerUseLaunchRequest =
  lr_name :: "string option"
  lr_bundle_id :: "string option"
  lr_aumid :: "string option"
  lr_path :: "string option"
  lr_launch_path :: "string option"
  lr_urls :: "string list"
  lr_additional_arguments :: "string list"
  lr_creates_new_application_instance :: bool
  lr_start_minimized :: bool

record ComputerUseClipboardWriteRequest =
  cl_text :: "string option"
  cl_image_path :: "string option"
  cl_file_path :: "string option"

record ComputerUseRecordingStartRequest =
  rs_output_dir :: string
  rs_record_video :: bool

record ComputerUseLiveObservationStartRequest =
  lo_fps :: u32
  lo_max_dimension :: u32

definition live_observation_default :: ComputerUseLiveObservationStartRequest where
  "live_observation_default =
     \<lparr>lo_fps = DEFAULT_LIVE_OBSERVATION_FPS,
      lo_max_dimension = DEFAULT_LIVE_OBSERVATION_MAX_DIMENSION\<rparr>"

definition live_observation_validate ::
  "ComputerUseLiveObservationStartRequest \<Rightarrow> unit ComputerUseResult" where
  "live_observation_validate r =
     (if \<not> (1 \<le> lo_fps r \<and> lo_fps r \<le> MAX_LIVE_OBSERVATION_FPS)
      then Inl (InvalidAction, ''live observation fps must be 1..=30'')
      else guard (\<not> (MIN_LIVE_OBSERVATION_MAX_DIMENSION \<le> lo_max_dimension r
                     \<and> lo_max_dimension r \<le> MAX_LIVE_OBSERVATION_MAX_DIMENSION))
        (InvalidAction, ''live observation max_dimension must be 256..=4096''))"

section \<open>Secret handles (dcc-cua-protocol)\<close>

definition MAX_SECRET_HANDLE_CHARS :: nat where "MAX_SECRET_HANDLE_CHARS = 128"

text \<open>Only ASCII passes, so the check on \<open>chars()\<close> is a check on bytes.\<close>

definition valid_secret_handle :: "string \<Rightarrow> bool" where
  "valid_secret_handle handle \<longleftrightarrow>
     \<not> (handle = [] \<or> char_count handle > MAX_SECRET_HANDLE_CHARS
        \<or> \<not> is_ascii_alphanumeric (hd handle)
        \<or> \<not> list_all (\<lambda>c. is_ascii_alphanumeric c \<or> c \<in> set ''._-:'') handle)"

section \<open>Capture preparation (dcc-cua-protocol)\<close>

record CapturePreparationBeginRequest =
  cpb_window_state_id :: string
  cpb_lifetime_ms :: u64

definition preparation_begin_valid :: "CapturePreparationBeginRequest \<Rightarrow> bool" where
  "preparation_begin_valid r \<longleftrightarrow>
     \<not> (cpb_window_state_id r = [] \<or> length (cpb_window_state_id r) > 128
        \<or> cpb_lifetime_ms r = 0 \<or> cpb_lifetime_ms r > MAX_PREPARATION_LIFETIME_MS)"

end
