(* ===== verification/Browser_Session.thy ===== *)
theory Browser_Session
  imports Request_Payloads
begin

text \<open>
  The browser session of the Host (\<open>dcc-cua-browser/src/lib.rs\<close>): the bound target, the evidence
  of the latest snapshot, and the typed operations that turn one request into at most one
  native tool call.

  The native tool is a parameter: \<open>native tool args\<close> is what \<open>call_browser_tool\<close> answers. An
  operation returns the native calls it issued, its result and the new session. Rust panics of
  the adapter are values of \<open>browser_failure\<close>, beside the errors.
\<close>

section \<open>State and requests\<close>

record BrowserImage =
  im_mime_type :: string
  im_data :: string

record BrowserResult =
  brs_value :: json
  brs_images :: "BrowserImage list"

record PendingAncestorContinuation =
  pc_token :: string
  pc_target_id :: string
  pc_tab_id :: string
  pc_snapshot_id :: string
  pc_anchor :: json

record BrowserSession =
  bw_target_id :: "string option"
  bw_mutation_allowed :: bool
  bw_latest_snapshot_id :: "string option"
  bw_latest_tab_id :: "string option"
  bw_latest_origin :: "string option"
  bw_pending :: "PendingAncestorContinuation option"

definition browser_session_default :: BrowserSession where
  "browser_session_default =
     \<lparr>bw_target_id = None, bw_mutation_allowed = False, bw_latest_snapshot_id = None,
      bw_latest_tab_id = None, bw_latest_origin = None, bw_pending = None\<rparr>"

datatype AncestorScopeExpectation =
    InitialScope string string string string
  | ContinuationScope PendingAncestorContinuation
  | UntrackedContinuation string string

record ValidatedAncestorScope =
  va_snapshot_id :: string
  va_anchor :: json
  va_continuation :: "string option"

record BrowserSnapshotRequest =
  bsr_target_id :: "string option"
  bsr_tab_id :: "string option"
  bsr_snapshot_format :: string
  bsr_scope_ref :: "string option"
  bsr_scope_ancestor_role :: "string option"
  bsr_query :: "string option"
  bsr_continuation :: "string option"
  bsr_include_screenshot :: bool

record BrowserPrepareRequest =
  bpr_approval_token :: "string option"
  bpr_allow_launch :: bool
  bpr_profile :: "json option"
  bpr_strategy :: "json option"

record BrowserNavigateRequest =
  bnr_target_id :: string
  bnr_tab_id :: string
  bnr_url :: string
  bnr_delivery_mode :: "string option"

record BrowserClickRequest =
  bcr_target_id :: string
  bcr_tab_id :: string
  bcr_snapshot_id :: string
  bcr_element_ref :: "string option"
  bcr_x :: "f64 option"
  bcr_y :: "f64 option"
  bcr_input_route :: "string option"

record BrowserTypeRequest =
  btr_target_id :: string
  btr_tab_id :: string
  btr_snapshot_id :: string
  btr_element_ref :: string
  btr_text :: "string option"
  btr_secret_handle :: "string option"
  btr_mode :: "string option"
  btr_replace :: bool

record ResolvedBrowserTypeRequest =
  rt_target_id :: string
  rt_tab_id :: string
  rt_snapshot_id :: string
  rt_element_ref :: string
  rt_text :: string
  rt_mode :: "string option"
  rt_replace :: bool

record BrowserPointerRequest =
  bpt_target_id :: string
  bpt_tab_id :: string
  bpt_snapshot_id :: string
  bpt_element_ref :: "string option"
  bpt_destination_ref :: "string option"
  bpt_action :: string
  bpt_input_route :: "string option"
  bpt_delta_x :: "f64 option"
  bpt_delta_y :: "f64 option"
  bpt_x :: "f64 option"
  bpt_y :: "f64 option"

record BrowserSetInputFilesRequest =
  bif_target_id :: string
  bif_tab_id :: string
  bif_snapshot_id :: string
  bif_element_ref :: string
  bif_files :: "string list"

record BrowserDownloadRequest =
  bdl_target_id :: string
  bdl_tab_id :: string
  bdl_snapshot_id :: string
  bdl_element_ref :: string
  bdl_destination_root :: string

record BrowserDialogRequest =
  bdg_target_id :: string
  bdg_tab_id :: string
  bdg_action :: string
  bdg_dialog_id :: "string option"
  bdg_prompt_text :: "string option"
  bdg_delivery_mode :: "string option"

section \<open>Results of an operation\<close>

datatype browser_failure = Refused ComputerUseErrorCode string | Panicked

type_synonym 'a browser_outcome = "browser_failure + 'a"
type_synonym native_tool = "string \<Rightarrow> json \<Rightarrow> json ComputerUseResult"
type_synonym native_calls = "(string \<times> json) list"
type_synonym browser_step = "native_calls \<times> BrowserResult browser_outcome \<times> BrowserSession"

definition lift_result :: "'a ComputerUseResult \<Rightarrow> 'a browser_outcome" where
  "lift_result r = map_err (\<lambda>(code, message). Refused code message) r"

abbreviation invalid :: "string \<Rightarrow> ComputerUseErrorCode \<times> string" where
  "invalid message \<equiv> (InvalidAction, message)"

abbreviation backend_unavailable :: "string \<Rightarrow> ComputerUseErrorCode \<times> string" where
  "backend_unavailable message \<equiv> (BackendUnavailable, message)"

lemma lift_result_simps [simp]:
  "lift_result (Inl (c, m)) = Inl (Refused c m)" "lift_result (Inr v) = Inr v"
  "lift_result r = Inr v \<longleftrightarrow> r = Inr v"
  by (simp_all add: lift_result_def map_err_Inr_iff)

text \<open>File system and decoders the adapter relies on.\<close>

record browser_meta =
  bm_is_symlink :: bool
  bm_is_file :: bool
  bm_is_dir :: bool
  bm_len :: u64

record browser_env =
  bx_externs :: externs
  bx_base64_decode :: "string \<Rightarrow> string + string"
  bx_lstat :: "string \<Rightarrow> browser_meta option"
  bx_canonicalize :: "string \<Rightarrow> string option"
  bx_read_file :: "string \<Rightarrow> string option"
  bx_file_url :: "string \<Rightarrow> string option"

section \<open>JSON updates\<close>

fun json_set :: "string \<Rightarrow> json \<Rightarrow> json \<Rightarrow> json" where
  "json_set k v (JObj fs) = JObj (AList.update k v fs)"
| "json_set k v j = j"

definition json_set_opt :: "string \<Rightarrow> ('a \<Rightarrow> json) \<Rightarrow> 'a option \<Rightarrow> json \<Rightarrow> json" where
  "json_set_opt k f x j = (case x of None \<Rightarrow> j | Some v \<Rightarrow> json_set k (f v) j)"

definition json_f64 :: "f64 \<Rightarrow> json" where
  "json_f64 x = (if f64_is_finite x then JNum (Float x) else JNull)"

fun as_object :: "json \<Rightarrow> (string \<times> json) list option" where
  "as_object (JObj fs) = Some fs"
| "as_object _ = None"

fun as_array :: "json \<Rightarrow> json list option" where
  "as_array (JArr xs) = Some xs"
| "as_array _ = None"

text \<open>
  \<open>IndexMut\<close> on \<open>Value\<close>: a missing key is inserted as null, null becomes an object, and every
  other value panics.
\<close>

fun index_mut :: "string \<Rightarrow> json \<Rightarrow> (json \<times> json) option" where
  "index_mut k (JObj fs) =
     (case map_of fs k of
        Some v \<Rightarrow> Some (v, JObj fs)
      | None \<Rightarrow> Some (JNull, JObj (AList.update k JNull fs)))"
| "index_mut k JNull = Some (JNull, JObj [(k, JNull)])"
| "index_mut k _ = None"

lemma json_get_set [simp]:
  "json_get (json_set k v (JObj fs)) k' = (if k = k' then Some v else map_of fs k')"
  by simp

section \<open>Tool results\<close>

definition MAX_BINARY_FRAME_BYTES :: nat where
  "MAX_BINARY_FRAME_BYTES = 64 * 1024 * 1024"

definition take_image :: "browser_env \<Rightarrow> json \<Rightarrow> BrowserImage ComputerUseResult" where
  "take_image env item =
     (let mime_type = unwrap_or (as_str (json_index item ''mimeType'')) ''image/png'' in
      case as_str (json_index item ''data'') of
        None \<Rightarrow> Inl (backend_unavailable ''CUA browser image omitted base64 data'')
      | Some data \<Rightarrow>
        (case bx_base64_decode env data of
           Inl error \<Rightarrow>
             Inl (backend_unavailable (''CUA browser image is not valid base64: '' @ error))
         | Inr bytes \<Rightarrow>
             if length bytes > MAX_BINARY_FRAME_BYTES
             then Inl (CaptureFailed, ''CUA browser image exceeds the 64 MiB frame limit'')
             else Inr \<lparr>im_mime_type = mime_type, im_data = bytes\<rparr>))"

fun take_images ::
  "browser_env \<Rightarrow> json list \<Rightarrow> (json list \<times> BrowserImage list) ComputerUseResult" where
  "take_images env [] = Inr ([], [])"
| "take_images env (item # items) =
     (if json_index item ''type'' \<noteq> JStr ''image''
      then and_then (take_images env items) (\<lambda>(js, images). Inr (item # js, images))
      else and_then (take_image env item) (\<lambda>image.
        and_then (take_images env items) (\<lambda>(js, images).
          Inr (json_set ''data'' JNull item # js, image # images))))"

definition browser_result_from_value :: "browser_env \<Rightarrow> json \<Rightarrow> BrowserResult browser_outcome" where
  "browser_result_from_value env v =
     (case index_mut ''content'' v of
        None \<Rightarrow> Inl Panicked
      | Some (content, v') \<Rightarrow>
        (case as_array content of
           None \<Rightarrow> Inr \<lparr>brs_value = v', brs_images = []\<rparr>
         | Some items \<Rightarrow>
           and_then (lift_result (take_images env items)) (\<lambda>(js, images).
             Inr \<lparr>brs_value = json_set ''content'' (JArr js) v', brs_images = images\<rparr>)))"

definition structured_content :: "json \<Rightarrow> json ComputerUseResult" where
  "structured_content v =
     (case as_object (json_index v ''structuredContent'') of
        Some _ \<Rightarrow> Inr (json_index v ''structuredContent'')
      | None \<Rightarrow> Inl (backend_unavailable ''CUA browser tool omitted structuredContent''))"

definition prepare_needs_translation :: "json \<Rightarrow> bool" where
  "prepare_needs_translation v \<longleftrightarrow>
     (let structured = json_index v ''structuredContent'';
          attachment = json_index structured ''attachment'' in
      json_index v ''isError'' \<noteq> JBool True \<and> json_index structured ''status'' = JStr ''ok''
      \<and> json_index structured ''prepared'' = JBool True
      \<and> json_index structured ''refusal'' = JNull
      \<and> json_index attachment ''kind'' = JStr ''existing_profile''
      \<and> json_index attachment ''next_action'' = JStr ''get_browser_state'')"

definition browser_result_from_prepare_value ::
  "browser_env \<Rightarrow> json \<Rightarrow> BrowserResult browser_outcome" where
  "browser_result_from_prepare_value env v =
     (if prepare_needs_translation v
      then let structured = json_index v ''structuredContent'';
               attachment = json_set ''next_action'' (JStr ''browser_snapshot'')
                 (json_index structured ''attachment'')
           in browser_result_from_value env
                (json_set ''structuredContent'' (json_set ''attachment'' attachment structured) v)
      else browser_result_from_value env v)"

definition browser_snapshot_id :: "json \<Rightarrow> string option" where
  "browser_snapshot_id v =
     (let structured = json_index v ''structuredContent'' in
      or_else (as_str (json_index structured ''snapshot_id''))
              (as_str (json_index (json_index structured ''snapshot'') ''id'')))"

definition publishes_snapshot_evidence :: "BrowserResult \<Rightarrow> bool" where
  "publishes_snapshot_evidence r =
     (case structured_content (brs_value r) of Inl _ \<Rightarrow> False
      | Inr structured \<Rightarrow>
        json_index structured ''status'' = JStr ''ok''
        \<and> json_index structured ''mode'' = JStr ''snapshot''
        \<and> json_index structured ''refusal'' = JNull
        \<and> browser_snapshot_id (brs_value r) \<noteq> None)"

definition http_scheme :: "url \<Rightarrow> bool" where
  "http_scheme u \<longleftrightarrow> scheme u \<in> {''http'', ''https''}"

definition snapshot_valid_origin :: "externs \<Rightarrow> string \<Rightarrow> bool" where
  "snapshot_valid_origin x s =
     (case url_parse x s of None \<Rightarrow> False
      | Some u \<Rightarrow> http_scheme u \<and> ascii_origin u = s \<and> url_path u = ''/''
                  \<and> query u = None \<and> fragment u = None)"

definition browser_snapshot_url :: "json \<Rightarrow> string \<Rightarrow> string option" where
  "browser_snapshot_url structured tab_id =
     or_else (as_str (json_index structured ''url''))
       (or_else (as_str (json_index (json_index structured ''snapshot'') ''url''))
         (or_else
           (if as_str (json_index structured ''tab_id'') = Some tab_id
            then as_str (json_index (json_index structured ''page'') ''url'') else None)
           (Option.bind (as_array (json_index structured ''tabs'')) (\<lambda>tabs.
              Option.bind (find (\<lambda>tab. as_str (json_index tab ''tab_id'') = Some tab_id) tabs)
                (\<lambda>tab. as_str (json_index tab ''url''))))))"

definition browser_snapshot_origin :: "externs \<Rightarrow> json \<Rightarrow> string \<Rightarrow> string option" where
  "browser_snapshot_origin x v tab_id =
     (let structured = json_index v ''structuredContent'' in
      case as_str (json_index structured ''origin'') of
        Some origin \<Rightarrow>
          if snapshot_valid_origin x origin then Some origin
          else Option.bind (browser_snapshot_url structured tab_id) (\<lambda>u.
            Option.bind (url_parse x u) (\<lambda>p. if http_scheme p then Some (ascii_origin p) else None))
      | None \<Rightarrow> Option.bind (browser_snapshot_url structured tab_id) (\<lambda>u.
            Option.bind (url_parse x u) (\<lambda>p. if http_scheme p then Some (ascii_origin p) else None)))"

definition browser_result_is_structured_refusal :: "json \<Rightarrow> bool ComputerUseResult" where
  "browser_result_is_structured_refusal v =
     and_then (structured_content v) (\<lambda>structured.
       Inr (json_index structured ''status'' = JStr ''refused''
            \<or> json_index structured ''refusal'' \<noteq> JNull))"

section \<open>Binding and evidence\<close>

definition clear_snapshot :: "BrowserSession \<Rightarrow> BrowserSession" where
  "clear_snapshot s =
     s\<lparr>bw_latest_snapshot_id := None, bw_latest_tab_id := None, bw_latest_origin := None,
       bw_pending := None\<rparr>"

definition bind_authorized_exact_target ::
  "string \<Rightarrow> BrowserSession \<Rightarrow> unit ComputerUseResult \<times> BrowserSession" where
  "bind_authorized_exact_target target_id s =
     (if target_id = [] \<or> target_id \<noteq> str_trim target_id \<or> char_count target_id > 256
         \<or> has_control target_id
      then (Inl (invalid ''authorized browser target_id is invalid''), s)
      else if is_some_and (bw_target_id s) (\<lambda>bound. bound \<noteq> target_id)
      then (Inl (StaleObservation,
              ''authorized browser target does not match the existing Host binding''), s)
      else (Inr (), clear_snapshot
              (s\<lparr>bw_target_id := Some target_id, bw_mutation_allowed := True\<rparr>)))"

text \<open>
  \<open>store_binding\<close>. The refusal is a \<open>serde_json::Map\<close>, and indexing a map with an absent key
  panics, so the default code and message are reached only for non-string values.
\<close>

definition map_index :: "(string \<times> json) list \<Rightarrow> string \<Rightarrow> json browser_outcome" where
  "map_index fs k = (case map_of fs k of Some v \<Rightarrow> Inr v | None \<Rightarrow> Inl Panicked)"

definition binding_refusal :: "(string \<times> json) list \<Rightarrow> 'a browser_outcome" where
  "binding_refusal refusal =
     and_then (map_index refusal ''code'') (\<lambda>c.
     and_then (map_index refusal ''message'') (\<lambda>m.
       Inl (Refused BrowserRefused
         (unwrap_or (as_str c) ''browser_refused'' @ '': ''
          @ unwrap_or (as_str m) ''CUA refused the browser binding''))))"

definition store_binding :: "json \<Rightarrow> BrowserSession \<Rightarrow> unit browser_outcome \<times> BrowserSession" where
  "store_binding v s =
     (case structured_content v of
        Inl (c, m) \<Rightarrow> (Inl (Refused c m), s)
      | Inr structured \<Rightarrow>
        (case as_object (json_index structured ''refusal'') of
           Some refusal \<Rightarrow> (binding_refusal refusal, s)
         | None \<Rightarrow>
           (case as_str (json_index structured ''target_id'') of
              Some target_id \<Rightarrow>
                if target_id = [] then (Inl (Refused InvalidAction ''browser bind omitted target_id''), s)
                else (Inr (), clear_snapshot
                  (s\<lparr>bw_target_id := Some target_id,
                     bw_mutation_allowed :=
                       (json_index structured ''binding_quality'' = JStr ''exact''
                        \<and> json_index structured ''mutation_allowed'' = JBool True)\<rparr>))
            | None \<Rightarrow> (Inl (Refused InvalidAction ''browser bind omitted target_id''), s))))"

definition require_bound_target :: "string \<Rightarrow> BrowserSession \<Rightarrow> unit ComputerUseResult" where
  "require_bound_target target_id s =
     guard (bw_target_id s \<noteq> Some target_id)
       (StaleObservation, ''browser target is not bound to this Host session'')"

definition require_exact_target :: "string \<Rightarrow> BrowserSession \<Rightarrow> unit ComputerUseResult" where
  "require_exact_target target_id s =
     and_then (require_bound_target target_id s) (\<lambda>_.
       guard (\<not> bw_mutation_allowed s)
         (BrowserRefused, ''browser binding is not exact and is read-only''))"

definition require_mutation_target ::
  "string \<Rightarrow> string \<Rightarrow> string \<Rightarrow> BrowserSession \<Rightarrow> unit ComputerUseResult" where
  "require_mutation_target target_id tab_id snapshot_id s =
     and_then (require_exact_target target_id s) (\<lambda>_.
     and_then (guard (bw_latest_snapshot_id s = None \<or> bw_latest_tab_id s \<noteq> Some tab_id)
       (StaleObservation, ''take a fresh browser snapshot before mutating the tab'')) (\<lambda>_.
       guard (bw_latest_snapshot_id s \<noteq> Some snapshot_id)
         (StaleObservation, ''browser snapshot_id does not match the latest browser snapshot'')))"

section \<open>Request checks\<close>

definition MAX_URL_CHARS :: nat where "MAX_URL_CHARS = 4096"
definition MAX_TEXT_CHARS :: nat where "MAX_TEXT_CHARS = 4096"
definition MAX_UPLOAD_FILES :: nat where "MAX_UPLOAD_FILES = 32"
definition MAX_LOCAL_PATH_CHARS :: nat where "MAX_LOCAL_PATH_CHARS = 4096"

definition type_validate_source :: "BrowserTypeRequest \<Rightarrow> unit ComputerUseResult" where
  "type_validate_source r =
     (case (btr_text r, btr_secret_handle r) of
        (Some text, None) \<Rightarrow>
          guard (char_count text > MAX_TEXT_CHARS)
            (invalid ''browser_type text exceeds the 4096-character limit'')
      | (None, Some handle) \<Rightarrow>
          guard (\<not> valid_secret_handle handle) (invalid ''browser_type secret_handle is invalid'')
      | (Some _, Some _) \<Rightarrow>
          Inl (invalid ''browser_type text and secret_handle are mutually exclusive'')
      | (None, None) \<Rightarrow>
          Inl (invalid ''browser_type requires exactly one of text or secret_handle''))"

definition type_resolved_text ::
  "BrowserTypeRequest \<Rightarrow> string option \<Rightarrow> string ComputerUseResult" where
  "type_resolved_text r secret =
     (case (btr_text r, secret) of
        (Some text, None) \<Rightarrow> Inr text
      | (None, Some value) \<Rightarrow> Inr value
      | _ \<Rightarrow> Inl (invalid ''browser_type secret resolution does not match its input''))"

definition type_resolve ::
  "BrowserTypeRequest \<Rightarrow> string option \<Rightarrow> ResolvedBrowserTypeRequest ComputerUseResult" where
  "type_resolve r secret =
     and_then (type_validate_source r) (\<lambda>_.
     and_then (type_resolved_text r secret) (\<lambda>text.
     and_then (guard (char_count text > MAX_TEXT_CHARS)
       (invalid ''browser_type text exceeds the 4096-character limit'')) (\<lambda>_.
       Inr \<lparr>rt_target_id = btr_target_id r, rt_tab_id = btr_tab_id r,
            rt_snapshot_id = btr_snapshot_id r, rt_element_ref = btr_element_ref r,
            rt_text = text, rt_mode = btr_mode r, rt_replace = btr_replace r\<rparr>)))"

definition type_target_checks :: "string \<Rightarrow> string option \<Rightarrow> string ComputerUseResult" where
  "type_target_checks element_ref mode_opt =
     (if str_trim element_ref = [] then Inl (invalid ''browser_type ref must not be empty'')
      else let mode = unwrap_or mode_opt ''insert_text'' in
        if mode \<noteq> ''insert_text'' \<and> mode \<noteq> ''keystrokes''
        then Inl (invalid ''browser_type mode must be insert_text or keystrokes'')
        else Inr mode)"

definition validate_type_request :: "BrowserTypeRequest \<Rightarrow> BrowserSession \<Rightarrow> unit ComputerUseResult" where
  "validate_type_request r s =
     and_then (type_validate_source r) (\<lambda>_.
     and_then (require_mutation_target (btr_target_id r) (btr_tab_id r) (btr_snapshot_id r) s) (\<lambda>_.
     and_then (type_target_checks (btr_element_ref r) (btr_mode r)) (\<lambda>_. Inr ())))"

definition validate_url :: "string \<Rightarrow> unit ComputerUseResult" where
  "validate_url url =
     (if char_count url > MAX_URL_CHARS
      then Inl (invalid ''browser URL exceeds the 4096-character limit'')
      else let lower = to_ascii_lowercase url in
        guard (\<not> (starts_with ''http://'' lower \<or> starts_with ''https://'' lower
                   \<or> starts_with ''about:'' lower))
          (invalid ''browser_navigate accepts only http, https, and about URLs''))"

definition validate_navigate_request :: "BrowserNavigateRequest \<Rightarrow> unit ComputerUseResult" where
  "validate_navigate_request r =
     and_then (validate_url (bnr_url r)) (\<lambda>_.
       guard (bnr_delivery_mode r \<notin> {None, Some ''background'', Some ''foreground''})
         (invalid ''browser_navigate delivery_mode must be background or foreground''))"

definition validate_route :: "string option \<Rightarrow> string ComputerUseResult" where
  "validate_route r =
     (let route = unwrap_or r ''trusted'' in
      if route \<noteq> ''trusted'' \<and> route \<noteq> ''dom_event''
      then Inl (invalid ''input_route must be trusted or dom_event'') else Inr route)"

definition validate_ref :: "string \<Rightarrow> string \<Rightarrow> unit ComputerUseResult" where
  "validate_ref v field = guard (str_trim v = []) (invalid (field @ '' must not be empty''))"

datatype LocalPathError = PathEmpty | PathTooLong | PathContainsNul | PathNotAbsolute

definition validate_absolute_local_path :: "string \<Rightarrow> LocalPathError + unit" where
  "validate_absolute_local_path p =
     (if p = [] then Inl PathEmpty
      else if char_count p > MAX_LOCAL_PATH_CHARS then Inl PathTooLong
      else if CHR 0x00 \<in> set p then Inl PathContainsNul
      else guard (\<not> path_is_absolute p) PathNotAbsolute)"

definition validate_local_path :: "string \<Rightarrow> string \<Rightarrow> unit ComputerUseResult" where
  "validate_local_path raw field =
     map_err (\<lambda>_. invalid (field @ '' must be a bounded absolute path without NUL bytes''))
       (validate_absolute_local_path raw)"

definition canonical_or :: "browser_env \<Rightarrow> string \<Rightarrow> string \<Rightarrow> string ComputerUseResult" where
  "canonical_or env path message =
     (case bx_canonicalize env path of Some p \<Rightarrow> Inr p | None \<Rightarrow> Inl (invalid message))"

definition validate_upload_path :: "browser_env \<Rightarrow> string \<Rightarrow> string ComputerUseResult" where
  "validate_upload_path env raw =
     and_then (validate_local_path raw ''upload path'') (\<lambda>_.
       case bx_lstat env raw of
         None \<Rightarrow> Inl (invalid ''browser upload paths must name existing regular files'')
       | Some meta \<Rightarrow>
         if bm_is_symlink meta \<or> \<not> bm_is_file meta
         then Inl (invalid
           ''browser upload paths must name regular files directly, not links or directories'')
         else canonical_or env raw ''browser upload path could not be canonicalized'')"

fun collect_ok :: "('a \<Rightarrow> 'e + 'b) \<Rightarrow> 'a list \<Rightarrow> 'e + 'b list" where
  "collect_ok f [] = Inr []"
| "collect_ok f (x # xs) = and_then (f x) (\<lambda>y. and_then (collect_ok f xs) (\<lambda>ys. Inr (y # ys)))"

definition validate_upload_paths :: "browser_env \<Rightarrow> string list \<Rightarrow> string list ComputerUseResult" where
  "validate_upload_paths env paths =
     (if paths = [] \<or> length paths > MAX_UPLOAD_FILES
      then Inl (invalid ''browser upload requires between 1 and 32 files'')
      else collect_ok (validate_upload_path env) paths)"

definition validate_destination_root :: "browser_env \<Rightarrow> string \<Rightarrow> string ComputerUseResult" where
  "validate_destination_root env raw =
     and_then (validate_local_path raw ''browser download destination_root'') (\<lambda>_.
       case bx_lstat env raw of
         None \<Rightarrow> Inl (invalid ''browser download destination_root must be an existing directory'')
       | Some meta \<Rightarrow>
         if bm_is_symlink meta \<or> \<not> bm_is_dir meta
         then Inl (invalid
           ''browser download destination_root must be a direct directory, not a link'')
         else canonical_or env raw
           ''browser download destination_root could not be canonicalized'')"

definition validate_dialog_request :: "BrowserDialogRequest \<Rightarrow> unit ComputerUseResult" where
  "validate_dialog_request r =
     and_then (guard (bdg_action r \<notin> {''inspect'', ''accept'', ''dismiss''})
       (invalid ''browser_dialog action must be inspect, accept, or dismiss'')) (\<lambda>_.
     and_then (guard (bdg_action r \<noteq> ''inspect'' \<and> bdg_dialog_id r = None)
       (invalid ''browser_dialog accept/dismiss requires dialog_id'')) (\<lambda>_.
     and_then (guard (bdg_prompt_text r \<noteq> None \<and> bdg_action r \<noteq> ''accept'')
       (invalid ''browser_dialog prompt_text is valid only for accept'')) (\<lambda>_.
     and_then (guard (is_some_and (bdg_prompt_text r) (\<lambda>t. char_count t > MAX_TEXT_CHARS))
       (invalid ''browser_dialog prompt_text exceeds the 4096-character limit'')) (\<lambda>_.
       guard (is_some_and (bdg_delivery_mode r) (\<lambda>d. d \<noteq> ''background'' \<and> d \<noteq> ''foreground''))
         (invalid ''browser_dialog delivery_mode must be background or foreground'')))))"

section \<open>Ancestor-scoped snapshots\<close>

definition is_ascii_alphabetic :: "char \<Rightarrow> bool" where
  "is_ascii_alphabetic c \<longleftrightarrow> 65 \<le> byte c \<and> byte c \<le> 90 \<or> 97 \<le> byte c \<and> byte c \<le> 122"

definition accessibility_role :: "string \<Rightarrow> bool" where
  "accessibility_role role \<longleftrightarrow>
     role \<noteq> [] \<and> length role \<le> 128 \<and> is_ascii_alphabetic (hd role)
     \<and> list_all (\<lambda>c. is_ascii_alphanumeric c \<or> c \<in> set ''_-'') role"

definition validate_ancestor_scope_request :: "BrowserSnapshotRequest \<Rightarrow> unit ComputerUseResult" where
  "validate_ancestor_scope_request r =
     (case bsr_scope_ancestor_role r of None \<Rightarrow> Inr ()
      | Some role \<Rightarrow>
        and_then (guard (bsr_snapshot_format r \<noteq> ''semantic_v2'')
          (invalid ''scope_ancestor_role requires snapshot_format semantic_v2'')) (\<lambda>_.
        and_then (guard (is_none_or (bsr_target_id r) (\<lambda>v. v = [])
                         \<or> is_none_or (bsr_tab_id r) (\<lambda>v. v = []))
          (invalid ''scope_ancestor_role requires both target_id and tab_id'')) (\<lambda>_.
        and_then (guard (is_none_or (bsr_scope_ref r) (\<lambda>v. v = []) \<or> bsr_query r = None)
          (invalid ''scope_ancestor_role requires both scope_ref and query'')) (\<lambda>_.
        and_then (guard (bsr_continuation r \<noteq> None)
          (invalid ''scope_ancestor_role cannot be combined with continuation'')) (\<lambda>_.
          guard (\<not> accessibility_role role)
            (invalid ''scope_ancestor_role must be an ASCII accessibility role of 1 to 128 bytes''))))))"

definition browser_snapshot_args :: "BrowserSnapshotRequest \<Rightarrow> json ComputerUseResult" where
  "browser_snapshot_args r =
     and_then (validate_ancestor_scope_request r) (\<lambda>_.
       Inr (json_set_opt ''continuation'' JStr (bsr_continuation r)
             (json_set_opt ''query'' JStr (bsr_query r)
               (json_set_opt ''scope_ancestor_role'' JStr (bsr_scope_ancestor_role r)
                 (json_set_opt ''scope_ref'' JStr (bsr_scope_ref r)
                   (JObj [(''snapshot_format'', JStr (bsr_snapshot_format r)),
                          (''include_screenshot'', JBool (bsr_include_screenshot r))]))))))"

definition ancestor_scope_expectation ::
  "BrowserSnapshotRequest \<Rightarrow> BrowserSession \<Rightarrow> AncestorScopeExpectation option ComputerUseResult" where
  "ancestor_scope_expectation r s =
     (case bsr_scope_ancestor_role r of
        Some role \<Rightarrow>
          Inr (Some (InitialScope (unwrap_or (bsr_scope_ref r) []) (to_ascii_lowercase role)
            (unwrap_or (bsr_target_id r) []) (unwrap_or (bsr_tab_id r) [])))
      | None \<Rightarrow>
        (case bsr_continuation r of None \<Rightarrow> Inr None
         | Some token \<Rightarrow>
           (case bw_pending s of
              None \<Rightarrow>
                (case (bsr_target_id r, bsr_tab_id r) of
                   (Some target_id, Some tab_id) \<Rightarrow> Inr (Some (UntrackedContinuation target_id tab_id))
                 | _ \<Rightarrow> Inr None)
            | Some pending \<Rightarrow>
                if token = pc_token pending \<and> bsr_target_id r = Some (pc_target_id pending)
                   \<and> bsr_tab_id r = Some (pc_tab_id pending)
                then if bsr_snapshot_format r \<noteq> ''semantic_v2'' \<or> bsr_scope_ref r \<noteq> None
                        \<or> bsr_query r \<noteq> None
                     then Inl (invalid ''tracked ancestor continuation requires semantic_v2 and cannot include scope_ref or query'')
                     else Inr (Some (ContinuationScope pending))
                else Inl (StaleObservation,
                  ''ancestor-scoped continuation does not match the latest exact tab evidence''))))"

fun expected_target_tab :: "AncestorScopeExpectation \<Rightarrow> string \<times> string" where
  "expected_target_tab (InitialScope _ _ target_id tab_id) = (target_id, tab_id)"
| "expected_target_tab (UntrackedContinuation target_id tab_id) = (target_id, tab_id)"
| "expected_target_tab (ContinuationScope pending) = (pc_target_id pending, pc_tab_id pending)"

definition snapshot_identity :: "json \<Rightarrow> json \<Rightarrow> string ComputerUseResult" where
  "snapshot_identity structured snapshot =
     (case get_str snapshot ''id'' of
        Some snapshot_id \<Rightarrow>
          if snapshot_id = []
          then Inl (backend_unavailable ''CUA ancestor-scoped snapshot omitted its snapshot id'')
          else if json_get structured ''snapshot_id'' \<in> {None, Some JNull, Some (JStr snapshot_id)}
          then Inr snapshot_id
          else Inl (backend_unavailable
            ''CUA ancestor-scoped snapshot returned conflicting snapshot ids'')
      | None \<Rightarrow> Inl (backend_unavailable ''CUA ancestor-scoped snapshot omitted its snapshot id''))"

definition untracked_continuation :: "json \<Rightarrow> unit ComputerUseResult" where
  "untracked_continuation snapshot =
     (if get_str snapshot ''scope'' \<noteq> Some ''continuation''
      then Inl (backend_unavailable
        ''CUA untracked continuation returned inconsistent scope evidence'')
      else case json_get snapshot ''scope_anchor'' of
        Some JNull \<Rightarrow> Inr ()
      | Some anchor \<Rightarrow>
        (case Option.bind (json_get anchor ''distance'') as_u64 of
           Some distance \<Rightarrow>
             guard (distance \<noteq> 0) (StaleObservation,
               ''ancestor-scoped continuation is no longer tracked by this Host session'')
         | None \<Rightarrow> Inl (backend_unavailable
             ''CUA continuation returned malformed scope anchor evidence''))
      | None \<Rightarrow> Inl (backend_unavailable
          ''CUA untracked continuation omitted scope anchor evidence''))"

fun scope_evidence_matches ::
  "AncestorScopeExpectation \<Rightarrow> json \<Rightarrow> string \<Rightarrow> json \<Rightarrow> bool" where
  "scope_evidence_matches (InitialScope requested_ref role _ _) snapshot snapshot_id anchor \<longleftrightarrow>
     get_str snapshot ''scope'' = Some ''ancestor_subtree''
     \<and> get_str anchor ''requested_ref'' = Some requested_ref
     \<and> get_str anchor ''role'' = Some role
     \<and> get_str anchor ''frame'' \<in> {Some ''main'', Some ''iframe'', Some ''oopif''}
     \<and> is_some_and (Option.bind (json_get anchor ''distance'') as_u64) (\<lambda>d. d > 0)"
| "scope_evidence_matches (ContinuationScope pending) snapshot snapshot_id anchor \<longleftrightarrow>
     get_str snapshot ''scope'' = Some ''continuation''
     \<and> snapshot_id = pc_snapshot_id pending \<and> anchor = pc_anchor pending"
| "scope_evidence_matches (UntrackedContinuation _ _) _ _ _ \<longleftrightarrow> False"

definition snapshot_continuation ::
  "AncestorScopeExpectation \<Rightarrow> json \<Rightarrow> string option ComputerUseResult" where
  "snapshot_continuation expected snapshot =
     (let checked = (\<lambda>continuation.
        if (case expected of ContinuationScope pending \<Rightarrow> continuation = Some (pc_token pending)
            | _ \<Rightarrow> False)
        then Inl (backend_unavailable ''CUA ancestor-scoped continuation token was not rotated'')
        else if continuation \<noteq> None \<and> Option.bind (json_get snapshot ''complete'') as_bool \<noteq> Some False
        then Inl (backend_unavailable
          ''CUA ancestor-scoped snapshot returned a continuation for a complete page'')
        else Inr continuation)
      in case json_get snapshot ''continuation'' of
           None \<Rightarrow> checked None
         | Some JNull \<Rightarrow> checked None
         | Some (JStr token) \<Rightarrow>
             if token \<noteq> [] then checked (Some token)
             else Inl (backend_unavailable
               ''CUA ancestor-scoped snapshot returned an invalid continuation token'')
         | Some _ \<Rightarrow> Inl (backend_unavailable
               ''CUA ancestor-scoped snapshot returned an invalid continuation token''))"

definition validate_tracked_scope ::
  "AncestorScopeExpectation \<Rightarrow> json \<Rightarrow> string \<Rightarrow> ValidatedAncestorScope ComputerUseResult" where
  "validate_tracked_scope expected snapshot snapshot_id =
     (case json_get snapshot ''scope_anchor'' of
        Some (JObj fs) \<Rightarrow>
          if \<not> scope_evidence_matches expected snapshot snapshot_id (JObj fs)
          then Inl (backend_unavailable
            ''CUA ancestor-scoped snapshot returned inconsistent scope evidence'')
          else and_then (snapshot_continuation expected snapshot) (\<lambda>continuation.
            Inr \<lparr>va_snapshot_id = snapshot_id, va_anchor = JObj fs, va_continuation = continuation\<rparr>)
      | _ \<Rightarrow> Inl (backend_unavailable
          ''CUA ancestor-scoped snapshot omitted scope_anchor evidence''))"

definition ancestor_scope_snapshot :: "json \<Rightarrow> AncestorScopeExpectation \<Rightarrow> (json \<times> json) ComputerUseResult" where
  "ancestor_scope_snapshot v expected =
     and_then (structured_content v) (\<lambda>structured.
       if json_index structured ''status'' \<noteq> JStr ''ok'' \<or> json_index structured ''refusal'' \<noteq> JNull
       then Inl (backend_unavailable ''CUA ancestor-scoped snapshot omitted a successful status'')
       else case as_object (json_index structured ''snapshot'') of
         None \<Rightarrow> Inl (backend_unavailable ''CUA ancestor-scoped snapshot omitted snapshot evidence'')
       | Some fs \<Rightarrow>
         if as_str (json_index structured ''target_id'') \<noteq> Some (fst (expected_target_tab expected))
            \<or> as_str (json_index structured ''tab_id'') \<noteq> Some (snd (expected_target_tab expected))
            \<or> get_str (JObj fs) ''format'' \<noteq> Some ''semantic_v2''
         then Inl (backend_unavailable
           ''CUA ancestor-scoped snapshot returned inconsistent target, tab, or format evidence'')
         else Inr (structured, JObj fs))"

definition validate_ancestor_scope_response ::
  "json \<Rightarrow> AncestorScopeExpectation option \<Rightarrow> ValidatedAncestorScope option ComputerUseResult" where
  "validate_ancestor_scope_response v expectation =
     (case expectation of None \<Rightarrow> Inr None
      | Some expected \<Rightarrow>
        and_then (ancestor_scope_snapshot v expected) (\<lambda>(structured, snapshot).
        and_then (snapshot_identity structured snapshot) (\<lambda>snapshot_id.
          case expected of
            UntrackedContinuation _ _ \<Rightarrow>
              and_then (untracked_continuation snapshot) (\<lambda>_. Inr None)
          | _ \<Rightarrow> and_then (validate_tracked_scope expected snapshot snapshot_id) (\<lambda>scope.
              Inr (Some scope)))))"

end
