(* ===== verification/Host_Action.thy ===== *)
theory Host_Action
  imports Browser_Session
begin

text \<open>
  Host actions and their policy: the request shapes of \<open>dcc-cua-host/src/lib.rs\<close> (\<open>HostAction\<close>,
  \<open>FindQuery\<close>, \<open>WaitCondition\<close>, \<open>HelloParams\<close>), and the safety tiers of
  \<open>dcc-cua-host/src/action_policy.rs\<close>.
\<close>

section \<open>Actions\<close>

record HostAction =
  ha_action :: string
  ha_element_index :: "u32 option"
  ha_element_token :: "string option"
  ha_delivery_mode :: "string option"
  ha_input_backend_id :: "string option"
  ha_input_kind :: string
  ha_intent :: string
  ha_x :: "f64 option"
  ha_y :: "f64 option"
  ha_button :: "string option"
  ha_scroll_x :: "i32 option"
  ha_scroll_y :: "i32 option"
  ha_scroll_by :: "string option"
  ha_path :: "ComputerUsePoint list"
  ha_text :: "string option"
  ha_secret_handle :: "string option"
  ha_delay_ms :: "u64 option"
  ha_type_chars_only :: bool
  ha_checked :: "bool option"
  ha_keys :: "string list"
  ha_modifiers :: "string list"
  ha_duration_ms :: "u64 option"
  ha_steps :: "u32 option"

definition text_input_actions :: "string list" where
  "text_input_actions = [''type'', ''type_chars'', ''set_text'', ''set_value'']"

definition validate_secret_source :: "HostAction \<Rightarrow> unit ComputerUseResult" where
  "validate_secret_source a =
     (if ha_text a \<noteq> None \<and> ha_secret_handle a \<noteq> None
      then Inl (InvalidAction, ''text and secret_handle are mutually exclusive'')
      else case ha_secret_handle a of None \<Rightarrow> Inr ()
      | Some handle \<Rightarrow>
        if \<not> valid_secret_handle handle then Inl (InvalidAction, ''secret_handle is invalid'')
        else guard (ha_action a \<notin> set text_input_actions)
          (InvalidAction, ''secret_handle is supported only for text input actions''))"

definition uses_physical_keyboard :: "HostAction \<Rightarrow> bool" where
  "uses_physical_keyboard a \<longleftrightarrow>
     ha_action a \<in> {''keypress'', ''press'', ''press_key'', ''keyboard_shortcut'', ''hotkey''}
     \<or> ha_keys a \<noteq> [] \<or> ha_modifiers a \<noteq> []"

definition element_matches :: "HostAction \<Rightarrow> json \<Rightarrow> bool" where
  "element_matches a element \<longleftrightarrow>
     is_none_or (ha_element_index a) (\<lambda>expected.
       or_else (as_u64 (json_index element ''element_index'')) (as_u64 (json_index element ''index''))
         = Some (ucast expected))
     \<and> is_none_or (ha_element_token a) (\<lambda>expected.
         as_str (json_index element ''element_token'') = Some expected)"

definition semantic_element :: "HostAction \<Rightarrow> json \<Rightarrow> json option" where
  "semantic_element a root =
     (if ha_element_index a = None \<and> ha_element_token a = None then None
      else Option.bind (as_array (json_index root ''elements'')) (find (element_matches a)))"

definition policy_categories :: "string list" where
  "policy_categories =
     [''account_access'', ''account_security'', ''content_change'', ''credential'', ''destructive'',
      ''destructive_write'', ''external_effect'', ''payment'', ''publishing'']"

definition authorization_category :: "HostAction \<Rightarrow> json option \<Rightarrow> string" where
  "authorization_category a root =
     (if ha_secret_handle a \<noteq> None then ''credential''
      else if ha_input_kind a = ''raw_input'' \<or> uses_physical_keyboard a then ''raw_input''
      else let element = Option.bind root (semantic_element a);
               category = Option.bind element (\<lambda>e. as_str (json_index e ''policy_category'')) in
        if is_some_and category (\<lambda>c. c \<in> set policy_categories) then the category
        else if is_some_and element (\<lambda>e. as_str (json_index e ''policy_tier'') = Some ''task_grant'')
        then ''task_grant'' else ''unclassified_sensitive'')"

definition canonical_action :: "string \<Rightarrow> string" where
  "canonical_action action =
     (if action = ''set_checked'' then ''set_value''
      else if action = ''press'' \<or> action = ''press_key'' then ''keypress''
      else if action = ''hotkey'' then ''keyboard_shortcut'' else action)"

definition bool_to_string :: "bool \<Rightarrow> string" where
  "bool_to_string b = (if b then ''true'' else ''false'')"

definition computer_use_action :: "HostAction \<Rightarrow> string \<Rightarrow> ComputerUseAction" where
  "computer_use_action a observation_id =
     \<lparr>ca_action = canonical_action (ha_action a), ca_observation_id = Some observation_id,
      ca_element_index = ha_element_index a, ca_element_token = ha_element_token a,
      ca_delivery_mode = ha_delivery_mode a, ca_input_backend_id = ha_input_backend_id a,
      ca_x = ha_x a, ca_y = ha_y a, ca_button = ha_button a, ca_scroll_x = ha_scroll_x a,
      ca_scroll_y = ha_scroll_y a, ca_scroll_by = ha_scroll_by a, ca_path = ha_path a,
      ca_text = (if canonical_action (ha_action a) = ''set_value'' \<and> ha_checked a \<noteq> None
                 then map_option bool_to_string (ha_checked a) else ha_text a),
      ca_delay_ms = ha_delay_ms a, ca_duration_ms = ha_duration_ms a, ca_steps = ha_steps a,
      ca_type_chars_only = ha_type_chars_only a, ca_keys = ha_keys a, ca_modifiers = ha_modifiers a\<rparr>"

definition into_computer_use :: "HostAction \<Rightarrow> string \<Rightarrow> ComputerUseAction ComputerUseResult" where
  "into_computer_use a observation_id =
     and_then (validate_secret_source a) (\<lambda>_.
     and_then (guard (ha_secret_handle a \<noteq> None) (InvalidAction,
       ''secret_handle must be resolved by the constructor-owned Host vault'')) (\<lambda>_.
     and_then (guard (ha_input_kind a \<notin> {''raw_input'', ''semantic''})
       (InvalidAction, ''input_kind must be raw_input or semantic'')) (\<lambda>_.
     and_then (guard (ha_input_kind a \<noteq> ''raw_input'' \<and> ha_element_index a = None
                      \<and> ha_element_token a = None)
       (InvalidAction, ''semantic actions require a current CUA element_index or element_token'')) (\<lambda>_.
       Inr (computer_use_action a observation_id)))))"

lemma canonical_action_idem [simp]: "canonical_action (canonical_action action) = canonical_action action"
  by (simp add: canonical_action_def)

section \<open>Safety tiers (action_policy.rs)\<close>

datatype HostActionSafetyTier = HardDeny | ActionConfirmation | PreApproval | TaskGrantTier

definition tier_from_wire :: "string \<Rightarrow> HostActionSafetyTier" where
  "tier_from_wire value =
     (if value = ''hard_deny'' then HardDeny
      else if value = ''action_confirmation'' then ActionConfirmation
      else if value = ''pre_approval'' then PreApproval
      else if value = ''task_grant'' then TaskGrantTier else HardDeny)"

definition requires_confirmation :: "HostActionSafetyTier \<Rightarrow> bool" where
  "requires_confirmation t \<longleftrightarrow> t \<in> {ActionConfirmation, PreApproval}"

definition rejection :: "HostActionSafetyTier \<Rightarrow> (string \<times> string \<times> string) option" where
  "rejection t =
     (if t = HardDeny
      then Some (''hard_deny'', ''hard_denied'', ''the host policy denies this Computer Use action'')
      else None)"

definition safe_named_keys :: "string list" where
  "safe_named_keys =
     [''ENTER'', ''RETURN'', ''TAB'', ''ESCAPE'', ''ESC'', ''SPACE'', ''UP'', ''DOWN'', ''LEFT'', ''RIGHT'',
      ''HOME'', ''END'', ''PAGEUP'', ''PGUP'', ''PAGEDOWN'', ''PGDN'']"

definition movement_keys :: "string list" where
  "movement_keys = [''W'', ''A'', ''S'', ''D'', ''UP'', ''DOWN'', ''LEFT'', ''RIGHT'']"

definition is_safe_unmodified_key :: "string \<Rightarrow> bool" where
  "is_safe_unmodified_key key \<longleftrightarrow>
     (let normalized = to_ascii_uppercase (str_trim key) in
      length normalized = 1 \<and> is_ascii_alphanumeric (hd normalized)
      \<or> normalized \<in> set safe_named_keys)"

definition is_safe_movement_key :: "string \<Rightarrow> bool" where
  "is_safe_movement_key key \<longleftrightarrow> to_ascii_uppercase (str_trim key) \<in> set movement_keys"

definition is_task_granted_pointer_input :: "HostAction \<Rightarrow> bool" where
  "is_task_granted_pointer_input a \<longleftrightarrow>
     (if ha_intent a \<notin> {''navigate'', ''ordinary_edit''} \<or> ha_delivery_mode a \<noteq> Some ''foreground''
         \<or> ha_text a \<noteq> None \<or> ha_secret_handle a \<noteq> None \<or> ha_modifiers a \<noteq> []
      then False
      else if ha_action a \<in> {''click'', ''double_click'', ''right_click'', ''toggle''}
      then ha_x a \<noteq> None \<and> ha_y a \<noteq> None \<and> ha_keys a = []
      else if ha_action a = ''drag'' then length (ha_path a) \<ge> 2 \<and> ha_keys a = []
      else False)"

definition keyboard_input_plain :: "HostAction \<Rightarrow> bool" where
  "keyboard_input_plain a \<longleftrightarrow>
     \<not> (ha_intent a \<notin> {''navigate'', ''ordinary_edit''} \<or> ha_delivery_mode a \<noteq> Some ''foreground''
        \<or> ha_text a \<noteq> None \<or> ha_secret_handle a \<noteq> None \<or> ha_input_backend_id a \<noteq> None
        \<or> ha_element_index a \<noteq> None \<or> ha_element_token a \<noteq> None \<or> ha_x a \<noteq> None \<or> ha_y a \<noteq> None
        \<or> ha_button a \<noteq> None \<or> ha_scroll_x a \<noteq> None \<or> ha_scroll_y a \<noteq> None
        \<or> ha_scroll_by a \<noteq> None \<or> ha_path a \<noteq> [] \<or> ha_keys a = [] \<or> ha_modifiers a \<noteq> []
        \<or> ha_delay_ms a \<noteq> None \<or> ha_type_chars_only a \<or> ha_checked a \<noteq> None \<or> ha_steps a \<noteq> None)"

text \<open>\<open>keys.iter().enumerate().all(|(i, key)| keys[..i].iter().all(|p| ...))\<close>\<close>

definition keys_pairwise_distinct :: "string list \<Rightarrow> bool" where
  "keys_pairwise_distinct keys \<longleftrightarrow>
     list_all (\<lambda>index. list_all (\<lambda>previous.
        \<not> eq_ignore_ascii_case (str_trim previous) (str_trim (keys ! index))) (take index keys))
       [0..<length keys]"

definition is_task_granted_keyboard_input :: "HostAction \<Rightarrow> bool" where
  "is_task_granted_keyboard_input a \<longleftrightarrow>
     (if \<not> keyboard_input_plain a then False
      else case ha_duration_ms a of
        Some duration_ms \<Rightarrow>
          1 \<le> duration_ms \<and> duration_ms \<le> 10000
          \<and> ha_action a \<in> {''keypress'', ''press'', ''press_key''} \<and> length (ha_keys a) \<le> 2
          \<and> list_all is_safe_movement_key (ha_keys a) \<and> keys_pairwise_distinct (ha_keys a)
      | None \<Rightarrow> length (ha_keys a) = 1 \<and> is_safe_unmodified_key (hd (ha_keys a)))"

definition raw_pointer_tier :: "HostAction \<Rightarrow> HostActionSafetyTier" where
  "raw_pointer_tier a =
     (if ha_action a \<in> {''move'', ''scroll''} then TaskGrantTier
      else if ha_action a \<in> {''click'', ''double_click'', ''right_click'', ''toggle'', ''drag''}
              \<and> is_task_granted_pointer_input a then TaskGrantTier
      else if ha_action a \<in> {''click'', ''double_click'', ''right_click'', ''toggle'', ''drag'', ''type'',
                ''type_chars'', ''set_text'', ''set_value'', ''set_checked''} then ActionConfirmation
      else HardDeny)"

definition base_tier :: "HostAction \<Rightarrow> json option \<Rightarrow> HostActionSafetyTier" where
  "base_tier a root =
     (if uses_physical_keyboard a
      then if ha_input_kind a = ''raw_input'' \<and> is_task_granted_keyboard_input a
           then TaskGrantTier else ActionConfirmation
      else if ha_input_kind a = ''semantic''
      then (case Option.bind (Option.bind root (semantic_element a))
                  (\<lambda>e. as_str (json_index e ''policy_tier'')) of
              None \<Rightarrow> HardDeny | Some wire \<Rightarrow> tier_from_wire wire)
      else if ha_input_kind a = ''raw_input'' then raw_pointer_tier a
      else HardDeny)"

definition safety_tier :: "HostAction \<Rightarrow> json option \<Rightarrow> HostActionSafetyTier" where
  "safety_tier a root =
     (if ha_secret_handle a \<noteq> None \<and> base_tier a root \<noteq> HardDeny then ActionConfirmation
      else base_tier a root)"

section \<open>Queries, waits and the handshake\<close>

record WaitCondition =
  wc_kind :: string
  wc_element_index :: "u32 option"
  wc_text :: "string option"
  wc_value :: "string option"
  wc_timeout_ms :: "u64 option"
  wc_interval_ms :: "u64 option"

record FindQuery =
  fq_text :: "string option"
  fq_role :: "string option"
  fq_element_index :: "u32 option"
  fq_max_results :: "u32 option"

definition find_query_validate :: "FindQuery \<Rightarrow> HostError + nat" where
  "find_query_validate q =
     (if is_none_or (fq_text q) (\<lambda>t. t = []) \<and> is_none_or (fq_role q) (\<lambda>t. t = [])
         \<and> fq_element_index q = None
      then Inl (Protocol ''find requires text, role, or element_index'')
      else Inr (unat (clamp (unwrap_or (fq_max_results q) 10) 1 50)))"

definition wait_condition_validate :: "WaitCondition \<Rightarrow> HostError + (u64 \<times> u64)" where
  "wait_condition_validate c =
     (if wc_kind c \<notin> {''element_present'', ''text_contains'', ''text_equals'', ''value_equals''}
      then Inl (Protocol ''wait condition kind is unsupported'')
      else if wc_kind c \<in> {''text_contains'', ''text_equals''} \<and> wc_text c = None
      then Inl (Protocol ''text wait conditions require text'')
      else if wc_kind c = ''value_equals'' \<and> wc_value c = None
      then Inl (Protocol ''value_equals wait conditions require value'')
      else Inr (min (unwrap_or (wc_timeout_ms c) 5000) 30000,
                clamp (unwrap_or (wc_interval_ms c) 100) 10 1000))"

definition HOST_PROTOCOL_VERSION :: u32 where "HOST_PROTOCOL_VERSION = 1"

record HelloParams =
  hp_protocol_version :: u32
  hp_client_name :: string
  hp_snapshot_transport :: "string option"

datatype SnapshotTransport = SharedMemory | BinaryFrame

definition from_hello :: "HelloParams \<Rightarrow> HostError + SnapshotTransport" where
  "from_hello p =
     (if hp_protocol_version p \<noteq> HOST_PROTOCOL_VERSION
      then Inl (CodedProtocol ProtocolMismatch
        (''protocol version '' @ show_nat (unat (hp_protocol_version p)) @ '' is not supported''))
      else let transport = unwrap_or (hp_snapshot_transport p) ''binary_frame'' in
        if transport = ''binary_frame'' then Inr BinaryFrame
        else if transport = ''shared_memory'' then Inr SharedMemory
        else Inl (Protocol (''snapshot transport '' @ transport @ '' is not supported'')))"

section \<open>Properties\<close>

lemma keys_pairwise_distinct_iff:
  "keys_pairwise_distinct keys \<longleftrightarrow> distinct (map (to_ascii_lowercase \<circ> str_trim) keys)"
proof -
  define f where "f = to_ascii_lowercase \<circ> str_trim"
  have prefix: "list_all P (take i keys) \<longleftrightarrow> (\<forall>j < i. P (keys ! j))" if "i < length keys" for P i
    using that by (simp add: list_all_length)
  have "keys_pairwise_distinct keys \<longleftrightarrow> (\<forall>i < length keys. \<forall>j < i. f (keys ! j) \<noteq> f (keys ! i))"
    unfolding keys_pairwise_distinct_def list_all_iff [where xs = "[0..<length keys]"]
    using prefix by (auto simp: eq_ignore_ascii_case_def f_def)
  also have "\<dots> \<longleftrightarrow> (\<forall>i < length keys. \<forall>j < length keys. i \<noteq> j \<longrightarrow> f (keys ! i) \<noteq> f (keys ! j))"
  proof (intro iffI allI impI)
    fix i j
    assume h: "\<forall>i < length keys. \<forall>j < i. f (keys ! j) \<noteq> f (keys ! i)"
      and ij: "i < length keys" "j < length keys" "i \<noteq> j"
    from ij(3) consider "i < j" | "j < i" by linarith
    then show "f (keys ! i) \<noteq> f (keys ! j)"
    proof cases
      case 1
      with h ij(2) show ?thesis by blast
    next
      case 2
      with h ij(1) show ?thesis by metis
    qed
  qed auto
  also have "\<dots> \<longleftrightarrow> distinct (map f keys)"
    by (simp add: distinct_conv_nth)
  finally show ?thesis by (simp add: f_def)
qed

lemma keyboard_grant_cases:
  assumes "is_task_granted_keyboard_input a"
  shows "ha_secret_handle a = None \<and> ha_modifiers a = [] \<and> ha_text a = None
    \<and> ha_delivery_mode a = Some ''foreground'' \<and> ha_intent a \<in> {''navigate'', ''ordinary_edit''}
    \<and> (ha_duration_ms a = None \<and> (\<exists>key. ha_keys a = [key] \<and> is_safe_unmodified_key key)
       \<or> (\<exists>d. ha_duration_ms a = Some d \<and> 1 \<le> d \<and> d \<le> 10000) \<and> length (ha_keys a) \<in> {1, 2}
         \<and> (\<forall>key \<in> set (ha_keys a). is_safe_movement_key key)
         \<and> distinct (map (to_ascii_lowercase \<circ> str_trim) (ha_keys a)))"
proof -
  from assms have plain: "keyboard_input_plain a"
    by (auto simp: is_task_granted_keyboard_input_def split: if_splits)
  then have nonempty: "ha_keys a \<noteq> []" by (simp add: keyboard_input_plain_def)
  show ?thesis
  proof (cases "ha_duration_ms a")
    case None
    with assms plain obtain key where "ha_keys a = [key]" "is_safe_unmodified_key key"
      by (auto simp: is_task_granted_keyboard_input_def length_Suc_conv)
    with plain None show ?thesis by (auto simp: keyboard_input_plain_def)
  next
    case (Some d)
    from assms plain Some have "length (ha_keys a) \<le> 2"
      by (simp add: is_task_granted_keyboard_input_def)
    moreover from nonempty have "0 < length (ha_keys a)" by simp
    ultimately have "length (ha_keys a) = 1 \<or> length (ha_keys a) = 2" by linarith
    with assms plain Some show ?thesis
      by (auto simp: is_task_granted_keyboard_input_def keyboard_input_plain_def list_all_iff
          keys_pairwise_distinct_iff)
  qed
qed

text \<open>
  Only harmless actions ride on the task grant alone. An action of tier task grant never
  resolves a secret and never holds a modifier. If it presses keys, it is a foreground raw input
  of one plain key, or one or two different movement keys held for at most ten seconds. A semantic
  action is of that tier only through an element of the current accessibility tree marked
  \<open>task_grant\<close>; a raw pointer action only as a move or scroll, or as a foreground click or drag
  with explicit coordinates and no text.
\<close>
theorem task_grant_tier_sound:
  assumes "safety_tier a root = TaskGrantTier"
  shows "(ha_secret_handle a = None)
    \<and> (ha_modifiers a = [])
    \<and> (ha_keys a \<noteq> [] \<longrightarrow> (ha_input_kind a = ''raw_input'' \<and> ha_text a = None
      \<and> ha_delivery_mode a = Some ''foreground''
      \<and> ((\<exists>key. ha_keys a = [key] \<and> is_safe_unmodified_key key)
         \<or> length (ha_keys a) \<in> {1, 2} \<and> (\<forall>key \<in> set (ha_keys a). is_safe_movement_key key)
           \<and> distinct (map (to_ascii_lowercase \<circ> str_trim) (ha_keys a))
           \<and> (\<exists>d. ha_duration_ms a = Some d \<and> 1 \<le> d \<and> d \<le> 10000))))
    \<and> (ha_input_kind a \<noteq> ''raw_input'' \<longrightarrow> (ha_input_kind a = ''semantic''
      \<and> (\<exists>tree elements element. root = Some tree \<and> json_index tree ''elements'' = JArr elements
           \<and> element \<in> set elements \<and> element_matches a element
           \<and> json_index element ''policy_tier'' = JStr ''task_grant'')))
    \<and> (ha_input_kind a = ''raw_input'' \<longrightarrow> ha_keys a = [] \<longrightarrow> (ha_action a \<in> {''move'', ''scroll''}
      \<or> ha_text a = None \<and> ha_delivery_mode a = Some ''foreground''
        \<and> (ha_action a \<in> {''click'', ''double_click'', ''right_click'', ''toggle''}
             \<and> ha_x a \<noteq> None \<and> ha_y a \<noteq> None
           \<or> ha_action a = ''drag'' \<and> 2 \<le> length (ha_path a))))"
proof (rule conjI [OF _ conjI [OF _ conjI [OF impI conjI [OF impI impI [OF impI]]]]])
  from assms have base: "base_tier a root = TaskGrantTier" and secret: "ha_secret_handle a = None"
    by (auto simp: safety_tier_def split: if_splits)
  then show "ha_secret_handle a = None" by simp
  have kb: "uses_physical_keyboard a \<Longrightarrow> ha_input_kind a = ''raw_input'' \<and> is_task_granted_keyboard_input a"
    using base by (auto simp: base_tier_def split: if_splits)
  then show "ha_modifiers a = []"
    using keyboard_grant_cases by (auto simp: uses_physical_keyboard_def)
  show "ha_input_kind a = ''raw_input'' \<and> ha_text a = None \<and> ha_delivery_mode a = Some ''foreground''
      \<and> ((\<exists>key. ha_keys a = [key] \<and> is_safe_unmodified_key key)
         \<or> length (ha_keys a) \<in> {1, 2} \<and> (\<forall>key \<in> set (ha_keys a). is_safe_movement_key key)
           \<and> distinct (map (to_ascii_lowercase \<circ> str_trim) (ha_keys a))
           \<and> (\<exists>d. ha_duration_ms a = Some d \<and> 1 \<le> d \<and> d \<le> 10000))" if keys: "ha_keys a \<noteq> []"
    using kb keyboard_grant_cases [of a] keys by (auto simp: uses_physical_keyboard_def)
  show "ha_input_kind a = ''semantic''
      \<and> (\<exists>tree elements element. root = Some tree \<and> json_index tree ''elements'' = JArr elements
           \<and> element \<in> set elements \<and> element_matches a element
           \<and> json_index element ''policy_tier'' = JStr ''task_grant'')"
    if kind: "ha_input_kind a \<noteq> ''raw_input''"
  proof -
    from kind kb have nokb: "\<not> uses_physical_keyboard a" by blast
    from base kind nokb have sem: "ha_input_kind a = ''semantic''"
      by (auto simp: base_tier_def split: if_splits)
    with base nokb obtain tree element wire where
      tree: "root = Some tree" "semantic_element a tree = Some element"
        "as_str (json_index element ''policy_tier'') = Some wire" "tier_from_wire wire = TaskGrantTier"
      by (auto simp: base_tier_def bind_eq_Some_conv split: option.splits)
    from tree(4) have "wire = ''task_grant''" by (auto simp: tier_from_wire_def split: if_splits)
    with tree(3) have tier: "json_index element ''policy_tier'' = JStr ''task_grant''"
      by (cases "json_index element ''policy_tier''") auto
    from tree(2) obtain elements where
      "as_array (json_index tree ''elements'') = Some elements" "find (element_matches a) elements = Some element"
      by (auto simp: semantic_element_def bind_eq_Some_conv split: if_splits)
    then have "json_index tree ''elements'' = JArr elements" "element \<in> set elements" "element_matches a element"
      by (cases "json_index tree ''elements''"; auto simp: find_Some_iff)+
    with sem tree(1) tier show ?thesis by blast
  qed
  show "ha_action a \<in> {''move'', ''scroll''}
      \<or> ha_text a = None \<and> ha_delivery_mode a = Some ''foreground''
        \<and> (ha_action a \<in> {''click'', ''double_click'', ''right_click'', ''toggle''}
             \<and> ha_x a \<noteq> None \<and> ha_y a \<noteq> None
           \<or> ha_action a = ''drag'' \<and> 2 \<le> length (ha_path a))"
    if raw: "ha_input_kind a = ''raw_input''" and nokeys: "ha_keys a = []"
  proof -
    have "\<not> uses_physical_keyboard a" using kb keyboard_grant_cases [of a] nokeys by auto
    with base raw have "raw_pointer_tier a = TaskGrantTier" by (simp add: base_tier_def)
    then show ?thesis
      by (auto simp: raw_pointer_tier_def is_task_granted_pointer_input_def split: if_splits)
  qed
qed

text \<open>An action that moves forward with two keys held for a second.\<close>

definition example_movement :: HostAction where
  "example_movement =
     \<lparr>ha_action = ''keypress'', ha_element_index = None, ha_element_token = None,
      ha_delivery_mode = Some ''foreground'', ha_input_backend_id = None,
      ha_input_kind = ''raw_input'', ha_intent = ''navigate'', ha_x = None, ha_y = None,
      ha_button = None, ha_scroll_x = None, ha_scroll_y = None, ha_scroll_by = None, ha_path = [],
      ha_text = None, ha_secret_handle = None, ha_delay_ms = None, ha_type_chars_only = False,
      ha_checked = None, ha_keys = [''w'', ''A''], ha_modifiers = [], ha_duration_ms = Some 1000,
      ha_steps = None\<rparr>"

lemma graphic_keys [simp]: "graphic ''w''" "graphic ''A''" "graphic ''k1''"
  by (simp_all add: graphic_def)

lemma example_movement_tier: "safety_tier example_movement None = TaskGrantTier"
  by (simp add: safety_tier_def base_tier_def uses_physical_keyboard_def example_movement_def
      is_task_granted_keyboard_input_def keyboard_input_plain_def is_safe_movement_key_def
      keys_pairwise_distinct_iff movement_keys_def graphic_simps to_ascii_uppercase_def
      to_ascii_upper_char_def to_ascii_lowercase_def to_ascii_lower_char_def char_of_def bit_0)

theorem task_grant_tier_sound_witness:
  "ha_secret_handle example_movement = None \<and> ha_modifiers example_movement = []
   \<and> distinct (map (to_ascii_lowercase \<circ> str_trim) (ha_keys example_movement))"
  using task_grant_tier_sound [OF example_movement_tier] by (auto simp: example_movement_def)

text \<open>
  What reaches the driver is the action that was asked for. A Host action that converts
  carries no secret handle, is bound to the given observation, keeps its selectors, coordinates,
  keys and timings, uses the canonical action name, and a semantic action names an element;
  converting an already canonical name changes nothing.
\<close>
theorem into_computer_use_exact:
  assumes "into_computer_use a observation_id = Inr c"
  shows "(ha_secret_handle a = None)
    \<and> (ca_observation_id c = Some observation_id)
    \<and> (ca_action c = canonical_action (ha_action a))
    \<and> (canonical_action (ca_action c) = ca_action c)
    \<and> ((ca_element_index c, ca_element_token c, ca_x c, ca_y c, ca_keys c, ca_modifiers c)
      = (ha_element_index a, ha_element_token a, ha_x a, ha_y a, ha_keys a, ha_modifiers a))
    \<and> ((ca_path c, ca_button c, ca_duration_ms c, ca_delay_ms c, ca_steps c, ca_delivery_mode c)
      = (ha_path a, ha_button a, ha_duration_ms a, ha_delay_ms a, ha_steps a, ha_delivery_mode a))
    \<and> (ha_input_kind a = ''semantic'' \<longrightarrow> (ca_element_index c \<noteq> None \<or> ca_element_token c \<noteq> None))
    \<and> (ha_checked a = None \<longrightarrow> (ca_text c = ha_text a))"
proof (rule conjI [OF _ conjI [OF _ conjI [OF _ conjI [OF _ conjI [OF _ conjI [OF _ conjI [OF impI impI]]]]]]])
  from assms have checks: "ha_secret_handle a = None"
      "ha_input_kind a = ''raw_input'' \<or> ha_element_index a \<noteq> None \<or> ha_element_token a \<noteq> None"
    and c: "c = computer_use_action a observation_id"
    by (auto simp: into_computer_use_def and_then_Inr_iff)
  show "ha_secret_handle a = None" by (rule checks)
  show "canonical_action (ca_action c) = ca_action c" by (simp add: c computer_use_action_def)
  show "ha_input_kind a = ''semantic'' \<Longrightarrow> ca_element_index c \<noteq> None \<or> ca_element_token c \<noteq> None"
    using checks by (auto simp: c computer_use_action_def)
qed (use assms in \<open>auto simp: into_computer_use_def and_then_Inr_iff computer_use_action_def\<close>)

theorem into_computer_use_exact_witness:
  "\<exists>c. into_computer_use example_movement ''o'' = Inr c \<and> ca_observation_id c = Some ''o''
     \<and> ca_action c = ''keypress''"
proof -
  have "\<exists>c. into_computer_use example_movement ''o'' = Inr c"
    by (simp add: into_computer_use_def validate_secret_source_def example_movement_def Let_def)
  then obtain c where c: "into_computer_use example_movement ''o'' = Inr c" ..
  from into_computer_use_exact [OF c] c show ?thesis
    by (auto simp: canonical_action_def example_movement_def)
qed

lemma clamp_bounds:
  fixes lo :: "'a::len word"
  shows "lo \<le> hi \<Longrightarrow> lo \<le> clamp v lo hi \<and> clamp v lo hi \<le> hi"
  by (auto simp: clamp_def not_less)

lemma clamp_id: "lo \<le> v \<Longrightarrow> v \<le> hi \<Longrightarrow> clamp v lo hi = v"
  by (auto simp: clamp_def)

text \<open>
  Client-supplied limits are bounded. A find query returns at most 50 results and at least
  one; a wait, for a condition or for a window, lasts at most 30 seconds and polls every 10 to
  1000 milliseconds, and limits already inside those ranges are taken as given. So between two
  probes a wait never busy-loops and the number of probes of a wait is bounded.
\<close>
theorem request_limits_bounded:
  "(find_query_validate q = Inr n \<longrightarrow> (1 \<le> n \<and> n \<le> 50))
    \<and> (wait_condition_validate c = Inr (timeout, interval) \<longrightarrow> (timeout \<le> 30000 \<and> 10 \<le> interval \<and> interval \<le> 1000))
    \<and> (window_wait_limits r = Inr (timeout', interval') \<longrightarrow> (timeout' \<le> 30000 \<and> 10 \<le> interval' \<and> interval' \<le> 1000))
    \<and> (wait_condition_validate c = Inr (timeout, interval) \<longrightarrow> wc_timeout_ms c = Some t \<longrightarrow> t \<le> 30000 \<longrightarrow> (timeout = t))"
proof (rule conjI [OF impI conjI [OF impI conjI [OF impI impI [OF impI [OF impI]]]]])
  show "1 \<le> n \<and> n \<le> 50" if "find_query_validate q = Inr n"
  proof -
    from that have n: "n = unat (clamp (unwrap_or (fq_max_results q) 10) 1 50)"
      by (auto simp: find_query_validate_def split: if_splits)
    have "1 \<le> clamp (unwrap_or (fq_max_results q) 10) (1 :: u32) 50
        \<and> clamp (unwrap_or (fq_max_results q) 10) 1 50 \<le> 50"
      by (rule clamp_bounds) simp
    then show ?thesis by (simp add: n word_le_nat_alt)
  qed
  show "timeout \<le> 30000 \<and> 10 \<le> interval \<and> interval \<le> 1000"
    if "wait_condition_validate c = Inr (timeout, interval)"
    using that clamp_bounds [of 10 "1000 :: u64" "unwrap_or (wc_interval_ms c) 100"]
    by (auto simp: wait_condition_validate_def split: if_splits)
  show "timeout' \<le> 30000 \<and> 10 \<le> interval' \<and> interval' \<le> 1000"
    if "window_wait_limits r = Inr (timeout', interval')"
    using that clamp_bounds [of 10 "1000 :: u64" "unwrap_or (ww_interval_ms r) 100"]
    by (auto simp: window_wait_limits_def and_then_Inr_iff payload_limits)
  show "timeout = t" if "wait_condition_validate c = Inr (timeout, interval)"
      "wc_timeout_ms c = Some t" "t \<le> 30000"
    using that by (auto simp: wait_condition_validate_def unwrap_or_def split: if_splits)
qed

theorem request_limits_bounded_witness:
  "wait_condition_validate \<lparr>wc_kind = ''element_present'', wc_element_index = Some 4, wc_text = None,
      wc_value = None, wc_timeout_ms = Some 99999, wc_interval_ms = Some 1\<rparr> = Inr (30000, 10)
   \<and> (30000 :: u64) \<le> 30000 \<and> (10 :: u64) \<le> 10"
proof -
  have w: "wait_condition_validate \<lparr>wc_kind = ''element_present'', wc_element_index = Some 4,
      wc_text = None, wc_value = None, wc_timeout_ms = Some 99999, wc_interval_ms = Some 1\<rparr>
      = Inr (30000, 10)"
    by (simp add: wait_condition_validate_def unwrap_or_def clamp_def)
  from request_limits_bounded [THEN conjunct2, THEN conjunct1, THEN mp, OF w] w show ?thesis by simp
qed

end
