(* ===== verification/Host_Request.thy ===== *)
theory Host_Request
  imports Host_Action
begin

text \<open>
  The requests of the Host wire protocol (\<open>enum Request\<close> of \<open>dcc-cua-host/src/lib.rs\<close>) and the two
  routing tables over them: the session, grant, capability and method a window request is
  authorized under (\<open>task_authorization_scope.rs\<close>) and the evidence route of a request
  (\<open>request_handler/evidence_epoch.rs\<close>).

  The three binding fields \<open>session_id\<close>, \<open>task_grant_id\<close> and \<open>window_capability\<close> that most requests
  share are one record, the source's own \<open>CapturePreparationBindings\<close>.
\<close>

section \<open>Requests\<close>

record CapturePreparationBindings =
  wb_session_id :: string
  wb_task_grant_id :: string
  wb_window_capability :: string

datatype WindowOperation = Activate | RestoreActivate | CloseWindow | DismissMenu

datatype PostSnapshotMode = FullSnapshot | SemanticSnapshot

datatype ComputerUseRecordingProgressLane = Trajectory | Video

record ComputerUseRecordingProgressFingerprint =
  fp_lane :: ComputerUseRecordingProgressLane
  fp_trajectory_turn :: "u64 option"
  fp_finalized_segments :: u64
  fp_current_partial_size_bytes :: "u64 option"
  fp_current_partial_modified_at_unix_ms :: "u64 option"

record ComputerUseSessionHealthPolicy =
  sh_require_recording_healthy :: bool
  sh_require_recording_progress :: bool
  sh_previous_recording_progress :: "ComputerUseRecordingProgressFingerprint option"

record ListWindowsParams =
  lw_app :: "string option"
  lw_pid :: "u32 option"
  lw_window_id :: "u64 option"
  lw_window_title :: "string option"
  lw_on_screen_only :: bool

record SnapshotParams =
  sn_max_depth :: u32
  sn_max_nodes :: u32
  sn_activate_before :: bool
  sn_capture_diagnostics :: bool
  sn_native_capture_popup_window_handles :: "u64 list"

record VerifyStateParams =
  vs_expect :: json
  vs_timeout_ms :: "u64 option"
  vs_stable_samples :: "u64 option"
  vs_include_screenshot :: bool

record ExecuteActionParams =
  ea_observation_id :: string
  ea_accessibility_state_id :: string
  ea_action :: HostAction
  ea_capture_after :: bool
  ea_post_snapshot_delay_ms :: u64
  ea_post_snapshot_max_depth :: u32
  ea_post_snapshot_max_nodes :: u32
  ea_post_snapshot_mode :: PostSnapshotMode

record DesktopActionParams =
  da_session_id :: string
  da_task_grant_id :: string
  da_desktop_capability :: string
  da_observation_id :: string
  da_action :: HostAction
  da_capture_after :: bool
  da_post_snapshot_delay_ms :: u64

record OpenSessionParams =
  os_session_id :: string
  os_grant :: TaskGrant
  os_activate_before :: bool
  os_indicator_motion :: IndicatorMotionPolicy
  os_idle_timeout_ms :: u64

text \<open>
  The variants of the enum, in four groups: requests without a bound window, browser extension
  requests, browser requests and the other requests of a bound window.
\<close>

datatype GlobalRequest =
    Hello HelloParams
  | Ping
  | Doctor
  | RegisterBrowserExtension json string u32 "u64 option"
  | BrowserExtensionTransportBinding
  | BrowserExtensionNext string string u64
  | CompleteBrowserExtension string string json
  | UnregisterBrowserExtension string string
  | InterruptAll
  | ListApps
  | ListTools
  | ListWindows ListWindowsParams
  | WaitForWindow ComputerUseWindowWaitRequest
  | DesktopSnapshot
  | ScreenSize
  | CursorPosition
  | OpenDesktopSession string TaskGrant
  | DesktopSessionSnapshot string string string
  | ExecuteDesktopAction DesktopActionParams
  | StopDesktopSession string
  | LaunchApp string TaskGrant ComputerUseLaunchRequest
  | OpenSession OpenSessionParams
  | CallGlobalTool TaskGrant string json
  | StopSession string
  | CancelRequest CapturePreparationBindings
  | CancelWindowWait string

datatype ExtensionRequest =
    BrowserExtensionStatus
  | BrowserExtensionCall string string string json u64

datatype BrowserRequest =
    BrowserSnapshot BrowserSnapshotRequest
  | BrowserPrepare BrowserPrepareRequest
  | BrowserNavigate BrowserNavigateRequest
  | BrowserClick BrowserClickRequest
  | BrowserType BrowserTypeRequest
  | BrowserPointer BrowserPointerRequest
  | BrowserSetInputFiles BrowserSetInputFilesRequest
  | BrowserDownload BrowserDownloadRequest
  | BrowserDialog BrowserDialogRequest

datatype CaptureRequest =
    CapturePreparationBegin CapturePreparationBeginRequest
  | CapturePreparationState
  | CapturePreparationStop
  | CapturePreparationSnapshot
  | RecordingStart ComputerUseRecordingStartRequest
  | RecordingStop
  | RecordingState
  | LiveObservationStart ComputerUseLiveObservationStartRequest
  | LiveObservationState
  | LiveObservationStop

datatype WindowRequest =
    TerminateApp
  | ClipboardRead bool
  | ClipboardCaptureSecret string string
  | ClipboardWrite ComputerUseClipboardWriteRequest
  | GetWindowState
  | ChangeWindowState WindowOperation "string option"
  | MinimizeWindow string
  | SetWindowFrame "string option" ComputerUseWindowFrameRequest
  | InvokeMenu ComputerUseMenuRequest
  | Snapshot SnapshotParams
  | Zoom ComputerUseZoomRequest
  | AccessibilitySnapshot u32 u32
  | VerifyState VerifyStateParams
  | CallTool string json
  | FindRequest FindQuery
  | WaitFor WaitCondition
  | ExecuteAction ExecuteActionParams
  | ResumeSession
  | GetSessionState
  | GetInputState
  | SessionHealth ComputerUseSessionHealthPolicy
  | PollSessionEvents u64 u64
  | CursorTool string json
  | EscalateSession string "string option"

datatype Request =
    Global GlobalRequest
  | Extension CapturePreparationBindings ExtensionRequest
  | Browser CapturePreparationBindings BrowserRequest
  | Capture CapturePreparationBindings CaptureRequest
  | Window CapturePreparationBindings WindowRequest

section \<open>Routing tables\<close>

fun capture_method :: "CaptureRequest \<Rightarrow> string" where
  "capture_method (CapturePreparationBegin _) = ''capture_preparation_begin''"
| "capture_method CapturePreparationState = ''capture_preparation_state''"
| "capture_method CapturePreparationStop = ''capture_preparation_stop''"
| "capture_method CapturePreparationSnapshot = ''capture_preparation_snapshot''"
| "capture_method (RecordingStart _) = ''recording_start''"
| "capture_method RecordingStop = ''recording_stop''"
| "capture_method RecordingState = ''recording_state''"
| "capture_method (LiveObservationStart _) = ''live_observation_start''"
| "capture_method LiveObservationState = ''live_observation_state''"
| "capture_method LiveObservationStop = ''live_observation_stop''"

fun browser_method :: "BrowserRequest \<Rightarrow> string" where
  "browser_method (BrowserSnapshot _) = ''browser_snapshot''"
| "browser_method (BrowserPrepare _) = ''browser_prepare''"
| "browser_method (BrowserNavigate _) = ''browser_navigate''"
| "browser_method (BrowserClick _) = ''browser_click''"
| "browser_method (BrowserType _) = ''browser_type''"
| "browser_method (BrowserPointer _) = ''browser_pointer''"
| "browser_method (BrowserSetInputFiles _) = ''browser_set_input_files''"
| "browser_method (BrowserDownload _) = ''browser_download''"
| "browser_method (BrowserDialog _) = ''browser_dialog''"

fun window_method :: "WindowRequest \<Rightarrow> string" where
  "window_method TerminateApp = ''terminate_app''"
| "window_method (ClipboardRead _) = ''clipboard_read''"
| "window_method (ClipboardCaptureSecret _ _) = ''clipboard_capture_secret''"
| "window_method (ClipboardWrite _) = ''clipboard_write''"
| "window_method GetWindowState = ''get_window_state''"
| "window_method (ChangeWindowState _ _) = ''change_window_state''"
| "window_method (MinimizeWindow _) = ''minimize_window''"
| "window_method (SetWindowFrame _ _) = ''set_window_frame''"
| "window_method (InvokeMenu _) = ''invoke_menu''"
| "window_method (Snapshot _) = ''snapshot''"
| "window_method (Zoom _) = ''zoom''"
| "window_method (AccessibilitySnapshot _ _) = ''accessibility_snapshot''"
| "window_method (VerifyState _) = ''verify_state''"
| "window_method (CallTool _ _) = ''call_tool''"
| "window_method (FindRequest _) = ''find''"
| "window_method (WaitFor _) = ''wait_for''"
| "window_method (ExecuteAction _) = ''execute_action''"
| "window_method ResumeSession = ''resume_session''"
| "window_method GetSessionState = ''get_session_state''"
| "window_method GetInputState = ''get_input_state''"
| "window_method (SessionHealth _) = ''session_health''"
| "window_method (PollSessionEvents _ _) = ''poll_session_events''"
| "window_method (CursorTool _ _) = ''cursor_tool''"
| "window_method (EscalateSession _ _) = ''escalate_session''"

fun window_method_scope :: "Request \<Rightarrow> (CapturePreparationBindings \<times> string) option" where
  "window_method_scope (Capture b r) = Some (b, capture_method r)"
| "window_method_scope (Browser b r) = Some (b, browser_method r)"
| "window_method_scope (Window b r) = Some (b, window_method r)"
| "window_method_scope (Extension _ _) = None"
| "window_method_scope (Global _) = None"

text \<open>The method an extension request is checked under by its own route (\<open>browser_extension.rs\<close>).\<close>

fun extension_method :: "ExtensionRequest \<Rightarrow> string" where
  "extension_method BrowserExtensionStatus = ''browser_extension_status''"
| "extension_method (BrowserExtensionCall _ _ _ _ _) = ''browser_extension_call''"

datatype HostEvidencePublication = NoPublication | PublishBrowserSnapshot | BrowserSnapshotAttempt

record WindowEvidenceEpochRoute =
  er_session_id :: string
  er_publication :: HostEvidencePublication

fun window_evidence_epoch_route :: "Request \<Rightarrow> WindowEvidenceEpochRoute option" where
  "window_evidence_epoch_route (Browser b (BrowserSnapshot _)) =
     Some \<lparr>er_session_id = wb_session_id b, er_publication = BrowserSnapshotAttempt\<rparr>"
| "window_evidence_epoch_route (Browser b _) =
     Some \<lparr>er_session_id = wb_session_id b, er_publication = NoPublication\<rparr>"
| "window_evidence_epoch_route (Capture b _) =
     Some \<lparr>er_session_id = wb_session_id b, er_publication = NoPublication\<rparr>"
| "window_evidence_epoch_route (Window b _) =
     Some \<lparr>er_session_id = wb_session_id b, er_publication = NoPublication\<rparr>"
| "window_evidence_epoch_route (Extension b _) =
     Some \<lparr>er_session_id = wb_session_id b, er_publication = NoPublication\<rparr>"
| "window_evidence_epoch_route (Global _) = None"

section \<open>The tables agree\<close>

lemma authorizable_iff: "is_task_authorizable_host_method m \<longleftrightarrow> m \<in> set task_authorizable_host_methods"
  by (simp add: is_task_authorizable_host_method_def)

lemma capture_method_authorizable: "is_task_authorizable_host_method (capture_method c)"
  by (cases c) (simp_all add: authorizable_iff task_authorizable_host_methods_def)

lemma browser_method_authorizable: "is_task_authorizable_host_method (browser_method b)"
  by (cases b) (simp_all add: authorizable_iff task_authorizable_host_methods_def)

lemma window_method_authorizable: "is_task_authorizable_host_method (window_method w)"
  by (cases w) (simp_all add: authorizable_iff task_authorizable_host_methods_def)

lemma extension_method_authorizable: "is_task_authorizable_host_method (extension_method e)"
  by (cases e) (simp_all add: authorizable_iff task_authorizable_host_methods_def)

lemmas method_authorizable = capture_method_authorizable browser_method_authorizable
  window_method_authorizable extension_method_authorizable

lemma evidence_route_session:
  "window_method_scope r = Some (b, m) \<Longrightarrow>
   \<exists>route. window_evidence_epoch_route r = Some route \<and> er_session_id route = wb_session_id b"
  by (cases r rule: window_evidence_epoch_route.cases) auto

lemmas method_ranges =
  capture_method.simps [THEN sym, THEN range_eqI [of _ capture_method]] browser_method.simps [THEN sym, THEN range_eqI [of _ browser_method]]
  window_method.simps [THEN sym, THEN range_eqI [of _ window_method]] extension_method.simps [THEN sym, THEN range_eqI [of _ extension_method]]

lemma authorizable_methods:
  "set task_authorizable_host_methods =
     range capture_method \<union> range browser_method \<union> range window_method \<union> range extension_method"
proof
  show "set task_authorizable_host_methods \<subseteq>
     range capture_method \<union> range browser_method \<union> range window_method \<union> range extension_method"
    using method_ranges by (simp add: task_authorizable_host_methods_def)
  show "range capture_method \<union> range browser_method \<union> range window_method \<union> range extension_method
     \<subseteq> set task_authorizable_host_methods"
    using method_authorizable by (auto simp: is_task_authorizable_host_method_def)
qed

text \<open>
  C29. The method table and the request types agree. Every window request is authorized under a
  method a task may list; every method a task may list belongs to a window request or to an
  extension request, which its own route checks; and a request is routed for action evidence
  exactly when it addresses a window session, under that session's id.
\<close>
theorem method_table_exact:
  "(window_method_scope r = Some (b, m) \<longrightarrow> (is_task_authorizable_host_method m
     \<and> (\<exists>route. window_evidence_epoch_route r = Some route \<and> er_session_id route = wb_session_id b)))
    \<and> (is_task_authorizable_host_method m \<longleftrightarrow>
     (\<exists>r b. window_method_scope r = Some (b, m)) \<or> (\<exists>e. m = extension_method e))
    \<and> (window_evidence_epoch_route r = None \<longleftrightarrow> (\<exists>g. r = Global g))"
proof (rule conjI [OF impI conjI [OF _ _]])
  show "is_task_authorizable_host_method m
     \<and> (\<exists>route. window_evidence_epoch_route r = Some route \<and> er_session_id route = wb_session_id b)"
    if "window_method_scope r = Some (b, m)"
  proof
    from that show "is_task_authorizable_host_method m"
      by (cases r) (auto simp: method_authorizable)
    from that show "\<exists>route. window_evidence_epoch_route r = Some route \<and> er_session_id route = wb_session_id b"
      by (rule evidence_route_session)
  qed
  have "(\<exists>r b. window_method_scope r = Some (b, m)) \<longleftrightarrow>
      m \<in> range capture_method \<union> range browser_method \<union> range window_method"
  proof
    assume "\<exists>r b. window_method_scope r = Some (b, m)"
    then obtain r b where "window_method_scope r = Some (b, m)" by blast
    then show "m \<in> range capture_method \<union> range browser_method \<union> range window_method"
      by (cases r) auto
  next
    assume "m \<in> range capture_method \<union> range browser_method \<union> range window_method"
    then consider c where "m = capture_method c" | c where "m = browser_method c"
      | c where "m = window_method c" by blast
    then show "\<exists>r b. window_method_scope r = Some (b, m)"
      by cases (metis window_method_scope.simps(1) window_method_scope.simps(2)
          window_method_scope.simps(3))+
  qed
  then show "is_task_authorizable_host_method m \<longleftrightarrow>
     (\<exists>r b. window_method_scope r = Some (b, m)) \<or> (\<exists>e. m = extension_method e)"
    using authorizable_methods by (auto simp: is_task_authorizable_host_method_def)
  show "window_evidence_epoch_route r = None \<longleftrightarrow> (\<exists>g. r = Global g)"
    by (cases r rule: window_evidence_epoch_route.cases) auto
qed

theorem method_table_exact_witness:
  "is_task_authorizable_host_method ''browser_dialog''"
  using method_table_exact [THEN conjunct1, THEN mp, of "Browser \<lparr>wb_session_id = ''s'', wb_task_grant_id = ''g'',
      wb_window_capability = ''c''\<rparr> (BrowserDialog \<lparr>bdg_target_id = ''t'', bdg_tab_id = ''b'',
      bdg_action = ''inspect'', bdg_dialog_id = None, bdg_prompt_text = None, bdg_delivery_mode = None\<rparr>)"]
  by simp

end
