(* ===== verification/Extension_Input.thy ===== *)
theory Extension_Input
  imports Host_Request
begin

text \<open>
  Observations of the browser extension provider and the actions they admit
  (\<open>dcc-cua-host/src/extension_input.rs\<close>). \<open>Instant::elapsed\<close> is the monotonic time since the
  observation, never negative.
\<close>

section \<open>Observations\<close>

record ExtensionObservation =
  eo_provider_id :: string
  eo_origin :: string
  eo_snapshot :: json
  eo_observed_at :: nat

fun validate_refs :: "json list \<Rightarrow> string list \<Rightarrow> HostError + unit" where
  "validate_refs [] ids = Inr ()"
| "validate_refs (node # refs) ids =
     (case as_str (json_index node ''ref'') of
        Some name \<Rightarrow>
          if name = [] \<or> length name > 128 then Inl (Protocol ''invalid extension ref'')
          else if name \<in> set ids then Inl (Protocol ''duplicate extension ref'')
          else validate_refs refs (name # ids)
      | None \<Rightarrow> Inl (Protocol ''invalid extension ref''))"

definition extension_identity_bad :: "json \<Rightarrow> string \<Rightarrow> json list \<Rightarrow> bool" where
  "extension_identity_bad snapshot origin refs \<longleftrightarrow>
     length refs > 300
     \<or> as_str (json_index (json_index snapshot ''document'') ''origin'') \<noteq> Some origin
     \<or> is_none_or (as_str (json_index snapshot ''snapshot_id'')) (\<lambda>name. name = [] \<or> length name > 128)
     \<or> is_none_or (as_str (json_index (json_index snapshot ''document'') ''id'')) (\<lambda>name. name = [])"

definition extension_observation_new ::
  "world \<Rightarrow> string \<Rightarrow> string \<Rightarrow> json \<Rightarrow> HostError + ExtensionObservation" where
  "extension_observation_new w provider_id origin snapshot =
     (case as_array (json_index snapshot ''refs'') of
        None \<Rightarrow> Inl (Protocol ''extension snapshot omitted refs'')
      | Some refs \<Rightarrow>
        if extension_identity_bad snapshot origin refs
        then Inl (Protocol ''invalid extension snapshot identity'')
        else and_then (validate_refs refs []) (\<lambda>_.
          Inr \<lparr>eo_provider_id = provider_id, eo_origin = origin, eo_snapshot = snapshot,
               eo_observed_at = mono_ns w\<rparr>))"

section \<open>Actions\<close>

definition thirty_seconds :: nat where "thirty_seconds = 30 * 1000000000"

definition extension_stale :: "world \<Rightarrow> ExtensionObservation \<Rightarrow> string \<Rightarrow> string \<Rightarrow> json \<Rightarrow> bool" where
  "extension_stale w ob provider origin params \<longleftrightarrow>
     eo_provider_id ob \<noteq> provider \<or> eo_origin ob \<noteq> origin
     \<or> mono_ns w - eo_observed_at ob > thirty_seconds
     \<or> json_index params ''snapshot_id'' \<noteq> json_index (eo_snapshot ob) ''snapshot_id''"

definition navigation_target :: "externs \<Rightarrow> string \<Rightarrow> json \<Rightarrow> HostError + string" where
  "navigation_target x origin params =
     (case as_object params of
        None \<Rightarrow> Inl (Protocol ''navigation accepts only snapshot_id and url'')
      | Some fs \<Rightarrow>
        if length fs \<noteq> 2 then Inl (Protocol ''navigation accepts only snapshot_id and url'')
        else case get_str params ''url'' of
          None \<Rightarrow> Inl (Protocol ''navigation requires a bounded URL'')
        | Some target \<Rightarrow>
          if target = [] \<or> length target > 2048 then Inl (Protocol ''navigation requires a bounded URL'')
          else case url_parse x target of
            None \<Rightarrow> Inl (Protocol ''navigation requires an absolute URL'')
          | Some u \<Rightarrow>
            if scheme u \<notin> {''http'', ''https''} \<or> username u \<noteq> [] \<or> password u \<noteq> None
               \<or> ascii_origin u \<noteq> origin
            then Inl (Protocol
              ''navigation must remain in the exact allowed origin without credentials'')
            else Inr target)"

definition extension_ref :: "ExtensionObservation \<Rightarrow> json \<Rightarrow> json option" where
  "extension_ref ob params =
     Option.bind (as_array (json_index (eo_snapshot ob) ''refs''))
       (find (\<lambda>node. json_index node ''ref'' = json_index params ''ref''))"

definition extension_actionable :: "json \<Rightarrow> string \<Rightarrow> bool" where
  "extension_actionable node method \<longleftrightarrow>
     is_some_and (as_array (json_index node ''actions'')) (list_ex (\<lambda>action. action = JStr method))
     \<and> json_index node ''visibility'' = JStr ''in_viewport''
     \<and> json_index (json_index node ''states'') ''disabled'' = JBool False"

definition extension_typing_bad :: "json \<Rightarrow> json \<Rightarrow> bool" where
  "extension_typing_bad node params \<longleftrightarrow>
     json_index (json_index node ''states'') ''sensitive'' \<noteq> JBool False
     \<or> json_index params ''replace'' \<noteq> JBool True
     \<or> is_none_or (as_str (json_index params ''text'')) (\<lambda>text. char_count text > 4096)"

definition navigation_action :: "externs \<Rightarrow> string \<Rightarrow> string \<Rightarrow> json \<Rightarrow> string \<Rightarrow> json" where
  "navigation_action x provider origin params target =
     JObj [(''action'', JStr ''browser_extension_navigate''), (''input_kind'', JStr ''browser''),
       (''authorization_category'', JStr ''external_effect''), (''browser_origin'', JStr origin),
       (''snapshot_id'', json_index params ''snapshot_id''), (''provider_id'', JStr provider),
       (''target_url_sha256'', JStr (sha256_hex x target))]"

definition control_action :: "externs \<Rightarrow> string \<Rightarrow> string \<Rightarrow> string \<Rightarrow> json \<Rightarrow> json" where
  "control_action x provider origin method params =
     JObj [(''action'', JStr method), (''input_kind'', JStr ''semantic''),
       (''authorization_category'',
          JStr (if method = ''click'' then ''external_effect'' else ''content_change'')),
       (''ref'', json_index params ''ref''), (''snapshot_id'', json_index params ''snapshot_id''),
       (''provider_id'', JStr provider), (''browser_origin'', JStr origin),
       (''text_sha256'', json_opt (\<lambda>text. JStr (sha256_hex x text)) (as_str (json_index params ''text'')))]"

definition extension_action ::
  "externs \<Rightarrow> world \<Rightarrow> ExtensionObservation \<Rightarrow> string \<Rightarrow> string \<Rightarrow> string \<Rightarrow> json \<Rightarrow> HostError + json" where
  "extension_action x w ob provider origin method params =
     (if extension_stale w ob provider origin params
      then Inl (Protocol ''stale extension observation; take a fresh snapshot'')
      else if method = ''navigate''
      then and_then (navigation_target x origin params) (\<lambda>target.
        Inr (navigation_action x provider origin params target))
      else case extension_ref ob params of
        None \<Rightarrow> Inl (Protocol ''extension ref was not observed by this task'')
      | Some node \<Rightarrow>
        if \<not> extension_actionable node method
        then Inl (Protocol ''extension control is not actionable'')
        else if method = ''type'' \<and> extension_typing_bad node params
        then Inl (Protocol
          ''extension typing requires an explicitly non-sensitive control and bounded text'')
        else Inr (control_action x provider origin method params))"

section \<open>Properties\<close>

lemma validate_refs_distinct:
  "validate_refs refs ids = Inr u \<Longrightarrow> distinct ids \<Longrightarrow>
   \<exists>names. map (\<lambda>n. json_index n ''ref'') refs = map JStr names \<and> distinct (ids @ names)
     \<and> (\<forall>n \<in> set names. n \<noteq> [] \<and> length n \<le> 128)"
proof (induction refs arbitrary: ids)
  case (Cons node refs)
  from Cons.prems obtain name where name: "as_str (json_index node ''ref'') = Some name" "name \<noteq> []"
      "length name \<le> 128" "name \<notin> set ids" "validate_refs refs (name # ids) = Inr u"
    by (auto split: option.splits if_splits)
  from Cons.IH [OF name(5)] name(4) Cons.prems(2) obtain names where
    "map (\<lambda>n. json_index n ''ref'') refs = map JStr names" "distinct ((name # ids) @ names)"
    "\<forall>n \<in> set names. n \<noteq> [] \<and> length n \<le> 128" by auto
  moreover have "json_index node ''ref'' = JStr name"
    using name(1) by (cases "json_index node ''ref''") simp_all
  ultimately show ?case using name(2,3) by (intro exI [of _ "name # names"]) auto
qed auto

lemma unique_ref:
  assumes "distinct names" and "map (\<lambda>n. json_index n ''ref'') refs = map JStr names"
    and "n \<in> set refs" "n' \<in> set refs" "json_index n ''ref'' = json_index n' ''ref''"
  shows "n = n'"
proof -
  from assms(1,2) have "distinct (map (\<lambda>n. json_index n ''ref'') refs)"
    by (simp add: distinct_map inj_on_def)
  then have "inj_on (\<lambda>n. json_index n ''ref'') (set refs)" by (simp add: distinct_map)
  with assms(3-5) show ?thesis by (auto dest: inj_onD)
qed

text \<open>
  An extension action addresses a control the task observed. If the Host accepts a control
  action on an observation it recorded, the observation comes from the same provider and origin and
  is at most 30 seconds old, the request names its snapshot, and exactly one observed control has
  the requested reference; that control lists the method, is in the viewport and not disabled, and
  text is typed only into a control marked non-sensitive. The action handed to authorization
  carries digests, never the text.
\<close>
theorem extension_action_observed:
  assumes obs: "extension_observation_new w0 provider0 origin0 snapshot = Inr ob"
    and act: "extension_action x w ob provider origin method params = Inr a"
    and "method \<noteq> ''navigate''"
  shows "(provider = provider0 \<and> origin = origin0 \<and> mono_ns w - mono_ns w0 \<le> thirty_seconds)
    \<and> (json_index params ''snapshot_id'' = json_index snapshot ''snapshot_id'')
    \<and> (\<exists>!node. \<exists>refs. json_index snapshot ''refs'' = JArr refs \<and> node \<in> set refs
      \<and> json_index node ''ref'' = json_index params ''ref'')
    \<and> (\<exists>refs node. json_index snapshot ''refs'' = JArr refs \<and> node \<in> set refs
      \<and> json_index node ''ref'' = json_index params ''ref'' \<and> extension_actionable node method
      \<and> (method = ''type'' \<longrightarrow> json_index (json_index node ''states'') ''sensitive'' = JBool False))
    \<and> (a = control_action x provider origin method params)
    \<and> (json_get a ''text'' = None)"
proof (rule conjI [OF _ conjI [OF _ conjI [OF _ conjI [OF _ conjI [OF _ _]]]]])
  from obs obtain refs where refs: "as_array (json_index snapshot ''refs'') = Some refs"
      "validate_refs refs [] = Inr ()"
    and ob: "ob = \<lparr>eo_provider_id = provider0, eo_origin = origin0, eo_snapshot = snapshot,
      eo_observed_at = mono_ns w0\<rparr>"
    by (auto simp: extension_observation_new_def and_then_Inr_iff split: option.splits if_splits)
  from refs(1) have arr: "json_index snapshot ''refs'' = JArr refs"
    by (cases "json_index snapshot ''refs''") simp_all
  from validate_refs_distinct [OF refs(2)] obtain names where
    names: "distinct names" "map (\<lambda>n. json_index n ''ref'') refs = map JStr names" by auto
  from act assms(3) obtain node where fresh: "\<not> extension_stale w ob provider origin params"
    and node: "extension_ref ob params = Some node" "extension_actionable node method"
      "method = ''type'' \<longrightarrow> \<not> extension_typing_bad node params"
    and a: "a = control_action x provider origin method params"
    by (auto simp: extension_action_def split: if_splits option.splits)
  from node(1) have mem: "node \<in> set refs" "json_index node ''ref'' = json_index params ''ref''"
    by (auto simp: extension_ref_def ob refs(1) find_Some_iff)
  show "provider = provider0 \<and> origin = origin0 \<and> mono_ns w - mono_ns w0 \<le> thirty_seconds"
    "json_index params ''snapshot_id'' = json_index snapshot ''snapshot_id''"
    using fresh by (auto simp: extension_stale_def ob)
  show "\<exists>!node. \<exists>refs. json_index snapshot ''refs'' = JArr refs \<and> node \<in> set refs
      \<and> json_index node ''ref'' = json_index params ''ref''"
    using mem arr unique_ref [OF names] by (intro ex1I [of _ node]) auto
  show "\<exists>refs node. json_index snapshot ''refs'' = JArr refs \<and> node \<in> set refs
      \<and> json_index node ''ref'' = json_index params ''ref'' \<and> extension_actionable node method
      \<and> (method = ''type'' \<longrightarrow> json_index (json_index node ''states'') ''sensitive'' = JBool False)"
    using mem arr node by (auto simp: extension_typing_bad_def)
  show "a = control_action x provider origin method params" "json_get a ''text'' = None"
    using a by (simp_all add: control_action_def)
qed

definition example_node :: json where
  "example_node = JObj [(''ref'', JStr ''e1''), (''actions'', JArr [JStr ''click'']),
     (''visibility'', JStr ''in_viewport''), (''states'', JObj [(''disabled'', JBool False)])]"

definition example_extension_snapshot :: json where
  "example_extension_snapshot = JObj [(''snapshot_id'', JStr ''s1''), (''refs'', JArr [example_node]),
     (''document'', JObj [(''origin'', JStr ''https://a.example''), (''id'', JStr ''d1'')])]"

definition example_params :: json where
  "example_params = JObj [(''snapshot_id'', JStr ''s1''), (''ref'', JStr ''e1'')]"

definition example_observation :: ExtensionObservation where
  "example_observation = \<lparr>eo_provider_id = ''p'', eo_origin = ''https://a.example'',
     eo_snapshot = example_extension_snapshot, eo_observed_at = mono_ns example_world\<rparr>"

theorem extension_action_observed_witness:
  "\<exists>refs node. json_index example_extension_snapshot ''refs'' = JArr refs \<and> node \<in> set refs
     \<and> json_index node ''ref'' = json_index example_params ''ref'' \<and> extension_actionable node ''click''"
proof -
  have 1: "extension_observation_new example_world ''p'' ''https://a.example'' example_extension_snapshot
      = Inr example_observation"
    by (simp add: extension_observation_new_def example_extension_snapshot_def example_observation_def
        extension_identity_bad_def json_index_def example_node_def)
  have 2: "extension_action example_externs example_world example_observation ''p''
      ''https://a.example'' ''click'' example_params
      = Inr (control_action example_externs ''p'' ''https://a.example'' ''click'' example_params)"
    by (simp add: extension_action_def extension_stale_def example_observation_def example_params_def
        example_extension_snapshot_def extension_ref_def json_index_def example_node_def
        extension_actionable_def)
  from extension_action_observed [THEN conjunct2, THEN conjunct2, THEN conjunct2, THEN conjunct1,
      OF 1 2] show ?thesis by auto
qed

end
