(* ===== verification/Session_State.thy ===== *)
theory Session_State
  imports Extension_Input "HOL-Library.Monad_Syntax"
begin

text \<open>
  The window sessions of a Host connection (\<open>dcc-cua-host/src/session_state.rs\<close>): the grant bits
  and the lease a session holds, the native and browser evidence it caches, and the evidence epoch
  that says which of it is current. The core session (\<open>dcc-cua-core/src/runtime.rs\<close>,
  \<open>runtime/session.rs\<close>) is modelled by its evidence: epoch, observation, element tokens and the
  fences of its live stream. Shared image handles and the interrupt channel are not modelled;
  the non-Windows build is.

  \<open>ActionEvidenceEpoch::advanced\<close> panics when the counter is exhausted: operations that advance the
  epoch return \<open>None\<close> then.
\<close>

section \<open>Evidence epochs (contracts.rs)\<close>

datatype ActionEvidenceEpoch = Epoch (epoch_counter: u64)

instantiation ActionEvidenceEpoch :: linorder
begin

definition less_eq_ActionEvidenceEpoch :: "ActionEvidenceEpoch \<Rightarrow> ActionEvidenceEpoch \<Rightarrow> bool" where
  "less_eq_ActionEvidenceEpoch a b \<longleftrightarrow> epoch_counter a \<le> epoch_counter b"

definition less_ActionEvidenceEpoch :: "ActionEvidenceEpoch \<Rightarrow> ActionEvidenceEpoch \<Rightarrow> bool" where
  "less_ActionEvidenceEpoch a b \<longleftrightarrow> epoch_counter a < epoch_counter b"

instance
  by standard
     (auto simp: less_eq_ActionEvidenceEpoch_def less_ActionEvidenceEpoch_def
       intro: ActionEvidenceEpoch.expand)

end

definition advanced :: "ActionEvidenceEpoch \<Rightarrow> ActionEvidenceEpoch option" where
  "advanced e = map_option Epoch (checked_add (epoch_counter e) 1)"

lemma advanced_greater: "advanced e = Some e' \<Longrightarrow> e < e'"
  by (auto simp: advanced_def checked_add_def less_ActionEvidenceEpoch_def word_less_nat_alt
      unat_word_ariths split: if_splits)

section \<open>The evidence of a core session\<close>

record ComputerUseObservation =
  ob_observation_id :: string
  ob_window_handle :: u64
  ob_process_id :: u32
  ob_window_title :: string
  ob_width :: u32
  ob_height :: u32
  ob_source_rect :: "i32 \<times> i32 \<times> i32 \<times> i32"
  ob_capture_backend :: string
  ob_capture_provenance :: json
  ob_session_id :: string

record ObservedSdkElementTokens =
  et_observation_id :: string
  et_session_id :: string
  et_process_id :: u32
  et_window_handle :: u64
  et_tokens :: "(u32 \<times> string option) list"

record LiveObservationFence =
  lf_stream_id :: u64
  lf_sequence :: u64

text \<open>\<open>latest_fence\<close> of the live observation, if one is running.\<close>

record ComputerUseSession =
  cs_observation :: "ComputerUseObservation option"
  cs_sdk_element_tokens :: "ObservedSdkElementTokens option"
  cs_action_evidence_epoch :: ActionEvidenceEpoch
  cs_live_fence :: "LiveObservationFence option"
  cs_post_action_live_sequence_fence :: "LiveObservationFence option"
  cs_observation_transition_live_sequence_fence :: "LiveObservationFence option"

definition core_invalidate_action_observations :: "ComputerUseSession \<Rightarrow> ComputerUseSession option" where
  "core_invalidate_action_observations s = do {
     epoch \<leftarrow> advanced (cs_action_evidence_epoch s);
     Some (s\<lparr>cs_sdk_element_tokens := None, cs_action_evidence_epoch := epoch,
             cs_observation_transition_live_sequence_fence :=
               (case cs_live_fence s of Some fence \<Rightarrow> Some fence
                | None \<Rightarrow> cs_observation_transition_live_sequence_fence s),
             cs_observation := None, cs_post_action_live_sequence_fence := None\<rparr>)
   }"

section \<open>Host sessions\<close>

record HostSession =
  hs_extension_observation :: "ExtensionObservation option"
  hs_runtime_session_id :: string
  hs_target_process_id :: u32
  hs_target_window_handle :: u64
  hs_task_grant_id :: string
  hs_observation_mode :: TaskObservationMode
  hs_allow_raw_input :: bool
  hs_allow_app_terminate :: bool
  hs_allow_clipboard_read :: bool
  hs_allow_clipboard_write :: bool
  hs_allow_recording :: bool
  hs_allow_live_observation :: bool
  hs_allow_browser_input :: bool
  hs_allow_browser_prepare :: bool
  hs_allowed_browser_origins :: "string list"
  hs_allow_browser_download :: bool
  hs_allow_native_tool :: bool
  hs_allow_menu_invoke :: bool
  hs_allow_session_escalation :: bool
  hs_allow_trusted_confirmation :: bool
  hs_task_authorization :: "TrustedTaskAuthorizationLease option"
  hs_allow_restore_activate :: bool
  hs_capability :: string
  hs_interrupted :: bool
  hs_session :: ComputerUseSession
  hs_synchronized_action_evidence_epoch :: ActionEvidenceEpoch
  hs_browser_evidence_epoch :: "ActionEvidenceEpoch option"
  hs_browser :: BrowserSession
  hs_latest_observation_id :: "string option"
  hs_latest_accessibility_state_id :: "string option"
  hs_latest_accessibility_root :: "json option"
  hs_input_events :: SessionEventQueue
  hs_idle_timeout_ns :: nat
  hs_last_activity_ns :: nat

definition task_browser_session ::
  "TrustedTaskAuthorizationLease option \<Rightarrow> HostError + BrowserSession" where
  "task_browser_session lease =
     (case Option.bind lease ls_browser_scope of
        None \<Rightarrow> Inr browser_session_default
      | Some scope \<Rightarrow>
        (let (r, browser) = bind_authorized_exact_target (bs_host_target_id scope) browser_session_default
         in and_then (to_host_error r) (\<lambda>_. Inr browser)))"

definition has_methods :: "string list \<Rightarrow> TrustedTaskAuthorizationLease \<Rightarrow> bool" where
  "has_methods required lease \<longleftrightarrow> list_all (\<lambda>m. m \<in> set (ls_allowed_host_methods lease)) required"

definition native_frame_lease_matches_binding ::
  "TrustedTaskAuthorizationLease option \<Rightarrow> string \<Rightarrow> string \<Rightarrow> string \<Rightarrow> u32 \<Rightarrow> u64 \<Rightarrow> bool" where
  "native_frame_lease_matches_binding lease session_id task_grant_id capability pid hwnd \<longleftrightarrow>
     is_some_and lease (\<lambda>l. ls_session_id l = session_id \<and> ls_task_grant_id l = task_grant_id
       \<and> ls_window_capability l = capability \<and> ls_target_process_id l = pid
       \<and> ls_target_window_handle l = hwnd
       \<and> has_methods [''get_window_state'', ''set_window_frame''] l
       \<and> list_ex is_window_frame (ls_allowed_actions l))"

section \<open>Grants of a session\<close>

definition bound_task_authorization ::
  "HostSession \<Rightarrow> string \<Rightarrow> string \<Rightarrow> TrustedTaskAuthorizationLease option" where
  "bound_task_authorization h session_id method =
     (case hs_task_authorization h of None \<Rightarrow> None
      | Some l \<Rightarrow>
        if ls_session_id l = session_id \<and> ls_task_grant_id l = hs_task_grant_id h
           \<and> ls_window_capability l = hs_capability h
           \<and> ls_target_process_id l = hs_target_process_id h
           \<and> ls_target_window_handle l = hs_target_window_handle h
           \<and> method \<in> set (ls_allowed_host_methods l)
        then Some l else None)"

abbreviation denied :: "string \<Rightarrow> HostError + 'a" where
  "denied message \<equiv> Inl (CodedProtocol TaskAuthorizationDenied message)"

definition filtered_lease ::
  "TrustedTaskAuthorizationLease option \<Rightarrow> (TrustedTaskAuthorizationLease \<Rightarrow> bool) \<Rightarrow> string
   \<Rightarrow> HostError + TrustedTaskAuthorizationLease" where
  "filtered_lease lease p message =
     (case lease of Some l \<Rightarrow> if p l then Inr l else denied message | None \<Rightarrow> denied message)"

definition require_native_capture_popup_keyboard_grant :: "HostSession \<Rightarrow> string \<Rightarrow> HostError + u64" where
  "require_native_capture_popup_keyboard_grant h session_id =
     and_then (filtered_lease (bound_task_authorization h session_id ''snapshot'')
       (\<lambda>l. hs_observation_mode h = PixelsOnly
            \<and> list_ex is_native_capture_popup_keyboard (ls_allowed_actions l))
       ''selected native capture popup observations require the independent trusted owner ceiling'')
       (\<lambda>l. Inr (ls_expires_at_unix_ms l))"

definition require_native_menu_dismiss_grant :: "HostSession \<Rightarrow> string \<Rightarrow> HostError + u64" where
  "require_native_menu_dismiss_grant h session_id =
     and_then (filtered_lease (bound_task_authorization h session_id ''change_window_state'')
       (\<lambda>l. hs_observation_mode h = PixelsOnly
            \<and> ''get_window_state'' \<in> set (ls_allowed_host_methods l)
            \<and> list_ex is_native_menu_dismiss (ls_allowed_actions l))
       ''dismiss_menu requires its exact trusted pixels_only window_state/dismiss_menu scope and native state read method'')
       (\<lambda>l. Inr (ls_expires_at_unix_ms l))"

definition require_capture_preparation_grant ::
  "world \<Rightarrow> HostSession \<Rightarrow> string \<Rightarrow> string \<Rightarrow> HostError + CapturePreparationAuthorization" where
  "require_capture_preparation_grant w h session_id method =
     and_then (filtered_lease (bound_task_authorization h session_id method)
       (\<lambda>l. hs_observation_mode h = PixelsOnly
            \<and> list_ex is_capture_preparation (ls_allowed_actions l)
            \<and> has_methods [''get_window_state'', ''capture_preparation_begin'',
                 ''capture_preparation_state'', ''capture_preparation_stop''] l
            \<and> ls_capture_preparation l \<noteq> None)
       ''capture preparation requires its exact trusted pixels_only lease, journal and closed lifecycle action scope'')
       (\<lambda>l. let authorization = the (ls_capture_preparation l) in
          case validate_recording_output_location w (cp_journal_directory authorization) of
            Inl _ \<Rightarrow> denied ''task authorization registration is invalid: capture preparation journal must be an existing ordinary absolute directory without reparse ancestors''
          | Inr _ \<Rightarrow> Inr authorization)"

definition require_minimize_grant :: "HostSession \<Rightarrow> string \<Rightarrow> HostError + unit" where
  "require_minimize_grant h session_id =
     guard (\<not> is_some_and (bound_task_authorization h session_id ''minimize_window'')
                (\<lambda>l. list_ex is_window_minimize (ls_allowed_actions l)))
       (CodedProtocol TaskAuthorizationDenied
         ''minimize_window requires the trusted window_state/minimize_window action scope'')"

definition require_window_frame_grant :: "HostSession \<Rightarrow> string \<Rightarrow> HostError + unit" where
  "require_window_frame_grant h session_id =
     guard (\<not> native_frame_lease_matches_binding (hs_task_authorization h) session_id
                (hs_task_grant_id h) (hs_capability h) (hs_target_process_id h) (hs_target_window_handle h))
       (CodedProtocol TaskAuthorizationDenied
         ''set_window_frame requires its exact trusted window_state action scope and native state read method'')"

definition pixels_action_supported :: "HostAction \<Rightarrow> bool" where
  "pixels_action_supported a \<longleftrightarrow>
     \<not> (ha_input_kind a \<noteq> ''raw_input'' \<or> ha_action a \<notin> set PIXELS_INPUT_ACTIONS
        \<or> ha_element_index a \<noteq> None \<or> ha_element_token a \<noteq> None \<or> ha_secret_handle a \<noteq> None
        \<or> ha_input_backend_id a \<noteq> None
        \<or> is_some_and (ha_delivery_mode a) (\<lambda>mode. mode \<noteq> ''foreground''))"

definition require_pixels_input_grant :: "HostSession \<Rightarrow> string \<Rightarrow> HostAction \<Rightarrow> HostError + unit" where
  "require_pixels_input_grant h session_id a =
     (if \<not> pixels_action_supported a
      then Inl (ComputerUse InvalidAction
        ''pixels_only input requires a supported raw action without semantic selectors, secrets, or alternate backends'')
      else guard (\<not> hs_allow_raw_input h
          \<or> \<not> is_some_and (bound_task_authorization h session_id ''execute_action'')
                (\<lambda>l. list_ex (\<lambda>scope. is_pixels_input scope \<and> sc_action scope = ha_action a)
                       (ls_allowed_actions l)))
        (CodedProtocol TaskAuthorizationDenied
          ''pixels_only input requires the exact supported raw_input action in the bound trusted task grant''))"

definition require_latest_observation :: "HostSession \<Rightarrow> string \<Rightarrow> HostError + unit" where
  "require_latest_observation h observation_id =
     guard (observation_id = [] \<or> hs_latest_observation_id h \<noteq> Some observation_id)
       (ComputerUse StaleObservation ''observation_id does not match the latest host snapshot'')"

definition record_snapshot_observation :: "string \<Rightarrow> json \<Rightarrow> HostSession \<Rightarrow> HostSession" where
  "record_snapshot_observation observation_id accessibility h =
     (let h = h\<lparr>hs_latest_observation_id := Some observation_id\<rparr> in
      if hs_observation_mode h = PixelsOnly
      then h\<lparr>hs_latest_accessibility_state_id := None, hs_latest_accessibility_root := None\<rparr>
      else h\<lparr>hs_latest_accessibility_state_id := Some observation_id,
             hs_latest_accessibility_root := Some accessibility\<rparr>)"

definition require_task_authorized_method :: "HostSession \<Rightarrow> string \<Rightarrow> HostError + unit" where
  "require_task_authorized_method h method =
     guard (is_some_and (hs_task_authorization h) (\<lambda>l. method \<notin> set (ls_allowed_host_methods l)))
       (CodedProtocol TaskAuthorizationDenied
         (''Host method '' @ method @ '' is outside the trusted task authorization''))"

definition require_allowed_browser_origin :: "HostSession \<Rightarrow> string \<Rightarrow> HostError + unit" where
  "require_allowed_browser_origin h origin =
     guard (hs_task_authorization h \<noteq> None \<and> origin \<notin> set (hs_allowed_browser_origins h))
       (CodedProtocol TaskAuthorizationDenied ''the browser origin is outside the task authorization'')"

definition session_browser_scope :: "HostSession \<Rightarrow> TrustedTaskAuthorizationBrowserScope option" where
  "session_browser_scope h = Option.bind (hs_task_authorization h) ls_browser_scope"

definition require_task_authorized_browser_target ::
  "HostSession \<Rightarrow> string \<Rightarrow> string \<Rightarrow> HostError + unit" where
  "require_task_authorized_browser_target h target_id tab_id =
     (case session_browser_scope h of None \<Rightarrow> Inr ()
      | Some scope \<Rightarrow>
        if target_id = bs_host_target_id scope \<and> tab_id = bs_tab_id scope then Inr ()
        else denied ''the browser target or tab is outside the trusted task authorization'')"

definition require_task_authorized_browser_document ::
  "HostSession \<Rightarrow> string \<Rightarrow> string \<Rightarrow> string \<Rightarrow> HostError + unit" where
  "require_task_authorized_browser_document h target_id tab_id document_generation =
     and_then (require_task_authorized_browser_target h target_id tab_id) (\<lambda>_.
       case session_browser_scope h of None \<Rightarrow> Inr ()
       | Some scope \<Rightarrow>
         if document_generation = bs_document_generation scope then Inr ()
         else denied ''the browser document generation is outside the trusted task authorization'')"

definition require_current_task_authorized_browser_document :: "HostSession \<Rightarrow> HostError + unit" where
  "require_current_task_authorized_browser_document h =
     (case session_browser_scope h of None \<Rightarrow> Inr ()
      | Some scope \<Rightarrow>
        if bw_target_id (hs_browser h) = Some (bs_host_target_id scope)
           \<and> bw_latest_tab_id (hs_browser h) = Some (bs_tab_id scope)
           \<and> bw_latest_snapshot_id (hs_browser h) = Some (bs_document_generation scope)
           \<and> bw_latest_origin (hs_browser h) = Some (bs_origin scope)
        then Inr ()
        else denied ''fresh browser evidence does not match the authorized target, tab, document, and origin'')"

definition require_current_allowed_browser_origin :: "HostSession \<Rightarrow> HostError + unit" where
  "require_current_allowed_browser_origin h =
     (if hs_task_authorization h = None then Inr ()
      else case bw_latest_origin (hs_browser h) of
        None \<Rightarrow> Inl (CodedProtocol HostProtocolErrorCode.TaskAuthorizationRequired
          ''take a fresh browser snapshot before mutating an authorized browser origin'')
      | Some origin \<Rightarrow> require_allowed_browser_origin h origin)"

definition is_idle_expired :: "world \<Rightarrow> HostSession \<Rightarrow> bool" where
  "is_idle_expired w h \<longleftrightarrow> mono_ns w - hs_last_activity_ns h \<ge> hs_idle_timeout_ns h"

definition mark_activity :: "world \<Rightarrow> HostSession \<Rightarrow> HostSession" where
  "mark_activity w h = h\<lparr>hs_last_activity_ns := mono_ns w\<rparr>"

section \<open>Evidence of a session\<close>

record HostEvidenceEpochSyncPlan =
  pl_epoch_changed :: bool
  pl_invalidate_browser_snapshot :: bool
  pl_bind_browser_snapshot :: bool

definition evidence_epoch_sync_plan ::
  "ActionEvidenceEpoch \<Rightarrow> ActionEvidenceEpoch \<Rightarrow> HostEvidencePublication \<Rightarrow> HostEvidenceEpochSyncPlan" where
  "evidence_epoch_sync_plan synchronized current publication =
     (let epoch_changed = (synchronized \<noteq> current) in
      \<lparr>pl_epoch_changed = epoch_changed,
       pl_invalidate_browser_snapshot = (epoch_changed \<and> publication \<noteq> PublishBrowserSnapshot),
       pl_bind_browser_snapshot = (publication = PublishBrowserSnapshot)\<rparr>)"

definition clear_native_observation_caches :: "HostSession \<Rightarrow> HostSession" where
  "clear_native_observation_caches h =
     h\<lparr>hs_latest_observation_id := None, hs_latest_accessibility_state_id := None,
       hs_latest_accessibility_root := None\<rparr>"

definition discard_browser_evidence :: "HostSession \<Rightarrow> HostSession" where
  "discard_browser_evidence h =
     h\<lparr>hs_extension_observation := None, hs_browser_evidence_epoch := None,
       hs_browser := clear_snapshot (hs_browser h)\<rparr>"

definition session_epoch :: "HostSession \<Rightarrow> ActionEvidenceEpoch" where
  "session_epoch h = cs_action_evidence_epoch (hs_session h)"

definition synchronize_action_evidence_epoch_with ::
  "HostEvidencePublication \<Rightarrow> HostSession \<Rightarrow> HostSession \<times> bool" where
  "synchronize_action_evidence_epoch_with publication h =
     (let current = session_epoch h;
          plan = evidence_epoch_sync_plan (hs_synchronized_action_evidence_epoch h) current publication;
          h1 = (if pl_epoch_changed plan
                then (let cleared = clear_native_observation_caches h;
                          discarded = (if pl_invalidate_browser_snapshot plan
                            then discard_browser_evidence cleared else cleared)
                      in discarded\<lparr>hs_synchronized_action_evidence_epoch := current\<rparr>)
                else h);
          h2 = (if pl_bind_browser_snapshot plan
                then h1\<lparr>hs_browser_evidence_epoch := Some current\<rparr> else h1)
      in (h2, pl_epoch_changed plan))"

definition synchronize_action_evidence_epoch :: "HostSession \<Rightarrow> HostSession" where
  "synchronize_action_evidence_epoch h = fst (synchronize_action_evidence_epoch_with NoPublication h)"

definition invalidate_action_observations :: "HostSession \<Rightarrow> HostSession option" where
  "invalidate_action_observations h = do {
     session \<leftarrow> core_invalidate_action_observations (hs_session h);
     Some (synchronize_action_evidence_epoch (h\<lparr>hs_session := session\<rparr>))
   }"

definition abandon_wait_probe :: "HostSession \<Rightarrow> HostSession option" where
  "abandon_wait_probe h = invalidate_action_observations h"

definition observe_input_readiness ::
  "ComputerUseInputReadiness \<Rightarrow> u64 \<Rightarrow> HostSession \<Rightarrow> (HostSession \<times> bool) option" where
  "observe_input_readiness readiness observed_at h =
     (let (queue, event) = observe readiness observed_at (hs_input_events h);
          h' = h\<lparr>hs_input_events := queue\<rparr>
      in if event \<noteq> None
         then map_option (\<lambda>h''. (h'', True)) (invalidate_action_observations h')
         else Some (h', False))"

definition refresh_input_readiness :: "ComputerUseInputReadiness \<Rightarrow> world \<Rightarrow> HostSession \<Rightarrow> HostSession option" where
  "refresh_input_readiness probed w h =
     map_option fst (observe_input_readiness probed (observed_at_millis w) h)"

definition observe_target_availability ::
  "ComputerUseTargetAvailability \<Rightarrow> world \<Rightarrow> HostSession \<Rightarrow> (HostSession \<times> bool) option" where
  "observe_target_availability availability w h =
     (let (queue, transitioned) = refresh_target_availability w availability (hs_input_events h);
          h' = h\<lparr>hs_input_events := queue\<rparr>
      in if transitioned
         then map_option (\<lambda>h''. (h'', True)) (invalidate_action_observations h')
         else Some (h', False))"

definition observe_target_state :: "json \<Rightarrow> world \<Rightarrow> HostSession \<Rightarrow> (HostSession \<times> bool) option" where
  "observe_target_state state w h = observe_target_availability (from_window_state state) w h"

definition invalidating_code :: "ComputerUseErrorCode \<Rightarrow> bool" where
  "invalidating_code code \<longleftrightarrow>
     code \<in> {InteractiveDesktopUnavailable, TargetMinimized, TargetUnavailable, MissingWindow,
       InvalidTarget, SessionRefreshRequired, CompletionUnknown}"

definition error_target_status :: "ComputerUseErrorCode \<Rightarrow> ComputerUseTargetStatus option" where
  "error_target_status code =
     (if code = TargetMinimized then Some Minimized
      else if code = TargetUnavailable \<or> code = MissingWindow then Some Unavailable else None)"

definition error_availability :: "ComputerUseTargetStatus \<Rightarrow> ComputerUseTargetAvailability" where
  "error_availability status =
     \<lparr>ta_status = status,
      ta_code = (if status = Minimized then ''target_minimized'' else ''target_unavailable''),
      ta_visible = False, ta_minimized = (status = Minimized), ta_foreground = False\<rparr>"

text \<open>\<open>finish_observation_sensitive_attempt\<close>: the session after an attempt that gave \<open>result\<close>.\<close>

definition finish_observation_sensitive_attempt ::
  "world \<Rightarrow> 'a ComputerUseResult \<Rightarrow> HostSession \<Rightarrow> HostSession option" where
  "finish_observation_sensitive_attempt w result h =
     (let h = synchronize_action_evidence_epoch h in
      case result of Inr _ \<Rightarrow> Some h
      | Inl (code, message) \<Rightarrow> do {
          h \<leftarrow> (if invalidating_code code then invalidate_action_observations h else Some h);
          h \<leftarrow> (if code = InteractiveDesktopUnavailable
                then map_option fst (observe_input_readiness
                  \<lparr>ir_status = Suspended, ir_code = ''interactive_desktop_unavailable'',
                   ir_reason = Some message\<rparr> (observed_at_millis w) h)
                else Some h);
          (case error_target_status code of None \<Rightarrow> Some h
           | Some status \<Rightarrow> map_option fst (observe_target_availability (error_availability status) w h))
        })"

definition finish_browser_snapshot_attempt ::
  "world \<Rightarrow> 'a ComputerUseResult \<Rightarrow> bool \<Rightarrow> HostSession \<Rightarrow> ((HostError + 'a) \<times> HostSession) option" where
  "finish_browser_snapshot_attempt w result publishes h =
     (case result of
        Inr value \<Rightarrow>
          if publishes
          then (case require_current_task_authorized_browser_document h of
                  Inl error \<Rightarrow> Some (Inl error, discard_browser_evidence h)
                | Inr _ \<Rightarrow>
                    Some (Inr value, fst (synchronize_action_evidence_epoch_with PublishBrowserSnapshot h)))
          else Some (Inr value, synchronize_action_evidence_epoch (discard_browser_evidence h))
      | Inl error \<Rightarrow>
          map_option (Pair (to_host_error (Inl error)))
            (finish_observation_sensitive_attempt w (Inl error :: unit ComputerUseResult)
              (discard_browser_evidence h)))"

definition require_current_browser_evidence_epoch ::
  "HostSession \<Rightarrow> unit ComputerUseResult \<times> HostSession" where
  "require_current_browser_evidence_epoch h =
     (let h = synchronize_action_evidence_epoch h in
      (guard (hs_browser_evidence_epoch h \<noteq> Some (hs_synchronized_action_evidence_epoch h))
         (StaleObservation, ''take a fresh browser snapshot after action evidence changed''), h))"

definition invalidate_observations :: "HostSession \<Rightarrow> HostSession" where
  "invalidate_observations h =
     discard_browser_evidence (clear_native_observation_caches
       (h\<lparr>hs_synchronized_action_evidence_epoch := session_epoch h\<rparr>))"

section \<open>Evidence around a request (evidence_epoch.rs)\<close>

definition prepare_window_evidence_request ::
  "WindowEvidenceEpochRoute option \<Rightarrow> (string \<times> HostSession) list \<Rightarrow> (string \<times> HostSession) list" where
  "prepare_window_evidence_request route sessions =
     (case route of None \<Rightarrow> sessions
      | Some route \<Rightarrow>
        (case map_of sessions (er_session_id route) of None \<Rightarrow> sessions
         | Some h \<Rightarrow> AList.update (er_session_id route) (synchronize_action_evidence_epoch h) sessions))"

definition finish_window_evidence ::
  "world \<Rightarrow> HostEvidencePublication \<Rightarrow> bool \<Rightarrow> HostSession \<Rightarrow> HostSession" where
  "finish_window_evidence w publication ok h =
     (let h = (if hs_interrupted h then h else mark_activity w h) in
      if ok then fst (synchronize_action_evidence_epoch_with publication h)
      else let h = synchronize_action_evidence_epoch h in
        if publication \<in> {PublishBrowserSnapshot, BrowserSnapshotAttempt}
        then discard_browser_evidence h else h)"

definition finish_window_evidence_request ::
  "world \<Rightarrow> WindowEvidenceEpochRoute option \<Rightarrow> HostError + 'a \<Rightarrow> (string \<times> HostSession) list
   \<Rightarrow> (string \<times> HostSession) list" where
  "finish_window_evidence_request w route result sessions =
     (case route of None \<Rightarrow> sessions
      | Some route \<Rightarrow>
        (case map_of sessions (er_session_id route) of None \<Rightarrow> sessions
         | Some h \<Rightarrow> AList.update (er_session_id route)
             (finish_window_evidence w (er_publication route) (is_ok result) h) sessions))"

section \<open>Session identities (session_identity.rs)\<close>

definition new_runtime_session_id :: "string \<Rightarrow> string \<Rightarrow> string" where
  "new_runtime_session_id uuid scope = ''dcc-cua-'' @ scope @ ''-'' @ uuid"

definition session_keys :: "string list" where
  "session_keys = [''session'', ''session_id'', ''_session_id'']"

definition public_alias :: "(string \<times> string) list \<Rightarrow> string \<Rightarrow> string" where
  "public_alias aliases s = (case map_of aliases s of Some p \<Rightarrow> p | None \<Rightarrow> s)"

fun rewrite_session_aliases :: "(string \<times> string) list \<Rightarrow> json \<Rightarrow> json"
and rewrite_field :: "(string \<times> string) list \<Rightarrow> string \<times> json \<Rightarrow> string \<times> json" where
  "rewrite_session_aliases aliases (JArr vs) = JArr (map (rewrite_session_aliases aliases) vs)"
| "rewrite_session_aliases aliases (JObj fs) = JObj (map (rewrite_field aliases) fs)"
| "rewrite_session_aliases aliases v = v"
| "rewrite_field aliases (k, JStr s) =
     (k, JStr (if k \<in> set session_keys then public_alias aliases s else s))"
| "rewrite_field aliases (k, v) = (k, rewrite_session_aliases aliases v)"

end
