(* ===== verification/Session_Evidence.thy ===== *)
theory Session_Evidence
  imports Session_State
begin

text \<open>
  Evidence of a window session along its life. Every operation of a session is a
  \<open>session_operation\<close>: it keeps the invariant of the evidence epochs, and what it leaves of the
  native and browser evidence was there before under the same epoch. The step relation
  \<open>session_step\<close> composes the operations in any order with arbitrary activity of the core session
  and the browser; evidence taken before an invalidation is never accepted after it.
\<close>

section \<open>The invariant\<close>

definition evidence_wf :: "HostSession \<Rightarrow> bool" where
  "evidence_wf h \<longleftrightarrow>
     hs_synchronized_action_evidence_epoch h \<le> session_epoch h
     \<and> (\<forall>e. hs_browser_evidence_epoch h = Some e \<longrightarrow> e = hs_synchronized_action_evidence_epoch h)"

definition keeps_native :: "HostSession \<Rightarrow> HostSession \<Rightarrow> bool" where
  "keeps_native h h' \<longleftrightarrow>
     (\<forall>obs. hs_latest_observation_id h' = Some obs \<longrightarrow>
        hs_latest_observation_id h = Some obs
        \<and> hs_synchronized_action_evidence_epoch h' = hs_synchronized_action_evidence_epoch h)"

definition keeps_browser :: "HostSession \<Rightarrow> HostSession \<Rightarrow> bool" where
  "keeps_browser h h' \<longleftrightarrow>
     (\<forall>e. hs_browser_evidence_epoch h' = Some e \<longrightarrow> hs_browser_evidence_epoch h = Some e)"

definition advances :: "HostSession \<Rightarrow> HostSession \<Rightarrow> bool" where
  "advances h h' \<longleftrightarrow> session_epoch h \<le> session_epoch h'
     \<and> hs_target_process_id h' = hs_target_process_id h
     \<and> hs_target_window_handle h' = hs_target_window_handle h
     \<and> hs_task_authorization h' = hs_task_authorization h \<and> hs_capability h' = hs_capability h"

lemmas evidence_relations = evidence_wf_def keeps_native_def keeps_browser_def advances_def

text \<open>A step that publishes no browser snapshot and records no observation.\<close>

definition quiet_step :: "HostSession \<Rightarrow> HostSession \<Rightarrow> bool" where
  "quiet_step h h' \<longleftrightarrow>
     (evidence_wf h \<longrightarrow> evidence_wf h') \<and> keeps_native h h' \<and> keeps_browser h h' \<and> advances h h'"

lemma quiet_step_refl [simp]: "quiet_step h h"
  by (simp add: quiet_step_def evidence_relations)

lemma quiet_step_trans [trans]: "quiet_step h h' \<Longrightarrow> quiet_step h' h'' \<Longrightarrow> quiet_step h h''"
  by (auto simp: quiet_step_def evidence_relations)

locale session_operation =
  fixes op :: "HostSession \<Rightarrow> HostSession option"
  assumes quiet: "op h = Some h' \<Longrightarrow> quiet_step h h'"
begin

lemma keeps_invariant: "op h = Some h' \<Longrightarrow> evidence_wf h \<Longrightarrow> evidence_wf h'"
  using quiet by (simp add: quiet_step_def)

lemma stale_browser_evidence:
  assumes "op h = Some h'" and "hs_browser_evidence_epoch h = None"
  shows "hs_browser_evidence_epoch h' = None"
  using quiet [OF assms(1)] assms(2) by (auto simp: quiet_step_def keeps_browser_def)

end

lemma session_operation_bind:
  "session_operation f \<Longrightarrow> session_operation g \<Longrightarrow> session_operation (\<lambda>h. Option.bind (f h) g)"
  unfolding session_operation_def by (metis bind_eq_Some_conv quiet_step_trans)

lemma session_operation_if:
  "session_operation f \<Longrightarrow> session_operation g \<Longrightarrow> session_operation (\<lambda>h. if b then f h else g h)"
  by (simp add: session_operation_def)

lemma session_operation_Some: "session_operation Some"
  by (simp add: session_operation_def)

section \<open>The operations\<close>

lemma sync_quiet:
  assumes "publication \<noteq> PublishBrowserSnapshot"
  shows "quiet_step h (fst (synchronize_action_evidence_epoch_with publication h))"
  using assms
  by (auto simp: quiet_step_def evidence_relations synchronize_action_evidence_epoch_with_def
      evidence_epoch_sync_plan_def clear_native_observation_caches_def discard_browser_evidence_def
      session_epoch_def Let_def)

interpretation sync_op: session_operation "\<lambda>h. Some (synchronize_action_evidence_epoch h)"
  by unfold_locales (auto simp: synchronize_action_evidence_epoch_def sync_quiet)

lemma core_invalidate_epoch:
  "core_invalidate_action_observations s = Some s' \<Longrightarrow>
   cs_action_evidence_epoch s < cs_action_evidence_epoch s' \<and> cs_observation s' = None
   \<and> cs_sdk_element_tokens s' = None"
  by (auto simp: core_invalidate_action_observations_def bind_eq_Some_conv dest: advanced_greater)

lemma core_activity_quiet:
  "session_epoch h \<le> cs_action_evidence_epoch s \<Longrightarrow> quiet_step h (h\<lparr>hs_session := s\<rparr>)"
  by (auto simp: quiet_step_def evidence_relations session_epoch_def)

interpretation invalidate_op: session_operation invalidate_action_observations
proof
  fix h h' assume "invalidate_action_observations h = Some h'"
  then obtain s where s: "core_invalidate_action_observations (hs_session h) = Some s"
    and h': "h' = synchronize_action_evidence_epoch (h\<lparr>hs_session := s\<rparr>)"
    by (auto simp: invalidate_action_observations_def bind_eq_Some_conv)
  have "quiet_step h (h\<lparr>hs_session := s\<rparr>)"
    using core_invalidate_epoch [OF s] by (intro core_activity_quiet) (simp add: session_epoch_def less_imp_le)
  also have "quiet_step (h\<lparr>hs_session := s\<rparr>) h'" by (rule sync_op.quiet) (simp add: h')
  finally show "quiet_step h h'" .
qed

lemma events_quiet: "quiet_step h (h\<lparr>hs_input_events := q\<rparr>)"
  by (simp add: quiet_step_def evidence_relations session_epoch_def)

interpretation input_op: session_operation "\<lambda>h. map_option fst (observe_input_readiness r t h)"
proof
  fix h h' assume "map_option fst (observe_input_readiness r t h) = Some h'"
  then have "h' = h\<lparr>hs_input_events := fst (observe r t (hs_input_events h))\<rparr>
      \<or> invalidate_action_observations (h\<lparr>hs_input_events := fst (observe r t (hs_input_events h))\<rparr>) = Some h'"
    by (auto simp: observe_input_readiness_def Let_def split: prod.splits if_splits)
  then show "quiet_step h h'"
    using events_quiet quiet_step_trans [OF events_quiet invalidate_op.quiet] by auto
qed

interpretation target_op: session_operation "\<lambda>h. map_option fst (observe_target_availability a w h)"
proof
  fix h h' assume "map_option fst (observe_target_availability a w h) = Some h'"
  then have "h' = h\<lparr>hs_input_events := fst (refresh_target_availability w a (hs_input_events h))\<rparr>
      \<or> invalidate_action_observations
          (h\<lparr>hs_input_events := fst (refresh_target_availability w a (hs_input_events h))\<rparr>) = Some h'"
    by (auto simp: observe_target_availability_def Let_def split: prod.splits if_splits)
  then show "quiet_step h h'"
    using events_quiet quiet_step_trans [OF events_quiet invalidate_op.quiet] by auto
qed

interpretation discard_op: session_operation "\<lambda>h. Some (discard_browser_evidence h)"
  by unfold_locales
     (auto simp: discard_browser_evidence_def quiet_step_def evidence_relations session_epoch_def)

interpretation forget_op: session_operation "\<lambda>h. Some (invalidate_observations h)"
  by unfold_locales
     (auto simp: invalidate_observations_def discard_browser_evidence_def
       clear_native_observation_caches_def quiet_step_def evidence_relations session_epoch_def)

interpretation activity_op: session_operation "\<lambda>h. Some (mark_activity w h)"
  by unfold_locales (auto simp: mark_activity_def quiet_step_def evidence_relations session_epoch_def)

lemma attempt_error_steps:
  "finish_observation_sensitive_attempt w (Inl (code, message)) h =
     Option.bind (Some (synchronize_action_evidence_epoch h)) (\<lambda>h.
     Option.bind (if invalidating_code code then invalidate_action_observations h else Some h) (\<lambda>h.
     Option.bind (if code = InteractiveDesktopUnavailable
       then map_option fst (observe_input_readiness
         \<lparr>ir_status = Suspended, ir_code = ''interactive_desktop_unavailable'', ir_reason = Some message\<rparr>
         (observed_at_millis w) h) else Some h) (\<lambda>h.
     (case error_target_status code of None \<Rightarrow> Some h
      | Some status \<Rightarrow> map_option fst (observe_target_availability (error_availability status) w h)))))"
  by (simp add: finish_observation_sensitive_attempt_def Let_def)

interpretation attempt_op: session_operation "finish_observation_sensitive_attempt w result"
proof (cases result)
  case (Inr v)
  then show "session_operation (finish_observation_sensitive_attempt w result)"
    using sync_op.session_operation_axioms
    by (simp add: finish_observation_sensitive_attempt_def session_operation_def Let_def)
next
  case (Inl e)
  obtain code message where e: "e = (code, message)" by (cases e)
  have last: "session_operation (\<lambda>h. case error_target_status code of None \<Rightarrow> Some h
      | Some status \<Rightarrow> map_option fst (observe_target_availability (error_availability status) w h))"
    by (cases "error_target_status code")
       (simp_all add: session_operation_Some target_op.session_operation_axioms)
  show "session_operation (finish_observation_sensitive_attempt w result)"
    unfolding Inl e attempt_error_steps
    by (intro session_operation_bind session_operation_if sync_op.session_operation_axioms
        invalidate_op.session_operation_axioms input_op.session_operation_axioms
        session_operation_Some last)
qed

lemma finish_window_quiet:
  assumes "publication \<noteq> PublishBrowserSnapshot"
  shows "quiet_step h (finish_window_evidence w publication ok h)"
proof -
  define h1 where "h1 = (if hs_interrupted h then h else mark_activity w h)"
  have 1: "quiet_step h h1" by (simp add: h1_def activity_op.quiet)
  have 2: "quiet_step h1 (fst (synchronize_action_evidence_epoch_with publication h1))"
    by (rule sync_quiet [OF assms])
  have 3: "quiet_step h1 (synchronize_action_evidence_epoch h1)" by (rule sync_op.quiet) simp
  have 4: "quiet_step (synchronize_action_evidence_epoch h1)
      (discard_browser_evidence (synchronize_action_evidence_epoch h1))" by (rule discard_op.quiet) simp
  show ?thesis
    using quiet_step_trans [OF 1 2] quiet_step_trans [OF 1 3]
      quiet_step_trans [OF quiet_step_trans [OF 1 3] 4]
    by (auto simp: finish_window_evidence_def h1_def [symmetric] Let_def)
qed

section \<open>Runs of a session\<close>

datatype evidence_label = Quiet | Records | Publishes

text \<open>
  One step in the life of a session. The core session may do anything that does not turn its epoch
  back, the browser session may run any operation, and the extension route may store an
  observation; every other step is an operation of the Host.
\<close>

inductive session_step :: "HostSession \<Rightarrow> evidence_label \<Rightarrow> HostSession \<Rightarrow> bool" where
  core_runs: "session_epoch h \<le> cs_action_evidence_epoch s \<Longrightarrow> session_step h Quiet (h\<lparr>hs_session := s\<rparr>)"
| browser_runs: "session_step h Quiet (h\<lparr>hs_browser := b\<rparr>)"
| extension_observes: "session_step h Quiet (h\<lparr>hs_extension_observation := ob\<rparr>)"
| synchronizes: "session_step h Quiet (synchronize_action_evidence_epoch h)"
| input_sampled: "observe_input_readiness r t h = Some (h', changed) \<Longrightarrow> session_step h Quiet h'"
| target_sampled: "observe_target_availability a w h = Some (h', changed) \<Longrightarrow> session_step h Quiet h'"
| attempt_ends: "finish_observation_sensitive_attempt w (result :: unit ComputerUseResult) h = Some h' \<Longrightarrow>
    session_step h Quiet h'"
| probe_abandoned: "abandon_wait_probe h = Some h' \<Longrightarrow> session_step h Quiet h'"
| forgets: "session_step h Quiet (invalidate_observations h)"
| request_ends: "publication \<noteq> PublishBrowserSnapshot \<Longrightarrow>
    session_step h Quiet (finish_window_evidence w publication ok h)"
| observation_recorded: "session_step h Records (record_snapshot_observation obs accessibility h)"
| snapshot_ends: "finish_browser_snapshot_attempt w (answer :: unit ComputerUseResult) publishes h = Some (out, h') \<Longrightarrow>
    session_step h Publishes h'"

inductive session_run :: "HostSession \<Rightarrow> evidence_label list \<Rightarrow> HostSession \<Rightarrow> bool" where
  done_run: "session_run h [] h"
| next_run: "session_step h l h' \<Longrightarrow> session_run h' ls h'' \<Longrightarrow> session_run h (l # ls) h''"

inductive_cases session_step_QuietE: "session_step h Quiet h'"
inductive_cases session_step_RecordsE: "session_step h Records h'"
inductive_cases session_step_PublishesE: "session_step h Publishes h'"
inductive_cases session_run_ConsE: "session_run h (l # ls) h'"
inductive_simps session_run_Nil [simp]: "session_run h [] h'"

lemma quiet_steps: "session_step h Quiet h' \<Longrightarrow> quiet_step h h'"
proof (erule session_step_QuietE)
  show "session_epoch h \<le> cs_action_evidence_epoch s \<Longrightarrow> h' = h\<lparr>hs_session := s\<rparr> \<Longrightarrow> quiet_step h h'" for s
    by (simp add: core_activity_quiet)
  show "observe_input_readiness r t h = Some (h', changed) \<Longrightarrow> quiet_step h h'" for r t changed
    by (rule input_op.quiet [where r = r and t = t]) simp
  show "observe_target_availability a w h = Some (h', changed) \<Longrightarrow> quiet_step h h'" for a w changed
    by (rule target_op.quiet [where a = a and w = w]) simp
qed (auto simp: abandon_wait_probe_def finish_window_quiet sync_op.quiet forget_op.quiet
      attempt_op.quiet invalidate_op.quiet,
     simp_all add: quiet_step_def evidence_relations session_epoch_def)

lemma record_step:
  "session_step h Records h' \<Longrightarrow> (evidence_wf h \<longrightarrow> evidence_wf h') \<and> keeps_browser h h' \<and> advances h h'"
  by (erule session_step_RecordsE)
     (auto simp: record_snapshot_observation_def evidence_relations session_epoch_def Let_def)

lemma publish_sync:
  "evidence_wf h \<Longrightarrow> evidence_wf (fst (synchronize_action_evidence_epoch_with PublishBrowserSnapshot h))
   \<and> keeps_native h (fst (synchronize_action_evidence_epoch_with PublishBrowserSnapshot h))
   \<and> advances h (fst (synchronize_action_evidence_epoch_with PublishBrowserSnapshot h))"
  by (auto simp: evidence_relations synchronize_action_evidence_epoch_with_def
      evidence_epoch_sync_plan_def clear_native_observation_caches_def session_epoch_def Let_def)

lemma publish_step:
  assumes "session_step h Publishes h'" and wf: "evidence_wf h"
  shows "evidence_wf h' \<and> keeps_native h h' \<and> advances h h'"
proof -
  have quiet: "quiet_step h k \<Longrightarrow> evidence_wf k \<and> keeps_native h k \<and> advances h k" for k
    using wf by (simp add: quiet_step_def)
  from assms(1) obtain w answer publishes out where
    "finish_browser_snapshot_attempt w (answer :: unit ComputerUseResult) publishes h = Some (out, h')"
    by (rule session_step_PublishesE) blast
  then consider "h' = discard_browser_evidence h"
    | "h' = fst (synchronize_action_evidence_epoch_with PublishBrowserSnapshot h)"
    | "h' = synchronize_action_evidence_epoch (discard_browser_evidence h)"
    | e where "finish_observation_sensitive_attempt w (Inl e :: unit ComputerUseResult)
        (discard_browser_evidence h) = Some h'"
    by (auto simp: finish_browser_snapshot_attempt_def split: sum.splits if_splits)
  then show ?thesis
  proof cases
    case 1
    then show ?thesis by (intro quiet discard_op.quiet) simp
  next
    case 2
    then show ?thesis using publish_sync [OF wf] by simp
  next
    case 3
    have "quiet_step h (discard_browser_evidence h)" by (rule discard_op.quiet) simp
    also have "quiet_step (discard_browser_evidence h) h'" by (rule sync_op.quiet) (simp add: 3)
    finally show ?thesis by (rule quiet)
  next
    case 4
    have "quiet_step h (discard_browser_evidence h)" by (rule discard_op.quiet) simp
    also from 4 have "quiet_step (discard_browser_evidence h) h'" by (rule attempt_op.quiet)
    finally show ?thesis by (rule quiet)
  qed
qed

lemma session_step_wf: "session_step h l h' \<Longrightarrow> evidence_wf h \<Longrightarrow> evidence_wf h' \<and> advances h h'"
  using quiet_steps record_step publish_step by (cases l) (auto simp: quiet_step_def)

lemma session_run_wf: "session_run h ls h' \<Longrightarrow> evidence_wf h \<Longrightarrow> evidence_wf h' \<and> advances h h'"
proof (induction rule: session_run.induct)
  case (next_run h l h' ls h'')
  from session_step_wf [OF next_run.hyps(1) next_run.prems] next_run.IH show ?case
    by (auto simp: advances_def)
qed (simp add: advances_def)

lemma run_keeps_native:
  assumes "session_run h ls h'" and "Records \<notin> set ls" and "evidence_wf h"
  shows "keeps_native h h'"
  using assms
proof (induction rule: session_run.induct)
  case (next_run h l h' ls h'')
  have "keeps_native h h'"
    using next_run quiet_steps [of h h'] publish_step [of h h'] by (cases l) (auto simp: quiet_step_def)
  with next_run session_step_wf [OF next_run.hyps(1)] show ?case by (auto simp: keeps_native_def)
qed (simp add: keeps_native_def)

lemma run_keeps_browser:
  assumes "session_run h ls h'" and "Publishes \<notin> set ls"
  shows "keeps_browser h h'"
  using assms
proof (induction rule: session_run.induct)
  case (next_run h l h' ls h'')
  have "keeps_browser h h'"
    using next_run quiet_steps [of h h'] record_step [of h h'] by (cases l) (auto simp: quiet_step_def)
  with next_run show ?case by (auto simp: keeps_browser_def)
qed (simp add: keeps_browser_def)

section \<open>Properties\<close>

lemma synchronized_native:
  "hs_synchronized_action_evidence_epoch h \<noteq> session_epoch h \<Longrightarrow>
   hs_latest_observation_id (synchronize_action_evidence_epoch h) = None"
  by (simp add: synchronize_action_evidence_epoch_def synchronize_action_evidence_epoch_with_def
      evidence_epoch_sync_plan_def clear_native_observation_caches_def discard_browser_evidence_def Let_def)

lemma synchronized_browser:
  "hs_synchronized_action_evidence_epoch h \<noteq> session_epoch h \<Longrightarrow>
   hs_browser_evidence_epoch (synchronize_action_evidence_epoch h) = None"
  by (simp add: synchronize_action_evidence_epoch_def synchronize_action_evidence_epoch_with_def
      evidence_epoch_sync_plan_def clear_native_observation_caches_def discard_browser_evidence_def Let_def)

lemma synchronized_same:
  "hs_synchronized_action_evidence_epoch h = session_epoch h \<Longrightarrow> synchronize_action_evidence_epoch h = h"
  by (simp add: synchronize_action_evidence_epoch_def synchronize_action_evidence_epoch_with_def
      evidence_epoch_sync_plan_def Let_def)

text \<open>
  C28. Evidence taken before an invalidation is never accepted after it. Along any run of a
  session in which the core epoch moved: if the run recorded no new observation, no observation id
  passes \<open>require_latest_observation\<close> once the session is synchronized; if it published no new
  browser snapshot, the browser evidence check fails and asks for a fresh snapshot.
\<close>
theorem stale_evidence_rejected:
  assumes "evidence_wf h" and "session_run h ls h'" and "session_epoch h \<noteq> session_epoch h'"
  shows "(Records \<notin> set ls \<longrightarrow> (\<not> is_ok (require_latest_observation (synchronize_action_evidence_epoch h') obs)))
    \<and> (Publishes \<notin> set ls \<longrightarrow> (fst (require_current_browser_evidence_epoch h') =
        Inl (StaleObservation, ''take a fresh browser snapshot after action evidence changed'')))"
proof (rule conjI [OF impI impI])
  from session_run_wf [OF assms(2,1)] assms(1,3) have wf': "evidence_wf h'"
    and less: "hs_synchronized_action_evidence_epoch h < session_epoch h'"
    by (auto simp: evidence_wf_def advances_def)
  show "\<not> is_ok (require_latest_observation (synchronize_action_evidence_epoch h') obs)"
    if "Records \<notin> set ls"
  proof (cases "hs_synchronized_action_evidence_epoch h' = session_epoch h'")
    case True
    then have "hs_latest_observation_id h' = None"
      using run_keeps_native [OF assms(2) that assms(1)] less
      by (cases "hs_latest_observation_id h'") (auto simp: keeps_native_def)
    with True show ?thesis by (simp add: synchronized_same require_latest_observation_def)
  next
    case False
    from synchronized_native [OF this] show ?thesis by (simp add: require_latest_observation_def)
  qed
  show "fst (require_current_browser_evidence_epoch h') =
      Inl (StaleObservation, ''take a fresh browser snapshot after action evidence changed'')"
    if "Publishes \<notin> set ls"
  proof (cases "hs_synchronized_action_evidence_epoch h' = session_epoch h'")
    case True
    have "hs_browser_evidence_epoch h' \<noteq> Some (session_epoch h')"
    proof
      assume some: "hs_browser_evidence_epoch h' = Some (session_epoch h')"
      with run_keeps_browser [OF assms(2) that] have "hs_browser_evidence_epoch h = Some (session_epoch h')"
        by (simp add: keeps_browser_def)
      with assms(1) less show False by (simp add: evidence_wf_def)
    qed
    with True show ?thesis
      by (simp add: require_current_browser_evidence_epoch_def synchronized_same Let_def)
  next
    case False
    from synchronized_browser [OF this] show ?thesis
      by (simp add: require_current_browser_evidence_epoch_def Let_def)
  qed
qed

definition example_core_session :: ComputerUseSession where
  "example_core_session = \<lparr>cs_observation = None, cs_sdk_element_tokens = None,
     cs_action_evidence_epoch = Epoch 0, cs_live_fence = None,
     cs_post_action_live_sequence_fence = None, cs_observation_transition_live_sequence_fence = None\<rparr>"

definition example_host_session :: HostSession where
  "example_host_session =
     \<lparr>hs_extension_observation = None, hs_runtime_session_id = ''dcc-cua-window-1'',
      hs_target_process_id = 4, hs_target_window_handle = 9, hs_task_grant_id = ''g'',
      hs_observation_mode = Semantic, hs_allow_raw_input = True, hs_allow_app_terminate = False,
      hs_allow_clipboard_read = True, hs_allow_clipboard_write = True, hs_allow_recording = False,
      hs_allow_live_observation = False, hs_allow_browser_input = True,
      hs_allow_browser_prepare = False, hs_allowed_browser_origins = [],
      hs_allow_browser_download = False, hs_allow_native_tool = False, hs_allow_menu_invoke = False,
      hs_allow_session_escalation = False, hs_allow_trusted_confirmation = True,
      hs_task_authorization = None, hs_allow_restore_activate = False, hs_capability = ''c'',
      hs_interrupted = False, hs_session = example_core_session,
      hs_synchronized_action_evidence_epoch = Epoch 0,
      hs_browser_evidence_epoch = Some (Epoch 0), hs_browser = browser_session_default,
      hs_latest_observation_id = Some ''o1'', hs_latest_accessibility_state_id = Some ''o1'',
      hs_latest_accessibility_root = Some JNull,
      hs_input_events = new_with_restore_capability example_input_target example_ready example_visible True 1,
      hs_idle_timeout_ns = 60000000000, hs_last_activity_ns = 0\<rparr>"

lemma example_host_session_wf: "evidence_wf example_host_session"
  by (simp add: evidence_wf_def example_host_session_def example_core_session_def session_epoch_def)

theorem stale_evidence_rejected_witness:
  "\<exists>h'. invalidate_action_observations example_host_session = Some h'
     \<and> \<not> is_ok (require_latest_observation (synchronize_action_evidence_epoch h') ''o1'')
     \<and> fst (require_current_browser_evidence_epoch h') =
         Inl (StaleObservation, ''take a fresh browser snapshot after action evidence changed'')"
proof -
  have "\<exists>h'. invalidate_action_observations example_host_session = Some h' \<and> session_epoch h' = Epoch 1"
    by (simp add: invalidate_action_observations_def core_invalidate_action_observations_def
        advanced_def checked_add_def example_host_session_def example_core_session_def
        synchronize_action_evidence_epoch_def synchronize_action_evidence_epoch_with_def
        evidence_epoch_sync_plan_def clear_native_observation_caches_def
        discard_browser_evidence_def session_epoch_def Let_def)
  then obtain h' where h': "invalidate_action_observations example_host_session = Some h'"
      "session_epoch h' = Epoch 1" by blast
  have "session_step example_host_session Quiet h'"
    by (rule probe_abandoned) (simp add: abandon_wait_probe_def h')
  then have run: "session_run example_host_session [Quiet] h'" by (rule next_run) simp
  have "session_epoch example_host_session = Epoch 0"
    by (simp add: session_epoch_def example_host_session_def example_core_session_def)
  then have "session_epoch example_host_session \<noteq> session_epoch h'" by (simp add: h')
  from stale_evidence_rejected [OF example_host_session_wf run this] h' show ?thesis by auto
qed

text \<open>
  A browser snapshot is published exactly as authorized. When a snapshot attempt publishes
  evidence, the session accepts it from then on until the epoch moves, and under a lease with a
  browser scope the evidence is the authorized target, tab, document and origin. A snapshot of
  anything else is refused as outside the authorization and leaves no browser evidence behind.
\<close>
theorem published_snapshot_exact:
  "(finish_browser_snapshot_attempt w (Inr value) True h = Some (Inr v, h') \<longrightarrow> (fst (require_current_browser_evidence_epoch h') = Inr () \<and> hs_browser h' = hs_browser h
     \<and> hs_browser_evidence_epoch h' = Some (session_epoch h')))
    \<and> (finish_browser_snapshot_attempt w (Inr value) True h = Some (Inr v, h') \<longrightarrow> session_browser_scope h = Some scope \<longrightarrow> (bw_target_id (hs_browser h) = Some (bs_host_target_id scope)
     \<and> bw_latest_tab_id (hs_browser h) = Some (bs_tab_id scope)
     \<and> bw_latest_snapshot_id (hs_browser h) = Some (bs_document_generation scope)
     \<and> bw_latest_origin (hs_browser h) = Some (bs_origin scope)))
    \<and> (finish_browser_snapshot_attempt w (Inr value) True h = Some (Inl e, h') \<longrightarrow> (hs_browser_evidence_epoch h' = None \<and> bw_latest_snapshot_id (hs_browser h') = None
     \<and> (\<exists>m. e = CodedProtocol TaskAuthorizationDenied m)))"
proof (rule conjI [OF impI conjI [OF impI [OF impI] impI]])
  have publish: "h' = fst (synchronize_action_evidence_epoch_with PublishBrowserSnapshot h)"
    if "finish_browser_snapshot_attempt w (Inr value) True h = Some (Inr v, h')"
    using that by (auto simp: finish_browser_snapshot_attempt_def split: sum.splits)
  show "fst (require_current_browser_evidence_epoch h') = Inr () \<and> hs_browser h' = hs_browser h
     \<and> hs_browser_evidence_epoch h' = Some (session_epoch h')"
    if "finish_browser_snapshot_attempt w (Inr value) True h = Some (Inr v, h')"
    using publish [OF that]
    by (auto simp: require_current_browser_evidence_epoch_def synchronize_action_evidence_epoch_def
        synchronize_action_evidence_epoch_with_def evidence_epoch_sync_plan_def session_epoch_def
        clear_native_observation_caches_def Let_def)
  show "bw_target_id (hs_browser h) = Some (bs_host_target_id scope)
     \<and> bw_latest_tab_id (hs_browser h) = Some (bs_tab_id scope)
     \<and> bw_latest_snapshot_id (hs_browser h) = Some (bs_document_generation scope)
     \<and> bw_latest_origin (hs_browser h) = Some (bs_origin scope)"
    if "finish_browser_snapshot_attempt w (Inr value) True h = Some (Inr v, h')"
      "session_browser_scope h = Some scope"
    using that by (auto simp: finish_browser_snapshot_attempt_def
        require_current_task_authorized_browser_document_def split: sum.splits if_splits)
  show "hs_browser_evidence_epoch h' = None \<and> bw_latest_snapshot_id (hs_browser h') = None
     \<and> (\<exists>m. e = CodedProtocol TaskAuthorizationDenied m)"
    if "finish_browser_snapshot_attempt w (Inr value) True h = Some (Inl e, h')"
    using that by (auto simp: finish_browser_snapshot_attempt_def discard_browser_evidence_def clear_snapshot_def
        require_current_task_authorized_browser_document_def split: sum.splits option.splits if_splits)
qed

theorem published_snapshot_exact_witness:
  "\<exists>h'. finish_browser_snapshot_attempt example_world (Inr ()) True example_host_session = Some (Inr (), h')
     \<and> fst (require_current_browser_evidence_epoch h') = Inr ()"
proof -
  have "\<exists>h'. finish_browser_snapshot_attempt example_world (Inr ()) True example_host_session
      = Some (Inr (), h')"
    by (simp add: finish_browser_snapshot_attempt_def require_current_task_authorized_browser_document_def
        session_browser_scope_def example_host_session_def)
  then obtain h' where h': "finish_browser_snapshot_attempt example_world (Inr ()) True example_host_session
      = Some (Inr (), h')" by blast
  show ?thesis using h' published_snapshot_exact [THEN conjunct1, THEN mp, OF h'] by blast
qed

end
