(* ===== verification/Wire.thy ===== *)
theory Wire
  imports Host_Request Browser_Session
begin

text \<open>
  Framing and request envelopes: \<open>read_frame\<close>, \<open>write_frame\<close> and \<open>RequestEnvelope\<close> of
  \<open>dcc-cua-protocol/src/lib.rs\<close>, and the Host's side of them in \<open>dcc-cua-host/src/wire.rs\<close>.

  \<open>read_frame\<close> is an asynchronous function. It is modelled as the future it compiles to: its
  progress (\<open>frame_progress\<close>) is kept between polls, a poll consumes the bytes that have arrived,
  and dropping the future drops the progress. Reading to the end of a stream is the special case in
  which every byte has arrived. Of a writer, the bytes that reached the stream are kept; it may
  fail after any number of them.
\<close>

section \<open>Frames (dcc-cua-protocol)\<close>

definition MAX_JSON_FRAME_BYTES :: nat where "MAX_JSON_FRAME_BYTES = 4 * 1024 * 1024"

definition MAX_REQUEST_ID_CHARS :: nat where "MAX_REQUEST_ID_CHARS = 128"

datatype FrameError = FrameIo | FrameProtocol string

text \<open>\<open>u32::to_be_bytes\<close> and \<open>u32::from_be_bytes\<close>.\<close>

definition to_be_bytes :: "u32 \<Rightarrow> string" where
  "to_be_bytes n =
     (let m = unat n in
      [char_of (m div 16777216), char_of (m div 65536 mod 256), char_of (m div 256 mod 256),
       char_of (m mod 256)])"

definition from_be_bytes :: "string \<Rightarrow> u32" where
  "from_be_bytes bytes = of_nat (foldl (\<lambda>n c. n * 256 + byte c) 0 bytes)"

text \<open>A stream: what has arrived and is not read yet, and how it ended, if it has.\<close>

datatype stream_end = UnexpectedEof | TransportFault

record reader =
  rd_buffer :: string
  rd_end :: "stream_end option"

datatype exact_poll = Full string | Partial string | Ended stream_end

definition poll_exact :: "nat \<Rightarrow> string \<Rightarrow> reader \<Rightarrow> exact_poll \<times> reader" where
  "poll_exact n got r =
     (let need = n - length got; got' = got @ take need (rd_buffer r);
          r' = r\<lparr>rd_buffer := drop need (rd_buffer r)\<rparr> in
      if length got' = n then (Full got', r')
      else case rd_end r of None \<Rightarrow> (Partial got', r') | Some e \<Rightarrow> (Ended e, r'))"

datatype frame_progress = ReadingPrefix string | ReadingBody nat string

datatype 'a frame_poll = Ready 'a | Pending frame_progress

definition poll_frame_body ::
  "nat \<Rightarrow> string \<Rightarrow> reader \<Rightarrow> (FrameError + string option) frame_poll \<times> reader" where
  "poll_frame_body n got r =
     (case poll_exact n got r of
        (Full body, r') \<Rightarrow> (Ready (Inr (Some body)), r')
      | (Partial got', r') \<Rightarrow> (Pending (ReadingBody n got'), r')
      | (Ended _, r') \<Rightarrow> (Ready (Inl FrameIo), r'))"

definition frame_length_refused :: "nat \<Rightarrow> FrameError" where
  "frame_length_refused n =
     FrameProtocol (''frame length '' @ show_nat n @ '' exceeds the configured limit'')"

fun poll_frame ::
  "nat \<Rightarrow> frame_progress \<Rightarrow> reader \<Rightarrow> (FrameError + string option) frame_poll \<times> reader" where
  "poll_frame max_len (ReadingPrefix got) r =
     (case poll_exact 4 got r of
        (Partial got', r') \<Rightarrow> (Pending (ReadingPrefix got'), r')
      | (Ended UnexpectedEof, r') \<Rightarrow> (Ready (Inr None), r')
      | (Ended TransportFault, r') \<Rightarrow> (Ready (Inl FrameIo), r')
      | (Full prefix, r') \<Rightarrow>
          (let n = unat (from_be_bytes prefix) in
           if n = 0 \<or> n > max_len then (Ready (Inl (frame_length_refused n)), r')
           else poll_frame_body n [] r'))"
| "poll_frame max_len (ReadingBody n got) r = poll_frame_body n got r"

definition read_frame :: "nat \<Rightarrow> reader \<Rightarrow> (FrameError + string option) frame_poll \<times> reader" where
  "read_frame max_len r = poll_frame max_len (ReadingPrefix []) r"

record writer =
  wr_bytes :: string
  wr_room :: "nat option"
  wr_flushes :: bool

definition write_all :: "string \<Rightarrow> writer \<Rightarrow> (FrameError + unit) \<times> writer" where
  "write_all bytes w =
     (case wr_room w of
        None \<Rightarrow> (Inr (), w\<lparr>wr_bytes := wr_bytes w @ bytes\<rparr>)
      | Some n \<Rightarrow>
        if length bytes \<le> n
        then (Inr (), w\<lparr>wr_bytes := wr_bytes w @ bytes, wr_room := Some (n - length bytes)\<rparr>)
        else (Inl FrameIo, w\<lparr>wr_bytes := wr_bytes w @ take n bytes, wr_room := Some 0\<rparr>))"

definition flush :: "writer \<Rightarrow> (FrameError + unit) \<times> writer" where
  "flush w = (if wr_flushes w then Inr () else Inl FrameIo, w)"

definition write_then ::
  "(writer \<Rightarrow> ('e + unit) \<times> writer) \<Rightarrow> (writer \<Rightarrow> ('e + unit) \<times> writer) \<Rightarrow> writer \<Rightarrow> ('e + unit) \<times> writer" where
  "write_then f g w = (case f w of (Inl e, w') \<Rightarrow> (Inl e, w') | (Inr _, w') \<Rightarrow> g w')"

definition write_frame_unflushed :: "string \<Rightarrow> nat \<Rightarrow> writer \<Rightarrow> (FrameError + unit) \<times> writer" where
  "write_frame_unflushed body max_len =
     (if body = [] \<or> length body > max_len \<or> length body > unat (- 1 :: u32)
      then Pair (Inl (FrameProtocol ''frame payload is outside the configured limit''))
      else write_then (write_all (to_be_bytes (of_nat (length body)))) (write_all body))"

definition write_frame :: "string \<Rightarrow> nat \<Rightarrow> writer \<Rightarrow> (FrameError + unit) \<times> writer" where
  "write_frame body max_len = write_then (write_frame_unflushed body max_len) flush"

section \<open>Request envelopes\<close>

datatype RequestEnvelopeError = NotObject | RequestIdNotString | InvalidRequestId | MissingMethod | ParamsNotObject

definition envelope_error_text :: "RequestEnvelopeError \<Rightarrow> string" where
  "envelope_error_text e =
     (case e of NotObject \<Rightarrow> ''request envelope must be an object''
      | RequestIdNotString \<Rightarrow> ''request_id must be a string''
      | InvalidRequestId \<Rightarrow> ''request_id must contain 1..'' @ show_nat MAX_REQUEST_ID_CHARS @ '' characters''
      | MissingMethod \<Rightarrow> ''request envelope requires a non-empty method''
      | ParamsNotObject \<Rightarrow> ''request params must be an object'')"

record RequestEnvelope =
  re_request_id :: "string option"
  re_method :: string
  re_params :: json

definition validate_request_id :: "string \<Rightarrow> RequestEnvelopeError + unit" where
  "validate_request_id request_id =
     guard (request_id = [] \<or> char_count request_id > MAX_REQUEST_ID_CHARS) InvalidRequestId"

definition envelope_request_id :: "(string \<times> json) list \<Rightarrow> RequestEnvelopeError + string option" where
  "envelope_request_id fs =
     (case map_of fs ''request_id'' of
        None \<Rightarrow> Inr None
      | Some v \<Rightarrow>
        (case as_str v of None \<Rightarrow> Inl RequestIdNotString
         | Some request_id \<Rightarrow> and_then (validate_request_id request_id) (\<lambda>_. Inr (Some request_id))))"

definition envelope_from_value :: "json \<Rightarrow> RequestEnvelopeError + RequestEnvelope" where
  "envelope_from_value v =
     (case as_object v of None \<Rightarrow> Inl NotObject
      | Some fs \<Rightarrow>
        and_then (envelope_request_id fs) (\<lambda>request_id.
        case Option.bind (map_of fs ''method'') as_str of
          None \<Rightarrow> Inl MissingMethod
        | Some m \<Rightarrow>
          if m = [] then Inl MissingMethod
          else (let params = (case map_of fs ''params'' of None \<Rightarrow> JObj [] | Some p \<Rightarrow> p) in
                if as_object params = None then Inl ParamsNotObject
                else Inr \<lparr>re_request_id = request_id, re_method = m, re_params = params\<rparr>)))"

section \<open>The Host's side (wire.rs)\<close>

text \<open>
  What serde_json does with bytes and values: parsing a slice, and decoding a value into the
  request type by the derived \<open>Deserialize\<close>.
\<close>

record serde =
  parse_slice :: "string \<Rightarrow> string + json"
  decode_request :: "json \<Rightarrow> string + Request"

definition frame_error :: "FrameError \<Rightarrow> HostError" where
  "frame_error e = (case e of FrameIo \<Rightarrow> Io | FrameProtocol message \<Rightarrow> Protocol message)"

definition request_id_from :: "json \<Rightarrow> string + string option" where
  "request_id_from v =
     (case json_get v ''request_id'' of
        None \<Rightarrow> Inr None
      | Some r \<Rightarrow>
        (case as_str r of None \<Rightarrow> Inl ''request_id must be a string''
         | Some request_id \<Rightarrow>
           and_then (map_err envelope_error_text (validate_request_id request_id))
             (\<lambda>_. Inr (Some request_id))))"

definition parse_request_frame ::
  "serde \<Rightarrow> string \<Rightarrow> (string option \<times> string) + (string option \<times> Request)" where
  "parse_request_frame sd frame =
     (case parse_slice sd frame of
        Inl e \<Rightarrow> Inl (None, e)
      | Inr envelope \<Rightarrow>
        (case request_id_from envelope of
           Inl e \<Rightarrow> Inl (None, e)
         | Inr request_id \<Rightarrow>
           (case envelope_from_value envelope of
              Inl e \<Rightarrow> Inl (request_id, envelope_error_text e)
            | Inr _ \<Rightarrow>
              (case decode_request sd envelope of
                 Inl e \<Rightarrow> Inl (request_id, e)
               | Inr request \<Rightarrow> Inr (request_id, request)))))"

definition error_response :: "string \<Rightarrow> string \<Rightarrow> json" where
  "error_response code message =
     JObj [(''type'', JStr ''error''), (''code'', JStr code), (''message'', JStr message)]"

definition with_request_id :: "json \<Rightarrow> string option \<Rightarrow> json" where
  "with_request_id response request_id = json_set_opt ''request_id'' JStr request_id response"

definition host_write :: "(writer \<Rightarrow> (FrameError + unit) \<times> writer) \<Rightarrow> writer \<Rightarrow> (HostError + unit) \<times> writer" where
  "host_write f w = (case f w of (r, w') \<Rightarrow> (map_err frame_error r, w'))"

definition write_json :: "externs \<Rightarrow> json \<Rightarrow> writer \<Rightarrow> (HostError + unit) \<times> writer" where
  "write_json x v w =
     (case to_vec x v of
        Inl e \<Rightarrow> (Inl (Protocol e), w)
      | Inr body \<Rightarrow> host_write (write_frame body MAX_JSON_FRAME_BYTES) w)"

definition write_response ::
  "externs \<Rightarrow> json \<Rightarrow> string option \<Rightarrow> writer \<Rightarrow> (HostError + unit) \<times> writer" where
  "write_response x v attachment w =
     (case to_vec x v of
        Inl e \<Rightarrow> (Inl (Protocol e), w)
      | Inr body \<Rightarrow>
        host_write
          (write_then (write_frame_unflushed body MAX_JSON_FRAME_BYTES)
          (write_then (case attachment of None \<Rightarrow> Pair (Inr ())
                       | Some bytes \<Rightarrow> write_frame_unflushed bytes MAX_BINARY_FRAME_BYTES)
             flush)) w)"

section \<open>Lengths\<close>

lemma be_digits:
  assumes "m < (4294967296 :: nat)"
  shows "((m div 16777216 * 256 + m div 65536 mod 256) * 256 + m div 256 mod 256) * 256 + m mod 256 = m"
proof -
  have "m div 65536 div 256 = m div 16777216" "m div 256 div 256 = m div 65536" by (simp_all add: div_mult2_eq)
  moreover have "m div 65536 div 256 * 256 + m div 65536 mod 256 = m div 65536" by presburger
  moreover have "m div 256 div 256 * 256 + m div 256 mod 256 = m div 256" by presburger
  ultimately show ?thesis by presburger
qed

lemma from_to_be_bytes [simp]: "from_be_bytes (to_be_bytes n) = n"
proof -
  have "unat n < 4294967296" using unsigned_less [of n] by simp
  then have "unat n div 16777216 mod 256 = unat n div 16777216" by simp
  with be_digits [OF \<open>unat n < _\<close>] show ?thesis
    by (simp add: from_be_bytes_def to_be_bytes_def Let_def)
qed

lemma length_to_be_bytes [simp]: "length (to_be_bytes n) = 4"
  by (simp add: to_be_bytes_def Let_def)

section \<open>Reading while the stream arrives\<close>

text \<open>
  The bytes of a stream arrive in pieces; between two pieces the connection loop wakes up for its
  ticks. An empty piece is a tick without new bytes. \<open>next_frame\<close> keeps the future across the ticks,
  as \<open>read_frame_with_interrupt_poll\<close> does. \<open>next_frame_dropping\<close> drops it at every tick and starts
  over, as the loop around an interruptible request does, whose \<open>select!\<close> creates the \<open>read_frame\<close>
  future anew in each round. \<open>None\<close> means that the frame is still pending when the arrivals end.
\<close>

definition arrive :: "string \<Rightarrow> reader \<Rightarrow> reader" where
  "arrive bytes r = r\<lparr>rd_buffer := rd_buffer r @ bytes\<rparr>"

fun next_frame ::
  "nat \<Rightarrow> frame_progress \<Rightarrow> reader \<Rightarrow> string list
   \<Rightarrow> ((FrameError + string option) \<times> reader \<times> string list) option" where
  "next_frame max_len p r [] =
     (case poll_frame max_len p r of (Ready v, r') \<Rightarrow> Some (v, r', []) | (Pending _, _) \<Rightarrow> None)"
| "next_frame max_len p r (piece # pieces) =
     (case poll_frame max_len p r of (Ready v, r') \<Rightarrow> Some (v, r', piece # pieces)
      | (Pending p', r') \<Rightarrow> next_frame max_len p' (arrive piece r') pieces)"

fun next_frame_dropping ::
  "nat \<Rightarrow> reader \<Rightarrow> string list \<Rightarrow> ((FrameError + string option) \<times> reader \<times> string list) option" where
  "next_frame_dropping max_len r [] =
     (case read_frame max_len r of (Ready v, r') \<Rightarrow> Some (v, r', []) | (Pending _, _) \<Rightarrow> None)"
| "next_frame_dropping max_len r (piece # pieces) =
     (case read_frame max_len r of (Ready v, r') \<Rightarrow> Some (v, r', piece # pieces)
      | (Pending _, r') \<Rightarrow> next_frame_dropping max_len (arrive piece r') pieces)"

section \<open>Round trip\<close>

definition frame_bytes :: "string \<Rightarrow> string" where
  "frame_bytes body = to_be_bytes (of_nat (length body)) @ body"

definition frame_ok :: "nat \<Rightarrow> string \<Rightarrow> bool" where
  "frame_ok max_len body \<longleftrightarrow> body \<noteq> [] \<and> length body \<le> max_len \<and> length body < 2 ^ 32"

lemma write_all_ok: "write_all bytes w = (Inr u, w') \<Longrightarrow> wr_bytes w' = wr_bytes w @ bytes"
  by (auto simp: write_all_def split: option.splits if_splits)

lemma write_then_ok:
  "write_then f g w = (Inr u, w') \<longleftrightarrow> (\<exists>w1. f w = (Inr (), w1) \<and> g w1 = (Inr u, w'))"
  by (auto simp: write_then_def split: prod.splits sum.splits)

lemma write_frame_unflushed_ok:
  "write_frame_unflushed body max_len w = (Inr u, w') \<Longrightarrow>
     frame_ok max_len body \<and> wr_bytes w' = wr_bytes w @ frame_bytes body"
  by (auto simp: write_frame_unflushed_def write_then_ok frame_ok_def frame_bytes_def unat_max_word
      dest!: write_all_ok split: if_splits)

lemma write_frame_ok:
  "write_frame body max_len w = (Inr u, w') \<Longrightarrow>
     frame_ok max_len body \<and> wr_bytes w' = wr_bytes w @ frame_bytes body"
  by (auto simp: write_frame_def write_then_ok flush_def dest: write_frame_unflushed_ok split: if_splits)

text \<open>A frame that is refused reaches the stream with no byte.\<close>

lemma write_frame_refused:
  "\<not> frame_ok max_len body \<Longrightarrow> write_frame body max_len w =
     (Inl (FrameProtocol ''frame payload is outside the configured limit''), w)"
  by (auto simp: write_frame_def write_frame_unflushed_def write_then_def frame_ok_def unat_max_word)

lemma poll_exact_eq:
  assumes "length got \<le> n"
  shows "poll_exact n got r =
     (if n \<le> length got + length (rd_buffer r)
      then (Full (got @ take (n - length got) (rd_buffer r)), r\<lparr>rd_buffer := drop (n - length got) (rd_buffer r)\<rparr>)
      else (case rd_end r of None \<Rightarrow> Partial (got @ rd_buffer r) | Some e \<Rightarrow> Ended e, r\<lparr>rd_buffer := []\<rparr>))"
proof (cases "n \<le> length got + length (rd_buffer r)")
  case True
  with assms show ?thesis by (simp add: poll_exact_def Let_def)
next
  case False
  then have "take (n - length got) (rd_buffer r) = rd_buffer r" "drop (n - length got) (rd_buffer r) = []"
    by simp_all
  with False show ?thesis by (simp add: poll_exact_def Let_def split: option.split)
qed

lemma arrive_simps [simp]:
  "rd_buffer (arrive b r) = rd_buffer r @ b" "rd_end (arrive b r) = rd_end r"
  "arrive b (r\<lparr>rd_buffer := a\<rparr>) = r\<lparr>rd_buffer := a @ b\<rparr>"
  "(arrive b r)\<lparr>rd_buffer := a\<rparr> = r\<lparr>rd_buffer := a\<rparr>"
  by (simp_all add: arrive_def)

lemma poll_exact_resume:
  assumes "rd_end r = None" and "length got \<le> n" and "poll_exact n got r = (Partial got', r')"
  shows "poll_exact n got' (arrive b r') = poll_exact n got (arrive b r)"
    and "r' = r\<lparr>rd_buffer := []\<rparr>" and "length got' < n"
proof -
  have short: "\<not> n \<le> length got + length (rd_buffer r)"
    and eq: "got' = got @ rd_buffer r" "r' = r\<lparr>rd_buffer := []\<rparr>"
    using assms by (auto simp: poll_exact_eq split: if_splits)
  then show "length got' < n" and "r' = r\<lparr>rd_buffer := []\<rparr>" by simp_all
  show "poll_exact n got' (arrive b r') = poll_exact n got (arrive b r)"
    using short assms(1,2) by (simp add: eq poll_exact_eq take_append drop_append)
qed

lemma poll_exact_full:
  assumes "length got \<le> n" and "n \<le> length got + length (rd_buffer r)"
  shows "poll_exact n got r = (Full (got @ take (n - length got) (rd_buffer r)),
     r\<lparr>rd_buffer := drop (n - length got) (rd_buffer r)\<rparr>)"
  using assms by (simp add: poll_exact_eq)

lemma poll_exact_short:
  assumes "rd_end r = None" and "length got + length (rd_buffer r) < n"
  shows "poll_exact n got r = (Partial (got @ rd_buffer r), r\<lparr>rd_buffer := []\<rparr>)"
  using assms by (simp add: poll_exact_eq)

text \<open>The progress of a future that is waiting.\<close>

fun progress_ok :: "frame_progress \<Rightarrow> bool" where
  "progress_ok (ReadingPrefix got) \<longleftrightarrow> length got \<le> 4"
| "progress_ok (ReadingBody n got) \<longleftrightarrow> length got \<le> n"

text \<open>What a poll makes of an open stream, by how much has arrived.\<close>

lemma poll_body_full:
  assumes "length got \<le> n" and "n \<le> length got + length (rd_buffer r)"
  shows "poll_frame_body n got r = (Ready (Inr (Some (got @ take (n - length got) (rd_buffer r)))),
     r\<lparr>rd_buffer := drop (n - length got) (rd_buffer r)\<rparr>)"
  using assms by (simp add: poll_frame_body_def poll_exact_full)

lemma poll_body_short:
  assumes "rd_end r = None" and "length got + length (rd_buffer r) < n"
  shows "poll_frame_body n got r = (Pending (ReadingBody n (got @ rd_buffer r)), r\<lparr>rd_buffer := []\<rparr>)"
  using assms by (simp add: poll_frame_body_def poll_exact_short)

lemma poll_prefix_short:
  assumes "rd_end r = None" and "length got + length (rd_buffer r) < 4"
  shows "poll_frame max_len (ReadingPrefix got) r = (Pending (ReadingPrefix (got @ rd_buffer r)), r\<lparr>rd_buffer := []\<rparr>)"
  using assms by (simp add: poll_exact_short)

lemma poll_prefix_full:
  assumes "length got \<le> 4" and "4 \<le> length got + length (rd_buffer r)"
    and "n = unat (from_be_bytes (got @ take (4 - length got) (rd_buffer r)))"
  shows "poll_frame max_len (ReadingPrefix got) r =
     (let r' = r\<lparr>rd_buffer := drop (4 - length got) (rd_buffer r)\<rparr> in
      if n = 0 \<or> n > max_len then (Ready (Inl (frame_length_refused n)), r') else poll_frame_body n [] r')"
  using assms by (simp add: poll_exact_full Let_def)

declare poll_frame.simps(1) [simp del]

text \<open>
  A frame whose bytes are still to come, \<open>todo\<close>, after the progress \<open>p\<close>: the prefix and body that the
  future has consumed and those of \<open>todo\<close> make up the frame.
\<close>

fun expects :: "string \<Rightarrow> frame_progress \<Rightarrow> string \<Rightarrow> bool" where
  "expects body (ReadingPrefix got) todo \<longleftrightarrow> length got < 4 \<and> got @ todo = frame_bytes body"
| "expects body (ReadingBody n got) todo \<longleftrightarrow>
     n = length body \<and> length got < n \<and> got @ todo = body"

lemma frame_length [simp]: "frame_ok max_len body \<Longrightarrow> unat (of_nat (length body) :: u32) = length body"
  by (simp add: frame_ok_def unsigned_of_nat take_bit_nat_eq_self)

text \<open>The prefix is complete: the future goes on with the body.\<close>

lemma poll_prefix_body:
  assumes "frame_ok max_len body" and "length got < 4" and "got @ pre = to_be_bytes (of_nat (length body))"
    and "rd_buffer r = pre @ rest"
  shows "poll_frame max_len (ReadingPrefix got) r = poll_frame_body (length body) [] (r\<lparr>rd_buffer := rest\<rparr>)"
proof -
  from assms(3) have len: "length got + length pre = 4"
    by (metis length_append length_to_be_bytes)
  have "length body = unat (from_be_bytes (got @ take (4 - length got) (rd_buffer r)))"
    using assms(1,3) len by (simp add: assms(4) take_append)
  from poll_prefix_full [OF _ _ this] assms(1,2,4) len show ?thesis
    by (auto simp: frame_ok_def Let_def drop_append)
qed

lemma poll_expected:
  assumes ok: "frame_ok max_len body" and "expects body p todo" and "rd_buffer r = todo @ rest"
  shows "poll_frame max_len p r = (Ready (Inr (Some body)), r\<lparr>rd_buffer := rest\<rparr>)"
proof (cases p)
  case (ReadingBody n got)
  with assms have "n = length body" "body = got @ todo" by auto
  with ReadingBody assms(3) show ?thesis by (simp add: poll_body_full)
next
  case (ReadingPrefix got)
  define hdr where "hdr = to_be_bytes (of_nat (length body))"
  from ReadingPrefix assms(2) have got: "length got < 4" "got @ todo = hdr @ body"
    by (auto simp: frame_bytes_def hdr_def)
  have "length hdr = 4" by (simp add: hdr_def)
  with got have todo: "todo = drop (length got) hdr @ body" and "got = take (length got) hdr"
    by (auto simp: append_eq_append_conv_if)
  then have "got @ drop (length got) hdr = hdr" by (metis append_take_drop_id)
  with todo poll_prefix_body [OF ok got(1), of "drop (length got) hdr"] assms(3)
  have "poll_frame max_len p r = poll_frame_body (length body) [] (r\<lparr>rd_buffer := body @ rest\<rparr>)"
    by (simp add: ReadingPrefix hdr_def)
  then show ?thesis by (simp add: poll_body_full)
qed

lemma poll_waiting:
  assumes ok: "frame_ok max_len body" and "rd_end r = None" and "expects body p (rd_buffer r @ todo)"
    and "todo \<noteq> []"
  shows "\<exists>p'. poll_frame max_len p r = (Pending p', r\<lparr>rd_buffer := []\<rparr>) \<and> expects body p' todo"
proof (cases p)
  case (ReadingBody n got)
  with assms have "n = length body" "got @ rd_buffer r @ todo = body" by auto
  moreover from this assms(4) have "length got + length (rd_buffer r) < n"
    by (metis add_less_cancel_left append_assoc length_append length_greater_0_conv less_add_same_cancel1)
  ultimately show ?thesis using assms(2) ReadingBody by (auto simp: poll_body_short)
next
  case (ReadingPrefix got)
  define hdr where "hdr = to_be_bytes (of_nat (length body))"
  from ReadingPrefix assms(3) have got: "length got < 4" "got @ rd_buffer r @ todo = hdr @ body"
    by (auto simp: frame_bytes_def hdr_def)
  have hdr: "length hdr = 4" by (simp add: hdr_def)
  show ?thesis
  proof (cases "length got + length (rd_buffer r) < 4")
    case True
    with got show ?thesis
      by (auto simp: ReadingPrefix poll_prefix_short [OF assms(2)] frame_bytes_def hdr_def)
  next
    case False
    define rest where "rest = drop (4 - length got) (rd_buffer r)"
    have split: "rd_buffer r = take (4 - length got) (rd_buffer r) @ rest" by (simp add: rest_def)
    have "got @ take (4 - length got) (rd_buffer r) = take 4 (got @ rd_buffer r @ todo)"
      using False got(1) by (simp add: take_append)
    also have "\<dots> = hdr" using hdr by (simp add: got(2))
    finally have pre: "got @ take (4 - length got) (rd_buffer r) = hdr" .
    have "rest @ todo = drop 4 (got @ rd_buffer r @ todo)"
      using False got(1) by (simp add: rest_def drop_append)
    also have "\<dots> = body" using hdr by (simp add: got(2))
    finally have body: "rest @ todo = body" .
    from poll_prefix_body [OF ok got(1) pre [unfolded hdr_def] split]
    have "poll_frame max_len p r = poll_frame_body (length body) [] (r\<lparr>rd_buffer := rest\<rparr>)"
      by (simp add: ReadingPrefix)
    moreover have "length rest < length body" using body assms(4) by (metis length_append length_greater_0_conv less_add_same_cancel1)
    ultimately show ?thesis using assms(2) body by (auto simp: poll_body_short)
  qed
qed

text \<open>Reading as many frames as were written, and writing them.\<close>

fun receive :: "nat \<Rightarrow> nat \<Rightarrow> reader \<Rightarrow> string list \<Rightarrow> (string list \<times> reader \<times> string list) option" where
  "receive max_len 0 r pieces = Some ([], r, pieces)"
| "receive max_len (Suc n) r pieces =
     (case next_frame max_len (ReadingPrefix []) r pieces of
        Some (Inr (Some body), r', pieces') \<Rightarrow>
          map_option (\<lambda>(bodies, rest). (body # bodies, rest)) (receive max_len n r' pieces')
      | _ \<Rightarrow> None)"

fun write_frames :: "nat \<Rightarrow> string list \<Rightarrow> writer \<Rightarrow> (FrameError + unit) \<times> writer" where
  "write_frames max_len [] w = (Inr (), w)"
| "write_frames max_len (body # bodies) w =
     write_then (write_frame body max_len) (write_frames max_len bodies) w"

lemma write_frames_ok:
  "write_frames max_len bodies w = (Inr u, w') \<Longrightarrow>
     list_all (frame_ok max_len) bodies \<and> wr_bytes w' = wr_bytes w @ concat (map frame_bytes bodies)"
  by (induction bodies arbitrary: w) (auto simp: write_then_ok dest!: write_frame_ok)

lemma next_frame_arrives:
  assumes "frame_ok max_len body" and "rd_end r = None" and "expects body p todo"
    and "rd_buffer r @ concat pieces = todo @ rest"
  shows "\<exists>r' pieces'. next_frame max_len p r pieces = Some (Inr (Some body), r', pieces')
    \<and> rd_end r' = None \<and> rd_buffer r' @ concat pieces' = rest"
  using assms
proof (induction pieces arbitrary: p r todo)
  case Nil
  then have "rd_buffer r = todo @ rest" by simp
  from poll_expected [OF Nil.prems(1,3) this] Nil.prems(2) show ?case by simp
next
  case (Cons piece pieces)
  show ?case
  proof (cases "length todo \<le> length (rd_buffer r)")
    case True
    with Cons.prems(4) obtain b where b: "rd_buffer r = todo @ b"
      by (metis append_eq_append_conv_if append_take_drop_id)
    with Cons.prems(4) have "b @ concat (piece # pieces) = rest" by simp
    with poll_expected [OF Cons.prems(1,3) b] Cons.prems(2) show ?thesis by simp
  next
    case False
    with Cons.prems(4) obtain t where t: "todo = rd_buffer r @ t" "t \<noteq> []"
      by (metis append_eq_append_conv_if append_take_drop_id append_self_conv2 append_Nil2 dual_order.refl nat_le_linear)
    from poll_waiting [OF Cons.prems(1,2)] Cons.prems(3) t obtain p' where
      p': "poll_frame max_len p r = (Pending p', r\<lparr>rd_buffer := []\<rparr>)" "expects body p' t" by auto
    have "rd_buffer (arrive piece (r\<lparr>rd_buffer := []\<rparr>)) @ concat pieces = t @ rest"
      using Cons.prems(4) t by simp
    from Cons.IH [OF Cons.prems(1) _ p'(2) this] Cons.prems(2) p'(1) show ?thesis by simp
  qed
qed

lemma receive_arrives:
  assumes "list_all (frame_ok max_len) bodies" and "rd_end r = None"
    and "rd_buffer r @ concat pieces = concat (map frame_bytes bodies) @ rest"
  shows "\<exists>r' pieces'. receive max_len (length bodies) r pieces = Some (bodies, r', pieces')
    \<and> rd_end r' = None \<and> rd_buffer r' @ concat pieces' = rest"
  using assms
proof (induction bodies arbitrary: r pieces)
  case (Cons body bodies)
  then have "rd_buffer r @ concat pieces = frame_bytes body @ (concat (map frame_bytes bodies) @ rest)" by simp
  from next_frame_arrives [OF _ Cons.prems(2) _ this, where max_len = max_len and body = body and p = "ReadingPrefix []"] Cons.prems(1)
  obtain r' pieces' where n: "next_frame max_len (ReadingPrefix []) r pieces = Some (Inr (Some body), r', pieces')"
    "rd_end r' = None" "rd_buffer r' @ concat pieces' = concat (map frame_bytes bodies) @ rest" by auto
  with Cons.IH [OF _ n(2,3)] Cons.prems(1) show ?case by auto
qed simp

text \<open>Nothing is read from a stream that brings nothing.\<close>

lemma next_frame_drained:
  assumes "rd_end r = None" "rd_buffer r @ concat pieces = []"
  shows "next_frame max_len (ReadingPrefix []) r pieces = None"
  using assms by (induction pieces arbitrary: r) (simp_all add: poll_prefix_short)

lemma read_frame_ended:
  assumes "rd_buffer r = []"
  shows "read_frame max_len (r\<lparr>rd_end := Some e\<rparr>) =
    (Ready (if e = UnexpectedEof then Inr None else Inl FrameIo), r\<lparr>rd_end := Some e\<rparr>)"
  using assms by (cases e) (simp_all add: read_frame_def poll_frame.simps(1) poll_exact_eq)

text \<open>
  C13. Frames survive the stream, however it is cut. Whatever bodies are written successfully, and
  in whatever pieces their bytes arrive, with ticks of the connection loop between them, reading
  with a future that is kept across the ticks returns exactly these bodies in order, and leaves
  nothing behind; each of them is non-empty and within the limit of the frame. The read after the
  last frame stays pending while the stream is open, reports no frame when the stream ends there,
  and an error when the transport fails.
\<close>

theorem frames_roundtrip:
  assumes "write_frames max_len bodies w = (Inr (), w')" and "wr_bytes w' = wr_bytes w @ concat pieces"
  shows "list_all (frame_ok max_len) bodies
    \<and> (\<exists>r pieces'. receive max_len (length bodies) \<lparr>rd_buffer = [], rd_end = None\<rparr> pieces
        = Some (bodies, r, pieces') \<and> rd_buffer r @ concat pieces' = []
        \<and> next_frame max_len (ReadingPrefix []) r pieces' = None
        \<and> fst (read_frame max_len (r\<lparr>rd_end := Some UnexpectedEof\<rparr>)) = Ready (Inr None)
        \<and> fst (read_frame max_len (r\<lparr>rd_end := Some TransportFault\<rparr>)) = Ready (Inl FrameIo))"
proof -
  from write_frames_ok [OF assms(1)] assms(2)
  have ok: "list_all (frame_ok max_len) bodies" and "concat pieces = concat (map frame_bytes bodies)" by auto
  then have "rd_buffer \<lparr>rd_buffer = [], rd_end = None\<rparr> @ concat pieces = concat (map frame_bytes bodies) @ []"
    by simp
  from receive_arrives [OF ok _ this] obtain r pieces' where
    read: "receive max_len (length bodies) \<lparr>rd_buffer = [], rd_end = None\<rparr> pieces = Some (bodies, r, pieces')"
    and r: "rd_end r = None" "rd_buffer r @ concat pieces' = []" by auto
  from ok read r next_frame_drained [OF r] show ?thesis by (auto simp: read_frame_ended)
qed

theorem frames_roundtrip_witness:
  "\<exists>r pieces'. receive 16 2 \<lparr>rd_buffer = [], rd_end = None\<rparr>
      [take 3 (frame_bytes ''ping''), [], drop 3 (frame_bytes ''ping'') @ frame_bytes ''x'']
    = Some ([''ping'', ''x''], r, pieces')"
proof -
  have w: "write_frames 16 [''ping'', ''x''] \<lparr>wr_bytes = [], wr_room = None, wr_flushes = True\<rparr>
      = (Inr (), \<lparr>wr_bytes = frame_bytes ''ping'' @ frame_bytes ''x'', wr_room = None, wr_flushes = True\<rparr>)"
    by (simp add: write_frame_def write_frame_unflushed_def write_then_def write_all_def flush_def
        frame_bytes_def unat_max_word)
  have "wr_bytes \<lparr>wr_bytes = frame_bytes ''ping'' @ frame_bytes ''x'', wr_room = None, wr_flushes = True\<rparr>
      = wr_bytes \<lparr>wr_bytes = [], wr_room = None, wr_flushes = True\<rparr> @ concat
        [take 3 (frame_bytes ''ping''), [], drop 3 (frame_bytes ''ping'') @ frame_bytes ''x'']"
    by (metis append_Nil append_assoc append_take_drop_id concat.simps append_Nil2 writer.select_convs(1))
  from frames_roundtrip [OF w this] show ?thesis by (auto simp: numeral_2_eq_2)
qed

lemma read_frame_consumes:
  assumes "read_frame max_len r = (Ready (Inr (Some body)), r')" and "rd_end r = None"
  shows "length body + 4 \<le> length (rd_buffer r)"
proof (cases "4 \<le> length (rd_buffer r)")
  case False
  with assms show ?thesis by (simp add: read_frame_def poll_prefix_short)
next
  case True
  define n where "n = unat (from_be_bytes (take 4 (rd_buffer r)))"
  define r1 where "r1 = r\<lparr>rd_buffer := drop 4 (rd_buffer r)\<rparr>"
  from True assms have b: "poll_frame_body n [] r1 = (Ready (Inr (Some body)), r')"
    by (auto simp: read_frame_def poll_prefix_full [OF _ _ refl] n_def r1_def Let_def split: if_splits)
  show ?thesis
  proof (cases "n \<le> length (rd_buffer r1)")
    case True
    with b have "length body = n" by (auto simp: poll_body_full)
    with True \<open>4 \<le> _\<close> show ?thesis by (simp add: r1_def)
  next
    case False
    with b assms(2) show ?thesis by (simp add: poll_body_short r1_def)
  qed
qed

text \<open>
  C30. A read that is dropped loses what it has read. When the first bytes of a frame arrive before
  a tick and the rest after it, the kept future returns the frame; the loop around an interruptible
  request, which starts the read over, never returns it: the bytes that were already consumed are
  gone and the stream is read from the middle of the frame.
\<close>

theorem dropped_read_loses_frame:
  assumes "frame_ok max_len body" and "0 < k" and "k < length (frame_bytes body)"
  shows "(\<exists>rest. next_frame max_len (ReadingPrefix []) \<lparr>rd_buffer = [], rd_end = None\<rparr>
        [take k (frame_bytes body), drop k (frame_bytes body)] = Some (Inr (Some body), rest))
    \<and> (\<nexists>rest. next_frame_dropping max_len \<lparr>rd_buffer = [], rd_end = None\<rparr>
        [take k (frame_bytes body), drop k (frame_bytes body)] = Some (Inr (Some body), rest))"
proof -
  define r0 where "r0 = \<lparr>rd_buffer = [], rd_end = None :: stream_end option\<rparr>"
  let ?b = "frame_bytes body"
  have "rd_buffer r0 @ concat [take k ?b, drop k ?b] = ?b @ []" by (simp add: r0_def)
  from next_frame_arrives [OF assms(1) _ _ this, where p = "ReadingPrefix []"]
  have kept: "\<exists>rest. next_frame max_len (ReadingPrefix []) r0 [take k ?b, drop k ?b] = Some (Inr (Some body), rest)"
    by (auto simp: r0_def)
  have "expects body (ReadingPrefix []) (rd_buffer r0 @ ?b)" "?b \<noteq> []"
    using assms(3) by (auto simp: r0_def)
  from poll_waiting [OF assms(1) _ this] obtain p where p: "read_frame max_len r0 = (Pending p, r0)"
    by (auto simp: r0_def read_frame_def)
  define r1 where "r1 = arrive (take k ?b) r0"
  have "expects body (ReadingPrefix []) (rd_buffer r1 @ drop k ?b)" "drop k ?b \<noteq> []"
    using assms(3) by (auto simp: r1_def r0_def)
  from poll_waiting [OF assms(1) _ this] obtain q where q: "read_frame max_len r1 = (Pending q, r0)"
    by (auto simp: r0_def r1_def read_frame_def arrive_def)
  define r2 where "r2 = arrive (drop k ?b) r0"
  have "length (rd_buffer r2) < length body + 4"
    using assms(2,3) by (auto simp: r2_def r0_def frame_bytes_def)
  moreover have "rd_end r2 = None" by (simp add: r2_def r0_def)
  ultimately have "read_frame max_len r2 \<noteq> (Ready (Inr (Some body)), r)" for r
    using read_frame_consumes by fastforce
  with kept show ?thesis
    by (auto simp: p q r1_def [symmetric] r2_def [symmetric] r0_def [symmetric] split: prod.splits frame_poll.splits)
qed

theorem dropped_read_loses_frame_witness:
  "(\<nexists>rest. next_frame_dropping 16 \<lparr>rd_buffer = [], rd_end = None\<rparr>
      [take 2 (frame_bytes ''ping''), drop 2 (frame_bytes ''ping'')] = Some (Inr (Some ''ping''), rest))"
proof -
  have "frame_ok 16 ''ping''" "(0::nat) < 2" "2 < length (frame_bytes ''ping'')"
    by (simp_all add: frame_ok_def frame_bytes_def)
  from dropped_read_loses_frame [OF this] show ?thesis by blast
qed

end
