(* ===== verification/Extension_Registry.thy ===== *)
theory Extension_Registry
  imports Session_Evidence Wire
begin

text \<open>
  The registry of browser extension providers (\<open>dcc-cua-host/src/browser_extension.rs\<close>): providers
  register with the handshake of their extension, poll for commands and answer them; window
  sessions claim a provider and call it. Everything is shared between connections, so each
  asynchronous operation is split where it waits: a call starts (checks, command and pending entry),
  is sent when the queue has room, and ends when it is answered, dropped or out of time.

  \<open>xr_arcs\<close> are the providers by allocation, because a call keeps its provider after the registry
  has dropped it; \<open>xr_providers\<close> is the registry itself, \<open>xr_calls\<close> the calls in flight with their
  end of the one-shot channel.
\<close>

section \<open>Constants and data\<close>

definition EXTENSION_SCHEMA :: string where "EXTENSION_SCHEMA = ''dcc-cua.browser-extension.v1''"
definition EXTENSION_PROTOCOL_VERSION :: u64 where "EXTENSION_PROTOCOL_VERSION = 1"
definition MAX_EXTENSION_CALL_TIMEOUT_MS :: u64 where "MAX_EXTENSION_CALL_TIMEOUT_MS = 30000"
definition PROVIDER_STALE_AFTER :: nat where "PROVIDER_STALE_AFTER = 15000000000"
definition PROVIDER_QUEUE_CAPACITY :: nat where "PROVIDER_QUEUE_CAPACITY = 16"

record ExtensionPairing =
  pg_session_nonce :: string
  pg_tab_id :: u64
  pg_window_id :: u64
  pg_origin :: string
  pg_document_id :: string

record Provider =
  pv_owner :: "string option"
  pv_secret :: string
  pv_extension_id :: string
  pv_extension_version :: string
  pv_invocation_origin :: string
  pv_browser_process_id :: u32
  pv_native_window :: "u64 option"
  pv_pairing :: ExtensionPairing
  pv_capabilities :: "string list"
  pv_commands :: "json list"
  pv_pending :: "(string \<times> nat) list"
  pv_last_seen :: nat

datatype oneshot = Open | Sent json | SenderDropped

record ExtensionCall =
  xc_provider :: nat
  xc_provider_id :: string
  xc_request_id :: string
  xc_method :: string
  xc_unsent :: "json option"
  xc_oneshot :: oneshot

record BrowserExtensionRegistry =
  xr_arcs :: "Provider list"
  xr_providers :: "(string \<times> nat) list"
  xr_calls :: "(nat \<times> ExtensionCall) list"
  xr_next_call :: nat

definition registry_new :: BrowserExtensionRegistry where
  "registry_new = \<lparr>xr_arcs = [], xr_providers = [], xr_calls = [], xr_next_call = 0\<rparr>"

section \<open>Field checks\<close>

definition ensure_exact_fields :: "json \<Rightarrow> string list \<Rightarrow> string \<Rightarrow> HostError + unit" where
  "ensure_exact_fields v expected object_name =
     (case as_object v of
        None \<Rightarrow> Inl (Protocol (''browser extension '' @ object_name @ '' must be an object''))
      | Some fs \<Rightarrow>
        guard (length fs \<noteq> length expected \<or> \<not> list_all (\<lambda>field. map_of fs field \<noteq> None) expected)
          (Protocol (''browser extension '' @ object_name @ '' fields do not match protocol v1'')))"

text \<open>\<open>value.len()\<close> counts bytes.\<close>

definition bounded_string :: "json \<Rightarrow> string \<Rightarrow> nat \<Rightarrow> HostError + string" where
  "bounded_string v field maximum =
     (case as_str (json_index v field) of
        Some s \<Rightarrow> if s \<noteq> [] \<and> length s \<le> maximum then Inr s
                  else Inl (Protocol (''browser extension '' @ field @ '' must contain 1..''
                         @ show_nat maximum @ '' characters''))
      | None \<Rightarrow> Inl (Protocol (''browser extension '' @ field @ '' must contain 1..''
                         @ show_nat maximum @ '' characters'')))"

definition positive_id :: "json \<Rightarrow> string \<Rightarrow> HostError + u64" where
  "positive_id v field =
     (case as_u64 (json_index v field) of
        Some n \<Rightarrow> if n > 0 then Inr n
                  else Inl (Protocol (''browser extension '' @ field @ '' must be positive''))
      | None \<Rightarrow> Inl (Protocol (''browser extension '' @ field @ '' must be positive'')))"

definition invocation_matches_extension :: "string \<Rightarrow> string \<Rightarrow> bool" where
  "invocation_matches_extension invocation_origin extension_id \<longleftrightarrow>
     invocation_origin = extension_id
     \<or> invocation_origin = ''chrome-extension://'' @ extension_id @ ''/''
     \<or> invocation_origin = ''moz-extension://'' @ extension_id @ ''/''"

fun capability_of :: "json \<Rightarrow> HostError + string" where
  "capability_of (JStr s) =
     (if s \<noteq> [] \<and> length s \<le> 128 then Inr s
      else Inl (Protocol ''browser extension capability is invalid''))"
| "capability_of _ = Inl (Protocol ''browser extension capability is invalid'')"

definition parse_capabilities :: "json \<Rightarrow> HostError + string list" where
  "parse_capabilities hello =
     (case as_array (json_index hello ''capabilities'') of
        Some (v # vs) \<Rightarrow>
          if length (v # vs) \<le> 32
          then and_then (collect_ok capability_of (v # vs)) (\<lambda>capabilities.
            if distinct capabilities then Inr capabilities
            else Inl (Protocol ''browser extension capabilities must not contain duplicates''))
          else Inl (Protocol ''browser extension capabilities must contain between 1 and 32 entries'')
      | _ \<Rightarrow> Inl (Protocol ''browser extension capabilities must contain between 1 and 32 entries''))"

definition parse_pairing :: "json \<Rightarrow> HostError + ExtensionPairing" where
  "parse_pairing p =
     and_then (bounded_string p ''session_nonce'' 64) (\<lambda>nonce.
     and_then (positive_id p ''tab_id'') (\<lambda>tab.
     and_then (positive_id p ''window_id'') (\<lambda>window.
     and_then (bounded_string p ''origin'' 2048) (\<lambda>origin.
     and_then (bounded_string p ''document_id'' 128) (\<lambda>document.
       Inr \<lparr>pg_session_nonce = nonce, pg_tab_id = tab, pg_window_id = window, pg_origin = origin,
            pg_document_id = document\<rparr>)))))"

definition parse_protocol :: "json \<Rightarrow> HostError + unit" where
  "parse_protocol hello =
     (let p = json_index hello ''protocol'' in
      and_then (ensure_exact_fields p [''min'', ''max''] ''protocol'') (\<lambda>_.
        guard (unwrap_or (as_u64 (json_index p ''min'')) 0 > EXTENSION_PROTOCOL_VERSION
               \<or> unwrap_or (as_u64 (json_index p ''max'')) 0 < EXTENSION_PROTOCOL_VERSION)
          (Protocol ''browser extension protocol ranges do not overlap'')))"

definition parse_extension_hello ::
  "json \<Rightarrow> string \<Rightarrow> HostError + (string \<times> string \<times> string list \<times> ExtensionPairing)" where
  "parse_extension_hello hello invocation_origin =
     and_then (ensure_exact_fields hello
       [''schema'', ''type'', ''protocol'', ''extension'', ''capabilities'', ''pairing''] ''hello'') (\<lambda>_.
     and_then (guard (json_index hello ''schema'' \<noteq> JStr EXTENSION_SCHEMA
                      \<or> json_index hello ''type'' \<noteq> JStr ''hello'')
       (Protocol ''browser extension hello schema is unsupported'')) (\<lambda>_.
     and_then (parse_protocol hello) (\<lambda>_.
     and_then (ensure_exact_fields (json_index hello ''extension'') [''id'', ''version''] ''extension'') (\<lambda>_.
     and_then (bounded_string (json_index hello ''extension'') ''id'' 128) (\<lambda>extension_id.
     and_then (bounded_string (json_index hello ''extension'') ''version'' 64) (\<lambda>version.
     and_then (guard (\<not> invocation_matches_extension invocation_origin extension_id)
       (Protocol ''native messaging invocation origin does not match the extension id'')) (\<lambda>_.
     and_then (ensure_exact_fields (json_index hello ''pairing'')
       [''session_nonce'', ''tab_id'', ''window_id'', ''origin'', ''document_id''] ''pairing'') (\<lambda>_.
     and_then (parse_capabilities hello) (\<lambda>capabilities.
     and_then (parse_pairing (json_index hello ''pairing'')) (\<lambda>pairing.
       Inr (extension_id, version, capabilities, pairing)))))))))))"

definition validate_extension_response :: "json \<Rightarrow> HostError + unit" where
  "validate_extension_response response =
     and_then (guard (json_index response ''schema'' \<noteq> JStr EXTENSION_SCHEMA
                      \<or> json_index response ''type'' \<noteq> JStr ''response'')
       (Protocol ''browser extension returned an invalid response envelope'')) (\<lambda>_.
     and_then (bounded_string response ''request_id'' MAX_REQUEST_ID_CHARS) (\<lambda>_.
       case as_bool (json_index response ''ok'') of
         Some True \<Rightarrow> ensure_exact_fields response
           [''schema'', ''type'', ''request_id'', ''ok'', ''result''] ''success response''
       | Some False \<Rightarrow>
         and_then (ensure_exact_fields response
           [''schema'', ''type'', ''request_id'', ''ok'', ''error''] ''error response'') (\<lambda>_.
         and_then (ensure_exact_fields (json_index response ''error'') [''code'', ''message''] ''response error'') (\<lambda>_.
         and_then (bounded_string (json_index response ''error'') ''code'' 64) (\<lambda>_.
         and_then (bounded_string (json_index response ''error'') ''message'' 256) (\<lambda>_. Inr ()))))
       | None \<Rightarrow> Inl (Protocol ''browser extension response ok field must be boolean'')))"

section \<open>The registry\<close>

definition provider :: "BrowserExtensionRegistry \<Rightarrow> string \<Rightarrow> HostError + nat" where
  "provider st provider_id =
     (case map_of (xr_providers st) provider_id of
        None \<Rightarrow> Inl (Protocol ''browser extension provider not found'') | Some a \<Rightarrow> Inr a)"

definition authorized_provider :: "BrowserExtensionRegistry \<Rightarrow> string \<Rightarrow> string \<Rightarrow> HostError + nat" where
  "authorized_provider st provider_id secret =
     and_then (provider st provider_id) (\<lambda>a.
       if pv_secret (xr_arcs st ! a) \<noteq> secret
       then Inl (Protocol ''browser extension provider secret mismatch'') else Inr a)"

definition update_arc ::
  "nat \<Rightarrow> (Provider \<Rightarrow> Provider) \<Rightarrow> BrowserExtensionRegistry \<Rightarrow> BrowserExtensionRegistry" where
  "update_arc a f st = st\<lparr>xr_arcs := (xr_arcs st)[a := f (xr_arcs st ! a)]\<rparr>"

definition prune_stale :: "world \<Rightarrow> BrowserExtensionRegistry \<Rightarrow> BrowserExtensionRegistry" where
  "prune_stale w st =
     st\<lparr>xr_providers :=
       filter (\<lambda>(_, a). \<not> mono_ns w - pv_last_seen (xr_arcs st ! a) \<ge> PROVIDER_STALE_AFTER) (xr_providers st)\<rparr>"

definition registered_reply :: "string \<Rightarrow> string \<Rightarrow> json" where
  "registered_reply provider_id secret =
     JObj [(''type'', JStr ''browser_extension_registered''), (''provider_id'', JStr provider_id),
       (''provider_secret'', JStr secret), (''poll_timeout_ms'', json_u64 5000)]"

definition register_with_window ::
  "world \<Rightarrow> string \<Rightarrow> string \<Rightarrow> json \<Rightarrow> string \<Rightarrow> u32 \<Rightarrow> u64 option \<Rightarrow> string option
   \<Rightarrow> BrowserExtensionRegistry \<Rightarrow> (HostError + json) \<times> BrowserExtensionRegistry" where
  "register_with_window w uuid secret hello invocation_origin pid window task_owner st =
     (if pid = 0
      then (Inl (Protocol ''browser extension registration requires the browser process id''), st)
      else case parse_extension_hello hello invocation_origin of
        Inl e \<Rightarrow> (Inl e, st)
      | Inr (extension_id, version, capabilities, pairing) \<Rightarrow>
        (let st = prune_stale w st; provider_id = ''browser-extension-'' @ uuid;
             p = \<lparr>pv_owner = task_owner, pv_secret = secret, pv_extension_id = extension_id,
                  pv_extension_version = version, pv_invocation_origin = invocation_origin,
                  pv_browser_process_id = pid, pv_native_window = window, pv_pairing = pairing,
                  pv_capabilities = capabilities, pv_commands = [], pv_pending = [],
                  pv_last_seen = mono_ns w\<rparr>
         in (Inr (registered_reply provider_id secret),
             st\<lparr>xr_arcs := xr_arcs st @ [p],
                xr_providers := AList.update provider_id (length (xr_arcs st)) (xr_providers st)\<rparr>)))"

text \<open>The one-shot sender of a call is dropped without a value.\<close>

definition drop_sender :: "nat \<Rightarrow> (nat \<times> ExtensionCall) list \<Rightarrow> (nat \<times> ExtensionCall) list" where
  "drop_sender c calls =
     map (\<lambda>(k, call). (k, if k = c then call\<lparr>xc_oneshot := SenderDropped\<rparr> else call)) calls"

definition unregister ::
  "string \<Rightarrow> string \<Rightarrow> BrowserExtensionRegistry \<Rightarrow> (HostError + json) \<times> BrowserExtensionRegistry" where
  "unregister provider_id secret st =
     (case authorized_provider st provider_id secret of
        Inl e \<Rightarrow> (Inl e, st)
      | Inr a \<Rightarrow>
        (Inr (JObj [(''type'', JStr ''browser_extension_unregistered''), (''provider_id'', JStr provider_id)]),
         update_arc a (\<lambda>p. p\<lparr>pv_pending := []\<rparr>)
           (st\<lparr>xr_providers := AList.delete provider_id (xr_providers st),
              xr_calls := fold drop_sender (map snd (pv_pending (xr_arcs st ! a))) (xr_calls st)\<rparr>)))"

text \<open>\<open>next_command\<close>: the poll starts, and ends with a command or when its time is over.\<close>

definition next_command_start ::
  "world \<Rightarrow> string \<Rightarrow> string \<Rightarrow> u64 \<Rightarrow> BrowserExtensionRegistry
   \<Rightarrow> (HostError + nat) \<times> BrowserExtensionRegistry" where
  "next_command_start w provider_id secret timeout_ms st =
     (if timeout_ms > MAX_EXTENSION_CALL_TIMEOUT_MS
      then (Inl (Protocol (''browser extension poll timeout must be at most ''
              @ show_nat (unat MAX_EXTENSION_CALL_TIMEOUT_MS) @ '' ms'')), st)
      else case authorized_provider st provider_id secret of
        Inl e \<Rightarrow> (Inl e, st)
      | Inr a \<Rightarrow> (Inr a, update_arc a (\<lambda>p. p\<lparr>pv_last_seen := mono_ns w\<rparr>) st))"

definition command_reply :: "string \<Rightarrow> json option \<Rightarrow> json" where
  "command_reply provider_id command =
     JObj [(''type'', JStr ''browser_extension_command''), (''provider_id'', JStr provider_id),
       (''command'', case command of None \<Rightarrow> JNull | Some c \<Rightarrow> c)]"

definition next_command_receive ::
  "string \<Rightarrow> nat \<Rightarrow> BrowserExtensionRegistry \<Rightarrow> json \<times> BrowserExtensionRegistry" where
  "next_command_receive provider_id a st =
     (case pv_commands (xr_arcs st ! a) of
        [] \<Rightarrow> (command_reply provider_id None, st)
      | c # cs \<Rightarrow> (command_reply provider_id (Some c), update_arc a (\<lambda>p. p\<lparr>pv_commands := cs\<rparr>) st))"

text \<open>The answer is handed to the call that waits for its request id.\<close>

definition settle_pending ::
  "string \<Rightarrow> nat \<Rightarrow> json \<Rightarrow> BrowserExtensionRegistry \<Rightarrow> (HostError + json) \<times> BrowserExtensionRegistry" where
  "settle_pending provider_id a response st =
     (case and_then (validate_extension_response response)
             (\<lambda>_. bounded_string response ''request_id'' MAX_REQUEST_ID_CHARS) of
        Inl e \<Rightarrow> (Inl e, st)
      | Inr request_id \<Rightarrow>
        (case map_of (pv_pending (xr_arcs st ! a)) request_id of
           None \<Rightarrow> (Inl (Protocol ''browser extension response does not match a pending request''), st)
         | Some c \<Rightarrow>
           (let remove = update_arc a (\<lambda>p. p\<lparr>pv_pending := AList.delete request_id (pv_pending p)\<rparr>) in
            case map_of (xr_calls st) c of
              None \<Rightarrow> (Inl (Protocol ''browser extension caller disconnected before completion''), remove st)
            | Some call \<Rightarrow>
              (Inr (JObj [(''type'', JStr ''browser_extension_completion_accepted''),
                 (''provider_id'', JStr provider_id), (''request_id'', JStr request_id)]),
               remove (st\<lparr>xr_calls := AList.update c (call\<lparr>xc_oneshot := Sent response\<rparr>) (xr_calls st)\<rparr>)))))"

definition complete ::
  "world \<Rightarrow> string \<Rightarrow> string \<Rightarrow> json \<Rightarrow> BrowserExtensionRegistry
   \<Rightarrow> (HostError + json) \<times> BrowserExtensionRegistry" where
  "complete w provider_id secret response st =
     (case authorized_provider st provider_id secret of
        Inl e \<Rightarrow> (Inl e, st)
      | Inr a \<Rightarrow> settle_pending provider_id a response (update_arc a (\<lambda>p. p\<lparr>pv_last_seen := mono_ns w\<rparr>) st))"

definition summary :: "string \<Rightarrow> Provider \<Rightarrow> json" where
  "summary provider_id p =
     JObj [(''provider_id'', JStr provider_id), (''provider'', JStr ''extension''),
       (''extension'', JObj [(''id'', JStr (pv_extension_id p)), (''version'', JStr (pv_extension_version p)),
          (''invocation_origin'', JStr (pv_invocation_origin p)),
          (''browser_process_id'', json_u32 (pv_browser_process_id p))]),
       (''pairing'', JObj [(''tab_id'', json_u64 (pg_tab_id (pv_pairing p))),
          (''window_id'', json_u64 (pg_window_id (pv_pairing p))),
          (''origin'', JStr (pg_origin (pv_pairing p))),
          (''document_id'', JStr (pg_document_id (pv_pairing p)))]),
       (''capabilities'', JArr (map JStr (pv_capabilities p)))]"

definition status_for_process ::
  "world \<Rightarrow> u32 \<Rightarrow> BrowserExtensionRegistry \<Rightarrow> json \<times> BrowserExtensionRegistry" where
  "status_for_process w pid st =
     (let st = prune_stale w st;
          rows = map (\<lambda>(provider_id, a). summary provider_id (xr_arcs st ! a))
            (filter (\<lambda>(_, a). pv_browser_process_id (xr_arcs st ! a) = pid) (xr_providers st))
      in (JObj [(''type'', JStr ''browser_extension_status''), (''available'', JBool (rows \<noteq> [])),
            (''providers'', JArr rows), (''fallback_provider'', JStr ''cdp''),
            (''install_state'', JStr (if rows = [] then ''not_connected_or_not_paired'' else ''ready''))], st))"

definition claim ::
  "string \<Rightarrow> u32 \<Rightarrow> u64 \<Rightarrow> string \<Rightarrow> string \<Rightarrow> BrowserExtensionRegistry
   \<Rightarrow> (HostError + unit) \<times> BrowserExtensionRegistry" where
  "claim provider_id pid hwnd origin task_capability st =
     (case provider st provider_id of
        Inl e \<Rightarrow> (Inl e, st)
      | Inr a \<Rightarrow>
        (let p = xr_arcs st ! a in
         if pv_browser_process_id p \<noteq> pid \<or> pv_native_window p \<noteq> Some hwnd \<or> pg_origin (pv_pairing p) \<noteq> origin
         then (Inl (Protocol ''extension pairing target mismatch''), st)
         else case pv_owner p of
           Some owner \<Rightarrow>
             if owner \<noteq> task_capability
             then (Inl (Protocol ''pairing is owned by another task; pair the tab again''), st)
             else (Inr (), st)
         | None \<Rightarrow> (Inr (), update_arc a (\<lambda>p. p\<lparr>pv_owner := Some task_capability\<rparr>) st)))"

definition require_navigation_capability :: "BrowserExtensionRegistry \<Rightarrow> string \<Rightarrow> HostError + unit" where
  "require_navigation_capability st provider_id =
     and_then (provider st provider_id) (\<lambda>a.
       guard (''tab_navigation_v1'' \<notin> set (pv_capabilities (xr_arcs st ! a)))
         (Protocol ''navigation_unsupported: paired extension lacks tab_navigation_v1''))"

section \<open>Calls\<close>

definition extension_methods :: "string list" where
  "extension_methods = [''snapshot'', ''click'', ''type'', ''navigate'', ''unpair'']"

definition protected_params :: "string list" where
  "protected_params = [''schema'', ''request_id'', ''method'', ''session_nonce'', ''tab_id'',
     ''_dcc_task_owner'', ''_dcc_deadline_unix_ms'', ''deadline_unix_ms'']"

definition call_target_check ::
  "BrowserExtensionRegistry \<Rightarrow> string \<Rightarrow> string \<Rightarrow> u32 \<Rightarrow> string \<Rightarrow> HostError + nat" where
  "call_target_check st provider_id expected_origin pid m =
     and_then (provider st provider_id) (\<lambda>a.
       let p = xr_arcs st ! a in
       and_then (guard (pv_browser_process_id p \<noteq> pid)
         (Protocol ''browser extension provider process does not match the exact window session'')) (\<lambda>_.
       and_then (guard (pg_origin (pv_pairing p) \<noteq> expected_origin)
         (Protocol ''browser extension provider origin does not match the requested origin'')) (\<lambda>_.
       and_then (guard (m \<notin> set extension_methods)
         (Protocol (''unsupported browser extension method: '' @ m))) (\<lambda>_.
       and_then (if m = ''navigate'' then require_navigation_capability st provider_id else Inr ()) (\<lambda>_.
         Inr a)))))"

definition call_params :: "json \<Rightarrow> HostError + (string \<times> json) list" where
  "call_params params =
     (case as_object params of
        None \<Rightarrow> Inl (Protocol ''browser extension call params must be a JSON object'')
      | Some fs \<Rightarrow>
        and_then (all_ok (\<lambda>forbidden. guard (map_of fs forbidden \<noteq> None)
          (Protocol (''browser extension call params cannot override '' @ forbidden))) protected_params)
          (\<lambda>_. Inr fs))"

definition call_command ::
  "externs \<Rightarrow> world \<Rightarrow> string \<Rightarrow> Provider \<Rightarrow> string \<Rightarrow> u64 \<Rightarrow> (string \<times> json) list \<Rightarrow> json" where
  "call_command x w request_id p m timeout_ms fs =
     (let deadline = json_u64 (saturating_add (observed_at_millis w) timeout_ms);
          base = fold (\<lambda>(k, v). json_set k v)
            [(''schema'', JStr EXTENSION_SCHEMA), (''request_id'', JStr request_id), (''method'', JStr m),
             (''session_nonce'', JStr (pg_session_nonce (pv_pairing p))),
             (''tab_id'', json_u64 (pg_tab_id (pv_pairing p))), (''_dcc_deadline_unix_ms'', deadline)]
            (JObj fs);
          timed = (if m = ''navigate'' then json_set ''deadline_unix_ms'' deadline base else base)
      in json_set_opt ''_dcc_task_owner'' (\<lambda>owner. JStr (sha256_hex x owner)) (pv_owner p) timed)"

text \<open>Everything before the command is sent; the call is then in flight.\<close>

definition call_enter ::
  "string \<Rightarrow> string \<Rightarrow> nat \<Rightarrow> string \<Rightarrow> json \<Rightarrow> BrowserExtensionRegistry
   \<Rightarrow> nat \<times> BrowserExtensionRegistry" where
  "call_enter request_id provider_id a m command st =
     (let c = xr_next_call st;
          call = \<lparr>xc_provider = a, xc_provider_id = provider_id, xc_request_id = request_id,
                  xc_method = m, xc_unsent = Some command, xc_oneshot = Open\<rparr>;
          replaced = (case map_of (pv_pending (xr_arcs st ! a)) request_id of None \<Rightarrow> [] | Some k \<Rightarrow> [k])
      in (c, update_arc a (\<lambda>p. p\<lparr>pv_pending := AList.update request_id c (pv_pending p)\<rparr>)
            (st\<lparr>xr_calls := (c, call) # fold drop_sender replaced (xr_calls st), xr_next_call := Suc c\<rparr>)))"

definition call_start ::
  "externs \<Rightarrow> world \<Rightarrow> string \<Rightarrow> string \<Rightarrow> string \<Rightarrow> u32 \<Rightarrow> string \<Rightarrow> json \<Rightarrow> u64
   \<Rightarrow> BrowserExtensionRegistry \<Rightarrow> (HostError + nat) \<times> BrowserExtensionRegistry" where
  "call_start x w request_id provider_id expected_origin pid m params timeout_ms st =
     (if timeout_ms = 0 \<or> timeout_ms > MAX_EXTENSION_CALL_TIMEOUT_MS
      then (Inl (Protocol (''browser extension call timeout must be between 1 and ''
              @ show_nat (unat MAX_EXTENSION_CALL_TIMEOUT_MS) @ '' ms'')), st)
      else
       (let st = prune_stale w st in
        case call_target_check st provider_id expected_origin pid m of
          Inl e \<Rightarrow> (Inl e, st)
        | Inr a \<Rightarrow>
          (case call_params params of
             Inl e \<Rightarrow> (Inl e, st)
           | Inr fs \<Rightarrow>
             (let (c, st') = call_enter request_id provider_id a m
                    (call_command x w request_id (xr_arcs st ! a) m timeout_ms fs) st
              in (Inr c, st')))))"

text \<open>The queue has room: the command is handed over.\<close>

definition call_send :: "nat \<Rightarrow> BrowserExtensionRegistry \<Rightarrow> BrowserExtensionRegistry option" where
  "call_send c st =
     (case map_of (xr_calls st) c of
        None \<Rightarrow> None
      | Some call \<Rightarrow>
        (case xc_unsent call of
           None \<Rightarrow> None
         | Some command \<Rightarrow>
           if length (pv_commands (xr_arcs st ! xc_provider call)) < PROVIDER_QUEUE_CAPACITY
           then Some (update_arc (xc_provider call) (\<lambda>p. p\<lparr>pv_commands := pv_commands p @ [command]\<rparr>)
                  (st\<lparr>xr_calls := AList.update c (call\<lparr>xc_unsent := None\<rparr>) (xr_calls st)\<rparr>))
           else None))"

definition call_error :: "json \<Rightarrow> HostError" where
  "call_error response =
     (let e = json_index response ''error'' in
      Protocol (unwrap_or (as_str (json_index e ''code'')) ''browser_extension_error'' @ '': ''
        @ unwrap_or (as_str (json_index e ''message'')) ''browser extension call failed''))"

definition navigation_receipt :: "json \<Rightarrow> bool" where
  "navigation_receipt result \<longleftrightarrow>
     json_index result ''phase'' = JStr ''dispatched''
     \<and> json_index result ''navigation_requested'' = JBool True
     \<and> json_index result ''completion_known'' = JBool False
     \<and> json_index result ''effect'' = JStr ''unverified''
     \<and> json_index result ''pairing_required'' = JBool True
     \<and> json_index result ''fresh_observation_required'' = JBool True"

definition call_reply :: "ExtensionCall \<Rightarrow> Provider \<Rightarrow> json \<Rightarrow> HostError + json" where
  "call_reply call p response =
     (let m = xc_method call; result = json_index response ''result'' in
      and_then (guard (json_index response ''schema'' \<noteq> JStr EXTENSION_SCHEMA
                       \<or> json_index response ''type'' \<noteq> JStr ''response'')
        (Protocol ''browser extension returned an invalid response envelope'')) (\<lambda>_.
      and_then (guard (json_index response ''ok'' = JBool False) (call_error response)) (\<lambda>_.
      and_then (guard (m = ''snapshot'' \<and> pv_owner p \<noteq> None
                       \<and> as_str (json_index (json_index result ''document'') ''id'')
                           \<noteq> Some (pg_document_id (pv_pairing p)))
        (Protocol ''extension document changed; pair the tab again'')) (\<lambda>_.
      and_then (guard (m = ''navigate'' \<and> \<not> navigation_receipt result)
        (Protocol ''navigation_outcome_unknown: invalid navigation receipt'')) (\<lambda>_.
        Inr (JObj [(''type'', JStr ''browser_extension_result''), (''provider_id'', JStr (xc_provider_id call)),
          (''origin'', JStr (pg_origin (pv_pairing p))), (''method'', JStr m), (''result'', result)]))))))"

text \<open>
  How a call ends: it is answered; its sender is gone; or its time is over, before or after the
  command was handed over. When the caller itself is dropped, its pending entry stays.
\<close>

datatype call_end = Receive | TimeOut

definition remove_pending :: "ExtensionCall \<Rightarrow> BrowserExtensionRegistry \<Rightarrow> BrowserExtensionRegistry" where
  "remove_pending call st =
     (case map_of (pv_pending (xr_arcs st ! xc_provider call)) (xc_request_id call) of
        None \<Rightarrow> st
      | Some k \<Rightarrow>
        update_arc (xc_provider call) (\<lambda>p. p\<lparr>pv_pending := AList.delete (xc_request_id call) (pv_pending p)\<rparr>)
          (st\<lparr>xr_calls := drop_sender k (xr_calls st)\<rparr>))"

definition call_timed_out :: "ExtensionCall \<Rightarrow> HostError" where
  "call_timed_out call = Protocol
     (if xc_unsent call \<noteq> None then ''browser extension provider disconnected''
      else if xc_method call = ''navigate''
      then ''navigation_outcome_unknown: navigation may have been dispatched; re-pair before further work''
      else ''browser extension call timed out'')"

definition call_finish ::
  "call_end \<Rightarrow> nat \<Rightarrow> BrowserExtensionRegistry \<Rightarrow> ((HostError + json) \<times> BrowserExtensionRegistry) option" where
  "call_finish how c st =
     (case map_of (xr_calls st) c of
        None \<Rightarrow> None
      | Some call \<Rightarrow>
        (let rest = st\<lparr>xr_calls := AList.delete c (xr_calls st)\<rparr> in
         case how of
           TimeOut \<Rightarrow>
           if xc_unsent call \<noteq> None \<or> xc_oneshot call = Open
           then Some (Inl (call_timed_out call), remove_pending call rest) else None
         | Receive \<Rightarrow>
           if xc_unsent call \<noteq> None then None
           else (case xc_oneshot call of
                   Open \<Rightarrow> None
                 | Sent response \<Rightarrow> Some (call_reply call (xr_arcs st ! xc_provider call) response, rest)
                 | SenderDropped \<Rightarrow>
                   Some (Inl (Protocol ''browser extension provider dropped the pending call''),
                     remove_pending call rest))))"

definition call_abandon :: "nat \<Rightarrow> BrowserExtensionRegistry \<Rightarrow> BrowserExtensionRegistry" where
  "call_abandon c st = st\<lparr>xr_calls := AList.delete c (xr_calls st)\<rparr>"

definition navigation_provider_must_revoke :: "HostError + json \<Rightarrow> bool" where
  "navigation_provider_must_revoke result =
     (case result of
        Inl (Protocol message) \<Rightarrow>
          takeWhile (\<lambda>c. c \<noteq> CHR '':'') message
            \<notin> {''navigation_unsupported'', ''target_not_foreground'', ''stale_observation'',
               ''command_expired'', ''navigation_target_refused'', ''navigation_cancelled''}
      | _ \<Rightarrow> True)"

definition revoke_provider :: "string \<Rightarrow> BrowserExtensionRegistry \<Rightarrow> BrowserExtensionRegistry" where
  "revoke_provider provider_id st = st\<lparr>xr_providers := AList.delete provider_id (xr_providers st)\<rparr>"

end
