(* ===== verification/Extension_Invariant.thy ===== *)
theory Extension_Invariant
  imports Extension_Registry
begin

text \<open>
  The invariant of the extension registry and the contract of its operations: each keeps the
  invariant, the identities of the providers and the owner of a pairing. Every operation of
  \<open>Extension_Registry\<close> is shown to meet the contract.
\<close>

section \<open>Invariant\<close>

definition pending_ok :: "BrowserExtensionRegistry \<Rightarrow> nat \<Rightarrow> string \<Rightarrow> nat \<Rightarrow> bool" where
  "pending_ok st a request_id c \<longleftrightarrow> c < xr_next_call st
     \<and> (\<forall>call. map_of (xr_calls st) c = Some call \<longrightarrow>
          xc_provider call = a \<and> xc_request_id call = request_id \<and> xc_oneshot call = Open)"

definition call_ok :: "BrowserExtensionRegistry \<Rightarrow> nat \<Rightarrow> ExtensionCall \<Rightarrow> bool" where
  "call_ok st c call \<longleftrightarrow> c < xr_next_call st \<and> xc_provider call < length (xr_arcs st)
     \<and> (case xc_oneshot call of
          Open \<Rightarrow> map_of (pv_pending (xr_arcs st ! xc_provider call)) (xc_request_id call) = Some c
        | Sent response \<Rightarrow> validate_extension_response response = Inr ()
            \<and> json_index response ''request_id'' = JStr (xc_request_id call)
        | SenderDropped \<Rightarrow> True)"

definition registry_ok :: "BrowserExtensionRegistry \<Rightarrow> bool" where
  "registry_ok st \<longleftrightarrow>
     (\<forall>(provider_id, a) \<in> set (xr_providers st). a < length (xr_arcs st))
     \<and> (\<forall>a < length (xr_arcs st). length (pv_commands (xr_arcs st ! a)) \<le> PROVIDER_QUEUE_CAPACITY
          \<and> distinct (keys_of (pv_pending (xr_arcs st ! a)))
          \<and> (\<forall>(request_id, c) \<in> set (pv_pending (xr_arcs st ! a)). pending_ok st a request_id c))
     \<and> (\<forall>c call. map_of (xr_calls st) c = Some call \<longrightarrow> call_ok st c call)"

text \<open>What no operation takes back: the identity of a provider and its owner.\<close>

definition identity_of :: "Provider \<Rightarrow> string \<times> string \<times> string \<times> string \<times> u32 \<times> u64 option \<times> ExtensionPairing \<times> string list" where
  "identity_of p = (pv_secret p, pv_extension_id p, pv_extension_version p, pv_invocation_origin p,
     pv_browser_process_id p, pv_native_window p, pv_pairing p, pv_capabilities p)"

definition keeps_providers :: "BrowserExtensionRegistry \<Rightarrow> BrowserExtensionRegistry \<Rightarrow> bool" where
  "keeps_providers st st' \<longleftrightarrow> length (xr_arcs st) \<le> length (xr_arcs st')
     \<and> (\<forall>a < length (xr_arcs st). identity_of (xr_arcs st' ! a) = identity_of (xr_arcs st ! a)
          \<and> (\<forall>owner. pv_owner (xr_arcs st ! a) = Some owner \<longrightarrow> pv_owner (xr_arcs st' ! a) = Some owner))"

lemma keeps_providers_refl [simp]: "keeps_providers st st"
  by (simp add: keeps_providers_def)

lemma keeps_providers_trans: "keeps_providers a b \<Longrightarrow> keeps_providers b c \<Longrightarrow> keeps_providers a c"
  by (auto simp: keeps_providers_def)

text \<open>The contract of an operation on the shared registry.\<close>

locale registry_operation =
  fixes f :: "BrowserExtensionRegistry \<Rightarrow> BrowserExtensionRegistry"
  assumes keeps_ok: "registry_ok st \<Longrightarrow> registry_ok (f st)"
    and keeps_identities: "registry_ok st \<Longrightarrow> keeps_providers st (f st)"

lemma operation_compose:
  "registry_operation f \<Longrightarrow> registry_operation g \<Longrightarrow> registry_operation (\<lambda>st. g (f st))"
  unfolding registry_operation_def by (auto intro: keeps_providers_trans)

section \<open>Updates\<close>

lemma nth_update: "xs[a := v] ! b = (if a = b \<and> a < length xs then v else xs ! b)"
  by (cases "a < length xs") (auto simp: nth_list_update list_update_beyond)

lemma arcs_update_arc [simp]:
  "xr_arcs (update_arc a f st) = (xr_arcs st)[a := f (xr_arcs st ! a)]"
  "xr_providers (update_arc a f st) = xr_providers st" "xr_calls (update_arc a f st) = xr_calls st"
  "xr_next_call (update_arc a f st) = xr_next_call st"
  by (simp_all add: update_arc_def)

lemma keeps_update_arc:
  assumes "\<And>p. identity_of (f p) = identity_of p"
    and "\<And>p owner. pv_owner p = Some owner \<Longrightarrow> pv_owner (f p) = Some owner"
    and "xr_arcs st' = xr_arcs st"
  shows "keeps_providers st (update_arc a f st')"
  using assms by (auto simp: keeps_providers_def nth_update)

lemma map_of_drop_sender:
  "map_of (drop_sender c calls) k =
     map_option (\<lambda>call. if k = c then call\<lparr>xc_oneshot := SenderDropped\<rparr> else call) (map_of calls k)"
  by (induction calls) (auto simp: drop_sender_def)

lemma map_of_fold_drop_sender:
  "map_of (fold drop_sender cs calls) k =
     map_option (\<lambda>call. if k \<in> set cs then call\<lparr>xc_oneshot := SenderDropped\<rparr> else call) (map_of calls k)"
  by (induction cs arbitrary: calls)
     (auto simp: map_of_drop_sender option.map_comp o_def option.map_ident intro!: option.map_cong)

text \<open>What the parts of the invariant depend on.\<close>

lemma registry_okI:
  assumes "\<And>provider_id a. (provider_id, a) \<in> set (xr_providers st) \<Longrightarrow> a < length (xr_arcs st)"
    and "\<And>a. a < length (xr_arcs st) \<Longrightarrow> length (pv_commands (xr_arcs st ! a)) \<le> PROVIDER_QUEUE_CAPACITY"
    and "\<And>a. a < length (xr_arcs st) \<Longrightarrow> distinct (keys_of (pv_pending (xr_arcs st ! a)))"
    and "\<And>a request_id c. a < length (xr_arcs st) \<Longrightarrow>
      (request_id, c) \<in> set (pv_pending (xr_arcs st ! a)) \<Longrightarrow> pending_ok st a request_id c"
    and "\<And>c call. map_of (xr_calls st) c = Some call \<Longrightarrow> call_ok st c call"
  shows "registry_ok st"
  using assms by (auto simp: registry_ok_def)

lemma registry_okD:
  assumes "registry_ok st"
  shows "(provider_id, a) \<in> set (xr_providers st) \<Longrightarrow> a < length (xr_arcs st)"
    and "a < length (xr_arcs st) \<Longrightarrow> length (pv_commands (xr_arcs st ! a)) \<le> PROVIDER_QUEUE_CAPACITY"
    and "a < length (xr_arcs st) \<Longrightarrow> (request_id, c) \<in> set (pv_pending (xr_arcs st ! a)) \<Longrightarrow>
      pending_ok st a request_id c"
    and "map_of (xr_calls st) c = Some call \<Longrightarrow> call_ok st c call"
    and "a < length (xr_arcs st) \<Longrightarrow> distinct (keys_of (pv_pending (xr_arcs st ! a)))"
  using assms by (auto simp: registry_ok_def)

lemma pending_ok_mono:
  assumes "pending_ok st a request_id c" and "xr_next_call st \<le> xr_next_call st'"
    and "\<And>call. map_of (xr_calls st') c = Some call \<Longrightarrow> map_of (xr_calls st) c = Some call"
  shows "pending_ok st' a request_id c"
  using assms unfolding pending_ok_def by (meson less_le_trans)

lemma call_ok_cong:
  assumes "xr_next_call st' = xr_next_call st" and "length (xr_arcs st') = length (xr_arcs st)"
    and "pv_pending (xr_arcs st' ! xc_provider call) = pv_pending (xr_arcs st ! xc_provider call)"
  shows "call_ok st' c call = call_ok st c call"
  by (simp only: call_ok_def assms)

text \<open>
  Changes of one provider that leave its pending entries alone, and of the registry map that only
  removes entries, keep the invariant.
\<close>

lemma ok_same_pending:
  assumes ok: "registry_ok st" and len: "length (xr_arcs st') = length (xr_arcs st)"
    and arcs: "\<And>a. a < length (xr_arcs st) \<Longrightarrow> pv_pending (xr_arcs st' ! a) = pv_pending (xr_arcs st ! a)
      \<and> length (pv_commands (xr_arcs st' ! a)) \<le> PROVIDER_QUEUE_CAPACITY"
    and calls: "xr_calls st' = xr_calls st" "xr_next_call st' = xr_next_call st"
    and sub: "set (xr_providers st') \<subseteq> set (xr_providers st)"
  shows "registry_ok st'"
proof (rule registry_okI)
  fix c call
  assume "map_of (xr_calls st') c = Some call"
  then have "call_ok st c call" using registry_okD(4) [OF ok] by (simp add: calls)
  moreover from this have "xc_provider call < length (xr_arcs st)" by (simp add: call_ok_def)
  ultimately show "call_ok st' c call" using call_ok_cong [OF calls(2) len] arcs by simp
next
  fix a request_id c
  assume "a < length (xr_arcs st')" "(request_id, c) \<in> set (pv_pending (xr_arcs st' ! a))"
  with registry_okD(3) [OF ok] arcs have "pending_ok st a request_id c" by (simp add: len)
  then show "pending_ok st' a request_id c" by (simp add: pending_ok_def calls)
next
  fix provider_id a
  assume "(provider_id, a) \<in> set (xr_providers st')"
  with registry_okD(1) [OF ok] sub show "a < length (xr_arcs st')" by (auto simp: len)
qed (use arcs len registry_okD(5) [OF ok] in auto)

lemma ok_update_arc:
  assumes "registry_ok st" and "\<And>p. pv_pending (f p) = pv_pending p"
    and "\<And>p. length (pv_commands (f p)) \<le> length (pv_commands p)"
  shows "registry_ok (update_arc a f st)"
  by (rule ok_same_pending [OF assms(1)])
     (use assms(2) le_trans [OF assms(3) registry_okD(2) [OF assms(1)]] registry_okD(2) [OF assms(1)]
      in \<open>auto simp: nth_update\<close>)

lemma ok_fewer_providers:
  assumes "registry_ok st" and "set providers \<subseteq> set (xr_providers st)"
  shows "registry_ok (st\<lparr>xr_providers := providers\<rparr>)"
  by (rule ok_same_pending [OF assms(1)]) (use assms registry_okD(2) in auto)

lemma ok_abandon:
  assumes ok: "registry_ok st"
  shows "registry_ok (call_abandon c st)"
proof (rule registry_okI)
  fix k call
  assume "map_of (xr_calls (call_abandon c st)) k = Some call"
  then have "map_of (xr_calls st) k = Some call" by (auto simp: call_abandon_def delete_conv' split: if_splits)
  from registry_okD(4) [OF ok this] show "call_ok (call_abandon c st) k call"
    by (subst call_ok_cong [of _ st]) (simp_all add: call_abandon_def)
next
  fix a request_id k
  assume "a < length (xr_arcs (call_abandon c st))"
    "(request_id, k) \<in> set (pv_pending (xr_arcs (call_abandon c st) ! a))"
  with registry_okD(3) [OF ok] have "pending_ok st a request_id k" by (simp add: call_abandon_def)
  then show "pending_ok (call_abandon c st) a request_id k"
    by (simp add: pending_ok_def call_abandon_def delete_conv')
qed (use registry_okD(1,2,5) [OF ok] in \<open>auto simp: call_abandon_def\<close>)

lemma set_delete: "set (AList.delete k xs) \<subseteq> set xs"
  by (auto simp: AList.delete_eq)

lemma set_alist_update: "set (AList.update k v xs) \<subseteq> insert (k, v) (set xs)"
  by (induction xs) auto

lemma provider_live: "registry_ok st \<Longrightarrow> provider st provider_id = Inr a \<Longrightarrow> a < length (xr_arcs st)"
  by (auto simp: provider_def dest!: map_of_SomeD registry_okD(1) split: option.splits)

lemma authorized_provider_iff:
  "authorized_provider st provider_id secret = Inr a \<longleftrightarrow>
     provider st provider_id = Inr a \<and> pv_secret (xr_arcs st ! a) = secret"
  by (auto simp: authorized_provider_def and_then_Inr_iff split: if_splits)

text \<open>Removing the pending entry \<open>(request_id, k)\<close> of provider \<open>a\<close>, when its call is told.\<close>

lemma ok_settle:
  assumes ok: "registry_ok st" and k: "map_of (pv_pending (xr_arcs st ! a)) request_id = Some k"
    and a: "a < length (xr_arcs st)"
    and told: "\<And>call. map_of (xr_calls st) k = Some call \<Longrightarrow>
      \<exists>call'. map_of calls k = Some call' \<and> xc_oneshot call' \<noteq> Open \<and> call_ok st k call'"
    and absent: "map_of (xr_calls st) k = None \<Longrightarrow> map_of calls k = None"
    and others: "\<And>c. c \<noteq> k \<Longrightarrow> map_of calls c = map_of (xr_calls st) c"
  shows "registry_ok (update_arc a (\<lambda>p. p\<lparr>pv_pending := AList.delete request_id (pv_pending p)\<rparr>)
    (st\<lparr>xr_calls := calls\<rparr>))" (is "registry_ok ?st")
proof (rule registry_okI)
  fix c call
  assume "map_of (xr_calls ?st) c = Some call"
  then have c: "map_of calls c = Some call" by simp
  show "call_ok ?st c call"
  proof (cases "c = k")
    case True
    with c told absent have "xc_oneshot call \<noteq> Open" "call_ok st c call"
      by (cases "map_of (xr_calls st) k"; force)+
    then show ?thesis by (auto simp: call_ok_def split: oneshot.splits)
  next
    case False
    with c others have "map_of (xr_calls st) c = Some call" by simp
    from registry_okD(4) [OF ok this] have "call_ok st c call" .
    moreover have "\<not> (xc_provider call = a \<and> xc_request_id call = request_id \<and> xc_oneshot call = Open)"
      using calculation k False by (auto simp: call_ok_def)
    ultimately show ?thesis
      by (cases "xc_oneshot call") (auto simp: call_ok_def nth_update delete_conv')
  qed
next
  fix b request_id' c
  assume b: "b < length (xr_arcs ?st)" and c: "(request_id', c) \<in> set (pv_pending (xr_arcs ?st ! b))"
  then have old: "(request_id', c) \<in> set (pv_pending (xr_arcs st ! b))"
    by (auto simp: nth_update AList.delete_eq split: if_splits)
  with b registry_okD(3) [OF ok] have p: "pending_ok st b request_id' c" by simp
  have "c \<noteq> k \<or> map_of calls k = None"
  proof (rule ccontr)
    assume "\<not> ?thesis"
    then obtain call where "c = k" "map_of (xr_calls st) k = Some call" using absent by (cases "map_of (xr_calls st) k") auto
    moreover from registry_okD(3) [OF ok a map_of_SomeD [OF k]] p this have "a = b" "request_id = request_id'"
      by (auto simp: pending_ok_def)
    ultimately show False using c b by (auto simp: nth_update AList.delete_eq)
  qed
  then have "map_of calls c = Some call \<Longrightarrow> map_of (xr_calls st) c = Some call" for call
    using others by (cases "c = k") auto
  then show "pending_ok ?st b request_id' c" by (intro pending_ok_mono [OF p]) simp_all
qed (use registry_okD(1,2,5) [OF ok] in \<open>auto simp: nth_update distinct_delete\<close>)

section \<open>Operations\<close>

lemma keeps_same_arcs: "xr_arcs st' = xr_arcs st \<Longrightarrow> keeps_providers st st'"
  by (simp add: keeps_providers_def)

interpretation prune: registry_operation "prune_stale w"
proof
  fix st
  assume ok: "registry_ok st"
  show "registry_ok (prune_stale w st)"
    unfolding prune_stale_def by (rule ok_fewer_providers [OF ok]) auto
  show "keeps_providers st (prune_stale w st)" by (rule keeps_same_arcs) (simp add: prune_stale_def)
qed

interpretation revoke: registry_operation "revoke_provider provider_id"
proof
  fix st
  assume ok: "registry_ok st"
  show "registry_ok (revoke_provider provider_id st)"
    unfolding revoke_provider_def by (rule ok_fewer_providers [OF ok set_delete])
  show "keeps_providers st (revoke_provider provider_id st)"
    by (rule keeps_same_arcs) (simp add: revoke_provider_def)
qed

interpretation abandon: registry_operation "call_abandon c"
  by unfold_locales (simp_all add: ok_abandon keeps_same_arcs call_abandon_def [THEN arg_cong, of xr_arcs])

interpretation status: registry_operation "\<lambda>st. snd (status_for_process w pid st)"
  using prune.registry_operation_axioms [of w]
  by (simp add: status_for_process_def Let_def)

interpretation touch: registry_operation "update_arc a (\<lambda>p. p\<lparr>pv_last_seen := t\<rparr>)"
  by unfold_locales (auto intro!: ok_update_arc keeps_update_arc simp: identity_of_def)

interpretation poll: registry_operation "\<lambda>st. snd (next_command_start w provider_id secret timeout st)"
proof
  fix st
  assume "registry_ok st"
  then show "registry_ok (snd (next_command_start w provider_id secret timeout st))"
    and "keeps_providers st (snd (next_command_start w provider_id secret timeout st))"
    using touch.keeps_ok touch.keeps_identities by (auto simp: next_command_start_def split: sum.split)
qed

interpretation deliver: registry_operation "\<lambda>st. snd (next_command_receive provider_id a st)"
proof
  fix st
  assume ok: "registry_ok st"
  show "registry_ok (snd (next_command_receive provider_id a st))"
  proof (cases "pv_commands (xr_arcs st ! a)")
    case (Cons c cs)
    have "registry_ok (update_arc a (\<lambda>p. p\<lparr>pv_commands := cs\<rparr>) st)"
      by (rule ok_same_pending [OF ok]) (use registry_okD(2) [OF ok, of a] registry_okD(2) [OF ok] Cons in \<open>auto simp: nth_update\<close>)
    with Cons show ?thesis by (simp add: next_command_receive_def)
  qed (use ok in \<open>simp add: next_command_receive_def\<close>)
  show "keeps_providers st (snd (next_command_receive provider_id a st))"
    by (auto simp: next_command_receive_def identity_of_def intro!: keeps_update_arc split: list.split)
qed

interpretation claims: registry_operation "\<lambda>st. snd (claim provider_id pid hwnd origin capability st)"
proof
  fix st
  assume ok: "registry_ok st"
  then show "registry_ok (snd (claim provider_id pid hwnd origin capability st))"
    by (auto simp: claim_def Let_def intro!: ok_update_arc split: sum.split option.split)
  show "keeps_providers st (snd (claim provider_id pid hwnd origin capability st))"
    by (auto simp: claim_def Let_def keeps_providers_def nth_update identity_of_def split: sum.split option.split)
qed

lemma ok_new_provider:
  assumes ok: "registry_ok st" and p: "pv_pending p = []" "pv_commands p = []"
  shows "registry_ok (st\<lparr>xr_arcs := xr_arcs st @ [p],
     xr_providers := AList.update provider_id (length (xr_arcs st)) (xr_providers st)\<rparr>)" (is "registry_ok ?st")
proof (rule registry_okI)
  fix k a
  assume "(k, a) \<in> set (xr_providers ?st)"
  then have "a = length (xr_arcs st) \<or> (k, a) \<in> set (xr_providers st)"
    using set_alist_update [of provider_id "length (xr_arcs st)" "xr_providers st"] by auto
  with registry_okD(1) [OF ok] show "a < length (xr_arcs ?st)" by fastforce
next
  fix a
  assume "a < length (xr_arcs ?st)"
  with registry_okD(2) [OF ok, of a] p show "length (pv_commands (xr_arcs ?st ! a)) \<le> PROVIDER_QUEUE_CAPACITY"
    by (auto simp: nth_append less_Suc_eq)
next
  fix a
  assume "a < length (xr_arcs ?st)"
  with registry_okD(5) [OF ok, of a] p show "distinct (keys_of (pv_pending (xr_arcs ?st ! a)))"
    by (auto simp: nth_append less_Suc_eq)
next
  fix a request_id c
  assume "a < length (xr_arcs ?st)" "(request_id, c) \<in> set (pv_pending (xr_arcs ?st ! a))"
  with p have "a < length (xr_arcs st)" "(request_id, c) \<in> set (pv_pending (xr_arcs st ! a))"
    by (auto simp: nth_append less_Suc_eq)
  from registry_okD(3) [OF ok this] show "pending_ok ?st a request_id c" by (rule pending_ok_mono) simp_all
next
  fix c call
  assume "map_of (xr_calls ?st) c = Some call"
  with registry_okD(4) [OF ok] have "call_ok st c call" by simp
  then show "call_ok ?st c call"
    by (cases "xc_oneshot call") (auto simp: call_ok_def nth_append)
qed

interpretation registers: registry_operation
  "\<lambda>st. snd (register_with_window w uuid secret hello invocation pid window owner st)"
proof
  fix st
  assume ok: "registry_ok st"
  show "registry_ok (snd (register_with_window w uuid secret hello invocation pid window owner st))"
    using ok prune.keeps_ok [OF ok, of w]
    by (auto simp: register_with_window_def Let_def intro!: ok_new_provider split: sum.split)
  show "keeps_providers st (snd (register_with_window w uuid secret hello invocation pid window owner st))"
    by (auto simp: register_with_window_def Let_def keeps_providers_def nth_append prune_stale_def split: sum.split)
qed

lemma pending_unique:
  assumes "registry_ok st" and "a < length (xr_arcs st)" and "b < length (xr_arcs st)"
    and "(r, c) \<in> set (pv_pending (xr_arcs st ! a))" and "(q, c) \<in> set (pv_pending (xr_arcs st ! b))"
    and "map_of (xr_calls st) c = Some call"
  shows "a = b \<and> q = r \<and> xc_provider call = a \<and> xc_request_id call = r \<and> xc_oneshot call = Open"
  using registry_okD(3) [OF assms(1,2,4)] registry_okD(3) [OF assms(1,3,5)] assms(6)
  by (simp add: pending_ok_def)

text \<open>All pending entries of a provider are dropped together.\<close>

lemma ok_clear_pending:
  assumes ok: "registry_ok st" and a: "a < length (xr_arcs st)"
  shows "registry_ok (update_arc a (\<lambda>p. p\<lparr>pv_pending := []\<rparr>)
    (st\<lparr>xr_calls := fold drop_sender (map snd (pv_pending (xr_arcs st ! a))) (xr_calls st)\<rparr>))" (is "registry_ok ?st")
proof (rule registry_okI)
  define told where "told = map snd (pv_pending (xr_arcs st ! a))"
  have calls: "xr_calls ?st = fold drop_sender told (xr_calls st)" by (simp add: told_def)
  {
    fix b request_id c
    assume "b < length (xr_arcs ?st)" "(request_id, c) \<in> set (pv_pending (xr_arcs ?st ! b))"
    then have b: "b \<noteq> a" "b < length (xr_arcs st)" "(request_id, c) \<in> set (pv_pending (xr_arcs st ! b))"
      using a by (auto simp: nth_update split: if_splits)
    have "c \<notin> set told" if "map_of (xr_calls st) c = Some call" for call
      using pending_unique [OF ok a b(2) _ b(3) that] b(1) by (auto simp: told_def)
    then show "pending_ok ?st b request_id c"
      by (intro pending_ok_mono [OF registry_okD(3) [OF ok b(2,3)]]) (force simp: told_def map_of_fold_drop_sender)+
  }
  {
    fix c call
    assume "map_of (xr_calls ?st) c = Some call"
    then obtain old where old: "map_of (xr_calls st) c = Some old"
      and call: "call = (if c \<in> set told then old\<lparr>xc_oneshot := SenderDropped\<rparr> else old)"
      unfolding calls map_of_fold_drop_sender by auto
    from registry_okD(4) [OF ok old] have co: "call_ok st c old" .
    have "c \<in> set told" if "xc_oneshot old = Open" "xc_provider old = a"
      using co that by (auto simp: call_ok_def told_def dest!: map_of_SomeD intro: rev_image_eqI)
    then show "call_ok ?st c call"
      using co call by (cases "xc_oneshot old") (auto simp: call_ok_def nth_update)
  }
qed (use registry_okD(1,2,5) [OF ok] in \<open>auto simp: nth_update distinct_delete\<close>)

interpretation unregisters: registry_operation "\<lambda>st. snd (unregister provider_id secret st)"
proof
  fix st
  assume ok: "registry_ok st"
  show "keeps_providers st (snd (unregister provider_id secret st))"
    by (auto simp: unregister_def identity_of_def intro!: keeps_update_arc split: sum.split)
  show "registry_ok (snd (unregister provider_id secret st))"
  proof (cases "authorized_provider st provider_id secret")
    case (Inr a)
    then have "a < length (xr_arcs st)" using provider_live [OF ok] unfolding authorized_provider_iff by blast
    with ok_clear_pending [OF ok_fewer_providers [OF ok set_delete]] Inr
    show ?thesis by (simp add: unregister_def)
  qed (use ok in \<open>simp add: unregister_def\<close>)
qed

lemma response_request_id:
  "and_then (validate_extension_response r) (\<lambda>_. bounded_string r ''request_id'' MAX_REQUEST_ID_CHARS) = Inr request_id
   \<longleftrightarrow> validate_extension_response r = Inr () \<and> json_index r ''request_id'' = JStr request_id
     \<and> request_id \<noteq> [] \<and> length request_id \<le> MAX_REQUEST_ID_CHARS"
  by (cases "json_index r ''request_id''") (auto simp: and_then_Inr_iff bounded_string_def)

lemma ok_settle_pending:
  assumes ok: "registry_ok st" and a: "a < length (xr_arcs st)"
  shows "registry_ok (snd (settle_pending provider_id a response st))"
proof (cases "and_then (validate_extension_response response)
    (\<lambda>_. bounded_string response ''request_id'' MAX_REQUEST_ID_CHARS)")
  case r: (Inr request_id)
  show ?thesis
  proof (cases "map_of (pv_pending (xr_arcs st ! a)) request_id")
    case (Some c)
    show ?thesis
    proof (cases "map_of (xr_calls st) c")
      case None
      from ok_settle [OF ok Some a, of "xr_calls st"] None r Some show ?thesis
        by (simp add: settle_pending_def Let_def)
    next
      case call: (Some call)
      have "call_ok st c (call\<lparr>xc_oneshot := Sent response\<rparr>)"
        using registry_okD(4) [OF ok call] pending_unique [OF ok a a map_of_SomeD [OF Some] map_of_SomeD [OF Some] call] r
        by (simp add: call_ok_def response_request_id)
      with ok_settle [OF ok Some a, of "AList.update c (call\<lparr>xc_oneshot := Sent response\<rparr>) (xr_calls st)"] call r Some
      show ?thesis by (simp add: settle_pending_def Let_def)
    qed
  qed (use ok r in \<open>simp add: settle_pending_def\<close>)
qed (use ok in \<open>simp add: settle_pending_def\<close>)

lemma keeps_settle_pending: "keeps_providers st (snd (settle_pending provider_id a response st))"
  by (auto simp: settle_pending_def Let_def identity_of_def intro!: keeps_update_arc split: sum.split option.split)

interpretation completes: registry_operation "\<lambda>st. snd (complete w provider_id secret response st)"
proof
  fix st
  assume ok: "registry_ok st"
  show "registry_ok (snd (complete w provider_id secret response st))"
  proof (cases "authorized_provider st provider_id secret")
    case (Inr a)
    then have "a < length (xr_arcs st)" using provider_live [OF ok] unfolding authorized_provider_iff by blast
    with Inr ok_settle_pending [OF touch.keeps_ok [OF ok]] show ?thesis by (simp add: complete_def)
  qed (use ok in \<open>simp add: complete_def\<close>)
  show "keeps_providers st (snd (complete w provider_id secret response st))"
    using keeps_providers_trans [OF touch.keeps_identities [OF ok] keeps_settle_pending]
    by (auto simp: complete_def split: sum.split)
qed

lemma update_entry:
  assumes "distinct (keys_of xs)" and "(q, k) \<in> set (AList.update r c xs)"
  shows "q = r \<and> k = c \<or> q \<noteq> r \<and> (q, k) \<in> set xs"
proof -
  from assms(1) have "distinct (keys_of (AList.update r c xs))" by (rule distinct_keys_update)
  from map_of_is_SomeI [OF this assms(2)] have "(if q = r then Some c else map_of xs q) = Some k" by simp
  then show ?thesis by (auto dest: map_of_SomeD split: if_splits)
qed

text \<open>A new call takes over the pending entry of its request id, if another one holds it.\<close>

lemma ok_call_enter:
  assumes ok: "registry_ok st" and a: "a < length (xr_arcs st)"
  shows "registry_ok (snd (call_enter request_id provider_id a m command st))" (is "registry_ok ?st")
proof (rule registry_okI)
  define n where "n = xr_next_call st"
  define replaced where "replaced = (case map_of (pv_pending (xr_arcs st ! a)) request_id of None \<Rightarrow> [] | Some k \<Rightarrow> [k])"
  define new where "new = \<lparr>xc_provider = a, xc_provider_id = provider_id, xc_request_id = request_id,
    xc_method = m, xc_unsent = Some command, xc_oneshot = Open\<rparr>"
  have calls: "map_of (xr_calls ?st) c = (if c = n then Some new
      else map_option (\<lambda>call. if c \<in> set replaced then call\<lparr>xc_oneshot := SenderDropped\<rparr> else call) (map_of (xr_calls st) c))" for c
    by (simp add: call_enter_def Let_def n_def replaced_def new_def map_of_fold_drop_sender)
  have arcs: "xr_arcs ?st = (xr_arcs st)[a := (xr_arcs st ! a)\<lparr>pv_pending := AList.update request_id n (pv_pending (xr_arcs st ! a))\<rparr>]"
    and st: "xr_providers ?st = xr_providers st" "xr_next_call ?st = Suc n"
    by (simp_all add: call_enter_def Let_def n_def)
  note distinct = registry_okD(5) [OF ok a]
  {
    fix b q k
    assume b: "b < length (xr_arcs ?st)" and k: "(q, k) \<in> set (pv_pending (xr_arcs ?st ! b))"
    show "pending_ok ?st b q k"
    proof (cases "b = a \<and> q = request_id")
      case True
      with k a update_entry [OF distinct, of q k request_id n] have "k = n" by (auto simp: arcs nth_update)
      with True show ?thesis by (simp add: pending_ok_def calls st new_def)
    next
      case False
      with k have old: "(q, k) \<in> set (pv_pending (xr_arcs st ! b))" and b': "b < length (xr_arcs st)"
        using update_entry [OF distinct, of q k request_id n] b by (auto simp: arcs nth_update split: if_splits)
      from registry_okD(3) [OF ok b' old] have p: "pending_ok st b q k" .
      have "k \<notin> set replaced" if "map_of (xr_calls st) k = Some call" for call
      proof
        assume "k \<in> set replaced"
        then have "(request_id, k) \<in> set (pv_pending (xr_arcs st ! a))"
          by (auto simp: replaced_def dest: map_of_SomeD [OF sym] split: option.splits)
        from pending_unique [OF ok a b' this old that] False show False by simp
      qed
      moreover have "k \<noteq> n" using p by (simp add: pending_ok_def n_def)
      ultimately show ?thesis by (intro pending_ok_mono [OF p]) (auto simp: st n_def calls)
    qed
  }
  {
    fix c call
    assume c: "map_of (xr_calls ?st) c = Some call"
    show "call_ok ?st c call"
    proof (cases "c = n")
      case True
      with c have "call = new" by (simp add: calls)
      then have "xc_oneshot call = Open" "xc_provider call = a" "xc_request_id call = request_id" by (simp_all add: new_def)
      with True a show ?thesis by (simp add: call_ok_def st arcs)
    next
      case False
      with c obtain old where old: "map_of (xr_calls st) c = Some old"
        and call: "call = (if c \<in> set replaced then old\<lparr>xc_oneshot := SenderDropped\<rparr> else old)" by (auto simp: calls)
      from registry_okD(4) [OF ok old] have co: "call_ok st c old" .
      have "c \<in> set replaced" if "xc_oneshot old = Open" "xc_provider old = a" "xc_request_id old = request_id"
        using co that by (simp add: call_ok_def replaced_def)
      then show ?thesis
        using co call by (cases "xc_oneshot old") (auto simp: call_ok_def arcs nth_update st n_def)
    qed
  }
  {
    fix b
    assume "b < length (xr_arcs ?st)"
    with registry_okD(2,5) [OF ok, of b]
    show "length (pv_commands (xr_arcs ?st ! b)) \<le> PROVIDER_QUEUE_CAPACITY"
      and "distinct (keys_of (pv_pending (xr_arcs ?st ! b)))"
      by (auto simp: arcs nth_update distinct_keys_update)
  }
qed (use registry_okD(1) [OF ok] in \<open>auto simp: call_enter_def Let_def\<close>)

lemma call_target_live:
  "registry_ok st \<Longrightarrow> call_target_check st provider_id origin pid m = Inr a \<Longrightarrow> a < length (xr_arcs st)"
  by (auto simp: call_target_check_def Let_def and_then_Inr_iff dest: provider_live)

lemma keeps_call_enter: "keeps_providers st (snd (call_enter request_id provider_id a m command st))"
  by (auto simp: call_enter_def Let_def identity_of_def intro!: keeps_update_arc)

interpretation starts: registry_operation
  "\<lambda>st. snd (call_start x w request_id provider_id origin pid m params timeout st)"
proof
  fix st
  assume ok: "registry_ok st"
  define t where "t = prune_stale w st"
  note t = prune.keeps_ok [OF ok, of w, folded t_def] prune.keeps_identities [OF ok, of w, folded t_def]
  show "registry_ok (snd (call_start x w request_id provider_id origin pid m params timeout st))"
    using ok t ok_call_enter [OF t(1) call_target_live [OF t(1)]]
    by (auto simp: call_start_def Let_def t_def [symmetric] case_prod_unfold split: sum.split)
  show "keeps_providers st (snd (call_start x w request_id provider_id origin pid m params timeout st))"
    using t(2) keeps_providers_trans [OF t(2) keeps_call_enter]
    by (auto simp: call_start_def Let_def t_def [symmetric] case_prod_unfold split: sum.split)
qed

lemma ok_call_send:
  assumes ok: "registry_ok st" and send: "call_send c st = Some st'"
  shows "registry_ok st' \<and> keeps_providers st st'"
proof -
  from send obtain call command where call: "map_of (xr_calls st) c = Some call" "xc_unsent call = Some command"
    and room: "length (pv_commands (xr_arcs st ! xc_provider call)) < PROVIDER_QUEUE_CAPACITY"
    and st': "st' = update_arc (xc_provider call) (\<lambda>p. p\<lparr>pv_commands := pv_commands p @ [command]\<rparr>)
      (st\<lparr>xr_calls := AList.update c (call\<lparr>xc_unsent := None\<rparr>) (xr_calls st)\<rparr>)"
    by (auto simp: call_send_def split: option.splits if_splits)
  have pend: "pv_pending (xr_arcs st' ! a) = pv_pending (xr_arcs st ! a)" for a by (simp add: st' nth_update)
  have "registry_ok st'"
  proof (rule registry_okI)
    fix k call'
    assume k: "map_of (xr_calls st') k = Some call'"
    show "call_ok st' k call'"
    proof (cases "k = c")
      case True
      with k have "call' = call\<lparr>xc_unsent := None\<rparr>" by (simp add: st')
      with registry_okD(4) [OF ok call(1)] True show ?thesis
        by (cases "xc_oneshot call") (auto simp: call_ok_def pend st' nth_update)
    next
      case False
      with k have "map_of (xr_calls st) k = Some call'" by (simp add: st')
      from registry_okD(4) [OF ok this] show ?thesis
        by (subst call_ok_cong [of _ st]) (simp_all add: pend, simp_all add: st')
    qed
  next
    fix a r k
    assume "a < length (xr_arcs st')" "(r, k) \<in> set (pv_pending (xr_arcs st' ! a))"
    with registry_okD(3) [OF ok] have "pending_ok st a r k" by (simp add: pend, simp add: st')
    then show "pending_ok st' a r k" using call(1) by (cases "k = c") (simp_all add: pending_ok_def st')
  qed (use registry_okD(1,2,5) [OF ok] room in \<open>auto simp: st' nth_update\<close>)
  moreover have "keeps_providers st st'" by (auto simp: st' identity_of_def intro!: keeps_update_arc)
  ultimately show ?thesis ..
qed

lemma ok_remove_pending:
  assumes ok: "registry_ok st" and live: "xc_provider call < length (xr_arcs st)"
  shows "registry_ok (remove_pending call st)"
proof (cases "map_of (pv_pending (xr_arcs st ! xc_provider call)) (xc_request_id call)")
  case (Some k)
  have "registry_ok (update_arc (xc_provider call)
      (\<lambda>p. p\<lparr>pv_pending := AList.delete (xc_request_id call) (pv_pending p)\<rparr>)
      (st\<lparr>xr_calls := drop_sender k (xr_calls st)\<rparr>))"
  proof (rule ok_settle [OF ok Some live])
    fix other
    assume "map_of (xr_calls st) k = Some other"
    with registry_okD(4) [OF ok this]
    show "\<exists>call'. map_of (drop_sender k (xr_calls st)) k = Some call' \<and> xc_oneshot call' \<noteq> Open \<and> call_ok st k call'"
      by (auto simp: map_of_drop_sender call_ok_def)
  qed (auto simp: map_of_drop_sender option.map_ident)
  with Some show ?thesis by (simp add: remove_pending_def)
qed (use ok in \<open>simp add: remove_pending_def\<close>)

lemma keeps_remove_pending: "keeps_providers st (remove_pending call st)"
  by (auto simp: remove_pending_def identity_of_def intro!: keeps_update_arc split: option.split)

lemma ok_call_finish:
  assumes ok: "registry_ok st" and fin: "call_finish how c st = Some (out, st')"
  shows "registry_ok st' \<and> keeps_providers st st'"
proof -
  define rest where "rest = st\<lparr>xr_calls := AList.delete c (xr_calls st)\<rparr>"
  have r: "registry_ok rest" "keeps_providers st rest" "xr_arcs rest = xr_arcs st"
    using abandon.keeps_ok [OF ok, of c] by (simp_all add: rest_def call_abandon_def keeps_same_arcs)
  from fin obtain call where call: "map_of (xr_calls st) c = Some call"
    and st': "st' = rest \<or> st' = remove_pending call rest"
    by (auto simp: call_finish_def Let_def rest_def split: option.splits call_end.splits if_splits oneshot.splits)
  from registry_okD(4) [OF ok call] have "xc_provider call < length (xr_arcs rest)" by (simp add: call_ok_def r)
  from ok_remove_pending [OF r(1) this] keeps_providers_trans [OF r(2) keeps_remove_pending] r st' show ?thesis by auto
qed

end
