(* ===== verification/Extension_Runs.thy ===== *)
theory Extension_Runs
  imports Extension_Invariant
begin

text \<open>
  Runs of the extension registry, in which providers, sessions and calls of all connections
  interleave: the correlation of answers with calls, the commands a provider receives, the
  ownership of a pairing and the end of calls.
\<close>

section \<open>Runs\<close>

datatype ext_event =
    Joined nat string "string option"
  | Claimed nat string
  | Started nat string string string
  | Completed string string json
  | Ended nat "HostError + json"
  | Internal

inductive ext_step :: "BrowserExtensionRegistry \<Rightarrow> ext_event \<Rightarrow> BrowserExtensionRegistry \<Rightarrow> bool" where
  registers: "register_with_window w uuid secret hello invocation pid window owner st = (Inr reply, st')
     \<Longrightarrow> ext_step st (Joined (length (xr_arcs st)) (''browser-extension-'' @ uuid) owner) st'"
| register_refused: "register_with_window w uuid secret hello invocation pid window owner st = (Inl e, st')
     \<Longrightarrow> ext_step st Internal st'"
| unregisters: "unregister provider_id secret st = (out, st') \<Longrightarrow> ext_step st Internal st'"
| polls: "next_command_start w provider_id secret timeout st = (out, st') \<Longrightarrow> ext_step st Internal st'"
| delivers: "next_command_receive provider_id a st = (reply, st') \<Longrightarrow> ext_step st Internal st'"
| completes: "complete w provider_id secret response st = (Inr reply, st')
     \<Longrightarrow> ext_step st (Completed provider_id secret response) st'"
| complete_refused: "complete w provider_id secret response st = (Inl e, st') \<Longrightarrow> ext_step st Internal st'"
| reports: "status_for_process w pid st = (reply, st') \<Longrightarrow> ext_step st Internal st'"
| claims: "claim provider_id pid hwnd origin capability st = (Inr (), st') \<Longrightarrow> provider st provider_id = Inr a
     \<Longrightarrow> ext_step st (Claimed a capability) st'"
| claim_refused: "claim provider_id pid hwnd origin capability st = (Inl e, st') \<Longrightarrow> ext_step st Internal st'"
| starts: "call_start x w request_id provider_id origin pid m params timeout st = (Inr c, st')
     \<Longrightarrow> ext_step st (Started c provider_id request_id m) st'"
| start_refused: "call_start x w request_id provider_id origin pid m params timeout st = (Inl e, st')
     \<Longrightarrow> ext_step st Internal st'"
| sends: "call_send c st = Some st' \<Longrightarrow> ext_step st Internal st'"
| finishes: "call_finish how c st = Some (out, st') \<Longrightarrow> ext_step st (Ended c out) st'"
| abandons: "ext_step st Internal (call_abandon c st)"
| revokes: "ext_step st Internal (revoke_provider provider_id st)"

inductive ext_run :: "BrowserExtensionRegistry \<Rightarrow> ext_event list \<Rightarrow> BrowserExtensionRegistry \<Rightarrow> bool" where
  run_nil: "ext_run st [] st"
| run_snoc: "ext_run st es st' \<Longrightarrow> ext_step st' e st'' \<Longrightarrow> ext_run st (es @ [e]) st''"

lemma operation_step:
  "registry_operation (\<lambda>st. snd (f st)) \<Longrightarrow> f st = (out, st') \<Longrightarrow> registry_ok st
     \<Longrightarrow> registry_ok st' \<and> keeps_providers st st'"
  unfolding registry_operation_def by (metis snd_conv)

lemmas registry_steps =
  registers.registry_operation_axioms [THEN operation_step] unregisters.registry_operation_axioms [THEN operation_step]
  poll.registry_operation_axioms [THEN operation_step] deliver.registry_operation_axioms [THEN operation_step]
  completes.registry_operation_axioms [THEN operation_step] status.registry_operation_axioms [THEN operation_step]
  claims.registry_operation_axioms [THEN operation_step] starts.registry_operation_axioms [THEN operation_step]

lemma ext_step_keeps:
  assumes step: "ext_step st e st'" and ok: "registry_ok st"
  shows "registry_ok st' \<and> keeps_providers st st'"
  using step
proof cases
  case sends then show ?thesis using ok_call_send [OF ok] by blast
next
  case finishes then show ?thesis using ok_call_finish [OF ok] by blast
next
  case abandons then show ?thesis using abandon.keeps_ok abandon.keeps_identities ok by blast
next
  case revokes then show ?thesis using revoke.keeps_ok revoke.keeps_identities ok by blast
qed (rule registry_steps [OF _ ok], assumption)+

subsection \<open>Steps that only let go\<close>

text \<open>
  Most steps create nothing: every call, queued command and registered provider afterwards was
  there before, and no answer appears.
\<close>

definition call_from :: "ExtensionCall \<Rightarrow> ExtensionCall \<Rightarrow> bool" where
  "call_from call call' \<longleftrightarrow> xc_provider call' = xc_provider call \<and> xc_provider_id call' = xc_provider_id call
     \<and> xc_request_id call' = xc_request_id call \<and> xc_method call' = xc_method call
     \<and> xc_unsent call' \<in> {None, xc_unsent call} \<and> xc_oneshot call' \<in> {SenderDropped, xc_oneshot call}"

definition lets_go :: "BrowserExtensionRegistry \<Rightarrow> BrowserExtensionRegistry \<Rightarrow> bool" where
  "lets_go st st' \<longleftrightarrow>
     (\<forall>c call'. map_of (xr_calls st') c = Some call' \<longrightarrow> (\<exists>call. map_of (xr_calls st) c = Some call \<and> call_from call call'))
     \<and> length (xr_arcs st') = length (xr_arcs st)
     \<and> (\<forall>a. set (pv_commands (xr_arcs st' ! a)) \<subseteq> set (pv_commands (xr_arcs st ! a)))
     \<and> set (xr_providers st') \<subseteq> set (xr_providers st)"

lemma call_from_refl [simp]: "call_from call call"
  by (simp add: call_from_def)

lemma call_from_dropped [simp]: "call_from call (call\<lparr>xc_oneshot := SenderDropped\<rparr>)"
  by (simp add: call_from_def)

lemma lets_go_refl [simp]: "lets_go st st"
  by (simp add: lets_go_def)

lemma lets_go_prune [simp]: "lets_go st (prune_stale w st)"
  by (auto simp: lets_go_def prune_stale_def)

lemma call_from_trans: "call_from a b \<Longrightarrow> call_from b c \<Longrightarrow> call_from a c"
  by (auto simp: call_from_def)

lemma lets_go_trans:
  assumes "lets_go a b" and "lets_go b c"
  shows "lets_go a c"
proof -
  from assms have "\<exists>call. map_of (xr_calls a) k = Some call \<and> call_from call call'"
    if "map_of (xr_calls c) k = Some call'" for k call'
    using that call_from_trans unfolding lets_go_def by meson
  moreover from assms have "set (pv_commands (xr_arcs c ! k)) \<subseteq> set (pv_commands (xr_arcs a ! k))" for k
    unfolding lets_go_def by (meson order_trans)
  ultimately show ?thesis using assms unfolding lets_go_def by (metis order_trans)
qed

lemma lets_go_touch: "\<forall>p. set (pv_commands (f p)) \<subseteq> set (pv_commands p) \<Longrightarrow> lets_go st (update_arc a f st)"
  by (auto simp: lets_go_def nth_update)

lemma lets_go_remove_pending: "lets_go st (remove_pending call st)"
  by (auto simp: lets_go_def remove_pending_def map_of_drop_sender nth_update split: option.splits if_splits)

lemma lets_go_abandon: "lets_go st (call_abandon c st)"
  by (auto simp: lets_go_def call_abandon_def delete_conv' split: if_splits)

lemma lets_go_finish:
  assumes "call_finish how c st = Some (out, st')"
  shows "lets_go st st'"
  using assms lets_go_abandon [of st c] lets_go_trans [OF lets_go_abandon [of st c] lets_go_remove_pending]
  by (auto simp: call_finish_def call_abandon_def Let_def split: option.splits call_end.splits if_splits oneshot.splits)

lemma lets_go_unregister: "lets_go st (snd (unregister provider_id secret st))"
  by (auto simp: lets_go_def unregister_def AList.delete_eq map_of_fold_drop_sender nth_update split: sum.splits if_splits)

lemma lets_go_claim: "lets_go st (snd (claim provider_id pid hwnd origin capability st))"
  by (auto simp: claim_def Let_def intro!: lets_go_touch split: sum.splits option.splits)

lemma lets_go_complete: "complete w provider_id secret response st = (Inl e, st') \<Longrightarrow> lets_go st st'"
  using lets_go_trans [OF lets_go_touch lets_go_touch]
  by (auto simp: complete_def settle_pending_def Let_def intro!: lets_go_touch split: sum.splits option.splits)

lemma lets_go_revoke: "lets_go st (revoke_provider provider_id st)"
  by (auto simp: lets_go_def revoke_provider_def AList.delete_eq)

lemma lets_go_refused:
  "register_with_window w uuid secret hello invocation pid window owner st = (Inl e, st') \<Longrightarrow> lets_go st st'"
  "next_command_start w provider_id secret timeout st = (out, st') \<Longrightarrow> lets_go st st'"
  "next_command_receive provider_id a st = (reply, st') \<Longrightarrow> lets_go st st'"
  "status_for_process w pid st = (reply, st') \<Longrightarrow> lets_go st st'"
  "call_start x w request_id provider_id origin pid m params timeout st = (Inl e, st') \<Longrightarrow> lets_go st st'"
  subgoal by (auto simp: register_with_window_def Let_def split: if_splits sum.splits)
  subgoal by (auto simp: next_command_start_def intro!: lets_go_touch split: if_splits sum.splits)
  subgoal by (auto simp: next_command_receive_def lets_go_def nth_update split: list.splits if_splits)
  subgoal by (auto simp: status_for_process_def Let_def)
  subgoal by (auto simp: call_start_def Let_def case_prod_unfold split: if_splits sum.splits)
  done

subsection \<open>What a run remembers\<close>

text \<open>
  A call in flight was started, and its answer came afterwards from whoever holds the secret of
  its provider.
\<close>

definition call_history :: "ext_event list \<Rightarrow> BrowserExtensionRegistry \<Rightarrow> nat \<Rightarrow> ExtensionCall \<Rightarrow> bool" where
  "call_history es st c call \<longleftrightarrow>
     (\<exists>before after. es = before @ Started c (xc_provider_id call) (xc_request_id call) (xc_method call) # after
        \<and> (\<forall>response. xc_oneshot call = Sent response \<longrightarrow>
             Completed (xc_provider_id call) (pv_secret (xr_arcs st ! xc_provider call)) response \<in> set after))"

definition joined :: "ext_event list \<Rightarrow> nat \<Rightarrow> string \<Rightarrow> bool" where
  "joined es a provider_id \<longleftrightarrow> (\<exists>owner. Joined a provider_id owner \<in> set es)"

definition carries :: "ext_event list \<Rightarrow> BrowserExtensionRegistry \<Rightarrow> nat \<Rightarrow> json \<Rightarrow> bool" where
  "carries es st a command \<longleftrightarrow>
     json_index command ''session_nonce'' = JStr (pg_session_nonce (pv_pairing (xr_arcs st ! a)))
     \<and> json_index command ''tab_id'' = json_u64 (pg_tab_id (pv_pairing (xr_arcs st ! a)))
     \<and> (\<exists>c i request_id m. joined es a i \<and> Started c i request_id m \<in> set es
          \<and> json_index command ''request_id'' = JStr request_id \<and> json_index command ''method'' = JStr m)"

definition names_ok :: "ext_event list \<Rightarrow> BrowserExtensionRegistry \<Rightarrow> bool" where
  "names_ok es st \<longleftrightarrow> (\<forall>a i. joined es a i \<longrightarrow> a < length (xr_arcs st) \<and> (\<forall>j. joined es a j \<longrightarrow> j = i))
     \<and> (\<forall>(i, a) \<in> set (xr_providers st). joined es a i)
     \<and> (\<forall>c call. map_of (xr_calls st) c = Some call \<longrightarrow> joined es (xc_provider call) (xc_provider_id call))"

definition owners_ok :: "ext_event list \<Rightarrow> BrowserExtensionRegistry \<Rightarrow> bool" where
  "owners_ok es st \<longleftrightarrow> (\<forall>a owner. Claimed a owner \<in> set es \<or> (\<exists>i. Joined a i (Some owner) \<in> set es) \<longrightarrow>
     a < length (xr_arcs st) \<and> pv_owner (xr_arcs st ! a) = Some owner)"

definition calls_ok :: "ext_event list \<Rightarrow> BrowserExtensionRegistry \<Rightarrow> bool" where
  "calls_ok es st \<longleftrightarrow> (\<forall>c call. map_of (xr_calls st) c = Some call \<longrightarrow> call_history es st c call)"

definition commands_ok :: "ext_event list \<Rightarrow> BrowserExtensionRegistry \<Rightarrow> bool" where
  "commands_ok es st \<longleftrightarrow>
     (\<forall>a < length (xr_arcs st). \<forall>command \<in> set (pv_commands (xr_arcs st ! a)). carries es st a command)
     \<and> (\<forall>c call command. map_of (xr_calls st) c = Some call \<longrightarrow> xc_unsent call = Some command \<longrightarrow>
          carries es st (xc_provider call) command)"

lemma names_okI:
  assumes "\<And>a i. joined es a i \<Longrightarrow> a < length (xr_arcs st)" and "\<And>a i j. joined es a i \<Longrightarrow> joined es a j \<Longrightarrow> j = i"
    and "\<And>a i. (i, a) \<in> set (xr_providers st) \<Longrightarrow> joined es a i"
    and "\<And>c call. map_of (xr_calls st) c = Some call \<Longrightarrow> joined es (xc_provider call) (xc_provider_id call)"
  shows "names_ok es st"
  using assms by (simp add: names_ok_def case_prod_unfold)

lemma names_okD:
  assumes "names_ok es st"
  shows "joined es a i \<Longrightarrow> a < length (xr_arcs st)" and "joined es a i \<Longrightarrow> joined es a j \<Longrightarrow> j = i"
    and "(i, a) \<in> set (xr_providers st) \<Longrightarrow> joined es a i"
    and "map_of (xr_calls st) c = Some call \<Longrightarrow> joined es (xc_provider call) (xc_provider_id call)"
  using assms by (auto simp: names_ok_def)

lemma keeps_identity:
  assumes "keeps_providers st st'" and "a < length (xr_arcs st)"
  shows "a < length (xr_arcs st')" "pv_secret (xr_arcs st' ! a) = pv_secret (xr_arcs st ! a)"
    "pv_pairing (xr_arcs st' ! a) = pv_pairing (xr_arcs st ! a)"
    "pv_owner (xr_arcs st ! a) = Some owner \<Longrightarrow> pv_owner (xr_arcs st' ! a) = Some owner"
  using assms by (auto simp: keeps_providers_def identity_of_def)

lemma call_history_later:
  assumes "call_history es st c call" and "call_from call call'" and "keeps_providers st st'"
    and "xc_provider call < length (xr_arcs st)"
  shows "call_history (es @ [e]) st' c call'"
proof -
  from assms(1) obtain before after where es: "es = before @ Started c (xc_provider_id call) (xc_request_id call) (xc_method call) # after"
    and sent: "\<And>response. xc_oneshot call = Sent response \<Longrightarrow>
      Completed (xc_provider_id call) (pv_secret (xr_arcs st ! xc_provider call)) response \<in> set after"
    unfolding call_history_def by blast
  from assms(2) have "Completed (xc_provider_id call') (pv_secret (xr_arcs st' ! xc_provider call')) response \<in> set (after @ [e])"
    if "xc_oneshot call' = Sent response" for response
    using sent that keeps_identity(2) [OF assms(3,4)] by (auto simp: call_from_def)
  moreover from es assms(2) have
    "es @ [e] = before @ Started c (xc_provider_id call') (xc_request_id call') (xc_method call') # (after @ [e])"
    by (simp add: call_from_def)
  ultimately show ?thesis unfolding call_history_def by blast
qed

lemma lets_goD:
  assumes "lets_go st st'"
  shows "map_of (xr_calls st') c = Some call' \<Longrightarrow> \<exists>call. map_of (xr_calls st) c = Some call \<and> call_from call call'"
    and "length (xr_arcs st') = length (xr_arcs st)"
    and "command \<in> set (pv_commands (xr_arcs st' ! a)) \<Longrightarrow> command \<in> set (pv_commands (xr_arcs st ! a))"
    and "x \<in> set (xr_providers st') \<Longrightarrow> x \<in> set (xr_providers st)"
  using assms by (auto simp: lets_go_def)

lemma calls_ok_lets_go:
  assumes "calls_ok es st" and "lets_go st st'" and "keeps_providers st st'" and "registry_ok st"
  shows "calls_ok (es @ [e]) st'"
  unfolding calls_ok_def
proof (intro allI impI)
  fix c call'
  assume "map_of (xr_calls st') c = Some call'"
  with lets_goD(1) [OF assms(2)] obtain call where call: "map_of (xr_calls st) c = Some call" "call_from call call'" by blast
  with registry_okD(4) [OF assms(4)] have "xc_provider call < length (xr_arcs st)" by (auto simp: call_ok_def)
  with call_history_later [OF _ call(2) assms(3)] assms(1) call(1) show "call_history (es @ [e]) st' c call'"
    by (simp add: calls_ok_def)
qed

lemma carriesI:
  assumes "json_index command ''session_nonce'' = JStr (pg_session_nonce (pv_pairing (xr_arcs st ! a)))"
    and "json_index command ''tab_id'' = json_u64 (pg_tab_id (pv_pairing (xr_arcs st ! a)))"
    and "joined es a i" and "Started c i request_id m \<in> set es"
    and "json_index command ''request_id'' = JStr request_id" and "json_index command ''method'' = JStr m"
  shows "carries es st a command"
  using assms unfolding carries_def by blast

lemma carries_later:
  assumes "carries es st a command" and "keeps_providers st st'" and "a < length (xr_arcs st)"
  shows "carries (es @ [e]) st' a command"
proof -
  from assms(1) obtain c i request_id m where "joined es a i" "Started c i request_id m \<in> set es"
    "json_index command ''request_id'' = JStr request_id" "json_index command ''method'' = JStr m"
    by (auto simp: carries_def)
  moreover from this have "joined (es @ [e]) a i" by (auto simp: joined_def)
  ultimately show ?thesis using assms(1) keeps_identity(3) [OF assms(2,3)] by (auto simp: carries_def)
qed

lemma commands_okI:
  assumes "\<And>a command. a < length (xr_arcs st) \<Longrightarrow> command \<in> set (pv_commands (xr_arcs st ! a)) \<Longrightarrow> carries es st a command"
    and "\<And>c call command. map_of (xr_calls st) c = Some call \<Longrightarrow> xc_unsent call = Some command \<Longrightarrow>
      carries es st (xc_provider call) command"
  shows "commands_ok es st"
  using assms by (simp add: commands_ok_def)

lemma commands_ok_lets_go:
  assumes ok: "commands_ok es st" and "lets_go st st'" and keep: "keeps_providers st st'" and r: "registry_ok st"
  shows "commands_ok (es @ [e]) st'"
proof (rule commands_okI)
  note go = lets_goD [OF assms(2)]
  show "carries (es @ [e]) st' a command"
    if "a < length (xr_arcs st')" "command \<in> set (pv_commands (xr_arcs st' ! a))" for a command
    by (rule carries_later [OF _ keep]) (use go(3) [OF that(2)] that(1) ok go(2) in \<open>simp_all add: commands_ok_def\<close>)
  fix c call' command
  assume c: "map_of (xr_calls st') c = Some call'" and unsent: "xc_unsent call' = Some command"
  from go(1) [OF c] obtain call where call: "map_of (xr_calls st) c = Some call" "call_from call call'" by blast
  with unsent have "xc_unsent call = Some command" "xc_provider call' = xc_provider call" by (auto simp: call_from_def)
  with call ok registry_okD(4) [OF r call(1)] show "carries (es @ [e]) st' (xc_provider call') command"
    by (auto simp: commands_ok_def call_ok_def intro!: carries_later [OF _ keep])
qed

lemma names_ok_later:
  assumes ok: "names_ok es st" and len: "length (xr_arcs st') = length (xr_arcs st)"
    and prov: "set (xr_providers st') \<subseteq> set (xr_providers st)" and e: "\<And>a i owner. e \<noteq> Joined a i owner"
    and calls: "\<And>c call'. map_of (xr_calls st') c = Some call' \<Longrightarrow> \<exists>call. map_of (xr_calls st) c = Some call
      \<and> xc_provider call' = xc_provider call \<and> xc_provider_id call' = xc_provider_id call"
  shows "names_ok (es @ [e]) st'"
proof (rule names_okI)
  have j: "joined (es @ [e]) a i = joined es a i" for a i using e by (auto simp: joined_def)
  show "a < length (xr_arcs st')" if "joined (es @ [e]) a i" for a i using that names_okD(1) [OF ok] by (simp add: j len)
  show "k = i" if "joined (es @ [e]) a i" "joined (es @ [e]) a k" for a i k using that names_okD(2) [OF ok] by (simp add: j)
  show "joined (es @ [e]) a i" if "(i, a) \<in> set (xr_providers st')" for a i
    using that names_okD(3) [OF ok] prov by (auto simp: j)
  show "joined (es @ [e]) (xc_provider call) (xc_provider_id call)" if "map_of (xr_calls st') c = Some call" for c call
    using calls [OF that] names_okD(4) [OF ok] by (auto simp: j)
qed

lemma names_ok_lets_go:
  assumes "names_ok es st" and "lets_go st st'" and "\<And>a i owner. e \<noteq> Joined a i owner"
  shows "names_ok (es @ [e]) st'"
proof (rule names_ok_later [OF assms(1) _ _ assms(3)])
  show "\<exists>call. map_of (xr_calls st) c = Some call \<and> xc_provider call' = xc_provider call \<and> xc_provider_id call' = xc_provider_id call"
    if "map_of (xr_calls st') c = Some call'" for c call'
    using lets_goD(1) [OF assms(2) that] by (auto simp: call_from_def)
qed (use assms(2) in \<open>auto simp: lets_go_def\<close>)

lemma owners_ok_later:
  assumes ok: "owners_ok es st" and keep: "keeps_providers st st'"
    and new: "\<And>a owner. e = Claimed a owner \<or> (\<exists>i. e = Joined a i (Some owner)) \<Longrightarrow>
      a < length (xr_arcs st') \<and> pv_owner (xr_arcs st' ! a) = Some owner"
  shows "owners_ok (es @ [e]) st'"
  using ok new keeps_identity(1,4) [OF keep] unfolding owners_ok_def by (auto; metis)

subsection \<open>Steps that create\<close>

definition ext_inv :: "ext_event list \<Rightarrow> BrowserExtensionRegistry \<Rightarrow> bool" where
  "ext_inv es st \<longleftrightarrow> registry_ok st \<and> names_ok es st \<and> owners_ok es st \<and> calls_ok es st \<and> commands_ok es st"

lemma registered:
  assumes "register_with_window w uuid secret hello invocation pid window owner st = (Inr reply, st')"
  shows "\<exists>p. pv_owner p = owner \<and> pv_commands p = [] \<and> xr_arcs st' = xr_arcs st @ [p] \<and> xr_calls st' = xr_calls st
    \<and> set (xr_providers st') \<subseteq> insert (''browser-extension-'' @ uuid, length (xr_arcs st)) (set (xr_providers st))"
  using assms set_alist_update [of "''browser-extension-'' @ uuid" "length (xr_arcs st)" "xr_providers (prune_stale w st)"]
  by (auto simp: register_with_window_def Let_def prune_stale_def split: if_splits sum.splits)

lemma inv_registers:
  assumes inv: "ext_inv es st" and reg: "register_with_window w uuid secret hello invocation pid window owner st = (Inr reply, st')"
    and name: "name = ''browser-extension-'' @ uuid"
    and st': "registry_ok st'" "keeps_providers st st'"
  shows "ext_inv (es @ [Joined (length (xr_arcs st)) name owner]) st'" (is "ext_inv (es @ [?e]) st'")
proof -
  note parts = inv [unfolded ext_inv_def]
  from registered [OF reg] obtain p where p: "pv_owner p = owner" "pv_commands p = []" and arcs: "xr_arcs st' = xr_arcs st @ [p]"
    and calls: "xr_calls st' = xr_calls st"
    and prov: "set (xr_providers st') \<subseteq> insert (name, length (xr_arcs st)) (set (xr_providers st))"
    unfolding name by blast
  have live: "xc_provider call < length (xr_arcs st)" if "map_of (xr_calls st) c = Some call" for c call
    using registry_okD(4) [OF _ that] parts by (simp add: call_ok_def)
  have j: "joined (es @ [?e]) a i \<longleftrightarrow> joined es a i \<or> a = length (xr_arcs st) \<and> i = name" for a i
    by (auto simp: joined_def)
  have "names_ok (es @ [?e]) st'"
  proof (rule names_okI)
    show "a < length (xr_arcs st')" if "joined (es @ [?e]) a i" for a i
      using that parts names_okD(1) by (auto simp: j arcs less_Suc_eq)
    show "k = i" if "joined (es @ [?e]) a i" "joined (es @ [?e]) a k" for a i k
      using that parts names_okD(1,2) by (auto simp: j)
    show "joined (es @ [?e]) a i" if "(i, a) \<in> set (xr_providers st')" for a i
      using that prov parts names_okD(3) by (auto simp: j)
    show "joined (es @ [?e]) (xc_provider call) (xc_provider_id call)" if "map_of (xr_calls st') c = Some call" for c call
      using that parts names_okD(4) by (auto simp: j calls)
  qed
  moreover have "owners_ok (es @ [?e]) st'"
    using parts p by (intro owners_ok_later [OF _ st'(2)]) (auto simp: arcs)
  moreover have "calls_ok (es @ [?e]) st'"
    using parts live call_history_later [OF _ call_from_refl st'(2)] by (simp add: calls_ok_def calls)
  moreover have "commands_ok (es @ [?e]) st'"
    using parts live p carries_later [OF _ st'(2)]
    by (intro commands_okI) (auto simp: commands_ok_def calls arcs nth_append less_Suc_eq)
  ultimately show ?thesis using st' by (simp add: ext_inv_def)
qed

lemma inv_lets_go:
  assumes "ext_inv es st" and "lets_go st st'" and "registry_ok st'" and "keeps_providers st st'"
    and "\<And>a i owner. e \<noteq> Joined a i owner"
    and "\<And>a owner. e = Claimed a owner \<Longrightarrow> a < length (xr_arcs st') \<and> pv_owner (xr_arcs st' ! a) = Some owner"
  shows "ext_inv (es @ [e]) st'"
proof -
  note parts = assms(1) [unfolded ext_inv_def]
  have "owners_ok (es @ [e]) st'" using parts assms(5,6) by (intro owners_ok_later [OF _ assms(4)]) auto
  with parts names_ok_lets_go [OF _ assms(2,5)] calls_ok_lets_go [OF _ assms(2,4)] commands_ok_lets_go [OF _ assms(2,4)]
  show ?thesis using assms(3) by (simp add: ext_inv_def)
qed

text \<open>A call that starts is bound to the provider it names and to the pairing of that provider.\<close>

lemma command_fields:
  "json_index (call_command x w request_id p m timeout fs) ''session_nonce'' = JStr (pg_session_nonce (pv_pairing p))"
  "json_index (call_command x w request_id p m timeout fs) ''tab_id'' = json_u64 (pg_tab_id (pv_pairing p))"
  "json_index (call_command x w request_id p m timeout fs) ''request_id'' = JStr request_id"
  "json_index (call_command x w request_id p m timeout fs) ''method'' = JStr m"
  by (simp_all add: call_command_def Let_def json_set_opt_def json_index_def split: option.split)

definition new_call :: "nat \<Rightarrow> string \<Rightarrow> string \<Rightarrow> string \<Rightarrow> json \<Rightarrow> ExtensionCall" where
  "new_call a provider_id request_id m command = \<lparr>xc_provider = a, xc_provider_id = provider_id,
     xc_request_id = request_id, xc_method = m, xc_unsent = Some command, xc_oneshot = Open\<rparr>"

lemma new_call_simps [simp]:
  "xc_provider (new_call a provider_id request_id m command) = a"
  "xc_provider_id (new_call a provider_id request_id m command) = provider_id"
  "xc_request_id (new_call a provider_id request_id m command) = request_id"
  "xc_method (new_call a provider_id request_id m command) = m"
  "xc_unsent (new_call a provider_id request_id m command) = Some command"
  "xc_oneshot (new_call a provider_id request_id m command) = Open"
  by (simp_all add: new_call_def)

definition opens :: "BrowserExtensionRegistry \<Rightarrow> nat \<Rightarrow> ExtensionCall \<Rightarrow> BrowserExtensionRegistry \<Rightarrow> bool" where
  "opens st c call st' \<longleftrightarrow>
     (\<forall>k call'. map_of (xr_calls st') k = Some call' \<longrightarrow> k = c \<and> call' = call
        \<or> (\<exists>old. map_of (xr_calls st) k = Some old \<and> call_from old call'))
     \<and> length (xr_arcs st') = length (xr_arcs st)
     \<and> (\<forall>b. pv_commands (xr_arcs st' ! b) = pv_commands (xr_arcs st ! b))
     \<and> set (xr_providers st') \<subseteq> set (xr_providers st)"

lemma opensE:
  assumes "opens st c call st'" and "map_of (xr_calls st') k = Some call'" and "registry_ok st"
  obtains "k = c" "call' = call"
  | old where "map_of (xr_calls st) k = Some old" "call_from old call'" "xc_provider old < length (xr_arcs st)"
proof -
  from assms(1,2) have "k = c \<and> call' = call \<or> (\<exists>old. map_of (xr_calls st) k = Some old \<and> call_from old call')"
    by (auto simp: opens_def)
  moreover have "xc_provider old < length (xr_arcs st)" if "map_of (xr_calls st) k = Some old" for old
    using registry_okD(4) [OF assms(3) that] by (simp add: call_ok_def)
  ultimately show thesis using that by blast
qed

lemma started:
  assumes "call_start x w request_id provider_id origin pid m params timeout st = (Inr c, st')"
  shows "\<exists>a fs. (provider_id, a) \<in> set (xr_providers st) \<and> opens st c
     (new_call a provider_id request_id m (call_command x w request_id (xr_arcs st ! a) m timeout fs)) st'"
proof -
  define st1 where "st1 = prune_stale w st"
  have st1: "xr_arcs st1 = xr_arcs st" "xr_calls st1 = xr_calls st" "xr_next_call st1 = xr_next_call st"
    and prov: "set (xr_providers st1) \<subseteq> set (xr_providers st)" by (auto simp: st1_def prune_stale_def)
  from assms obtain a fs where a: "call_target_check st1 provider_id origin pid m = Inr a"
    and enter: "call_enter request_id provider_id a m (call_command x w request_id (xr_arcs st ! a) m timeout fs) st1 = (c, st')"
    by (auto simp: call_start_def Let_def st1_def [symmetric] case_prod_unfold prod_eq_iff st1 split: if_splits sum.splits)
  from a have "provider st1 provider_id = Inr a" by (auto simp: call_target_check_def Let_def and_then_Inr_iff)
  then have "(provider_id, a) \<in> set (xr_providers st)"
    using prov by (auto simp: provider_def dest!: map_of_SomeD split: option.splits)
  moreover have "xr_providers st' = xr_providers st1" using enter by (auto simp: call_enter_def Let_def)
  ultimately show ?thesis using enter prov
    by (intro exI [of _ a] exI [of _ fs]) (auto simp: opens_def call_enter_def Let_def map_of_fold_drop_sender
      st1 nth_update new_call_def split: if_splits)
qed

lemma names_ok_opens:
  assumes names: "names_ok es st" and st: "registry_ok st"
    and opened: "opens st c (new_call a provider_id request_id m command) st'" and a: "joined es a provider_id"
  shows "names_ok (es @ [Started c provider_id request_id m]) st'" (is "names_ok (es @ [?e]) st'")
proof (rule names_okI)
  have j: "joined (es @ [?e]) b i = joined es b i" for b i by (auto simp: joined_def)
  show "joined (es @ [?e]) (xc_provider k) (xc_provider_id k)" if "map_of (xr_calls st') d = Some k" for d k
    using opened that st
    by (rule opensE) (use a names_okD(4) [OF names] in \<open>auto simp: j call_from_def\<close>)
  show "b < length (xr_arcs st')" if "joined (es @ [?e]) b i" for b i
    using that names_okD(1) [OF names] opened by (simp add: j opens_def)
  show "k = i" if "joined (es @ [?e]) b i" "joined (es @ [?e]) b k" for b i k
    using that names_okD(2) [OF names] by (simp add: j)
  show "joined (es @ [?e]) b i" if "(i, b) \<in> set (xr_providers st')" for b i
    using that names_okD(3) [OF names] opened by (auto simp: j opens_def)
qed

lemma calls_ok_opens:
  assumes calls: "calls_ok es st" and st: "registry_ok st" and keep: "keeps_providers st st'"
    and opened: "opens st c (new_call a provider_id request_id m command) st'"
  shows "calls_ok (es @ [Started c provider_id request_id m]) st'" (is "calls_ok (es @ [?e]) st'")
  unfolding calls_ok_def
proof (intro allI impI)
  fix d k
  assume "map_of (xr_calls st') d = Some k"
  with opened show "call_history (es @ [?e]) st' d k" using st
  proof (rule opensE)
    assume "d = c" "k = new_call a provider_id request_id m command"
    then show ?thesis by (auto simp: call_history_def)
  qed (use calls call_history_later [OF _ _ keep] in \<open>unfold calls_ok_def, blast\<close>)
qed

lemma commands_ok_opens:
  assumes cmds: "commands_ok es st" and st: "registry_ok st" and keep: "keeps_providers st st'"
    and opened: "opens st c (new_call a provider_id request_id m (call_command x w request_id (xr_arcs st ! a) m timeout fs)) st'"
    and a: "joined es a provider_id" "a < length (xr_arcs st)"
  shows "commands_ok (es @ [Started c provider_id request_id m]) st'" (is "commands_ok (es @ [?e]) st'")
proof (rule commands_okI)
  show "carries (es @ [?e]) st' b command"
    if "b < length (xr_arcs st')" "command \<in> set (pv_commands (xr_arcs st' ! b))" for b command
    using that cmds opened by (auto simp: opens_def commands_ok_def intro!: carries_later [OF _ keep])
  fix d k command
  assume d: "map_of (xr_calls st') d = Some k" and unsent: "xc_unsent k = Some command"
  from opened d st show "carries (es @ [?e]) st' (xc_provider k) command"
  proof (rule opensE)
    assume k: "k = new_call a provider_id request_id m (call_command x w request_id (xr_arcs st ! a) m timeout fs)"
    with unsent have command: "command = call_command x w request_id (xr_arcs st ! a) m timeout fs" by simp
    have "joined (es @ [?e]) a provider_id" using a(1) by (auto simp: joined_def)
    then show ?thesis using keeps_identity(3) [OF keep a(2)] unfolding command
      by (intro carriesI [where i = provider_id and c = c]) (auto simp: command_fields k)
  next
    fix old
    assume "map_of (xr_calls st) d = Some old" "call_from old k" "xc_provider old < length (xr_arcs st)"
    with unsent cmds show ?thesis
      by (auto simp: call_from_def commands_ok_def intro!: carries_later [OF _ keep])
  qed
qed

lemma inv_starts:
  assumes inv: "ext_inv es st" and start: "call_start x w request_id provider_id origin pid m params timeout st = (Inr c, st')"
    and st': "registry_ok st'" "keeps_providers st st'"
  shows "ext_inv (es @ [Started c provider_id request_id m]) st'"
proof -
  note parts = inv [unfolded ext_inv_def]
  from started [OF start] obtain a fs where a: "(provider_id, a) \<in> set (xr_providers st)"
    and opened: "opens st c (new_call a provider_id request_id m (call_command x w request_id (xr_arcs st ! a) m timeout fs)) st'"
    by blast
  from a parts have live: "joined es a provider_id" "a < length (xr_arcs st)" using names_okD(3) registry_okD(1) by blast+
  have "owners_ok (es @ [Started c provider_id request_id m]) st'"
    using parts by (intro owners_ok_later [OF _ st'(2)]) auto
  with parts st' live opened show ?thesis
    by (auto simp: ext_inv_def intro: names_ok_opens calls_ok_opens commands_ok_opens)
qed

text \<open>Sending moves a command, answering hands one to its call.\<close>

lemma inv_sends:
  assumes inv: "ext_inv es st" and send: "call_send c st = Some st'"
    and st': "registry_ok st'" "keeps_providers st st'"
  shows "ext_inv (es @ [Internal]) st'"
proof -
  note parts = inv [unfolded ext_inv_def]
  from send obtain call command where call: "map_of (xr_calls st) c = Some call" "xc_unsent call = Some command"
    and eq: "st' = update_arc (xc_provider call) (\<lambda>p. p\<lparr>pv_commands := pv_commands p @ [command]\<rparr>)
      (st\<lparr>xr_calls := AList.update c (call\<lparr>xc_unsent := None\<rparr>) (xr_calls st)\<rparr>)"
    by (auto simp: call_send_def split: option.splits if_splits)
  define taken where "taken = st\<lparr>xr_calls := AList.update c (call\<lparr>xc_unsent := None\<rparr>) (xr_calls st)\<rparr>"
  have taken: "lets_go st taken" using call(1) by (auto simp: lets_go_def taken_def call_from_def)
  have arcs: "xr_calls st' = xr_calls taken" "xr_providers st' = xr_providers taken" "xr_arcs taken = xr_arcs st"
    "length (xr_arcs st') = length (xr_arcs taken)" by (simp_all add: eq taken_def)
  have keep: "keeps_providers st taken" by (simp add: taken_def keeps_providers_def)
  have secret: "pv_secret (xr_arcs st' ! a) = pv_secret (xr_arcs taken ! a)"
    "pv_pairing (xr_arcs st' ! a) = pv_pairing (xr_arcs taken ! a)" for a
    by (simp_all add: eq taken_def nth_update)
  have "names_ok (es @ [Internal]) st'" "calls_ok (es @ [Internal]) st'" and cmds: "commands_ok (es @ [Internal]) taken"
    using parts names_ok_lets_go [OF _ taken, of es Internal] calls_ok_lets_go [OF _ taken keep, of es Internal]
      commands_ok_lets_go [OF _ taken keep, of es Internal]
    by (simp_all add: names_ok_def calls_ok_def call_history_def arcs secret)
  moreover have "owners_ok (es @ [Internal]) st'" using parts by (intro owners_ok_later [OF _ st'(2)]) auto
  moreover have "commands_ok (es @ [Internal]) st'"
  proof (rule commands_okI)
    have c: "carries es' st' a k = carries es' taken a k" for es' a k by (simp add: carries_def secret)
    have "carries (es @ [Internal]) taken (xc_provider call) command"
      using parts call registry_okD(4) [OF _ call(1)]
      by (auto simp: commands_ok_def call_ok_def intro!: carries_later [OF _ keep])
    then show "carries (es @ [Internal]) st' a k" if "a < length (xr_arcs st')" "k \<in> set (pv_commands (xr_arcs st' ! a))" for a k
      using that cmds by (auto simp: c commands_ok_def arcs) (auto simp: eq nth_update split: if_splits)
    show "carries (es @ [Internal]) st' (xc_provider k) com" if "map_of (xr_calls st') d = Some k" "xc_unsent k = Some com" for d k com
      using that cmds by (simp add: c commands_ok_def arcs)
  qed
  ultimately show ?thesis using st' by (simp add: ext_inv_def)
qed

lemma completed:
  assumes fin: "complete w provider_id secret response st = (Inr reply, st')" and ok: "registry_ok st"
  shows "\<exists>a c call. (provider_id, a) \<in> set (xr_providers st) \<and> pv_secret (xr_arcs st ! a) = secret
    \<and> map_of (xr_calls st) c = Some call \<and> xc_provider call = a
    \<and> (\<forall>k. map_of (xr_calls st') k = (if k = c then Some (call\<lparr>xc_oneshot := Sent response\<rparr>) else map_of (xr_calls st) k))
    \<and> length (xr_arcs st') = length (xr_arcs st)
    \<and> (\<forall>b. pv_commands (xr_arcs st' ! b) = pv_commands (xr_arcs st ! b)) \<and> xr_providers st' = xr_providers st"
proof -
  from fin obtain a where a: "authorized_provider st provider_id secret = Inr a"
    and settled: "settle_pending provider_id a response (update_arc a (\<lambda>p. p\<lparr>pv_last_seen := mono_ns w\<rparr>) st) = (Inr reply, st')"
    by (auto simp: complete_def split: sum.splits)
  from a have prov: "(provider_id, a) \<in> set (xr_providers st)" "pv_secret (xr_arcs st ! a) = secret"
    by (auto simp: authorized_provider_iff provider_def dest!: map_of_SomeD split: option.splits)
  with registry_okD(1) [OF ok] have live: "a < length (xr_arcs st)" by blast
  from settled live obtain request_id c call where c: "map_of (pv_pending (xr_arcs st ! a)) request_id = Some c"
    and call: "map_of (xr_calls st) c = Some call"
    and st': "st' = update_arc a (\<lambda>p. p\<lparr>pv_pending := AList.delete request_id (pv_pending p)\<rparr>)
      (update_arc a (\<lambda>p. p\<lparr>pv_last_seen := mono_ns w\<rparr>) st\<lparr>xr_calls := AList.update c (call\<lparr>xc_oneshot := Sent response\<rparr>) (xr_calls st)\<rparr>)"
    by (auto simp: settle_pending_def Let_def split: sum.splits option.splits)
  from registry_okD(3) [OF ok live map_of_SomeD [OF c]] call have "xc_provider call = a" by (simp add: pending_ok_def)
  with prov call st' show ?thesis
    by (intro exI [of _ a] exI [of _ c] exI [of _ call]) (auto simp: nth_update)
qed

lemma inv_completes:
  assumes inv: "ext_inv es st" and comp: "complete w provider_id secret response st = (Inr reply, st')"
    and st': "registry_ok st'" "keeps_providers st st'"
  shows "ext_inv (es @ [Completed provider_id secret response]) st'" (is "ext_inv (es @ [?e]) st'")
proof -
  note parts = inv [unfolded ext_inv_def]
  from completed [OF comp] parts obtain a c call where a: "(provider_id, a) \<in> set (xr_providers st)" "pv_secret (xr_arcs st ! a) = secret"
    and call: "map_of (xr_calls st) c = Some call" "xc_provider call = a"
    and calls: "\<And>k. map_of (xr_calls st') k = (if k = c then Some (call\<lparr>xc_oneshot := Sent response\<rparr>) else map_of (xr_calls st) k)"
    and arcs: "length (xr_arcs st') = length (xr_arcs st)"
      "\<And>b. pv_commands (xr_arcs st' ! b) = pv_commands (xr_arcs st ! b)" "xr_providers st' = xr_providers st" by blast
  have live: "xc_provider k < length (xr_arcs st)" if "map_of (xr_calls st) d = Some k" for d k
    using registry_okD(4) [OF _ that] parts by (simp add: call_ok_def)
  have name: "xc_provider_id call = provider_id"
    using parts names_okD(2) [OF _ names_okD(3) [OF _ a(1)] names_okD(4) [OF _ call(1), unfolded call(2)]] by blast
  have "names_ok (es @ [?e]) st'"
    using parts call by (intro names_ok_later [of es st]) (auto simp: arcs calls split: if_splits)
  moreover have "owners_ok (es @ [?e]) st'" using parts by (intro owners_ok_later [OF _ st'(2)]) auto
  moreover have "calls_ok (es @ [?e]) st'"
    unfolding calls_ok_def
  proof (intro allI impI)
    fix d k
    assume d: "map_of (xr_calls st') d = Some k"
    show "call_history (es @ [?e]) st' d k"
    proof (cases "d = c")
      case True
      with d have k: "k = call\<lparr>xc_oneshot := Sent response\<rparr>" by (simp add: calls)
      from parts call(1) have "call_history es st c call" by (simp add: calls_ok_def)
      then obtain before after where
        "es = before @ Started c (xc_provider_id call) (xc_request_id call) (xc_method call) # after"
        unfolding call_history_def by blast
      then show ?thesis using True k name a(2) call(2) keeps_identity(2) [OF st'(2) live [OF call(1)]]
        unfolding call_history_def by (intro exI [of _ before] exI [of _ "after @ [?e]"]) auto
    next
      case False
      with d live parts show ?thesis
        by (auto simp: calls_ok_def calls intro!: call_history_later [OF _ call_from_refl st'(2)])
    qed
  qed
  moreover have "commands_ok (es @ [?e]) st'"
    using parts live call
    by (intro commands_okI) (auto simp: commands_ok_def calls arcs intro!: carries_later [OF _ st'(2)] split: if_splits)
  ultimately show ?thesis using st' by (simp add: ext_inv_def)
qed

lemma claimed:
  assumes "claim provider_id pid hwnd origin capability st = (Inr (), st')" and "provider st provider_id = Inr a"
    and "registry_ok st"
  shows "a < length (xr_arcs st') \<and> pv_owner (xr_arcs st' ! a) = Some capability"
  using assms provider_live [OF assms(3,2)]
  by (auto simp: claim_def Let_def split: if_splits option.splits)

lemma ext_step_inv:
  assumes inv: "ext_inv es st" and step: "ext_step st e st'"
  shows "ext_inv (es @ [e]) st'"
proof -
  have ok: "registry_ok st" using inv by (simp add: ext_inv_def)
  note keep = ext_step_keeps [OF step ok]
  have go: "lets_go st st' \<Longrightarrow> e \<in> {Internal, Ended c out} \<Longrightarrow> ?thesis" for c out
    by (rule inv_lets_go [OF inv]) (use keep in auto)
  from step show ?thesis
  proof cases
    case registers then show ?thesis using inv_registers [OF inv] keep by simp
  next
    case unregisters then show ?thesis using lets_go_unregister [of st] go by (metis insertI1 snd_conv)
  next
    case completes then show ?thesis using inv_completes [OF inv] keep by simp
  next
    case complete_refused then show ?thesis using go lets_go_complete by simp
  next
    case (claims provider_id pid hwnd origin capability a)
    with lets_go_claim [of st provider_id pid hwnd origin capability] have "lets_go st st'" by simp
    then show ?thesis by (rule inv_lets_go [OF inv]) (use keep claims claimed [OF _ _ ok] in auto)
  next
    case claim_refused then show ?thesis using lets_go_claim [of st] go by (metis insertI1 snd_conv)
  next
    case starts then show ?thesis using inv_starts [OF inv] keep by simp
  next
    case sends then show ?thesis using inv_sends [OF inv] keep by simp
  next
    case finishes then show ?thesis using go lets_go_finish by blast
  next
    case abandons then show ?thesis using go lets_go_abandon by simp
  next
    case revokes then show ?thesis using go by (simp add: lets_go_revoke)
  qed (use go lets_go_refused in simp_all)
qed

lemma ext_inv_new: "ext_inv [] registry_new"
  by (simp add: ext_inv_def registry_ok_def names_ok_def owners_ok_def calls_ok_def commands_ok_def
      registry_new_def joined_def)

lemma ext_run_inv: "ext_run registry_new es st \<Longrightarrow> ext_inv es st"
  by (induction registry_new es st rule: ext_run.induct) (auto intro: ext_inv_new ext_step_inv)

section \<open>Properties\<close>

lemma validated_ok: "validate_extension_response r = Inr () \<Longrightarrow> json_index r ''ok'' \<noteq> JBool False \<Longrightarrow> json_index r ''ok'' = JBool True"
  by (cases "json_index r ''ok''") (auto simp: validate_extension_response_def and_then_Inr_iff)

lemma finished_is_gone:
  assumes "call_finish how c st = Some (out, st')" and "map_of (xr_calls st) c = Some call"
  shows "map_of (xr_calls st') c = None"
  using assms
  by (auto simp: call_finish_def Let_def remove_pending_def delete_conv' map_of_drop_sender
      split: call_end.splits if_splits oneshot.splits option.splits)

lemma finished_leaves_nothing:
  assumes ok: "registry_ok st" and fin: "call_finish how c st = Some (out, st')" and call: "map_of (xr_calls st) c = Some call"
    and a: "a < length (xr_arcs st')"
  shows "c \<notin> snd ` set (pv_pending (xr_arcs st' ! a))"
proof
  define rest where "rest = st\<lparr>xr_calls := AList.delete c (xr_calls st)\<rparr>"
  assume "c \<in> snd ` set (pv_pending (xr_arcs st' ! a))"
  then obtain r where r: "(r, c) \<in> set (pv_pending (xr_arcs st' ! a))" by auto
  have st': "st' = remove_pending call rest \<or> st' = rest \<and> xc_oneshot call \<noteq> Open"
    using fin call by (auto simp: call_finish_def Let_def rest_def split: call_end.splits if_splits oneshot.splits)
  have len: "length (xr_arcs st') = length (xr_arcs st)"
    using st' by (auto simp: rest_def remove_pending_def split: option.splits)
  from r st' have old: "(r, c) \<in> set (pv_pending (xr_arcs st ! a))"
    by (auto simp: rest_def remove_pending_def nth_update AList.delete_eq split: option.splits if_splits)
  from pending_unique [OF ok _ _ old old call] a len
  have u: "xc_provider call = a" "xc_request_id call = r" "xc_oneshot call = Open" by simp_all
  with registry_okD(4) [OF ok call] have "map_of (pv_pending (xr_arcs st ! a)) r = Some c" by (simp add: call_ok_def)
  with u st' r a len show False by (auto simp: rest_def remove_pending_def nth_update AList.delete_eq)
qed

text \<open>
  C10. In every interleaving of registrations, polls, completions, claims and calls, a call that
  returns a result returns the answer to its own request: after the call had started, the holder
  of the secret of the very provider the call was made to completed it with a well-formed success
  response that carries the request id of this call, and the result is the one of that response.
\<close>

theorem extension_answer_correlated:
  assumes run: "ext_run registry_new es st" and fin: "call_finish Receive c st = Some (Inr reply, st')"
  shows "\<exists>before after a provider_id request_id m response.
    es = before @ Started c provider_id request_id m # after
    \<and> joined es a provider_id
    \<and> Completed provider_id (pv_secret (xr_arcs st ! a)) response \<in> set after
    \<and> validate_extension_response response = Inr ()
    \<and> json_index response ''request_id'' = JStr request_id \<and> json_index response ''ok'' = JBool True
    \<and> reply = JObj [(''type'', JStr ''browser_extension_result''), (''provider_id'', JStr provider_id),
        (''origin'', JStr (pg_origin (pv_pairing (xr_arcs st ! a)))), (''method'', JStr m),
        (''result'', json_index response ''result'')]"
proof -
  note inv = ext_run_inv [OF run, unfolded ext_inv_def]
  from fin obtain call response where call: "map_of (xr_calls st) c = Some call" and sent: "xc_oneshot call = Sent response"
    and reply: "call_reply call (xr_arcs st ! xc_provider call) response = Inr reply"
    by (auto simp: call_finish_def Let_def split: option.splits if_splits oneshot.splits)
  from inv call have "call_history es st c call" "joined es (xc_provider call) (xc_provider_id call)"
    using names_okD(4) by (auto simp: calls_ok_def)
  moreover from registry_okD(4) [OF _ call] inv sent have "validate_extension_response response = Inr ()"
    "json_index response ''request_id'' = JStr (xc_request_id call)" by (auto simp: call_ok_def)
  moreover from reply have "json_index response ''ok'' \<noteq> JBool False"
    and "reply = JObj [(''type'', JStr ''browser_extension_result''), (''provider_id'', JStr (xc_provider_id call)),
        (''origin'', JStr (pg_origin (pv_pairing (xr_arcs st ! xc_provider call)))), (''method'', JStr (xc_method call)),
        (''result'', json_index response ''result'')]"
    by (auto simp: call_reply_def Let_def and_then_Inr_iff)
  ultimately show ?thesis using sent validated_ok unfolding call_history_def by blast
qed

text \<open>
  C31. A pairing belongs to one task: once a session has claimed a provider (or it registered over
  the endpoint of a task), every claim by another task is refused and leaves the registry as it
  was, in every later state of the registry.
\<close>

theorem pairing_owner_exclusive:
  assumes run: "ext_run registry_new es st" and owned: "Claimed a owner \<in> set es \<or> Joined a name (Some owner) \<in> set es"
    and found: "provider st provider_id = Inr a" and other: "capability \<noteq> owner"
  shows "\<exists>message. claim provider_id pid hwnd origin capability st = (Inl (Protocol message), st)"
proof -
  have "pv_owner (xr_arcs st ! a) = Some owner"
    using ext_run_inv [OF run] owned by (auto simp: ext_inv_def owners_ok_def)
  with found other show ?thesis by (auto simp: claim_def Let_def)
qed

text \<open>
  A provider only receives commands made for its own pairing: what a poll hands to provider
  \<open>a\<close> carries the session nonce and the tab of that provider, and the request id and method of a
  call that was started at the name of this provider.
\<close>

theorem delivered_command_is_own:
  assumes run: "ext_run registry_new es st" and live: "a < length (xr_arcs st)"
    and poll: "next_command_receive provider_id a st = (reply, st')" and command: "json_index reply ''command'' \<noteq> JNull"
  shows "carries es st a (json_index reply ''command'')"
  using ext_run_inv [OF run] live poll command
  by (auto simp: ext_inv_def commands_ok_def next_command_receive_def command_reply_def json_index_def split: list.splits)

text \<open>
  C32. No call hangs in the registry: a call in flight can always end, by its answer, by the loss
  of its sender or by its timeout, and once it has ended it is out of the registry with no pending
  entry of any provider left for it.
\<close>

theorem extension_call_ends:
  assumes run: "ext_run registry_new es st" and call: "map_of (xr_calls st) c = Some call"
  shows "\<exists>how out st'. call_finish how c st = Some (out, st') \<and> map_of (xr_calls st') c = None
    \<and> (\<forall>a < length (xr_arcs st'). c \<notin> snd ` set (pv_pending (xr_arcs st' ! a)))"
proof -
  define how where "how = (if xc_unsent call \<noteq> None \<or> xc_oneshot call = Open then TimeOut else Receive)"
  have "\<exists>p. call_finish how c st = Some p"
    using call by (auto simp: how_def call_finish_def Let_def split: oneshot.split)
  then obtain out st' where fin: "call_finish how c st = Some (out, st')" by auto
  moreover have "map_of (xr_calls st') c = None" using fin call by (rule finished_is_gone)
  moreover have "c \<notin> snd ` set (pv_pending (xr_arcs st' ! a))" if "a < length (xr_arcs st')" for a
    using finished_leaves_nothing [OF _ fin call that] ext_run_inv [OF run] by (simp add: ext_inv_def)
  ultimately show ?thesis by blast
qed

text \<open>
  The registry stays consistent in every interleaving: registered providers exist, no command
  queue exceeds its capacity of 16, pending entries are unique per request id and stand for open
  calls of that very provider and id, an open call has its pending entry, and an answered call
  holds a validated response with its own request id.
\<close>

theorem extension_registry_consistent: "ext_run registry_new es st \<Longrightarrow> registry_ok st"
  using ext_run_inv unfolding ext_inv_def by blast

section \<open>An example run\<close>

definition example_hello :: json where
  "example_hello = JObj [(''schema'', JStr EXTENSION_SCHEMA), (''type'', JStr ''hello''),
     (''protocol'', JObj [(''min'', json_u64 1), (''max'', json_u64 1)]),
     (''extension'', JObj [(''id'', JStr ''e''), (''version'', JStr ''1'')]),
     (''capabilities'', JArr [JStr ''tab_navigation_v1'']),
     (''pairing'', JObj [(''session_nonce'', JStr ''n''), (''tab_id'', json_u64 5), (''window_id'', json_u64 6),
        (''origin'', JStr ''https://a.example''), (''document_id'', JStr ''d'')])]"

definition example_answer :: json where
  "example_answer = JObj [(''schema'', JStr EXTENSION_SCHEMA), (''type'', JStr ''response''),
     (''request_id'', JStr ''r''), (''ok'', JBool True),
     (''result'', JObj [(''document'', JObj [(''id'', JStr ''d'')])])]"

definition example_pairing :: ExtensionPairing where
  "example_pairing = \<lparr>pg_session_nonce = ''n'', pg_tab_id = 5, pg_window_id = 6, pg_origin = ''https://a.example'',
     pg_document_id = ''d''\<rparr>"

definition example_provider :: "string option \<Rightarrow> json list \<Rightarrow> (string \<times> nat) list \<Rightarrow> Provider" where
  "example_provider owner commands pending = \<lparr>pv_owner = owner, pv_secret = ''k'', pv_extension_id = ''e'',
     pv_extension_version = ''1'', pv_invocation_origin = ''e'', pv_browser_process_id = 42,
     pv_native_window = Some 77, pv_pairing = example_pairing, pv_capabilities = [''tab_navigation_v1''],
     pv_commands = commands, pv_pending = pending, pv_last_seen = mono_ns example_world\<rparr>"

definition example_registry :: "Provider \<Rightarrow> ExtensionCall list \<Rightarrow> BrowserExtensionRegistry" where
  "example_registry p calls = \<lparr>xr_arcs = [p], xr_providers = [(''browser-extension-u'', 0)],
     xr_calls = map (Pair 0) calls, xr_next_call = length calls\<rparr>"

definition example_command :: json where
  "example_command = call_command example_externs example_world ''r'' (example_provider (Some ''t'') [] []) ''snapshot'' 1000 []"

definition example_call :: ExtensionCall where
  "example_call = new_call 0 ''browser-extension-u'' ''r'' ''snapshot'' example_command"

definition example_registered :: BrowserExtensionRegistry where
  "example_registered = example_registry (example_provider None [] []) []"

definition example_claimed :: BrowserExtensionRegistry where
  "example_claimed = example_registry (example_provider (Some ''t'') [] []) []"

definition example_started :: BrowserExtensionRegistry where
  "example_started = example_registry (example_provider (Some ''t'') [] [(''r'', 0)]) [example_call]"

definition example_sent :: BrowserExtensionRegistry where
  "example_sent = example_registry (example_provider (Some ''t'') [example_command] [(''r'', 0)])
     [example_call\<lparr>xc_unsent := None\<rparr>]"

definition example_answered :: BrowserExtensionRegistry where
  "example_answered = example_registry (example_provider (Some ''t'') [example_command] [])
     [example_call\<lparr>xc_unsent := None, xc_oneshot := Sent example_answer\<rparr>]"

definition example_trace :: "ext_event list" where
  "example_trace = [Joined 0 ''browser-extension-u'' None, Claimed 0 ''t'', Started 0 ''browser-extension-u'' ''r'' ''snapshot'',
     Internal, Completed ''browser-extension-u'' ''k'' example_answer]"

lemma example_hello_parses:
  "parse_extension_hello example_hello ''e'' = Inr (''e'', ''1'', [''tab_navigation_v1''],
     example_pairing)"
  by code_simp

lemma example_answer_valid: "validate_extension_response example_answer = Inr ()"
  and example_answer_id: "json_index example_answer ''request_id'' = JStr ''r''"
  by code_simp+

lemma example_prune: "prune_stale example_world (example_registry (example_provider owner commands pending) calls)
    = example_registry (example_provider owner commands pending) calls"
  by (simp add: prune_stale_def example_registry_def example_provider_def PROVIDER_STALE_AFTER_def)

lemma example_provider_registers:
  "register_with_window example_world ''u'' ''k'' example_hello ''e'' 42 (Some 77) None registry_new =
     (Inr (registered_reply ''browser-extension-u'' ''k''), example_registered)"
  by (simp add: register_with_window_def Let_def example_hello_parses registry_new_def prune_stale_def example_registered_def
      example_registry_def example_provider_def)

lemma example_claims:
  "claim ''browser-extension-u'' 42 77 ''https://a.example'' ''t'' example_registered = (Inr (), example_claimed)"
  by (simp add: claim_def provider_def update_arc_def example_registered_def example_claimed_def example_registry_def
      example_provider_def example_pairing_def)

lemma example_starts:
  "call_start example_externs example_world ''r'' ''browser-extension-u'' ''https://a.example'' 42 ''snapshot'' (JObj []) 1000
     example_claimed = (Inr 0, example_started)"
proof -
  have "call_target_check example_claimed ''browser-extension-u'' ''https://a.example'' 42 ''snapshot'' = Inr 0"
    by (simp add: call_target_check_def provider_def example_claimed_def example_registry_def example_provider_def
        example_pairing_def guard_def extension_methods_def)
  moreover have "call_params (JObj []) = Inr []" by (simp add: call_params_def protected_params_def guard_def)
  moreover have "prune_stale example_world example_claimed = example_claimed"
    unfolding example_claimed_def by (rule example_prune)
  ultimately show ?thesis
    by (simp add: call_start_def MAX_EXTENSION_CALL_TIMEOUT_MS_def call_enter_def update_arc_def example_started_def
        example_registry_def example_claimed_def example_call_def new_call_def example_command_def)
       (simp add: example_provider_def)
qed

lemma example_sends: "call_send 0 example_started = Some example_sent"
  by (simp add: call_send_def example_started_def example_sent_def example_registry_def example_call_def update_arc_def
      PROVIDER_QUEUE_CAPACITY_def) (simp add: example_provider_def)

lemma example_completes:
  "\<exists>reply. complete example_world ''browser-extension-u'' ''k'' example_answer example_sent = (Inr reply, example_answered)"
  by (simp add: complete_def authorized_provider_def provider_def settle_pending_def example_answer_valid bounded_string_def
      example_answer_id MAX_REQUEST_ID_CHARS_def example_sent_def example_answered_def example_registry_def update_arc_def)
     (simp add: example_provider_def)

lemma run_two: "ext_run st es st' \<Longrightarrow> ext_step st' e st'' \<Longrightarrow> es @ [e] = es' \<Longrightarrow> ext_run st es' st''"
  using run_snoc by blast

lemma example_run:
  "ext_run registry_new (take 2 example_trace) example_claimed"
  "ext_run registry_new (take 4 example_trace) example_sent"
  "ext_run registry_new example_trace example_answered"
proof -
  have "ext_step registry_new (Joined 0 ''browser-extension-u'' None) example_registered"
    using ext_step.registers [OF example_provider_registers] by (simp add: registry_new_def)
  from run_two [OF run_nil this refl] have 1: "ext_run registry_new [Joined 0 ''browser-extension-u'' None] example_registered"
    by simp
  have "provider example_registered ''browser-extension-u'' = Inr 0"
    by (simp add: provider_def example_registered_def example_registry_def)
  from run_two [OF 1 ext_step.claims [OF example_claims this]]
  show 2: "ext_run registry_new (take 2 example_trace) example_claimed" by (simp add: example_trace_def)
  from run_two [OF run_two [OF 2 ext_step.starts [OF example_starts] refl] ext_step.sends [OF example_sends]]
  show 4: "ext_run registry_new (take 4 example_trace) example_sent" by (simp add: example_trace_def)
  from example_completes obtain reply where
    "complete example_world ''browser-extension-u'' ''k'' example_answer example_sent = (Inr reply, example_answered)" by blast
  from run_two [OF 4 ext_step.completes [OF this]]
  show "ext_run registry_new example_trace example_answered" by (simp add: example_trace_def)
qed

lemma example_finishes:
  "\<exists>reply st'. call_finish Receive 0 example_answered = Some (Inr reply, st')"
proof -
  have "call_reply (example_call\<lparr>xc_unsent := None, xc_oneshot := Sent example_answer\<rparr>)
      (example_provider (Some ''t'') [example_command] []) example_answer =
    Inr (JObj [(''type'', JStr ''browser_extension_result''), (''provider_id'', JStr ''browser-extension-u''),
      (''origin'', JStr ''https://a.example''), (''method'', JStr ''snapshot''),
      (''result'', JObj [(''document'', JObj [(''id'', JStr ''d'')])])])"
    by (simp add: call_reply_def Let_def guard_def example_call_def example_answer_def json_index_def EXTENSION_SCHEMA_def
        example_provider_def example_pairing_def)
  then show ?thesis by (simp add: call_finish_def example_answered_def example_registry_def)
      (simp add: example_call_def)
qed

theorem extension_answer_correlated_witness:
  "\<exists>before after a provider_id request_id m response.
    example_trace = before @ Started 0 provider_id request_id m # after
    \<and> joined example_trace a provider_id
    \<and> Completed provider_id (pv_secret (xr_arcs example_answered ! a)) response \<in> set after
    \<and> json_index response ''request_id'' = JStr request_id"
proof -
  from example_finishes obtain reply st' where "call_finish Receive 0 example_answered = Some (Inr reply, st')" by blast
  from extension_answer_correlated [OF example_run(3) this] show ?thesis by blast
qed

theorem pairing_owner_exclusive_witness:
  "\<exists>message. claim ''browser-extension-u'' 42 77 ''https://a.example'' ''other'' example_claimed = (Inl (Protocol message), example_claimed)"
proof (rule pairing_owner_exclusive [OF example_run(1)])
  show "Claimed 0 ''t'' \<in> set (take 2 example_trace) \<or> Joined 0 [] (Some ''t'') \<in> set (take 2 example_trace)"
    by (simp add: example_trace_def)
  show "provider example_claimed ''browser-extension-u'' = Inr 0"
    by (simp add: provider_def example_claimed_def example_registry_def)
qed simp

theorem delivered_command_is_own_witness:
  "carries (take 4 example_trace) example_sent 0 example_command"
proof -
  have "\<exists>st'. next_command_receive ''browser-extension-u'' 0 example_sent = (command_reply ''browser-extension-u'' (Some example_command), st')"
    by (simp add: next_command_receive_def example_sent_def example_registry_def) (simp add: example_provider_def)
  then obtain st' where d: "next_command_receive ''browser-extension-u'' 0 example_sent =
    (command_reply ''browser-extension-u'' (Some example_command), st')" by blast
  have c: "json_index (command_reply ''browser-extension-u'' (Some example_command)) ''command'' = example_command"
    by (simp add: command_reply_def json_index_def)
  have "json_index example_command ''method'' = JStr ''snapshot''" by (simp add: example_command_def command_fields)
  then have "example_command \<noteq> JNull" by (auto simp: json_index_def)
  moreover have "0 < length (xr_arcs example_sent)" by (simp add: example_sent_def example_registry_def)
  ultimately show ?thesis using delivered_command_is_own [OF example_run(2) _ d] unfolding c by blast
qed

theorem extension_call_ends_witness:
  "\<exists>how out st'. call_finish how 0 example_sent = Some (out, st') \<and> map_of (xr_calls st') 0 = None"
  using extension_call_ends [OF example_run(2), of 0 "example_call\<lparr>xc_unsent := None\<rparr>"]
  by (auto simp: example_sent_def example_registry_def)

theorem extension_registry_consistent_witness: "registry_ok example_answered"
  by (rule extension_registry_consistent [OF example_run(3)])

end
