(* ===== verification/Authorization_Scope.thy ===== *)
theory Authorization_Scope
  imports Session_Evidence
begin

text \<open>
  How a task lease enters a window session and limits its requests
  (\<open>dcc-cua-host/src/task_authorization_scope.rs\<close>): the lease is requested before the window is
  opened or after it was observed, compared with the grant of the client, and every later request
  of the session is checked against it before any handler runs.
\<close>

section \<open>Grant against lease\<close>

definition has_method :: "string \<Rightarrow> TrustedTaskAuthorizationLease \<Rightarrow> bool" where
  "has_method method l \<longleftrightarrow> method \<in> set (ls_allowed_host_methods l)"

definition closed_pixels_scope :: "TrustedTaskActionScope \<Rightarrow> bool" where
  "closed_pixels_scope s \<longleftrightarrow>
     is_window_minimize s \<or> is_native_capture_popup_keyboard s \<or> is_window_frame s
     \<or> is_native_menu_dismiss s \<or> is_capture_preparation s \<or> is_pixels_input s"

definition validate_pixels_actions ::
  "TaskGrant \<Rightarrow> TrustedTaskAuthorizationLease \<Rightarrow> HostError + unit" where
  "validate_pixels_actions g l =
     (let trusted_raw_input = list_ex is_pixels_input (ls_allowed_actions l) in
      guard (tg_allow_raw_input g \<noteq> trusted_raw_input
             \<or> list_ex (\<lambda>s. \<not> closed_pixels_scope s) (ls_allowed_actions l)
             \<or> has_method ''execute_action'' l \<and> \<not> trusted_raw_input)
        (browser_scope_denied
          ''pixels_only grant must exactly derive supported raw input from its trusted action scopes''))"

definition validate_pixels_frame :: "TrustedTaskAuthorizationLease \<Rightarrow> HostError + unit" where
  "validate_pixels_frame l =
     guard (has_method ''set_window_frame'' l
            \<and> (\<not> list_ex is_window_frame (ls_allowed_actions l) \<or> \<not> has_method ''get_window_state'' l))
       (browser_scope_denied
         ''set_window_frame requires its closed action scope and explicit native state read method'')"

definition validate_pixels_recording ::
  "TaskGrant \<Rightarrow> TrustedTaskAuthorizationLease \<Rightarrow> HostError + unit" where
  "validate_pixels_recording g l =
     (if tg_allow_recording g
      then guard (tg_recording_output_dir g \<noteq> ls_recording_output_dir l
                  \<or> ls_recording_output_dir l = None \<or> \<not> has_methods recording_methods l)
        (browser_scope_denied
          ''pixels_only recording output and lifecycle must exactly match trusted authorization'')
      else guard (tg_recording_output_dir g \<noteq> None \<or> ls_recording_output_dir l \<noteq> None)
        (browser_scope_denied ''manual recording output requires explicit recording permission''))"

definition lifecycle_groups :: "string list list" where
  "lifecycle_groups =
     [[''recording_start'', ''recording_state'', ''recording_stop''],
      [''live_observation_start'', ''live_observation_state'', ''live_observation_stop'']]"

definition validate_lifecycle_group ::
  "TrustedTaskAuthorizationLease \<Rightarrow> string list \<Rightarrow> HostError + unit" where
  "validate_lifecycle_group l grp =
     guard (has_method (hd grp) l \<and> \<not> has_methods grp l)
       (browser_scope_denied ''native lifecycle start requires its state and stop methods'')"

definition validate_pixels_lease ::
  "TaskGrant \<Rightarrow> TrustedTaskAuthorizationLease \<Rightarrow> HostError + unit" where
  "validate_pixels_lease g l =
     (if tg_observation_mode g \<noteq> PixelsOnly then Inr ()
      else and_then (validate_pixels_actions g l) (\<lambda>_.
           and_then (validate_pixels_frame l) (\<lambda>_.
           and_then (validate_pixels_recording g l) (\<lambda>_.
             all_ok (validate_lifecycle_group l) lifecycle_groups))))"

definition validate_grant_against_task_authorization ::
  "TaskGrant \<Rightarrow> TrustedTaskAuthorizationLease \<Rightarrow> HostError + unit" where
  "validate_grant_against_task_authorization g l =
     and_then (guard (tg_allow_capture_preparation g \<noteq> (ls_capture_preparation l \<noteq> None)
                      \<or> ls_capture_preparation l \<noteq> None \<and> tg_observation_mode g \<noteq> PixelsOnly)
       (browser_scope_denied
         ''capture preparation must exactly derive from its trusted pixels_only lease permission'')) (\<lambda>_.
     and_then (guard ((tg_recording_output_dir g \<noteq> None \<or> ls_recording_output_dir l \<noteq> None)
                      \<and> tg_observation_mode g \<noteq> PixelsOnly)
       (browser_scope_denied
         ''trusted native recording output cannot authorize a semantic trajectory session'')) (\<lambda>_.
     and_then (guard (list_ex is_native_menu_dismiss (ls_allowed_actions l)
                      \<and> (tg_observation_mode g \<noteq> PixelsOnly
                         \<or> \<not> has_methods [''get_window_state'', ''change_window_state''] l))
       (browser_scope_denied
         ''dismiss_menu requires explicit pixels_only and its native state read and change methods'')) (\<lambda>_.
     and_then (validate_pixels_lease g l) (\<lambda>_.
     and_then (guard (set (tg_allowed_browser_origins g) \<noteq> set (ls_allowed_browser_origins l))
       (browser_scope_denied
         ''task grant browser origins do not match the trusted authorization'')) (\<lambda>_.
       guard (tg_showcase_output_dir g \<noteq> None \<and> \<not> has_method ''recording_start'' l)
         (browser_scope_denied
           ''automatic showcase recording is outside the trusted task authorization''))))))"

section \<open>Opening a task session\<close>

definition issue_for_grant ::
  "externs \<Rightarrow> 'st task_authorization_host option \<Rightarrow> string \<Rightarrow> clock \<Rightarrow> world \<Rightarrow> string \<Rightarrow> TaskGrant
   \<Rightarrow> string \<Rightarrow> string \<Rightarrow> string \<Rightarrow> ConfirmationWindowIdentity \<Rightarrow> 'st
   \<Rightarrow> (HostError + TrustedTaskAuthorizationLease option) \<times> 'st" where
  "issue_for_grant x host uuid clk w connection_id g session_id window_capability authorization_id
     target st =
     (let (r, st') = issue_task_authorization x host uuid clk w
        \<lparr>tb_connection_id = connection_id, tb_authorization_id = authorization_id,
         tb_session_id = session_id, tb_task_grant_id = tg_task_grant_id g,
         tb_application_label = tg_application_label g, tb_window_capability = window_capability,
         tb_target = target\<rparr> st
      in (and_then r (\<lambda>lease.
            and_then (validate_grant_against_task_authorization g lease) (\<lambda>_. Inr (Some lease))), st'))"

definition preauthorize_task_session ::
  "externs \<Rightarrow> 'st task_authorization_host option \<Rightarrow> string \<Rightarrow> clock \<Rightarrow> world \<Rightarrow> string \<Rightarrow> TaskGrant
   \<Rightarrow> string \<Rightarrow> string \<Rightarrow> bool \<Rightarrow> 'st \<Rightarrow> (HostError + TrustedTaskAuthorizationLease option) \<times> 'st" where
  "preauthorize_task_session x host uuid clk w connection_id g session_id window_capability
     activate_before st =
     (case and_then (reject_task_authorization_activation g activate_before)
             (\<lambda>_. task_authorization_preflight_target g) of
        Inl e \<Rightarrow> (Inl e, st)
      | Inr None \<Rightarrow> (Inr None, st)
      | Inr (Some target) \<Rightarrow>
        (case tg_task_authorization_id g of
           None \<Rightarrow> (Inl (task_authorization_required
             ''task authorization preflight lost its authorization identity''), st)
         | Some authorization_id \<Rightarrow>
             issue_for_grant x host uuid clk w connection_id g session_id window_capability
               authorization_id target st))"

definition finalize_task_session_authorization ::
  "externs \<Rightarrow> 'st task_authorization_host option \<Rightarrow> string \<Rightarrow> clock \<Rightarrow> world \<Rightarrow> string \<Rightarrow> TaskGrant
   \<Rightarrow> string \<Rightarrow> string \<Rightarrow> ConfirmationWindowIdentity \<Rightarrow> TrustedTaskAuthorizationLease option \<Rightarrow> 'st
   \<Rightarrow> (HostError + TrustedTaskAuthorizationLease option) \<times> 'st" where
  "finalize_task_session_authorization x host uuid clk w connection_id g session_id
     window_capability observed preauthorized st =
     (case preauthorized of
        Some lease \<Rightarrow>
          if ls_target_process_id lease \<noteq> cw_process_id observed
             \<or> ls_target_window_handle lease \<noteq> cw_window_handle observed
          then (Inl (browser_scope_denied
            ''the opened session target does not match the preauthorized exact window''), st)
          else (Inr (Some lease), st)
      | None \<Rightarrow>
        (case tg_task_authorization_id g of
           None \<Rightarrow> (Inr None, st)
         | Some authorization_id \<Rightarrow>
             issue_for_grant x host uuid clk w connection_id g session_id window_capability
               authorization_id observed st))"

section \<open>Checking a request\<close>

definition session_with_capability ::
  "(string \<times> HostSession) list \<Rightarrow> CapturePreparationBindings \<Rightarrow> HostError + HostSession" where
  "session_with_capability sessions b =
     (case map_of sessions (wb_session_id b) of
        None \<Rightarrow> Inl session_not_found
      | Some h \<Rightarrow>
        if hs_task_grant_id h \<noteq> wb_task_grant_id b \<or> hs_capability h \<noteq> wb_window_capability b
        then Inl (Protocol ''session grant or capability mismatch'') else Inr h)"

definition snapshot_scope_check ::
  "HostSession \<Rightarrow> BrowserSnapshotRequest \<Rightarrow> HostError + unit" where
  "snapshot_scope_check h r =
     (case (bsr_target_id r, bsr_tab_id r) of
        (Some target_id, Some tab_id) \<Rightarrow> require_task_authorized_browser_target h target_id tab_id
      | _ \<Rightarrow> Inl (browser_scope_denied
          ''an exact task-authorized browser snapshot requires target_id and tab_id''))"

definition current_document_check :: "HostSession \<Rightarrow> string \<Rightarrow> string \<Rightarrow> HostError + unit" where
  "current_document_check h target_id tab_id =
     and_then (require_task_authorized_browser_target h target_id tab_id)
       (\<lambda>_. require_current_task_authorized_browser_document h)"

fun browser_request_scope :: "HostSession \<Rightarrow> BrowserRequest \<Rightarrow> HostError + unit" where
  "browser_request_scope h (BrowserSnapshot r) = snapshot_scope_check h r"
| "browser_request_scope h (BrowserPrepare r) = Inl (browser_scope_denied
     ''browser_prepare is outside a final exact-browser task authorization'')"
| "browser_request_scope h (BrowserNavigate r) =
     current_document_check h (bnr_target_id r) (bnr_tab_id r)"
| "browser_request_scope h (BrowserClick r) =
     require_task_authorized_browser_document h (bcr_target_id r) (bcr_tab_id r) (bcr_snapshot_id r)"
| "browser_request_scope h (BrowserType r) =
     require_task_authorized_browser_document h (btr_target_id r) (btr_tab_id r) (btr_snapshot_id r)"
| "browser_request_scope h (BrowserPointer r) =
     require_task_authorized_browser_document h (bpt_target_id r) (bpt_tab_id r) (bpt_snapshot_id r)"
| "browser_request_scope h (BrowserSetInputFiles r) =
     require_task_authorized_browser_document h (bif_target_id r) (bif_tab_id r) (bif_snapshot_id r)"
| "browser_request_scope h (BrowserDownload r) =
     require_task_authorized_browser_document h (bdl_target_id r) (bdl_tab_id r) (bdl_snapshot_id r)"
| "browser_request_scope h (BrowserDialog r) =
     current_document_check h (bdg_target_id r) (bdg_tab_id r)"

definition enforce_task_authorized_browser_scope :: "HostSession \<Rightarrow> Request \<Rightarrow> HostError + unit" where
  "enforce_task_authorized_browser_scope h r =
     (if session_browser_scope h = None then Inr ()
      else case r of Browser _ q \<Rightarrow> browser_request_scope h q | _ \<Rightarrow> Inr ())"

definition pixels_input_check :: "HostSession \<Rightarrow> Request \<Rightarrow> HostError + unit" where
  "pixels_input_check h r =
     (case r of
        Window b (ExecuteAction p) \<Rightarrow>
          if hs_observation_mode h = PixelsOnly
          then and_then (require_pixels_input_grant h (wb_session_id b) (ea_action p))
                 (\<lambda>_. require_latest_observation h (ea_observation_id p))
          else Inr ()
      | _ \<Rightarrow> Inr ())"

definition recording_start_check :: "world \<Rightarrow> HostSession \<Rightarrow> Request \<Rightarrow> HostError + unit" where
  "recording_start_check w h r =
     (case r of
        Capture b (RecordingStart p) \<Rightarrow>
          if hs_observation_mode h \<noteq> PixelsOnly then Inr ()
          else (case Option.bind (hs_task_authorization h) ls_recording_output_dir of
            Some directory \<Rightarrow>
              if \<not> hs_allow_recording h
              then Inl (browser_scope_denied ''native recording requires a trusted immutable output directory'')
              else if \<not> rs_record_video p \<or> rs_output_dir p \<noteq> directory
              then Inl (browser_scope_denied ''native recording requires video-only output in its exact authorized directory'')
              else validate_recording_output_location w directory
          | None \<Rightarrow> Inl (browser_scope_denied ''native recording requires a trusted immutable output directory''))
      | _ \<Rightarrow> Inr ())"

definition enforce_task_authorized_method ::
  "world \<Rightarrow> (string \<times> HostSession) list \<Rightarrow> Request \<Rightarrow> HostError + unit" where
  "enforce_task_authorized_method w sessions r =
     (case window_method_scope r of None \<Rightarrow> Inr ()
      | Some (b, method) \<Rightarrow>
        and_then (session_with_capability sessions b) (\<lambda>h.
        and_then (require_task_authorized_method h method) (\<lambda>_.
        and_then (guard (\<not> permits_method (hs_observation_mode h) method)
          (browser_scope_denied
            ''Host method requires semantic observation and is unavailable in pixels_only sessions'')) (\<lambda>_.
        and_then (pixels_input_check h r) (\<lambda>_.
        and_then (recording_start_check w h r) (\<lambda>_.
          enforce_task_authorized_browser_scope h r))))))"

section \<open>Properties\<close>

lemma validate_grant_ok_iff:
  "validate_grant_against_task_authorization g l = Inr () \<longleftrightarrow>
     (tg_allow_capture_preparation g \<longleftrightarrow> ls_capture_preparation l \<noteq> None)
     \<and> (tg_observation_mode g \<noteq> PixelsOnly \<longrightarrow> ls_capture_preparation l = None
          \<and> tg_recording_output_dir g = None \<and> ls_recording_output_dir l = None
          \<and> \<not> list_ex is_native_menu_dismiss (ls_allowed_actions l))
     \<and> (list_ex is_native_menu_dismiss (ls_allowed_actions l) \<longrightarrow>
          has_methods [''get_window_state'', ''change_window_state''] l)
     \<and> validate_pixels_lease g l = Inr ()
     \<and> set (tg_allowed_browser_origins g) = set (ls_allowed_browser_origins l)
     \<and> (tg_showcase_output_dir g \<noteq> None \<longrightarrow> has_method ''recording_start'' l)"
  by (auto simp: validate_grant_against_task_authorization_def and_then_Inr_iff)

lemma session_with_capability_ok_iff:
  "session_with_capability sessions b = Inr h \<longleftrightarrow>
     map_of sessions (wb_session_id b) = Some h \<and> hs_task_grant_id h = wb_task_grant_id b
     \<and> hs_capability h = wb_window_capability b"
  by (auto simp: session_with_capability_def split: option.splits)

lemma require_method_ok_iff:
  "require_task_authorized_method h m = Inr () \<longleftrightarrow>
     (\<forall>l. hs_task_authorization h = Some l \<longrightarrow> has_method m l)"
  by (auto simp: require_task_authorized_method_def has_method_def is_some_and_iff)

text \<open>The target, tab and document a browser request names, for the requests that mutate a page.\<close>

fun mutated_document :: "BrowserRequest \<Rightarrow> (string \<times> string \<times> string) option" where
  "mutated_document (BrowserClick r) = Some (bcr_target_id r, bcr_tab_id r, bcr_snapshot_id r)"
| "mutated_document (BrowserType r) = Some (btr_target_id r, btr_tab_id r, btr_snapshot_id r)"
| "mutated_document (BrowserPointer r) = Some (bpt_target_id r, bpt_tab_id r, bpt_snapshot_id r)"
| "mutated_document (BrowserSetInputFiles r) = Some (bif_target_id r, bif_tab_id r, bif_snapshot_id r)"
| "mutated_document (BrowserDownload r) = Some (bdl_target_id r, bdl_tab_id r, bdl_snapshot_id r)"
| "mutated_document _ = None"

lemma document_scope_ok:
  assumes "browser_request_scope h q = Inr ()" and "session_browser_scope h = Some scope"
    and "mutated_document q = Some d"
  shows "d = (bs_host_target_id scope, bs_tab_id scope, bs_document_generation scope)"
  using assms
  by (cases q) (auto simp: require_task_authorized_browser_document_def
      require_task_authorized_browser_target_def and_then_Inr_iff split: if_splits)

lemma pixels_input_ok:
  assumes "pixels_input_check h (Window b (ExecuteAction p)) = Inr ()"
    and "hs_observation_mode h = PixelsOnly"
  shows "hs_allow_raw_input h \<and> pixels_action_supported (ea_action p)
    \<and> hs_latest_observation_id h = Some (ea_observation_id p)
    \<and> (\<exists>l scope. bound_task_authorization h (wb_session_id b) ''execute_action'' = Some l
         \<and> scope \<in> set (ls_allowed_actions l) \<and> is_pixels_input scope
         \<and> sc_action scope = ha_action (ea_action p))"
  using assms
  by (auto simp: pixels_input_check_def require_pixels_input_grant_def and_then_Inr_iff
      require_latest_observation_def is_some_and_iff list_ex_iff split: if_splits)

lemma recording_start_ok:
  assumes "recording_start_check w h (Capture b (RecordingStart p)) = Inr ()"
    and "hs_observation_mode h = PixelsOnly"
  shows "hs_allow_recording h \<and> rs_record_video p
    \<and> validate_recording_output_location w (rs_output_dir p) = Inr ()
    \<and> (\<exists>l. hs_task_authorization h = Some l \<and> ls_recording_output_dir l = Some (rs_output_dir p))"
  using assms
  by (auto simp: recording_start_check_def bind_eq_Some_conv split: option.splits if_splits)

lemma bound_task_authorization_iff:
  "bound_task_authorization h session_id m = Some l \<longleftrightarrow>
     hs_task_authorization h = Some l \<and> ls_session_id l = session_id
     \<and> ls_task_grant_id l = hs_task_grant_id h \<and> ls_window_capability l = hs_capability h
     \<and> ls_target_process_id l = hs_target_process_id h
     \<and> ls_target_window_handle l = hs_target_window_handle h \<and> has_method m l"
  by (auto simp: bound_task_authorization_def has_method_def split: option.splits)

text \<open>
  C5. A window request that passes the check is inside the session's grant and lease. It names
  an open session with its grant id and capability; where the session has a lease, the lease
  lists the method. A pixels-only session admits only pixel methods, a raw input only if the
  session has a lease for this session, grant, capability, process and window which lists that
  very action, and the request names the latest observation, and a recording only as video into
  the ordinary directory the lease names. Under a browser scope a page mutation names the
  authorized target, tab and document. Input and recordings of a semantic session are not limited
  here but where the action is authorized.
\<close>
theorem enforced_request_within_lease:
  assumes "enforce_task_authorized_method w sessions r = Inr ()"
    and "window_method_scope r = Some (b, m)"
  shows "\<exists>h. map_of sessions (wb_session_id b) = Some h
    \<and> hs_task_grant_id h = wb_task_grant_id b \<and> hs_capability h = wb_window_capability b
    \<and> (\<forall>l. hs_task_authorization h = Some l \<longrightarrow> m \<in> set (ls_allowed_host_methods l))
    \<and> permits_method (hs_observation_mode h) m
    \<and> (\<forall>p. r = Window b (ExecuteAction p) \<longrightarrow> hs_observation_mode h = PixelsOnly \<longrightarrow>
         hs_allow_raw_input h \<and> ha_secret_handle (ea_action p) = None
         \<and> hs_latest_observation_id h = Some (ea_observation_id p)
         \<and> (\<exists>l scope. hs_task_authorization h = Some l \<and> ls_session_id l = wb_session_id b
              \<and> ls_task_grant_id l = wb_task_grant_id b \<and> ls_window_capability l = wb_window_capability b
              \<and> ls_target_process_id l = hs_target_process_id h
              \<and> ls_target_window_handle l = hs_target_window_handle h
              \<and> scope \<in> set (ls_allowed_actions l) \<and> is_pixels_input scope
              \<and> sc_action scope = ha_action (ea_action p)))
    \<and> (\<forall>p. r = Capture b (RecordingStart p) \<longrightarrow> hs_observation_mode h = PixelsOnly \<longrightarrow>
         hs_allow_recording h \<and> rs_record_video p
         \<and> validate_recording_output_location w (rs_output_dir p) = Inr ()
         \<and> (\<exists>l. hs_task_authorization h = Some l
              \<and> ls_recording_output_dir l = Some (rs_output_dir p)))
    \<and> (\<forall>q d scope. r = Browser b q \<longrightarrow> session_browser_scope h = Some scope \<longrightarrow>
         mutated_document q = Some d \<longrightarrow>
         d = (bs_host_target_id scope, bs_tab_id scope, bs_document_generation scope))"
proof -
  from assms obtain h where h: "session_with_capability sessions b = Inr h"
    and allowed: "require_task_authorized_method h m = Inr ()"
    and mode: "permits_method (hs_observation_mode h) m"
    and pixels: "pixels_input_check h r = Inr ()" and rec: "recording_start_check w h r = Inr ()"
    and scope: "enforce_task_authorized_browser_scope h r = Inr ()"
    by (auto simp: enforce_task_authorized_method_def and_then_Inr_iff)
  have "ha_secret_handle (ea_action p) = None" if "pixels_action_supported (ea_action p)" for p
    using that by (simp add: pixels_action_supported_def)
  moreover have "browser_request_scope h q = Inr ()"
    if "r = Browser b q" "session_browser_scope h = Some s" for q s
    using scope that by (simp add: enforce_task_authorized_browser_scope_def)
  ultimately show ?thesis
    using h allowed mode pixels rec pixels_input_ok recording_start_ok document_scope_ok
    by (intro exI [of _ h])
       (fastforce simp: session_with_capability_ok_iff require_method_ok_iff has_method_def
          bound_task_authorization_iff)
qed

definition example_pixels_session :: HostSession where
  "example_pixels_session = example_host_session\<lparr>hs_target_process_id := 7,
     hs_target_window_handle := 9, hs_observation_mode := PixelsOnly, hs_capability := ''w'',
     hs_task_authorization := Some example_lease\<rparr>"

definition example_execute_action :: Request where
  "example_execute_action =
     Window \<lparr>wb_session_id = ''s'', wb_task_grant_id = ''g'', wb_window_capability = ''w''\<rparr>
       (ExecuteAction \<lparr>ea_observation_id = ''o1'', ea_accessibility_state_id = [],
          ea_action = example_movement\<lparr>ha_action := ''click''\<rparr>, ea_capture_after = False,
          ea_post_snapshot_delay_ms = 0, ea_post_snapshot_max_depth = 0,
          ea_post_snapshot_max_nodes = 0, ea_post_snapshot_mode = FullSnapshot\<rparr>)"

lemma example_execute_action_enforced:
  "enforce_task_authorized_method example_world [(''s'', example_pixels_session)]
     example_execute_action = Inr ()"
  by (simp add: enforce_task_authorized_method_def example_execute_action_def
      session_with_capability_def example_pixels_session_def example_host_session_def
      require_task_authorized_method_def is_some_and_iff example_lease_def permits_method_def
      pixels_only_methods_def pixels_input_check_def require_pixels_input_grant_def
      pixels_action_supported_def PIXELS_INPUT_ACTIONS_def example_movement_def
      bound_task_authorization_def example_scope_def is_pixels_input_def
      require_latest_observation_def recording_start_check_def
      enforce_task_authorized_browser_scope_def)

theorem enforced_request_within_lease_witness:
  "\<exists>l scope. hs_task_authorization example_pixels_session = Some l
     \<and> scope \<in> set (ls_allowed_actions l) \<and> sc_action scope = ''click''"
proof -
  have "window_method_scope example_execute_action = Some
      (\<lparr>wb_session_id = ''s'', wb_task_grant_id = ''g'', wb_window_capability = ''w''\<rparr>, ''execute_action'')"
    by (simp add: example_execute_action_def)
  from enforced_request_within_lease [OF example_execute_action_enforced this] show ?thesis
    by (auto simp: example_execute_action_def example_pixels_session_def example_movement_def)
qed

end
