(* ===== verification/Browser_Operations.thy ===== *)
theory Browser_Operations
  imports Browser_Session
begin

text \<open>
  The operations of the browser session (\<open>dcc-cua-browser/src/lib.rs\<close>, \<open>prepare_recovery.rs\<close>):
  every operation checks its request against the session, spends the snapshot evidence, issues
  one native call and validates the answer. Runs of operations show that one snapshot pays for
  at most one mutation, and that a download is reported only inside its destination.
\<close>

section \<open>Navigation receipts\<close>

definition validate_foreground_navigation_readback ::
  "json \<Rightarrow> string \<Rightarrow> string \<Rightarrow> unit ComputerUseResult" where
  "validate_foreground_navigation_readback v target_id tab_id =
     and_then (structured_content v) (\<lambda>c.
       guard (\<not> (json_index c ''status'' = JStr ''ok''
                  \<and> json_index c ''delivery_mode'' = JStr ''foreground''
                  \<and> json_index c ''activated'' = JBool True
                  \<and> as_str (json_index c ''target_id'') = Some target_id
                  \<and> as_str (json_index c ''tab_id'') = Some tab_id)
              \<or> \<not> (json_index c ''visibility_state'' = JStr ''visible''
                  \<and> as_str (json_index c ''ready_state'') \<in> {Some ''interactive'', Some ''complete''}
                  \<and> is_some_and (as_str (json_index c ''current_url'')) (\<lambda>u.
                      starts_with ''http://'' u \<or> starts_with ''https://'' u \<or> starts_with ''about:'' u)
                  \<and> as_str (json_index c ''title'') \<noteq> None
                  \<and> as_str (json_index c ''heading'') \<noteq> None))
         (backend_unavailable ''foreground browser navigation omitted exact activated-tab readback''))"

definition navigation_ok_receipt ::
  "json \<Rightarrow> json \<Rightarrow> string \<Rightarrow> string \<Rightarrow> string \<Rightarrow> unit ComputerUseResult" where
  "navigation_ok_receipt v c target_id tab_id delivery_mode =
     (let foreground = (delivery_mode = ''foreground'') in
      if json_index c ''dispatched'' \<noteq> JBool True \<or> json_index c ''refs_invalidated'' \<noteq> JBool True
         \<or> json_index c ''activated'' \<noteq> JBool foreground
      then Inl (backend_unavailable
        ''successful browser navigation receipt omitted completion evidence'')
      else if foreground
      then and_then (validate_foreground_navigation_readback v target_id tab_id) (\<lambda>_.
        guard (json_index c ''activation_state'' \<noteq> JStr ''succeeded''
               \<or> json_index c ''readback_state'' \<noteq> JStr ''succeeded'')
          (backend_unavailable
            ''successful foreground navigation receipt omitted completion states''))
      else guard (json_index c ''activation_state'' \<noteq> JStr ''not_requested''
                  \<or> json_index c ''readback_state'' \<noteq> JStr ''not_requested'')
        (backend_unavailable
          ''successful background navigation receipt claimed foreground completion''))"

definition navigation_unknown_receipt :: "json \<Rightarrow> bool" where
  "navigation_unknown_receipt c \<longleftrightarrow>
     json_get c ''dispatched'' = Some JNull
     \<and> json_index c ''dispatch_state'' = JStr ''unknown''
     \<and> json_index c ''refs_invalidated'' = JBool True
     \<and> json_index c ''activated'' = JBool False
     \<and> json_index c ''activation_state'' = JStr ''not_started''
     \<and> json_index c ''readback_state'' = JStr ''not_started''
     \<and> json_index c ''error'' = JStr
         ''browser navigation completion is unknown; refresh browser state before retrying''"

text \<open>Dispatched, activation state, readback state, error code and error of a stable failure.\<close>

definition any_mode_failures :: "(bool \<times> string \<times> string \<times> string \<times> string) list" where
  "any_mode_failures =
     [(False, ''not_started'', ''not_started'', ''navigation_dispatch_failed'',
        ''browser navigation dispatch failed''),
      (True, ''not_started'', ''not_started'', ''navigation_rejected'',
        ''browser navigation was rejected'')]"

definition foreground_failures :: "(bool \<times> string \<times> string \<times> string \<times> string) list" where
  "foreground_failures =
     [(True, ''failed'', ''not_started'', ''target_activation_failed'',
        ''foreground target activation failed''),
      (True, ''succeeded'', ''failed'', ''navigation_identity_missing'',
        ''browser navigation did not return a frame identity''),
      (True, ''succeeded'', ''stale_document'', ''navigation_commit_not_observed'',
        ''foreground readback did not reach the dispatched navigation''),
      (True, ''succeeded'', ''failed'', ''foreground_readback_failed'',
        ''foreground browser readback failed''),
      (True, ''succeeded'', ''timeout'', ''foreground_readback_timeout'',
        ''foreground browser readback timed out''),
      (True, ''succeeded'', ''succeeded'', ''target_drift_after_navigation'',
        ''browser target identity changed after navigation'')]"

definition stable_failure :: "string \<Rightarrow> bool \<Rightarrow> json \<Rightarrow> bool" where
  "stable_failure delivery_mode dispatched c =
     (case (as_str (json_index c ''activation_state''), as_str (json_index c ''readback_state''),
            as_str (json_index c ''error_code''), as_str (json_index c ''error'')) of
        (Some activation, Some readback, Some code, Some error) \<Rightarrow>
          delivery_mode \<in> {''foreground'', ''background''}
            \<and> (dispatched, activation, readback, code, error) \<in> set any_mode_failures
          \<or> delivery_mode = ''foreground''
            \<and> (dispatched, activation, readback, code, error) \<in> set foreground_failures
      | _ \<Rightarrow> False)"

definition navigation_failed_receipt :: "string \<Rightarrow> json \<Rightarrow> unit ComputerUseResult" where
  "navigation_failed_receipt delivery_mode c =
     (case as_bool (json_index c ''dispatched'') of
        None \<Rightarrow> Inl (backend_unavailable ''failed browser navigation receipt omitted dispatch state'')
      | Some dispatched \<Rightarrow>
        guard (as_bool (json_index c ''refs_invalidated'') \<noteq> Some dispatched
               \<or> as_bool (json_index c ''activated'')
                   \<noteq> map_option (\<lambda>state. state = ''succeeded'') (as_str (json_index c ''activation_state''))
               \<or> \<not> stable_failure delivery_mode dispatched c)
          (backend_unavailable ''browser navigation returned a malformed partial failure receipt''))"

definition navigation_identity ::
  "json \<Rightarrow> string \<Rightarrow> string \<Rightarrow> string \<Rightarrow> string \<Rightarrow> unit ComputerUseResult" where
  "navigation_identity c target_id tab_id url delivery_mode =
     and_then (guard (\<not> (as_str (json_index c ''target_id'') = Some target_id
                \<and> as_str (json_index c ''tab_id'') = Some tab_id
                \<and> as_str (json_index c ''url'') = Some url
                \<and> as_str (json_index c ''delivery_mode'') = Some delivery_mode))
       (backend_unavailable
         ''browser navigation receipt returned inconsistent target, tab, URL, or delivery mode'')) (\<lambda>_.
       guard (json_get c ''dispatch_state'' \<noteq> None
              \<and> (json_index c ''status'' \<noteq> JStr ''error''
                 \<or> json_index c ''error_code'' \<noteq> JStr ''navigation_completion_unknown''))
         (backend_unavailable ''browser navigation returned inconsistent dispatch evidence''))"

definition navigation_response_is_success ::
  "json \<Rightarrow> string \<Rightarrow> string \<Rightarrow> string \<Rightarrow> string \<Rightarrow> bool ComputerUseResult" where
  "navigation_response_is_success v target_id tab_id url delivery_mode =
     and_then (structured_content v) (\<lambda>c.
     and_then (navigation_identity c target_id tab_id url delivery_mode) (\<lambda>_.
       if as_str (json_index c ''status'') = Some ''ok''
       then and_then (navigation_ok_receipt v c target_id tab_id delivery_mode) (\<lambda>_. Inr True)
       else if as_str (json_index c ''status'') = Some ''error''
       then if json_index c ''error_code'' = JStr ''navigation_completion_unknown''
            then if navigation_unknown_receipt c then Inr False
                 else Inl (backend_unavailable
                   ''browser navigation returned a malformed unknown completion receipt'')
            else and_then (navigation_failed_receipt delivery_mode c) (\<lambda>_. Inr False)
       else Inl (backend_unavailable ''browser navigation receipt omitted a deterministic status'')))"

definition public_receipt_keys :: "string list" where
  "public_receipt_keys =
     [''status'', ''target_id'', ''tab_id'', ''url'', ''delivery_mode'', ''dispatched'', ''activated'',
      ''activation_state'', ''readback_state'', ''refs_invalidated'']"

definition copy_keys :: "json \<Rightarrow> string list \<Rightarrow> (string \<times> json) list" where
  "copy_keys c keys = map (\<lambda>k. (k, json_index c k)) keys"

definition into_public_navigation_receipt ::
  "BrowserResult \<Rightarrow> bool \<Rightarrow> BrowserResult ComputerUseResult" where
  "into_public_navigation_receipt r succeeded =
     and_then (structured_content (brs_value r)) (\<lambda>c.
       let public = copy_keys c public_receipt_keys
             @ (if json_index c ''dispatch_state'' = JStr ''unknown''
                then [(''dispatch_state'', JStr ''unknown'')] else [])
             @ (if succeeded \<and> json_index c ''delivery_mode'' = JStr ''foreground''
                then copy_keys c [''current_url'', ''title'', ''heading'', ''visibility_state'', ''ready_state'']
                else if \<not> succeeded then copy_keys c [''error_code'', ''error''] else [])
       in Inr \<lparr>brs_value = JObj [(''structuredContent'', JObj public), (''isError'', JBool (\<not> succeeded))],
               brs_images = []\<rparr>)"

section \<open>Recovery guidance\<close>

definition app_basename :: "string \<Rightarrow> string" where
  "app_basename app = to_ascii_lowercase (last (split_on (\<lambda>c. c \<in> set ''/'' \<or> c = CHR 0x5C) app))"

definition setup_url :: "string \<Rightarrow> string option" where
  "setup_url app =
     (if app_basename app \<in> {''msedge.exe'', ''msedge'', ''microsoft edge''}
      then Some ''edge://inspect/#remote-debugging''
      else if app_basename app \<in> {''chrome.exe'', ''chrome'', ''google chrome'', ''chromium.exe'', ''chromium''}
      then Some ''chrome://inspect/#remote-debugging'' else None)"

definition recovery_setup :: "string \<Rightarrow> json" where
  "recovery_setup app =
     (let base = JObj [(''setting_state'', JStr ''unverified''), (''instruction'', JStr
            ''In the exact browser window, manually verify its remote-debugging setting before retrying preparation.'')]
      in case setup_url app of None \<Rightarrow> base
         | Some url \<Rightarrow> json_set ''checkbox_label''
             (JStr ''Allow remote debugging for this browser instance'') (json_set ''url'' (JStr url) base))"

definition recovery_report :: "u64 \<Rightarrow> u64 \<Rightarrow> string \<Rightarrow> string \<Rightarrow> json" where
  "recovery_report pid window_id app cleanup_status =
     JObj [(''kind'', JStr ''existing_profile_setup''), (''status'', JStr ''manual_action_required''),
       (''target'', JObj [(''pid'', json_u64 pid), (''window_id'', json_u64 window_id)]),
       (''setup'', recovery_setup app),
       (''cleanup'', JObj [(''status'', JStr cleanup_status), (''instruction'', JStr
          ''Manually review any setup tab left in this exact window; close only a tab you identify as belonging to this preparation attempt.'')]),
       (''automatic_cleanup'', JBool False), (''automatic_retry'', JBool False),
       (''fresh_observation_required'', JBool True),
       (''retry_after'', JStr ''manual_setup_and_cleanup'')]"

definition creation_unproven :: "json \<Rightarrow> bool option" where
  "creation_unproven effects =
     (case json_get effects ''setup_tab_creation_unproven'' of
        None \<Rightarrow> Some False
      | Some (JBool unproven) \<Rightarrow> Some unproven
      | Some _ \<Rightarrow> None)"

definition recovery_of :: "json \<Rightarrow> bool \<Rightarrow> json option \<Rightarrow> json option" where
  "recovery_of c existing_profile target =
     (if \<not> existing_profile \<or> json_index c ''status'' \<noteq> JStr ''refused''
         \<or> json_index c ''prepared'' = JBool True
         \<or> json_index (json_index c ''refusal'') ''code'' \<noteq> JStr ''browser_wrong_target_refused''
      then None
      else let effects = json_index (json_index (json_index c ''refusal'') ''detail'') ''setup_side_effects'' in
        case (as_bool (json_index effects ''opened_setup_page''),
              as_bool (json_index effects ''closed_setup_page''),
              as_bool (json_index effects ''enabled_remote_debugging''),
              creation_unproven effects, target) of
          (Some opened, Some closed, Some _, Some unproven, Some t) \<Rightarrow>
            if closed \<and> (\<not> opened \<or> unproven) then None
            else (case (as_u64 (json_index t ''pid''), as_u64 (json_index t ''window_id'')) of
              (Some pid, Some window_id) \<Rightarrow>
                if pid = 0 \<or> pid > 4294967295 \<or> window_id = 0 then None
                else Some (recovery_report pid window_id
                  (unwrap_or (as_str (json_index t ''app_name'')) [])
                  (if unproven \<or> (opened \<and> \<not> closed) then ''manual_cleanup_required''
                   else if closed then ''closed_by_driver'' else ''not_opened''))
            | _ \<Rightarrow> None)
        | _ \<Rightarrow> None)"

definition annotate :: "bool \<Rightarrow> json option \<Rightarrow> BrowserResult \<Rightarrow> BrowserResult" where
  "annotate existing_profile target r =
     (let c = json_index (brs_value r) ''structuredContent'' in
      case recovery_of c existing_profile target of None \<Rightarrow> r
      | Some recovery \<Rightarrow>
        r\<lparr>brs_value := json_set ''structuredContent'' (json_set ''recovery'' recovery c) (brs_value r)\<rparr>)"

section \<open>Downloads\<close>

definition DOWNLOAD_MAGIC_SNIFF_BYTES :: nat where "DOWNLOAD_MAGIC_SNIFF_BYTES = 8192"

definition download_lifecycle_state :: "string option \<Rightarrow> string" where
  "download_lifecycle_state status =
     (if status \<in> {Some ''completed'', Some ''accepted'', Some ''in_progress''} then the status
      else ''failed'')"

definition download_id_is_safe_component :: "string \<Rightarrow> bool" where
  "download_id_is_safe_component download_id =
     (case path_components download_id of [Normal _] \<Rightarrow> True | _ \<Rightarrow> False)"

definition bytes_of :: "nat list \<Rightarrow> string" where
  "bytes_of ns = map char_of ns"

definition has_magic :: "string \<Rightarrow> nat \<Rightarrow> string \<Rightarrow> bool" where
  "has_magic bytes offset signature \<longleftrightarrow>
     offset + length signature \<le> length bytes
     \<and> take (length signature) (drop offset bytes) = signature"

definition sniff_iso_bmff_mime_type :: "string \<Rightarrow> string" where
  "sniff_iso_bmff_mime_type head =
     (if length head < 12 then ''video/mp4''
      else let brand = take 4 (drop 8 head) in
        if brand = ''qt  '' then ''video/quicktime''
        else if brand \<in> {''avif'', ''avis''} then ''image/avif''
        else if brand \<in> {''heic'', ''heix'', ''hevc'', ''hevx'', ''heim'', ''heis'', ''hevm'', ''hevs''}
        then ''image/heic''
        else if brand \<in> {''M4A '', ''M4B ''} then ''audio/mp4'' else ''video/mp4'')"

definition magic_types :: "(nat \<times> string \<times> string) list" where
  "magic_types =
     [(0, ''PK'' @ bytes_of [3, 4], ''application/zip''), (0, ''PK'' @ bytes_of [5, 6], ''application/zip''),
      (0, ''PK'' @ bytes_of [7, 8], ''application/zip''), (0, bytes_of [31, 139, 8], ''application/gzip''),
      (0, ''7z'' @ bytes_of [188, 175, 39, 28], ''application/x-7z-compressed''),
      (0, ''Rar!'' @ bytes_of [26, 7], ''application/vnd.rar''),
      (257, ''ustar'', ''application/x-tar''), (0, ''%PDF-'', ''application/pdf''),
      (0, bytes_of [137] @ ''PNG'' @ bytes_of [13, 10, 26, 10], ''image/png''),
      (0, bytes_of [255, 216, 255], ''image/jpeg''),
      (0, ''GIF87a'', ''image/gif''), (0, ''GIF89a'', ''image/gif'')]"

definition late_magic_types :: "(nat \<times> string \<times> string) list" where
  "late_magic_types =
     [(0, ''II*'' @ bytes_of [0], ''image/tiff''), (0, ''MM'' @ bytes_of [0] @ ''*'', ''image/tiff''),
      (0, bytes_of [118, 47, 49, 1], ''image/x-exr''), (0, ''glTF'', ''model/gltf-binary''),
      (0, ''OggS'', ''application/ogg'')]"

definition find_magic :: "string \<Rightarrow> (nat \<times> string \<times> string) list \<Rightarrow> string option" where
  "find_magic head table =
     map_option (snd \<circ> snd) (find (\<lambda>(offset, signature, _). has_magic head offset signature) table)"

definition sniff_download_mime_type :: "string \<Rightarrow> string" where
  "sniff_download_mime_type head =
     (case find_magic head magic_types of Some mime \<Rightarrow> mime
      | None \<Rightarrow>
        if has_magic head 0 ''RIFF'' \<and> has_magic head 8 ''WEBP'' then ''image/webp''
        else case find_magic head late_magic_types of Some mime \<Rightarrow> mime
        | None \<Rightarrow>
          if has_magic head 4 ''ftyp'' then sniff_iso_bmff_mime_type head
          else if has_magic head 0 (bytes_of [127] @ ''ELF'') then ''application/x-executable''
          else ''application/octet-stream'')"

record ProvenDownload =
  pd_stored_filename :: string
  pd_file_path :: string
  pd_artifact_ref :: string
  pd_bytes :: u64
  pd_sha256 :: "string option"
  pd_mime_type :: "string option"

definition path_join :: "string \<Rightarrow> string \<Rightarrow> string" where
  "path_join root name = (if ends_with ''/'' root then root @ name else root @ ''/'' @ name)"

definition download_artifact_ref :: "browser_env \<Rightarrow> string \<Rightarrow> string" where
  "download_artifact_ref env canonical = unwrap_or (bx_file_url env canonical) canonical"

definition prove_download_artifact :: "browser_env \<Rightarrow> string \<Rightarrow> string \<Rightarrow> ProvenDownload option" where
  "prove_download_artifact env root download_id =
     (if \<not> download_id_is_safe_component download_id then None
      else Option.bind (bx_lstat env (path_join root download_id)) (\<lambda>meta.
        if bm_is_symlink meta \<or> \<not> bm_is_file meta then None
        else Option.bind (bx_canonicalize env (path_join root download_id)) (\<lambda>canonical.
          if map_option path_components (path_parent canonical) \<noteq> Some (path_components root) then None
          else let content = bx_read_file env canonical in
            Some \<lparr>pd_stored_filename = download_id, pd_file_path = canonical,
              pd_artifact_ref = download_artifact_ref env canonical, pd_bytes = bm_len meta,
              pd_sha256 = map_option (sha256_hex (bx_externs env)) content,
              pd_mime_type = map_option
                (\<lambda>c. sniff_download_mime_type (take DOWNLOAD_MAGIC_SNIFF_BYTES c)) content\<rparr>)))"

definition download_fields :: "ProvenDownload \<Rightarrow> json \<Rightarrow> json" where
  "download_fields a c =
     json_set_opt ''mime_type'' JStr (pd_mime_type a)
       (json_set_opt ''sha256'' JStr (pd_sha256 a)
         ((\<lambda>j. if json_get j ''bytes'' = None then json_set ''bytes'' (json_u64 (pd_bytes a)) j else j)
           (json_set ''artifact_ref'' (JStr (pd_artifact_ref a))
             (json_set ''file_path'' (JStr (pd_file_path a))
               (json_set ''stored_filename'' (JStr (pd_stored_filename a)) c)))))"

definition enrich_download_completion :: "browser_env \<Rightarrow> string \<Rightarrow> json \<Rightarrow> json" where
  "enrich_download_completion env root v =
     (case Option.bind (json_get v ''structuredContent'') as_object of None \<Rightarrow> v
      | Some fs \<Rightarrow>
        let status = get_str (JObj fs) ''status'';
            c = json_set ''download_state'' (JStr (download_lifecycle_state status)) (JObj fs);
            artifact = (if status \<noteq> Some ''completed'' then None
              else Option.bind (get_str c ''download_id'') (prove_download_artifact env root))
        in json_set ''structuredContent''
             (case artifact of None \<Rightarrow> c | Some a \<Rightarrow> download_fields a c) v)"

section \<open>Operations\<close>

text \<open>
  \<open>begin_snapshot_sensitive_native_attempt\<close> and the native call: whatever the tool answers, the
  evidence of the last snapshot is gone.
\<close>

definition native_attempt ::
  "native_tool \<Rightarrow> string \<Rightarrow> json \<Rightarrow> BrowserSession \<Rightarrow> (json \<Rightarrow> BrowserResult browser_outcome)
   \<Rightarrow> browser_step" where
  "native_attempt native tool args s finish =
     ([(tool, args)], and_then (lift_result (native tool args)) finish, clear_snapshot s)"

definition refuse :: "ComputerUseErrorCode \<times> string \<Rightarrow> BrowserSession \<Rightarrow> browser_step" where
  "refuse e s = ([], Inl (Refused (fst e) (snd e)), s)"

definition checked ::
  "'a ComputerUseResult \<Rightarrow> BrowserSession \<Rightarrow> ('a \<Rightarrow> browser_step) \<Rightarrow> browser_step" where
  "checked r s k = (case r of Inl e \<Rightarrow> refuse e s | Inr v \<Rightarrow> k v)"

definition browser_prepare ::
  "browser_env \<Rightarrow> native_tool \<Rightarrow> json option \<Rightarrow> BrowserPrepareRequest \<Rightarrow> BrowserSession \<Rightarrow> browser_step" where
  "browser_prepare env native target r s =
     checked (guard (is_some_and (bpr_approval_token r) (\<lambda>t. char_count t > MAX_TEXT_CHARS))
        (invalid ''browser approval_token exceeds the 4096-character limit'')) s (\<lambda>_.
      let args = json_set_opt ''strategy'' id (bpr_strategy r)
            (json_set_opt ''profile'' id (bpr_profile r)
              (json_set_opt ''approval_token'' JStr (bpr_approval_token r)
                (JObj [(''allow_launch'', JBool (bpr_allow_launch r))])));
          existing_profile =
            (json_index (json_index args ''strategy'') ''kind'' = JStr ''existing_profile'')
      in native_attempt native ''browser_prepare'' args s (\<lambda>v.
           and_then (browser_result_from_prepare_value env v) (\<lambda>result.
             Inr (annotate existing_profile target result))))"

definition publish_snapshot ::
  "externs \<Rightarrow> json \<Rightarrow> string \<Rightarrow> string \<Rightarrow> ValidatedAncestorScope option \<Rightarrow> BrowserSession \<Rightarrow> BrowserSession" where
  "publish_snapshot x v target_id tab_id validated s =
     s\<lparr>bw_latest_snapshot_id := or_else (map_option va_snapshot_id validated) (browser_snapshot_id v),
       bw_latest_tab_id := Some tab_id,
       bw_latest_origin := browser_snapshot_origin x v tab_id,
       bw_pending := Option.bind validated (\<lambda>scope.
         map_option (\<lambda>token. \<lparr>pc_token = token, pc_target_id = target_id, pc_tab_id = tab_id,
           pc_snapshot_id = va_snapshot_id scope, pc_anchor = va_anchor scope\<rparr>)
           (va_continuation scope))\<rparr>"

definition finish_bind_snapshot ::
  "AncestorScopeExpectation option \<Rightarrow> BrowserSession \<Rightarrow> BrowserResult
   \<Rightarrow> BrowserResult browser_outcome \<times> BrowserSession" where
  "finish_bind_snapshot expectation s result =
     (case validate_ancestor_scope_response (brs_value result) expectation of
        Inl (c, m) \<Rightarrow> (Inl (Refused c m), s)
      | Inr (Some _) \<Rightarrow> (Inl (Refused BackendUnavailable
          ''CUA ancestor-scoped snapshot omitted its exact target and tab''), s)
      | Inr None \<Rightarrow>
          (let (r, s') = store_binding (brs_value result) s in (and_then r (\<lambda>_. Inr result), s')))"

definition finish_tab_snapshot ::
  "externs \<Rightarrow> AncestorScopeExpectation option \<Rightarrow> string \<Rightarrow> string \<Rightarrow> BrowserSession \<Rightarrow> BrowserResult
   \<Rightarrow> BrowserResult browser_outcome \<times> BrowserSession" where
  "finish_tab_snapshot x expectation target_id tab_id s result =
     (case browser_result_is_structured_refusal (brs_value result) of
        Inl (c, m) \<Rightarrow> (Inl (Refused c m), s)
      | Inr True \<Rightarrow> (Inr result, s)
      | Inr False \<Rightarrow>
        (case validate_ancestor_scope_response (brs_value result) expectation of
           Inl (c, m) \<Rightarrow> (Inl (Refused c m), s)
         | Inr validated \<Rightarrow>
             (Inr result, publish_snapshot x (brs_value result) target_id tab_id validated s)))"

definition snapshot_call ::
  "browser_env \<Rightarrow> native_tool \<Rightarrow> json \<Rightarrow> BrowserSession
   \<Rightarrow> (BrowserSession \<Rightarrow> BrowserResult \<Rightarrow> BrowserResult browser_outcome \<times> BrowserSession) \<Rightarrow> browser_step" where
  "snapshot_call env native args s finish =
     (let s' = clear_snapshot s;
          answer = and_then (lift_result (native ''get_browser_state'' args)) (browser_result_from_value env)
      in case answer of
           Inl e \<Rightarrow> ([(''get_browser_state'', args)], Inl e, s')
         | Inr result \<Rightarrow> ([(''get_browser_state'', args)], finish s' result))"

definition browser_snapshot_route ::
  "browser_env \<Rightarrow> native_tool \<Rightarrow> BrowserSnapshotRequest \<Rightarrow> json \<Rightarrow> AncestorScopeExpectation option
   \<Rightarrow> BrowserSession \<Rightarrow> browser_step" where
  "browser_snapshot_route env native r args expectation s =
     (case bsr_target_id r of
        None \<Rightarrow>
          checked (guard (bsr_tab_id r \<noteq> None) (invalid ''tab_id requires target_id'')) s (\<lambda>_.
            snapshot_call env native args s (finish_bind_snapshot expectation))
      | Some target_id \<Rightarrow>
          checked (require_bound_target target_id s) s (\<lambda>_.
            case bsr_tab_id r of
              None \<Rightarrow> refuse (invalid ''tab_id is required for browser snapshot mode'') s
            | Some tab_id \<Rightarrow>
                if str_trim tab_id = [] then refuse (invalid ''tab_id must not be empty'') s
                else snapshot_call env native
                  (json_set ''tab_id'' (JStr tab_id) (json_set ''target_id'' (JStr target_id) args)) s
                  (finish_tab_snapshot (bx_externs env) expectation target_id tab_id)))"

definition browser_snapshot ::
  "browser_env \<Rightarrow> native_tool \<Rightarrow> BrowserSnapshotRequest \<Rightarrow> BrowserSession \<Rightarrow> browser_step" where
  "browser_snapshot env native r s =
     checked (guard (bsr_snapshot_format r \<noteq> ''dom_refs_v1'' \<and> bsr_snapshot_format r \<noteq> ''semantic_v2'')
        (invalid ''snapshot_format must be dom_refs_v1 or semantic_v2'')) s (\<lambda>_.
     checked (browser_snapshot_args r) s (\<lambda>args.
     checked (ancestor_scope_expectation r s) s (\<lambda>expectation.
       browser_snapshot_route env native r args expectation s)))"

definition browser_navigate ::
  "browser_env \<Rightarrow> native_tool \<Rightarrow> BrowserNavigateRequest \<Rightarrow> BrowserSession \<Rightarrow> browser_step" where
  "browser_navigate env native r s =
     checked (require_exact_target (bnr_target_id r) s) s (\<lambda>_.
     checked (validate_navigate_request r) s (\<lambda>_.
       let delivery_mode = unwrap_or (bnr_delivery_mode r) ''background'';
           args = JObj [(''target_id'', JStr (bnr_target_id r)), (''tab_id'', JStr (bnr_tab_id r)),
             (''url'', JStr (bnr_url r)), (''delivery_mode'', JStr delivery_mode)]
       in native_attempt native ''browser_navigate'' args s (\<lambda>v.
         and_then (browser_result_from_value env v) (\<lambda>result.
         and_then (lift_result (navigation_response_is_success (brs_value result) (bnr_target_id r)
             (bnr_tab_id r) (bnr_url r) delivery_mode)) (\<lambda>succeeded.
           lift_result (into_public_navigation_receipt result succeeded))))))"

definition click_checks :: "BrowserClickRequest \<Rightarrow> string ComputerUseResult" where
  "click_checks r =
     and_then (validate_route (bcr_input_route r)) (\<lambda>route.
     and_then (guard (bcr_element_ref r = None \<and> bcr_x r = None)
       (invalid ''browser_click requires ref or x/y coordinates'')) (\<lambda>_.
     and_then (guard ((bcr_x r = None) \<noteq> (bcr_y r = None))
       (invalid ''browser_click coordinates require both x and y'')) (\<lambda>_.
     and_then (guard (route = ''dom_event'' \<and> bcr_element_ref r = None)
       (invalid ''dom_event browser_click requires ref'')) (\<lambda>_. Inr route))))"

definition browser_click ::
  "browser_env \<Rightarrow> native_tool \<Rightarrow> BrowserClickRequest \<Rightarrow> BrowserSession \<Rightarrow> browser_step" where
  "browser_click env native r s =
     checked (require_mutation_target (bcr_target_id r) (bcr_tab_id r) (bcr_snapshot_id r) s) s (\<lambda>_.
     checked (click_checks r) s (\<lambda>route.
       let base = JObj [(''target_id'', JStr (bcr_target_id r)), (''tab_id'', JStr (bcr_tab_id r)),
             (''input_route'', JStr route)];
           args = json_set_opt ''y'' json_f64 (bcr_y r) (json_set_opt ''x'' json_f64 (bcr_x r)
             (json_set_opt ''ref'' JStr (bcr_element_ref r) base))
       in native_attempt native ''browser_click'' args s (browser_result_from_value env)))"

definition browser_type_text ::
  "browser_env \<Rightarrow> native_tool \<Rightarrow> ResolvedBrowserTypeRequest \<Rightarrow> BrowserSession \<Rightarrow> browser_step" where
  "browser_type_text env native r s =
     checked (require_mutation_target (rt_target_id r) (rt_tab_id r) (rt_snapshot_id r) s) s (\<lambda>_.
     checked (type_target_checks (rt_element_ref r) (rt_mode r)) s (\<lambda>mode.
       native_attempt native ''browser_type''
         (JObj [(''target_id'', JStr (rt_target_id r)), (''tab_id'', JStr (rt_tab_id r)),
           (''ref'', JStr (rt_element_ref r)), (''text'', JStr (rt_text r)), (''mode'', JStr mode),
           (''replace'', JBool (rt_replace r))]) s (browser_result_from_value env)))"

definition pointer_checks :: "BrowserPointerRequest \<Rightarrow> string ComputerUseResult" where
  "pointer_checks r =
     and_then (guard (bpt_action r \<notin> {''hover'', ''right_click'', ''double_click'', ''scroll'', ''drag''})
       (invalid ''unsupported browser_pointer action'')) (\<lambda>_.
     and_then (validate_route (bpt_input_route r)) (\<lambda>route.
     and_then (guard (route = ''dom_event'' \<and> bpt_element_ref r = None)
       (invalid ''dom_event browser_pointer requires ref'')) (\<lambda>_.
     and_then (guard (bpt_action r = ''drag'' \<and> bpt_destination_ref r = None)
       (invalid ''browser drag requires destination_ref'')) (\<lambda>_. Inr route))))"

definition browser_pointer ::
  "browser_env \<Rightarrow> native_tool \<Rightarrow> BrowserPointerRequest \<Rightarrow> BrowserSession \<Rightarrow> browser_step" where
  "browser_pointer env native r s =
     checked (require_mutation_target (bpt_target_id r) (bpt_tab_id r) (bpt_snapshot_id r) s) s (\<lambda>_.
     checked (pointer_checks r) s (\<lambda>route.
       let base = JObj [(''target_id'', JStr (bpt_target_id r)), (''tab_id'', JStr (bpt_tab_id r)),
             (''action'', JStr (bpt_action r)), (''input_route'', JStr route)];
           args = fold (\<lambda>(k, v). json_set_opt k json_f64 v)
             [(''delta_x'', bpt_delta_x r), (''delta_y'', bpt_delta_y r), (''x'', bpt_x r), (''y'', bpt_y r)]
             (json_set_opt ''destination_ref'' JStr (bpt_destination_ref r)
               (json_set_opt ''ref'' JStr (bpt_element_ref r) base))
       in native_attempt native ''browser_pointer'' args s (browser_result_from_value env)))"

definition browser_set_input_files ::
  "browser_env \<Rightarrow> native_tool \<Rightarrow> BrowserSetInputFilesRequest \<Rightarrow> BrowserSession \<Rightarrow> browser_step" where
  "browser_set_input_files env native r s =
     checked (require_mutation_target (bif_target_id r) (bif_tab_id r) (bif_snapshot_id r) s) s (\<lambda>_.
     checked (validate_ref (bif_element_ref r) ''browser_set_input_files ref'') s (\<lambda>_.
     checked (validate_upload_paths env (bif_files r)) s (\<lambda>files.
       native_attempt native ''browser_set_input_files''
         (JObj [(''target_id'', JStr (bif_target_id r)), (''tab_id'', JStr (bif_tab_id r)),
           (''ref'', JStr (bif_element_ref r)), (''files'', JArr (map JStr files))]) s
         (browser_result_from_value env))))"

definition browser_download ::
  "browser_env \<Rightarrow> native_tool \<Rightarrow> BrowserDownloadRequest \<Rightarrow> BrowserSession \<Rightarrow> browser_step" where
  "browser_download env native r s =
     checked (require_mutation_target (bdl_target_id r) (bdl_tab_id r) (bdl_snapshot_id r) s) s (\<lambda>_.
     checked (validate_ref (bdl_element_ref r) ''browser_download ref'') s (\<lambda>_.
     checked (validate_destination_root env (bdl_destination_root r)) s (\<lambda>root.
       native_attempt native ''browser_download''
         (JObj [(''target_id'', JStr (bdl_target_id r)), (''tab_id'', JStr (bdl_tab_id r)),
           (''ref'', JStr (bdl_element_ref r)), (''destination_root'', JStr root)]) s (\<lambda>v.
         and_then (browser_result_from_value env v) (\<lambda>result.
           Inr (result\<lparr>brs_value := enrich_download_completion env root (brs_value result)\<rparr>))))))"

definition browser_dialog ::
  "browser_env \<Rightarrow> native_tool \<Rightarrow> BrowserDialogRequest \<Rightarrow> BrowserSession \<Rightarrow> browser_step" where
  "browser_dialog env native r s =
     checked (require_exact_target (bdg_target_id r) s) s (\<lambda>_.
     checked (validate_dialog_request r) s (\<lambda>_.
       let args = json_set_opt ''prompt_text'' JStr (bdg_prompt_text r)
             (json_set_opt ''dialog_id'' JStr (bdg_dialog_id r)
               (JObj [(''target_id'', JStr (bdg_target_id r)), (''tab_id'', JStr (bdg_tab_id r)),
                 (''action'', JStr (bdg_action r)),
                 (''delivery_mode'', JStr (unwrap_or (bdg_delivery_mode r) ''background''))]))
       in native_attempt native ''browser_dialog'' args s (browser_result_from_value env)))"

end
