(* ===== verification/Host_Services.thy ===== *)
theory Host_Services
  imports Authorization_Scope Browser_Operations
begin

text \<open>
  What a request handler works with: the secret vault and the other constructor-owned services
  (\<open>dcc-cua-host/src/secret_vault.rs\<close>), the refusal replies (\<open>request_contract.rs\<close>) and the
  admission of a request to its session (\<open>authorized_session\<close> and
  \<open>ensure_session_not_interrupted\<close> of \<open>lib.rs\<close>, \<open>revalidate_queued_action\<close> of
  \<open>request_handler/session_helpers.rs\<close>).

  Handlers are computations over the session, the states of the services and a log of the calls
  they make. The core session (native input, capture, clipboard, recording) is a parameter that
  answers calls and may change its own state; awaiting the raw input queue lets other connections
  change the state of the authorization host.
\<close>

section \<open>Secrets (secret_vault.rs)\<close>

definition MAX_SECRET_VALUE_CHARS :: nat where "MAX_SECRET_VALUE_CHARS = 4096"

datatype HostSecretVaultError = InvalidHandle | InvalidValue | NotFound | Unavailable

datatype SecretValue = SecretValue (expose: string)

definition secret_value_new :: "string \<Rightarrow> HostSecretVaultError + SecretValue" where
  "secret_value_new value =
     (if value = [] \<or> char_count value > MAX_SECRET_VALUE_CHARS then Inl InvalidValue
      else Inr (SecretValue value))"

definition vault_validate_secret_handle :: "string \<Rightarrow> HostSecretVaultError + unit" where
  "vault_validate_secret_handle handle = guard (\<not> valid_secret_handle handle) InvalidHandle"

record 'v secret_vault =
  v_resolve :: "string \<Rightarrow> 'v \<Rightarrow> (HostSecretVaultError + SecretValue) \<times> 'v"
  v_store :: "string \<Rightarrow> SecretValue \<Rightarrow> 'v \<Rightarrow> (HostSecretVaultError + unit) \<times> 'v"

fun secret_vault_error :: "HostSecretVaultError \<Rightarrow> HostError" where
  "secret_vault_error NotFound =
     CodedProtocol SecretNotFound ''the requested secret handle was not found''"
| "secret_vault_error Unavailable =
     CodedProtocol SecretVaultUnavailable ''the constructor-owned secret vault is unavailable''"
| "secret_vault_error _ =
     CodedProtocol SecretCaptureFailed ''the secret input did not satisfy the bounded vault contract''"

definition extract_clipboard_secret :: "json \<Rightarrow> HostSecretVaultError + SecretValue" where
  "extract_clipboard_secret v =
     (case json_get v ''structuredContent'' of
        Some (JObj fs) \<Rightarrow>
          if Option.bind (map_of fs ''supported'') as_bool \<noteq> Some True
             \<or> Option.bind (map_of fs ''privacy_sensitive'') as_bool \<noteq> Some True
             \<or> Option.bind (map_of fs ''content_redacted_from_telemetry'') as_bool \<noteq> Some True
          then Inl InvalidValue
          else (case map_of fs ''text'' of
                  Some (JStr text) \<Rightarrow> secret_value_new text
                | _ \<Rightarrow> Inl InvalidValue)
      | _ \<Rightarrow> Inl InvalidValue)"

section \<open>The provider transport\<close>

record HostSecurityServices =
  sv_extension_transport_only :: bool
  sv_extension_owner :: "string option"
  sv_extension_window :: "(u32 \<times> u64) option"

definition services_default :: HostSecurityServices where
  "services_default = \<lparr>sv_extension_transport_only = False, sv_extension_owner = None,
     sv_extension_window = None\<rparr>"

definition browser_extension_transport :: HostSecurityServices where
  "browser_extension_transport = services_default\<lparr>sv_extension_transport_only := True\<rparr>"

definition browser_extension_transport_for_window :: "u32 \<Rightarrow> u64 \<Rightarrow> string \<Rightarrow> HostSecurityServices" where
  "browser_extension_transport_for_window pid window owner =
     browser_extension_transport\<lparr>sv_extension_owner := Some owner,
       sv_extension_window := Some (pid, window)\<rparr>"

fun provider_transport_request :: "Request \<Rightarrow> bool" where
  "provider_transport_request (Global (Hello _)) = True"
| "provider_transport_request (Global Ping) = True"
| "provider_transport_request (Global BrowserExtensionTransportBinding) = True"
| "provider_transport_request (Global (RegisterBrowserExtension _ _ _ _)) = True"
| "provider_transport_request (Global (BrowserExtensionNext _ _ _)) = True"
| "provider_transport_request (Global (CompleteBrowserExtension _ _ _)) = True"
| "provider_transport_request (Global (UnregisterBrowserExtension _ _)) = True"
| "provider_transport_request _ = False"

definition require_provider_transport_request ::
  "HostSecurityServices \<Rightarrow> Request \<Rightarrow> HostError + unit" where
  "require_provider_transport_request sv r =
     guard (sv_extension_transport_only sv \<and> \<not> provider_transport_request r)
       (Protocol ''provider transport does not accept session, UI, or authorization requests'')"

section \<open>Refusal replies (request_contract.rs)\<close>

fun confirmation_refusal_texts :: "ActionConfirmationOutcome \<Rightarrow> (string \<times> string) option" where
  "confirmation_refusal_texts Denied =
     Some (''confirmation_denied'', ''the trusted action-time confirmation was denied'')"
| "confirmation_refusal_texts Cancelled =
     Some (''confirmation_cancelled'', ''the trusted action-time confirmation was cancelled'')"
| "confirmation_refusal_texts Required =
     Some (''approval_required'', ''trusted action-time confirmation is required'')"
| "confirmation_refusal_texts ActionConfirmationOutcome.TaskAuthorizationRequired =
     Some (''task_authorization_required'', ''trusted task authorization could not be validated'')"
| "confirmation_refusal_texts TaskAuthorizationOutOfScope =
     Some (''task_authorization_out_of_scope'',
       ''the action or exact target is outside the trusted task authorization'')"
| "confirmation_refusal_texts ActionConfirmationOutcome.TaskAuthorizationExpired =
     Some (''task_authorization_expired'', ''the trusted task authorization has expired'')"
| "confirmation_refusal_texts ActionConfirmationOutcome.TaskAuthorizationRevoked =
     Some (''task_authorization_revoked'', ''the trusted task authorization has been revoked'')"
| "confirmation_refusal_texts Allowed = None"

definition refusal_reply :: "string \<Rightarrow> string \<Rightarrow> string \<Rightarrow> json" where
  "refusal_reply policy_tier code message =
     JObj [(''type'', JStr ''action_completed''), (''success'', JBool False),
       (''policy_tier'', JStr policy_tier), (''message'', JStr message), (''error'', JStr code)]"

text \<open>\<open>None\<close> is the \<open>unreachable!\<close> of an allowed confirmation.\<close>

definition action_confirmation_refusal :: "ActionConfirmationOutcome \<Rightarrow> json option" where
  "action_confirmation_refusal outcome =
     map_option (\<lambda>(code, message). refusal_reply ''action_confirmation'' code message)
       (confirmation_refusal_texts outcome)"

section \<open>The core session as a parameter\<close>

datatype core_call =
    PerformAction ComputerUseAction
  | ClipboardReadCall bool
  | ClipboardWriteCall ComputerUseClipboardWriteRequest
  | TerminateAppCall
  | RecordingStartCall ComputerUseRecordingStartRequest
  | RecordingStopCall
  | RecordingStateCall
  | StartLiveObservationCall ComputerUseLiveObservationStartRequest
  | LiveObservationStateCall
  | StopLiveObservationCall
  | AccessibilitySnapshotCall u32 u32
  | ScreenshotCall u32 u32
  | ScreenshotPixelsOnlyCall
  | SessionStateCall
  | WindowStateCall
  | ResumeCall
  | StopCall
  | BrowserTool string json

text \<open>
  \<open>co_call\<close> answers a call; a screenshot answers the observation id and the accessibility tree,
  and the queries of the live stream cannot fail (\<open>co_live\<close>).
  \<open>co_tool\<close> answers one tool call of the browser adapter and \<open>co_tools_done\<close> is the session after
  those calls; \<open>co_target\<close> is the bound target as preparation reads it.
\<close>

record core_driver =
  co_call :: "core_call \<Rightarrow> ComputerUseSession \<Rightarrow> json ComputerUseResult \<times> ComputerUseSession"
  co_screenshot :: "core_call \<Rightarrow> ComputerUseSession
     \<Rightarrow> (string \<times> json) ComputerUseResult \<times> ComputerUseSession"
  co_live :: "core_call \<Rightarrow> ComputerUseSession \<Rightarrow> json \<times> ComputerUseSession"
  co_tool :: "ComputerUseSession \<Rightarrow> native_tool"
  co_tools_done :: "native_calls \<Rightarrow> ComputerUseSession \<Rightarrow> ComputerUseSession"
  co_target :: "ComputerUseSession \<Rightarrow> json option"
  co_interrupted :: "ComputerUseSession \<Rightarrow> bool"
  co_banner_failure :: "ComputerUseSession \<Rightarrow> (ComputerUseErrorCode \<times> string) option"
  co_refresh_due :: "ComputerUseSession \<Rightarrow> bool"

text \<open>
  The services and readings of one request: \<open>en_world k\<close>, \<open>en_clock k\<close> and \<open>en_uuid k\<close> are what the
  clocks, the authorization host and the UUID generator give at point \<open>k\<close> of the handler.
  \<open>en_await_turn\<close> and \<open>en_async\<close> are what other connections and the user do while the handler
  sleeps; \<open>en_sleeps\<close> counts the sleeps of 50 ms until a post-snapshot delay has passed.
\<close>

record ('st, 'c, 'v) host_env =
  en_externs :: externs
  en_world :: "nat \<Rightarrow> world"
  en_clock :: "nat \<Rightarrow> clock"
  en_uuid :: "nat \<Rightarrow> string"
  en_task_host :: "'st task_authorization_host option"
  en_confirmation_host :: "'c confirmation_host option"
  en_vault :: "'v secret_vault option"
  en_core :: core_driver
  en_browser :: browser_env
  en_await_turn :: "'st \<Rightarrow> 'st"
  en_async :: "nat \<Rightarrow> ComputerUseSession \<Rightarrow> ComputerUseSession"
  en_sleeps :: nat

datatype host_event =
    Revalidated "HostError + unit"
  | Asked TrustedActionConfirmationRequest ActionConfirmationOutcome
  | Native core_call
  | Resolved string
  | Stored string SecretValue

record ('st, 'c, 'v) host_state =
  st_session :: HostSession
  st_task :: 'st
  st_confirm :: 'c
  st_vault :: 'v
  st_log :: "host_event list"

section \<open>Handler computations\<close>

datatype 'a outcome = Done 'a | Failed HostError | Panicking

type_synonym ('a, 's) handler = "'s \<Rightarrow> 'a outcome \<times> 's"

definition give :: "'a \<Rightarrow> ('a, 's) handler" where
  "give v s = (Done v, s)"

definition fail :: "HostError \<Rightarrow> ('a, 's) handler" where
  "fail e s = (Failed e, s)"

definition chain :: "('a, 's) handler \<Rightarrow> ('a \<Rightarrow> ('b, 's) handler) \<Rightarrow> ('b, 's) handler" where
  "chain m k s =
     (case m s of (Done v, s') \<Rightarrow> k v s' | (Failed e, s') \<Rightarrow> (Failed e, s') | (Panicking, s') \<Rightarrow> (Panicking, s'))"

definition check :: "HostError + 'a \<Rightarrow> ('a, 's) handler" where
  "check r s = (case r of Inl e \<Rightarrow> (Failed e, s) | Inr v \<Rightarrow> (Done v, s))"

definition check_core :: "'a ComputerUseResult \<Rightarrow> ('a, 's) handler" where
  "check_core r = check (to_host_error r)"

definition unwrap :: "'a option \<Rightarrow> ('a, 's) handler" where
  "unwrap r s = (case r of None \<Rightarrow> (Panicking, s) | Some v \<Rightarrow> (Done v, s))"

definition observe_session :: "(HostSession, ('st, 'c, 'v) host_state) handler" where
  "observe_session s = (Done (st_session s), s)"

definition update_session :: "(HostSession \<Rightarrow> HostSession) \<Rightarrow> (unit, ('st, 'c, 'v) host_state) handler" where
  "update_session f s = (Done (), s\<lparr>st_session := f (st_session s)\<rparr>)"

definition log_event :: "host_event \<Rightarrow> ('st, 'c, 'v) host_state \<Rightarrow> ('st, 'c, 'v) host_state" where
  "log_event e s = s\<lparr>st_log := st_log s @ [e]\<rparr>"

text \<open>A call of the core session; its answer does not end the handler.\<close>

definition core_call ::
  "core_driver \<Rightarrow> core_call \<Rightarrow> (json ComputerUseResult, ('st, 'c, 'v) host_state) handler" where
  "core_call core c s =
     (let (r, cs) = co_call core c (hs_session (st_session s)) in
      (Done r, log_event (Native c) (s\<lparr>st_session := (st_session s)\<lparr>hs_session := cs\<rparr>\<rparr>)))"

definition core_screenshot ::
  "core_driver \<Rightarrow> core_call \<Rightarrow> ((string \<times> json) ComputerUseResult, ('st, 'c, 'v) host_state) handler" where
  "core_screenshot core c s =
     (let (r, cs) = co_screenshot core c (hs_session (st_session s)) in
      (Done r, log_event (Native c) (s\<lparr>st_session := (st_session s)\<lparr>hs_session := cs\<rparr>\<rparr>)))"

definition core_live :: "core_driver \<Rightarrow> core_call \<Rightarrow> (json, ('st, 'c, 'v) host_state) handler" where
  "core_live core c s =
     (let (v, cs) = co_live core c (hs_session (st_session s)) in
      (Done v, log_event (Native c) (s\<lparr>st_session := (st_session s)\<lparr>hs_session := cs\<rparr>\<rparr>)))"

definition finish_attempt ::
  "world \<Rightarrow> 'a ComputerUseResult \<Rightarrow> ('a ComputerUseResult, ('st, 'c, 'v) host_state) handler" where
  "finish_attempt w r s =
     (case finish_observation_sensitive_attempt w r (st_session s) of
        None \<Rightarrow> (Panicking, s) | Some h \<Rightarrow> (Done r, s\<lparr>st_session := h\<rparr>))"

section \<open>Admission to a session\<close>

fun debug_code :: "ComputerUseErrorCode \<Rightarrow> string" where
  "debug_code BackendUnavailable = ''BackendUnavailable''"
| "debug_code OverlayExclusionUnavailable = ''OverlayExclusionUnavailable''"
| "debug_code NoAccessibilityProvider = ''NoAccessibilityProvider''"
| "debug_code BrowserRefused = ''BrowserRefused''"
| "debug_code ClipboardRefused = ''ClipboardRefused''"
| "debug_code RecordingRefused = ''RecordingRefused''"
| "debug_code MissingWindow = ''MissingWindow''"
| "debug_code InvalidTarget = ''InvalidTarget''"
| "debug_code TargetMinimized = ''TargetMinimized''"
| "debug_code TargetUnavailable = ''TargetUnavailable''"
| "debug_code TargetModalChanged = ''TargetModalChanged''"
| "debug_code StaleObservation = ''StaleObservation''"
| "debug_code UserInterrupted = ''UserInterrupted''"
| "debug_code InvalidAction = ''InvalidAction''"
| "debug_code InteractiveDesktopUnavailable = ''InteractiveDesktopUnavailable''"
| "debug_code InputFailed = ''InputFailed''"
| "debug_code SessionRefreshRequired = ''SessionRefreshRequired''"
| "debug_code CompletionUnknown = ''CompletionUnknown''"
| "debug_code CaptureFailed = ''CaptureFailed''"
| "debug_code ForegroundActivationRefused = ''ForegroundActivationRefused''"

definition cleanup_note :: "'a ComputerUseResult \<Rightarrow> string" where
  "cleanup_note r =
     (case r of Inr _ \<Rightarrow> []
      | Inl (code, message) \<Rightarrow> ''; CUA cleanup also failed: '' @ debug_code code @ '': '' @ message)"

definition stopped_banner_failure :: "ComputerUseErrorCode \<times> string \<Rightarrow> string \<Rightarrow> HostError" where
  "stopped_banner_failure failure note =
     ComputerUse (fst failure)
       (''the visible control banner failed and the session was stopped: '' @ snd failure @ note)"

definition ensure_session_not_interrupted ::
  "core_driver \<Rightarrow> (unit, ('st, 'c, 'v) host_state) handler" where
  "ensure_session_not_interrupted core =
     chain observe_session (\<lambda>h.
       if hs_interrupted h
       then fail (ComputerUse UserInterrupted
         ''Escape or a shared Host stop interrupted this session; the session is stopped'')
       else if co_interrupted core (hs_session h)
       then chain (core_call core StopCall) (\<lambda>stopped.
            chain (update_session (\<lambda>h. h\<lparr>hs_interrupted := True\<rparr>)) (\<lambda>_.
              fail (ComputerUse UserInterrupted
                (''Escape, the safety banner, or a shared Host stop interrupted this session; the session was stopped''
                 @ cleanup_note stopped))))
       else case co_banner_failure core (hs_session h) of
         Some failure \<Rightarrow> chain (core_call core StopCall) (\<lambda>stopped.
           fail (stopped_banner_failure failure (cleanup_note stopped)))
       | None \<Rightarrow> give ())"

definition revalidate_lease ::
  "('st, 'c, 'v) host_env \<Rightarrow> nat \<Rightarrow> (unit, ('st, 'c, 'v) host_state) handler" where
  "revalidate_lease env k s =
     (let (r, st) = validate_active_task_authorization (en_externs env) (en_task_host env)
            (en_uuid env k) (en_world env k) (en_clock env k)
            (hs_task_authorization (st_session s)) (st_task s)
      in check r (log_event (Revalidated r) (s\<lparr>st_task := st\<rparr>)))"

text \<open>\<open>authorized_session\<close>, once \<open>session_with_capability\<close> has found the session.\<close>

definition authorized_session ::
  "('st, 'c, 'v) host_env \<Rightarrow> (unit, ('st, 'c, 'v) host_state) handler" where
  "authorized_session env =
     chain observe_session (\<lambda>h.
       if is_idle_expired (en_world env 0) h
       then chain (core_call (en_core env) StopCall) (\<lambda>_.
            chain (update_session (\<lambda>h. invalidate_observations (h\<lparr>hs_interrupted := True\<rparr>))) (\<lambda>_.
              fail (ComputerUse SessionRefreshRequired
                ''session idle timeout expired; open a new logical-task session'')))
       else chain (revalidate_lease env 1) (\<lambda>_.
            chain (ensure_session_not_interrupted (en_core env)) (\<lambda>_.
              update_session (mark_activity (en_world env 2)))))"

definition revalidate_queued_window_mutation ::
  "('st, 'c, 'v) host_env \<Rightarrow> (unit, ('st, 'c, 'v) host_state) handler" where
  "revalidate_queued_window_mutation env =
     chain (ensure_session_not_interrupted (en_core env)) (\<lambda>_. revalidate_lease env 5)"

definition revalidate_queued_action ::
  "('st, 'c, 'v) host_env \<Rightarrow> (unit, ('st, 'c, 'v) host_state) handler" where
  "revalidate_queued_action env =
     chain observe_session (\<lambda>h.
       if hs_observation_mode h = PixelsOnly \<or> hs_task_authorization h \<noteq> None
       then revalidate_queued_window_mutation env else give ())"

definition acquire_raw_input_turn ::
  "('st, 'c, 'v) host_env \<Rightarrow> bool \<Rightarrow> (unit, ('st, 'c, 'v) host_state) handler" where
  "acquire_raw_input_turn env enabled s =
     (Done (), if enabled
               then s\<lparr>st_session := (st_session s)\<lparr>hs_session := en_async env 0 (hs_session (st_session s))\<rparr>,
                      st_task := en_await_turn env (st_task s)\<rparr>
               else s)"

definition ask_confirmation ::
  "('st, 'c, 'v) host_env \<Rightarrow> TrustedActionConfirmationRequest
   \<Rightarrow> (ActionConfirmationOutcome, ('st, 'c, 'v) host_state) handler" where
  "ask_confirmation env request s =
     (let h = st_session s;
          (out, st, c) = authorize_window_confirmation (en_externs env) (en_task_host env)
            (en_confirmation_host env) (en_uuid env 4) (en_world env 4) (en_clock env 4)
            (hs_task_authorization h) (hs_allow_trusted_confirmation h) request (st_task s, st_confirm s)
      in (Done out, log_event (Asked request out) (s\<lparr>st_task := st, st_confirm := c\<rparr>)))"

definition require_secret_vault :: "('st, 'c, 'v) host_env \<Rightarrow> HostError + 'v secret_vault" where
  "require_secret_vault env =
     (case en_vault env of None \<Rightarrow> Inl (secret_vault_error Unavailable) | Some v \<Rightarrow> Inr v)"

definition vault_resolve ::
  "('st, 'c, 'v) host_env \<Rightarrow> string \<Rightarrow> (SecretValue, ('st, 'c, 'v) host_state) handler" where
  "vault_resolve env handle =
     chain (check (require_secret_vault env)) (\<lambda>vault s.
       let (r, v) = v_resolve vault handle (st_vault s) in
       check (map_err secret_vault_error r) (log_event (Resolved handle) (s\<lparr>st_vault := v\<rparr>)))"

definition vault_store ::
  "'v secret_vault \<Rightarrow> string \<Rightarrow> SecretValue \<Rightarrow> (unit, ('st, 'c, 'v) host_state) handler" where
  "vault_store vault handle secret s =
     (let (r, v) = v_store vault handle secret (st_vault s) in
      check (map_err secret_vault_error r) (log_event (Stored handle secret) (s\<lparr>st_vault := v\<rparr>)))"

end
