(* ===== verification/Request_Handler.thy ===== *)
theory Request_Handler
  imports Host_Services
begin

text \<open>
  Request handlers of a bound window session (\<open>dcc-cua-host/src/request_handler.rs\<close> with
  \<open>session_helpers.rs\<close>, \<open>confirmation_evidence.rs\<close> and the secret operations of
  \<open>secret_vault.rs\<close>): clipboard, recording, live observation and application requests, the
  browser requests, and \<open>execute_action\<close> with its confirmation, evidence refresh, secret
  resolution, queueing and post-action snapshot. Replies keep their JSON body; the transport of
  images is not modelled.
\<close>

section \<open>Replies\<close>

datatype post_snapshot =
    NoPostSnapshot
  | PostSnapshotFailed string string
  | SemanticPost string json
  | FullPost string json

datatype handler_reply =
    Reply json
  | BrowserReply string BrowserResult
  | ActionReply string json post_snapshot

definition session_reply :: "string \<Rightarrow> string \<Rightarrow> json \<Rightarrow> handler_reply" where
  "session_reply kind session_id result =
     Reply (JObj [(''type'', JStr kind), (''session_id'', JStr session_id), (''result'', result)])"

definition not_granted :: "HostProtocolErrorCode \<Rightarrow> string \<Rightarrow> HostError" where
  "not_granted code capability = CodedProtocol code (capability @ '' is not granted'')"

definition require_grant :: "bool \<Rightarrow> HostProtocolErrorCode \<Rightarrow> string \<Rightarrow> (unit, 's) handler" where
  "require_grant granted code capability = check (guard (\<not> granted) (not_granted code capability))"

section \<open>Clipboard, recording, live observation\<close>

text \<open>Admission, a grant bit, one core call and its evidence bookkeeping.\<close>

definition granted_core_call ::
  "('st, 'c, 'v) host_env \<Rightarrow> (HostSession \<Rightarrow> HostError + unit) \<Rightarrow> core_call
   \<Rightarrow> (json, ('st, 'c, 'v) host_state) handler" where
  "granted_core_call env grant c =
     chain (authorized_session env) (\<lambda>_.
     chain observe_session (\<lambda>h.
     chain (check (grant h)) (\<lambda>_.
     chain (core_call (en_core env) c) (\<lambda>r.
     chain (finish_attempt (en_world env 6) r) (\<lambda>r. check_core r)))))"

abbreviation granted_bit ::
  "(HostSession \<Rightarrow> bool) \<Rightarrow> HostProtocolErrorCode \<Rightarrow> string \<Rightarrow> HostSession \<Rightarrow> HostError + unit" where
  "granted_bit allowed code capability h \<equiv> guard (\<not> allowed h) (not_granted code capability)"

definition clipboard_read ::
  "('st, 'c, 'v) host_env \<Rightarrow> string \<Rightarrow> bool \<Rightarrow> (handler_reply, ('st, 'c, 'v) host_state) handler" where
  "clipboard_read env session_id include_text =
     chain (granted_core_call env
       (granted_bit hs_allow_clipboard_read ClipboardReadNotGranted ''clipboard read'')
       (ClipboardReadCall include_text)) (\<lambda>result. give (session_reply ''clipboard_read'' session_id result))"

definition clipboard_write ::
  "('st, 'c, 'v) host_env \<Rightarrow> string \<Rightarrow> ComputerUseClipboardWriteRequest
   \<Rightarrow> (handler_reply, ('st, 'c, 'v) host_state) handler" where
  "clipboard_write env session_id write =
     chain (granted_core_call env
       (granted_bit hs_allow_clipboard_write ClipboardWriteNotGranted ''clipboard write'')
       (ClipboardWriteCall write)) (\<lambda>result. give (session_reply ''clipboard_written'' session_id result))"

definition terminate_app ::
  "('st, 'c, 'v) host_env \<Rightarrow> string \<Rightarrow> (handler_reply, ('st, 'c, 'v) host_state) handler" where
  "terminate_app env session_id =
     chain (granted_core_call env
       (granted_bit hs_allow_app_terminate AppTerminateNotGranted ''application termination'')
       TerminateAppCall) (\<lambda>result. give (session_reply ''app_terminated'' session_id result))"

definition recording_request ::
  "('st, 'c, 'v) host_env \<Rightarrow> string \<Rightarrow> string \<Rightarrow> core_call
   \<Rightarrow> (handler_reply, ('st, 'c, 'v) host_state) handler" where
  "recording_request env kind session_id c =
     chain (granted_core_call env
       (granted_bit hs_allow_recording RecordingNotGranted ''recording'') c)
       (\<lambda>result. give (session_reply kind session_id result))"

definition live_observation_granted :: "HostSession \<Rightarrow> HostError + unit" where
  "live_observation_granted h =
     guard (\<not> hs_allow_live_observation h) (Protocol ''live observation is not granted'')"

definition live_observation_start ::
  "('st, 'c, 'v) host_env \<Rightarrow> string \<Rightarrow> ComputerUseLiveObservationStartRequest
   \<Rightarrow> (handler_reply, ('st, 'c, 'v) host_state) handler" where
  "live_observation_start env session_id request =
     chain (granted_core_call env live_observation_granted (StartLiveObservationCall request)) (\<lambda>result.
     chain (update_session invalidate_observations) (\<lambda>_.
       give (session_reply ''live_observation_started'' session_id result)))"

text \<open>\<open>live_observation_state\<close> and \<open>stop_live_observation\<close> do not fail.\<close>

definition live_observation_query ::
  "('st, 'c, 'v) host_env \<Rightarrow> core_call \<Rightarrow> (json, ('st, 'c, 'v) host_state) handler" where
  "live_observation_query env c =
     chain (authorized_session env) (\<lambda>_.
     chain observe_session (\<lambda>h.
     chain (check (live_observation_granted h)) (\<lambda>_. core_live (en_core env) c)))"

definition live_observation_state ::
  "('st, 'c, 'v) host_env \<Rightarrow> string \<Rightarrow> (handler_reply, ('st, 'c, 'v) host_state) handler" where
  "live_observation_state env session_id =
     chain (live_observation_query env LiveObservationStateCall) (\<lambda>r.
       give (session_reply ''live_observation_state'' session_id r))"

definition live_observation_stop ::
  "('st, 'c, 'v) host_env \<Rightarrow> string \<Rightarrow> (handler_reply, ('st, 'c, 'v) host_state) handler" where
  "live_observation_stop env session_id =
     chain (live_observation_query env StopLiveObservationCall) (\<lambda>r.
     chain (update_session invalidate_observations) (\<lambda>_.
       give (session_reply ''live_observation_stopped'' session_id r)))"

definition get_session_state ::
  "('st, 'c, 'v) host_env \<Rightarrow> string \<Rightarrow> (handler_reply, ('st, 'c, 'v) host_state) handler" where
  "get_session_state env session_id =
     chain (granted_core_call env (\<lambda>_. Inr ()) SessionStateCall) (\<lambda>state.
       give (Reply (JObj [(''type'', JStr ''session_state''), (''session_id'', JStr session_id),
         (''state'', state)])))"

definition resume_session ::
  "('st, 'c, 'v) host_env \<Rightarrow> string \<Rightarrow> (handler_reply, ('st, 'c, 'v) host_state) handler" where
  "resume_session env session_id =
     chain (authorized_session env) (\<lambda>_.
     chain (core_call (en_core env) ResumeCall) (\<lambda>r.
     chain (check_core r) (\<lambda>_.
       give (Reply (JObj [(''type'', JStr ''session_resumed''), (''session_id'', JStr session_id)])))))"

section \<open>Secrets of a session (secret_vault.rs)\<close>

definition confirmation_binding ::
  "CapturePreparationBindings \<Rightarrow> HostSession \<Rightarrow> string \<Rightarrow> string option \<Rightarrow> ConfirmationBinding" where
  "confirmation_binding b h observation_id accessibility_state_id =
     confirmation_binding_window (wb_session_id b) (wb_task_grant_id b) (wb_window_capability b)
       \<lparr>cw_process_id = hs_target_process_id h, cw_window_handle = hs_target_window_handle h\<rparr>
       observation_id accessibility_state_id"

definition request_confirmation ::
  "('st, 'c, 'v) host_env \<Rightarrow> ConfirmationBinding \<Rightarrow> string \<Rightarrow> json
   \<Rightarrow> (ActionConfirmationOutcome, ('st, 'c, 'v) host_state) handler" where
  "request_confirmation env binding intent action =
     chain (check (confirmation_new_value (en_externs env) (en_uuid env 3) binding intent action))
       (ask_confirmation env)"

definition json_browser_type_request :: "BrowserTypeRequest \<Rightarrow> json" where
  "json_browser_type_request r = JObj
     ([(''mode'', json_opt JStr (btr_mode r)), (''ref'', JStr (btr_element_ref r)),
       (''replace'', JBool (btr_replace r))]
      @ (case btr_secret_handle r of None \<Rightarrow> [] | Some v \<Rightarrow> [(''secret_handle'', JStr v)])
      @ [(''snapshot_id'', JStr (btr_snapshot_id r)), (''tab_id'', JStr (btr_tab_id r)),
         (''target_id'', JStr (btr_target_id r))]
      @ (case btr_text r of None \<Rightarrow> [] | Some v \<Rightarrow> [(''text'', JStr v)]))"

definition resolve_browser_type_request ::
  "('st, 'c, 'v) host_env \<Rightarrow> CapturePreparationBindings \<Rightarrow> BrowserTypeRequest
   \<Rightarrow> (json + ResolvedBrowserTypeRequest, ('st, 'c, 'v) host_state) handler" where
  "resolve_browser_type_request env b r =
     chain observe_session (\<lambda>h.
     chain (check_core (validate_type_request r (hs_browser h))) (\<lambda>_.
       case btr_secret_handle r of
         None \<Rightarrow> chain (check_core (type_resolve r None)) (\<lambda>q. give (Inr q))
       | Some handle \<Rightarrow>
         chain (request_confirmation env
           (confirmation_binding b h (btr_snapshot_id r) (Some (btr_tab_id r))) ''credential_input''
           (JObj [(''browser_origin'', json_opt JStr (bw_latest_origin (hs_browser h))),
             (''method'', JStr ''browser_type''), (''request'', json_browser_type_request r)])) (\<lambda>outcome.
         if outcome \<noteq> Allowed
         then chain (unwrap (action_confirmation_refusal outcome)) (\<lambda>reply. give (Inl reply))
         else chain (vault_resolve env handle) (\<lambda>secret.
              chain (check_core (type_resolve r (Some (expose secret)))) (\<lambda>q. give (Inr q))))))"

definition clipboard_secret_checks :: "HostSession \<Rightarrow> string \<Rightarrow> string \<Rightarrow> HostError + unit" where
  "clipboard_secret_checks h observation_id secret_handle =
     and_then (map_err secret_vault_error (vault_validate_secret_handle secret_handle)) (\<lambda>_.
     and_then (guard (\<not> hs_allow_clipboard_read h)
       (not_granted ClipboardReadNotGranted ''clipboard read'')) (\<lambda>_.
     and_then (guard (\<not> hs_allow_clipboard_write h)
       (not_granted ClipboardWriteNotGranted ''clipboard write'')) (\<lambda>_.
       guard (hs_latest_observation_id h \<noteq> Some observation_id)
         (ComputerUse StaleObservation
           ''clipboard secret capture requires the latest exact-window observation''))))"

definition clear_clipboard_request :: ComputerUseClipboardWriteRequest where
  "clear_clipboard_request = \<lparr>cl_text = Some [], cl_image_path = None, cl_file_path = None\<rparr>"

definition captured_reply :: "string \<Rightarrow> string \<Rightarrow> bool \<Rightarrow> json" where
  "captured_reply session_id secret_handle cleared =
     JObj [(''type'', JStr ''clipboard_secret_captured''), (''session_id'', JStr session_id),
       (''secret_handle'', JStr secret_handle), (''clipboard_cleared'', JBool cleared)]"

text \<open>The part of \<open>capture_clipboard_secret\<close> after an allowed confirmation.\<close>

definition store_clipboard_secret ::
  "('st, 'c, 'v) host_env \<Rightarrow> string \<Rightarrow> string \<Rightarrow> (json, ('st, 'c, 'v) host_state) handler" where
  "store_clipboard_secret env session_id secret_handle =
     chain (check (require_secret_vault env)) (\<lambda>vault.
     chain (core_call (en_core env) (ClipboardReadCall True)) (\<lambda>r.
     chain (finish_attempt (en_world env 6) r) (\<lambda>r.
     chain (check_core r) (\<lambda>value.
     chain (check (map_err secret_vault_error (extract_clipboard_secret value))) (\<lambda>secret.
     chain (vault_store vault secret_handle secret) (\<lambda>_.
     chain (core_call (en_core env) (ClipboardWriteCall clear_clipboard_request)) (\<lambda>cleared.
     chain (finish_attempt (en_world env 7) cleared) (\<lambda>cleared.
       give (captured_reply session_id secret_handle (is_ok cleared))))))))))"

definition capture_clipboard_secret ::
  "('st, 'c, 'v) host_env \<Rightarrow> CapturePreparationBindings \<Rightarrow> string \<Rightarrow> string
   \<Rightarrow> (json, ('st, 'c, 'v) host_state) handler" where
  "capture_clipboard_secret env b observation_id secret_handle =
     chain observe_session (\<lambda>h.
     chain (check (clipboard_secret_checks h observation_id secret_handle)) (\<lambda>_.
     chain (request_confirmation env
       (confirmation_binding b h observation_id (hs_latest_accessibility_state_id h)) ''credential_capture''
       (JObj [(''action'', JStr ''clipboard_capture_secret''),
         (''clear_clipboard_after_store'', JBool True), (''secret_handle'', JStr secret_handle)])) (\<lambda>outcome.
       if outcome \<noteq> Allowed then unwrap (action_confirmation_refusal outcome)
       else store_clipboard_secret env (wb_session_id b) secret_handle)))"

definition clipboard_capture_secret ::
  "('st, 'c, 'v) host_env \<Rightarrow> CapturePreparationBindings \<Rightarrow> string \<Rightarrow> string
   \<Rightarrow> (handler_reply, ('st, 'c, 'v) host_state) handler" where
  "clipboard_capture_secret env b observation_id secret_handle =
     chain (authorized_session env) (\<lambda>_.
     chain (capture_clipboard_secret env b observation_id secret_handle) (\<lambda>reply. give (Reply reply)))"

section \<open>Browser requests\<close>

text \<open>
  An operation of the browser adapter runs its tool calls through the core session; a panic of the
  adapter is a panic of the handler.
\<close>

definition run_browser ::
  "core_driver \<Rightarrow> (native_tool \<Rightarrow> BrowserSession \<Rightarrow> browser_step)
   \<Rightarrow> (BrowserResult ComputerUseResult, ('st, 'c, 'v) host_state) handler" where
  "run_browser core operation s =
     (let h = st_session s;
          (calls, out, browser) = operation (co_tool core (hs_session h)) (hs_browser h);
          s' = s\<lparr>st_session := h\<lparr>hs_browser := browser, hs_session := co_tools_done core calls (hs_session h)\<rparr>,
                 st_log := st_log s @ map (\<lambda>(tool, args). Native (BrowserTool tool args)) calls\<rparr>
      in case out of
           Inl Panicked \<Rightarrow> (Panicking, s')
         | Inl (Refused code message) \<Rightarrow> (Done (Inl (code, message)), s')
         | Inr v \<Rightarrow> (Done (Inr v), s'))"

definition finish_browser ::
  "('st, 'c, 'v) host_env \<Rightarrow> string \<Rightarrow> BrowserResult ComputerUseResult
   \<Rightarrow> (handler_reply, ('st, 'c, 'v) host_state) handler" where
  "finish_browser env kind r =
     chain (finish_attempt (en_world env 6) r) (\<lambda>r.
     chain (check_core r) (\<lambda>v. give (BrowserReply kind v)))"

definition browser_input_granted :: "HostSession \<Rightarrow> HostError + unit" where
  "browser_input_granted h = granted_bit hs_allow_browser_input BrowserInputNotGranted ''browser input'' h"

definition require_current_evidence :: "(unit, ('st, 'c, 'v) host_state) handler" where
  "require_current_evidence s =
     (let (r, h) = require_current_browser_evidence_epoch (st_session s) in
      check_core r (s\<lparr>st_session := h\<rparr>))"

text \<open>The checks a page mutation passes before the adapter runs.\<close>

definition admit_page_mutation ::
  "('st, 'c, 'v) host_env \<Rightarrow> (HostSession \<Rightarrow> HostError + unit) \<Rightarrow> (unit, ('st, 'c, 'v) host_state) handler" where
  "admit_page_mutation env grant =
     chain (authorized_session env) (\<lambda>_.
     chain observe_session (\<lambda>h.
     chain (check (grant h)) (\<lambda>_.
     chain require_current_evidence (\<lambda>_.
     chain observe_session (\<lambda>h. check (require_current_allowed_browser_origin h))))))"

definition page_mutation ::
  "('st, 'c, 'v) host_env \<Rightarrow> string \<Rightarrow> (HostSession \<Rightarrow> HostError + unit)
   \<Rightarrow> (native_tool \<Rightarrow> BrowserSession \<Rightarrow> browser_step) \<Rightarrow> (handler_reply, ('st, 'c, 'v) host_state) handler" where
  "page_mutation env kind grant operation =
     chain (admit_page_mutation env grant) (\<lambda>_.
     chain (run_browser (en_core env) operation) (finish_browser env kind))"

definition exact_http_origin :: "externs \<Rightarrow> string \<Rightarrow> HostError + string" where
  "exact_http_origin x value =
     (case url_parse x value of
        None \<Rightarrow> Inl (Protocol ''browser URL must be absolute'')
      | Some u \<Rightarrow>
        if scheme u \<notin> {''http'', ''https''}
        then Inl (Protocol ''authorized browser navigation requires an HTTP(S) URL'')
        else Inr (ascii_origin u))"

definition handle_browser_snapshot ::
  "('st, 'c, 'v) host_env \<Rightarrow> BrowserSnapshotRequest \<Rightarrow> (handler_reply, ('st, 'c, 'v) host_state) handler" where
  "handle_browser_snapshot env r =
     chain (authorized_session env) (\<lambda>_.
     chain (run_browser (en_core env) (\<lambda>native. browser_snapshot (en_browser env) native r)) (\<lambda>result.
     chain (\<lambda>s. case finish_browser_snapshot_attempt (en_world env 6) result
                   (case result of Inr v \<Rightarrow> publishes_snapshot_evidence v | Inl _ \<Rightarrow> False) (st_session s) of
                 None \<Rightarrow> (Panicking, s) | Some (out, h) \<Rightarrow> check out (s\<lparr>st_session := h\<rparr>)) (\<lambda>v.
       give (BrowserReply ''browser_snapshot'' v))))"

definition handle_browser_prepare ::
  "('st, 'c, 'v) host_env \<Rightarrow> BrowserPrepareRequest \<Rightarrow> (handler_reply, ('st, 'c, 'v) host_state) handler" where
  "handle_browser_prepare env r =
     chain (authorized_session env) (\<lambda>_.
     chain observe_session (\<lambda>h.
     chain (require_grant (hs_allow_browser_prepare h) BrowserPrepareNotGranted ''browser preparation'') (\<lambda>_.
     chain (run_browser (en_core env) (\<lambda>native.
        browser_prepare (en_browser env) native (co_target (en_core env) (hs_session h)) r))
       (finish_browser env ''browser_prepared''))))"

definition handle_browser_navigate ::
  "('st, 'c, 'v) host_env \<Rightarrow> BrowserNavigateRequest \<Rightarrow> (handler_reply, ('st, 'c, 'v) host_state) handler" where
  "handle_browser_navigate env r =
     chain (authorized_session env) (\<lambda>_.
     chain observe_session (\<lambda>h.
     chain (check (browser_input_granted h)) (\<lambda>_.
     chain (check (exact_http_origin (en_externs env) (bnr_url r))) (\<lambda>origin.
     chain (check (require_allowed_browser_origin h origin)) (\<lambda>_.
     chain (run_browser (en_core env) (\<lambda>native. browser_navigate (en_browser env) native r))
       (finish_browser env ''browser_navigated''))))))"

definition handle_browser_type ::
  "('st, 'c, 'v) host_env \<Rightarrow> CapturePreparationBindings \<Rightarrow> BrowserTypeRequest
   \<Rightarrow> (handler_reply, ('st, 'c, 'v) host_state) handler" where
  "handle_browser_type env b r =
     chain (admit_page_mutation env browser_input_granted) (\<lambda>_.
     chain (resolve_browser_type_request env b r) (\<lambda>resolution.
       case resolution of Inl reply \<Rightarrow> give (Reply reply)
       | Inr q \<Rightarrow>
         chain (run_browser (en_core env) (\<lambda>native. browser_type_text (en_browser env) native q))
           (finish_browser env ''browser_typed'')))"

definition handle_browser_dialog ::
  "('st, 'c, 'v) host_env \<Rightarrow> BrowserDialogRequest \<Rightarrow> (handler_reply, ('st, 'c, 'v) host_state) handler" where
  "handle_browser_dialog env r =
     chain (authorized_session env) (\<lambda>_.
     chain observe_session (\<lambda>h.
     chain (check (browser_input_granted h)) (\<lambda>_.
     chain (check (require_current_allowed_browser_origin h)) (\<lambda>_.
     chain (run_browser (en_core env) (\<lambda>native. browser_dialog (en_browser env) native r))
       (finish_browser env ''browser_dialog_completed'')))))"

definition browser_download_granted :: "HostSession \<Rightarrow> HostError + unit" where
  "browser_download_granted h =
     granted_bit hs_allow_browser_download BrowserDownloadNotGranted ''browser download'' h"

fun handle_browser ::
  "('st, 'c, 'v) host_env \<Rightarrow> CapturePreparationBindings \<Rightarrow> BrowserRequest
   \<Rightarrow> (handler_reply, ('st, 'c, 'v) host_state) handler" where
  "handle_browser env b (BrowserSnapshot r) = handle_browser_snapshot env r"
| "handle_browser env b (BrowserPrepare r) = handle_browser_prepare env r"
| "handle_browser env b (BrowserNavigate r) = handle_browser_navigate env r"
| "handle_browser env b (BrowserClick r) = page_mutation env ''browser_clicked'' browser_input_granted
     (\<lambda>native. browser_click (en_browser env) native r)"
| "handle_browser env b (BrowserType r) = handle_browser_type env b r"
| "handle_browser env b (BrowserPointer r) =
     page_mutation env ''browser_pointer_completed'' browser_input_granted
     (\<lambda>native. browser_pointer (en_browser env) native r)"
| "handle_browser env b (BrowserSetInputFiles r) =
     page_mutation env ''browser_files_uploaded'' browser_input_granted
     (\<lambda>native. browser_set_input_files (en_browser env) native r)"
| "handle_browser env b (BrowserDownload r) =
     page_mutation env ''browser_downloaded'' browser_download_granted
     (\<lambda>native. browser_download (en_browser env) native r)"
| "handle_browser env b (BrowserDialog r) = handle_browser_dialog env r"

section \<open>Executing an action\<close>

definition MAX_POST_SNAPSHOT_DELAY_MS :: u64 where "MAX_POST_SNAPSHOT_DELAY_MS = 5000"

definition post_snapshot_delay :: "bool \<Rightarrow> u64 \<Rightarrow> HostError + u64" where
  "post_snapshot_delay capture_after delay_ms =
     (if delay_ms > MAX_POST_SNAPSHOT_DELAY_MS
      then Inl (ComputerUse InvalidAction
        (''post_snapshot_delay_ms must be at most '' @ show_nat (unat MAX_POST_SNAPSHOT_DELAY_MS)))
      else if \<not> capture_after \<and> delay_ms \<noteq> 0
      then Inl (ComputerUse InvalidAction ''post_snapshot_delay_ms requires capture_after'')
      else Inr delay_ms)"

definition validate_post_snapshot_mode :: "bool \<Rightarrow> PostSnapshotMode \<Rightarrow> HostError + unit" where
  "validate_post_snapshot_mode capture_after mode =
     guard (\<not> capture_after \<and> mode \<noteq> FullSnapshot)
       (ComputerUse InvalidAction ''post_snapshot_mode requires capture_after'')"

definition require_keyboard_raw_input_grant :: "HostAction \<Rightarrow> bool \<Rightarrow> HostError + unit" where
  "require_keyboard_raw_input_grant a allow_raw_input =
     guard (uses_physical_keyboard a \<and> \<not> allow_raw_input) (not_granted RawInputNotGranted ''raw input'')"

text \<open>What is checked against the admitted session before the policy is consulted.\<close>

definition action_checks ::
  "CapturePreparationBindings \<Rightarrow> ExecuteActionParams \<Rightarrow> HostSession \<Rightarrow> HostError + unit" where
  "action_checks b p h =
     (let a = ea_action p in
      and_then (guard (ha_input_kind a = ''raw_input'' \<and> \<not> hs_allow_raw_input h)
        (not_granted RawInputNotGranted ''raw input'')) (\<lambda>_.
      and_then (to_host_error (validate_secret_source a)) (\<lambda>_.
      and_then (if hs_observation_mode h = PixelsOnly
                then and_then (require_pixels_input_grant h (wb_session_id b) a) (\<lambda>_.
                  guard (ea_capture_after p \<and> ea_post_snapshot_mode p = SemanticSnapshot)
                    (ComputerUse InvalidAction
                      ''pixels_only input cannot request a semantic post-action observation''))
                else Inr ()) (\<lambda>_.
      and_then (require_latest_observation h (ea_observation_id p)) (\<lambda>_.
        guard ((ha_element_index a \<noteq> None \<or> ha_element_token a \<noteq> None)
               \<and> hs_latest_accessibility_state_id h \<noteq> Some (ea_accessibility_state_id p))
          (ComputerUse StaleObservation
            ''semantic action requires the latest accessibility_state_id''))))))"

definition json_i32 :: "i32 \<Rightarrow> json" where
  "json_i32 n = JNum (if 0 \<le> sint n then PosInt (ucast n) else NegInt (sint n))"

definition json_point :: "ComputerUsePoint \<Rightarrow> json" where
  "json_point p = JObj [(''x'', json_f64 (pt_x p)), (''y'', json_f64 (pt_y p))]"

definition json_field_opt :: "string \<Rightarrow> string option \<Rightarrow> (string \<times> json) list" where
  "json_field_opt k v = (case v of None \<Rightarrow> [] | Some s \<Rightarrow> [(k, JStr s)])"

text \<open>
  \<open>serde_json::to_value(&action)\<close> with its \<open>authorization_category\<close>; the map is ordered by key.
\<close>

definition action_value :: "HostAction \<Rightarrow> string \<Rightarrow> json" where
  "action_value a category = JObj
     ([(''action'', JStr (ha_action a)), (''authorization_category'', JStr category),
       (''button'', json_opt JStr (ha_button a)), (''checked'', json_opt JBool (ha_checked a)),
       (''delay_ms'', json_opt json_u64 (ha_delay_ms a)),
       (''delivery_mode'', json_opt JStr (ha_delivery_mode a)),
       (''duration_ms'', json_opt json_u64 (ha_duration_ms a)),
       (''element_index'', json_opt json_u32 (ha_element_index a)),
       (''element_token'', json_opt JStr (ha_element_token a)),
       (''input_backend_id'', json_opt JStr (ha_input_backend_id a)),
       (''input_kind'', JStr (ha_input_kind a)), (''intent'', JStr (ha_intent a)),
       (''keys'', JArr (map JStr (ha_keys a))), (''modifiers'', JArr (map JStr (ha_modifiers a))),
       (''path'', JArr (map json_point (ha_path a))), (''scroll_by'', json_opt JStr (ha_scroll_by a)),
       (''scroll_x'', json_opt json_i32 (ha_scroll_x a)), (''scroll_y'', json_opt json_i32 (ha_scroll_y a))]
      @ json_field_opt ''secret_handle'' (ha_secret_handle a)
      @ [(''steps'', json_opt json_u32 (ha_steps a))]
      @ json_field_opt ''text'' (ha_text a)
      @ [(''type_chars_only'', JBool (ha_type_chars_only a)),
         (''x'', json_opt json_f64 (ha_x a)), (''y'', json_opt json_f64 (ha_y a))])"

subsection \<open>Evidence after a confirmation (confirmation_evidence.rs)\<close>

datatype ConfirmedActionEvidenceRefresh = RefreshNotRequired | AccessibilityObservation | FreshSnapshotRequired

definition confirmed_action_evidence_refresh :: "HostAction \<Rightarrow> bool \<Rightarrow> ConfirmedActionEvidenceRefresh" where
  "confirmed_action_evidence_refresh a refresh_due =
     (if \<not> refresh_due then RefreshNotRequired
      else if ha_input_kind a = ''raw_input'' \<and> ha_action a \<in> {''type'', ''type_chars''}
              \<and> ha_element_index a = None \<and> ha_element_token a = None \<and> ha_x a = None
              \<and> ha_y a = None \<and> ha_path a = []
      then AccessibilityObservation else FreshSnapshotRequired)"

definition rebind_confirmed_action_evidence ::
  "HostAction \<Rightarrow> json \<Rightarrow> ConfirmationWindowIdentity \<Rightarrow> ComputerUseObservation \<Rightarrow> ComputerUseObservation
   \<Rightarrow> json \<Rightarrow> string ComputerUseResult" where
  "rebind_confirmed_action_evidence a confirmed target previous refreshed root =
     (let same_exact_target =
            (ob_process_id previous = cw_process_id target
             \<and> ob_window_handle previous = cw_window_handle target
             \<and> ob_process_id refreshed = cw_process_id target
             \<and> ob_window_handle refreshed = cw_window_handle target);
          same_geometry =
            (ob_session_id previous = ob_session_id refreshed
             \<and> ob_source_rect previous = ob_source_rect refreshed
             \<and> ob_width previous = ob_width refreshed \<and> ob_height previous = ob_height refreshed);
          category = authorization_category a (Some root);
          same_action_scope =
            (action_value a category = confirmed
             \<and> safety_tier a (Some root) = ActionConfirmation
             \<and> category \<in> {''raw_input'', ''credential''})
      in if \<not> same_exact_target \<or> \<not> same_geometry \<or> \<not> same_action_scope
         then Inl (StaleObservation,
           ''the exact target or approved action scope changed while waiting for confirmation'')
         else Inr (ob_observation_id refreshed))"

definition window_identity :: "HostSession \<Rightarrow> ConfirmationWindowIdentity" where
  "window_identity h =
     \<lparr>cw_process_id = hs_target_process_id h, cw_window_handle = hs_target_window_handle h\<rparr>"

definition remember_observation :: "string \<Rightarrow> json \<Rightarrow> HostSession \<Rightarrow> HostSession" where
  "remember_observation observation_id root h =
     h\<lparr>hs_latest_observation_id := Some observation_id,
       hs_latest_accessibility_state_id := Some observation_id,
       hs_latest_accessibility_root := Some root\<rparr>"

definition refresh_confirmed_evidence ::
  "('st, 'c, 'v) host_env \<Rightarrow> ExecuteActionParams \<Rightarrow> json \<Rightarrow> ComputerUseObservation
   \<Rightarrow> (string, ('st, 'c, 'v) host_state) handler" where
  "refresh_confirmed_evidence env p confirmed previous =
     chain (core_call (en_core env)
       (AccessibilitySnapshotCall (ea_post_snapshot_max_nodes p) (ea_post_snapshot_max_depth p))) (\<lambda>r.
     chain (finish_attempt (en_world env 4) r) (\<lambda>r.
     chain (check_core r) (\<lambda>root.
     chain observe_session (\<lambda>h.
       case cs_observation (hs_session h) of
         None \<Rightarrow> fail (Protocol ''confirmed action evidence refresh returned no observation'')
       | Some refreshed \<Rightarrow>
         (case rebind_confirmed_action_evidence (ea_action p) confirmed (window_identity h) previous
                 refreshed root of
            Inl (code, message) \<Rightarrow>
              chain (update_session invalidate_observations) (\<lambda>_. fail (ComputerUse code message))
          | Inr rebound \<Rightarrow>
              chain (update_session (remember_observation rebound root)) (\<lambda>_. give rebound))))))"

text \<open>
  The confirmation of an action: a refusal reply, or the observation id the action is bound to.
\<close>

definition confirm_action ::
  "('st, 'c, 'v) host_env \<Rightarrow> CapturePreparationBindings \<Rightarrow> ExecuteActionParams
   \<Rightarrow> (json + string, ('st, 'c, 'v) host_state) handler" where
  "confirm_action env b p =
     chain observe_session (\<lambda>h.
       let a = ea_action p; root = hs_latest_accessibility_root h; tier = safety_tier a root;
           confirmed = action_value a (authorization_category a root) in
       case rejection tier of
         Some (policy_tier, code, message) \<Rightarrow> give (Inl (refusal_reply policy_tier code message))
       | None \<Rightarrow>
         if \<not> requires_confirmation tier \<and> hs_task_authorization h = None
         then give (Inr (ea_observation_id p))
         else case cs_observation (hs_session h) of
           None \<Rightarrow> fail (ComputerUse StaleObservation
             ''take a fresh exact-target observation before requesting confirmation'')
         | Some previous \<Rightarrow>
           chain (request_confirmation env
             (confirmation_binding b h (ea_observation_id p)
               (if hs_observation_mode h = Semantic then Some (ea_accessibility_state_id p) else None))
             (ha_intent a) confirmed) (\<lambda>outcome.
           if outcome \<noteq> Allowed
           then chain (unwrap (action_confirmation_refusal outcome)) (\<lambda>reply. give (Inl reply))
           else chain observe_session (\<lambda>h.
             if requires_confirmation tier \<and> hs_observation_mode h = Semantic
                \<and> confirmed_action_evidence_refresh a (co_refresh_due (en_core env) (hs_session h))
                    = AccessibilityObservation
             then chain (refresh_confirmed_evidence env p confirmed previous) (\<lambda>rebound. give (Inr rebound))
             else give (Inr (ea_observation_id p)))))"

definition resolve_action_secret ::
  "('st, 'c, 'v) host_env \<Rightarrow> HostAction \<Rightarrow> (HostAction, ('st, 'c, 'v) host_state) handler" where
  "resolve_action_secret env a =
     (case ha_secret_handle a of
        None \<Rightarrow> give a
      | Some handle \<Rightarrow> chain (vault_resolve env handle) (\<lambda>secret.
          give (a\<lparr>ha_text := Some (expose secret), ha_secret_handle := None\<rparr>)))"

definition dispatch_action ::
  "('st, 'c, 'v) host_env \<Rightarrow> HostAction \<Rightarrow> string \<Rightarrow> (json, ('st, 'c, 'v) host_state) handler" where
  "dispatch_action env a observation_id =
     chain (check_core (into_computer_use a observation_id)) (\<lambda>action.
     chain (acquire_raw_input_turn env (ha_input_kind a = ''raw_input'' \<or> uses_physical_keyboard a)) (\<lambda>_.
     chain (revalidate_queued_action env) (\<lambda>_.
     chain (core_call (en_core env) (PerformAction action)) (\<lambda>r.
     chain (finish_attempt (en_world env 6) r) (\<lambda>r.
     chain (update_session (\<lambda>h. if hs_observation_mode h = PixelsOnly then invalidate_observations h else h)) (\<lambda>_.
       check_core r))))))"

subsection \<open>After the action\<close>

fun wait_for_window_post_snapshot_delay ::
  "('st, 'c, 'v) host_env \<Rightarrow> nat \<Rightarrow> (unit, ('st, 'c, 'v) host_state) handler" where
  "wait_for_window_post_snapshot_delay env 0 = ensure_session_not_interrupted (en_core env)"
| "wait_for_window_post_snapshot_delay env (Suc n) =
     chain (ensure_session_not_interrupted (en_core env)) (\<lambda>_.
     chain (update_session (\<lambda>h. h\<lparr>hs_session := en_async env (Suc n) (hs_session h)\<rparr>)) (\<lambda>_.
       wait_for_window_post_snapshot_delay env n))"

text \<open>An error of \<open>m\<close> is answered by \<open>k\<close> and does not end the handler.\<close>

definition recover ::
  "('a, 's) handler \<Rightarrow> (HostError + 'a \<Rightarrow> ('b, 's) handler) \<Rightarrow> ('b, 's) handler" where
  "recover m k s =
     (case m s of (Done v, s') \<Rightarrow> k (Inr v) s' | (Failed e, s') \<Rightarrow> k (Inl e) s'
      | (Panicking, s') \<Rightarrow> (Panicking, s'))"

text \<open>The \<open>Display\<close> of an error; an I/O error keeps no payload in the model.\<close>

fun host_error_display :: "HostError \<Rightarrow> string" where
  "host_error_display Io = ''host transport failed: ''"
| "host_error_display (EndpointHijacked endpoint) =
     ''host endpoint security failed: '' @ endpoint @ '' was pre-created before the first Host instance''"
| "host_error_display (Protocol m) = ''host protocol failed: '' @ m"
| "host_error_display (CodedProtocol _ m) = ''host protocol failed: '' @ m"
| "host_error_display (ComputerUse code m) = debug_code code @ '': '' @ m"

definition post_snapshot_failed ::
  "string \<Rightarrow> json \<Rightarrow> string \<Rightarrow> string \<Rightarrow> (handler_reply, ('st, 'c, 'v) host_state) handler" where
  "post_snapshot_failed message result code failure =
     chain (update_session clear_native_observation_caches) (\<lambda>_.
       give (ActionReply message result (PostSnapshotFailed code failure)))"

definition semantic_post_snapshot ::
  "('st, 'c, 'v) host_env \<Rightarrow> ExecuteActionParams \<Rightarrow> json
   \<Rightarrow> (handler_reply, ('st, 'c, 'v) host_state) handler" where
  "semantic_post_snapshot env p result =
     chain (core_call (en_core env)
       (AccessibilitySnapshotCall (ea_post_snapshot_max_nodes p) (ea_post_snapshot_max_depth p))) (\<lambda>r.
     chain (finish_attempt (en_world env 7) r) (\<lambda>r.
       case r of
         Inl (code, message) \<Rightarrow> post_snapshot_failed
           ''CUA action completed, but the semantic post-action snapshot failed'' result
           (computer_use_wire_code code) message
       | Inr accessibility \<Rightarrow>
         chain observe_session (\<lambda>h.
           case cs_observation (hs_session h) of
             None \<Rightarrow> fail (Protocol ''semantic post-action snapshot returned no observation'')
           | Some observation \<Rightarrow>
             chain (update_session (remember_observation (ob_observation_id observation) accessibility))
               (\<lambda>_. give (ActionReply ''CUA action completed with a fresh semantic post-action snapshot''
                  result (SemanticPost (ob_observation_id observation) accessibility))))))"

definition full_post_snapshot ::
  "('st, 'c, 'v) host_env \<Rightarrow> ExecuteActionParams \<Rightarrow> json
   \<Rightarrow> (handler_reply, ('st, 'c, 'v) host_state) handler" where
  "full_post_snapshot env p result =
     chain observe_session (\<lambda>h.
     chain (core_screenshot (en_core env)
       (if hs_observation_mode h = PixelsOnly then ScreenshotPixelsOnlyCall
        else ScreenshotCall (ea_post_snapshot_max_nodes p) (ea_post_snapshot_max_depth p))) (\<lambda>r.
     chain (finish_attempt (en_world env 7) r) (\<lambda>r.
       case r of
         Inl (code, message) \<Rightarrow> post_snapshot_failed
           ''CUA action completed, but the post-action snapshot failed'' result
           (computer_use_wire_code code) message
       | Inr (observation_id, accessibility) \<Rightarrow>
         chain (update_session (record_snapshot_observation observation_id accessibility)) (\<lambda>_.
           give (ActionReply ''CUA action completed with a fresh post-action snapshot'' result
             (FullPost observation_id accessibility))))))"

definition complete_action ::
  "('st, 'c, 'v) host_env \<Rightarrow> ExecuteActionParams \<Rightarrow> json
   \<Rightarrow> (handler_reply, ('st, 'c, 'v) host_state) handler" where
  "complete_action env p result =
     (if \<not> ea_capture_after p
      then chain (update_session clear_native_observation_caches) (\<lambda>_.
        give (ActionReply ''CUA action completed'' result NoPostSnapshot))
      else recover (wait_for_window_post_snapshot_delay env (en_sleeps env)) (\<lambda>waited.
        case waited of
          Inl e \<Rightarrow> post_snapshot_failed
            ''CUA action completed, but the post-action snapshot was interrupted'' result
            (error_code e) (host_error_display e)
        | Inr _ \<Rightarrow>
          if ea_post_snapshot_mode p = SemanticSnapshot then semantic_post_snapshot env p result
          else full_post_snapshot env p result))"

definition execute_action ::
  "('st, 'c, 'v) host_env \<Rightarrow> CapturePreparationBindings \<Rightarrow> ExecuteActionParams
   \<Rightarrow> (handler_reply, ('st, 'c, 'v) host_state) handler" where
  "execute_action env b p =
     chain (check (post_snapshot_delay (ea_capture_after p) (ea_post_snapshot_delay_ms p))) (\<lambda>_.
     chain (check (validate_post_snapshot_mode (ea_capture_after p) (ea_post_snapshot_mode p))) (\<lambda>_.
     chain (authorized_session env) (\<lambda>_.
     chain observe_session (\<lambda>h.
     chain (check (action_checks b p h)) (\<lambda>_.
     chain (confirm_action env b p) (\<lambda>decision.
       case decision of Inl reply \<Rightarrow> give (Reply reply)
       | Inr observation_id \<Rightarrow>
         chain observe_session (\<lambda>h.
         chain (check (require_keyboard_raw_input_grant (ea_action p) (hs_allow_raw_input h))) (\<lambda>_.
         chain (resolve_action_secret env (ea_action p)) (\<lambda>a.
         chain (dispatch_action env a observation_id) (complete_action env p))))))))))"

end
