(* ===== verification/Handler_Effects.thy ===== *)
theory Handler_Effects
  imports Request_Handler
begin

text \<open>
  What the request handlers may do: an effect contract for handler computations (the log only
  grows, by allowed events, and the grants of the session stay as they are), composed along the
  handlers, and the authorization of every action, page mutation and secret that passes through
  them.
\<close>

section \<open>Effects of a handler\<close>

definition grants :: "HostSession \<Rightarrow> TrustedTaskAuthorizationLease option \<times> TaskObservationMode \<times> bool list" where
  "grants h = (hs_task_authorization h, hs_observation_mode h,
     [hs_allow_raw_input h, hs_allow_browser_input h, hs_allow_browser_download h,
      hs_allow_browser_prepare h, hs_allow_clipboard_read h, hs_allow_clipboard_write h,
      hs_allow_recording h, hs_allow_live_observation h, hs_allow_app_terminate h,
      hs_allow_trusted_confirmation h])"

locale handler_effect =
  fixes m :: "('a, ('st, 'c, 'v) host_state) handler"
    and P :: "host_event \<Rightarrow> bool"
  assumes log_grows: "\<exists>evs. st_log (snd (m s)) = st_log s @ evs \<and> list_all P evs"
    and grants_stay: "grants (st_session (snd (m s))) = grants (st_session s)"
begin

lemma log_prefix: "m s = (out, s') \<Longrightarrow> \<exists>evs. st_log s' = st_log s @ evs \<and> list_all P evs"
  using log_grows [of s] by simp

lemma grants_same: "m s = (out, s') \<Longrightarrow> grants (st_session s') = grants (st_session s)"
  using grants_stay [of s] by simp

lemma event_from: "m s = (out, s') \<Longrightarrow> e \<in> set (st_log s') \<Longrightarrow> \<not> P e \<Longrightarrow> e \<in> set (st_log s)"
  using log_prefix [of s out s'] by (auto simp: list_all_iff)

lemma event_kept: "m s = (out, s') \<Longrightarrow> e \<in> set (st_log s) \<Longrightarrow> e \<in> set (st_log s')"
  using log_prefix [of s out s'] by auto

end

lemma effect_chain [intro]:
  assumes "handler_effect m P" and "\<And>v. handler_effect (k v) P"
  shows "handler_effect (chain m k) P"
proof
  fix s
  obtain out s1 where m: "m s = (out, s1)" by fastforce
  from handler_effect.log_prefix [OF assms(1) m] obtain evs where
    evs: "st_log s1 = st_log s @ evs" "list_all P evs" by blast
  from handler_effect.grants_same [OF assms(1) m] have g: "grants (st_session s1) = grants (st_session s)" .
  show "\<exists>evs. st_log (snd (chain m k s)) = st_log s @ evs \<and> list_all P evs"
  proof (cases out)
    case (Done v)
    obtain evs' where "st_log (snd (k v s1)) = st_log s1 @ evs'" "list_all P evs'"
      using handler_effect.log_grows [OF assms(2)] by blast
    with Done evs show ?thesis by (auto simp: chain_def m)
  qed (use evs in \<open>auto simp: chain_def m\<close>)
  show "grants (st_session (snd (chain m k s))) = grants (st_session s)"
    using g handler_effect.grants_stay [OF assms(2)] by (cases out) (auto simp: chain_def m)
qed

lemma effect_weaken: "handler_effect m P \<Longrightarrow> (\<And>e. P e \<Longrightarrow> Q e) \<Longrightarrow> handler_effect m Q"
  unfolding handler_effect_def by (metis list.pred_mono_strong)

lemma effect_pure [simp, intro]:
  "handler_effect (give v) P" "handler_effect (fail e) P" "handler_effect (check r) P"
  "handler_effect (check_core q) P" "handler_effect (unwrap x) P" "handler_effect observe_session P"
  by unfold_locales
     (auto simp: give_def fail_def check_def check_core_def unwrap_def observe_session_def
        split: sum.split option.split)

lemma effect_update [intro]:
  "(\<And>h. grants (f h) = grants h) \<Longrightarrow> handler_effect (update_session f) P"
  by unfold_locales (auto simp: update_session_def)

lemma grants_simps [simp]:
  "grants (h\<lparr>hs_session := c\<rparr>) = grants h" "grants (h\<lparr>hs_browser := br\<rparr>) = grants h"
  "grants (h\<lparr>hs_interrupted := flag\<rparr>) = grants h" "grants (h\<lparr>hs_input_events := q\<rparr>) = grants h"
  "grants (mark_activity w h) = grants h" "grants (invalidate_observations h) = grants h"
  "grants (clear_native_observation_caches h) = grants h"
  "grants (discard_browser_evidence h) = grants h"
  "grants (record_snapshot_observation i r h) = grants h"
  "grants (remember_observation i r h) = grants h"
  by (simp_all add: grants_def mark_activity_def invalidate_observations_def Let_def
      clear_native_observation_caches_def discard_browser_evidence_def record_snapshot_observation_def
      remember_observation_def)

lemma grants_sync_with [simp]:
  "grants (fst (synchronize_action_evidence_epoch_with publication h)) = grants h"
  by (auto simp: synchronize_action_evidence_epoch_with_def Let_def grants_def
      clear_native_observation_caches_def discard_browser_evidence_def)

lemma grants_sync [simp]: "grants (synchronize_action_evidence_epoch h) = grants h"
  by (simp add: synchronize_action_evidence_epoch_def)

lemma grants_invalidate: "invalidate_action_observations h = Some h' \<Longrightarrow> grants h' = grants h"
  by (auto simp: invalidate_action_observations_def bind_eq_Some_conv)

lemma grants_observe:
  "observe_input_readiness r t h = Some (h', c) \<Longrightarrow> grants h' = grants h"
  "observe_target_availability a w h = Some (h', c) \<Longrightarrow> grants h' = grants h"
  by (auto simp: observe_input_readiness_def observe_target_availability_def Let_def bind_eq_Some_conv
      dest: grants_invalidate split: if_splits prod.splits)

lemma grants_finish:
  "finish_observation_sensitive_attempt w r h = Some h' \<Longrightarrow> grants h' = grants h"
  by (auto simp: finish_observation_sensitive_attempt_def Let_def bind_eq_Some_conv
      dest!: grants_invalidate grants_observe split: sum.splits if_splits option.splits)

lemma effect_finish_attempt [intro]: "handler_effect (finish_attempt w r) P"
  by unfold_locales (auto simp: finish_attempt_def grants_finish split: option.split)

lemma effect_core_call: "P (Native c) \<Longrightarrow> handler_effect (core_call core c) P"
  by unfold_locales (auto simp: core_call_def log_event_def split: prod.split)

lemma effect_core_screenshot: "P (Native c) \<Longrightarrow> handler_effect (core_screenshot core c) P"
  by unfold_locales (auto simp: core_screenshot_def log_event_def split: prod.split)

lemma effect_core_live: "P (Native c) \<Longrightarrow> handler_effect (core_live core c) P"
  by unfold_locales (auto simp: core_live_def log_event_def split: prod.split)

lemma effect_revalidate: "(\<And>r. P (Revalidated r)) \<Longrightarrow> handler_effect (revalidate_lease env k) P"
  by unfold_locales
     (auto simp: revalidate_lease_def check_def log_event_def Let_def split: prod.split sum.split)

lemma effect_ask: "(\<And>r out. P (Asked r out)) \<Longrightarrow> handler_effect (ask_confirmation env request) P"
  by unfold_locales (auto simp: ask_confirmation_def log_event_def Let_def split: prod.split)

lemma effect_turn [intro]: "handler_effect (acquire_raw_input_turn env enabled) P"
  by unfold_locales (auto simp: acquire_raw_input_turn_def)

lemma effect_vault_resolve:
  assumes "P (Resolved handle)"
  shows "handler_effect (vault_resolve env handle) P"
  unfolding vault_resolve_def
  by (rule effect_chain [OF effect_pure(3)], unfold_locales)
     (use assms in \<open>auto simp: check_def log_event_def Let_def split: prod.split sum.split\<close>)

lemma effect_vault_store: "P (Stored handle secret) \<Longrightarrow> handler_effect (vault_store vault handle secret) P"
  by unfold_locales (auto simp: vault_store_def check_def log_event_def Let_def split: prod.split sum.split)

lemma effect_require_current_evidence [intro]: "handler_effect require_current_evidence P"
  by unfold_locales
     (auto simp: require_current_evidence_def require_current_browser_evidence_epoch_def check_core_def
        check_def Let_def split: sum.split)

lemma effect_run_browser:
  assumes "\<And>tool args. P (Native (BrowserTool tool args))"
  shows "handler_effect (run_browser core operation) P"
  by unfold_locales
     (auto simp: run_browser_def Let_def list_all_iff assms
        split: prod.split sum.split browser_failure.split)

lemma effect_recover [intro]:
  assumes "handler_effect m P" and "\<And>v. handler_effect (k v) P"
  shows "handler_effect (recover m k) P"
proof -
  have "recover m k = (\<lambda>s. chain (\<lambda>s. case m s of (Done v, s') \<Rightarrow> (Done (Inr v), s')
      | (Failed e, s') \<Rightarrow> (Done (Inl e), s') | (Panicking, s') \<Rightarrow> (Panicking, s')) k s)"
    by (auto simp: recover_def chain_def fun_eq_iff split: prod.split outcome.split)
  moreover have "handler_effect (\<lambda>s. case m s of (Done v, s') \<Rightarrow> (Done (Inr v), s')
      | (Failed e, s') \<Rightarrow> (Done (Inl e), s') | (Panicking, s') \<Rightarrow> (Panicking, s')) P"
    using handler_effect.log_grows [OF assms(1)] handler_effect.grants_stay [OF assms(1)]
    by unfold_locales (simp_all split: prod.split outcome.split, (metis snd_conv)+)
  ultimately show ?thesis using assms(2) by (simp add: effect_chain)
qed

lemmas effect_calls = effect_core_call effect_core_screenshot effect_core_live effect_revalidate effect_ask
  effect_vault_resolve effect_vault_store effect_run_browser

text \<open>Events that only admit a request: the lease is revalidated or the session is stopped.\<close>

fun admission_event :: "host_event \<Rightarrow> bool" where
  "admission_event (Revalidated _) = True"
| "admission_event (Native StopCall) = True"
| "admission_event _ = False"

interpretation not_interrupted: handler_effect "ensure_session_not_interrupted core" admission_event
  unfolding ensure_session_not_interrupted_def
  by (intro effect_chain effect_pure effect_update effect_core_call)
     (auto intro!: effect_chain effect_update effect_core_call split: option.split)

interpretation admission: handler_effect "authorized_session env" admission_event
  unfolding authorized_session_def
  by (intro effect_chain effect_pure)
     (auto intro!: effect_chain effect_update effect_core_call effect_revalidate
        not_interrupted.handler_effect_axioms)

interpretation revalidation: handler_effect "revalidate_queued_action env" admission_event
  unfolding revalidate_queued_action_def revalidate_queued_window_mutation_def
  by (intro effect_chain effect_pure)
     (auto intro!: effect_chain effect_revalidate not_interrupted.handler_effect_axioms)

section \<open>Admission\<close>

lemma chain_Done_iff:
  "chain m k s = (Done v, s') \<longleftrightarrow> (\<exists>u s1. m s = (Done u, s1) \<and> k u s1 = (Done v, s'))"
  by (auto simp: chain_def split: prod.splits outcome.splits)

lemma simple_Done [simp]:
  "give u s = (Done v, s') \<longleftrightarrow> u = v \<and> s' = s" "fail e s = (Done v, s') \<longleftrightarrow> False"
  "check r s = (Done v, s') \<longleftrightarrow> r = Inr v \<and> s' = s"
  "check_core q s = (Done v, s') \<longleftrightarrow> q = Inr v \<and> s' = s"
  "unwrap x s = (Done v, s') \<longleftrightarrow> x = Some v \<and> s' = s"
  "observe_session t = (Done h, t') \<longleftrightarrow> h = st_session t \<and> t' = t"
  "update_session f t = (Done w, t') \<longleftrightarrow> t' = t\<lparr>st_session := f (st_session t)\<rparr>"
  by (auto simp: give_def fail_def check_def check_core_def to_host_error_def map_err_def unwrap_def
      observe_session_def update_session_def split: sum.splits option.splits)

lemma ensure_not_interrupted_Done:
  "ensure_session_not_interrupted core s = (Done u, s') \<longleftrightarrow>
     s' = s \<and> \<not> hs_interrupted (st_session s) \<and> \<not> co_interrupted core (hs_session (st_session s))
     \<and> co_banner_failure core (hs_session (st_session s)) = None"
  by (auto simp: ensure_session_not_interrupted_def chain_Done_iff split: option.splits)

lemma revalidate_Done:
  "revalidate_lease env k s = (Done u, s') \<longleftrightarrow>
     (\<exists>st. validate_active_task_authorization (en_externs env) (en_task_host env) (en_uuid env k)
         (en_world env k) (en_clock env k) (hs_task_authorization (st_session s)) (st_task s) = (Inr (), st)
       \<and> s' = s\<lparr>st_task := st, st_log := st_log s @ [Revalidated (Inr ())]\<rparr>)"
  by (auto simp: revalidate_lease_def Let_def log_event_def split: prod.splits)

lemma authorized_Done:
  "authorized_session env s = (Done u, s') \<longleftrightarrow>
     (\<exists>st. validate_active_task_authorization (en_externs env) (en_task_host env) (en_uuid env 1)
         (en_world env 1) (en_clock env 1) (hs_task_authorization (st_session s)) (st_task s) = (Inr (), st)
       \<and> s' = s\<lparr>st_task := st, st_log := st_log s @ [Revalidated (Inr ())],
            st_session := mark_activity (en_world env 2) (st_session s)\<rparr>)
     \<and> \<not> is_idle_expired (en_world env 0) (st_session s) \<and> \<not> hs_interrupted (st_session s)
     \<and> \<not> co_interrupted (en_core env) (hs_session (st_session s))
     \<and> co_banner_failure (en_core env) (hs_session (st_session s)) = None"
  by (auto simp: authorized_session_def chain_Done_iff revalidate_Done ensure_not_interrupted_Done
      split: if_splits)

lemma ask_Done:
  "ask_confirmation env request s = (Done out, s') \<Longrightarrow>
     st_log s' = st_log s @ [Asked request out] \<and> st_session s' = st_session s"
  by (auto simp: ask_confirmation_def Let_def log_event_def split: prod.splits)

lemma confirmation_new_value_binding:
  "confirmation_new_value x uuid bd intent action = Inr request \<Longrightarrow>
     cr_session_id request = cb_session_id bd \<and> cr_task_grant_id request = cb_task_grant_id bd
     \<and> cr_window_capability request = cb_window_capability bd
     \<and> cr_observation_id request = cb_observation_id bd \<and> cr_action request = action"
  by (auto simp: confirmation_new_value_def and_then_Inr_iff)

lemma request_confirmation_Done:
  assumes "request_confirmation env bd intent action s = (Done out, s')"
  shows "\<exists>request. st_log s' = st_log s @ [Asked request out] \<and> st_session s' = st_session s
     \<and> cr_session_id request = cb_session_id bd \<and> cr_task_grant_id request = cb_task_grant_id bd
     \<and> cr_window_capability request = cb_window_capability bd
     \<and> cr_observation_id request = cb_observation_id bd \<and> cr_action request = action"
  using assms by (auto simp: request_confirmation_def chain_Done_iff dest!: ask_Done
      confirmation_new_value_binding)

text \<open>
  Running a computation that logs no bad event and then one that does: the first has ended well.
\<close>

definition logged :: "(host_event \<Rightarrow> bool) \<Rightarrow> ('st, 'c, 'v) host_state \<Rightarrow> bool" where
  "logged B s \<longleftrightarrow> (\<exists>e \<in> set (st_log s). B e)"

lemma logged_chain:
  assumes "logged B (snd (chain m k s))" and "handler_effect m (\<lambda>e. \<not> B e)" and "\<not> logged B s"
  obtains v s1 where "m s = (Done v, s1)" and "\<not> logged B s1" and "logged B (snd (k v s1))"
proof -
  obtain out s1 where m: "m s = (out, s1)" by fastforce
  from handler_effect.event_from [OF assms(2) m] assms(3) have "\<not> logged B s1"
    by (auto simp: logged_def)
  moreover from this assms(1) m obtain v where "out = Done v" "logged B (snd (k v s1))"
    by (cases out) (auto simp: chain_def)
  ultimately show ?thesis using m that by blast
qed

lemma chain_tail:
  assumes "chain m k s = (out, s')" and "m s = (out1, s1)" and "\<And>v. handler_effect (k v) P"
  shows "\<exists>evs. st_log s' = st_log s1 @ evs \<and> list_all P evs"
proof (cases out1)
  case (Done v)
  with assms(1,2) have "k v s1 = (out, s')" by (simp add: chain_def)
  then show ?thesis by (rule handler_effect.log_prefix [OF assms(3)])
qed (use assms(1,2) in \<open>auto simp: chain_def\<close>)

lemma logged_kept:
  "logged B (snd (m s)) \<Longrightarrow> (\<And>v. handler_effect (k v) P) \<Longrightarrow> logged B (snd (chain m k s))"
proof -
  assume l: "logged B (snd (m s))" and k: "\<And>v. handler_effect (k v) P"
  obtain out s' where "chain m k s = (out, s')" by fastforce
  moreover obtain out1 s1 where "m s = (out1, s1)" by fastforce
  ultimately show ?thesis using l chain_tail [OF _ _ k] by (fastforce simp: logged_def)
qed

section \<open>Executed actions\<close>

fun performs :: "host_event \<Rightarrow> bool" where
  "performs (Native (PerformAction _)) = True"
| "performs _ = False"

lemma admission_not_performs: "admission_event e \<Longrightarrow> \<not> performs e"
  by (cases e rule: admission_event.cases) auto

lemmas admission_quiet = effect_weaken [OF _ admission_not_performs]

lemma effect_request_confirmation:
  "(\<And>r out. P (Asked r out)) \<Longrightarrow> handler_effect (request_confirmation env bd intent action) P"
  unfolding request_confirmation_def by (intro effect_chain effect_pure effect_ask)

lemma effect_refresh_evidence:
  "(\<And>n d. P (Native (AccessibilitySnapshotCall n d))) \<Longrightarrow>
   handler_effect (refresh_confirmed_evidence env p confirmed previous) P"
  unfolding refresh_confirmed_evidence_def
  by (intro effect_chain effect_core_call effect_finish_attempt effect_pure)
     (auto intro!: effect_chain effect_update split: option.split sum.split)

lemma effect_confirm_action:
  assumes "\<And>r out. P (Asked r out)" and "\<And>n d. P (Native (AccessibilitySnapshotCall n d))"
  shows "handler_effect (confirm_action env b p) P"
  unfolding confirm_action_def Let_def
  by (intro effect_chain effect_pure)
     (auto intro!: effect_chain effect_request_confirmation effect_refresh_evidence assms
        split: option.split)

lemma effect_resolve_secret:
  "(\<And>handle. P (Resolved handle)) \<Longrightarrow> handler_effect (resolve_action_secret env a) P"
  by (auto simp: resolve_action_secret_def intro!: effect_chain effect_vault_resolve split: option.split)

lemma effect_wait: "(\<And>e. admission_event e \<Longrightarrow> P e) \<Longrightarrow>
   handler_effect (wait_for_window_post_snapshot_delay env n) P"
  by (induction n)
     (auto intro!: effect_chain effect_update effect_weaken [OF not_interrupted.handler_effect_axioms])

lemma effect_post_snapshot_failed [intro]: "handler_effect (post_snapshot_failed msg result code failure) P"
  unfolding post_snapshot_failed_def by (intro effect_chain effect_update effect_pure) simp

lemma effect_complete_action: "handler_effect (complete_action env p result) (\<lambda>e. \<not> performs e)"
  unfolding complete_action_def semantic_post_snapshot_def full_post_snapshot_def
  by (auto intro!: effect_chain effect_recover effect_update effect_core_call effect_core_screenshot
      effect_wait effect_finish_attempt effect_post_snapshot_failed dest: admission_not_performs
      split: sum.split option.split prod.split if_splits)

lemma confirm_action_Done:
  assumes "confirm_action env b p s = (Done (Inr obs), s')"
    and tier: "tier = safety_tier (ea_action p) (hs_latest_accessibility_root (st_session s))"
  shows "tier \<noteq> HardDeny"
    and "requires_confirmation tier \<or> hs_task_authorization (st_session s) \<noteq> None \<Longrightarrow>
      \<exists>request. Asked request Allowed \<in> set (st_log s') \<and> cr_session_id request = wb_session_id b
        \<and> cr_observation_id request = ea_observation_id p
        \<and> cr_action request = action_value (ea_action p)
            (authorization_category (ea_action p) (hs_latest_accessibility_root (st_session s)))"
proof -
  define confirmed where "confirmed = action_value (ea_action p)
    (authorization_category (ea_action p) (hs_latest_accessibility_root (st_session s)))"
  define bd where "bd = confirmation_binding b (st_session s) (ea_observation_id p)
    (if hs_observation_mode (st_session s) = Semantic then Some (ea_accessibility_state_id p) else None)"
  have bd: "cb_session_id bd = wb_session_id b" "cb_observation_id bd = ea_observation_id p"
    by (simp_all add: bd_def confirmation_binding_def confirmation_binding_window_def)
  show "tier \<noteq> HardDeny"
    using assms by (auto simp: confirm_action_def chain_Done_iff rejection_def Let_def split: if_splits)
  then have rej: "rejection tier = None" by (simp add: rejection_def)
  assume needs: "requires_confirmation tier \<or> hs_task_authorization (st_session s) \<noteq> None"
  from assms(1) needs rej obtain previous s1 where
    asked: "request_confirmation env bd (ha_intent (ea_action p)) confirmed s = (Done Allowed, s1)"
    and rest: "s' = s1 \<or> (\<exists>rebound. refresh_confirmed_evidence env p confirmed previous s1 = (Done rebound, s'))"
    unfolding confirm_action_def chain_Done_iff
    by (auto simp: Let_def chain_Done_iff tier [symmetric] confirmed_def [symmetric] bd_def [symmetric]
        split: option.splits if_splits)
  from request_confirmation_Done [OF asked] obtain request where
    req: "st_log s1 = st_log s @ [Asked request Allowed]" "cr_session_id request = wb_session_id b"
      "cr_observation_id request = ea_observation_id p" "cr_action request = confirmed"
    by (auto simp: bd)
  from rest req(1) have "Asked request Allowed \<in> set (st_log s')"
    using handler_effect.event_kept [OF effect_refresh_evidence [where P = "\<lambda>_. True"]] by fastforce
  with req show "\<exists>request. Asked request Allowed \<in> set (st_log s') \<and> cr_session_id request = wb_session_id b
        \<and> cr_observation_id request = ea_observation_id p
        \<and> cr_action request = action_value (ea_action p)
            (authorization_category (ea_action p) (hs_latest_accessibility_root (st_session s)))"
    by (auto simp: confirmed_def)
qed

lemma revalidated_before_dispatch:
  assumes "revalidate_queued_action env s = (Done u, s')" and "hs_task_authorization (st_session s) \<noteq> None"
  shows "\<exists>evs. st_log s' = evs @ [Revalidated (Inr ())]"
  using assms
  by (auto simp: revalidate_queued_action_def revalidate_queued_window_mutation_def chain_Done_iff
      ensure_not_interrupted_Done revalidate_Done)

lemma grants_eqD:
  "grants h = grants h' \<Longrightarrow> hs_task_authorization h = hs_task_authorization h'
     \<and> hs_allow_raw_input h = hs_allow_raw_input h' \<and> hs_observation_mode h = hs_observation_mode h'"
  by (simp add: grants_def)

text \<open>The dispatch of an action performs it once, after the lease was revalidated.\<close>

lemma dispatch_performs:
  fixes env :: "('st, 'c, 'v) host_env" and s s' :: "('st, 'c, 'v) host_state"
  assumes d: "dispatch_action env a obs s = (out, s')" and before: "\<not> logged performs s"
    and after: "logged performs s'"
  shows "\<exists>pre ca post. st_log s' = st_log s @ pre @ Native (PerformAction ca) # post
    \<and> list_all (\<lambda>e. \<not> performs e) (pre @ post) \<and> into_computer_use a obs = Inr ca
    \<and> (hs_task_authorization (st_session s) \<noteq> None \<longrightarrow> pre \<noteq> [] \<and> last pre = Revalidated (Inr ()))"
proof -
  define tail :: "json ComputerUseResult \<Rightarrow> (json, ('st, 'c, 'v) host_state) handler"
    where "tail = (\<lambda>r. chain (finish_attempt (en_world env 6) r) (\<lambda>r.
      chain (update_session (\<lambda>h. if hs_observation_mode h = PixelsOnly then invalidate_observations h else h))
        (\<lambda>_. check_core r)))"
  have tail: "handler_effect (tail r) (\<lambda>e. \<not> performs e)" for r
    unfolding tail_def by (intro effect_chain effect_finish_attempt effect_update effect_pure) auto
  define turn :: "(unit, ('st, 'c, 'v) host_state) handler" where "turn = acquire_raw_input_turn env (ha_input_kind a = ''raw_input'' \<or> uses_physical_keyboard a)"
  note [simp] = turn_def
  have eq: "dispatch_action env a obs = chain (check_core (into_computer_use a obs)) (\<lambda>action. chain turn (\<lambda>_.
      chain (revalidate_queued_action env) (\<lambda>_. chain (core_call (en_core env) (PerformAction action)) tail)))"
    by (simp add: dispatch_action_def tail_def)
  from after d have "logged performs (snd (dispatch_action env a obs s))" by simp
  then obtain ca s1 where ca: "into_computer_use a obs = Inr ca" "\<not> logged performs s"
    and l1: "logged performs (snd (chain turn (\<lambda>_. chain (revalidate_queued_action env)
      (\<lambda>_. chain (core_call (en_core env) (PerformAction ca)) tail)) s))"
    unfolding eq by (rule logged_chain) (use before in auto)
  from l1 obtain s2 where t: "turn s = (Done (), s2)" "\<not> logged performs s2"
    and l2: "logged performs (snd (chain (revalidate_queued_action env)
      (\<lambda>_. chain (core_call (en_core env) (PerformAction ca)) tail) s2))"
    by (rule logged_chain) (use before in auto)
  from l2 obtain s3 where r: "revalidate_queued_action env s2 = (Done (), s3)" "\<not> logged performs s3"
    by (rule logged_chain) (use t admission_quiet [OF revalidation.handler_effect_axioms] in auto)
  obtain r4 s4 where c: "core_call (en_core env) (PerformAction ca) s3 = (r4, s4)"
      "st_log s4 = st_log s3 @ [Native (PerformAction ca)]"
    by (fastforce simp: core_call_def log_event_def split: prod.splits)
  have "chain (core_call (en_core env) (PerformAction ca)) tail s3 = (out, s')"
    using d t r by (simp add: eq chain_def ca(1) check_core_def to_host_error_def map_err_def check_def)
  from chain_tail [OF this c(1) tail] c(2) obtain post where
    post: "st_log s' = st_log s3 @ Native (PerformAction ca) # post" "list_all (\<lambda>e. \<not> performs e) post"
    by auto
  have log2: "st_log s2 = st_log s" and g: "grants (st_session s2) = grants (st_session s)"
    using t(1) by (auto simp: acquire_raw_input_turn_def)
  from revalidation.log_prefix [OF r(1)] obtain pre where
    pre: "st_log s3 = st_log s @ pre" "list_all admission_event pre" by (auto simp: log2)
  have "pre \<noteq> [] \<and> last pre = Revalidated (Inr ())" if "hs_task_authorization (st_session s) \<noteq> None"
  proof -
    from that have "hs_task_authorization (st_session s2) \<noteq> None" using grants_eqD [OF g] by simp
    then show ?thesis
      using r(1) pre(1) log2
      by (auto simp: revalidate_queued_action_def revalidate_queued_window_mutation_def chain_Done_iff
          ensure_not_interrupted_Done revalidate_Done)
  qed
  moreover have "list_all (\<lambda>e. \<not> performs e) (pre @ post)"
    using pre(2) post(2) admission_not_performs by (auto simp: list_all_iff)
  ultimately show ?thesis using post pre(1) ca(1) by (intro exI [of _ pre] exI [of _ ca] exI [of _ post]) auto
qed

text \<open>The secret of an action replaces its handle and is read from the vault.\<close>

definition resolves :: "host_event list \<Rightarrow> HostAction \<Rightarrow> HostAction \<Rightarrow> bool" where
  "resolves events requested a \<longleftrightarrow>
     (case ha_secret_handle requested of
        None \<Rightarrow> a = requested
      | Some handle \<Rightarrow> Resolved handle \<in> set events
          \<and> (\<exists>text. a = requested\<lparr>ha_text := Some text, ha_secret_handle := None\<rparr>))"

lemma vault_resolve_Done:
  "vault_resolve env handle s = (Done secret, s') \<Longrightarrow>
     Resolved handle \<in> set (st_log s') \<and> st_session s' = st_session s"
  by (auto simp: vault_resolve_def chain_Done_iff Let_def log_event_def case_prod_unfold)

lemma resolve_action_secret_Done:
  "resolve_action_secret env requested s = (Done a, s') \<Longrightarrow>
     resolves (st_log s') requested a \<and> st_session s' = st_session s"
  by (cases "ha_secret_handle requested")
     (auto simp: resolve_action_secret_def resolves_def chain_Done_iff dest!: vault_resolve_Done)

lemma action_checks_Inr:
  assumes "action_checks b p h = Inr u"
  shows "hs_latest_observation_id h = Some (ea_observation_id p)"
    and "ha_input_kind (ea_action p) = ''raw_input'' \<Longrightarrow> hs_allow_raw_input h"
    and "ha_element_index (ea_action p) \<noteq> None \<or> ha_element_token (ea_action p) \<noteq> None \<Longrightarrow>
      hs_latest_accessibility_state_id h = Some (ea_accessibility_state_id p)"
  using assms
  by (auto simp: action_checks_def Let_def and_then_Inr_iff guard_def require_latest_observation_def
      split: if_splits)

lemma mark_activity_keeps [simp]:
  "hs_latest_observation_id (mark_activity w h) = hs_latest_observation_id h"
  "hs_latest_accessibility_root (mark_activity w h) = hs_latest_accessibility_root h"
  "hs_latest_accessibility_state_id (mark_activity w h) = hs_latest_accessibility_state_id h"
  "hs_allow_raw_input (mark_activity w h) = hs_allow_raw_input h"
  "hs_task_authorization (mark_activity w h) = hs_task_authorization h"
  by (simp_all add: mark_activity_def)

text \<open>The part of the handler that runs once the action is confirmed.\<close>

definition act_on_evidence ::
  "('st, 'c, 'v) host_env \<Rightarrow> ExecuteActionParams \<Rightarrow> string \<Rightarrow> (handler_reply, ('st, 'c, 'v) host_state) handler" where
  "act_on_evidence env p observation_id =
     chain observe_session (\<lambda>h.
     chain (check (require_keyboard_raw_input_grant (ea_action p) (hs_allow_raw_input h))) (\<lambda>_.
     chain (resolve_action_secret env (ea_action p)) (\<lambda>a.
     chain (dispatch_action env a observation_id) (complete_action env p))))"

lemma chain_pure:
  "chain observe_session k t = k (st_session t) t"
  "chain (check r) l s = (case r of Inl e \<Rightarrow> (Failed e, s) | Inr v \<Rightarrow> l v s)"
  by (auto simp: chain_def observe_session_def check_def split: sum.split)

lemma act_on_evidence_performs:
  assumes "act_on_evidence env p obs s = (out, s')" and "\<not> logged performs s" and "logged performs s'"
  shows "\<exists>pre a ca post. st_log s' = st_log s @ pre @ Native (PerformAction ca) # post
    \<and> list_all (\<lambda>e. \<not> performs e) (pre @ post)
    \<and> resolves (st_log s @ pre) (ea_action p) a \<and> into_computer_use a obs = Inr ca
    \<and> (uses_physical_keyboard (ea_action p) \<longrightarrow> hs_allow_raw_input (st_session s))
    \<and> (hs_task_authorization (st_session s) \<noteq> None \<longrightarrow> pre \<noteq> [] \<and> last pre = Revalidated (Inr ()))"
proof -
  from assms have keyboard: "uses_physical_keyboard (ea_action p) \<longrightarrow> hs_allow_raw_input (st_session s)"
    by (auto simp: act_on_evidence_def chain_pure require_keyboard_raw_input_grant_def guard_def
        split: if_splits)
  from assms have run: "chain (resolve_action_secret env (ea_action p)) (\<lambda>a.
      chain (dispatch_action env a obs) (complete_action env p)) s = (out, s')"
    by (auto simp: act_on_evidence_def chain_pure split: sum.splits)
  with assms(3) have "logged performs (snd (chain (resolve_action_secret env (ea_action p)) (\<lambda>a.
      chain (dispatch_action env a obs) (complete_action env p)) s))" by simp
  then obtain a s1 where a: "resolve_action_secret env (ea_action p) s = (Done a, s1)"
    and fresh: "\<not> logged performs s1"
    by (rule logged_chain) (use assms(2) in \<open>auto intro: effect_resolve_secret\<close>)
  obtain out2 s2 where d: "dispatch_action env a obs s1 = (out2, s2)" by fastforce
  have rest: "chain (dispatch_action env a obs) (complete_action env p) s1 = (out, s')"
    using run a by (simp add: chain_def)
  from chain_tail [OF rest d effect_complete_action] obtain post where
    post: "st_log s' = st_log s2 @ post" "list_all (\<lambda>e. \<not> performs e) post" by blast
  with assms(3) have "logged performs s2" by (auto simp: logged_def list_all_iff)
  from dispatch_performs [OF d fresh this] obtain pre ca post1 where
    p: "st_log s2 = st_log s1 @ pre @ Native (PerformAction ca) # post1"
      "list_all (\<lambda>e. \<not> performs e) (pre @ post1)" "into_computer_use a obs = Inr ca"
      "hs_task_authorization (st_session s1) \<noteq> None \<longrightarrow> pre \<noteq> [] \<and> last pre = Revalidated (Inr ())"
    by blast
  from handler_effect.log_prefix [OF effect_resolve_secret [where P = "\<lambda>e. \<not> performs e"] a] obtain evs where
    evs: "st_log s1 = st_log s @ evs" "list_all (\<lambda>e. \<not> performs e) evs" by auto
  from resolve_action_secret_Done [OF a] have "resolves (st_log s1) (ea_action p) a"
    and same: "st_session s1 = st_session s" by auto
  then have "resolves (st_log s @ evs @ pre) (ea_action p) a"
    by (auto simp: resolves_def evs split: option.splits)
  with p post evs same keyboard show ?thesis
    by (intro exI [of _ "evs @ pre"] exI [of _ a] exI [of _ ca] exI [of _ "post1 @ post"]) auto
qed

lemma execute_action_unfold:
  "execute_action env b p =
     chain (check (post_snapshot_delay (ea_capture_after p) (ea_post_snapshot_delay_ms p))) (\<lambda>_.
     chain (check (validate_post_snapshot_mode (ea_capture_after p) (ea_post_snapshot_mode p))) (\<lambda>_.
     chain (authorized_session env) (\<lambda>_.
     chain observe_session (\<lambda>h.
     chain (check (action_checks b p h)) (\<lambda>_.
     chain (confirm_action env b p) (\<lambda>decision.
       case decision of Inl reply \<Rightarrow> give (Reply reply)
       | Inr observation_id \<Rightarrow> act_on_evidence env p observation_id))))))"
  unfolding execute_action_def act_on_evidence_def ..

text \<open>What the session has to be when an action is admitted.\<close>

definition admits_action :: "('st, 'c, 'v) host_env \<Rightarrow> ExecuteActionParams \<Rightarrow> HostSession \<Rightarrow> bool" where
  "admits_action env p h \<longleftrightarrow>
     \<not> is_idle_expired (en_world env 0) h \<and> \<not> hs_interrupted h
     \<and> \<not> co_interrupted (en_core env) (hs_session h)
     \<and> hs_latest_observation_id h = Some (ea_observation_id p)
     \<and> (ha_element_index (ea_action p) \<noteq> None \<or> ha_element_token (ea_action p) \<noteq> None \<longrightarrow>
          hs_latest_accessibility_state_id h = Some (ea_accessibility_state_id p))
     \<and> (ha_input_kind (ea_action p) = ''raw_input'' \<longrightarrow> hs_allow_raw_input h)
     \<and> safety_tier (ea_action p) (hs_latest_accessibility_root h) \<noteq> HardDeny"

lemma execute_action_performs:
  assumes run: "execute_action env b p s = (out, s')" and new: "st_log s = []" and after: "logged performs s'"
  obtains s1 s2 obs where "authorized_session env s = (Done (), s1)" and "action_checks b p (st_session s1) = Inr ()"
    and "confirm_action env b p s1 = (Done (Inr obs), s2)" and "\<not> logged performs s2"
    and "act_on_evidence env p obs s2 = (out, s')"
proof -
  have fresh: "\<not> logged performs s" by (simp add: logged_def new)
  with run after have run1: "chain (authorized_session env) (\<lambda>_.
     chain observe_session (\<lambda>h.
     chain (check (action_checks b p h)) (\<lambda>_.
     chain (confirm_action env b p) (\<lambda>decision.
       case decision of Inl reply \<Rightarrow> give (Reply reply)
       | Inr observation_id \<Rightarrow> act_on_evidence env p observation_id)))) s = (out, s')"
    by (auto simp: execute_action_unfold chain_pure split: sum.splits)
  from after run1 have "logged performs (snd (chain (authorized_session env) (\<lambda>_.
     chain observe_session (\<lambda>h.
     chain (check (action_checks b p h)) (\<lambda>_.
     chain (confirm_action env b p) (\<lambda>decision.
       case decision of Inl reply \<Rightarrow> give (Reply reply)
       | Inr observation_id \<Rightarrow> act_on_evidence env p observation_id)))) s))" by simp
  then obtain s1 where s1: "authorized_session env s = (Done (), s1)" "\<not> logged performs s1"
    by (rule logged_chain) (use fresh admission_quiet [OF admission.handler_effect_axioms] in auto)
  with run1 have run2: "chain observe_session (\<lambda>h. chain (check (action_checks b p h)) (\<lambda>_.
     chain (confirm_action env b p) (\<lambda>decision.
       case decision of Inl reply \<Rightarrow> give (Reply reply)
       | Inr observation_id \<Rightarrow> act_on_evidence env p observation_id))) s1 = (out, s')"
    by (simp add: chain_def)
  with after s1(2) have ok: "action_checks b p (st_session s1) = Inr ()"
    and run3: "chain (confirm_action env b p) (\<lambda>decision.
       case decision of Inl reply \<Rightarrow> give (Reply reply)
       | Inr observation_id \<Rightarrow> act_on_evidence env p observation_id) s1 = (out, s')"
    by (auto simp: chain_pure split: sum.splits)
  from after run3 have "logged performs (snd (chain (confirm_action env b p) (\<lambda>decision.
       case decision of Inl reply \<Rightarrow> give (Reply reply)
       | Inr observation_id \<Rightarrow> act_on_evidence env p observation_id) s1))" by simp
  then obtain d s2 where s2: "confirm_action env b p s1 = (Done d, s2)" "\<not> logged performs s2"
    by (rule logged_chain) (use s1(2) in \<open>auto intro: effect_confirm_action\<close>)
  from run3 s2 after obtain obs where "d = Inr obs" "act_on_evidence env p obs s2 = (out, s')"
    by (auto simp: chain_def give_def split: sum.splits)
  with s1(1) ok s2 that show ?thesis by blast
qed

text \<open>
  C3. An action reaches the native session at most once, and only for a session that is neither
  idle-expired nor interrupted, against its latest observation, with its lease revalidated, not for
  a hard-denied action, with the raw-input grant where it needs one. Where the policy asks for
  confirmation, or the session holds a lease, this very action was asked about for this session and
  observation and allowed; under a lease the last event before the action is a successful
  revalidation; and a secret handle was resolved in the vault.
\<close>

theorem executed_action_authorized:
  assumes "execute_action env b p s = (out, s')" and "st_log s = []" and "logged performs s'"
  shows "\<exists>pre obs a ca post. st_log s' = pre @ Native (PerformAction ca) # post
    \<and> list_all (\<lambda>e. \<not> performs e) (pre @ post)
    \<and> into_computer_use a obs = Inr ca \<and> resolves pre (ea_action p) a
    \<and> Revalidated (Inr ()) \<in> set pre \<and> admits_action env p (st_session s)
    \<and> (uses_physical_keyboard (ea_action p) \<longrightarrow> hs_allow_raw_input (st_session s))
    \<and> (requires_confirmation (safety_tier (ea_action p) (hs_latest_accessibility_root (st_session s)))
       \<or> hs_task_authorization (st_session s) \<noteq> None \<longrightarrow>
        (\<exists>request. Asked request Allowed \<in> set pre \<and> cr_session_id request = wb_session_id b
          \<and> cr_observation_id request = ea_observation_id p
          \<and> cr_action request = action_value (ea_action p)
              (authorization_category (ea_action p) (hs_latest_accessibility_root (st_session s)))))
    \<and> (hs_task_authorization (st_session s) \<noteq> None \<longrightarrow> last pre = Revalidated (Inr ()))"
proof -
  from assms obtain s1 s2 obs where r:
    "authorized_session env s = (Done (), s1)" "action_checks b p (st_session s1) = Inr ()"
    "confirm_action env b p s1 = (Done (Inr obs), s2)" "\<not> logged performs s2"
    "act_on_evidence env p obs s2 = (out, s')"
    by (rule execute_action_performs)
  from r(1) have s1: "st_log s1 = [Revalidated (Inr ())]"
      "st_session s1 = mark_activity (en_world env 2) (st_session s)"
      "\<not> is_idle_expired (en_world env 0) (st_session s)" "\<not> hs_interrupted (st_session s)"
      "\<not> co_interrupted (en_core env) (hs_session (st_session s))"
    by (auto simp: authorized_Done assms(2))
  note confirmed = confirm_action_Done [OF r(3) refl]
  have eff: "handler_effect (confirm_action env b p) (\<lambda>e. \<not> performs e)"
    by (rule effect_confirm_action) auto
  from handler_effect.log_prefix [OF eff r(3)] obtain evs where
    evs: "st_log s2 = Revalidated (Inr ()) # evs" "list_all (\<lambda>e. \<not> performs e) evs" by (auto simp: s1)
  have same: "hs_task_authorization (st_session s2) = hs_task_authorization (st_session s)"
      "hs_allow_raw_input (st_session s2) = hs_allow_raw_input (st_session s)"
    using grants_eqD [OF handler_effect.grants_same [OF eff r(3)]] by (auto simp: s1)
  from act_on_evidence_performs [OF r(5,4) assms(3)] obtain pre a ca post where
    a: "st_log s' = st_log s2 @ pre @ Native (PerformAction ca) # post"
      "list_all (\<lambda>e. \<not> performs e) (pre @ post)" "resolves (st_log s2 @ pre) (ea_action p) a"
      "into_computer_use a obs = Inr ca"
      "uses_physical_keyboard (ea_action p) \<longrightarrow> hs_allow_raw_input (st_session s2)"
      "hs_task_authorization (st_session s2) \<noteq> None \<longrightarrow> pre \<noteq> [] \<and> last pre = Revalidated (Inr ())"
    by blast
  have "admits_action env p (st_session s)"
    using action_checks_Inr [OF r(2)] confirmed(1) s1 by (simp add: admits_action_def)
  moreover have "requires_confirmation (safety_tier (ea_action p) (hs_latest_accessibility_root (st_session s)))
       \<or> hs_task_authorization (st_session s) \<noteq> None \<longrightarrow>
        (\<exists>request. Asked request Allowed \<in> set (st_log s2 @ pre) \<and> cr_session_id request = wb_session_id b
          \<and> cr_observation_id request = ea_observation_id p
          \<and> cr_action request = action_value (ea_action p)
              (authorization_category (ea_action p) (hs_latest_accessibility_root (st_session s))))"
    using confirmed(2) by (auto simp: s1)
  ultimately show ?thesis
    using a evs same by (intro exI [of _ "st_log s2 @ pre"] exI [of _ obs] exI [of _ a] exI [of _ ca]
      exI [of _ post]) auto
qed

text \<open>A leased session whose user confirms nothing by hand: the lease allows the click.\<close>

definition example_core :: core_driver where
  "example_core =
     \<lparr>co_call = (\<lambda>_ c. (Inr JNull, c)), co_screenshot = (\<lambda>_ c. (Inr (''o2'', JNull), c)),
      co_live = (\<lambda>_ c. (JNull, c)), co_tool = (\<lambda>_ _ _. Inr JNull), co_tools_done = (\<lambda>_ c. c),
      co_target = (\<lambda>_. None), co_interrupted = (\<lambda>_. False), co_banner_failure = (\<lambda>_. None),
      co_refresh_due = (\<lambda>_. False)\<rparr>"

definition example_env :: "(unit, unit, unit) host_env" where
  "example_env =
     \<lparr>en_externs = example_externs, en_world = (\<lambda>_. example_world), en_clock = (\<lambda>_ _. example_world),
      en_uuid = (\<lambda>_. ''u''), en_task_host = Some example_host, en_confirmation_host = None,
      en_vault = None, en_core = example_core,
      en_browser = \<lparr>bx_externs = example_externs, bx_base64_decode = Inr, bx_lstat = (\<lambda>_. None),
        bx_canonicalize = Some, bx_read_file = (\<lambda>_. None), bx_file_url = (\<lambda>_. None)\<rparr>,
      en_await_turn = (\<lambda>st. st), en_async = (\<lambda>_ c. c), en_sleeps = 0\<rparr>"

definition example_seen :: ComputerUseObservation where
  "example_seen = \<lparr>ob_observation_id = ''o1'', ob_window_handle = 9, ob_process_id = 7, ob_window_title = ''t'',
     ob_width = 1, ob_height = 1, ob_source_rect = (0, 0, 1, 1), ob_capture_backend = ''b'',
     ob_capture_provenance = JNull, ob_session_id = ''dcc-cua-window-1''\<rparr>"

definition example_leased_state :: "(unit, unit, unit) host_state" where
  "example_leased_state =
     \<lparr>st_session = example_host_session\<lparr>hs_target_process_id := 7, hs_capability := ''w'',
        hs_session := example_core_session\<lparr>cs_observation := Some example_seen\<rparr>,
        hs_task_authorization := Some example_lease\<rparr>,
      st_task = (), st_confirm = (), st_vault = (), st_log = []\<rparr>"

definition example_binding_w :: CapturePreparationBindings where
  "example_binding_w = \<lparr>wb_session_id = ''s'', wb_task_grant_id = ''g'', wb_window_capability = ''w''\<rparr>"

definition example_click :: ExecuteActionParams where
  "example_click = \<lparr>ea_observation_id = ''o1'', ea_accessibility_state_id = ''o1'',
     ea_action = example_movement\<lparr>ha_action := ''click'', ha_intent := ''send'', ha_keys := [],
       ha_duration_ms := None, ha_x := Some 1, ha_y := Some 2\<rparr>,
     ea_capture_after = False, ea_post_snapshot_delay_ms = 0, ea_post_snapshot_max_depth = 0,
     ea_post_snapshot_max_nodes = 0, ea_post_snapshot_mode = FullSnapshot\<rparr>"

lemma example_lease_active:
  "validate_active_task_authorization example_externs (Some example_host) ''u'' example_world
     (\<lambda>_. example_world) (Some example_lease) st = (Inr (), ())"
  by (simp add: validate_active_task_authorization_def example_lease_valid)
     (simp add: example_host_def lease_validation_request_def digest_def digest_with_context_def
      example_externs_def)

lemma example_revalidate:
  "hs_task_authorization (st_session s) = Some example_lease \<Longrightarrow>
   revalidate_lease example_env k s = (Done (), s\<lparr>st_log := st_log s @ [Revalidated (Inr ())]\<rparr>)"
  by (simp add: revalidate_lease_def example_env_def example_lease_active log_event_def check_def)

lemma example_click_scope:
  assumes "cr_action c = action_value (ea_action example_click) ''raw_input''"
  shows "from_confirmation c = Some example_scope"
  using assms
  by (simp add: from_confirmation_def action_value_def example_click_def example_movement_def
      get_str_def json_field_opt_def example_scope_def)

lemma example_click_category: "authorization_category (ea_action example_click) root = ''raw_input''"
  by (simp add: authorization_category_def example_click_def example_movement_def)

lemma example_click_tier: "safety_tier (ea_action example_click) root = ActionConfirmation"
  by (simp add: safety_tier_def base_tier_def raw_pointer_tier_def is_task_granted_pointer_input_def
      uses_physical_keyboard_def example_click_def example_movement_def)

definition example_admitted :: "(unit, unit, unit) host_state" where
  "example_admitted = example_leased_state
     \<lparr>st_log := [Revalidated (Inr ())],
      st_session := mark_activity example_world (st_session example_leased_state)\<rparr>"

lemma example_env_simps [simp]:
  "en_externs example_env = example_externs" "en_world example_env k = example_world"
  "en_clock example_env k = (\<lambda>_. example_world)" "en_uuid example_env k = ''u''"
  "en_task_host example_env = Some example_host" "en_core example_env = example_core"
  "en_await_turn example_env = (\<lambda>st. st)" "en_async example_env k = (\<lambda>c. c)"
  "co_interrupted example_core c = False" "co_banner_failure example_core c = None"
  "co_call example_core call c = (Inr JNull, c)" "co_refresh_due example_core c = False"
  by (simp_all add: example_env_def example_core_def fun_eq_iff)

lemma example_click_simps [simp]:
  "ea_observation_id example_click = ''o1''" "ea_accessibility_state_id example_click = ''o1''"
  "ha_intent (ea_action example_click) = ''send''" "ea_capture_after example_click = False"
  "ea_post_snapshot_delay_ms example_click = 0" "ea_post_snapshot_mode example_click = FullSnapshot"
  by (simp_all add: example_click_def)

lemma example_admission: "authorized_session example_env example_leased_state = (Done (), example_admitted)"
  by (simp add: authorized_Done)
     (simp add: example_admitted_def example_leased_state_def example_lease_active, simp add: example_host_session_def
      is_idle_expired_def example_world_def)

lemma example_confirmation_asked:
  assumes "cr_action c = action_value (ea_action example_click) ''raw_input''"
    and "\<not> confirmation_out_of_lease c example_lease"
  shows "authorize_task_scoped_action example_externs (Some example_host) ''u'' example_world
     (\<lambda>_. example_world) (Some example_lease) c st = (OutcomeAllowed, ())"
  using assms(2)
  by (simp add: authorize_task_scoped_action_def example_click_scope [OF assms(1)])
     (simp add: example_lease_def example_world_def example_host_def unix_time_millis_def millis_u64_def
        validation_request_def digest_def digest_with_context_def example_externs_def)

lemma example_confirmed:
  "\<exists>request. confirm_action example_env example_binding_w example_click example_admitted
     = (Done (Inr ''o1''), example_admitted\<lparr>st_log := [Revalidated (Inr ()), Asked request Allowed]\<rparr>)"
proof -
  define bd where "bd = confirmation_binding example_binding_w (st_session example_admitted) ''o1'' (Some ''o1'')"
  define v where "v = action_value (ea_action example_click) ''raw_input''"
  obtain c where c: "confirmation_new_value example_externs ''u'' bd ''send'' v = Inr c"
    by (simp add: confirmation_new_value_def digest_with_context_def example_externs_def)
  have h: "hs_task_authorization (st_session example_admitted) = Some example_lease"
      "cs_observation (hs_session (st_session example_admitted)) = Some example_seen"
      "hs_observation_mode (st_session example_admitted) = Semantic"
    by (simp_all add: example_admitted_def example_leased_state_def mark_activity_def example_host_session_def)
  have inside: "\<not> confirmation_out_of_lease c example_lease"
    using c by (auto simp: confirmation_new_value_def and_then_Inr_iff confirmation_out_of_lease_def
      bd_def confirmation_binding_def confirmation_binding_window_def example_binding_w_def example_lease_def
      example_admitted_def example_leased_state_def mark_activity_def example_host_session_def)
  have "cr_action c = v" using confirmation_new_value_binding [OF c] by simp
  then have "ask_confirmation example_env c example_admitted =
      (Done Allowed, example_admitted\<lparr>st_log := [Revalidated (Inr ()), Asked c Allowed]\<rparr>)"
    using example_confirmation_asked [OF _ inside]
    by (simp add: ask_confirmation_def h authorize_window_confirmation_def v_def log_event_def)
       (simp add: example_admitted_def)
  then have asked: "request_confirmation example_env bd ''send'' v example_admitted =
      (Done Allowed, example_admitted\<lparr>st_log := [Revalidated (Inr ()), Asked c Allowed]\<rparr>)"
    by (simp add: request_confirmation_def chain_pure c)
  have "chain (request_confirmation example_env bd ''send'' v) k example_admitted =
      k Allowed (example_admitted\<lparr>st_log := [Revalidated (Inr ()), Asked c Allowed]\<rparr>)"
    for k :: "ActionConfirmationOutcome \<Rightarrow> (json + string, (unit, unit, unit) host_state) handler"
    by (simp add: chain_def asked)
  then show ?thesis
    by (intro exI [of _ c])
       (simp add: confirm_action_def chain_pure Let_def example_click_tier example_click_category h
        rejection_def v_def bd_def confirmed_action_evidence_refresh_def give_def)
qed

lemma example_click_converts: "\<exists>ca. into_computer_use (ea_action example_click) ''o1'' = Inr ca"
  by (simp add: into_computer_use_def validate_secret_source_def example_click_def example_movement_def)

lemma example_performed:
  assumes "hs_task_authorization (st_session s) = Some example_lease" and "\<not> hs_interrupted (st_session s)"
    and "hs_allow_raw_input (st_session s)"
  shows "logged performs (snd (act_on_evidence example_env example_click ''o1'' s))"
proof -
  obtain ca where ca: "into_computer_use (ea_action example_click) ''o1'' = Inr ca"
    using example_click_converts by blast
  have secret: "ha_secret_handle (ea_action example_click) = None"
    by (simp add: example_click_def example_movement_def)
  define s1 where "s1 = s\<lparr>st_log := st_log s @ [Revalidated (Inr ())]\<rparr>"
  have queued: "revalidate_queued_action example_env s = (Done (), s1)"
    using assms
    by (simp add: revalidate_queued_action_def revalidate_queued_window_mutation_def chain_Done_iff
        chain_pure ensure_not_interrupted_Done example_revalidate s1_def)
  have turn: "acquire_raw_input_turn example_env enabled s = (Done (), s)" for enabled
    by (simp add: acquire_raw_input_turn_def)
  have "logged performs (snd (core_call example_core (PerformAction ca) s1))"
    by (simp add: core_call_def logged_def log_event_def s1_def)
  then have "logged performs (snd (dispatch_action example_env (ea_action example_click) ''o1'' s))"
    by (simp add: dispatch_action_def ca check_core_def to_host_error_def map_err_def chain_pure
        chain_def [of "acquire_raw_input_turn example_env e" for e] turn
        chain_def [of "revalidate_queued_action example_env"] queued)
       (rule logged_kept, auto intro!: effect_chain effect_finish_attempt effect_update)
  moreover have "act_on_evidence example_env example_click ''o1'' s =
      chain (dispatch_action example_env (ea_action example_click) ''o1'') (complete_action example_env example_click) s"
    by (simp add: act_on_evidence_def chain_pure require_keyboard_raw_input_grant_def assms
        resolve_action_secret_def secret chain_def [of "give v" for v] give_def)
  ultimately show ?thesis by (simp add: logged_kept [OF _ effect_complete_action])
qed

theorem executed_action_authorized_witness:
  "\<exists>pre post ca request. st_log (snd (execute_action example_env example_binding_w example_click
       example_leased_state)) = pre @ Native (PerformAction ca) # post
     \<and> Asked request Allowed \<in> set pre \<and> last pre = Revalidated (Inr ())"
proof -
  obtain out s' where run: "execute_action example_env example_binding_w example_click
      example_leased_state = (out, s')" by fastforce
  obtain request s2 where c: "confirm_action example_env example_binding_w example_click example_admitted
     = (Done (Inr ''o1''), s2)" "s2 = example_admitted\<lparr>st_log := [Revalidated (Inr ()), Asked request Allowed]\<rparr>"
    using example_confirmed by blast
  have checks: "action_checks example_binding_w example_click (st_session example_admitted) = Inr ()"
    by (simp add: action_checks_def Let_def example_click_def example_movement_def validate_secret_source_def
        require_latest_observation_def example_admitted_def example_leased_state_def mark_activity_def
        example_host_session_def to_host_error_def map_err_def)
  have s: "st_log example_leased_state = []" "hs_task_authorization (st_session example_leased_state) \<noteq> None"
    by (simp_all add: example_leased_state_def)
  have "act_on_evidence example_env example_click ''o1'' s2 = (out, s')"
    using run
    by (simp add: execute_action_unfold chain_pure chain_def [of "authorized_session example_env"]
        chain_def [of "confirm_action example_env b example_click" for b] example_admission c checks
        post_snapshot_delay_def MAX_POST_SNAPSHOT_DELAY_MS_def validate_post_snapshot_mode_def)
  moreover have "logged performs (snd (act_on_evidence example_env example_click ''o1'' s2))"
    by (rule example_performed)
       (simp_all add: c example_admitted_def example_leased_state_def mark_activity_def example_host_session_def)
  ultimately have "logged performs s'" by simp
  from executed_action_authorized [OF run s(1) this] s(2) show ?thesis
    by (auto simp: run)
qed

end
