(* ===== verification/Browser_Runs.thy ===== *)
theory Browser_Runs
  imports Browser_Operations
begin

text \<open>
  Runs of browser operations. Two locales state the contract of an operation: a
  \<open>native_operation\<close> issues at most one native call and spends the evidence of the latest snapshot
  with it, and an \<open>evidence_operation\<close> issues its call only on the bound target, the observed tab
  and the latest snapshot. Every operation but the snapshot is interpreted in them.
\<close>

named_theorems browser_steps \<open>evaluation of the steps of an operation\<close>

abbreviation calls_of :: "browser_step \<Rightarrow> native_calls" where "calls_of st \<equiv> fst st"
abbreviation session_of :: "browser_step \<Rightarrow> BrowserSession" where "session_of st \<equiv> snd (snd st)"

lemma refuse_step [simp]: "calls_of (refuse e s) = []" "session_of (refuse e s) = s"
  by (simp_all add: refuse_def)

lemma native_attempt_step [simp]:
  "calls_of (native_attempt native tool args s f) = [(tool, args)]"
  "session_of (native_attempt native tool args s f) = clear_snapshot s"
  by (simp_all add: native_attempt_def)

lemma checked_calls: "calls_of (checked r s k) \<noteq> [] \<longleftrightarrow> (\<exists>v. r = Inr v \<and> calls_of (k v) \<noteq> [])"
  by (cases r) (simp_all add: checked_def)

lemma checked_Inr [simp]: "checked (Inr v) s k = k v" "checked (Inl e) s k = refuse e s"
  by (simp_all add: checked_def)

lemma checked_cases:
  obtains e where "r = Inl e" "checked r s k = refuse e s" | v where "r = Inr v" "checked r s k = k v"
  by (cases r) (simp_all add: checked_def)

text \<open>A step is silent, or one call that spends the evidence.\<close>

definition spends :: "string \<Rightarrow> BrowserSession \<Rightarrow> browser_step \<Rightarrow> bool" where
  "spends tool s st \<longleftrightarrow>
     calls_of st = [] \<and> session_of st = s
     \<or> (\<exists>args. calls_of st = [(tool, args)] \<and> session_of st = clear_snapshot s)"

lemma spends_refuse [browser_steps]: "spends tool s (refuse e s)"
  by (simp add: spends_def)

lemma spends_attempt [browser_steps]: "spends tool s (native_attempt native tool args s f)"
  by (simp add: spends_def)

lemma spends_checked [browser_steps]:
  "(\<And>v. r = Inr v \<Longrightarrow> spends tool s (k v)) \<Longrightarrow> spends tool s (checked r s k)"
  by (cases r) (simp_all add: spends_refuse)

locale native_operation =
  fixes tool :: string and op :: "BrowserSession \<Rightarrow> browser_step"
  assumes op_spends: "spends tool s (op s)"
begin

lemma silent_or_spent:
  "calls_of (op s) = [] \<and> session_of (op s) = s
   \<or> (\<exists>args. calls_of (op s) = [(tool, args)] \<and> bw_latest_snapshot_id (session_of (op s)) = None
        \<and> bw_latest_origin (session_of (op s)) = None \<and> bw_target_id (session_of (op s)) = bw_target_id s)"
  using op_spends [of s] by (auto simp: spends_def clear_snapshot_def)

end

text \<open>The call of a step carries the given target and tab.\<close>

definition call_names :: "string \<Rightarrow> string \<Rightarrow> browser_step \<Rightarrow> bool" where
  "call_names target tab st \<longleftrightarrow>
     (\<forall>(tool, args) \<in> set (calls_of st).
        json_index args ''target_id'' = JStr target \<and> json_index args ''tab_id'' = JStr tab)"

lemma call_names_refuse [browser_steps]: "call_names target tab (refuse e s)"
  by (simp add: call_names_def)

lemma call_names_checked [browser_steps]:
  "(\<And>v. r = Inr v \<Longrightarrow> call_names target tab (k v)) \<Longrightarrow> call_names target tab (checked r s k)"
  by (cases r) (simp_all add: call_names_refuse)

lemma call_names_attempt:
  "json_index args ''target_id'' = JStr target \<Longrightarrow> json_index args ''tab_id'' = JStr tab \<Longrightarrow>
   call_names target tab (native_attempt native tool args s f)"
  by (simp add: call_names_def)

lemma json_index_set [simp]:
  "json_index (json_set k v (JObj fs)) k' = (if k = k' then v else json_index (JObj fs) k')"
  by (simp add: json_index_def)

definition is_object :: "json \<Rightarrow> bool" where
  "is_object j \<longleftrightarrow> as_object j \<noteq> None"

lemma is_object_simps [simp]:
  "is_object (JObj fs)" "is_object (json_set k v j) = is_object j"
  "is_object (json_set_opt k f x j) = is_object j"
  by (cases j; simp add: is_object_def json_set_opt_def split: option.split)+

lemma json_index_set_opt [simp]:
  assumes "k \<noteq> k'"
  shows "json_index (json_set_opt k f x j) k' = json_index j k'"
proof (cases x)
  case (Some v)
  then show ?thesis using assms by (cases j) (simp_all add: json_set_opt_def json_index_def)
qed (simp add: json_set_opt_def)

lemma json_index_obj [simp]: "json_index (JObj ((k, v) # fs)) k' = (if k = k' then v else json_index (JObj fs) k')"
  by (simp add: json_index_def)

locale evidence_operation = native_operation tool op
  for tool :: string and op :: "BrowserSession \<Rightarrow> browser_step" +
  fixes target tab snapshot :: string
  assumes op_names: "call_names target tab (op s)"
    and op_needs: "calls_of (op s) \<noteq> [] \<Longrightarrow> require_mutation_target target tab snapshot s = Inr ()"
begin

lemma call_on_evidence:
  assumes "calls_of (op s) \<noteq> []"
  shows "\<exists>args. calls_of (op s) = [(tool, args)] \<and> session_of (op s) = clear_snapshot s
    \<and> json_index args ''target_id'' = JStr target \<and> json_index args ''tab_id'' = JStr tab
    \<and> bw_target_id s = Some target \<and> bw_latest_tab_id s = Some tab
    \<and> bw_latest_snapshot_id s = Some snapshot \<and> bw_mutation_allowed s"
  using assms op_spends [of s] op_names [of s] op_needs [of s]
  by (auto simp: spends_def call_names_def require_mutation_target_def require_exact_target_def
      require_bound_target_def and_then_Inr_iff)

end

section \<open>The operations meet their contracts\<close>

lemmas operation_defs = browser_prepare_def browser_navigate_def browser_click_def
  browser_type_text_def browser_pointer_def browser_set_input_files_def browser_download_def
  browser_dialog_def

lemma evidence_needs:
  "calls_of (checked (require_mutation_target a b c s) s k) \<noteq> [] \<Longrightarrow>
   require_mutation_target a b c s = Inr ()"
  by (cases "require_mutation_target a b c s") auto

interpretation prepare_op: native_operation "''browser_prepare''" "browser_prepare env native target r"
  by unfold_locales (auto simp: browser_prepare_def Let_def intro!: browser_steps)

interpretation navigate_op: native_operation "''browser_navigate''" "browser_navigate env native r"
  by unfold_locales (auto simp: browser_navigate_def Let_def intro!: browser_steps)

interpretation dialog_op: native_operation "''browser_dialog''" "browser_dialog env native r"
  by unfold_locales (auto simp: browser_dialog_def Let_def intro!: browser_steps)

interpretation click_op: evidence_operation "''browser_click''" "browser_click env native r"
  "bcr_target_id r" "bcr_tab_id r" "bcr_snapshot_id r"
  by unfold_locales
     (auto simp: browser_click_def Let_def intro!: browser_steps call_names_attempt
       dest: evidence_needs)

interpretation type_op: evidence_operation "''browser_type''" "browser_type_text env native r"
  "rt_target_id r" "rt_tab_id r" "rt_snapshot_id r"
  by unfold_locales
     (auto simp: browser_type_text_def intro!: browser_steps call_names_attempt dest: evidence_needs)

interpretation pointer_op: evidence_operation "''browser_pointer''" "browser_pointer env native r"
  "bpt_target_id r" "bpt_tab_id r" "bpt_snapshot_id r"
  by unfold_locales
     (auto simp: browser_pointer_def Let_def intro!: browser_steps call_names_attempt
       dest: evidence_needs)

interpretation files_op: evidence_operation "''browser_set_input_files''"
  "browser_set_input_files env native r" "bif_target_id r" "bif_tab_id r" "bif_snapshot_id r"
  by unfold_locales
     (auto simp: browser_set_input_files_def intro!: browser_steps call_names_attempt
       dest: evidence_needs)

interpretation download_op: evidence_operation "''browser_download''" "browser_download env native r"
  "bdl_target_id r" "bdl_tab_id r" "bdl_snapshot_id r"
  by unfold_locales
     (auto simp: browser_download_def intro!: browser_steps call_names_attempt dest: evidence_needs)

section \<open>Snapshots\<close>

text \<open>The snapshot id of a session rests on the last call: it names the session's target and tab.\<close>

definition evidence_from :: "native_calls \<Rightarrow> BrowserSession \<Rightarrow> bool" where
  "evidence_from calls s \<longleftrightarrow>
     (bw_latest_snapshot_id s \<noteq> None \<longrightarrow>
        (\<exists>args target tab. calls \<noteq> [] \<and> last calls = (''get_browser_state'', args)
           \<and> json_index args ''target_id'' = JStr target \<and> json_index args ''tab_id'' = JStr tab
           \<and> bw_target_id s = Some target \<and> bw_latest_tab_id s = Some tab))"

lemma clear_snapshot_simps [simp]:
  "bw_latest_snapshot_id (clear_snapshot s) = None" "bw_target_id (clear_snapshot s) = bw_target_id s"
  "bw_latest_tab_id (clear_snapshot s) = None" "bw_latest_origin (clear_snapshot s) = None"
  by (simp_all add: clear_snapshot_def)

lemma evidence_from_cleared [simp]: "evidence_from calls (clear_snapshot s)"
  by (simp add: evidence_from_def)

lemma store_binding_evidence: "bw_latest_snapshot_id s = None \<Longrightarrow> bw_latest_snapshot_id (snd (store_binding v s)) = None"
  by (auto simp: store_binding_def split: sum.split option.split)

lemma finish_bind_evidence:
  "bw_latest_snapshot_id s = None \<Longrightarrow> bw_latest_snapshot_id (snd (finish_bind_snapshot x s r)) = None"
  using store_binding_evidence [of s "brs_value r"]
  by (auto simp: finish_bind_snapshot_def split: sum.split option.split prod.split)

lemma finish_tab_evidence:
  assumes "bw_latest_snapshot_id s = None" and "bw_target_id s = Some target"
  shows "bw_latest_snapshot_id (snd (finish_tab_snapshot x e target tab s r)) = None
    \<or> bw_target_id (snd (finish_tab_snapshot x e target tab s r)) = Some target
      \<and> bw_latest_tab_id (snd (finish_tab_snapshot x e target tab s r)) = Some tab"
  using assms by (auto simp: finish_tab_snapshot_def publish_snapshot_def split: sum.split bool.split)

lemma snapshot_call_step:
  "calls_of (snapshot_call env native args s finish) = [(''get_browser_state'', args)]"
  "session_of (snapshot_call env native args s finish) = clear_snapshot s
   \<or> (\<exists>result. session_of (snapshot_call env native args s finish) = snd (finish (clear_snapshot s) result))"
  by (auto simp: snapshot_call_def Let_def split: sum.split)

lemma snapshot_call_bind_evidence:
  "evidence_from calls (session_of (snapshot_call env native args s (finish_bind_snapshot e)))"
  using snapshot_call_step(2) [of env native args s "finish_bind_snapshot e"]
  by (auto simp: evidence_from_def finish_bind_evidence)

lemma snapshot_call_tab_evidence:
  assumes target: "bw_target_id s = Some target"
    and "is_object args"
    and a: "args' = json_set ''tab_id'' (JStr tab) (json_set ''target_id'' (JStr target) args)"
  shows "evidence_from (calls @ calls_of (snapshot_call env native args' s (finish_tab_snapshot x e target tab)))
    (session_of (snapshot_call env native args' s (finish_tab_snapshot x e target tab)))"
proof -
  have idx: "json_index args' ''target_id'' = JStr target" "json_index args' ''tab_id'' = JStr tab"
    using assms(2) a by (cases args; simp add: is_object_def json_index_def)+
  from snapshot_call_step(2) [of env native args' s "finish_tab_snapshot x e target tab"]
  show ?thesis
  proof
    assume "\<exists>result. session_of (snapshot_call env native args' s (finish_tab_snapshot x e target tab))
        = snd (finish_tab_snapshot x e target tab (clear_snapshot s) result)"
    then obtain result where
      "session_of (snapshot_call env native args' s (finish_tab_snapshot x e target tab))
        = snd (finish_tab_snapshot x e target tab (clear_snapshot s) result)" ..
    with finish_tab_evidence [of "clear_snapshot s" target x e tab result] target idx show ?thesis
      by (auto simp: evidence_from_def snapshot_call_step(1))
  qed simp
qed

lemma snapshot_args_object: "browser_snapshot_args r = Inr args \<Longrightarrow> is_object args"
  by (auto simp: browser_snapshot_args_def and_then_Inr_iff)

lemma evidence_from_refuse: "evidence_from calls s \<Longrightarrow> evidence_from (calls @ calls_of (refuse e s)) (session_of (refuse e s))"
  by simp

lemma evidence_from_checked:
  assumes "evidence_from calls s"
    and "\<And>v. r = Inr v \<Longrightarrow> evidence_from (calls @ calls_of (k v)) (session_of (k v))"
  shows "evidence_from (calls @ calls_of (checked r s k)) (session_of (checked r s k))"
  using assms by (cases r) simp_all

lemma snapshot_route_evidence:
  assumes "evidence_from calls s" and "is_object args"
  shows "evidence_from (calls @ calls_of (browser_snapshot_route env native r args e s))
    (session_of (browser_snapshot_route env native r args e s))"
  using assms
  by (auto simp: browser_snapshot_route_def require_bound_target_def split: option.split
      intro!: evidence_from_checked snapshot_call_bind_evidence snapshot_call_tab_evidence)

lemma browser_snapshot_evidence:
  assumes "evidence_from calls s"
  shows "evidence_from (calls @ calls_of (browser_snapshot env native r s))
    (session_of (browser_snapshot env native r s))"
  unfolding browser_snapshot_def
  by (intro evidence_from_checked assms snapshot_route_evidence) (rule snapshot_args_object)

lemma browser_snapshot_calls:
  "calls_of (browser_snapshot env native r s) = []
   \<or> (\<exists>args. calls_of (browser_snapshot env native r s) = [(''get_browser_state'', args)])"
proof -
  have route: "calls_of (browser_snapshot_route env native r args e s) = []
     \<or> (\<exists>a. calls_of (browser_snapshot_route env native r args e s) = [(''get_browser_state'', a)])" for args e
    by (auto simp: browser_snapshot_route_def checked_def snapshot_call_step split: option.split sum.split)
  show ?thesis using route by (auto simp: browser_snapshot_def checked_def split: sum.split)
qed

section \<open>Runs\<close>

datatype browser_op =
    OpBind string
  | OpInvalidate
  | OpPrepare "json option" BrowserPrepareRequest
  | OpSnapshot BrowserSnapshotRequest
  | OpNavigate BrowserNavigateRequest
  | OpClick BrowserClickRequest
  | OpType ResolvedBrowserTypeRequest
  | OpPointer BrowserPointerRequest
  | OpFiles BrowserSetInputFilesRequest
  | OpDownload BrowserDownloadRequest
  | OpDialog BrowserDialogRequest

definition effect :: "browser_step \<Rightarrow> native_calls \<times> BrowserSession" where
  "effect st = (calls_of st, session_of st)"

fun perform ::
  "browser_env \<Rightarrow> native_tool \<Rightarrow> browser_op \<Rightarrow> BrowserSession \<Rightarrow> native_calls \<times> BrowserSession" where
  "perform env native (OpBind t) s = ([], snd (bind_authorized_exact_target t s))"
| "perform env native OpInvalidate s = ([], clear_snapshot s)"
| "perform env native (OpPrepare target r) s = effect (browser_prepare env native target r s)"
| "perform env native (OpSnapshot r) s = effect (browser_snapshot env native r s)"
| "perform env native (OpNavigate r) s = effect (browser_navigate env native r s)"
| "perform env native (OpClick r) s = effect (browser_click env native r s)"
| "perform env native (OpType r) s = effect (browser_type_text env native r s)"
| "perform env native (OpPointer r) s = effect (browser_pointer env native r s)"
| "perform env native (OpFiles r) s = effect (browser_set_input_files env native r s)"
| "perform env native (OpDownload r) s = effect (browser_download env native r s)"
| "perform env native (OpDialog r) s = effect (browser_dialog env native r s)"

fun browser_run ::
  "(browser_env \<times> native_tool \<times> browser_op) list \<Rightarrow> BrowserSession \<Rightarrow> native_calls \<times> BrowserSession" where
  "browser_run [] s = ([], s)"
| "browser_run ((env, native, op) # ops) s =
     (let (calls, s') = perform env native op s; (calls', s'') = browser_run ops s'
      in (calls @ calls', s''))"

definition evidence_tools :: "string set" where
  "evidence_tools = {''browser_click'', ''browser_type'', ''browser_pointer'',
     ''browser_set_input_files'', ''browser_download''}"

text \<open>Every call of an evidence tool directly follows a snapshot call of the same target and tab.\<close>

definition paid :: "string \<times> json \<Rightarrow> string \<times> json \<Rightarrow> bool" where
  "paid previous current \<longleftrightarrow>
     (fst current \<in> evidence_tools \<longrightarrow>
        fst previous = ''get_browser_state''
        \<and> json_index (snd previous) ''target_id'' = json_index (snd current) ''target_id''
        \<and> json_index (snd previous) ''tab_id'' = json_index (snd current) ''tab_id'')"

definition all_paid :: "native_calls \<Rightarrow> bool" where
  "all_paid calls \<longleftrightarrow>
     (\<forall>i < length calls. fst (calls ! i) \<in> evidence_tools \<longrightarrow>
        0 < i \<and> paid (calls ! (i - 1)) (calls ! i))"

lemma all_paid_snoc:
  assumes "all_paid calls" and "fst c \<in> evidence_tools \<Longrightarrow> calls \<noteq> [] \<and> paid (last calls) c"
  shows "all_paid (calls @ [c])"
  unfolding all_paid_def
proof (intro allI impI)
  fix i
  assume i: "i < length (calls @ [c])" and tool: "fst ((calls @ [c]) ! i) \<in> evidence_tools"
  show "0 < i \<and> paid ((calls @ [c]) ! (i - 1)) ((calls @ [c]) ! i)"
  proof (cases "i < length calls")
    case True
    with tool assms(1) show ?thesis by (auto simp: all_paid_def nth_append)
  next
    case False
    with i have eq: "i = length calls" by simp
    with tool assms(2) have "calls \<noteq> []" "paid (last calls) c" by simp_all
    with eq show ?thesis by (simp add: nth_append last_conv_nth)
  qed
qed

lemma spends_step:
  assumes "spends tool s st" and "tool \<notin> evidence_tools"
    and "evidence_from calls s" and "all_paid calls"
  shows "evidence_from (calls @ calls_of st) (session_of st) \<and> all_paid (calls @ calls_of st)"
  using assms by (auto simp: spends_def intro!: all_paid_snoc)

lemma evidence_step:
  assumes op: "evidence_operation tool op target tab snapshot"
    and "evidence_from calls s" and "all_paid calls"
  shows "evidence_from (calls @ calls_of (op s)) (session_of (op s)) \<and> all_paid (calls @ calls_of (op s))"
proof (cases "calls_of (op s) = []")
  case True
  then have "session_of (op s) = s"
    using native_operation.op_spends [OF evidence_operation.axioms(1) [OF op], of s]
    by (auto simp: spends_def)
  with True assms show ?thesis by simp
next
  case False
  from evidence_operation.call_on_evidence [OF op False] obtain args where
    args: "calls_of (op s) = [(tool, args)]" "session_of (op s) = clear_snapshot s"
      "json_index args ''target_id'' = JStr target" "json_index args ''tab_id'' = JStr tab"
      "bw_target_id s = Some target" "bw_latest_tab_id s = Some tab"
      "bw_latest_snapshot_id s = Some snapshot"
    by blast
  with assms(2) have "calls \<noteq> [] \<and> paid (last calls) (tool, args)"
    by (auto simp: evidence_from_def paid_def)
  with args assms(3) show ?thesis by (auto intro!: all_paid_snoc)
qed

lemmas spends_steps = spends_step [OF prepare_op.op_spends] spends_step [OF navigate_op.op_spends]
  spends_step [OF dialog_op.op_spends]

lemmas evidence_steps = evidence_step [OF click_op.evidence_operation_axioms]
  evidence_step [OF type_op.evidence_operation_axioms]
  evidence_step [OF pointer_op.evidence_operation_axioms]
  evidence_step [OF files_op.evidence_operation_axioms]
  evidence_step [OF download_op.evidence_operation_axioms]

lemma bind_evidence:
  "evidence_from calls s \<Longrightarrow> evidence_from calls (snd (bind_authorized_exact_target t s))"
  by (simp add: bind_authorized_exact_target_def)

lemma perform_paid:
  assumes "evidence_from calls s" and "all_paid calls"
  shows "evidence_from (calls @ fst (perform env native op s)) (snd (perform env native op s))
    \<and> all_paid (calls @ fst (perform env native op s))"
proof (cases op)
  case (OpSnapshot r)
  from browser_snapshot_calls [of env native r s]
  have "all_paid (calls @ calls_of (browser_snapshot env native r s))"
    using assms by (auto simp: evidence_tools_def intro!: all_paid_snoc)
  with browser_snapshot_evidence [OF assms(1), of env native r] OpSnapshot show ?thesis
    by (simp add: effect_def)
qed (use assms bind_evidence spends_steps evidence_steps in
      \<open>simp_all add: effect_def evidence_tools_def\<close>)

lemma browser_run_paid:
  assumes "evidence_from calls s" and "all_paid calls"
  shows "evidence_from (calls @ fst (browser_run ops s)) (snd (browser_run ops s))
    \<and> all_paid (calls @ fst (browser_run ops s))"
  using assms
proof (induction ops arbitrary: calls s)
  case (Cons step ops)
  obtain env native op where step: "step = (env, native, op)" by (cases step)
  from perform_paid [OF Cons.prems, of env native op] Cons.IH show ?case
    by (fastforce simp: step split: prod.split)
qed simp

section \<open>Properties of browser runs\<close>

text \<open>
  C20. One snapshot pays for one mutation. In every run of a new browser session, whatever the
  native tool answers and whatever the Host interleaves, each native click, type, pointer, upload
  or download call directly follows a snapshot call for the same target and the same tab: any
  call in between, failed or not, spends the evidence.
\<close>
theorem one_snapshot_one_mutation:
  assumes "calls = fst (browser_run ops browser_session_default)"
    and "i < length calls" and "fst (calls ! i) \<in> evidence_tools"
  shows "(0 < i)
    \<and> (fst (calls ! (i - 1)) = ''get_browser_state'')
    \<and> (json_index (snd (calls ! (i - 1))) ''target_id'' = json_index (snd (calls ! i)) ''target_id'')
    \<and> (json_index (snd (calls ! (i - 1))) ''tab_id'' = json_index (snd (calls ! i)) ''tab_id'')"
proof (rule conjI [OF _ conjI [OF _ conjI [OF _ _]]])
  have "evidence_from [] browser_session_default"
    by (simp add: evidence_from_def browser_session_default_def)
  from browser_run_paid [OF this, of ops] have "all_paid calls"
    by (simp add: assms(1) all_paid_def)
  with assms show "0 < i" "fst (calls ! (i - 1)) = ''get_browser_state''"
    "json_index (snd (calls ! (i - 1))) ''target_id'' = json_index (snd (calls ! i)) ''target_id''"
    "json_index (snd (calls ! (i - 1))) ''tab_id'' = json_index (snd (calls ! i)) ''tab_id''"
    by (auto simp: all_paid_def paid_def)
qed

text \<open>A tab that is observed and clicked; the driver refuses nothing.\<close>

definition example_native :: native_tool where
  "example_native tool args =
     (if tool = ''get_browser_state''
      then Inr (JObj [(''structuredContent'', JObj [(''status'', JStr ''ok''), (''snapshot_id'', JStr ''s1'')])])
      else Inr (JObj []))"

definition example_browser_env :: browser_env where
  "example_browser_env =
     \<lparr>bx_externs = example_externs, bx_base64_decode = Inr,
      bx_lstat = (\<lambda>p. if p = ''/d/a1'' then Some \<lparr>bm_is_symlink = False, bm_is_file = True,
          bm_is_dir = False, bm_len = 3\<rparr> else None),
      bx_canonicalize = Some, bx_read_file = (\<lambda>_. Some ''GIF89a''), bx_file_url = (\<lambda>_. None)\<rparr>"

definition example_snapshot_request :: BrowserSnapshotRequest where
  "example_snapshot_request =
     \<lparr>bsr_target_id = Some ''t'', bsr_tab_id = Some ''b'', bsr_snapshot_format = ''semantic_v2'',
      bsr_scope_ref = None, bsr_scope_ancestor_role = None, bsr_query = None,
      bsr_continuation = None, bsr_include_screenshot = False\<rparr>"

definition example_click_request :: BrowserClickRequest where
  "example_click_request =
     \<lparr>bcr_target_id = ''t'', bcr_tab_id = ''b'', bcr_snapshot_id = ''s1'',
      bcr_element_ref = Some ''e1'', bcr_x = None, bcr_y = None, bcr_input_route = None\<rparr>"

definition example_browser_ops :: "(browser_env \<times> native_tool \<times> browser_op) list" where
  "example_browser_ops =
     [(example_browser_env, example_native, OpBind ''t''),
      (example_browser_env, example_native, OpSnapshot example_snapshot_request),
      (example_browser_env, example_native, OpClick example_click_request),
      (example_browser_env, example_native, OpClick example_click_request)]"

lemma graphic_examples [simp]: "graphic ''t''" "graphic ''b''" "graphic ''e1''"
  by (simp_all add: graphic_def)

definition example_observed :: "string option \<Rightarrow> BrowserSession" where
  "example_observed snapshot =
     browser_session_default\<lparr>bw_target_id := Some ''t'', bw_mutation_allowed := True,
       bw_latest_snapshot_id := snapshot, bw_latest_tab_id := map_option (\<lambda>_. ''b'') snapshot\<rparr>"

lemma example_bind:
  "perform env native (OpBind ''t'') browser_session_default = ([], example_observed None)"
  by (simp add: bind_authorized_exact_target_def graphic_simps browser_session_default_def
      clear_snapshot_def example_observed_def)

lemma example_snapshot_answer:
  "browser_result_from_value env (JObj [(''structuredContent'', JObj
      [(''status'', JStr ''ok''), (''snapshot_id'', JStr ''s1'')])])
   = Inr \<lparr>brs_value = JObj [(''structuredContent'', JObj
      [(''status'', JStr ''ok''), (''snapshot_id'', JStr ''s1'')]), (''content'', JNull)], brs_images = []\<rparr>"
  by (simp add: browser_result_from_value_def)

lemma example_snapshot_finish:
  "finish_tab_snapshot x None ''t'' ''b'' (example_observed None)
     \<lparr>brs_value = JObj [(''structuredContent'', JObj
      [(''status'', JStr ''ok''), (''snapshot_id'', JStr ''s1'')]), (''content'', JNull)], brs_images = []\<rparr>
   = (Inr \<lparr>brs_value = JObj [(''structuredContent'', JObj
      [(''status'', JStr ''ok''), (''snapshot_id'', JStr ''s1'')]), (''content'', JNull)], brs_images = []\<rparr>,
      example_observed (Some ''s1''))"
  by (simp add: finish_tab_snapshot_def browser_result_is_structured_refusal_def
      structured_content_def validate_ancestor_scope_response_def publish_snapshot_def
      browser_snapshot_id_def browser_snapshot_origin_def browser_snapshot_url_def json_index_def
      or_else_def example_observed_def browser_session_default_def Let_def)

lemma example_observed_clear [simp]: "clear_snapshot (example_observed snapshot) = example_observed None"
  by (simp add: clear_snapshot_def example_observed_def browser_session_default_def)

lemma example_observed_simps [simp]:
  "bw_target_id (example_observed snapshot) = Some ''t''"
  "bw_mutation_allowed (example_observed snapshot)"
  "bw_latest_snapshot_id (example_observed snapshot) = snapshot"
  "bw_latest_tab_id (example_observed snapshot) = map_option (\<lambda>_. ''b'') snapshot"
  by (simp_all add: example_observed_def)

lemma example_snapshot:
  "\<exists>args. perform example_browser_env example_native (OpSnapshot example_snapshot_request)
      (example_observed None) = ([(''get_browser_state'', args)], example_observed (Some ''s1''))"
proof -
  have "ancestor_scope_expectation example_snapshot_request s = Inr None" for s
    by (simp add: ancestor_scope_expectation_def example_snapshot_request_def)
  moreover have "\<exists>args. browser_snapshot_args example_snapshot_request = Inr args"
    by (simp add: browser_snapshot_args_def validate_ancestor_scope_request_def
        example_snapshot_request_def)
  ultimately show ?thesis
    by (auto simp: effect_def browser_snapshot_def browser_snapshot_route_def graphic_simps
        require_bound_target_def snapshot_call_def example_native_def example_snapshot_answer
        example_snapshot_finish example_snapshot_request_def [THEN arg_cong, of bsr_snapshot_format]
        example_snapshot_request_def [THEN arg_cong, of bsr_target_id]
        example_snapshot_request_def [THEN arg_cong, of bsr_tab_id] Let_def)
qed

lemma example_click:
  "\<exists>args. perform env native (OpClick example_click_request) (example_observed (Some ''s1''))
     = ([(''browser_click'', args)], example_observed None)"
  by (simp add: effect_def browser_click_def example_click_request_def require_mutation_target_def
      require_exact_target_def require_bound_target_def click_checks_def validate_route_def
      unwrap_or_def Let_def)

lemma example_second_click:
  "perform env native (OpClick example_click_request) (example_observed None)
     = ([], example_observed None)"
  by (simp add: effect_def browser_click_def example_click_request_def require_mutation_target_def
      require_exact_target_def require_bound_target_def)

lemma example_browser_calls:
  "map fst (fst (browser_run example_browser_ops browser_session_default))
     = [''get_browser_state'', ''browser_click'']"
proof -
  from example_snapshot obtain a where a: "perform example_browser_env example_native
      (OpSnapshot example_snapshot_request) (example_observed None)
      = ([(''get_browser_state'', a)], example_observed (Some ''s1''))" ..
  from example_click [of example_browser_env example_native] obtain b where b:
    "perform example_browser_env example_native (OpClick example_click_request)
      (example_observed (Some ''s1'')) = ([(''browser_click'', b)], example_observed None)" ..
  show ?thesis
    by (simp add: example_browser_ops_def example_bind a b example_second_click del: perform.simps)
qed

theorem one_snapshot_one_mutation_witness:
  "fst (fst (browser_run example_browser_ops browser_session_default) ! 1) = ''browser_click''
   \<and> fst (fst (browser_run example_browser_ops browser_session_default) ! 0) = ''get_browser_state''"
proof -
  define calls where "calls = fst (browser_run example_browser_ops browser_session_default)"
  have calls: "map fst calls = [''get_browser_state'', ''browser_click'']"
    unfolding calls_def by (rule example_browser_calls)
  then obtain x y where eq: "calls = [(''get_browser_state'', x), (''browser_click'', y)]"
    by (auto simp: map_eq_Cons_conv)
  then have len: "length calls = 2" and click: "fst (calls ! 1) = ''browser_click''" by simp_all
  have "fst (calls ! (1 - 1)) = ''get_browser_state''"
    by (rule one_snapshot_one_mutation [THEN conjunct2, THEN conjunct1, OF calls_def])
       (use len click in \<open>simp_all add: evidence_tools_def\<close>)
  with click show ?thesis by (simp add: calls_def)
qed

section \<open>Evidence and containment\<close>

fun evidence_of :: "browser_op \<Rightarrow> (string \<times> string \<times> string) option" where
  "evidence_of (OpClick r) = Some (bcr_target_id r, bcr_tab_id r, bcr_snapshot_id r)"
| "evidence_of (OpType r) = Some (rt_target_id r, rt_tab_id r, rt_snapshot_id r)"
| "evidence_of (OpPointer r) = Some (bpt_target_id r, bpt_tab_id r, bpt_snapshot_id r)"
| "evidence_of (OpFiles r) = Some (bif_target_id r, bif_tab_id r, bif_snapshot_id r)"
| "evidence_of (OpDownload r) = Some (bdl_target_id r, bdl_tab_id r, bdl_snapshot_id r)"
| "evidence_of _ = None"

lemma evidence_op_step:
  assumes "evidence_of op = Some (target, tab, snapshot)" and "fst (perform env native op s) \<noteq> []"
  shows "bw_target_id s = Some target \<and> bw_latest_tab_id s = Some tab
    \<and> bw_latest_snapshot_id s = Some snapshot \<and> bw_mutation_allowed s
    \<and> snd (perform env native op s) = clear_snapshot s"
  using assms click_op.call_on_evidence type_op.call_on_evidence pointer_op.call_on_evidence
    files_op.call_on_evidence download_op.call_on_evidence
  by (cases op) (fastforce simp: effect_def)+

text \<open>
  C21. A stale or read-only mutation never reaches the browser: when the binding is not exact, or
  the request names another target, another tab or another snapshot than the latest one, a click,
  type, pointer, upload or download issues no native call and leaves the session as it was.
\<close>
theorem stale_mutation_refused:
  assumes "evidence_of op = Some (target, tab, snapshot)"
    and "bw_target_id s \<noteq> Some target \<or> bw_latest_tab_id s \<noteq> Some tab
      \<or> bw_latest_snapshot_id s \<noteq> Some snapshot \<or> \<not> bw_mutation_allowed s"
  shows "perform env native op s = ([], s)"
proof -
  have "fst (perform env native op s) = []" using evidence_op_step [OF assms(1)] assms(2) by blast
  moreover from this have "snd (perform env native op s) = s"
    using assms(1) click_op.op_spends type_op.op_spends pointer_op.op_spends files_op.op_spends
      download_op.op_spends
    by (cases op) (fastforce simp: effect_def spends_def)+
  ultimately show ?thesis by (simp add: prod_eq_iff)
qed

theorem stale_mutation_refused_witness:
  "perform example_browser_env example_native (OpClick (example_click_request\<lparr>bcr_snapshot_id := ''s0''\<rparr>))
     (example_observed (Some ''s1'')) = ([], example_observed (Some ''s1''))"
  by (rule stale_mutation_refused [of _ "''t''" "''b''" "''s0''"])
     (simp_all add: example_click_request_def)

lemma json_index_update [simp]:
  "json_index (JObj (AList.update k v fs)) k' = (if k = k' then v else json_index (JObj fs) k')"
  by (simp add: json_index_def)

lemma prove_download_artifact_contained:
  assumes "prove_download_artifact env root download_id = Some a"
  shows "map_option path_components (path_parent (pd_file_path a)) = Some (path_components root)"
    and "\<exists>name. path_components download_id = [Normal name]"
    and "\<exists>meta. bx_lstat env (path_join root download_id) = Some meta \<and> bm_is_file meta
      \<and> \<not> bm_is_symlink meta"
    and "bx_canonicalize env (path_join root download_id) = Some (pd_file_path a)"
proof -
  from assms obtain meta canonical where
    "download_id_is_safe_component download_id"
    "bx_lstat env (path_join root download_id) = Some meta" "bm_is_file meta" "\<not> bm_is_symlink meta"
    "bx_canonicalize env (path_join root download_id) = Some canonical"
    "map_option path_components (path_parent canonical) = Some (path_components root)"
    "pd_file_path a = canonical"
    by (auto simp: prove_download_artifact_def Let_def bind_eq_Some_conv split: if_splits)
  then show "map_option path_components (path_parent (pd_file_path a)) = Some (path_components root)"
    "\<exists>name. path_components download_id = [Normal name]"
    "\<exists>meta. bx_lstat env (path_join root download_id) = Some meta \<and> bm_is_file meta
      \<and> \<not> bm_is_symlink meta"
    "bx_canonicalize env (path_join root download_id) = Some (pd_file_path a)"
    by (auto simp: download_id_is_safe_component_def split: list.splits component.splits)
qed

lemma download_fields_other:
  assumes "k \<notin> {''mime_type'', ''sha256'', ''bytes'', ''artifact_ref'', ''file_path'', ''stored_filename''}"
  shows "json_index (download_fields a (JObj fs)) k = json_index (JObj fs) k"
  using assms by (auto simp: download_fields_def json_set_opt_def json_index_def split: option.split)

lemma download_fields_path:
  "json_index (download_fields a (JObj fs)) ''file_path'' = JStr (pd_file_path a)"
  by (auto simp: download_fields_def json_set_opt_def json_index_def split: option.split)

text \<open>A completed download whose file is a regular, direct child of the destination.\<close>

definition located_download :: "browser_env \<Rightarrow> string \<Rightarrow> json \<Rightarrow> string \<Rightarrow> bool" where
  "located_download env root c path \<longleftrightarrow> get_str c ''status'' = Some ''completed''
     \<and> map_option path_components (path_parent path) = Some (path_components root)
     \<and> (\<exists>download_id name meta. get_str c ''download_id'' = Some download_id
          \<and> path_components download_id = [Normal name]
          \<and> bx_lstat env (path_join root download_id) = Some meta \<and> bm_is_file meta
          \<and> \<not> bm_is_symlink meta
          \<and> bx_canonicalize env (path_join root download_id) = Some path)"

lemma prove_download_artifact_exists:
  assumes "map_option path_components (path_parent path) = Some (path_components root)"
    and "path_components download_id = [Normal name]" "bx_lstat env (path_join root download_id) = Some meta"
    and "bm_is_file meta" "\<not> bm_is_symlink meta" "bx_canonicalize env (path_join root download_id) = Some path"
  shows "\<exists>a. prove_download_artifact env root download_id = Some a \<and> pd_file_path a = path"
  using assms by (auto simp: prove_download_artifact_def download_id_is_safe_component_def Let_def)

text \<open>
  C22. A download is located only inside its destination. The completion keeps the status and id
  of the driver and gains a lifecycle state; a file path is added exactly for a completed download
  whose id is one plain name under the destination, is a regular file and not a link there, and
  whose canonical path is a direct child of the destination.
\<close>
theorem download_location_contained:
  assumes c: "json_get v ''structuredContent'' = Some (JObj fs)"
    and fresh: "json_get (JObj fs) ''file_path'' = None"
    and out: "out = json_index (enrich_download_completion env root v) ''structuredContent''"
  shows "(json_index out ''status'' = json_index (JObj fs) ''status'')
    \<and> (json_index out ''download_id'' = json_index (JObj fs) ''download_id'')
    \<and> (json_index out ''download_state'' =
      JStr (download_lifecycle_state (get_str (JObj fs) ''status'')))
    \<and> (json_index out ''file_path'' = JStr path \<longleftrightarrow> located_download env root (JObj fs) path)"
proof (intro conjI)
  define gs where "gs = AList.update ''download_state''
      (JStr (download_lifecycle_state (get_str (JObj fs) ''status''))) fs"
  define artifact where "artifact = (if get_str (JObj fs) ''status'' \<noteq> Some ''completed'' then None
      else Option.bind (get_str (JObj gs) ''download_id'') (prove_download_artifact env root))"
  obtain vs where v: "v = JObj vs" using c by (cases v) simp_all
  have out': "out = (case artifact of None \<Rightarrow> JObj gs | Some a \<Rightarrow> download_fields a (JObj gs))"
    using c unfolding artifact_def gs_def
    by (simp add: out enrich_download_completion_def v Let_def)
  have gs: "json_index (JObj gs) k =
      (if k = ''download_state'' then JStr (download_lifecycle_state (get_str (JObj fs) ''status''))
       else json_index (JObj fs) k)" for k
    by (simp add: gs_def json_index_def)
  show "json_index out ''status'' = json_index (JObj fs) ''status''"
    "json_index out ''download_id'' = json_index (JObj fs) ''download_id''"
    "json_index out ''download_state'' = JStr (download_lifecycle_state (get_str (JObj fs) ''status''))"
    by (simp_all add: out' gs download_fields_other split: option.split)
  have located: "located_download env root (JObj fs) path"
    if path: "json_index out ''file_path'' = JStr path"
  proof (cases artifact)
    case None
    with path fresh show ?thesis by (simp add: out' gs) (simp add: json_index_def)
  next
    case (Some a)
    then have st: "get_str (JObj fs) ''status'' = Some ''completed''"
      and "Option.bind (get_str (JObj gs) ''download_id'') (prove_download_artifact env root) = Some a"
      by (simp_all add: artifact_def split: if_splits)
    then obtain download_id where d: "get_str (JObj fs) ''download_id'' = Some download_id"
        "prove_download_artifact env root download_id = Some a"
      by (auto simp: bind_eq_Some_conv get_str_def gs_def)
    have "pd_file_path a = path" using path Some by (simp add: out' download_fields_path)
    with prove_download_artifact_contained [OF d(2)] st d show ?thesis by (auto simp: located_download_def)
  qed
  have "json_index out ''file_path'' = JStr path" if at: "located_download env root (JObj fs) path"
  proof -
    from at obtain download_id where d: "get_str (JObj fs) ''download_id'' = Some download_id"
      and st: "get_str (JObj fs) ''status'' = Some ''completed''"
      and "\<exists>a. prove_download_artifact env root download_id = Some a \<and> pd_file_path a = path"
      using prove_download_artifact_exists by (fastforce simp: located_download_def)
    then obtain a where a: "prove_download_artifact env root download_id = Some a" "pd_file_path a = path" by blast
    from d have "get_str (JObj gs) ''download_id'' = Some download_id" by (simp add: get_str_def gs_def)
    then have "artifact = Some a" using st a(1) by (simp add: artifact_def)
    then show ?thesis using a(2) by (simp add: out' download_fields_path)
  qed
  with located show "json_index out ''file_path'' = JStr path \<longleftrightarrow> located_download env root (JObj fs) path" by blast
qed

definition example_completion :: json where
  "example_completion = JObj [(''structuredContent'', JObj
     [(''status'', JStr ''completed''), (''download_id'', JStr ''a1'')])]"

lemma example_download_path:
  "json_index (json_index (enrich_download_completion example_browser_env ''/d'' example_completion)
     ''structuredContent'') ''file_path'' = JStr ''/d/a1''"
proof -
  have "prove_download_artifact example_browser_env ''/d'' ''a1'' =
      Some \<lparr>pd_stored_filename = ''a1'', pd_file_path = ''/d/a1'', pd_artifact_ref = ''/d/a1'',
        pd_bytes = 3, pd_sha256 = Some (sha256_hex example_externs ''GIF89a''),
        pd_mime_type = Some (sniff_download_mime_type ''GIF89a'')\<rparr>"
    by (simp add: prove_download_artifact_def example_browser_env_def download_id_is_safe_component_def
        path_components_def path_is_absolute_def starts_with_def path_part_def path_join_def
        ends_with_def path_parent_def rstrip_def download_artifact_ref_def unwrap_or_def
        DOWNLOAD_MAGIC_SNIFF_BYTES_def Let_def)
  then show ?thesis
    by (simp add: enrich_download_completion_def example_completion_def get_str_def
        download_fields_path Let_def)
qed

theorem download_location_contained_witness:
  "map_option path_components (path_parent ''/d/a1'') = Some (path_components ''/d'')"
proof -
  have "json_get example_completion ''structuredContent'' = Some (JObj
      [(''status'', JStr ''completed''), (''download_id'', JStr ''a1'')])"
    by (simp add: example_completion_def)
  from download_location_contained [THEN conjunct2, THEN conjunct2, THEN conjunct2, THEN iffD1,
      OF this _ refl example_download_path] show ?thesis by (simp add: located_download_def)
qed

text \<open>
  A refused binding without a code or message brings the adapter down: \<open>store_binding\<close>
  indexes the refusal map directly, so a refusal object that omits either key panics instead of
  being reported with the default code and message the code writes beside the index.
\<close>
theorem refusal_without_code_panics:
  assumes "structured_content v = Inr structured"
    and "as_object (json_index structured ''refusal'') = Some refusal"
  shows "(fst (store_binding v s) = Inl Panicked \<longleftrightarrow>
      map_of refusal ''code'' = None \<or> map_of refusal ''message'' = None)
    \<and> (snd (store_binding v s) = s)"
  using assms
  by (auto simp: store_binding_def binding_refusal_def map_index_def split: option.split)

theorem refusal_without_code_panics_witness:
  "fst (store_binding (JObj [(''structuredContent'', JObj [(''refusal'', JObj [])])])
     browser_session_default) = Inl Panicked"
  using refusal_without_code_panics [THEN conjunct1, of
      "JObj [(''structuredContent'', JObj [(''refusal'', JObj [])])]" "JObj [(''refusal'', JObj [])]" "[]"
      browser_session_default]
  by (simp add: structured_content_def json_index_def)

end
