(* ===== verification/Handler_Requests.thy ===== *)
theory Handler_Requests
  imports Handler_Effects Browser_Runs
begin

text \<open>
  What the browser and clipboard handlers let through: a browser tool runs only under the grant,
  the evidence and the origin its request needs, and a captured secret reaches the vault and
  nothing else.
\<close>

section \<open>Browser tools\<close>

fun runs_tool :: "host_event \<Rightarrow> bool" where
  "runs_tool (Native (BrowserTool _ _)) = True"
| "runs_tool _ = False"

definition origin_allowed :: "HostSession \<Rightarrow> string \<Rightarrow> bool" where
  "origin_allowed h origin \<longleftrightarrow>
     (hs_task_authorization h \<noteq> None \<longrightarrow> origin \<in> set (hs_allowed_browser_origins h))"

definition page_allowed :: "HostSession \<Rightarrow> bool" where
  "page_allowed h \<longleftrightarrow> (hs_task_authorization h \<noteq> None \<longrightarrow>
     (\<exists>origin. bw_latest_origin (hs_browser h) = Some origin \<and> origin \<in> set (hs_allowed_browser_origins h)))"

definition evidence_current :: "HostSession \<Rightarrow> bool" where
  "evidence_current h \<longleftrightarrow> hs_browser_evidence_epoch h = Some (session_epoch h)"

text \<open>What each browser request needs of the session it is made in.\<close>

fun browser_request_allowed :: "externs \<Rightarrow> HostSession \<Rightarrow> BrowserRequest \<Rightarrow> bool" where
  "browser_request_allowed x h (BrowserSnapshot r) \<longleftrightarrow> True"
| "browser_request_allowed x h (BrowserPrepare r) \<longleftrightarrow> hs_allow_browser_prepare h"
| "browser_request_allowed x h (BrowserNavigate r) \<longleftrightarrow> hs_allow_browser_input h
     \<and> (\<exists>origin. exact_http_origin x (bnr_url r) = Inr origin \<and> origin_allowed h origin)"
| "browser_request_allowed x h (BrowserDialog r) \<longleftrightarrow> hs_allow_browser_input h \<and> page_allowed h"
| "browser_request_allowed x h (BrowserDownload r) \<longleftrightarrow>
     hs_allow_browser_download h \<and> evidence_current h \<and> page_allowed h"
| "browser_request_allowed x h _ \<longleftrightarrow>
     hs_allow_browser_input h \<and> evidence_current h \<and> page_allowed h"

lemma current_origin_iff: "require_current_allowed_browser_origin h = Inr () \<longleftrightarrow> page_allowed h"
  by (auto simp: require_current_allowed_browser_origin_def require_allowed_browser_origin_def guard_def
      page_allowed_def split: option.splits)

lemma require_current_evidence_Done:
  "require_current_evidence s = (Done u, s') \<longleftrightarrow>
     s' = s \<and> evidence_current (st_session s)
     \<and> hs_synchronized_action_evidence_epoch (st_session s) = session_epoch (st_session s)"
proof (cases "hs_synchronized_action_evidence_epoch (st_session s) = session_epoch (st_session s)")
  case True
  then show ?thesis
    by (auto simp: require_current_evidence_def require_current_browser_evidence_epoch_def
        synchronized_same Let_def evidence_current_def guard_def)
next
  case False
  then show ?thesis
    by (auto simp: require_current_evidence_def require_current_browser_evidence_epoch_def
        synchronized_browser Let_def guard_def)
qed

lemma granted_iff:
  "browser_input_granted h = Inr u \<longleftrightarrow> hs_allow_browser_input h"
  "browser_download_granted h = Inr u \<longleftrightarrow> hs_allow_browser_download h"
  by (auto simp: browser_input_granted_def browser_download_granted_def guard_def)

lemma mark_activity_browser [simp]:
  "hs_allow_browser_input (mark_activity w h) = hs_allow_browser_input h"
  "hs_allow_browser_download (mark_activity w h) = hs_allow_browser_download h"
  "hs_allow_browser_prepare (mark_activity w h) = hs_allow_browser_prepare h"
  "hs_allowed_browser_origins (mark_activity w h) = hs_allowed_browser_origins h"
  "page_allowed (mark_activity w h) = page_allowed h" "origin_allowed (mark_activity w h) = origin_allowed h"
  "evidence_current (mark_activity w h) = evidence_current h"
  by (simp_all add: mark_activity_def page_allowed_def origin_allowed_def evidence_current_def
      session_epoch_def fun_eq_iff)

lemma tools_quiet:
  "admission_event e \<Longrightarrow> \<not> runs_tool e"
  by (cases e rule: admission_event.cases) auto

lemma admit_page_mutation_Done:
  "admit_page_mutation env grant s = (Done u, s') \<Longrightarrow>
     authorized_session env s = (Done (), s') \<and> grant (st_session s') = Inr ()
     \<and> evidence_current (st_session s') \<and> page_allowed (st_session s')"
  by (auto simp: admit_page_mutation_def chain_Done_iff require_current_evidence_Done current_origin_iff)

lemma effect_admit_page_mutation: "handler_effect (admit_page_mutation env grant) admission_event"
  unfolding admit_page_mutation_def
  by (intro effect_chain effect_pure effect_require_current_evidence admission.handler_effect_axioms)

lemmas tool_free = effect_weaken [OF _ tools_quiet]

text \<open>What the session was when a request got past its admission.\<close>

definition admitted :: "('st, 'c, 'v) host_env \<Rightarrow> HostSession \<Rightarrow> bool" where
  "admitted env h \<longleftrightarrow> \<not> is_idle_expired (en_world env 0) h \<and> \<not> hs_interrupted h
     \<and> \<not> co_interrupted (en_core env) (hs_session h)"

lemma admitted_prefix:
  assumes "authorized_session env s = (Done u, s1)" and "st_log s = []"
  shows "admitted env (st_session s)" and "st_log s1 = [Revalidated (Inr ())]"
    and "st_session s1 = mark_activity (en_world env 2) (st_session s)"
  using assms by (auto simp: authorized_Done admitted_def)

lemma run_after_Done: "chain m k s = (out, s') \<Longrightarrow> m s = (Done v, s1) \<Longrightarrow> k v s1 = (out, s')"
  by (simp add: chain_def)

lemma mutation_admitted:
  assumes run: "chain (admit_page_mutation env grant) k s = (out, s')" and new: "st_log s = []"
    and tool: "logged runs_tool s'" and k: "\<And>v. handler_effect (k v) (\<lambda>_. True)"
  shows "\<exists>evs s1. admitted env (st_session s) \<and> st_log s' = Revalidated (Inr ()) # evs
    \<and> st_session s1 = mark_activity (en_world env 2) (st_session s) \<and> st_log s1 = [Revalidated (Inr ())]
    \<and> grant (st_session s1) = Inr () \<and> evidence_current (st_session s) \<and> page_allowed (st_session s)
    \<and> k () s1 = (out, s')"
proof -
  from run tool have "logged runs_tool (snd (chain (admit_page_mutation env grant) k s))" by simp
  then obtain u s1 where m: "admit_page_mutation env grant s = (Done u, s1)"
    by (rule logged_chain) (use new tool_free [OF effect_admit_page_mutation] in \<open>auto simp: logged_def\<close>)
  note ok = admit_page_mutation_Done [OF m]
  from ok have auth: "authorized_session env s = (Done (), s1)" by simp
  note pre = admitted_prefix [OF auth new]
  have rest: "k () s1 = (out, s')" using run_after_Done [OF run m] by simp
  with handler_effect.log_prefix [OF k] pre(2) obtain evs where "st_log s' = Revalidated (Inr ()) # evs"
    by fastforce
  with ok pre rest show ?thesis by auto
qed

lemma request_admitted:
  assumes run: "chain (authorized_session env) k s = (out, s')" and new: "st_log s = []"
    and tool: "logged runs_tool s'" and k: "\<And>v. handler_effect (k v) (\<lambda>_. True)"
  shows "\<exists>evs s1. admitted env (st_session s) \<and> st_log s' = Revalidated (Inr ()) # evs
    \<and> st_session s1 = mark_activity (en_world env 2) (st_session s) \<and> st_log s1 = [Revalidated (Inr ())]
    \<and> k () s1 = (out, s')"
proof -
  from run tool have "logged runs_tool (snd (chain (authorized_session env) k s))" by simp
  then obtain u s1 where m: "authorized_session env s = (Done u, s1)"
    by (rule logged_chain) (use new tool_free [OF admission.handler_effect_axioms] in \<open>auto simp: logged_def\<close>)
  note pre = admitted_prefix [OF m new]
  have rest: "k () s1 = (out, s')" using run_after_Done [OF run m] by simp
  with handler_effect.log_prefix [OF k] pre(2) obtain evs where "st_log s' = Revalidated (Inr ()) # evs"
    by fastforce
  with pre rest show ?thesis by auto
qed

lemma effect_finish_browser [intro]: "handler_effect (finish_browser env kind r) P"
  unfolding finish_browser_def by (intro effect_chain effect_finish_attempt effect_pure)

lemma effect_run_browser_any [intro]: "handler_effect (run_browser core operation) (\<lambda>_. True)"
  by (rule effect_run_browser) simp

lemma effect_resolve_type:
  assumes "\<And>r out. P (Asked r out)" and "\<And>handle. P (Resolved handle)"
  shows "handler_effect (resolve_browser_type_request env b r) P"
  unfolding resolve_browser_type_request_def
  by (intro effect_chain effect_pure)
     (auto intro!: effect_chain effect_request_confirmation effect_vault_resolve assms split: option.split)

lemma grants_finish_snapshot:
  "finish_browser_snapshot_attempt w result p h = Some (out, h') \<Longrightarrow> grants h' = grants h"
  by (auto simp: finish_browser_snapshot_attempt_def Let_def bind_eq_Some_conv split: prod.splits sum.splits
      if_splits option.splits dest!: grants_finish)

lemma effect_publish_snapshot:
  "handler_effect (\<lambda>s. case finish_browser_snapshot_attempt w result p (st_session s) of
      None \<Rightarrow> (Panicking, s) | Some (out, h) \<Rightarrow> check out (s\<lparr>st_session := h\<rparr>)) P"
  by unfold_locales
     (auto simp: check_def grants_finish_snapshot split: option.split sum.split)

text \<open>A secret typed into a page was confirmed for this session and snapshot, then resolved.\<close>

definition secret_confirmed :: "CapturePreparationBindings \<Rightarrow> BrowserRequest \<Rightarrow> host_event list \<Rightarrow> bool" where
  "secret_confirmed b r events \<longleftrightarrow>
     (\<forall>q handle. r = BrowserType q \<and> btr_secret_handle q = Some handle \<longrightarrow>
        Resolved handle \<in> set events
        \<and> (\<exists>request. Asked request Allowed \<in> set events \<and> cr_session_id request = wb_session_id b
             \<and> cr_observation_id request = btr_snapshot_id q))"

lemma confirmation_binding_fields [simp]:
  "cb_session_id (confirmation_binding b h obs a) = wb_session_id b"
  "cb_observation_id (confirmation_binding b h obs a) = obs"
  by (simp_all add: confirmation_binding_def confirmation_binding_window_def)

lemma resolve_type_Done:
  assumes "resolve_browser_type_request env b q s = (Done (Inr resolved), s')"
  shows "secret_confirmed b (BrowserType q) (st_log s')"
proof (cases "btr_secret_handle q")
  case (Some handle)
  with assms obtain intent action s1 secret where
    asked: "request_confirmation env (confirmation_binding b (st_session s) (btr_snapshot_id q)
        (Some (btr_tab_id q))) intent action s = (Done Allowed, s1)"
    and vault: "vault_resolve env handle s1 = (Done secret, s')"
    by (auto simp: resolve_browser_type_request_def chain_Done_iff split: if_splits)
  from request_confirmation_Done [OF asked] obtain request where
    "Asked request Allowed \<in> set (st_log s1)" "cr_session_id request = wb_session_id b"
    "cr_observation_id request = btr_snapshot_id q" by fastforce
  moreover from this(1) have "Asked request Allowed \<in> set (st_log s')"
    using handler_effect.event_kept [OF effect_vault_resolve [where P = "\<lambda>_. True"] vault] by simp
  ultimately show ?thesis
    using Some vault_resolve_Done [OF vault] by (auto simp: secret_confirmed_def)
qed (simp add: secret_confirmed_def)

lemma page_mutation_needs:
  assumes "page_mutation env kind grant operation s = (out, s')" and "st_log s = []" and "logged runs_tool s'"
  shows "admitted env (st_session s) \<and> (\<exists>evs. st_log s' = Revalidated (Inr ()) # evs)
    \<and> grant (mark_activity (en_world env 2) (st_session s)) = Inr ()
    \<and> evidence_current (st_session s) \<and> page_allowed (st_session s)"
  using mutation_admitted [OF assms(1) [unfolded page_mutation_def] assms(2,3)]
  by (fastforce intro: effect_chain)

lemma browser_type_needs:
  assumes "handle_browser_type env b q s = (out, s')" and "st_log s = []" and tool: "logged runs_tool s'"
  shows "admitted env (st_session s) \<and> (\<exists>evs. st_log s' = Revalidated (Inr ()) # evs)
    \<and> hs_allow_browser_input (st_session s) \<and> evidence_current (st_session s) \<and> page_allowed (st_session s)
    \<and> secret_confirmed b (BrowserType q) (st_log s')"
proof -
  define k where "k = (\<lambda>resolution. case resolution of Inl reply \<Rightarrow> give (Reply reply)
       | Inr q \<Rightarrow> chain (run_browser (en_core env) (\<lambda>native. browser_type_text (en_browser env) native q))
           (finish_browser env ''browser_typed''))"
  have any: "handler_effect (k v) (\<lambda>_. True)" for v
    by (auto simp: k_def intro: effect_chain split: sum.split)
  have "handler_effect (chain (resolve_browser_type_request env b q) k) (\<lambda>_. True)"
    by (intro effect_chain effect_resolve_type any) simp_all
  from mutation_admitted [OF assms(1) [unfolded handle_browser_type_def k_def [symmetric]] assms(2,3) this]
  obtain s1 where pre: "admitted env (st_session s)" "\<exists>evs. st_log s' = Revalidated (Inr ()) # evs"
      "st_session s1 = mark_activity (en_world env 2) (st_session s)" "st_log s1 = [Revalidated (Inr ())]"
      "browser_input_granted (st_session s1) = Inr ()" "evidence_current (st_session s)"
      "page_allowed (st_session s)"
    and rest: "chain (resolve_browser_type_request env b q) k s1 = (out, s')" by blast
  from rest tool have "logged runs_tool (snd (chain (resolve_browser_type_request env b q) k s1))" by simp
  then obtain d s2 where d: "resolve_browser_type_request env b q s1 = (Done d, s2)" "\<not> logged runs_tool s2"
    by (rule logged_chain) (auto intro: effect_resolve_type simp: pre(4) logged_def)
  from run_after_Done [OF rest d(1)] tool d(2) obtain resolved where "d = Inr resolved"
    by (cases d) (auto simp: k_def give_def)
  with d(1) have "secret_confirmed b (BrowserType q) (st_log s2)" by (auto intro: resolve_type_Done)
  moreover from handler_effect.log_prefix [OF any run_after_Done [OF rest d(1)]]
  obtain evs where "st_log s' = st_log s2 @ evs" by blast
  ultimately have "secret_confirmed b (BrowserType q) (st_log s')" by (auto simp: secret_confirmed_def)
  with pre show ?thesis by (simp add: granted_iff)
qed

text \<open>Requests checked against the session right after their admission.\<close>

lemma request_checked:
  assumes run: "chain (authorized_session env) (\<lambda>_. chain observe_session (\<lambda>h. chain (check (c h)) (k h))) s
      = (out, s')" and new: "st_log s = []" and tool: "logged runs_tool s'"
    and k: "\<And>h v. handler_effect (k h v) (\<lambda>_. True)"
  shows "\<exists>s1 v. admitted env (st_session s) \<and> (\<exists>evs. st_log s' = Revalidated (Inr ()) # evs)
    \<and> st_session s1 = mark_activity (en_world env 2) (st_session s) \<and> st_log s1 = [Revalidated (Inr ())]
    \<and> c (st_session s1) = Inr v \<and> k (st_session s1) v s1 = (out, s')"
proof -
  have "handler_effect (chain observe_session (\<lambda>h. chain (check (c h)) (k h))) (\<lambda>_. True)"
    by (intro effect_chain effect_pure k)
  from request_admitted [OF run new tool this] obtain s1 where
    pre: "admitted env (st_session s)" "\<exists>evs. st_log s' = Revalidated (Inr ()) # evs"
      "st_session s1 = mark_activity (en_world env 2) (st_session s)" "st_log s1 = [Revalidated (Inr ())]"
    and rest: "chain observe_session (\<lambda>h. chain (check (c h)) (k h)) s1 = (out, s')" by blast
  from rest tool pre(4) obtain v where "c (st_session s1) = Inr v" "k (st_session s1) v s1 = (out, s')"
    by (cases "c (st_session s1)") (auto simp: chain_pure logged_def)
  with pre show ?thesis by blast
qed

lemma check_tool:
  "chain (check c) k s = (out, s') \<Longrightarrow> logged runs_tool s' \<Longrightarrow> \<not> logged runs_tool s \<Longrightarrow>
   \<exists>v. c = Inr v \<and> k v s = (out, s')"
  by (cases c) (auto simp: chain_pure)

lemma browser_prepare_needs:
  assumes "handle_browser_prepare env q s = (out, s')" and "st_log s = []" and "logged runs_tool s'"
  shows "admitted env (st_session s) \<and> (\<exists>evs. st_log s' = Revalidated (Inr ()) # evs)
    \<and> hs_allow_browser_prepare (st_session s)"
proof -
  have "handler_effect (chain (run_browser (en_core env) (\<lambda>native.
      browser_prepare (en_browser env) native (co_target (en_core env) (hs_session h)) q))
       (finish_browser env ''browser_prepared'')) (\<lambda>_. True)" for h by (intro effect_chain) auto
  from request_checked [OF assms(1) [unfolded handle_browser_prepare_def require_grant_def] assms(2,3) this]
  show ?thesis by (auto simp: guard_def split: if_splits)
qed

lemma browser_navigate_needs:
  assumes "handle_browser_navigate env q s = (out, s')" and "st_log s = []" and "logged runs_tool s'"
  shows "admitted env (st_session s) \<and> (\<exists>evs. st_log s' = Revalidated (Inr ()) # evs)
    \<and> hs_allow_browser_input (st_session s)
    \<and> (\<exists>origin. exact_http_origin (en_externs env) (bnr_url q) = Inr origin
         \<and> origin_allowed (st_session s) origin)"
proof -
  define k where "k h = chain (check (exact_http_origin (en_externs env) (bnr_url q))) (\<lambda>origin.
     chain (check (require_allowed_browser_origin h origin)) (\<lambda>_.
     chain (run_browser (en_core env) (\<lambda>native. browser_navigate (en_browser env) native q))
       (finish_browser env ''browser_navigated'')))" for h
  have "handler_effect (k h) (\<lambda>_. True)" for h
    unfolding k_def by (intro effect_chain effect_pure) auto
  from request_checked [OF assms(1) [unfolded handle_browser_navigate_def k_def [symmetric]] assms(2,3) this]
  obtain s1 where pre: "admitted env (st_session s)" "\<exists>evs. st_log s' = Revalidated (Inr ()) # evs"
      "st_session s1 = mark_activity (en_world env 2) (st_session s)" "st_log s1 = [Revalidated (Inr ())]"
      "hs_allow_browser_input (st_session s1)" and rest: "k (st_session s1) s1 = (out, s')"
    by (auto simp: granted_iff)
  have quiet: "\<not> logged runs_tool s1" by (simp add: logged_def pre)
  from check_tool [OF rest [unfolded k_def] assms(3) quiet] obtain origin where
    og: "exact_http_origin (en_externs env) (bnr_url q) = Inr origin"
    and r1: "chain (check (require_allowed_browser_origin (st_session s1) origin)) (\<lambda>_.
     chain (run_browser (en_core env) (\<lambda>native. browser_navigate (en_browser env) native q))
       (finish_browser env ''browser_navigated'')) s1 = (out, s')" by auto
  from check_tool [OF r1 assms(3) quiet] have "origin_allowed (st_session s1) origin"
    by (auto simp: require_allowed_browser_origin_def guard_def origin_allowed_def split: if_splits)
  with pre og show ?thesis by auto
qed

lemma browser_dialog_needs:
  assumes "handle_browser_dialog env q s = (out, s')" and "st_log s = []" and "logged runs_tool s'"
  shows "admitted env (st_session s) \<and> (\<exists>evs. st_log s' = Revalidated (Inr ()) # evs)
    \<and> hs_allow_browser_input (st_session s) \<and> page_allowed (st_session s)"
proof -
  define k where "k h = chain (check (require_current_allowed_browser_origin h)) (\<lambda>_.
     chain (run_browser (en_core env) (\<lambda>native. browser_dialog (en_browser env) native q))
       (finish_browser env ''browser_dialog_completed''))" for h
  have "handler_effect (k h) (\<lambda>_. True)" for h
    unfolding k_def by (intro effect_chain effect_pure) auto
  from request_checked [OF assms(1) [unfolded handle_browser_dialog_def k_def [symmetric]] assms(2,3) this]
  obtain s1 where pre: "admitted env (st_session s)" "\<exists>evs. st_log s' = Revalidated (Inr ()) # evs"
      "st_session s1 = mark_activity (en_world env 2) (st_session s)" "st_log s1 = [Revalidated (Inr ())]"
      "hs_allow_browser_input (st_session s1)" and rest: "k (st_session s1) s1 = (out, s')"
    by (auto simp: granted_iff)
  have quiet: "\<not> logged runs_tool s1" by (simp add: logged_def pre)
  from check_tool [OF rest [unfolded k_def] assms(3) quiet] pre show ?thesis
    by (auto simp: current_origin_iff)
qed

text \<open>
  C4. A browser tool runs only for a request the session allows: the session is neither
  idle-expired nor interrupted and its lease was revalidated first; preparing, downloading and
  every other input have their grant; under a lease navigation goes to an allowed origin, and every
  change of a page is made on an allowed origin, with a browser snapshot of the current evidence
  epoch unless it answers a dialog; a secret is typed only after it was confirmed for this session
  and snapshot.
\<close>

theorem browser_tool_authorized:
  assumes "handle_browser env b r s = (out, s')" and "st_log s = []" and "logged runs_tool s'"
  shows "admitted env (st_session s) \<and> browser_request_allowed (en_externs env) (st_session s) r
    \<and> (\<exists>evs. st_log s' = Revalidated (Inr ()) # evs) \<and> secret_confirmed b r (st_log s')"
proof (cases r)
  case (BrowserSnapshot q)
  from assms(1) have "chain (authorized_session env) (\<lambda>_.
     chain (run_browser (en_core env) (\<lambda>native. browser_snapshot (en_browser env) native q)) (\<lambda>result.
     chain (\<lambda>s. case finish_browser_snapshot_attempt (en_world env 6) result
                   (case result of Inr v \<Rightarrow> publishes_snapshot_evidence v | Inl _ \<Rightarrow> False) (st_session s) of
                 None \<Rightarrow> (Panicking, s) | Some (out, h) \<Rightarrow> check out (s\<lparr>st_session := h\<rparr>)) (\<lambda>v.
       give (BrowserReply ''browser_snapshot'' v)))) s = (out, s')"
    by (simp add: BrowserSnapshot handle_browser_snapshot_def)
  from request_admitted [OF this assms(2,3)] show ?thesis
    by (auto simp: BrowserSnapshot secret_confirmed_def intro!: effect_chain effect_publish_snapshot)
next
  case (BrowserPrepare q)
  with browser_prepare_needs assms show ?thesis by (fastforce simp: secret_confirmed_def)
next
  case (BrowserNavigate q)
  with browser_navigate_needs assms show ?thesis by (fastforce simp: secret_confirmed_def)
next
  case (BrowserDialog q)
  with browser_dialog_needs assms show ?thesis by (fastforce simp: secret_confirmed_def)
next
  case (BrowserType q)
  with browser_type_needs assms show ?thesis by (fastforce simp: BrowserType)
qed (use assms page_mutation_needs in \<open>fastforce simp: granted_iff secret_confirmed_def\<close>)+

text \<open>A click on a page that was observed in the current evidence epoch.\<close>

definition example_page_state :: "(unit, unit, unit) host_state" where
  "example_page_state =
     \<lparr>st_session = example_host_session\<lparr>hs_browser := example_observed (Some ''s1'')\<rparr>,
      st_task = (), st_confirm = (), st_vault = (), st_log = []\<rparr>"

lemma example_page_admitted:
  "\<exists>s1. admit_page_mutation example_env browser_input_granted example_page_state = (Done (), s1)
     \<and> hs_browser (st_session s1) = example_observed (Some ''s1'')"
  by (simp add: admit_page_mutation_def chain_Done_iff require_current_evidence_Done current_origin_iff
      authorized_Done granted_iff)
     (simp add: example_page_state_def example_host_session_def example_core_session_def
      validate_active_task_authorization_def is_idle_expired_def example_world_def page_allowed_def
      evidence_current_def session_epoch_def mark_activity_def)

lemma example_page_clicked:
  assumes "hs_browser (st_session s) = example_observed (Some ''s1'')"
  shows "logged runs_tool (snd (run_browser example_core
     (\<lambda>native. browser_click (en_browser example_env) native example_click_request) s))"
proof -
  obtain args out browser where "browser_click (en_browser example_env) (co_tool example_core
      (hs_session (st_session s))) example_click_request (example_observed (Some ''s1''))
      = ([(''browser_click'', args)], out, browser)"
    using example_click [of "en_browser example_env" "co_tool example_core (hs_session (st_session s))"]
    by (cases "browser_click (en_browser example_env) (co_tool example_core (hs_session (st_session s)))
          example_click_request (example_observed (Some ''s1''))") (auto simp: effect_def)
  then show ?thesis
    by (auto simp: run_browser_def assms logged_def Let_def split: sum.split browser_failure.split)
qed

theorem browser_tool_authorized_witness:
  "\<exists>evs. st_log (snd (handle_browser example_env example_binding_w (BrowserClick example_click_request)
      example_page_state)) = Revalidated (Inr ()) # evs
    \<and> evidence_current (st_session example_page_state)"
proof -
  obtain out s' where run: "handle_browser example_env example_binding_w
      (BrowserClick example_click_request) example_page_state = (out, s')" by fastforce
  obtain s1 where s1: "admit_page_mutation example_env browser_input_granted example_page_state = (Done (), s1)"
      "hs_browser (st_session s1) = example_observed (Some ''s1'')"
    using example_page_admitted by blast
  have "logged runs_tool (snd (chain (run_browser example_core (\<lambda>native. browser_click (en_browser example_env)
      native example_click_request)) (finish_browser example_env ''browser_clicked'') s1))"
    by (rule logged_kept) (rule example_page_clicked [OF s1(2)], rule effect_finish_browser)
  with run have tool: "logged runs_tool s'"
    by (simp add: page_mutation_def chain_def [of "admit_page_mutation e g" for e g] s1)
  have new: "st_log example_page_state = []" by (simp add: example_page_state_def)
  from browser_tool_authorized [OF run new tool] show ?thesis unfolding run by auto
qed

section \<open>Captured secrets\<close>

fun handles_secret :: "host_event \<Rightarrow> bool" where
  "handles_secret (Native (ClipboardReadCall _)) = True"
| "handles_secret (Stored _ _) = True"
| "handles_secret _ = False"

lemma admission_keeps_secret: "admission_event e \<Longrightarrow> \<not> handles_secret e"
  by (cases e rule: admission_event.cases) auto

text \<open>Storing: the clipboard is read, the value goes to the vault, the clipboard is emptied.\<close>

definition stores_only :: "string \<Rightarrow> host_event \<Rightarrow> bool" where
  "stores_only handle e \<longleftrightarrow>
     e = Native (ClipboardReadCall True) \<or> e = Native (ClipboardWriteCall clear_clipboard_request)
     \<or> (\<exists>secret. e = Stored handle secret)"

lemma effect_store_clipboard_secret:
  "handler_effect (store_clipboard_secret env session_id handle) (stores_only handle)"
  unfolding store_clipboard_secret_def
  by (auto intro!: effect_chain effect_core_call effect_finish_attempt effect_vault_store
      simp: stores_only_def)

lemma vault_store_Done:
  "vault_store vault handle secret s = (Done u, s') \<Longrightarrow> Stored handle secret \<in> set (st_log s')"
  by (auto simp: vault_store_def Let_def log_event_def case_prod_unfold)

lemma core_call_Done:
  "core_call core c s = (Done r, s') \<Longrightarrow> Native c \<in> set (st_log s')"
  by (auto simp: core_call_def log_event_def case_prod_unfold Let_def)

lemma store_clipboard_secret_Done:
  assumes "store_clipboard_secret env session_id handle s = (Done reply, s')"
  shows "\<exists>cleared secret. reply = captured_reply session_id handle cleared
    \<and> Stored handle secret \<in> set (st_log s')
    \<and> Native (ClipboardWriteCall clear_clipboard_request) \<in> set (st_log s')"
proof -
  from assms obtain vault secret s1 s2 s3 r r' where
    stored: "vault_store vault handle secret s1 = (Done (), s2)"
    and cleared: "core_call (en_core env) (ClipboardWriteCall clear_clipboard_request) s2 = (Done r, s3)"
    and fin: "finish_attempt (en_world env 7) r s3 = (Done r', s')"
      "reply = captured_reply session_id handle (is_ok r')"
    by (auto simp: store_clipboard_secret_def chain_Done_iff)
  have keep: "e \<in> set (st_log s2) \<Longrightarrow> e \<in> set (st_log s3)" "e \<in> set (st_log s3) \<Longrightarrow> e \<in> set (st_log s')" for e
    using handler_effect.event_kept [OF effect_core_call [where P = "\<lambda>_. True"] cleared]
      handler_effect.event_kept [OF effect_finish_attempt [where P = "\<lambda>_. True"] fin(1)] by auto
  from vault_store_Done [OF stored] core_call_Done [OF cleared] keep fin(2) show ?thesis by blast
qed

lemma clipboard_secret_checks_ok:
  "clipboard_secret_checks h obs handle = Inr u \<Longrightarrow>
     hs_allow_clipboard_read h \<and> hs_allow_clipboard_write h \<and> hs_latest_observation_id h = Some obs"
  by (auto simp: clipboard_secret_checks_def and_then_Inr_iff guard_def split: if_splits)

lemma ask_total: "\<exists>outcome s'. ask_confirmation env request s = (Done outcome, s')"
  by (auto simp: ask_confirmation_def Let_def split: prod.split)

lemma capture_cases:
  assumes "capture_clipboard_secret env b obs handle s = (out, s')"
  obtains (refused) e where "out = Failed e" and "s' = s"
  | (unconfirmed) request outcome where "outcome \<noteq> Allowed" and "st_log s' = st_log s @ [Asked request outcome]"
      and "\<And>reply. out = Done reply \<Longrightarrow> action_confirmation_refusal outcome = Some reply"
  | (allowed) request s1 where "st_log s1 = st_log s @ [Asked request Allowed]"
      and "cr_session_id request = wb_session_id b" and "cr_observation_id request = obs"
      and "clipboard_secret_checks (st_session s) obs handle = Inr ()"
      and "store_clipboard_secret env (wb_session_id b) handle s1 = (out, s')"
proof (cases "clipboard_secret_checks (st_session s) obs handle")
  case (Inl e)
  with assms refused show ?thesis by (auto simp: capture_clipboard_secret_def chain_pure)
next
  case (Inr u)
  define bd where "bd = confirmation_binding b (st_session s) obs (hs_latest_accessibility_state_id (st_session s))"
  define k :: "ActionConfirmationOutcome \<Rightarrow> (json, ('a, 'b, 'c) host_state) handler" where "k = (\<lambda>outcome. if outcome \<noteq> Allowed then unwrap (action_confirmation_refusal outcome)
       else store_clipboard_secret env (wb_session_id b) handle)"
  from Inr assms obtain action where
    run: "chain (request_confirmation env bd ''credential_capture'' action) k s = (out, s')"
    by (auto simp: capture_clipboard_secret_def chain_pure bd_def k_def)
  show ?thesis
  proof (cases "confirmation_new_value (en_externs env) (en_uuid env 3) bd ''credential_capture'' action")
    case (Inl e)
    with run refused show ?thesis by (auto simp: request_confirmation_def chain_def check_def)
  next
    case (Inr request)
    obtain outcome s1 where ask: "ask_confirmation env request s = (Done outcome, s1)" using ask_total by blast
    with Inr have "request_confirmation env bd ''credential_capture'' action s = (Done outcome, s1)"
      by (simp add: request_confirmation_def chain_pure)
    with run have rest: "k outcome s1 = (out, s')" by (simp add: chain_def)
    note logs = ask_Done [OF ask] confirmation_new_value_fields [OF Inr]
    show ?thesis
    proof (cases "outcome = Allowed")
      case True
      with rest logs allowed \<open>clipboard_secret_checks _ _ _ = _\<close> show ?thesis by (auto simp: k_def bd_def)
    next
      case False
      with rest logs have "st_log s' = st_log s @ [Asked request outcome]"
        "\<And>reply. out = Done reply \<Longrightarrow> action_confirmation_refusal outcome = Some reply"
        by (auto simp: k_def unwrap_def split: option.splits)
      with False unconfirmed show ?thesis by blast
    qed
  qed
qed

text \<open>
  C9. A captured secret goes from the clipboard to the vault and nowhere else. The clipboard is
  read, and something is stored, only for an admitted session with both clipboard grants, against
  its latest observation, after this capture was asked about and allowed; only the requested handle
  is written; and the reply is either the refusal, with nothing read, or names the handle and says
  whether the clipboard was emptied after the secret was stored, and carries nothing of the secret.
\<close>

theorem captured_secret_confined:
  fixes env :: "('st, 'c, 'v) host_env" and s s' :: "('st, 'c, 'v) host_state"
  assumes "clipboard_capture_secret env b obs handle s = (out, s')" and "st_log s = []"
  shows "(logged handles_secret s' \<longrightarrow> admitted env (st_session s)
      \<and> hs_allow_clipboard_read (st_session s) \<and> hs_allow_clipboard_write (st_session s)
      \<and> hs_latest_observation_id (st_session s) = Some obs
      \<and> (\<exists>request evs. st_log s' = Revalidated (Inr ()) # Asked request Allowed # evs
          \<and> list_all (stores_only handle) evs \<and> cr_session_id request = wb_session_id b
          \<and> cr_observation_id request = obs))
    \<and> (\<forall>reply. out = Done reply \<longrightarrow>
        (\<exists>cleared secret. reply = Reply (captured_reply (wb_session_id b) handle cleared)
           \<and> Stored handle secret \<in> set (st_log s')
           \<and> Native (ClipboardWriteCall clear_clipboard_request) \<in> set (st_log s'))
        \<or> (\<exists>outcome j. outcome \<noteq> Allowed \<and> action_confirmation_refusal outcome = Some j
           \<and> reply = Reply j \<and> \<not> logged handles_secret s'))"
proof -
  have quiet: "\<not> logged handles_secret t" if "list_all admission_event (st_log t)" for t :: "('st, 'c, 'v) host_state"
    using that admission_keeps_secret by (auto simp: logged_def list_all_iff)
  obtain out1 s1 where auth: "authorized_session env s = (out1, s1)" by fastforce
  show ?thesis
  proof (cases out1)
    case (Done u)
    note pre = admitted_prefix [OF auth [unfolded Done] assms(2)]
    from assms(1) auth Done obtain out2 where
      run: "capture_clipboard_secret env b obs handle s1 = (out2, s')"
      and out: "out = (case out2 of Done reply \<Rightarrow> Done (Reply reply) | Failed e \<Rightarrow> Failed e | Panicking \<Rightarrow> Panicking)"
      by (auto simp: clipboard_capture_secret_def chain_def give_def split: prod.splits outcome.splits)
    from run show ?thesis
    proof (cases rule: capture_cases)
      case (refused e)
      with out pre(2) show ?thesis by (auto intro!: quiet)
    next
      case (unconfirmed request outcome)
      with pre(2) have "\<not> logged handles_secret s'" by (simp add: logged_def)
      with unconfirmed out show ?thesis by (auto split: outcome.splits)
    next
      case (allowed request s2)
      from handler_effect.log_prefix [OF effect_store_clipboard_secret allowed(5)] obtain evs where
        "st_log s' = Revalidated (Inr ()) # Asked request Allowed # evs" "list_all (stores_only handle) evs"
        by (auto simp: allowed(1) pre(2))
      moreover have "\<exists>cleared secret. reply = Reply (captured_reply (wb_session_id b) handle cleared)
           \<and> Stored handle secret \<in> set (st_log s')
           \<and> Native (ClipboardWriteCall clear_clipboard_request) \<in> set (st_log s')"
        if "out = Done reply" for reply
        using that out allowed(5) store_clipboard_secret_Done [of env "wb_session_id b" handle s2]
        by (fastforce split: outcome.splits)
      ultimately show ?thesis
        using pre(1,3) clipboard_secret_checks_ok [OF allowed(4)] allowed(2,3)
        by (auto simp: mark_activity_def)
    qed
  next
    case (Failed e)
    with assms auth have "s' = s1" "out = Failed e" by (auto simp: clipboard_capture_secret_def chain_def)
    moreover have "\<not> logged handles_secret s1"
      using admission.log_prefix [OF auth] assms(2) quiet [of s1] by auto
    ultimately show ?thesis by simp
  next
    case Panicking
    with assms auth have "s' = s1" "out = Panicking" by (auto simp: clipboard_capture_secret_def chain_def)
    moreover have "\<not> logged handles_secret s1"
      using admission.log_prefix [OF auth] assms(2) quiet [of s1] by auto
    ultimately show ?thesis by simp
  qed
qed

text \<open>A capture that the user allows: the value \<open>pw\<close> ends up in the vault.\<close>

definition example_vault :: "(string \<times> SecretValue) list secret_vault" where
  "example_vault =
     \<lparr>v_resolve = (\<lambda>handle v. (case map_of v handle of None \<Rightarrow> Inl NotFound | Some x \<Rightarrow> Inr x, v)),
      v_store = (\<lambda>handle secret v. (Inr (), (handle, secret) # v))\<rparr>"

definition example_clipboard :: json where
  "example_clipboard = JObj [(''structuredContent'', JObj [(''supported'', JBool True),
     (''privacy_sensitive'', JBool True), (''content_redacted_from_telemetry'', JBool True),
     (''text'', JStr ''pw'')])]"

definition example_capture_env :: "(unit, unit, (string \<times> SecretValue) list) host_env" where
  "example_capture_env =
     \<lparr>en_externs = example_externs, en_world = (\<lambda>_. example_world), en_clock = (\<lambda>_ _. example_world),
      en_uuid = (\<lambda>_. ''u''), en_task_host = None,
      en_confirmation_host = Some (\<lambda>r c. (Inr \<lparr>cd_action = Allow, cd_request_digest = cr_request_digest r\<rparr>, c)),
      en_vault = Some example_vault,
      en_core = example_core\<lparr>co_call := (\<lambda>_ c. (Inr example_clipboard, c))\<rparr>,
      en_browser = en_browser example_env,
      en_await_turn = (\<lambda>st. st), en_async = (\<lambda>_ c. c), en_sleeps = 0\<rparr>"

definition example_capture_state :: "(unit, unit, (string \<times> SecretValue) list) host_state" where
  "example_capture_state =
     \<lparr>st_session = example_host_session, st_task = (), st_confirm = (), st_vault = [], st_log = []\<rparr>"

lemma example_capture_simps [simp]:
  "en_externs example_capture_env = example_externs" "en_world example_capture_env k = example_world"
  "en_clock example_capture_env k = (\<lambda>_. example_world)" "en_uuid example_capture_env k = ''u''"
  "en_task_host example_capture_env = None" "en_vault example_capture_env = Some example_vault"
  "co_interrupted (en_core example_capture_env) c = False"
  "co_banner_failure (en_core example_capture_env) c = None"
  "co_call (en_core example_capture_env) call c = (Inr example_clipboard, c)"
  by (simp_all add: example_capture_env_def example_core_def fun_eq_iff)

lemma example_capture_admitted:
  "authorized_session example_capture_env example_capture_state =
     (Done (), example_capture_state\<lparr>st_log := [Revalidated (Inr ())]\<rparr>)"
  by (simp add: authorized_Done)
     (simp add: example_capture_state_def example_host_session_def validate_active_task_authorization_def
      is_idle_expired_def example_world_def mark_activity_def)

lemma example_capture_checks: "clipboard_secret_checks example_host_session ''o1'' ''k1'' = Inr ()"
  by (simp add: clipboard_secret_checks_def vault_validate_secret_handle_def valid_secret_handle_def
      MAX_SECRET_HANDLE_CHARS_def char_count_def map_err_def example_host_session_def
      is_ascii_alphanumeric_def is_ascii_alphabetic_def is_ascii_digit_def)

lemma example_capture_asked:
  assumes "st_session s = example_host_session"
  shows "\<exists>request. request_confirmation example_capture_env bd intent action s =
     (Done Allowed, s\<lparr>st_log := st_log s @ [Asked request Allowed]\<rparr>)"
proof -
  obtain c where c: "confirmation_new_value example_externs ''u'' bd intent action = Inr c"
    by (simp add: confirmation_new_value_def digest_with_context_def example_externs_def)
  have "request_confirmation example_capture_env bd intent action s =
      (Done Allowed, s\<lparr>st_log := st_log s @ [Asked c Allowed]\<rparr>)"
    by (simp add: request_confirmation_def chain_pure ask_confirmation_def assms c
        authorize_window_confirmation_def authorize_task_scoped_action_def log_event_def)
       (simp add: example_capture_env_def authorize_action_confirmation_def example_host_session_def)
  then show ?thesis by blast
qed

lemma example_finish:
  assumes "st_session s = example_host_session"
  shows "finish_attempt w (Inr v) s = (Done (Inr v), s)"
  using assms
  by (simp add: finish_attempt_def finish_observation_sensitive_attempt_def synchronized_same
      session_epoch_def example_host_session_def example_core_session_def)

lemma example_capture_call:
  "core_call (en_core example_capture_env) c s = (Done (Inr example_clipboard),
     s\<lparr>st_log := st_log s @ [Native c]\<rparr>)"
  by (simp add: core_call_def log_event_def)

lemma example_capture_stored:
  assumes "st_session s = example_host_session"
  shows "fst (store_clipboard_secret example_capture_env ''s'' ''k1'' s) = Done (captured_reply ''s'' ''k1'' True)"
proof -
  have secret: "extract_clipboard_secret example_clipboard = Inr (SecretValue ''pw'')"
    by (simp add: extract_clipboard_secret_def example_clipboard_def secret_value_new_def
        MAX_SECRET_VALUE_CHARS_def char_count_def)
  show ?thesis
    by (simp add: store_clipboard_secret_def require_secret_vault_def chain_pure
        chain_def [of "core_call c d" for c d] example_capture_call
        chain_def [of "finish_attempt w r" for w r] example_finish assms check_core_def to_host_error_def
        map_err_def secret chain_def [of "vault_store v h x" for v h x] vault_store_def example_vault_def
        log_event_def check_def give_def)
qed

theorem captured_secret_confined_witness:
  "\<exists>secret. Stored ''k1'' secret \<in> set (st_log (snd (clipboard_capture_secret example_capture_env
      example_binding_w ''o1'' ''k1'' example_capture_state)))"
proof -
  obtain out s' where run: "clipboard_capture_secret example_capture_env example_binding_w ''o1'' ''k1''
      example_capture_state = (out, s')" by fastforce
  define s1 where "s1 = example_capture_state\<lparr>st_log := [Revalidated (Inr ())]\<rparr>"
  have s1: "st_session s1 = example_host_session" by (simp add: s1_def example_capture_state_def)
  obtain request where asked: "request_confirmation example_capture_env
      (confirmation_binding example_binding_w example_host_session ''o1''
        (hs_latest_accessibility_state_id example_host_session)) ''credential_capture''
      (JObj [(''action'', JStr ''clipboard_capture_secret''), (''clear_clipboard_after_store'', JBool True),
        (''secret_handle'', JStr ''k1'')]) s1
      = (Done Allowed, s1\<lparr>st_log := st_log s1 @ [Asked request Allowed]\<rparr>)"
    using example_capture_asked [OF s1] by blast
  define s2 where "s2 = s1\<lparr>st_log := st_log s1 @ [Asked request Allowed]\<rparr>"
  have "capture_clipboard_secret example_capture_env example_binding_w ''o1'' ''k1'' s1
      = store_clipboard_secret example_capture_env ''s'' ''k1'' s2"
    using asked
    by (simp add: capture_clipboard_secret_def chain_pure s1 example_capture_checks
        chain_def [of "request_confirmation e b i a" for e b i a] s2_def)
       (simp add: example_binding_w_def)
  with run have "out = Done (Reply (captured_reply ''s'' ''k1'' True))"
    using example_capture_stored [of s2] s1
    by (auto simp: clipboard_capture_secret_def chain_def example_capture_admitted s1_def [symmetric]
        give_def s2_def split: prod.splits outcome.splits)
  moreover have new: "st_log example_capture_state = []" by (simp add: example_capture_state_def)
  ultimately show ?thesis
    using captured_secret_confined [OF run new] unfolding run
    by (auto simp: captured_reply_def action_confirmation_refusal_def refusal_reply_def)
qed

end
