(* ===== verification/Extension_Routing.thy ===== *)
theory Extension_Routing
  imports Extension_Runs Handler_Requests
begin

text \<open>
  Routing of the extension requests (\<open>route_host_request\<close> of
  \<open>dcc-cua-host/src/browser_extension.rs\<close> and \<open>authorize\<close> of \<open>extension_input.rs\<close>): the provider
  side over the transport, the status of a window session, and calls. A call waits for the window
  state, for confirmations and for its answer; what other connections do to the registry meanwhile
  is the parameter \<open>others\<close>, and the call is split where it waits for the answer.
\<close>

section \<open>Providers\<close>

type_synonym ('st, 'c, 'v) routing_state = "('st, 'c, 'v) host_state \<times> BrowserExtensionRegistry"

definition route_binding :: "HostSecurityServices \<Rightarrow> HostError + json" where
  "route_binding sv =
     (case sv_extension_window sv of
        None \<Rightarrow> Inl (Protocol ''not a task-owned provider endpoint'')
      | Some (pid, hwnd) \<Rightarrow> Inr (JObj [(''process_id'', json_u32 pid), (''window_handle'', json_u64 hwnd)]))"

definition route_register ::
  "HostSecurityServices \<Rightarrow> world \<Rightarrow> string \<Rightarrow> string \<Rightarrow> json \<Rightarrow> string \<Rightarrow> u32 \<Rightarrow> u64 option
   \<Rightarrow> BrowserExtensionRegistry \<Rightarrow> (HostError + json) \<times> BrowserExtensionRegistry" where
  "route_register sv w uuid secret hello invocation_origin pid window st =
     (if is_some_and (sv_extension_window sv) (\<lambda>expected. Some expected \<noteq> map_option (Pair pid) window)
      then (Inl (Protocol ''provider window does not match task endpoint''), st)
      else register_with_window w uuid secret hello invocation_origin pid window (sv_extension_owner sv) st)"

section \<open>Handlers over the session and the registry\<close>

definition in_session ::
  "('a, ('st, 'c, 'v) host_state) handler \<Rightarrow> ('a, ('st, 'c, 'v) routing_state) handler" where
  "in_session m s = (case m (fst s) of (out, s') \<Rightarrow> (out, s', snd s))"

definition on_registry ::
  "(BrowserExtensionRegistry \<Rightarrow> (HostError + 'a) \<times> BrowserExtensionRegistry)
   \<Rightarrow> ('a, ('st, 'c, 'v) routing_state) handler" where
  "on_registry f s = (case f (snd s) of (r, reg) \<Rightarrow> check r (fst s, reg))"

definition run_registry ::
  "(BrowserExtensionRegistry \<Rightarrow> 'a \<times> BrowserExtensionRegistry) \<Rightarrow> ('a, ('st, 'c, 'v) routing_state) handler" where
  "run_registry f s = (case f (snd s) of (v, reg) \<Rightarrow> (Done v, fst s, reg))"

definition query_registry ::
  "(BrowserExtensionRegistry \<Rightarrow> HostError + 'a) \<Rightarrow> ('a, ('st, 'c, 'v) routing_state) handler" where
  "query_registry f = on_registry (\<lambda>reg. (f reg, reg))"

definition try_update_session ::
  "(HostSession \<Rightarrow> HostSession option) \<Rightarrow> (unit, ('st, 'c, 'v) host_state) handler" where
  "try_update_session f s =
     (case f (st_session s) of None \<Rightarrow> (Panicking, s) | Some h \<Rightarrow> (Done (), s\<lparr>st_session := h\<rparr>))"

definition on_failure ::
  "('a, ('st, 'c, 'v) host_state) handler \<Rightarrow> (HostSession \<Rightarrow> HostSession)
   \<Rightarrow> ('a, ('st, 'c, 'v) host_state) handler" where
  "on_failure m f s =
     (case m s of (Failed e, s') \<Rightarrow> (Failed e, s'\<lparr>st_session := f (st_session s')\<rparr>) | r \<Rightarrow> r)"

section \<open>Status\<close>

definition window_binding :: "HostSession \<Rightarrow> json" where
  "window_binding h = JObj [(''process_id'', json_u32 (hs_target_process_id h)),
     (''window_handle'', json_u64 (hs_target_window_handle h))]"

definition route_extension_status ::
  "('st, 'c, 'v) host_env \<Rightarrow> (json, ('st, 'c, 'v) routing_state) handler" where
  "route_extension_status env =
     chain (in_session (authorized_session env)) (\<lambda>_.
     chain (in_session observe_session) (\<lambda>h.
     chain (check (require_task_authorized_method h ''browser_extension_status'')) (\<lambda>_.
     chain (run_registry (status_for_process (en_world env 3) (hs_target_process_id h)))
       (\<lambda>status. give (json_set ''window_binding'' (window_binding h) status)))))"

section \<open>Calls\<close>

definition extension_call_checks :: "HostSession \<Rightarrow> string \<Rightarrow> string \<Rightarrow> HostError + unit" where
  "extension_call_checks h expected_origin m =
     and_then (require_task_authorized_method h ''browser_extension_call'') (\<lambda>_.
     and_then (require_allowed_browser_origin h expected_origin) (\<lambda>_.
     and_then (guard (m \<notin> {''snapshot'', ''click'', ''type'', ''navigate''})
       (Protocol ''unsupported task extension method'')) (\<lambda>_.
       guard (m \<in> {''click'', ''type'', ''navigate'', ''unpair''} \<and> \<not> hs_allow_browser_input h)
         (CodedProtocol BrowserInputNotGranted
           ''browser input is not granted for the logical task session''))))"

definition extension_ready :: "json \<Rightarrow> HostSession \<Rightarrow> bool" where
  "extension_ready state h \<longleftrightarrow>
     ta_foreground (from_window_state state) \<and> ta_status (from_window_state state) = Available
     \<and> is_status (input_current (hs_input_events h)) = ComputerUseInputStatus.Ready"

text \<open>\<open>probed\<close> is the readiness that \<open>refresh_input_readiness\<close> samples.\<close>

definition require_extension_ready ::
  "('st, 'c, 'v) host_env \<Rightarrow> ComputerUseInputReadiness \<Rightarrow> (unit, ('st, 'c, 'v) host_state) handler" where
  "require_extension_ready env probed =
     chain (core_call (en_core env) WindowStateCall) (\<lambda>r.
     chain (check_core r) (\<lambda>state.
     chain (try_update_session (\<lambda>h. map_option fst (observe_target_state state (en_world env 7) h))) (\<lambda>_.
     chain (try_update_session (refresh_input_readiness probed (en_world env 7))) (\<lambda>_.
     chain observe_session (\<lambda>h.
       check (guard (\<not> extension_ready state h)
         (Protocol ''extension input requires a foreground ready exact window'')))))))"

definition extension_observed :: "HostSession \<Rightarrow> HostError + ExtensionObservation" where
  "extension_observed h =
     (case hs_extension_observation h of
        None \<Rightarrow> Inl (Protocol ''take a fresh task-owned extension snapshot'') | Some ob \<Rightarrow> Inr ob)"

definition extension_binding :: "string \<Rightarrow> HostSession \<Rightarrow> json \<Rightarrow> ConfirmationBinding" where
  "extension_binding session_id h params =
     confirmation_binding_window session_id (hs_task_grant_id h) (hs_capability h)
       \<lparr>cw_process_id = hs_target_process_id h, cw_window_handle = hs_target_window_handle h\<rparr>
       (unwrap_or (as_str (json_index params ''snapshot_id'')) []) None"

definition extension_authorize ::
  "('st, 'c, 'v) host_env \<Rightarrow> string \<Rightarrow> json \<Rightarrow> json \<Rightarrow> (unit, ('st, 'c, 'v) host_state) handler" where
  "extension_authorize env session_id params action =
     chain observe_session (\<lambda>h.
     chain (request_confirmation env (extension_binding session_id h params) ''browser_extension_input'' action)
       (\<lambda>outcome.
         if outcome = Allowed then give ()
         else chain (unwrap (action_confirmation_refusal outcome)) (\<lambda>refusal.
           fail (Protocol (unwrap_or (as_str (json_index refusal ''error'')) ''task_authorization_required'')))))"

definition authorize_extension_input ::
  "('st, 'c, 'v) host_env \<Rightarrow> ComputerUseInputReadiness \<Rightarrow> string \<Rightarrow> string \<Rightarrow> string \<Rightarrow> string \<Rightarrow> json
   \<Rightarrow> (unit, ('st, 'c, 'v) host_state) handler" where
  "authorize_extension_input env probed session_id provider_id expected_origin m params =
     chain (require_extension_ready env probed) (\<lambda>_.
     chain require_current_evidence (\<lambda>_.
     chain observe_session (\<lambda>h.
     chain (check (extension_observed h)) (\<lambda>ob.
     chain (check (extension_action (en_externs env) (en_world env 8) ob provider_id expected_origin m params))
       (extension_authorize env session_id params)))))"

definition call_timeout :: "world \<Rightarrow> HostSession \<Rightarrow> u64 \<Rightarrow> u64" where
  "call_timeout w h timeout_ms =
     min timeout_ms (case hs_task_authorization h of
       None \<Rightarrow> timeout_ms
     | Some lease \<Rightarrow> saturating_sub (ls_expires_at_unix_ms lease) (observed_at_millis w))"

text \<open>
  From the admission of the session to the command in flight, or to its refusal by the registry,
  which is an outcome of the call like its answer.
\<close>

definition extension_call_begin ::
  "('st, 'c, 'v) host_env \<Rightarrow> (nat \<Rightarrow> BrowserExtensionRegistry \<Rightarrow> BrowserExtensionRegistry)
   \<Rightarrow> ComputerUseInputReadiness \<Rightarrow> string \<Rightarrow> string \<Rightarrow> string \<Rightarrow> string \<Rightarrow> json \<Rightarrow> u64
   \<Rightarrow> (HostError + nat, ('st, 'c, 'v) routing_state) handler" where
  "extension_call_begin env others probed session_id provider_id expected_origin m params timeout_ms =
     chain (in_session (authorized_session env)) (\<lambda>_.
     chain (run_registry (\<lambda>reg. ((), others 0 reg))) (\<lambda>_.
     chain (in_session observe_session) (\<lambda>h.
     chain (check (extension_call_checks h expected_origin m)) (\<lambda>_.
     chain (on_registry (claim provider_id (hs_target_process_id h) (hs_target_window_handle h)
       expected_origin (hs_capability h))) (\<lambda>_.
     chain (query_registry (\<lambda>reg. if m = ''navigate'' then require_navigation_capability reg provider_id else Inr ())) (\<lambda>_.
     chain (in_session (if m = ''snapshot'' then give ()
       else on_failure (authorize_extension_input env probed session_id provider_id expected_origin m params)
         invalidate_observations)) (\<lambda>_.
     chain (run_registry (\<lambda>reg. ((), others 1 reg))) (\<lambda>_.
     chain (in_session (update_session invalidate_observations)) (\<lambda>_.
     chain (in_session observe_session) (\<lambda>h.
       run_registry (call_start (en_externs env) (en_world env 9) (en_uuid env 9) provider_id expected_origin
         (hs_target_process_id h) m params (call_timeout (en_world env 9) h timeout_ms))))))))))))"

text \<open>From the outcome of the call to the reply.\<close>

definition publish_extension_snapshot :: "ExtensionObservation \<Rightarrow> HostSession \<Rightarrow> HostSession" where
  "publish_extension_snapshot ob h =
     (fst (synchronize_action_evidence_epoch_with PublishBrowserSnapshot h))\<lparr>hs_extension_observation := Some ob\<rparr>"

definition extension_call_end ::
  "('st, 'c, 'v) host_env \<Rightarrow> string \<Rightarrow> string \<Rightarrow> string \<Rightarrow> HostError + json
   \<Rightarrow> (json, ('st, 'c, 'v) routing_state) handler" where
  "extension_call_end env provider_id expected_origin m response =
     chain (run_registry (\<lambda>reg. ((), if m = ''navigate'' \<and> navigation_provider_must_revoke response
       then revoke_provider provider_id reg else reg))) (\<lambda>_.
     chain (check response) (\<lambda>v.
       if m = ''snapshot''
       then chain (check (extension_observation_new (en_world env 10) provider_id expected_origin
              (json_index v ''result''))) (\<lambda>ob.
            chain (in_session (update_session (publish_extension_snapshot ob))) (\<lambda>_. give v))
       else chain (in_session (update_session invalidate_observations)) (\<lambda>_. give v)))"

section \<open>What a call needs\<close>

lemma routing_Done [simp]:
  "in_session f s = (Done v, s') \<longleftrightarrow> f (fst s) = (Done v, fst s') \<and> snd s' = snd s"
  "on_registry g s = (Done u, s') \<longleftrightarrow> (\<exists>reg. g (snd s) = (Inr u, reg) \<and> s' = (fst s, reg))"
  "run_registry e s = (Done w, s') \<longleftrightarrow> (\<exists>reg. e (snd s) = (w, reg) \<and> s' = (fst s, reg))"
  "query_registry q s = (Done x, s') \<longleftrightarrow> q (snd s) = Inr x \<and> s' = s"
  "try_update_session t h = (Done y, h') \<longleftrightarrow> (\<exists>z. t (st_session h) = Some z \<and> h' = h\<lparr>st_session := z\<rparr>)"
  subgoal by (cases "f (fst s)"; cases s') (auto simp: in_session_def)
  subgoal by (cases "g (snd s)") (auto simp: on_registry_def)
  subgoal by (cases "e (snd s)") (auto simp: run_registry_def)
  subgoal by (auto simp: query_registry_def on_registry_def)
  subgoal by (auto simp: try_update_session_def split: option.splits)
  done

lemma on_failure_Done [simp]: "on_failure m f s = (Done v, s') \<longleftrightarrow> m s = (Done v, s')"
  by (auto simp: on_failure_def split: prod.splits outcome.splits)

text \<open>The session of a request keeps its identity; its extension observation can only be lost.\<close>

definition same_session :: "HostSession \<Rightarrow> HostSession \<Rightarrow> bool" where
  "same_session h h' \<longleftrightarrow> hs_task_authorization h' = hs_task_authorization h
     \<and> hs_task_grant_id h' = hs_task_grant_id h \<and> hs_capability h' = hs_capability h
     \<and> hs_target_process_id h' = hs_target_process_id h \<and> hs_target_window_handle h' = hs_target_window_handle h
     \<and> hs_extension_observation h' \<in> {None, hs_extension_observation h}"

lemma same_session_refl [simp]: "same_session h h"
  by (simp add: same_session_def)

lemma same_session_trans: "same_session a b \<Longrightarrow> same_session b c \<Longrightarrow> same_session a c"
  by (auto simp: same_session_def)

lemma same_session_binding: "same_session h h' \<Longrightarrow> extension_binding i h' params = extension_binding i h params"
  by (simp add: same_session_def extension_binding_def)

lemma same_session_simps [simp]:
  "same_session h (h\<lparr>hs_session := cs\<rparr>)" "same_session h (h\<lparr>hs_input_events := q\<rparr>)"
  "same_session h (mark_activity w h)" "same_session h (clear_native_observation_caches h)"
  "same_session h (discard_browser_evidence h)" "same_session h (synchronize_action_evidence_epoch h)"
  "same_session h (invalidate_observations h)"
  by (auto simp: same_session_def invalidate_observations_def mark_activity_def clear_native_observation_caches_def discard_browser_evidence_def
      synchronize_action_evidence_epoch_def synchronize_action_evidence_epoch_with_def Let_def)

lemma same_session_invalidate: "invalidate_action_observations h = Some h' \<Longrightarrow> same_session h h'"
  by (auto simp: invalidate_action_observations_def bind_eq_Some_conv
      intro: same_session_trans [OF same_session_simps(1) same_session_simps(6)])

lemma same_session_observe:
  "observe_input_readiness r t h = Some (h', c) \<Longrightarrow> same_session h h'"
  "observe_target_state j w h = Some (h', d) \<Longrightarrow> same_session h h'"
  by (auto simp: observe_input_readiness_def observe_target_state_def observe_target_availability_def Let_def
      bind_eq_Some_conv intro: same_session_trans [OF same_session_simps(2) same_session_invalidate] split: if_splits prod.splits)

text \<open>The window a call was made for was in the foreground and available, and the probed input ready.\<close>

definition input_ready :: "('st, 'c, 'v) host_env \<Rightarrow> ComputerUseInputReadiness \<Rightarrow> HostSession \<Rightarrow> bool" where
  "input_ready env probed h \<longleftrightarrow> ir_status probed = ComputerUseInputStatus.Ready
     \<and> (\<exists>state cs. co_call (en_core env) WindowStateCall (hs_session h) = (Inr state, cs)
          \<and> ta_foreground (from_window_state state) \<and> ta_status (from_window_state state) = Available)"

lemma observe_status: "is_status (input_current (fst (observe r t q))) = ir_status r"
  by (simp add: observe_def input_transition_def push_event_def Let_def)

lemma invalidate_keeps_events:
  "invalidate_action_observations h = Some h' \<Longrightarrow> hs_input_events h' = hs_input_events h"
  by (auto simp: invalidate_action_observations_def bind_eq_Some_conv synchronize_action_evidence_epoch_def
      synchronize_action_evidence_epoch_with_def clear_native_observation_caches_def discard_browser_evidence_def Let_def)

lemma observe_input_status:
  assumes "observe_input_readiness r t h = Some (h', c)"
  shows "is_status (input_current (hs_input_events h')) = ir_status r"
proof -
  let ?q = "fst (observe r t (hs_input_events h))"
  have "hs_input_events h' = ?q"
    using assms invalidate_keeps_events [of "h\<lparr>hs_input_events := ?q\<rparr>" h']
    by (cases "observe r t (hs_input_events h)") (auto simp: observe_input_readiness_def Let_def split: if_splits)
  then show ?thesis by (simp only: observe_status)
qed

lemma require_extension_ready_Done:
  assumes "require_extension_ready env probed s = (Done u, s')"
  shows "same_session (st_session s) (st_session s') \<and> st_log s' = st_log s @ [Native WindowStateCall]
    \<and> input_ready env probed (st_session s)"
proof -
  from assms obtain r s1 state h1 c1 h2 c2 where
    call: "core_call (en_core env) WindowStateCall s = (Done r, s1)" and state: "r = Inr state"
    and h1: "observe_target_state state (en_world env 7) (st_session s1) = Some (h1, c1)"
    and h2: "observe_input_readiness probed (observed_at_millis (en_world env 7)) h1 = Some (h2, c2)"
    and ready: "extension_ready state h2" and s': "s' = s1\<lparr>st_session := h2\<rparr>"
    by (auto simp: require_extension_ready_def chain_Done_iff refresh_input_readiness_def)
  have "input_ready env probed (st_session s)"
    using call state ready observe_input_status [OF h2]
    by (auto simp: input_ready_def extension_ready_def core_call_def Let_def case_prod_beta prod_eq_iff)
  moreover from call have "st_log s1 = st_log s @ [Native WindowStateCall]" "same_session (st_session s) (st_session s1)"
    by (auto simp: core_call_def log_event_def Let_def case_prod_unfold)
  ultimately show ?thesis
    using h1 h2 s' same_session_trans [OF same_session_trans [OF _ same_session_observe(2) [OF h1]] same_session_observe(1) [OF h2]]
    by auto
qed

lemma extension_authorize_Done:
  assumes "extension_authorize env session_id params action s = (Done u, s')"
  shows "\<exists>request. confirmation_new_value (en_externs env) (en_uuid env 3)
        (extension_binding session_id (st_session s) params) ''browser_extension_input'' action = Inr request
      \<and> st_log s' = st_log s @ [Asked request Allowed] \<and> st_session s' = st_session s"
  using assms
  by (auto simp: extension_authorize_def chain_Done_iff request_confirmation_def dest!: ask_Done split: if_splits)

lemma authorize_extension_input_Done:
  assumes "authorize_extension_input env probed session_id provider_id origin m params s = (Done u, s')"
  shows "\<exists>ob action request. hs_extension_observation (st_session s) = Some ob
    \<and> extension_action (en_externs env) (en_world env 8) ob provider_id origin m params = Inr action
    \<and> confirmation_new_value (en_externs env) (en_uuid env 3)
        (extension_binding session_id (st_session s) params) ''browser_extension_input'' action = Inr request
    \<and> st_log s' = st_log s @ [Native WindowStateCall, Asked request Allowed]
    \<and> same_session (st_session s) (st_session s') \<and> input_ready env probed (st_session s)"
proof -
  from assms obtain s1 s2 ob action where ready: "require_extension_ready env probed s = (Done (), s1)"
    and current: "require_current_evidence s1 = (Done (), s2)" and ob: "hs_extension_observation (st_session s2) = Some ob"
    and action: "extension_action (en_externs env) (en_world env 8) ob provider_id origin m params = Inr action"
    and auth: "extension_authorize env session_id params action s2 = (Done u, s')"
    by (auto simp: authorize_extension_input_def chain_Done_iff extension_observed_def split: option.splits)
  from require_current_evidence_Done [THEN iffD1, OF current] have s2: "s2 = s1" by simp
  note r = require_extension_ready_Done [OF ready]
  then have "hs_extension_observation (st_session s) = Some ob" using ob s2 by (auto simp: same_session_def)
  with r action extension_authorize_Done [OF auth] same_session_binding [of "st_session s" "st_session s1"] s2
  show ?thesis by auto
qed

lemma extension_call_checks_Inr:
  "extension_call_checks h origin m = Inr u \<longleftrightarrow>
     require_task_authorized_method h ''browser_extension_call'' = Inr () \<and> origin_allowed h origin
     \<and> m \<in> {''snapshot'', ''click'', ''type'', ''navigate''} \<and> (m \<noteq> ''snapshot'' \<longrightarrow> hs_allow_browser_input h)"
  by (auto simp: extension_call_checks_def and_then_Inr_iff require_allowed_browser_origin_def origin_allowed_def
      guard_def split: if_splits)

lemma claim_owned:
  assumes "claim provider_id pid hwnd origin capability st = (Inr (), st')" and ok: "registry_ok st"
  shows "\<exists>a. pv_native_window (xr_arcs st' ! a) = Some hwnd \<and> pg_origin (pv_pairing (xr_arcs st' ! a)) = origin
    \<and> pv_owner (xr_arcs st' ! a) = Some capability"
proof -
  from assms(1) obtain a where a: "provider st provider_id = Inr a" "pv_native_window (xr_arcs st ! a) = Some hwnd"
    "pg_origin (pv_pairing (xr_arcs st ! a)) = origin"
    by (auto simp: claim_def Let_def split: sum.splits if_splits)
  from claims.keeps_identities [OF ok] assms(1) have "keeps_providers st st'" by (metis snd_conv)
  with provider_live [OF ok a(1)] a claimed [OF assms(1) a(1) ok] show ?thesis
    by (intro exI [of _ a]) (auto simp: keeps_providers_def identity_of_def)
qed

text \<open>
  C8. A command goes to an extension only for a task that may send it: the session was admitted
  and, if it has a lease, the lease was revalidated, lists the method, and the origin is among the
  origins allowed to the session; a session without a lease is limited neither in method nor in
  origin. The session claimed the provider, which is paired in its own window on that origin, before the call. Input additionally
  needs the browser input grant, an extension snapshot this task took, on whose reference the action
  is admissible, a window that the core reported in the foreground and available with ready input,
  and a confirmation for exactly this action, session and snapshot. Starting the call uses the snapshot up.
\<close>

theorem extension_command_authorized:
  assumes call: "extension_call_begin env others probed session_id provider_id origin m params timeout (s, reg) = (Done (Inr c), s', reg')"
    and new: "st_log s = []" and run: "ext_run registry_new es (others 0 reg)"
  shows "admitted env (st_session s)
    \<and> (\<forall>l. hs_task_authorization (st_session s) = Some l \<longrightarrow>
         ''browser_extension_call'' \<in> set (ls_allowed_host_methods l) \<and> origin \<in> set (hs_allowed_browser_origins (st_session s)))
    \<and> (\<exists>a claimed. claim provider_id (hs_target_process_id (st_session s)) (hs_target_window_handle (st_session s)) origin
          (hs_capability (st_session s)) (others 0 reg) = (Inr (), claimed)
        \<and> pv_native_window (xr_arcs claimed ! a) = Some (hs_target_window_handle (st_session s))
        \<and> pg_origin (pv_pairing (xr_arcs claimed ! a)) = origin
        \<and> pv_owner (xr_arcs claimed ! a) = Some (hs_capability (st_session s)))
    \<and> hs_extension_observation (st_session s') = None
    \<and> (m = ''snapshot'' \<or> hs_allow_browser_input (st_session s) \<and> input_ready env probed (st_session s)
        \<and> (\<exists>ob action request. hs_extension_observation (st_session s) = Some ob
          \<and> extension_action (en_externs env) (en_world env 8) ob provider_id origin m params = Inr action
          \<and> confirmation_new_value (en_externs env) (en_uuid env 3) (extension_binding session_id (st_session s) params)
              ''browser_extension_input'' action = Inr request
          \<and> st_log s' = [Revalidated (Inr ()), Native WindowStateCall, Asked request Allowed]))"
proof -
  from call obtain s1 s2 reg1 where auth: "authorized_session env s = (Done (), s1)"
    and checks: "extension_call_checks (st_session s1) origin m = Inr ()"
    and claimed: "claim provider_id (hs_target_process_id (st_session s1)) (hs_target_window_handle (st_session s1)) origin
        (hs_capability (st_session s1)) (others 0 reg) = (Inr (), reg1)"
    and input: "(if m = ''snapshot'' then give ()
       else on_failure (authorize_extension_input env probed session_id provider_id origin m params)
         invalidate_observations) s1 = (Done (), s2)"
    and s': "s' = s2\<lparr>st_session := invalidate_observations (st_session s2)\<rparr>"
    unfolding extension_call_begin_def by (auto simp: chain_Done_iff)
  note pre = admitted_prefix [OF auth new]
  have same: "same_session (st_session s) (st_session s1)" by (simp add: pre(3))
  have fields: "hs_extension_observation (st_session s1) = hs_extension_observation (st_session s)"
    "require_task_authorized_method (st_session s1) = require_task_authorized_method (st_session s)"
    by (auto simp: pre(3) mark_activity_def require_task_authorized_method_def fun_eq_iff)
  from ext_run_inv [OF run] have ok: "registry_ok (others 0 reg)" by (simp add: ext_inv_def)
  have cl: "claim provider_id (hs_target_process_id (st_session s)) (hs_target_window_handle (st_session s)) origin
      (hs_capability (st_session s)) (others 0 reg) = (Inr (), reg1)" using same claimed by (simp add: same_session_def)
  from checks have ck: "require_task_authorized_method (st_session s) ''browser_extension_call'' = Inr ()"
    "origin_allowed (st_session s) origin" "m \<noteq> ''snapshot'' \<Longrightarrow> hs_allow_browser_input (st_session s)"
    using fields(2) by (auto simp: extension_call_checks_Inr pre(3))
  have "\<exists>ob action request. hs_extension_observation (st_session s) = Some ob
      \<and> extension_action (en_externs env) (en_world env 8) ob provider_id origin m params = Inr action
      \<and> confirmation_new_value (en_externs env) (en_uuid env 3) (extension_binding session_id (st_session s) params)
          ''browser_extension_input'' action = Inr request
      \<and> st_log s' = [Revalidated (Inr ()), Native WindowStateCall, Asked request Allowed]" if "m \<noteq> ''snapshot''"
    using input that authorize_extension_input_Done [of env probed session_id provider_id origin m params s1 "()" s2]
    by (auto simp: s' pre(2) fields same_session_binding [OF same])
  moreover have "hs_extension_observation (st_session s') = None"
    by (simp add: s' invalidate_observations_def discard_browser_evidence_def)
  moreover have "input_ready env probed (st_session s)" if "m \<noteq> ''snapshot''"
    using input that authorize_extension_input_Done [of env probed session_id provider_id origin m params s1 "()" s2]
    by (auto simp: pre(3) input_ready_def mark_activity_def)
  moreover have "''browser_extension_call'' \<in> set (ls_allowed_host_methods l) \<and> origin \<in> set (hs_allowed_browser_origins (st_session s))"
    if "hs_task_authorization (st_session s) = Some l" for l
    using ck(1,2) that by (simp add: require_task_authorized_method_def is_some_and_iff origin_allowed_def)
  ultimately show ?thesis using pre(1) ck(3) cl claim_owned [OF cl ok] by blast
qed

text \<open>
  C33. One snapshot, one input: when a call other than a snapshot has been started and has ended,
  whatever its outcome, the session holds no extension observation, and every further input call
  is refused until a new snapshot has been taken.
\<close>

theorem extension_snapshot_used_once:
  assumes first: "extension_call_begin env others probed session_id provider_id origin m params timeout (s, reg) = (Done started, s1, reg1)"
    and ended: "extension_call_end env' provider_id origin m response (s1, reg2) = (out, s2, reg3)"
    and input: "m \<noteq> ''snapshot''" "m' \<noteq> ''snapshot''"
  shows "hs_extension_observation (st_session s2) = None
    \<and> fst (extension_call_begin env'' others' probed' session_id' provider_id' origin' m' params' timeout' (s2, reg4)) \<noteq> Done c'"
proof -
  have used: "hs_extension_observation (st_session s1) = None"
    using first unfolding extension_call_begin_def
    by (auto simp: chain_Done_iff invalidate_observations_def discard_browser_evidence_def)
  have s2: "hs_extension_observation (st_session s2) = None"
    using ended used input(1)
    by (cases response) (auto simp: extension_call_end_def chain_def on_registry_def run_registry_def in_session_def check_def give_def
      update_session_def invalidate_observations_def discard_browser_evidence_def)
  have "\<not> (\<exists>s' reg'. extension_call_begin env'' others' probed' session_id' provider_id' origin' m' params' timeout' (s2, reg4)
      = (Done c', s', reg'))"
  proof (intro notI, elim exE)
    fix s' reg'
    assume "extension_call_begin env'' others' probed' session_id' provider_id' origin' m' params' timeout' (s2, reg4) = (Done c', s', reg')"
    then obtain s3 s4 where auth: "authorized_session env'' s2 = (Done (), s3)"
      and ask: "authorize_extension_input env'' probed' session_id' provider_id' origin' m' params' s3 = (Done (), s4)"
      using input(2) unfolding extension_call_begin_def by (auto simp: chain_Done_iff)
    from auth s2 have "hs_extension_observation (st_session s3) = None" by (auto simp: authorized_Done mark_activity_def)
    with authorize_extension_input_Done [OF ask] show False by auto
  qed
  with s2 show ?thesis by (metis prod.collapse)
qed

section \<open>An example call\<close>

definition example_window_state :: json where
  "example_window_state = JObj [(''visible'', JBool True), (''foreground'', JBool True)]"

definition example_call_env :: "(unit, unit, unit) host_env" where
  "example_call_env = example_env\<lparr>en_task_host := None,
     en_confirmation_host := Some (\<lambda>r c. (Inr \<lparr>cd_action = Allow, cd_request_digest = cr_request_digest r\<rparr>, c)),
     en_core := example_core\<lparr>co_call := (\<lambda>_ c. (Inr example_window_state, c))\<rparr>\<rparr>"

definition example_paired :: ExtensionObservation where
  "example_paired = example_observation\<lparr>eo_provider_id := ''browser-extension-u''\<rparr>"

definition example_call_state :: "(unit, unit, unit) host_state" where
  "example_call_state =
     \<lparr>st_session = example_host_session\<lparr>hs_target_process_id := 42, hs_target_window_handle := 77, hs_capability := ''t'',
        hs_extension_observation := Some example_paired\<rparr>,
      st_task = (), st_confirm = (), st_vault = (), st_log = []\<rparr>"

lemma example_call_env_simps [simp]:
  "en_externs example_call_env = example_externs" "en_world example_call_env k = example_world"
  "en_clock example_call_env k = (\<lambda>_. example_world)" "en_uuid example_call_env k = ''u''"
  "en_task_host example_call_env = None" "co_interrupted (en_core example_call_env) c = False"
  "co_banner_failure (en_core example_call_env) c = None"
  "co_call (en_core example_call_env) call c = (Inr example_window_state, c)"
  by (simp_all add: example_call_env_def)

lemma example_call_admitted:
  "authorized_session example_call_env example_call_state =
     (Done (), example_call_state\<lparr>st_log := [Revalidated (Inr ())]\<rparr>)"
  by (simp add: authorized_Done)
     (simp add: example_call_state_def example_host_session_def validate_active_task_authorization_def
      is_idle_expired_def example_world_def mark_activity_def)

lemma example_input_ready:
  assumes "st_session s = st_session example_call_state"
  shows "\<exists>q. require_extension_ready example_call_env example_ready s =
     (Done (), s\<lparr>st_session := (st_session s)\<lparr>hs_input_events := q\<rparr>, st_log := st_log s @ [Native WindowStateCall]\<rparr>)"
proof -
  have events: "hs_input_events (st_session s) = new_with_restore_capability example_input_target example_ready example_visible True 1"
    using assms by (simp add: example_call_state_def example_host_session_def)
  define h where "h = st_session s"
  have "\<exists>q. observe_target_state example_window_state example_world h = Some (h\<lparr>hs_input_events := q\<rparr>, False)
      \<and> input_current q = input_current (hs_input_events h)"
    by (simp add: observe_target_state_def observe_target_availability_def h_def refresh_target_availability_def observe_target_def
        events new_with_restore_capability_def with_capacity_def target_state_initial_def example_visible_def example_window_state_def
        from_window_state_def flag_of_def json_index_def or_else_def unwrap_or_def) (intro exI conjI, rule refl, simp)
  then obtain q where q: "observe_target_state example_window_state example_world h = Some (h\<lparr>hs_input_events := q\<rparr>, False)"
    "input_current q = input_current (hs_input_events h)" by blast
  have st: "is_status (input_current q) = ir_status example_ready" "ir_status example_ready = ComputerUseInputStatus.Ready"
    by (simp_all add: q(2) h_def events new_with_restore_capability_def with_capacity_def input_state_initial_def)
       (simp add: example_ready_def from_diagnostic_def)
  then obtain q' where q': "refresh_input_readiness example_ready example_world (h\<lparr>hs_input_events := q\<rparr>) = Some (h\<lparr>hs_input_events := q'\<rparr>)"
    "is_status (input_current q') = ComputerUseInputStatus.Ready"
    by (simp add: refresh_input_readiness_def observe_input_readiness_def observe_def)
  have "extension_ready example_window_state (h\<lparr>hs_input_events := q'\<rparr>)"
    using q'(2) by (simp add: extension_ready_def example_window_state_def from_window_state_def flag_of_def json_index_def
        or_else_def unwrap_or_def)
  then have "require_extension_ready example_call_env example_ready s =
     (Done (), s\<lparr>st_session := h\<lparr>hs_input_events := q'\<rparr>, st_log := st_log s @ [Native WindowStateCall]\<rparr>)"
    using q(1) q'(1)
    by (auto simp: require_extension_ready_def chain_Done_iff core_call_def log_event_def check_core_def to_host_error_def
        map_err_def guard_def h_def)
  then show ?thesis unfolding h_def by blast
qed

lemma example_call_asked:
  assumes "hs_task_authorization (st_session s) = None" and "hs_allow_trusted_confirmation (st_session s)"
  shows "\<exists>request. request_confirmation example_call_env bd intent action s =
     (Done Allowed, s\<lparr>st_log := st_log s @ [Asked request Allowed]\<rparr>)"
proof -
  obtain c where c: "confirmation_new_value example_externs ''u'' bd intent action = Inr c"
    by (simp add: confirmation_new_value_def digest_with_context_def example_externs_def)
  have "request_confirmation example_call_env bd intent action s =
      (Done Allowed, s\<lparr>st_log := st_log s @ [Asked c Allowed]\<rparr>)"
    by (simp add: request_confirmation_def chain_pure ask_confirmation_def assms c
        authorize_window_confirmation_def authorize_task_scoped_action_def log_event_def)
       (simp add: example_call_env_def authorize_action_confirmation_def)
  then show ?thesis by blast
qed

lemma example_click_observed:
  "extension_action example_externs example_world example_paired ''browser-extension-u'' ''https://a.example'' ''click'' example_params
    = Inr (control_action example_externs ''browser-extension-u'' ''https://a.example'' ''click'' example_params)"
  by (simp add: extension_action_def extension_stale_def example_paired_def example_observation_def example_params_def
      example_extension_snapshot_def extension_ref_def json_index_def example_node_def extension_actionable_def)

lemma example_input_authorized:
  assumes "st_session s = st_session example_call_state"
  shows "\<exists>s'. authorize_extension_input example_call_env example_ready ''s'' ''browser-extension-u'' ''https://a.example''
    ''click'' example_params s = (Done (), s')"
proof -
  from example_input_ready [OF assms] obtain q where
    q: "require_extension_ready example_call_env example_ready s =
     (Done (), s\<lparr>st_session := (st_session s)\<lparr>hs_input_events := q\<rparr>, st_log := st_log s @ [Native WindowStateCall]\<rparr>)" by blast
  define s1 where "s1 = s\<lparr>st_session := (st_session s)\<lparr>hs_input_events := q\<rparr>, st_log := st_log s @ [Native WindowStateCall]\<rparr>"
  have f: "hs_task_authorization (st_session s1) = None" "hs_allow_trusted_confirmation (st_session s1)"
    "hs_extension_observation (st_session s1) = Some example_paired"
    using assms by (simp_all add: s1_def example_call_state_def example_host_session_def)
  have "require_current_evidence s1 = (Done (), s1)"
    using assms by (simp add: require_current_evidence_Done s1_def evidence_current_def session_epoch_def example_call_state_def
      example_host_session_def example_core_session_def)
  then show ?thesis
    using q [folded s1_def] example_click_observed example_call_asked [OF f(1,2)] f(3)
    by (simp add: authorize_extension_input_def chain_Done_iff extension_observed_def extension_authorize_def) blast
qed

lemma example_click_starts:
  "\<exists>c reg'. call_start example_externs example_world ''u'' ''browser-extension-u'' ''https://a.example'' 42 ''click''
     example_params 1000 example_claimed = (Inr c, reg')"
proof -
  have "call_target_check example_claimed ''browser-extension-u'' ''https://a.example'' 42 ''click'' = Inr 0"
    by (simp add: call_target_check_def provider_def example_claimed_def example_registry_def example_provider_def
        example_pairing_def guard_def extension_methods_def)
  moreover have "\<exists>fs. call_params example_params = Inr fs"
    by (simp add: call_params_def protected_params_def guard_def example_params_def)
  moreover have "prune_stale example_world example_claimed = example_claimed"
    unfolding example_claimed_def by (rule example_prune)
  ultimately show ?thesis
    by (auto simp: call_start_def MAX_EXTENSION_CALL_TIMEOUT_MS_def case_prod_unfold Let_def)
qed

lemma example_call_begun:
  "\<exists>c s' reg'. extension_call_begin example_call_env (\<lambda>_ reg. reg) example_ready ''s'' ''browser-extension-u''
     ''https://a.example'' ''click'' example_params 1000 (example_call_state, example_registered) = (Done (Inr c), s', reg')"
proof -
  define s1 where "s1 = example_call_state\<lparr>st_log := [Revalidated (Inr ())]\<rparr>"
  have "st_session s1 = st_session example_call_state" by (simp add: s1_def)
  from example_input_authorized [OF this] obtain s2 where
    s2: "authorize_extension_input example_call_env example_ready ''s'' ''browser-extension-u'' ''https://a.example''
      ''click'' example_params s1 = (Done (), s2)" by blast
  have h: "hs_target_process_id (st_session s1) = 42" "hs_target_window_handle (st_session s1) = 77"
    "hs_capability (st_session s1) = ''t''"
    by (simp_all add: s1_def example_call_state_def example_host_session_def)
  have checks: "extension_call_checks (st_session s1) ''https://a.example'' ''click'' = Inr ()"
    by (simp add: extension_call_checks_Inr s1_def example_call_state_def example_host_session_def origin_allowed_def
        require_task_authorized_method_def is_some_and_iff guard_def)
  define s3 where "s3 = s2\<lparr>st_session := invalidate_observations (st_session s2)\<rparr>"
  have same: "same_session (st_session s1) (st_session s3)"
    using authorize_extension_input_Done [OF s2] same_session_trans [OF _ same_session_simps(7)] by (auto simp: s3_def)
  then have "hs_task_authorization (st_session s3) = None"
    by (simp add: same_session_def s1_def example_call_state_def example_host_session_def)
  from same h have pid: "hs_target_process_id (st_session s3) = 42" by (simp add: same_session_def)
  obtain c reg' where start: "call_start example_externs example_world ''u'' ''browser-extension-u'' ''https://a.example'' 42
     ''click'' example_params (call_timeout example_world (st_session s3) 1000) example_claimed = (Inr c, reg')"
    using example_click_starts by (auto simp: call_timeout_def \<open>hs_task_authorization (st_session s3) = None\<close>)
  show ?thesis
    unfolding extension_call_begin_def
    using example_call_admitted [folded s1_def] checks example_claims s2 start
    by (auto simp: chain_Done_iff h s3_def pid [unfolded s3_def, simplified])
qed

lemma example_registered_run: "ext_run registry_new [Joined 0 ''browser-extension-u'' None] example_registered"
  using run_two [OF run_nil ext_step.registers [OF example_provider_registers] refl] by (simp add: registry_new_def)

theorem extension_command_authorized_witness:
  "\<exists>s' request. st_log s' = [Revalidated (Inr ()), Native WindowStateCall, Asked request Allowed]
    \<and> hs_extension_observation (st_session s') = None
    \<and> (\<exists>c reg'. extension_call_begin example_call_env (\<lambda>_ reg. reg) example_ready ''s'' ''browser-extension-u''
        ''https://a.example'' ''click'' example_params 1000 (example_call_state, example_registered) = (Done (Inr c), s', reg'))"
proof -
  from example_call_begun obtain c s' reg' where
    run: "extension_call_begin example_call_env (\<lambda>_ reg. reg) example_ready ''s'' ''browser-extension-u''
     ''https://a.example'' ''click'' example_params 1000 (example_call_state, example_registered) = (Done (Inr c), s', reg')" by blast
  have "st_log example_call_state = []" by (simp add: example_call_state_def)
  from extension_command_authorized [OF run this example_registered_run] run show ?thesis by auto
qed

theorem extension_snapshot_used_once_witness:
  "\<exists>s1 reg1 s2 reg3 e. extension_call_end example_call_env ''browser-extension-u'' ''https://a.example'' ''click''
      (Inl (Protocol ''browser extension call timed out'')) (s1, reg1) = (Failed e, s2, reg3)
    \<and> fst (extension_call_begin example_call_env (\<lambda>_ reg. reg) example_ready ''s'' ''browser-extension-u''
        ''https://a.example'' ''click'' example_params 1000 (s2, reg3)) \<noteq> Done (Inr 0)"
proof -
  from example_call_begun obtain c s1 reg1 where
    run: "extension_call_begin example_call_env (\<lambda>_ reg. reg) example_ready ''s'' ''browser-extension-u''
     ''https://a.example'' ''click'' example_params 1000 (example_call_state, example_registered) = (Done (Inr c), s1, reg1)" by blast
  have fin: "extension_call_end example_call_env ''browser-extension-u'' ''https://a.example'' ''click''
      (Inl (Protocol ''browser extension call timed out'')) (s1, reg1)
      = (Failed (Protocol ''browser extension call timed out''), s1, reg1)"
    by (simp add: extension_call_end_def chain_def run_registry_def check_def)
  from extension_snapshot_used_once [OF run fin] fin show ?thesis by (intro exI conjI) auto
qed

end
