(* ===== verification/Session_Health.thy ===== *)
theory Session_Health
  imports Session_Evidence "HOL-Library.Option_ord"
begin

text \<open>
  The preflight health of a window session (\<open>dcc-cua-core/src/session_health.rs\<close>): the state of the
  recorder, the progress of a recording between two checks, and the blockers of input. The
  metadata of the partial recording file is a parameter.
\<close>

section \<open>Recording\<close>

datatype ComputerUseRecordingStatus =
  NotGranted | RecordingUnavailable | Stopped | Active | Paused | Degraded

datatype ComputerUseRecordingProgressStatus =
  NotRequested | BaselineRequired | Advanced | Stalled | Regressed | ProgressUnavailable

record ComputerUseRecordingHealth =
  rh_granted :: bool
  rh_status :: ComputerUseRecordingStatus
  rh_healthy :: "bool option"
  rh_issues :: "string list"
  rh_progress :: "ComputerUseRecordingProgressFingerprint option"
  rh_progress_status :: ComputerUseRecordingProgressStatus

definition option_advanced :: "u64 option \<Rightarrow> u64 option \<Rightarrow> bool" where
  "option_advanced previous current \<longleftrightarrow>
     (case (previous, current) of (Some p, Some c) \<Rightarrow> c > p | _ \<Rightarrow> False)
     \<or> (case (previous, current) of (None, Some _) \<Rightarrow> True | _ \<Rightarrow> False)"

definition option_regressed :: "u64 option \<Rightarrow> u64 option \<Rightarrow> bool" where
  "option_regressed previous current \<longleftrightarrow>
     (case (previous, current) of (Some p, Some c) \<Rightarrow> c < p | _ \<Rightarrow> False)
     \<or> (case (previous, current) of (Some _, None) \<Rightarrow> True | _ \<Rightarrow> False)"

definition compare_recording_progress ::
  "ComputerUseRecordingProgressFingerprint \<Rightarrow> ComputerUseRecordingProgressFingerprint
   \<Rightarrow> ComputerUseRecordingProgressStatus" where
  "compare_recording_progress previous current =
     (if fp_lane current \<noteq> fp_lane previous then BaselineRequired
      else case fp_lane current of
        Trajectory \<Rightarrow>
          if option_regressed (fp_trajectory_turn previous) (fp_trajectory_turn current) then Regressed
          else if option_advanced (fp_trajectory_turn previous) (fp_trajectory_turn current) then Advanced
          else Stalled
      | Video \<Rightarrow>
          if fp_finalized_segments current < fp_finalized_segments previous
             \<or> (fp_finalized_segments current = fp_finalized_segments previous
                \<and> (option_regressed (fp_current_partial_size_bytes previous) (fp_current_partial_size_bytes current)
                   \<or> option_regressed (fp_current_partial_modified_at_unix_ms previous)
                       (fp_current_partial_modified_at_unix_ms current)))
          then Regressed
          else if fp_finalized_segments current > fp_finalized_segments previous
             \<or> option_advanced (fp_current_partial_size_bytes previous) (fp_current_partial_size_bytes current)
             \<or> option_advanced (fp_current_partial_modified_at_unix_ms previous)
                 (fp_current_partial_modified_at_unix_ms current)
          then Advanced
          else Stalled)"

definition recording_progress_status ::
  "ComputerUseSessionHealthPolicy \<Rightarrow> ComputerUseRecordingProgressFingerprint option
   \<Rightarrow> ComputerUseRecordingProgressStatus" where
  "recording_progress_status policy current =
     (if \<not> sh_require_recording_progress policy then NotRequested
      else case current of
        None \<Rightarrow> ProgressUnavailable
      | Some current \<Rightarrow>
        (case sh_previous_recording_progress policy of
           None \<Rightarrow> BaselineRequired
         | Some previous \<Rightarrow> compare_recording_progress previous current))"

text \<open>\<open>metadata\<close> answers the length of a file and its modification time in nanoseconds.\<close>

definition partial_modified_ms :: "int option \<Rightarrow> u64 option" where
  "partial_modified_ms modified =
     Option.bind modified (\<lambda>ns. if ns < 0 then None else Some (millis_u64 ns))"

definition finalized_count :: "json list \<Rightarrow> u64" where
  "finalized_count segments =
     (let n = length (filter (\<lambda>s. Option.bind (json_get s ''finalized'') as_bool = Some True) segments)
      in if n < 2 ^ 64 then of_nat n else - 1)"

definition recording_progress_fingerprint ::
  "(string \<Rightarrow> (u64 \<times> int option) option) \<Rightarrow> json \<Rightarrow> ComputerUseRecordingProgressFingerprint option" where
  "recording_progress_fingerprint metadata state =
     (let trajectory = map_option (\<lambda>v. unwrap_or (json_get v ''structuredContent'') v) (json_get state ''trajectory'');
          turn = Option.bind (Option.bind trajectory (\<lambda>v. json_get v ''next_turn'')) as_u64;
          video = Option.bind (json_get state ''video'') (\<lambda>v. if v = JNull then None else Some v);
          segments = Option.bind (Option.bind video (\<lambda>v. json_get v ''segments'')) as_array;
          partial = Option.bind (Option.bind video (\<lambda>v. json_get v ''current_partial'')) as_str;
          meta = Option.bind partial metadata
      in if video \<noteq> None \<or> turn \<noteq> None
         then Some \<lparr>fp_lane = (if video \<noteq> None then Video else Trajectory), fp_trajectory_turn = turn,
                fp_finalized_segments = (case segments of None \<Rightarrow> 0 | Some segments \<Rightarrow> finalized_count segments),
                fp_current_partial_size_bytes = map_option fst meta,
                fp_current_partial_modified_at_unix_ms = Option.bind meta (\<lambda>m. partial_modified_ms (snd m))\<rparr>
         else None)"

definition recording_status :: "json \<Rightarrow> ComputerUseRecordingStatus" where
  "recording_status state =
     (let s = get_str state ''status'' in
      if s = Some ''stopped'' then Stopped else if s = Some ''active'' then Active
      else if s = Some ''paused'' then Paused else if s = Some ''degraded'' then Degraded
      else RecordingUnavailable)"

definition recording_health_from_state ::
  "(string \<Rightarrow> (u64 \<times> int option) option) \<Rightarrow> bool \<Rightarrow> json \<Rightarrow> ComputerUseSessionHealthPolicy
   \<Rightarrow> ComputerUseRecordingHealth" where
  "recording_health_from_state metadata granted state policy =
     (if \<not> granted
      then \<lparr>rh_granted = False, rh_status = NotGranted, rh_healthy = None, rh_issues = [], rh_progress = None,
            rh_progress_status = (if sh_require_recording_progress policy then ProgressUnavailable else NotRequested)\<rparr>
      else let progress = recording_progress_fingerprint metadata state in
        \<lparr>rh_granted = True, rh_status = recording_status state,
         rh_healthy = Option.bind (json_get state ''healthy'') as_bool,
         rh_issues = List.map_filter as_str (unwrap_or (Option.bind (json_get state ''issues'') as_array) []),
         rh_progress = progress, rh_progress_status = recording_progress_status policy progress\<rparr>)"

section \<open>Blockers\<close>

datatype ComputerUseSessionHealthBlocker =
    StateChangedDuringProbe | BlockInputSuspended | BlockTargetUnavailable | BlockTargetMinimized
  | TargetNotForeground | TargetProbeFailed | SessionInterrupted | RecordingNotGrantedBlocker
  | RecordingInactive | RecordingPaused | RecordingDegraded | RecordingProbeFailed
  | RecordingProgressBaselineRequired | RecordingProgressStalled | RecordingProgressRegressed
  | RecordingProgressUnavailable

record ComputerUseSessionHealthEvaluation =
  he_policy :: ComputerUseSessionHealthPolicy
  he_input_state :: ComputerUseSessionInputState
  he_target_state :: ComputerUseSessionTargetState
  he_recording :: ComputerUseRecordingHealth
  he_action_evidence_epoch :: ActionEvidenceEpoch
  he_transition_sequence :: u64
  he_state_changed_during_probe :: bool
  he_interrupted :: bool
  he_target_probe_failed :: bool

record ComputerUseSessionHealth =
  hl_schema_version :: nat
  hl_safe_to_input :: bool
  hl_authority :: string
  hl_automatic_activation :: bool
  hl_automatic_input :: bool
  hl_fresh_observation_required :: bool
  hl_policy :: ComputerUseSessionHealthPolicy
  hl_input_state :: ComputerUseSessionInputState
  hl_target_state :: ComputerUseSessionTargetState
  hl_recording :: ComputerUseRecordingHealth
  hl_action_evidence_epoch :: string
  hl_transition_sequence :: u64
  hl_blockers :: "ComputerUseSessionHealthBlocker list"

definition hex_digit :: "nat \<Rightarrow> char" where
  "hex_digit d = (if d < 10 then char_of (48 + d) else char_of (87 + d))"

definition opaque_token :: "ActionEvidenceEpoch \<Rightarrow> string" where
  "opaque_token e = ''action-evidence-v1:''
     @ map (\<lambda>i. hex_digit (unat (epoch_counter e) div 16 ^ i mod 16)) (rev [0..<16])"

definition target_blocker :: "ComputerUseSessionTargetState \<Rightarrow> ComputerUseSessionHealthBlocker option" where
  "target_blocker t =
     (if ts_status t = Minimized \<or> ts_minimized t then Some BlockTargetMinimized
      else if ts_status t = Unavailable \<or> \<not> ts_visible t then Some BlockTargetUnavailable
      else if \<not> ts_foreground t then Some TargetNotForeground else None)"

fun progress_blocker :: "ComputerUseRecordingProgressStatus \<Rightarrow> ComputerUseSessionHealthBlocker option" where
  "progress_blocker BaselineRequired = Some RecordingProgressBaselineRequired"
| "progress_blocker Stalled = Some RecordingProgressStalled"
| "progress_blocker Regressed = Some RecordingProgressRegressed"
| "progress_blocker ProgressUnavailable = Some RecordingProgressUnavailable"
| "progress_blocker NotRequested = Some RecordingProgressUnavailable"
| "progress_blocker Advanced = None"

definition recording_blocker ::
  "ComputerUseSessionHealthPolicy \<Rightarrow> ComputerUseRecordingHealth \<Rightarrow> ComputerUseSessionHealthBlocker option" where
  "recording_blocker policy r =
     (if \<not> rh_granted r \<or> rh_status r = NotGranted then Some RecordingNotGrantedBlocker
      else case rh_status r of
        RecordingUnavailable \<Rightarrow> Some RecordingProbeFailed
      | Stopped \<Rightarrow> Some RecordingInactive
      | Paused \<Rightarrow> Some RecordingPaused
      | Degraded \<Rightarrow> Some RecordingDegraded
      | _ \<Rightarrow> if rh_healthy r \<noteq> Some True then Some RecordingDegraded
             else if sh_require_recording_progress policy then progress_blocker (rh_progress_status r) else None)"

definition blocks :: "bool \<Rightarrow> ComputerUseSessionHealthBlocker \<Rightarrow> ComputerUseSessionHealthBlocker list" where
  "blocks condition b = (if condition then [b] else [])"

definition option_to_list :: "'a option \<Rightarrow> 'a list" where
  "option_to_list x = (case x of None \<Rightarrow> [] | Some v \<Rightarrow> [v])"

definition health_blockers :: "ComputerUseSessionHealthEvaluation \<Rightarrow> ComputerUseSessionHealthBlocker list" where
  "health_blockers e =
     blocks (he_state_changed_during_probe e) StateChangedDuringProbe
     @ blocks (is_status (he_input_state e) = Suspended) BlockInputSuspended
     @ option_to_list (target_blocker (he_target_state e))
     @ blocks (he_target_probe_failed e) TargetProbeFailed
     @ blocks (he_interrupted e) SessionInterrupted
     @ (if sh_require_recording_healthy (he_policy e) \<or> sh_require_recording_progress (he_policy e)
        then option_to_list (recording_blocker (he_policy e) (he_recording e)) else [])"

definition health_evaluate :: "ComputerUseSessionHealthEvaluation \<Rightarrow> ComputerUseSessionHealth" where
  "health_evaluate e =
     (let blockers = health_blockers e in
      \<lparr>hl_schema_version = 1, hl_safe_to_input = (blockers = []), hl_authority = ''preflight_only'',
       hl_automatic_activation = False, hl_automatic_input = False, hl_fresh_observation_required = True,
       hl_policy = he_policy e, hl_input_state = he_input_state e, hl_target_state = he_target_state e,
       hl_recording = he_recording e, hl_action_evidence_epoch = opaque_token (he_action_evidence_epoch e),
       hl_transition_sequence = he_transition_sequence e, hl_blockers = blockers\<rparr>)"

section \<open>Progress is an order\<close>

text \<open>With \<open>None\<close> below every value, the two comparisons of optional counters are the strict order.\<close>

lemma option_progress:
  "option_advanced p c \<longleftrightarrow> p < c" "option_regressed p c \<longleftrightarrow> c < p"
  by (cases p; cases c; simp add: option_advanced_def option_regressed_def)+

text \<open>The reference: a recording advances when its counters grow and none of them falls.\<close>

definition fingerprint_le ::
  "ComputerUseRecordingProgressFingerprint \<Rightarrow> ComputerUseRecordingProgressFingerprint \<Rightarrow> bool" where
  "fingerprint_le p c \<longleftrightarrow> fp_lane p = fp_lane c \<and>
     (case fp_lane p of
        Trajectory \<Rightarrow> fp_trajectory_turn p \<le> fp_trajectory_turn c
      | Video \<Rightarrow> fp_finalized_segments p < fp_finalized_segments c
          \<or> fp_finalized_segments p = fp_finalized_segments c
            \<and> fp_current_partial_size_bytes p \<le> fp_current_partial_size_bytes c
            \<and> fp_current_partial_modified_at_unix_ms p \<le> fp_current_partial_modified_at_unix_ms c)"

lemma compare_cases:
  "fp_lane p = fp_lane c \<Longrightarrow> compare_recording_progress p c =
     (if \<not> fingerprint_le p c then Regressed else if fingerprint_le c p then Stalled else Advanced)"
  by (auto simp: compare_recording_progress_def fingerprint_le_def option_progress
      split: ComputerUseRecordingProgressLane.split)

lemma fingerprint_le_trans: "fingerprint_le a b \<Longrightarrow> fingerprint_le b c \<Longrightarrow> fingerprint_le a c"
  by (auto simp: fingerprint_le_def split: ComputerUseRecordingProgressLane.splits)

lemma compare_Advanced: "compare_recording_progress p c = Advanced \<longleftrightarrow> fingerprint_le p c \<and> \<not> fingerprint_le c p"
proof (cases "fp_lane p = fp_lane c")
  case False
  then show ?thesis by (simp add: compare_recording_progress_def fingerprint_le_def)
qed (simp add: compare_cases)

lemma compare_Advanced_trans:
  "compare_recording_progress a b = Advanced \<Longrightarrow> compare_recording_progress b c = Advanced
   \<Longrightarrow> compare_recording_progress a c = Advanced"
  unfolding compare_Advanced using fingerprint_le_trans by blast

section \<open>Properties\<close>

lemma blocks_empty [simp]: "blocks condition b = [] \<longleftrightarrow> \<not> condition" "option_to_list x = [] \<longleftrightarrow> x = None"
  by (auto simp: blocks_def option_to_list_def split: option.split)

lemma target_blocker_None:
  "target_blocker t = None \<longleftrightarrow> ts_status t = Available \<and> \<not> ts_minimized t \<and> ts_visible t \<and> ts_foreground t"
  by (cases "ts_status t") (auto simp: target_blocker_def)

lemma progress_blocker_None: "progress_blocker s = None \<longleftrightarrow> s = Advanced"
  by (cases s) auto

lemma recording_blocker_None:
  "recording_blocker policy r = None \<longleftrightarrow> rh_granted r \<and> rh_status r = Active \<and> rh_healthy r = Some True
     \<and> (sh_require_recording_progress policy \<longrightarrow> rh_progress_status r = Advanced)"
  by (cases "rh_status r") (auto simp: recording_blocker_def progress_blocker_None)

text \<open>
  A session is reported safe for input exactly when nothing changed during the probe, input is
  ready, the window is available, visible, not minimized and in the foreground, its probe did not
  fail, the session is not interrupted, and the recording meets the policy of the caller: granted,
  active and healthy when health or progress is required, and advanced since the previous check
  when progress is required. The report never claims to activate or to send input.
\<close>

theorem safe_to_input_exact:
  "(hl_safe_to_input (health_evaluate e) \<longleftrightarrow>
     \<not> he_state_changed_during_probe e \<and> is_status (he_input_state e) = Ready
     \<and> ts_status (he_target_state e) = Available \<and> \<not> ts_minimized (he_target_state e)
     \<and> ts_visible (he_target_state e) \<and> ts_foreground (he_target_state e)
     \<and> \<not> he_target_probe_failed e \<and> \<not> he_interrupted e
     \<and> (\<not> sh_require_recording_healthy (he_policy e) \<and> \<not> sh_require_recording_progress (he_policy e)
        \<or> rh_granted (he_recording e) \<and> rh_status (he_recording e) = Active \<and> rh_healthy (he_recording e) = Some True
          \<and> (\<not> sh_require_recording_progress (he_policy e) \<or> rh_progress_status (he_recording e) = Advanced)))
   \<and> \<not> hl_automatic_activation (health_evaluate e) \<and> \<not> hl_automatic_input (health_evaluate e)
   \<and> hl_fresh_observation_required (health_evaluate e)"
  by (cases "is_status (he_input_state e)")
     (auto simp: health_evaluate_def Let_def health_blockers_def target_blocker_None recording_blocker_None)

text \<open>A health check that reports safe under a progress policy, from one fingerprint to the next.\<close>

definition progress_check ::
  "ComputerUseRecordingProgressFingerprint \<Rightarrow> ComputerUseRecordingProgressFingerprint \<Rightarrow> bool" where
  "progress_check previous current \<longleftrightarrow> (\<exists>e metadata granted state.
     sh_require_recording_progress (he_policy e) \<and> sh_previous_recording_progress (he_policy e) = Some previous
     \<and> he_recording e = recording_health_from_state metadata granted state (he_policy e)
     \<and> rh_progress (he_recording e) = Some current \<and> hl_safe_to_input (health_evaluate e))"

lemma progress_check_advances: "progress_check p c \<Longrightarrow> compare_recording_progress p c = Advanced"
proof -
  assume "progress_check p c"
  then obtain e metadata granted state where
    policy: "sh_require_recording_progress (he_policy e)" "sh_previous_recording_progress (he_policy e) = Some p"
    and rec: "he_recording e = recording_health_from_state metadata granted state (he_policy e)"
      "rh_progress (he_recording e) = Some c" and safe: "hl_safe_to_input (health_evaluate e)"
    unfolding progress_check_def by blast
  from safe policy(1) have "rh_progress_status (he_recording e) = Advanced" "rh_granted (he_recording e)"
    by (auto simp: health_evaluate_def Let_def health_blockers_def recording_blocker_None)
  with rec policy show ?thesis
    by (auto simp: recording_health_from_state_def recording_progress_status_def Let_def split: if_splits)
qed

text \<open>
  C34. Progress cannot be faked by repeating evidence: along any sequence of checks in which each
  takes the fingerprint of the one before as its baseline and each reports safe under a progress
  policy, no two fingerprints are equal, and the last has advanced over the first.
\<close>

theorem recording_progress_strict:
  assumes "successively progress_check fps"
  shows "distinct fps \<and> (length fps \<le> 1 \<or> compare_recording_progress (hd fps) (last fps) = Advanced)"
proof -
  define lt where "lt = (\<lambda>p c. compare_recording_progress p c = Advanced)"
  have "transp lt" unfolding lt_def by (auto intro: transpI compare_Advanced_trans)
  moreover from assms have "successively lt fps" unfolding lt_def
    by (rule successively_mono) (rule progress_check_advances)
  ultimately have sorted: "sorted_wrt lt fps" by (simp add: successively_conv_sorted_wrt)
  moreover have "\<not> lt p p" for p by (simp add: lt_def compare_Advanced)
  ultimately have "distinct fps"
    unfolding distinct_conv_nth sorted_wrt_iff_nth_less by (metis linorder_neqE_nat)
  moreover have "lt (hd fps) (last fps)" if "length fps > 1"
    using sorted that by (cases fps) auto
  ultimately show ?thesis unfolding lt_def by (cases "length fps \<le> 1") auto
qed

definition example_recording :: "u64 \<Rightarrow> json" where
  "example_recording turn = JObj [(''status'', JStr ''active''), (''healthy'', JBool True),
     (''trajectory'', JObj [(''next_turn'', json_u64 turn)])]"

definition example_fingerprint :: "u64 \<Rightarrow> ComputerUseRecordingProgressFingerprint" where
  "example_fingerprint turn = \<lparr>fp_lane = Trajectory, fp_trajectory_turn = Some turn, fp_finalized_segments = 0,
     fp_current_partial_size_bytes = None, fp_current_partial_modified_at_unix_ms = None\<rparr>"

definition example_progress_policy :: "u64 \<Rightarrow> ComputerUseSessionHealthPolicy" where
  "example_progress_policy p = \<lparr>sh_require_recording_healthy = True, sh_require_recording_progress = True,
     sh_previous_recording_progress = Some (example_fingerprint p)\<rparr>"

definition example_evaluation :: "u64 \<Rightarrow> u64 \<Rightarrow> ComputerUseSessionHealthEvaluation" where
  "example_evaluation p c = \<lparr>he_policy = example_progress_policy p,
     he_input_state = input_state_initial example_input_target example_ready 1,
     he_target_state = (target_state_initial example_input_target example_visible 1)\<lparr>ts_foreground := True\<rparr>,
     he_recording = recording_health_from_state (\<lambda>_. None) True (example_recording c) (example_progress_policy p),
     he_action_evidence_epoch = Epoch 0, he_transition_sequence = 1, he_state_changed_during_probe = False,
     he_interrupted = False, he_target_probe_failed = False\<rparr>"

lemma example_recording_health:
  "p < c \<Longrightarrow> recording_health_from_state (\<lambda>_. None) True (example_recording c) (example_progress_policy p) =
     \<lparr>rh_granted = True, rh_status = Active, rh_healthy = Some True, rh_issues = [],
      rh_progress = Some (example_fingerprint c), rh_progress_status = Advanced\<rparr>"
  by (simp add: recording_health_from_state_def recording_progress_fingerprint_def recording_status_def
      recording_progress_status_def compare_recording_progress_def option_progress example_recording_def
      example_fingerprint_def example_progress_policy_def get_str_def unwrap_or_def json_u64_def)

lemma example_evaluation_safe: "p < c \<Longrightarrow> hl_safe_to_input (health_evaluate (example_evaluation p c))"
  by (simp add: health_evaluate_def health_blockers_def target_blocker_None recording_blocker_None example_evaluation_def
      example_recording_health input_state_initial_def example_ready_def from_diagnostic_def target_state_initial_def
      example_visible_def from_window_state_def flag_of_def json_index_def or_else_def unwrap_or_def)

lemma example_progress_check:
  assumes "p < c"
  shows "progress_check (example_fingerprint p) (example_fingerprint c)"
proof -
  have "he_recording (example_evaluation p c) =
      recording_health_from_state (\<lambda>_. None) True (example_recording c) (he_policy (example_evaluation p c))"
    by (simp add: example_evaluation_def)
  moreover have "sh_require_recording_progress (he_policy (example_evaluation p c))"
    "sh_previous_recording_progress (he_policy (example_evaluation p c)) = Some (example_fingerprint p)"
    "rh_progress (he_recording (example_evaluation p c)) = Some (example_fingerprint c)"
    using example_recording_health [OF assms] by (simp_all add: example_evaluation_def example_progress_policy_def)
  ultimately show ?thesis unfolding progress_check_def using example_evaluation_safe [OF assms] by blast
qed

theorem recording_progress_strict_witness:
  "distinct [example_fingerprint 1, example_fingerprint 2, example_fingerprint 3]
   \<and> compare_recording_progress (example_fingerprint 1) (example_fingerprint 3) = Advanced"
proof -
  have "successively progress_check [example_fingerprint 1, example_fingerprint 2, example_fingerprint 3]"
    by (simp add: example_progress_check)
  from recording_progress_strict [OF this] show ?thesis by simp
qed

end
