(* ===== verification/Float64.thy ===== *)
theory Float64
  imports Request_Payloads
begin

text \<open>
  The double precision arithmetic of the language, as the coordinate code uses it. An \<open>f64\<close> is its
  bit pattern; every finite value is an integral number of units of \<open>2 ^ -1074\<close>, so sums and
  comparisons are exact integer operations, and a result is rounded to nearest, ties to even, once.
\<close>

section \<open>Values\<close>

definition f64_negative :: "f64 \<Rightarrow> bool" where
  "f64_negative x \<longleftrightarrow> 2 ^ 63 \<le> unat x"

definition f64_magnitude :: "f64 \<Rightarrow> nat" where
  "f64_magnitude x = unat x mod 2 ^ 63"

definition magnitude_units :: "nat \<Rightarrow> nat" where
  "magnitude_units b =
     (if b div 2 ^ 52 = 0 then b else (2 ^ 52 + b mod 2 ^ 52) * 2 ^ (b div 2 ^ 52 - 1))"

text \<open>The signed value in units; an infinity lies beyond every finite value.\<close>

definition f64_units :: "f64 \<Rightarrow> int" where
  "f64_units x = (if f64_negative x then - 1 else 1) * int (magnitude_units (f64_magnitude x))"

definition f64_infinity_magnitude :: nat where
  "f64_infinity_magnitude = 2047 * 2 ^ 52"

definition f64_is_nan :: "f64 \<Rightarrow> bool" where
  "f64_is_nan x \<longleftrightarrow> f64_infinity_magnitude < f64_magnitude x"

definition f64_pack :: "bool \<Rightarrow> nat \<Rightarrow> f64" where
  "f64_pack negative magnitude = of_nat ((if negative then 2 ^ 63 else 0) + magnitude)"

definition f64_nan :: f64 where
  "f64_nan = f64_pack False (f64_infinity_magnitude + 2 ^ 51)"

definition f64_lt :: "f64 \<Rightarrow> f64 \<Rightarrow> bool" where
  "f64_lt a b \<longleftrightarrow> \<not> f64_is_nan a \<and> \<not> f64_is_nan b \<and> f64_units a < f64_units b"

definition f64_le :: "f64 \<Rightarrow> f64 \<Rightarrow> bool" where
  "f64_le a b \<longleftrightarrow> \<not> f64_is_nan a \<and> \<not> f64_is_nan b \<and> f64_units a \<le> f64_units b"

section \<open>Rounding\<close>

definition round_half_even :: "nat \<Rightarrow> nat \<Rightarrow> nat" where
  "round_half_even p q =
     (let d = p div q; r = p mod q in if q < 2 * r \<or> q = 2 * r \<and> odd d then Suc d else d)"

text \<open>The number of low bits of \<open>n\<close> that do not fit into a 53-bit significand.\<close>

fun binade :: "nat \<Rightarrow> nat" where
  "binade n = (if n < 2 ^ 53 then 0 else Suc (binade (n div 2)))"

declare binade.simps [simp del]

text \<open>The magnitude nearest to \<open>p / q\<close> units. A carry out of the significand raises the exponent.\<close>

definition f64_round :: "nat \<Rightarrow> nat \<Rightarrow> nat" where
  "f64_round p q =
     (let s = binade (p div q)
      in min f64_infinity_magnitude (s * 2 ^ 52 + round_half_even p (q * 2 ^ s)))"

section \<open>Operations\<close>

definition f64_of_int :: "int \<Rightarrow> f64" where
  "f64_of_int n = f64_pack (n < 0) (f64_round (nat \<bar>n\<bar> * 2 ^ 1074) 1)"

definition f64_of_u32 :: "u32 \<Rightarrow> f64" where
  "f64_of_u32 n = f64_of_int (uint n)"

definition f64_of_i32 :: "i32 \<Rightarrow> f64" where
  "f64_of_i32 n = f64_of_int (sint n)"

definition f64_is_infinite :: "f64 \<Rightarrow> bool" where
  "f64_is_infinite x \<longleftrightarrow> f64_magnitude x = f64_infinity_magnitude"

definition f64_add :: "f64 \<Rightarrow> f64 \<Rightarrow> f64" where
  "f64_add a b =
     (if f64_is_nan a \<or> f64_is_nan b
         \<or> f64_is_infinite a \<and> f64_is_infinite b \<and> f64_negative a \<noteq> f64_negative b then f64_nan
      else if f64_is_infinite a then a else if f64_is_infinite b then b
      else let n = f64_units a + f64_units b
        in f64_pack (n < 0 \<or> n = 0 \<and> f64_negative a \<and> f64_negative b) (f64_round (nat \<bar>n\<bar>) 1))"

definition f64_sub :: "f64 \<Rightarrow> f64 \<Rightarrow> f64" where
  "f64_sub a b = f64_add a (f64_pack (\<not> f64_negative b) (f64_magnitude b))"

definition f64_mul :: "f64 \<Rightarrow> f64 \<Rightarrow> f64" where
  "f64_mul a b =
     (let negative = (f64_negative a \<noteq> f64_negative b);
          zero = (f64_magnitude a = 0 \<or> f64_magnitude b = 0);
          infinite = (f64_is_infinite a \<or> f64_is_infinite b)
      in if f64_is_nan a \<or> f64_is_nan b \<or> infinite \<and> zero then f64_nan
         else if infinite then f64_pack negative f64_infinity_magnitude
         else f64_pack negative (f64_round (nat \<bar>f64_units a * f64_units b\<bar>) (2 ^ 1074)))"

definition f64_div :: "f64 \<Rightarrow> f64 \<Rightarrow> f64" where
  "f64_div a b =
     (let negative = (f64_negative a \<noteq> f64_negative b)
      in if f64_is_nan a \<or> f64_is_nan b \<or> f64_is_infinite a \<and> f64_is_infinite b
            \<or> f64_magnitude a = 0 \<and> f64_magnitude b = 0 then f64_nan
         else if f64_is_infinite a \<or> f64_magnitude b = 0 then f64_pack negative f64_infinity_magnitude
         else if f64_is_infinite b then f64_pack negative 0
         else f64_pack negative (f64_round (nat \<bar>f64_units a\<bar> * 2 ^ 1074) (nat \<bar>f64_units b\<bar>)))"

text \<open>\<open>f64::round\<close>, half away from zero, of a value that fits into an integer.\<close>

definition f64_round_to_int :: "f64 \<Rightarrow> int" where
  "f64_round_to_int x =
     sgn (f64_units x) * int ((2 * nat \<bar>f64_units x\<bar> + 2 ^ 1074) div 2 ^ 1075)"

text \<open>\<open>serde_json::Value::as_f64\<close>.\<close>

fun as_f64 :: "json \<Rightarrow> f64 option" where
  "as_f64 (JNum (PosInt n)) = Some (f64_of_int (uint n))"
| "as_f64 (JNum (NegInt n)) = Some (f64_of_int n)"
| "as_f64 (JNum (Float x)) = Some x"
| "as_f64 _ = None"

section \<open>Rounding is monotone\<close>

lemma binade_small: "n < 2 ^ 53 \<Longrightarrow> binade n = 0"
  by (simp add: binade.simps)

lemma binade_bounds: "2 ^ 53 \<le> n \<Longrightarrow> 2 ^ 52 \<le> n div 2 ^ binade n \<and> n div 2 ^ binade n < 2 ^ 53"
proof (induction n rule: binade.induct)
  case (1 n)
  then have step: "binade n = Suc (binade (n div 2))" by (subst binade.simps) simp
  have shift: "n div 2 ^ Suc k = n div 2 div 2 ^ k" for k
    by (simp add: div_mult2_eq)
  show ?case
  proof (cases "n div 2 < 2 ^ 53")
    case True
    with 1 step show ?thesis by (auto simp: binade_small)
  next
    case False
    with 1 step shift show ?thesis by (metis not_less)
  qed
qed

lemma binade_upper: "n < 2 ^ (53 + binade n)"
proof (cases "n < 2 ^ 53")
  case False
  then have "n div 2 ^ binade n < 2 ^ 53" using binade_bounds by simp
  then show ?thesis by (simp add: div_less_iff_less_mult power_add)
qed (simp add: binade_small)

lemma binade_lower: "binade n \<noteq> 0 \<Longrightarrow> 2 ^ (52 + binade n) \<le> n"
proof -
  assume "binade n \<noteq> 0"
  then have "2 ^ 53 \<le> n" using binade_small not_less by blast
  then have "2 ^ 52 \<le> n div 2 ^ binade n" using binade_bounds by simp
  then have "2 ^ 52 * 2 ^ binade n \<le> n"
    by (simp add: less_eq_div_iff_mult_less_eq)
  then show ?thesis by (simp add: power_add)
qed

lemma binade_mono:
  assumes "m \<le> n"
  shows "binade m \<le> binade n"
proof (rule ccontr)
  assume "\<not> ?thesis"
  then have lt: "binade n < binade m" by simp
  then have "2 ^ (52 + binade m) \<le> m" using binade_lower by simp
  moreover have "n < 2 ^ (53 + binade n)" by (rule binade_upper)
  moreover have "(2::nat) ^ (53 + binade n) \<le> 2 ^ (52 + binade m)"
    using lt by (intro power_increasing) auto
  ultimately show False using assms by linarith
qed

lemma round_half_even_bounds:
  assumes "0 < q"
  shows "p div q \<le> round_half_even p q" "round_half_even p q \<le> Suc (p div q)"
  by (auto simp: round_half_even_def Let_def)

lemma round_half_even_exact: "0 < q \<Longrightarrow> round_half_even (k * q) q = k"
  by (simp add: round_half_even_def)

text \<open>Monotone in the fraction \<open>p / q\<close>, compared by cross multiplication.\<close>

lemma div_mono_fraction:
  assumes "0 < q" "0 < q'" "p * q' \<le> p' * q"
  shows "p div q \<le> p' div (q'::nat)"
proof -
  have "p div q * q \<le> p" by simp
  then have "p div q * q * q' \<le> p * q'" by (rule mult_right_mono) simp
  also note assms(3)
  finally have "p div q * q' * q \<le> p' * q" by (simp only: mult_ac)
  then have "p div q * q' \<le> p'" using assms(1) by simp
  then show ?thesis using assms(2) by (simp only: less_eq_div_iff_mult_less_eq)
qed

lemma round_half_even_mono:
  assumes q: "0 < q" "0 < q'" and le: "p * q' \<le> p' * q"
  shows "round_half_even p q \<le> round_half_even p' q'"
proof (cases "p div q = p' div q'")
  case False
  then have "Suc (p div q) \<le> p' div q'" using div_mono_fraction [OF q le] by simp
  then show ?thesis using round_half_even_bounds [of q p] round_half_even_bounds [of q' p'] q by linarith
next
  case True
  let ?d = "p div q"
  have p: "p = ?d * q + p mod q" and p': "p' = ?d * q' + p' mod q'"
    by (simp, simp add: True)
  define d r r' where "d = p div q" and "r = p mod q" and "r' = p' mod q'"
  have "(d * q + r) * q' \<le> (d * q' + r') * q"
    using le p p' by (simp only: d_def r_def r'_def)
  then have "r * q' \<le> r' * q" by (simp add: algebra_simps)
  then have rem: "p mod q * q' \<le> p' mod q' * q" by (simp only: r_def r'_def)
  have "q' \<le> 2 * (p' mod q')" if "q \<le> 2 * (p mod q)"
  proof -
    have "q * q' \<le> 2 * (p mod q) * q'" using that by (intro mult_right_mono) auto
    also have "\<dots> \<le> 2 * (p' mod q') * q" using rem by simp
    finally show ?thesis using q by simp
  qed
  moreover have "q' < 2 * (p' mod q')" if "q < 2 * (p mod q)"
  proof -
    have "q * q' < 2 * (p mod q) * q'" using that q by (intro mult_strict_right_mono) auto
    also have "\<dots> \<le> 2 * (p' mod q') * q" using rem by simp
    finally show ?thesis using q by simp
  qed
  ultimately show ?thesis using True by (auto simp: round_half_even_def Let_def)
qed

lemma f64_round_mono:
  assumes q: "0 < q" "0 < q'" and le: "p * q' \<le> p' * q"
  shows "f64_round p q \<le> f64_round p' q'"
proof -
  define s s' where "s = binade (p div q)" and "s' = binade (p' div q')"
  have s: "s \<le> s'" unfolding s_def s'_def by (intro binade_mono div_mono_fraction q le)
  have "s * 2 ^ 52 + round_half_even p (q * 2 ^ s) \<le> s' * 2 ^ 52 + round_half_even p' (q' * 2 ^ s')"
  proof (cases "s = s'")
    case True
    have "p * (q' * 2 ^ s') \<le> p' * (q * 2 ^ s)"
      using True le by (simp add: mult.assoc [symmetric])
    with True q show ?thesis by (simp add: round_half_even_mono)
  next
    case False
    then have lt: "s < s'" using s by simp
    have "p div q < 2 ^ (53 + s)" unfolding s_def by (rule binade_upper)
    then have "p div (q * 2 ^ s) < 2 ^ 53"
      by (simp add: div_mult2_eq div_less_iff_less_mult power_add)
    then have "round_half_even p (q * 2 ^ s) \<le> 2 ^ 53"
      using round_half_even_bounds(2) [of "q * 2 ^ s" p] q by simp
    moreover have "2 ^ (52 + s') \<le> p' div q'" unfolding s'_def
      using lt s'_def by (intro binade_lower) auto
    then have "2 ^ 52 \<le> p' div (q' * 2 ^ s')"
      by (simp add: div_mult2_eq less_eq_div_iff_mult_less_eq power_add)
    then have "2 ^ 52 \<le> round_half_even p' (q' * 2 ^ s')"
      using round_half_even_bounds(1) [of "q' * 2 ^ s'" p'] q by simp
    moreover have "(s + 1) * 2 ^ 52 \<le> s' * (2 ^ 52 :: nat)" using lt by (intro mult_right_mono) auto
    ultimately show ?thesis by simp
  qed
  then show ?thesis unfolding f64_round_def Let_def s_def s'_def by linarith
qed

section \<open>Units of a rounded value\<close>

lemma magnitude_units_normal:
  assumes "2 ^ 52 \<le> m" "m < 2 ^ 53"
  shows "magnitude_units (s * 2 ^ 52 + m) = m * 2 ^ s"
proof -
  define f where "f = m - 2 ^ 52"
  have m: "m = 2 ^ 52 + f" and f: "f < 2 ^ 52" using assms by (simp_all add: f_def)
  have split: "s * 2 ^ 52 + m = (s + 1) * 2 ^ 52 + f" by (simp add: m)
  have "(s * 2 ^ 52 + m) div 2 ^ 52 = s + 1" unfolding split using f by simp
  moreover have "(s * 2 ^ 52 + m) mod 2 ^ 52 = f"
    unfolding split using f by (simp only: mod_mult_self3 mod_less)
  ultimately show ?thesis by (simp add: magnitude_units_def m)
qed

lemma magnitude_units_small: "b < 2 ^ 53 \<Longrightarrow> magnitude_units b = b"
  using magnitude_units_normal [of b 0] by (cases "b < 2 ^ 52") (auto simp: magnitude_units_def)

lemma magnitude_units_strict_mono:
  assumes "a < b"
  shows "magnitude_units a < magnitude_units b"
proof -
  define e f where "e = a div 2 ^ 52" and "f = a mod 2 ^ 52"
  define e' f' where "e' = b div 2 ^ 52" and "f' = b mod 2 ^ 52"
  have a: "a = e * 2 ^ 52 + f" and b: "b = e' * 2 ^ 52 + f'" and ff: "f < 2 ^ 52" "f' < 2 ^ 52"
    by (simp_all add: e_def f_def e'_def f'_def)
  have units: "magnitude_units a = (if e = 0 then f else (2 ^ 52 + f) * 2 ^ (e - 1))"
    "magnitude_units b = (if e' = 0 then f' else (2 ^ 52 + f') * 2 ^ (e' - 1))"
    by (auto simp: magnitude_units_def e_def f_def e'_def f'_def)
  have "e \<le> e'" unfolding e_def e'_def using assms by (intro div_le_mono) simp
  then consider "e = e'" | "e < e'" by linarith
  then show ?thesis
  proof cases
    case 1
    then show ?thesis using a b assms units by simp
  next
    case 2
    have "magnitude_units a < 2 ^ 52 * 2 ^ e"
      using ff units by (cases e) (simp_all)
    also have "\<dots> \<le> 2 ^ 52 * 2 ^ (e' - 1)" using 2 by (simp add: power_increasing)
    also have "\<dots> \<le> magnitude_units b" using 2 units by simp
    finally show ?thesis .
  qed
qed

lemma magnitude_units_mono: "a \<le> b \<Longrightarrow> magnitude_units a \<le> magnitude_units b"
  using magnitude_units_strict_mono [of a b] by (cases "a = b") auto

text \<open>An integer below \<open>2 ^ 53\<close> is a value of its own.\<close>

lemma f64_round_integer:
  assumes "k < 2 ^ 53"
  shows "magnitude_units (f64_round (k * 2 ^ 1074) 1) = k * 2 ^ 1074"
    and "f64_round (k * 2 ^ 1074) 1 < f64_infinity_magnitude"
proof -
  define n s where "n = k * 2 ^ 1074" and "s = binade n"
  have n: "n < 2 ^ (53 + 1074)" using assms by (simp add: n_def power_add)
  have s: "s \<le> 1074"
  proof (cases "s = 0")
    case False
    then have "2 ^ (52 + s) \<le> n" using binade_lower [of n] by (simp add: s_def)
    then have "(2::nat) ^ (52 + s) < 2 ^ (53 + 1074)" using n by linarith
    then show ?thesis by (subst (asm) power_strict_increasing_iff) auto
  qed simp
  define m where "m = k * 2 ^ (1074 - s)"
  have split: "n = m * 2 ^ s" using s by (simp add: n_def m_def power_add [symmetric])
  have r: "f64_round n 1 = min f64_infinity_magnitude (s * 2 ^ 52 + m)"
    by (simp add: f64_round_def Let_def s_def [symmetric]) (simp add: split round_half_even_exact)
  have "n < 2 ^ (53 + s)" unfolding s_def by (rule binade_upper)
  then have "m * 2 ^ s < 2 ^ (53 + s)" by (simp only: split)
  then have up: "m < 2 ^ 53" by (simp add: power_add)
  have "s * 2 ^ 52 \<le> 1074 * (2 ^ 52 :: nat)" using s by (intro mult_right_mono) auto
  with up have small: "s * 2 ^ 52 + m < f64_infinity_magnitude" by (simp add: f64_infinity_magnitude_def)
  then show "f64_round (k * 2 ^ 1074) 1 < f64_infinity_magnitude" using r by (simp add: n_def)
  have units: "magnitude_units (s * 2 ^ 52 + m) = m * 2 ^ s"
  proof (cases "s = 0")
    case False
    then have "2 ^ (52 + s) \<le> n" using binade_lower [of n] by (simp add: s_def)
    then have "2 ^ 52 \<le> m" by (simp add: split power_add)
    then show ?thesis using up by (rule magnitude_units_normal)
  qed (simp add: magnitude_units_small [OF up])
  have "f64_round n 1 = s * 2 ^ 52 + m" using r small by simp
  then have "magnitude_units (f64_round n 1) = n" by (simp only: units split [symmetric])
  then show "magnitude_units (f64_round (k * 2 ^ 1074) 1) = k * 2 ^ 1074" by (simp only: n_def)
qed

section \<open>Signed values\<close>

lemma f64_round_le: "f64_round p q \<le> f64_infinity_magnitude"
  by (simp add: f64_round_def Let_def)

lemma unat_f64_pack: "m < 2 ^ 63 \<Longrightarrow> unat (f64_pack negative m) = (if negative then 2 ^ 63 else 0) + m"
  unfolding f64_pack_def by (subst unat_of_nat) simp

lemma f64_pack_parts:
  assumes "m \<le> f64_infinity_magnitude"
  shows "f64_negative (f64_pack negative m) = negative" "f64_magnitude (f64_pack negative m) = m"
proof -
  have m: "m < 2 ^ 63" using assms by (simp add: f64_infinity_magnitude_def)
  show "f64_negative (f64_pack negative m) = negative"
    using m unfolding f64_negative_def unat_f64_pack [OF m] by simp
  show "f64_magnitude (f64_pack negative m) = m"
    using m unfolding f64_magnitude_def unat_f64_pack [OF m] by (cases negative) simp_all
qed

lemma f64_units_pack:
  "m \<le> f64_infinity_magnitude \<Longrightarrow>
     f64_units (f64_pack negative m) = (if negative then - 1 else 1) * int (magnitude_units m)"
  by (simp add: f64_units_def f64_pack_parts)

lemma f64_is_finite_magnitude: "f64_is_finite x \<longleftrightarrow> f64_magnitude x < f64_infinity_magnitude"
proof -
  define n where "n = unat x"
  have n: "n < 2 ^ 64" unfolding n_def using unsigned_less [of x] by simp
  have "n div 2 ^ 52 mod 2 ^ 11 = n mod 2 ^ 63 div 2 ^ 52"
    using mod_mult2_eq [of n "2 ^ 52" "2 ^ 11"] by simp
  moreover have "n mod 2 ^ 63 div 2 ^ 52 \<noteq> 2047 \<longleftrightarrow> n mod 2 ^ 63 < 2047 * 2 ^ 52"
  proof -
    have "n mod 2 ^ 63 < 2 ^ 63" by simp
    then have "n mod 2 ^ 63 div 2 ^ 52 < 2048" by (simp add: div_less_iff_less_mult)
    then show ?thesis by (auto simp: div_less_iff_less_mult [symmetric])
  qed
  ultimately show ?thesis
    by (simp add: f64_is_finite_def f64_magnitude_def f64_infinity_magnitude_def n_def)
qed

lemma f64_finite_classes: "f64_is_finite x \<Longrightarrow> \<not> f64_is_nan x \<and> \<not> f64_is_infinite x"
  by (simp add: f64_is_finite_magnitude f64_is_nan_def f64_is_infinite_def)

text \<open>The rounded value of an integral number of units.\<close>

definition units_round :: "int \<Rightarrow> int" where
  "units_round n = sgn n * int (magnitude_units (f64_round (nat \<bar>n\<bar>) 1))"

lemma magnitude_units_0 [simp]: "magnitude_units 0 = 0"
  by (simp add: magnitude_units_def)

lemma f64_round_0 [simp]: "f64_round 0 q = 0"
  by (simp add: f64_round_def binade_small round_half_even_def)

lemma units_round_mono:
  assumes "m \<le> n"
  shows "units_round m \<le> units_round n"
proof -
  have mono: "magnitude_units (f64_round a 1) \<le> magnitude_units (f64_round b 1)" if "a \<le> b" for a b
    using that by (intro magnitude_units_mono f64_round_mono) auto
  consider "0 \<le> m" | "m < 0" "0 \<le> n" | "n < 0" using assms by linarith
  then show ?thesis
  proof cases
    case 1
    then show ?thesis using assms mono [of "nat \<bar>m\<bar>" "nat \<bar>n\<bar>"]
      by (cases "m = 0") (auto simp: units_round_def sgn_if)
  next
    case 2
    then show ?thesis by (simp add: units_round_def sgn_if)
  next
    case 3
    then show ?thesis using assms mono [of "nat \<bar>n\<bar>" "nat \<bar>m\<bar>"]
      by (simp add: units_round_def sgn_if)
  qed
qed

lemma units_round_integer:
  assumes "\<bar>k\<bar> < 2 ^ 53"
  shows "units_round (k * 2 ^ 1074) = k * 2 ^ 1074"
proof -
  have "nat \<bar>k * 2 ^ 1074\<bar> = nat \<bar>k\<bar> * 2 ^ 1074"
    by (simp add: abs_mult nat_mult_distrib nat_power_eq)
  moreover have "nat \<bar>k\<bar> < 2 ^ 53" using assms by (simp add: nat_less_iff)
  ultimately have "int (magnitude_units (f64_round (nat \<bar>k * 2 ^ 1074\<bar>) 1)) = \<bar>k\<bar> * 2 ^ 1074"
    using f64_round_integer(1) by (simp del: power_numeral)
  then show ?thesis by (simp add: units_round_def sgn_mult mult_sgn_abs del: power_numeral)
qed

lemma f64_units_of_int:
  assumes "\<bar>k\<bar> < 2 ^ 53"
  shows "f64_units (f64_of_int k) = k * 2 ^ 1074" "f64_is_finite (f64_of_int k)"
proof -
  have k: "nat \<bar>k\<bar> < 2 ^ 53" using assms by (simp add: nat_less_iff)
  show "f64_units (f64_of_int k) = k * 2 ^ 1074"
    using f64_round_integer(1) [OF k] f64_round_le
    by (simp add: f64_of_int_def f64_units_pack del: power_numeral)
  show "f64_is_finite (f64_of_int k)"
    using f64_round_integer(2) [OF k] f64_round_le
    by (simp add: f64_of_int_def f64_is_finite_magnitude f64_pack_parts del: power_numeral)
qed

lemma f64_units_add:
  assumes "f64_is_finite a" "f64_is_finite b"
  shows "f64_units (f64_add a b) = units_round (f64_units a + f64_units b)"
  using assms f64_round_le
  by (auto simp: f64_add_def Let_def f64_finite_classes f64_units_pack units_round_def sgn_if)

lemma f64_finite_units:
  "\<not> f64_is_nan x \<Longrightarrow> \<bar>f64_units x\<bar> < int (magnitude_units f64_infinity_magnitude) \<Longrightarrow> f64_is_finite x"
  using magnitude_units_mono [of f64_infinity_magnitude "f64_magnitude x"]
  by (cases "f64_magnitude x < f64_infinity_magnitude")
     (auto simp: f64_units_def f64_is_finite_magnitude abs_mult not_less split: if_splits)

lemma f64_add_not_nan: "f64_is_finite a \<Longrightarrow> f64_is_finite b \<Longrightarrow> \<not> f64_is_nan (f64_add a b)"
proof -
  assume "f64_is_finite a" "f64_is_finite b"
  then have "\<exists>negative n. f64_add a b = f64_pack negative (f64_round n 1)"
    by (auto simp: f64_add_def Let_def f64_finite_classes)
  then show ?thesis by (auto simp: f64_is_nan_def f64_pack_parts f64_round_le not_less)
qed

lemma magnitude_units_infinity: "int (magnitude_units f64_infinity_magnitude) = 2 ^ 2098"
  by (simp add: magnitude_units_def f64_infinity_magnitude_def)

text \<open>A sum that lies between two integers is rounded to a finite value between them.\<close>

lemma f64_add_between:
  assumes fin: "f64_is_finite a" "f64_is_finite b" and k: "\<bar>k\<bar> < 2 ^ 53" "\<bar>l\<bar> < 2 ^ 53"
    and between: "k * 2 ^ 1074 \<le> f64_units a + f64_units b" "f64_units a + f64_units b \<le> l * 2 ^ 1074"
  shows "k * 2 ^ 1074 \<le> f64_units (f64_add a b)" "f64_units (f64_add a b) \<le> l * 2 ^ 1074"
    "f64_is_finite (f64_add a b)"
proof -
  let ?n = "f64_units a + f64_units b"
  have lower: "k * 2 ^ 1074 \<le> units_round ?n"
    using units_round_mono [OF between(1)] by (simp only: units_round_integer [OF k(1)])
  have upper: "units_round ?n \<le> l * 2 ^ 1074"
    using units_round_mono [OF between(2)] by (simp only: units_round_integer [OF k(2)])
  from lower upper show le: "k * 2 ^ 1074 \<le> f64_units (f64_add a b)" "f64_units (f64_add a b) \<le> l * 2 ^ 1074"
    by (simp_all only: f64_units_add [OF fin])
  have "- (2 ^ 53) * 2 ^ 1074 \<le> k * (2 ^ 1074 :: int)" "l * 2 ^ 1074 \<le> 2 ^ 53 * (2 ^ 1074 :: int)"
    using k by (intro mult_right_mono; simp)+
  with le have "\<bar>f64_units (f64_add a b)\<bar> \<le> 2 ^ 53 * 2 ^ 1074" by linarith
  also have "\<dots> < (2 ^ 2098 :: int)" by simp
  finally show "f64_is_finite (f64_add a b)"
    by (intro f64_finite_units f64_add_not_nan fin) (simp only: magnitude_units_infinity)
qed

lemma f64_of_i32_units:
  "f64_units (f64_of_i32 n) = sint n * 2 ^ 1074" "f64_is_finite (f64_of_i32 n)"
proof -
  have "\<bar>sint n\<bar> < 2 ^ 53" using sint_greater_eq [of n] sint_less [of n] by simp
  then show "f64_units (f64_of_i32 n) = sint n * 2 ^ 1074" "f64_is_finite (f64_of_i32 n)"
    unfolding f64_of_i32_def by (simp_all only: f64_units_of_int)
qed

end
