(* ===== verification/Target_Policy.thy ===== *)
theory Target_Policy
  imports Float64 Browser_Session Recording_Authorization "HOL-Library.Sublist"
begin

text \<open>
  Which windows a session may operate: the rows of the window inventory as exact targets
  (\<open>dcc-cua-core/src/window_target.rs\<close>, the part that is not specific to Windows) and the policy on
  the identity of their applications (\<open>sensitive_target_policy.rs\<close>), which a login-window
  permission relaxes for the exact window it is bound to.
\<close>

section \<open>Application identities (sensitive\_target\_policy.rs)\<close>

definition SENSITIVE_IDENTITY_MARKERS :: "string list" where
  "SENSITIVE_IDENTITY_MARKERS =
     [''password'', ''credential'', ''authentication'', ''sign in'', ''login'', ''terminal'',
      ''command prompt'', ''security'', ''consent'']"

definition RESTRICTED_EXECUTABLE_STEMS :: "string list" where
  "RESTRICTED_EXECUTABLE_STEMS =
     [''alacritty'', ''bash'', ''cmd'', ''conhost'', ''consent'', ''credentialuibroker'', ''cscript'',
      ''fish'', ''gdm'', ''gdm-password'', ''gdm-session-worker'', ''gnome-terminal'',
      ''gnome-terminal-server'', ''konsole'', ''lightdm'', ''login'', ''loginwindow'', ''logonui'',
      ''lsass'', ''mintty'', ''mshta'', ''node'', ''nodejs'', ''powershell'', ''pwsh'', ''regsvr32'',
      ''rundll32'', ''sh'', ''sddm'', ''terminal'', ''wezterm'', ''winlogon'', ''windowsterminal'',
      ''wscript'', ''wsl'', ''wt'', ''xterm'', ''zsh'']"

fun str_contains :: "string \<Rightarrow> string \<Rightarrow> bool" where
  "str_contains p [] \<longleftrightarrow> p = []"
| "str_contains p (c # s) \<longleftrightarrow> starts_with p (c # s) \<or> str_contains p s"

definition strip_suffix :: "string \<Rightarrow> string \<Rightarrow> string option" where
  "strip_suffix p s = (if ends_with p s then Some (take (length s - length p) s) else None)"

definition strip_prefix :: "string \<Rightarrow> string \<Rightarrow> string option" where
  "strip_prefix p s = (if starts_with p s then Some (drop (length p) s) else None)"

definition is_quote :: "char \<Rightarrow> bool" where
  "is_quote c \<longleftrightarrow> c = CHR 0x27 \<or> c = CHR 0x22"

definition is_separator :: "char \<Rightarrow> bool" where
  "is_separator c \<longleftrightarrow> c = CHR ''/'' \<or> c = CHR 0x5C"

definition trim_matches :: "(char \<Rightarrow> bool) \<Rightarrow> string \<Rightarrow> string" where
  "trim_matches p s = rev (dropWhile p (rev (dropWhile p s)))"

definition executable_stem :: "string \<Rightarrow> string" where
  "executable_stem identity =
     (let leaf = last (split_on is_separator (trim_matches is_quote identity))
      in case strip_suffix ''.exe'' leaf of
           Some stem \<Rightarrow> stem
         | None \<Rightarrow> (case strip_suffix ''.app'' leaf of Some stem \<Rightarrow> stem | None \<Rightarrow> leaf))"

definition is_python_interpreter :: "string \<Rightarrow> bool" where
  "is_python_interpreter stem \<longleftrightarrow>
     (case strip_prefix ''python'' stem of
        None \<Rightarrow> False
      | Some version \<Rightarrow> version = [] \<or> version = ''w''
          \<or> list_all (\<lambda>c. is_ascii_digit c \<or> c = CHR ''.'')
              (case strip_prefix ''w'' version of Some v \<Rightarrow> v | None \<Rightarrow> version))"

definition invalid_target :: "string \<Rightarrow> ComputerUseErrorCode \<times> string" where
  "invalid_target message = (InvalidTarget, message)"

definition identity_refused :: "bool \<Rightarrow> string \<Rightarrow> bool" where
  "identity_refused normal_login_authorized identity \<longleftrightarrow>
     (let lowercase = to_ascii_lowercase identity;
          stem = executable_stem lowercase;
          compact = filter is_ascii_alphanumeric lowercase
      in stem \<in> set RESTRICTED_EXECUTABLE_STEMS
         \<or> str_contains ''windowsterminal'' compact \<or> str_contains ''credentialuibroker'' compact
         \<or> str_contains ''loginwindow'' compact \<or> is_python_interpreter stem
         \<or> list_ex (\<lambda>marker. str_contains marker lowercase) [''security'', ''consent'', ''authentication'']
         \<or> \<not> normal_login_authorized
           \<and> list_ex (\<lambda>marker. str_contains marker lowercase) SENSITIVE_IDENTITY_MARKERS)"

definition validate_application_identity :: "string \<Rightarrow> bool \<Rightarrow> unit ComputerUseResult" where
  "validate_application_identity identity normal_login_authorized =
     guard (identity_refused normal_login_authorized identity)
       (invalid_target ''system, terminal, command interpreter, authentication, password, and security applications are not allowed'')"

definition unverified_identity :: "string \<Rightarrow> bool" where
  "unverified_identity identity \<longleftrightarrow> identity = [] \<or> eq_ignore_ascii_case identity ''native-window''"

definition validate_observed_application_identity :: "string \<Rightarrow> unit ComputerUseResult" where
  "validate_observed_application_identity identity =
     (let identity = str_trim identity in
      and_then (guard (unverified_identity identity)
          (invalid_target ''target application identity could not be verified''))
        (\<lambda>_. validate_application_identity identity False))"

definition validate_launch_application_identity :: "string \<Rightarrow> unit ComputerUseResult" where
  "validate_launch_application_identity identity =
     (let identity = str_trim identity in
      and_then (guard (identity = []) (invalid_target ''launch application identity is empty''))
        (\<lambda>_. validate_application_identity identity False))"

definition validate_authorized_application_identity :: "string \<Rightarrow> unit ComputerUseResult" where
  "validate_authorized_application_identity identity =
     (let identity = str_trim identity in
      and_then (guard (unverified_identity identity)
          (invalid_target ''target application identity could not be verified''))
        (\<lambda>_. validate_application_identity identity True))"

section \<open>Window targets (window\_target.rs)\<close>

record WindowTarget =
  wt_pid :: u32
  wt_window_id :: u64
  wt_title :: string
  wt_app_name :: string
  wt_bounds :: "i32 \<times> i32 \<times> i32 \<times> i32"
  wt_is_on_screen :: bool
  wt_is_minimized :: bool
  wt_z_index :: "i32 option"
  wt_is_foreground :: bool

text \<open>
  Indexing a \<open>serde_json::Map\<close> with a missing key panics, which is the value \<open>Panic\<close>; the operator
  \<open>?\<close> on an option ends the function with \<open>None\<close>.
\<close>

datatype panic = Panic

definition question :: "panic + 'a option \<Rightarrow> ('a \<Rightarrow> panic + 'b option) \<Rightarrow> panic + 'b option" where
  "question r f = and_then r (\<lambda>x. case x of None \<Rightarrow> Inr None | Some v \<Rightarrow> f v)"

definition i32_range :: "int \<Rightarrow> bool" where
  "i32_range n \<longleftrightarrow> - (2 ^ 31) \<le> n \<and> n < 2 ^ 31"

definition bound :: "json \<Rightarrow> i32 option" where
  "bound v = Option.bind (as_f64 v) (\<lambda>x.
     if f64_is_finite x \<and> f64_le (f64_of_int (- (2 ^ 31))) x \<and> f64_le x (f64_of_int (2 ^ 31 - 1))
     then Some (of_int (f64_round_to_int x)) else None)"

definition indexed_bound :: "(string \<times> json) list \<Rightarrow> string \<Rightarrow> panic + i32 option" where
  "indexed_bound fs key = (case map_of fs key of None \<Rightarrow> Inl Panic | Some v \<Rightarrow> Inr (bound v))"

definition bounds :: "(string \<times> json) list \<Rightarrow> panic + (i32 \<times> i32 \<times> i32 \<times> i32) option" where
  "bounds fs =
     question (indexed_bound fs ''x'') (\<lambda>x.
     question (indexed_bound fs ''y'') (\<lambda>y.
     question (indexed_bound fs ''width'') (\<lambda>width.
     question (indexed_bound fs ''height'') (\<lambda>height. Inr (Some (x, y, width, height))))))"

fun as_i64 :: "json \<Rightarrow> int option" where
  "as_i64 (JNum (PosInt n)) = (if uint n < 2 ^ 63 then Some (uint n) else None)"
| "as_i64 (JNum (NegInt n)) = Some n"
| "as_i64 _ = None"

definition window_target_from_value :: "json \<Rightarrow> panic + WindowTarget option" where
  "window_target_from_value value =
     question (Inr (Option.bind (as_u64 (json_index value ''pid''))
         (\<lambda>n. if uint n < 2 ^ 32 then Some (ucast n :: u32) else None))) (\<lambda>pid.
     question (Inr (as_u64 (json_index value ''window_id''))) (\<lambda>window_id.
     question (Inr (as_object (json_index value ''bounds''))) (\<lambda>object.
     question (bounds object) (\<lambda>bounds.
       Inr (Some \<lparr>wt_pid = pid, wt_window_id = window_id,
         wt_title = unwrap_or (as_str (json_index value ''title'')) [],
         wt_app_name = unwrap_or (as_str (json_index value ''app_name'')) [],
         wt_bounds = bounds,
         wt_is_on_screen = unwrap_or (as_bool (json_index value ''is_on_screen'')) False,
         wt_is_minimized = unwrap_or (as_bool (json_index value ''minimized'')) False,
         wt_z_index = Option.bind (as_i64 (json_index value ''z_index''))
           (\<lambda>n. if i32_range n then Some (of_int n) else None),
         wt_is_foreground = unwrap_or (as_bool (json_index value ''is_foreground'')) False\<rparr>)))))"

definition scope_matches :: "ComputerUseTargetScope \<Rightarrow> WindowTarget \<Rightarrow> bool" where
  "scope_matches scope t \<longleftrightarrow>
     is_none_or (sp_process_id scope) (\<lambda>v. v = wt_pid t)
     \<and> is_none_or (sp_window_handle scope) (\<lambda>v. v = wt_window_id t)
     \<and> is_none_or (sp_window_title scope) (\<lambda>v. v = wt_title t)"

definition validate_target_policy :: "WindowTarget \<Rightarrow> unit ComputerUseResult" where
  "validate_target_policy t = validate_observed_application_identity (wt_app_name t)"

text \<open>The core error behind a refusal of the login-window permission.\<close>

definition core_error :: "HostError \<Rightarrow> ComputerUseErrorCode \<times> string" where
  "core_error e = (case e of ComputerUse code message \<Rightarrow> (code, message) | _ \<Rightarrow> invalid_target [])"

definition validate_target_policy_with_authorization ::
  "world \<Rightarrow> WindowTarget \<Rightarrow> string \<Rightarrow> NativeTaskAuthorization option \<Rightarrow> fences
   \<Rightarrow> unit ComputerUseResult \<times> fences" where
  "validate_target_policy_with_authorization w t session_id authorization s =
     (case authorization of
        Some a \<Rightarrow>
          (let (r, s') = native_validate w a session_id (wt_pid t) (wt_window_id t) s
           in (and_then (map_err core_error r) (\<lambda>_. validate_authorized_application_identity (wt_app_name t)), s'))
      | None \<Rightarrow> (validate_target_policy t, s))"

section \<open>The leaf of a path\<close>

lemma split_on_nonempty [simp]: "split_on p s \<noteq> []"
  by (induction s) (auto split: list.split)

lemma split_on_plain: "list_all (\<lambda>c. \<not> p c) s \<Longrightarrow> split_on p s = [s]"
  by (induction s) auto

lemma split_on_separated: "list_ex p s \<Longrightarrow> tl (split_on p s) \<noteq> []"
  by (induction s) (auto simp: list.case_eq_if)

lemma last_split_on_Cons: "p c \<or> list_ex p s \<Longrightarrow> last (split_on p (c # s)) = last (split_on p s)"
  using split_on_separated [of p s] by (cases "split_on p s") auto

lemma last_split_on_append:
  assumes "d = [] \<or> p (last d)" and "list_all (\<lambda>c. \<not> p c) x"
  shows "last (split_on p (d @ x)) = x"
  using assms
proof (induction d)
  case (Cons c d)
  show ?case
  proof (cases "d = []")
    case True
    with Cons.prems show ?thesis by (simp add: split_on_plain)
  next
    case False
    then have "list_ex p (d @ x)" using Cons.prems by (auto simp: list_ex_iff)
    moreover have "last (split_on p (d @ x)) = x" using Cons False by simp
    ultimately show ?thesis by (simp add: last_split_on_Cons del: split_on.simps)
  qed
qed (simp add: split_on_plain)

lemma dropWhile_all: "list_all p q \<Longrightarrow> dropWhile p (q @ s) = dropWhile p s"
  by (induction q) auto

text \<open>Trimming quotes off a quoted path leaves its leaf and a part of its directory.\<close>

lemma trim_matches_path:
  assumes q: "list_all p q" "list_all p q'" and d: "d = [] \<or> \<not> p (last d)"
    and x: "x \<noteq> []" "\<not> p (hd x)" "\<not> p (last x)"
  shows "trim_matches p (q @ d @ x @ q') = dropWhile p d @ x"
proof -
  have front: "dropWhile p (d @ x @ q') = dropWhile p d @ x @ q'"
  proof (cases "d = []")
    case True
    with x show ?thesis by (cases x) auto
  next
    case False
    with d have "\<not> list_all p d" by (auto simp: list_all_iff)
    then show ?thesis by (auto simp: list_all_iff intro: dropWhile_append1)
  qed
  have "list_all p (rev q')" using q by (simp add: list_all_iff)
  moreover have "rev x \<noteq> []" "\<not> p (hd (rev x))" using x by (simp_all add: hd_rev)
  then have "dropWhile p (rev x @ y) = rev x @ y" for y by (cases "rev x") auto
  ultimately show ?thesis by (simp add: trim_matches_def dropWhile_all q front)
qed

lemma last_dropWhile_separator:
  "d = [] \<or> q (last d) \<Longrightarrow> (\<And>c. q c \<Longrightarrow> \<not> p c) \<Longrightarrow> dropWhile p d = [] \<or> q (last (dropWhile p d))"
  using dropWhile_last [of "last d" d p] by (cases "d = []") auto

section \<open>Restricted programs\<close>

definition restricted_program :: "string \<Rightarrow> bool" where
  "restricted_program stem \<longleftrightarrow> stem \<in> set RESTRICTED_EXECUTABLE_STEMS \<or> is_python_interpreter stem"

text \<open>The characters of a restricted name: no quote, no separator, and none ends in an extension.\<close>

definition plain_char :: "char \<Rightarrow> bool" where
  "plain_char c \<longleftrightarrow> \<not> is_quote c \<and> \<not> is_separator c"

lemma restricted_stems_plain:
  "list_all (\<lambda>s. s \<noteq> [] \<and> list_all plain_char s \<and> \<not> ends_with ''.exe'' s \<and> \<not> ends_with ''.app'' s)
     RESTRICTED_EXECUTABLE_STEMS"
  by code_simp

lemma strip_prefix_Some: "strip_prefix p s = Some v \<Longrightarrow> s = p @ v"
  by (auto simp: strip_prefix_def starts_with_def split: if_splits) (metis append_take_drop_id)

lemma python_stem:
  assumes "is_python_interpreter stem"
  obtains v where "stem = ''python'' @ v" "list_all (\<lambda>c. is_ascii_digit c \<or> c = CHR ''.'' \<or> c = CHR ''w'') v"
proof -
  obtain v where p: "strip_prefix ''python'' stem = Some v"
    and v: "v = [] \<or> v = ''w'' \<or> list_all (\<lambda>c. is_ascii_digit c \<or> c = CHR ''.'')
              (case strip_prefix ''w'' v of Some v \<Rightarrow> v | None \<Rightarrow> v)"
    using assms by (auto simp: is_python_interpreter_def split: option.splits)
  have "stem = ''python'' @ v"
    using p by (rule strip_prefix_Some)
  moreover have "list_all (\<lambda>c. is_ascii_digit c \<or> c = CHR ''.'' \<or> c = CHR ''w'') v"
    using v by (cases v) (auto simp: strip_prefix_def starts_with_def list_all_iff split: if_splits)
  ultimately show thesis by (rule that)
qed

lemma python_suffix:
  assumes "list_all (\<lambda>c. is_ascii_digit c \<or> c = CHR ''.'' \<or> c = CHR ''w'') v"
  shows "\<not> ends_with ''.exe'' (''python'' @ v) \<and> \<not> ends_with ''.app'' (''python'' @ v)"
proof (cases "v = []")
  case False
  then obtain u c where v: "v = u @ [c]" by (metis rev_exhaust)
  then have "c \<noteq> CHR ''e''" "c \<noteq> CHR ''p''" using assms by (auto simp: is_ascii_digit_def)
  then show ?thesis by (simp add: v ends_with_def starts_with_def)
qed (simp add: ends_with_def starts_with_def)

lemma restricted_program_plain:
  assumes "restricted_program s"
  shows "s \<noteq> [] \<and> list_all plain_char s \<and> \<not> ends_with ''.exe'' s \<and> \<not> ends_with ''.app'' s"
proof (cases "s \<in> set RESTRICTED_EXECUTABLE_STEMS")
  case True
  then show ?thesis using restricted_stems_plain by (auto simp: list_all_iff)
next
  case False
  then have "is_python_interpreter s" using assms by (simp add: restricted_program_def)
  then obtain v where s: "s = ''python'' @ v"
    and v: "list_all (\<lambda>c. is_ascii_digit c \<or> c = CHR ''.'' \<or> c = CHR ''w'') v" by (rule python_stem)
  have "list_all plain_char v"
    using v by (auto simp: list_all_iff plain_char_def is_quote_def is_separator_def is_ascii_digit_def)
  then show ?thesis using python_suffix [OF v]
    by (simp add: s plain_char_def is_quote_def is_separator_def)
qed

lemma ends_with_append [simp]: "ends_with p (s @ p)"
  by (simp add: ends_with_def starts_with_def)

lemma strip_suffix_append: "strip_suffix p (s @ p) = Some s"
  by (simp add: strip_suffix_def)

definition executable_extension :: "string \<Rightarrow> bool" where
  "executable_extension e \<longleftrightarrow> e = [] \<or> e = ''.exe'' \<or> e = ''.app''"

lemma executable_extension_plain: "executable_extension e \<Longrightarrow> list_all plain_char e"
  by (auto simp: executable_extension_def plain_char_def is_quote_def is_separator_def)

lemma executable_stem_path:
  assumes q: "list_all is_quote q" "list_all is_quote q'" and d: "d = [] \<or> is_separator (last d)"
    and s: "restricted_program s" and e: "executable_extension e"
  shows "executable_stem (q @ d @ (s @ e) @ q') = s"
proof -
  from restricted_program_plain [OF s] have plain: "s \<noteq> []" "list_all plain_char (s @ e)"
    and no: "\<not> ends_with ''.exe'' s" "\<not> ends_with ''.app'' s"
    using executable_extension_plain [OF e] by auto
  have sep: "\<not> is_quote c" if "is_separator c" for c using that by (auto simp: is_separator_def is_quote_def)
  have ends: "plain_char (hd (s @ e))" "plain_char (last (s @ e))"
    using plain by (metis append_is_Nil_conv hd_in_set last_in_set list_all_iff)+
  have "trim_matches is_quote (q @ d @ (s @ e) @ q') = dropWhile is_quote d @ (s @ e)"
    by (rule trim_matches_path) (use q d plain ends sep in \<open>auto simp: plain_char_def\<close>)
  moreover have "last (split_on is_separator (dropWhile is_quote d @ (s @ e))) = s @ e"
  proof (rule last_split_on_append)
    show "dropWhile is_quote d = [] \<or> is_separator (last (dropWhile is_quote d))"
      using d sep by (rule last_dropWhile_separator)
    show "list_all (\<lambda>c. \<not> is_separator c) (s @ e)" using plain by (auto simp: plain_char_def list_all_iff)
  qed
  ultimately have leaf: "last (split_on is_separator (trim_matches is_quote (q @ d @ (s @ e) @ q'))) = s @ e"
    by simp
  have exe: "strip_suffix ''.exe'' (s @ ''.app'') = None"
    by (simp add: strip_suffix_def ends_with_def starts_with_def)
  from e consider "e = []" | "e = ''.exe''" | "e = ''.app''" unfolding executable_extension_def by blast
  then show ?thesis
  proof cases
    case 1
    with no leaf show ?thesis by (simp add: executable_stem_def strip_suffix_def)
  next
    case 2
    with leaf show ?thesis by (simp add: executable_stem_def strip_suffix_append del: append_assoc)
  next
    case 3
    with leaf exe show ?thesis by (simp add: executable_stem_def strip_suffix_append del: append_assoc)
  qed
qed

lemma is_quote_byte: "is_quote c \<longleftrightarrow> byte c = 39 \<or> byte c = (34 :: nat)"
  using of_char_eq_iff [of c "CHR 0x27", where 'a = nat] of_char_eq_iff [of c "CHR 0x22", where 'a = nat]
  by (simp add: is_quote_def)

lemma is_separator_byte: "is_separator c \<longleftrightarrow> byte c = 47 \<or> byte c = (92 :: nat)"
  using of_char_eq_iff [of c "CHR ''/''", where 'a = nat] of_char_eq_iff [of c "CHR 0x5C", where 'a = nat]
  by (simp add: is_separator_def)

lemma lower_char_classes [simp]:
  "is_quote (to_ascii_lower_char c) = is_quote c"
  "is_separator (to_ascii_lower_char c) = is_separator c"
  by (auto simp: is_quote_byte is_separator_byte to_ascii_lower_char_def)

section \<open>Properties\<close>

text \<open>
  C36. A command interpreter, terminal, login or security program of the restricted list, or a
  Python interpreter of any version, is never a target: however its path, its quoting, the case of
  its letters and an \<open>.exe\<close> or \<open>.app\<close> extension are written, it is refused as an observed window, as a
  program to launch, and as the target of a session, even with a login-window permission.
\<close>

theorem restricted_program_refused:
  assumes "str_trim (wt_app_name t) = q @ dir @ (name @ extension) @ q'"
    and "list_all is_quote q" "list_all is_quote q'" "dir = [] \<or> is_separator (last dir)"
    and "restricted_program (to_ascii_lowercase name)" "executable_extension (to_ascii_lowercase extension)"
  shows "\<not> is_ok (validate_observed_application_identity (wt_app_name t))
    \<and> \<not> is_ok (validate_launch_application_identity (wt_app_name t))
    \<and> \<not> is_ok (fst (validate_target_policy_with_authorization w t session_id authorization s))"
proof -
  let ?l = to_ascii_lowercase
  have "?l (str_trim (wt_app_name t)) = ?l q @ ?l dir @ (?l name @ ?l extension) @ ?l q'"
    by (simp add: assms(1) to_ascii_lowercase_def)
  moreover have "list_all is_quote (?l q)" "list_all is_quote (?l q')" "?l dir = [] \<or> is_separator (last (?l dir))"
    using assms(2-4) by (cases "dir = []"; simp add: to_ascii_lowercase_def list_all_iff last_map)+
  ultimately have "executable_stem (?l (str_trim (wt_app_name t))) = ?l name"
    using executable_stem_path assms(5,6) by metis
  then have refused: "identity_refused b (str_trim (wt_app_name t))" for b
    using assms(5) by (auto simp: identity_refused_def Let_def restricted_program_def)
  have "\<not> is_ok (validate_authorized_application_identity (wt_app_name t))"
    by (auto simp: validate_authorized_application_identity_def validate_application_identity_def refused
        Let_def result_simps)
  moreover have observed: "\<not> is_ok (validate_observed_application_identity (wt_app_name t))"
    by (auto simp: validate_observed_application_identity_def validate_application_identity_def refused
        Let_def result_simps)
  moreover have "\<not> is_ok (validate_launch_application_identity (wt_app_name t))"
    by (auto simp: validate_launch_application_identity_def validate_application_identity_def refused
        Let_def result_simps)
  ultimately show ?thesis
    by (auto simp: validate_target_policy_with_authorization_def validate_target_policy_def case_prod_beta
        is_ok_iff and_then_Inr_iff split: option.split)
qed

definition example_window_target :: "string \<Rightarrow> WindowTarget" where
  "example_window_target app = \<lparr>wt_pid = 42, wt_window_id = 7, wt_title = ''Window'', wt_app_name = app,
     wt_bounds = (0, 0, 640, 480), wt_is_on_screen = True, wt_is_minimized = False, wt_z_index = Some 0,
     wt_is_foreground = True\<rparr>"

theorem restricted_program_refused_witness:
  "\<not> is_ok (validate_observed_application_identity ''/usr/bin/Python3.12'')"
proof -
  have trim: "str_trim ''/usr/bin/Python3.12'' = [] @ ''/usr/bin/'' @ (''Python3.12'' @ []) @ []"
    by (simp add: str_trim_graphic graphic_def)
  have "restricted_program (to_ascii_lowercase ''Python3.12'')"
    by (simp add: restricted_program_def is_python_interpreter_def strip_prefix_def starts_with_def
        to_ascii_lowercase_def to_ascii_lower_char_def is_ascii_digit_def char_of_def bit_0)
  then show ?thesis
    using restricted_program_refused [of "example_window_target ''/usr/bin/Python3.12''" "[]" "''/usr/bin/''" "''Python3.12''" "[]" "[]"] trim
    by (simp add: example_window_target_def executable_extension_def to_ascii_lowercase_def is_separator_def)
qed

text \<open>
  The permission is described as one for a normal login application. It lifts every marker but three,
  so that a terminal that only the marker \<open>terminal\<close> catches is admitted under it.
\<close>

lemma terminal_identity:
  "\<not> identity_refused True ''xfce4-terminal'' \<and> identity_refused False ''xfce4-terminal''
   \<and> \<not> unverified_identity ''xfce4-terminal''"
  by code_simp

lemma login_permission_admits_terminal:
  "validate_authorized_application_identity ''xfce4-terminal'' = Inr ()
   \<and> \<not> is_ok (validate_observed_application_identity ''xfce4-terminal'')"
  using terminal_identity
  by (simp add: validate_authorized_application_identity_def validate_observed_application_identity_def
      validate_application_identity_def str_trim_graphic graphic_def)

fun missing_bound :: "(string \<times> json) list \<Rightarrow> string list \<Rightarrow> bool" where
  "missing_bound fs [] \<longleftrightarrow> False"
| "missing_bound fs (key # keys) \<longleftrightarrow>
     (case map_of fs key of None \<Rightarrow> True | Some v \<Rightarrow> bound v \<noteq> None \<and> missing_bound fs keys)"

lemma missing_bound_iff:
  "missing_bound fs ks \<longleftrightarrow> (\<exists>keys key. prefix (keys @ [key]) ks
     \<and> list_all (\<lambda>k. Option.bind (map_of fs k) bound \<noteq> None) keys \<and> map_of fs key = None)"
proof (induction ks)
  case (Cons k ks)
  let ?ok = "\<lambda>keys. list_all (\<lambda>k. Option.bind (map_of fs k) bound \<noteq> None) keys"
  have "(\<exists>keys key. prefix (keys @ [key]) (k # ks) \<and> ?ok keys \<and> map_of fs key = None) \<longleftrightarrow>
      map_of fs k = None \<or> Option.bind (map_of fs k) bound \<noteq> None
        \<and> (\<exists>keys key. prefix (keys @ [key]) ks \<and> ?ok keys \<and> map_of fs key = None)"
    (is "?l \<longleftrightarrow> ?r")
  proof
    assume ?l
    then obtain keys key where *: "prefix (keys @ [key]) (k # ks)" "?ok keys" "map_of fs key = None" by blast
    then show ?r by (cases keys) auto
  next
    assume ?r
    then show ?l
    proof (elim disjE conjE exE)
      assume "map_of fs k = None"
      then show ?l by (intro exI [of _ "[]"] exI [of _ k]) simp
    next
      fix keys key
      assume "Option.bind (map_of fs k) bound \<noteq> None" "prefix (keys @ [key]) ks" "?ok keys" "map_of fs key = None"
      then show ?l by (intro exI [of _ "k # keys"] exI [of _ key]) simp
    qed
  qed
  with Cons.IH show ?case by (auto split: option.split)
qed simp

lemma question_simps [simp]:
  "question (Inl e) f = Inl e" "question (Inr None) f = Inr None" "question (Inr (Some v)) f = f v"
  by (simp_all add: question_def)

lemma question_Panic:
  "question r f = Inl e \<longleftrightarrow> r = Inl e \<or> (\<exists>v. r = Inr (Some v) \<and> f v = Inl e)"
  by (cases r) (auto simp: question_def split: option.split)

lemma bounds_Panic: "bounds fs = Inl Panic \<longleftrightarrow> missing_bound fs [''x'', ''y'', ''width'', ''height'']"
  by (auto simp: bounds_def question_Panic indexed_bound_def split: option.splits)

text \<open>
  A row of the window inventory whose \<open>bounds\<close> object lacks a coordinate makes the reader panic
  instead of being skipped, exactly when the row has a valid process and window id and the
  coordinates before the missing one are numbers in the range of \<open>i32\<close>.
\<close>

theorem window_row_panics_exactly:
  "window_target_from_value value = Inl Panic \<longleftrightarrow>
     (\<exists>pid hwnd fs keys key. as_u64 (json_index value ''pid'') = Some pid \<and> uint pid < 2 ^ 32
        \<and> as_u64 (json_index value ''window_id'') = Some hwnd
        \<and> as_object (json_index value ''bounds'') = Some fs
        \<and> prefix (keys @ [key]) [''x'', ''y'', ''width'', ''height'']
        \<and> list_all (\<lambda>k. Option.bind (map_of fs k) bound \<noteq> None) keys \<and> map_of fs key = None)"
proof -
  have "window_target_from_value value = Inl Panic \<longleftrightarrow>
      (\<exists>pid hwnd fs. as_u64 (json_index value ''pid'') = Some pid \<and> uint pid < 2 ^ 32
        \<and> as_u64 (json_index value ''window_id'') = Some hwnd
        \<and> as_object (json_index value ''bounds'') = Some fs \<and> bounds fs = Inl Panic)"
    by (auto simp: window_target_from_value_def question_Panic bind_eq_Some_conv split: if_splits)
  then show ?thesis unfolding bounds_Panic missing_bound_iff by blast
qed

end
