(* ===== verification/Action_Validation.thy ===== *)
theory Action_Validation
  imports Target_Policy Session_State
begin

text \<open>
  The trust boundary of a native action (\<open>dcc-cua-core/src/policy.rs\<close>, validation): limits, shapes and
  coordinates of a \<open>ComputerUseAction\<close>, its relation to the observation it acts on, and the limits of
  zoom, snapshot and native tool requests.
\<close>

section \<open>Limits (contracts.rs)\<close>

definition MAX_TEXT_UTF16_UNITS :: nat where "MAX_TEXT_UTF16_UNITS = 4096"
definition MAX_TYPE_CHAR_DELAY_MS :: u64 where "MAX_TYPE_CHAR_DELAY_MS = 200"
definition MAX_KEY_TOKENS :: nat where "MAX_KEY_TOKENS = 16"
definition MAX_MODIFIER_TOKENS :: nat where "MAX_MODIFIER_TOKENS = 8"
definition MAX_MODIFIER_CHARS :: nat where "MAX_MODIFIER_CHARS = 32"
definition MAX_INPUT_BACKEND_ID_CHARS :: nat where "MAX_INPUT_BACKEND_ID_CHARS = 64"
definition MAX_DRAG_POINTS :: nat where "MAX_DRAG_POINTS = 256"
definition MAX_DRAG_DURATION_MS :: u64 where "MAX_DRAG_DURATION_MS = 10000"
definition MAX_DRAG_STEPS :: u32 where "MAX_DRAG_STEPS = 200"
definition MAX_SCROLL_AMOUNT :: u32 where "MAX_SCROLL_AMOUNT = 50"
definition MAX_ELEMENT_TOKEN_CHARS :: nat where "MAX_ELEMENT_TOKEN_CHARS = 512"

lemmas action_limits = MAX_TEXT_UTF16_UNITS_def MAX_TYPE_CHAR_DELAY_MS_def MAX_KEY_TOKENS_def
  MAX_MODIFIER_TOKENS_def MAX_MODIFIER_CHARS_def MAX_INPUT_BACKEND_ID_CHARS_def MAX_DRAG_POINTS_def
  MAX_DRAG_DURATION_MS_def MAX_DRAG_STEPS_def MAX_SCROLL_AMOUNT_def MAX_ELEMENT_TOKEN_CHARS_def

section \<open>Actions\<close>

definition utf16_count :: "string \<Rightarrow> nat" where
  "utf16_count s = sum_list (map (\<lambda>c. if 65536 \<le> c then 2 else 1) (utf8_chars s))"

definition ACTIONS :: "string list" where
  "ACTIONS = [''click'', ''double_click'', ''right_click'', ''toggle'', ''move'', ''scroll'', ''drag'', ''type'',
     ''type_chars'', ''set_text'', ''set_value'', ''keypress'', ''keyboard_shortcut'']"

definition is_ascii_lowercase :: "char \<Rightarrow> bool" where
  "is_ascii_lowercase c \<longleftrightarrow> 97 \<le> byte c \<and> byte c \<le> 122"

definition invalid_backend_id :: "string \<Rightarrow> bool" where
  "invalid_backend_id backend_id \<longleftrightarrow>
     backend_id = [] \<or> length backend_id > MAX_INPUT_BACKEND_ID_CHARS
     \<or> list_ex (\<lambda>segment. segment = []
         \<or> \<not> list_all (\<lambda>c. is_ascii_lowercase c \<or> is_ascii_digit c \<or> c = CHR ''_'') segment)
       (split_on (\<lambda>c. c = CHR ''.'') backend_id)"

text \<open>\<open>i32::unsigned_abs\<close>.\<close>

definition unsigned_abs :: "i32 \<Rightarrow> u32" where
  "unsigned_abs n = of_int \<bar>sint n\<bar>"

definition validate_scroll :: "ComputerUseAction \<Rightarrow> unit ComputerUseResult" where
  "validate_scroll a =
     (let horizontal = unwrap_or (ca_scroll_x a) 0; vertical = unwrap_or (ca_scroll_y a) 0;
          amount = (if horizontal \<noteq> 0 then unsigned_abs horizontal else unsigned_abs vertical)
      in and_then (guard (horizontal \<noteq> 0 \<and> vertical \<noteq> 0)
           (invalid ''scroll supports one axis per action'')) (\<lambda>_.
         and_then (guard (amount > MAX_SCROLL_AMOUNT)
           (invalid ''scroll amount must be at most 50'')) (\<lambda>_.
         and_then (guard (amount = 0 \<and> ca_element_index a = None \<and> ca_element_token a = None \<and> ca_x a = None)
           (invalid ''scroll requires a non-zero axis, element locator, or coordinates'')) (\<lambda>_.
         guard (is_some_and (ca_scroll_by a) (\<lambda>v. v \<notin> {''line'', ''page''}))
           (invalid ''scroll_by must be line or page'')))))"

definition action_points :: "ComputerUseAction \<Rightarrow> ComputerUsePoint list" where
  "action_points a = ca_path a @
     (case (ca_x a, ca_y a) of (Some x, Some y) \<Rightarrow> [\<lparr>pt_x = x, pt_y = y\<rparr>] | _ \<Rightarrow> [])"

definition has_locator :: "ComputerUseAction \<Rightarrow> bool" where
  "has_locator a \<longleftrightarrow> ca_element_index a \<noteq> None \<or> ca_element_token a \<noteq> None"

definition validate_type_chars :: "ComputerUseAction \<Rightarrow> unit ComputerUseResult" where
  "validate_type_chars a =
     and_then (guard (ca_text a = None) (invalid ''type_chars requires text'')) (\<lambda>_.
     and_then (guard (ca_type_chars_only a \<and> has_locator a)
       (invalid ''type_chars_only cannot be combined with an element locator'')) (\<lambda>_.
     and_then (guard (\<not> ca_type_chars_only a \<and> \<not> has_locator a)
       (invalid ''type_chars requires an element locator unless type_chars_only is true'')) (\<lambda>_.
     guard (ca_x a \<noteq> None \<or> ca_y a \<noteq> None)
       (invalid ''type_chars does not accept screen coordinates''))))"

definition held_keys :: "string list" where
  "held_keys = [''w'', ''a'', ''s'', ''d'', ''up'', ''down'', ''left'', ''right'']"

definition repeated_key :: "string list \<Rightarrow> bool" where
  "repeated_key keys \<longleftrightarrow> list_ex (\<lambda>index.
     list_ex (\<lambda>previous. eq_ignore_ascii_case previous (keys ! index)) (take index keys)) [0..<length keys]"

definition validate_duration :: "ComputerUseAction \<Rightarrow> u64 \<Rightarrow> unit ComputerUseResult" where
  "validate_duration a duration_ms =
     and_then (guard (duration_ms > MAX_DRAG_DURATION_MS)
       (invalid ''duration_ms must be at most 10000'')) (\<lambda>_.
     and_then (guard (ca_action a \<notin> {''click'', ''drag'', ''keypress''})
       (invalid ''duration_ms is supported only for coordinate click, drag, and keypress'')) (\<lambda>_.
     and_then (guard (ca_action a = ''click'' \<and> (ca_x a = None \<or> has_locator a \<or> ca_modifiers a \<noteq> []))
       (invalid ''click duration_ms requires coordinates and no modifiers'')) (\<lambda>_.
     guard (ca_action a = ''keypress''
         \<and> (duration_ms = 0 \<or> ca_keys a = [] \<or> length (ca_keys a) > 2 \<or> ca_modifiers a \<noteq> []
            \<or> list_ex (\<lambda>key. to_ascii_lowercase (str_trim key) \<notin> set held_keys) (ca_keys a)
            \<or> repeated_key (ca_keys a)))
       (invalid ''keypress duration_ms requires one or two unique WASD/arrow keys, no modifiers, and a non-zero duration''))))"

definition validate_steps :: "ComputerUseAction \<Rightarrow> u32 \<Rightarrow> unit ComputerUseResult" where
  "validate_steps a steps =
     and_then (guard (\<not> (1 \<le> steps \<and> steps \<le> MAX_DRAG_STEPS))
       (invalid ''steps must be between 1 and 200'')) (\<lambda>_.
     guard (ca_action a \<noteq> ''drag'') (invalid ''steps is supported only for drag''))"

definition validate_action_tokens :: "ComputerUseAction \<Rightarrow> unit ComputerUseResult" where
  "validate_action_tokens a =
     and_then (guard (ca_action a \<notin> set ACTIONS) (invalid ''unsupported Computer Use action'')) (\<lambda>_.
     and_then (guard (length (ca_keys a) > MAX_KEY_TOKENS \<or> length (ca_modifiers a) > MAX_MODIFIER_TOKENS
         \<or> length (ca_path a) > MAX_DRAG_POINTS)
       (invalid ''action exceeds the host safety limits'')) (\<lambda>_.
     and_then (guard (list_ex (\<lambda>m. m = [] \<or> char_count m > MAX_MODIFIER_CHARS) (ca_modifiers a))
       (invalid ''modifiers must be non-empty and at most 32 characters'')) (\<lambda>_.
     and_then (guard (is_some_and (ca_button a) (\<lambda>b. b \<notin> {''left'', ''middle'', ''right''}))
       (invalid ''button must be left, middle, or right'')) (\<lambda>_.
     and_then (guard ((ca_x a \<noteq> None) \<noteq> (ca_y a \<noteq> None))
       (invalid ''x and y must be supplied together'')) (\<lambda>_.
     and_then (guard (is_some_and (ca_text a) (\<lambda>t. utf16_count t > MAX_TEXT_UTF16_UNITS))
       (invalid ''text exceeds the host UTF-16 limit'')) (\<lambda>_.
     and_then (guard (is_some_and (ca_delay_ms a) (\<lambda>d. d > MAX_TYPE_CHAR_DELAY_MS))
       (invalid ''delay_ms must be at most 200'')) (\<lambda>_.
     and_then (guard (is_some_and (ca_element_token a) (\<lambda>t. t = [] \<or> char_count t > MAX_ELEMENT_TOKEN_CHARS))
       (invalid ''element_token must be non-empty and at most 512 characters'')) (\<lambda>_.
     and_then (guard (is_some_and (ca_delivery_mode a) (\<lambda>m. m \<notin> {''background'', ''foreground''}))
       (invalid ''delivery_mode must be background or foreground'')) (\<lambda>_.
     guard (is_some_and (ca_input_backend_id a) invalid_backend_id)
       (invalid ''input_backend_id must be a lowercase dotted identifier of at most 64 characters''))))))))))"

definition validate_action_shape :: "ComputerUseAction \<Rightarrow> unit ComputerUseResult" where
  "validate_action_shape a =
     and_then (if ca_action a = ''scroll'' then validate_scroll a
        else guard (ca_scroll_x a \<noteq> None \<or> ca_scroll_y a \<noteq> None \<or> ca_scroll_by a \<noteq> None)
          (invalid ''scroll_x, scroll_y, and scroll_by are supported only for scroll'')) (\<lambda>_.
     and_then (all_ok (\<lambda>p. guard (\<not> f64_is_finite (pt_x p) \<or> \<not> f64_is_finite (pt_y p))
          (invalid ''coordinates must be finite'')) (action_points a)) (\<lambda>_.
     and_then (guard (ca_action a \<in> {''set_text'', ''set_value''} \<and> \<not> has_locator a)
       (invalid ''set_text and set_value require a semantic element_index'')) (\<lambda>_.
     and_then (if ca_action a = ''type_chars'' then validate_type_chars a else Inr ()) (\<lambda>_.
     and_then (guard (ca_action a = ''type'' \<and> ca_text a = None) (invalid ''type requires text'')) (\<lambda>_.
     and_then (case ca_duration_ms a of None \<Rightarrow> Inr () | Some d \<Rightarrow> validate_duration a d) (\<lambda>_.
     case ca_steps a of None \<Rightarrow> Inr () | Some n \<Rightarrow> validate_steps a n))))))"

definition validate_action :: "ComputerUseAction \<Rightarrow> unit ComputerUseResult" where
  "validate_action a = and_then (validate_action_tokens a) (\<lambda>_. validate_action_shape a)"

definition f64_zero :: f64 where "f64_zero = 0"

definition validate_window_action_coordinates :: "ComputerUseAction \<Rightarrow> unit ComputerUseResult" where
  "validate_window_action_coordinates a =
     all_ok (\<lambda>p. guard (f64_lt (pt_x p) f64_zero \<or> f64_lt (pt_y p) f64_zero)
       (invalid ''window action coordinates must be non-negative screenshot-local pixels''))
       (action_points a)"

definition validate_action_observation ::
  "ComputerUseAction \<Rightarrow> ComputerUseObservation \<Rightarrow> unit ComputerUseResult" where
  "validate_action_observation a observation =
     guard (json_index (ob_capture_provenance observation) ''pixels_captured'' = JBool False \<and> \<not> has_locator a)
       (StaleObservation, ''coordinate and unscoped keyboard actions require a fresh pixel screenshot'')"

definition validate_zoom_request ::
  "ComputerUseZoomRequest \<Rightarrow> ComputerUseObservation \<Rightarrow> unit ComputerUseResult" where
  "validate_zoom_request r observation =
     and_then (guard (zr_observation_id r \<noteq> ob_observation_id observation)
       (StaleObservation, ''zoom observation_id does not match the latest screenshot'')) (\<lambda>_.
     and_then (guard (list_ex (\<lambda>c. \<not> f64_is_finite c \<or> f64_lt c f64_zero) [zr_x1 r, zr_y1 r, zr_x2 r, zr_y2 r])
       (invalid ''zoom coordinates must be finite and non-negative'')) (\<lambda>_.
     and_then (guard (f64_le (zr_x2 r) (zr_x1 r) \<or> f64_le (zr_y2 r) (zr_y1 r))
       (invalid ''zoom region must have positive width and height'')) (\<lambda>_.
     and_then (guard (f64_lt (f64_of_int 500) (f64_sub (zr_x2 r) (zr_x1 r)))
       (invalid ''zoom region width must not exceed 500 pixels'')) (\<lambda>_.
     guard (f64_lt (f64_of_u32 (ob_width observation)) (zr_x2 r)
         \<or> f64_lt (f64_of_u32 (ob_height observation)) (zr_y2 r))
       (invalid ''zoom region must stay within the latest screenshot'')))))"

end
