(* ===== verification/Driver_Command.thy ===== *)
theory Driver_Command
  imports Action_Validation
begin

text \<open>
  The translation of a validated action into a command of the native driver
  (\<open>dcc-cua-core/src/policy.rs\<close>, action translation, \<open>runtime/sdk_action_compat.rs\<close> and the coordinate
  rules of \<open>runtime.rs\<close>). The operating system of the build is a parameter; screen coordinates are
  computed in double precision.
\<close>

datatype target_os = Linux | Macos | OtherOs

type_synonym arguments = "(string \<times> json) list"

section \<open>Cursor moves\<close>

definition numeric_argument :: "arguments \<Rightarrow> string \<Rightarrow> f64 ComputerUseResult" where
  "numeric_argument arguments key =
     (case Option.bind (map_of arguments key) as_f64 of
        Some v \<Rightarrow> Inr v
      | None \<Rightarrow> Inl (invalid ''move_cursor requires numeric x and y''))"

definition validate_window_cursor_move :: "arguments \<Rightarrow> unit ComputerUseResult" where
  "validate_window_cursor_move arguments =
     and_then (numeric_argument arguments ''x'') (\<lambda>x.
     and_then (numeric_argument arguments ''y'') (\<lambda>y.
     and_then (guard (\<not> f64_is_finite x \<or> \<not> f64_is_finite y \<or> f64_lt x f64_zero \<or> f64_lt y f64_zero)
       (invalid ''move_cursor coordinates must be finite and non-negative'')) (\<lambda>_.
     guard (is_some_and (map_of arguments ''scope'') (\<lambda>scope. as_str scope \<noteq> Some ''window''))
       (invalid ''window cursor control only supports scope=window''))))"

definition map_window_cursor_move :: "arguments \<Rightarrow> WindowTarget \<Rightarrow> arguments ComputerUseResult" where
  "map_window_cursor_move arguments target =
     and_then (validate_window_cursor_move arguments) (\<lambda>_.
     and_then (numeric_argument arguments ''x'') (\<lambda>x.
     and_then (numeric_argument arguments ''y'') (\<lambda>y.
       let (left, upper, width, height) = wt_bounds target in
       and_then (guard (f64_le (f64_of_i32 width) x \<or> f64_le (f64_of_i32 height) y)
         (invalid ''move_cursor coordinates must stay inside the target window'')) (\<lambda>_.
       Inr (AList.update ''scope'' (JStr ''window'')
             (AList.update ''y'' (json_f64 (f64_add (f64_of_i32 upper) y))
               (AList.update ''x'' (json_f64 (f64_add (f64_of_i32 left) x)) arguments)))))))"

section \<open>Commands\<close>

record DriverActionCommand =
  dc_tool :: string
  dc_arguments :: arguments

datatype DriverActionScope = WindowScope WindowTarget | DesktopScope

definition is_window_scope :: "DriverActionScope \<Rightarrow> bool" where
  "is_window_scope scope \<longleftrightarrow> scope \<noteq> DesktopScope"

definition keyboard_shortcut_keys :: "ComputerUseAction \<Rightarrow> string list" where
  "keyboard_shortcut_keys a =
     fold (\<lambda>key keys. if list_ex (\<lambda>existing. eq_ignore_ascii_case existing key) keys then keys else keys @ [key])
       (ca_keys a) (ca_modifiers a)"

definition driver_tool :: "ComputerUseAction \<Rightarrow> DriverActionScope \<Rightarrow> string ComputerUseResult" where
  "driver_tool a scope =
     (if ca_action a \<in> {''click'', ''double_click'', ''right_click'', ''toggle''} then Inr ''click''
      else if ca_action a = ''drag'' then Inr ''drag''
      else if ca_action a = ''scroll'' then Inr ''scroll''
      else if ca_action a \<in> {''type'', ''type_chars''} then Inr ''type_text''
      else if ca_action a \<in> {''set_text'', ''set_value''} \<and> is_window_scope scope then Inr ''set_value''
      else if ca_action a = ''keypress'' then Inr ''press_key''
      else if ca_action a = ''keyboard_shortcut'' then Inr ''hotkey''
      else if ca_action a = ''move'' then Inr ''move_cursor''
      else Inl (invalid ''action cannot be represented by the configured CUA driver''))"

definition scope_arguments :: "target_os \<Rightarrow> string \<Rightarrow> ComputerUseAction \<Rightarrow> DriverActionScope \<Rightarrow> arguments \<Rightarrow> arguments" where
  "scope_arguments os tool a scope object =
     (case scope of
        WindowScope target \<Rightarrow>
          if tool = ''move_cursor'' then
            (if os = Macos
             then AList.update ''target'' (JObj [(''kind'', JStr ''window''), (''pid'', json_u32 (wt_pid target)),
                    (''window_id'', json_u64 (wt_window_id target))]) object
             else object)
          else
            (let object = AList.update ''window_id'' (json_u64 (wt_window_id target))
                   (AList.update ''pid'' (json_u32 (wt_pid target)) object)
             in if os = Macos \<and> tool = ''set_value'' then object
                else AList.update ''delivery_mode'' (JStr (unwrap_or (ca_delivery_mode a) ''background'')) object)
      | DesktopScope \<Rightarrow> AList.update ''scope'' (JStr ''desktop'') object)"

definition insert_xy :: "ComputerUseAction \<Rightarrow> arguments \<Rightarrow> arguments" where
  "insert_xy a object = AList.update ''y'' (json_opt json_f64 (ca_y a))
     (AList.update ''x'' (json_opt json_f64 (ca_x a)) object)"

text \<open>The optional coordinates of keyboard input in a window.\<close>

definition insert_window_xy :: "ComputerUseAction \<Rightarrow> DriverActionScope \<Rightarrow> arguments \<Rightarrow> arguments" where
  "insert_window_xy a scope object =
     (case (ca_x a, ca_y a) of
        (Some x, Some y) \<Rightarrow>
          if is_window_scope scope
          then AList.update ''y'' (json_f64 y) (AList.update ''x'' (json_f64 x) object) else object
      | _ \<Rightarrow> object)"

definition insert_opt :: "string \<Rightarrow> ('a \<Rightarrow> json) \<Rightarrow> 'a option \<Rightarrow> arguments \<Rightarrow> arguments" where
  "insert_opt key f x object = (case x of None \<Rightarrow> object | Some v \<Rightarrow> AList.update key (f v) object)"

definition insert_scroll_arguments :: "ComputerUseAction \<Rightarrow> arguments \<Rightarrow> arguments" where
  "insert_scroll_arguments a object =
     (let horizontal = unwrap_or (ca_scroll_x a) 0; vertical = unwrap_or (ca_scroll_y a) 0;
          (direction, amount) =
            (if sint horizontal < 0 then (''left'', unsigned_abs horizontal)
             else if sint horizontal > 0 then (''right'', unsigned_abs horizontal)
             else if sint vertical < 0 then (''up'', unsigned_abs vertical)
             else if sint vertical > 0 then (''down'', unsigned_abs vertical)
             else (''down'', 0));
          object = AList.update ''direction'' (JStr direction) object;
          object = (if amount > 0 then AList.update ''amount'' (json_u32 amount) object else object)
      in insert_opt ''by'' JStr (ca_scroll_by a) object)"

definition drag_arguments :: "ComputerUseAction \<Rightarrow> arguments \<Rightarrow> arguments" where
  "drag_arguments a object =
     (let first = (case ca_path a of p # _ \<Rightarrow> p
            | [] \<Rightarrow> \<lparr>pt_x = unwrap_or (ca_x a) f64_zero, pt_y = unwrap_or (ca_y a) f64_zero\<rparr>);
          final = (case ca_path a of [] \<Rightarrow> first | ps \<Rightarrow> last ps);
          object = fold (\<lambda>(k, v). AList.update k (json_f64 v))
            [(''from_x'', pt_x first), (''from_y'', pt_y first), (''to_x'', pt_x final), (''to_y'', pt_y final)] object;
          object = insert_opt ''button'' JStr (ca_button a) object;
          object = (if ca_modifiers a \<noteq> [] then AList.update ''modifier'' (JArr (map JStr (ca_modifiers a))) object else object);
          object = insert_opt ''duration_ms'' json_u64 (ca_duration_ms a) object
      in insert_opt ''steps'' json_u32 (ca_steps a) object)"

definition action_fields ::
  "target_os \<Rightarrow> ComputerUseAction \<Rightarrow> DriverActionScope \<Rightarrow> arguments \<Rightarrow> arguments ComputerUseResult" where
  "action_fields os a scope object =
     (if ca_action a = ''move'' then
        (let object = insert_xy a object in
         case scope of
           WindowScope target \<Rightarrow> if os = Macos then Inr object else map_window_cursor_move object target
         | DesktopScope \<Rightarrow> Inr object)
      else if ca_action a \<in> {''click'', ''double_click'', ''right_click'', ''toggle''} then
        Inr (AList.update ''button'' (JStr (unwrap_or (ca_button a) (if ca_action a = ''right_click'' then ''right'' else ''left'')))
          (AList.update ''count'' (json_u64 (if ca_action a = ''double_click'' then 2 else 1)) (insert_xy a object)))
      else if ca_action a = ''drag'' then Inr (drag_arguments a object)
      else if ca_action a = ''scroll'' then Inr (insert_scroll_arguments a (insert_xy a object))
      else if ca_action a \<in> {''type'', ''type_chars''} then
        (let object = AList.update ''text'' (JStr (unwrap_or (ca_text a) [])) object;
             object = (if ca_action a = ''type_chars'' then insert_opt ''delay_ms'' json_u64 (ca_delay_ms a) object else object)
         in Inr (if ca_action a = ''type'' then insert_window_xy a scope object else object))
      else if ca_action a \<in> {''set_text'', ''set_value''} then
        Inr (AList.update ''value'' (JStr (unwrap_or (ca_text a) [])) object)
      else if ca_action a = ''keypress'' then
        (let object = AList.update ''key'' (JStr (case ca_keys a of [] \<Rightarrow> [] | k # _ \<Rightarrow> k)) object;
             object = (if ca_modifiers a \<noteq> [] then AList.update ''modifiers'' (JArr (map JStr (ca_modifiers a))) object else object)
         in Inr (insert_window_xy a scope object))
      else if ca_action a = ''keyboard_shortcut'' then
        Inr (insert_window_xy a scope (AList.update ''keys'' (JArr (map JStr (keyboard_shortcut_keys a))) object))
      else Inr object)"

definition locator_fields :: "ComputerUseAction \<Rightarrow> DriverActionScope \<Rightarrow> arguments \<Rightarrow> arguments ComputerUseResult" where
  "locator_fields a scope object =
     (if is_window_scope scope then
        (case ca_element_token a of
           Some token \<Rightarrow> Inr (AList.delete ''y'' (AList.delete ''x'' (AList.delete ''element_index''
             (AList.update ''element_token'' (JStr token) object))))
         | None \<Rightarrow>
             if ca_element_index a \<noteq> None
             then Inl (StaleObservation, ''resolve element_index against the current observation's SDK element_token before dispatch'')
             else Inr object)
      else Inr object)"

definition driver_action_command ::
  "target_os \<Rightarrow> ComputerUseAction \<Rightarrow> string \<Rightarrow> DriverActionScope \<Rightarrow> DriverActionCommand ComputerUseResult" where
  "driver_action_command os a session scope =
     and_then (guard (ca_action a = ''drag'' \<and> length (ca_path a) > 2)
       (invalid ''the configured CUA driver accepts only drag endpoints; use at most two path points'')) (\<lambda>_.
     and_then (driver_tool a scope) (\<lambda>tool.
     and_then (guard (ca_action a \<in> {''move'', ''drag''} \<and> has_locator a)
       (invalid ''the configured CUA driver requires coordinates for move and drag'')) (\<lambda>_.
     and_then (guard (os = Linux \<and> ca_action a = ''type_chars'' \<and> ca_delay_ms a \<noteq> None)
       (invalid ''the Linux CUA driver does not support type_chars delay_ms; omit the delay or use a backend that supports it'')) (\<lambda>_.
     and_then (action_fields os a scope (scope_arguments os tool a scope [(''session'', JStr session)])) (\<lambda>object.
     and_then (locator_fields a scope object) (\<lambda>object.
       Inr \<lparr>dc_tool = tool, dc_arguments = object\<rparr>))))))"

definition action_arguments ::
  "target_os \<Rightarrow> ComputerUseAction \<Rightarrow> string \<Rightarrow> WindowTarget \<Rightarrow> DriverActionCommand ComputerUseResult" where
  "action_arguments os a session target = driver_action_command os a session (WindowScope target)"

definition desktop_action_arguments ::
  "target_os \<Rightarrow> ComputerUseAction \<Rightarrow> string \<Rightarrow> DriverActionCommand ComputerUseResult" where
  "desktop_action_arguments os a session = driver_action_command os a session DesktopScope"

definition sdk_action_command ::
  "target_os \<Rightarrow> ComputerUseAction \<Rightarrow> string \<Rightarrow> WindowTarget \<Rightarrow> bool \<Rightarrow> DriverActionCommand ComputerUseResult" where
  "sdk_action_command os a session target local_coordinates =
     and_then (action_arguments os a session target) (\<lambda>command.
       if os = Macos \<and> local_coordinates \<and> ca_action a = ''move''
       then and_then (map_window_cursor_move (AList.delete ''target'' (dc_arguments command)) target)
              (\<lambda>arguments. Inr (command\<lparr>dc_arguments := arguments\<rparr>))
       else Inr command)"

section \<open>Elements of an observation (sdk\_action\_compat.rs)\<close>

definition remember_token :: "json \<Rightarrow> (u32 \<times> string option) list \<Rightarrow> (u32 \<times> string option) list" where
  "remember_token element tokens =
     (case Option.bind (as_u64 (json_index element ''element_index''))
             (\<lambda>n. if uint n < 2 ^ 32 then Some (ucast n :: u32) else None) of
        None \<Rightarrow> tokens
      | Some index \<Rightarrow>
        (let token = Option.bind (as_str (json_index element ''element_token''))
               (\<lambda>t. if t \<noteq> [] \<and> char_count t \<le> MAX_ELEMENT_TOKEN_CHARS then Some t else None)
         in if map_of tokens index = None then AList.update index token tokens
            else AList.update index None tokens))"

definition observed_tokens :: "json \<Rightarrow> (u32 \<times> string option) list" where
  "observed_tokens accessibility =
     fold remember_token (unwrap_or (as_array (json_index accessibility ''elements'')) []) []"

definition remember_sdk_element_tokens ::
  "json \<Rightarrow> ComputerUseObservation \<Rightarrow> ComputerUseSession \<Rightarrow> ComputerUseSession" where
  "remember_sdk_element_tokens accessibility observation s =
     s\<lparr>cs_sdk_element_tokens := Some \<lparr>et_observation_id = ob_observation_id observation,
          et_session_id = ob_session_id observation, et_process_id = ob_process_id observation,
          et_window_handle = ob_window_handle observation, et_tokens = observed_tokens accessibility\<rparr>\<rparr>"

definition tokens_of_observation :: "ComputerUseObservation \<Rightarrow> ObservedSdkElementTokens \<Rightarrow> bool" where
  "tokens_of_observation observation tokens \<longleftrightarrow>
     et_observation_id tokens = ob_observation_id observation \<and> et_session_id tokens = ob_session_id observation
     \<and> et_process_id tokens = ob_process_id observation \<and> et_window_handle tokens = ob_window_handle observation"

definition resolve_sdk_element_action ::
  "ComputerUseAction \<Rightarrow> ComputerUseObservation \<Rightarrow> ComputerUseSession \<Rightarrow> ComputerUseAction option ComputerUseResult" where
  "resolve_sdk_element_action a observation s =
     (case (ca_element_index a, ca_element_token a) of
        (Some index, None) \<Rightarrow>
          (case Option.bind (cs_sdk_element_tokens s) (\<lambda>tokens.
                  if tokens_of_observation observation tokens
                  then Option.bind (map_of (et_tokens tokens) index) (\<lambda>t. t) else None) of
             None \<Rightarrow> Inl (StaleObservation, ''element_index has no unique SDK element_token in the current observation; take a fresh semantic snapshot'')
           | Some token \<Rightarrow> Inr (Some (a\<lparr>ca_element_index := None, ca_element_token := Some token\<rparr>)))
      | _ \<Rightarrow> Inr None)"

section \<open>Coordinates of a window\<close>

definition map_point :: "ComputerUseObservation \<Rightarrow> ComputerUsePoint \<Rightarrow> ComputerUsePoint ComputerUseResult" where
  "map_point observation p =
     (let (_, _, source_width, source_height) = ob_source_rect observation;
          width = f64_of_u32 (ob_width observation); height = f64_of_u32 (ob_height observation)
      in if f64_le width (pt_x p) \<or> f64_le height (pt_y p)
         then Inl (invalid ''window visual fallback coordinates exceed the latest screenshot'')
         else Inr \<lparr>pt_x = f64_div (f64_mul (pt_x p) (f64_of_i32 source_width)) width,
                   pt_y = f64_div (f64_mul (pt_y p) (f64_of_i32 source_height)) height\<rparr>)"

fun map_points :: "ComputerUseObservation \<Rightarrow> ComputerUsePoint list \<Rightarrow> ComputerUsePoint list ComputerUseResult" where
  "map_points observation [] = Inr []"
| "map_points observation (p # ps) =
     and_then (map_point observation p) (\<lambda>q. and_then (map_points observation ps) (\<lambda>qs. Inr (q # qs)))"

definition action_for_window_visual_fallback ::
  "ComputerUseAction \<Rightarrow> ComputerUseObservation \<Rightarrow> ComputerUseAction ComputerUseResult" where
  "action_for_window_visual_fallback a observation =
     and_then (guard (has_locator a \<or> ca_action a \<in> {''set_text'', ''set_value''})
       (invalid ''window visual fallback does not support semantic element actions'')) (\<lambda>_.
     and_then (guard (ca_action a \<in> {''click'', ''double_click'', ''right_click'', ''toggle'', ''move'', ''scroll''} \<and> ca_x a = None)
       (invalid ''window visual fallback pointer actions require screenshot coordinates'')) (\<lambda>_.
     and_then (guard (ca_action a = ''drag'' \<and> ca_path a = [] \<and> ca_x a = None)
       (invalid ''window visual fallback drag requires screenshot coordinates'')) (\<lambda>_.
     and_then (case (ca_x a, ca_y a) of
         (Some x, Some y) \<Rightarrow> and_then (map_point observation \<lparr>pt_x = x, pt_y = y\<rparr>)
           (\<lambda>p. Inr (a\<lparr>ca_x := Some (pt_x p), ca_y := Some (pt_y p)\<rparr>))
       | _ \<Rightarrow> Inr a) (\<lambda>validated.
     and_then (map_points observation (ca_path a)) (\<lambda>path. Inr (validated\<lparr>ca_path := path\<rparr>))))))"

definition held_coordinate_click_as_drag :: "ComputerUseAction \<Rightarrow> ComputerUseAction option" where
  "held_coordinate_click_as_drag a =
     (case (ca_duration_ms a, ca_x a, ca_y a) of
        (Some duration_ms, Some x, Some y) \<Rightarrow>
          if ca_action a \<noteq> ''click'' \<or> duration_ms = 0 then None
          else Some (a\<lparr>ca_action := ''drag'', ca_x := None, ca_y := None,
                 ca_path := replicate 2 \<lparr>pt_x = x, pt_y = y\<rparr>, ca_steps := Some 20\<rparr>)
      | _ \<Rightarrow> None)"

definition action_uses_local_window_coordinates :: "target_os \<Rightarrow> ComputerUseAction \<Rightarrow> bool" where
  "action_uses_local_window_coordinates os a \<longleftrightarrow>
     ca_input_backend_id a \<noteq> None \<or> os \<noteq> Macos \<and> ca_action a = ''move''"

section \<open>What a command carries\<close>

definition action_keys :: "string set" where
  "action_keys = {''x'', ''y'', ''count'', ''button'', ''from_x'', ''from_y'', ''to_x'', ''to_y'', ''modifier'',
     ''duration_ms'', ''steps'', ''direction'', ''amount'', ''by'', ''text'', ''delay_ms'', ''value'', ''key'',
     ''modifiers'', ''keys''}"

lemma map_of_delete [simp]: "map_of (AList.delete k al) = (map_of al)(k := None)"
  by (rule delete_conv')

lemma insert_opt_other: "k \<noteq> key \<Longrightarrow> map_of (insert_opt key f x object) k = map_of object k"
  by (cases x) (simp_all add: insert_opt_def)

lemma insert_xy_other: "k \<notin> action_keys \<Longrightarrow> map_of (insert_xy a object) k = map_of object k"
  by (auto simp: insert_xy_def action_keys_def)

lemma insert_window_xy_other: "k \<notin> action_keys \<Longrightarrow> map_of (insert_window_xy a scope object) k = map_of object k"
  by (auto simp: insert_window_xy_def action_keys_def split: option.split)

lemma insert_scroll_other: "k \<notin> action_keys \<Longrightarrow> map_of (insert_scroll_arguments a object) k = map_of object k"
  by (auto simp: insert_scroll_arguments_def Let_def case_prod_beta insert_opt_other action_keys_def)

lemma drag_arguments_other: "k \<notin> action_keys \<Longrightarrow> map_of (drag_arguments a object) k = map_of object k"
  by (auto simp: drag_arguments_def Let_def insert_opt_other action_keys_def)

lemma cursor_move_other:
  assumes "map_window_cursor_move object target = Inr object'" and "k \<notin> action_keys" "k \<noteq> ''scope''"
  shows "map_of object' k = map_of object k"
  using assms by (auto simp: map_window_cursor_move_def and_then_Inr_iff case_prod_beta Let_def action_keys_def)

lemmas action_fields_other = insert_opt_other insert_xy_other insert_window_xy_other insert_scroll_other
  drag_arguments_other

lemma action_fields_keeps:
  assumes "action_fields os a scope object = Inr object'" and k: "k \<notin> action_keys" "k \<noteq> ''scope''"
  shows "map_of object' k = map_of object k"
proof (cases "ca_action a = ''move''")
  case True
  with assms show ?thesis
    by (auto simp: action_fields_def Let_def insert_xy_other dest: cursor_move_other [OF _ k]
        split: DriverActionScope.splits if_splits)
next
  case False
  have "k \<noteq> ''button''" "k \<noteq> ''count''" "k \<noteq> ''text''" "k \<noteq> ''delay_ms''" "k \<noteq> ''value''" "k \<noteq> ''key''"
    "k \<noteq> ''modifiers''" "k \<noteq> ''keys''" using k by (auto simp: action_keys_def)
  with False assms show ?thesis
    by (auto simp: action_fields_def Let_def action_fields_other split: if_splits)
qed

section \<open>The cursor stays in the window\<close>

lemma f64_zero_units: "f64_units f64_zero = 0" "\<not> f64_is_nan f64_zero"
  by (simp_all add: f64_zero_def f64_units_def f64_negative_def f64_magnitude_def f64_is_nan_def)

text \<open>A coordinate inside an extent, moved by the origin of the window.\<close>

lemma shifted_coordinate:
  assumes "f64_is_finite x" "\<not> f64_lt x f64_zero" "\<not> f64_le (f64_of_i32 extent) x"
  shows "f64_is_finite (f64_add (f64_of_i32 origin) x)"
    "sint origin * 2 ^ 1074 \<le> f64_units (f64_add (f64_of_i32 origin) x)"
    "f64_units (f64_add (f64_of_i32 origin) x) \<le> (sint origin + sint extent) * 2 ^ 1074"
proof -
  note classes = f64_finite_classes [OF assms(1)] f64_finite_classes [OF f64_of_i32_units(2)]
  have ux: "0 \<le> f64_units x" "f64_units x < sint extent * 2 ^ 1074"
    using assms(2,3) classes by (simp_all add: f64_lt_def f64_le_def f64_zero_units f64_of_i32_units(1) not_less not_le)
  have small: "\<bar>sint origin\<bar> < 2 ^ 53" "\<bar>sint origin + sint extent\<bar> < 2 ^ 53"
    using sint_greater_eq [of origin] sint_less [of origin] sint_greater_eq [of extent] sint_less [of extent]
    by simp_all
  have lower: "sint origin * 2 ^ 1074 \<le> f64_units (f64_of_i32 origin) + f64_units x"
    and upper: "f64_units (f64_of_i32 origin) + f64_units x \<le> (sint origin + sint extent) * 2 ^ 1074"
    using ux unfolding f64_of_i32_units(1) distrib_right by linarith+
  show "f64_is_finite (f64_add (f64_of_i32 origin) x)"
    "sint origin * 2 ^ 1074 \<le> f64_units (f64_add (f64_of_i32 origin) x)"
    "f64_units (f64_add (f64_of_i32 origin) x) \<le> (sint origin + sint extent) * 2 ^ 1074"
    using f64_add_between [OF f64_of_i32_units(2) assms(1) small lower upper] by blast+
qed

text \<open>A coordinate of a command, with its value in pixels between two integers.\<close>

definition coordinate_between :: "arguments \<Rightarrow> string \<Rightarrow> int \<Rightarrow> int \<Rightarrow> bool" where
  "coordinate_between arguments key low high \<longleftrightarrow>
     (\<exists>v. map_of arguments key = Some (JNum (Float v)) \<and> f64_is_finite v
        \<and> low * 2 ^ 1074 \<le> f64_units v \<and> f64_units v \<le> high * 2 ^ 1074)"

lemma coordinate_betweenI:
  "map_of arguments key = Some (json_f64 v) \<Longrightarrow> f64_is_finite v \<Longrightarrow> low * 2 ^ 1074 \<le> f64_units v \<Longrightarrow>
   f64_units v \<le> high * 2 ^ 1074 \<Longrightarrow> coordinate_between arguments key low high"
  unfolding coordinate_between_def json_f64_def by auto

lemma cursor_move_inside:
  assumes "map_window_cursor_move object target = Inr object'"
    and "wt_bounds target = (left, upper, width, height)"
  shows "coordinate_between object' ''x'' (sint left) (sint left + sint width)"
    "coordinate_between object' ''y'' (sint upper) (sint upper + sint height)"
    "map_of object' ''scope'' = Some (JStr ''window'')"
proof -
  obtain x y where
    x: "numeric_argument object ''x'' = Inr x" "f64_is_finite x" "\<not> f64_lt x f64_zero" "\<not> f64_le (f64_of_i32 width) x"
    and y: "numeric_argument object ''y'' = Inr y" "f64_is_finite y" "\<not> f64_lt y f64_zero" "\<not> f64_le (f64_of_i32 height) y"
    and o': "object' = AList.update ''scope'' (JStr ''window'')
             (AList.update ''y'' (json_f64 (f64_add (f64_of_i32 upper) y))
               (AList.update ''x'' (json_f64 (f64_add (f64_of_i32 left) x)) object))"
    using assms by (auto simp: map_window_cursor_move_def validate_window_cursor_move_def and_then_Inr_iff)
  show "coordinate_between object' ''x'' (sint left) (sint left + sint width)"
    by (rule coordinate_betweenI [OF _ shifted_coordinate [OF x(2-4)]]) (simp add: o')
  show "coordinate_between object' ''y'' (sint upper) (sint upper + sint height)"
    by (rule coordinate_betweenI [OF _ shifted_coordinate [OF y(2-4)]]) (simp add: o')
  show "map_of object' ''scope'' = Some (JStr ''window'')" by (simp add: o')
qed

section \<open>Window commands\<close>

lemma driver_action_commandE:
  assumes "driver_action_command os a session scope = Inr c"
  obtains object where "driver_tool a scope = Inr (dc_tool c)"
    "action_fields os a scope (scope_arguments os (dc_tool c) a scope [(''session'', JStr session)]) = Inr object"
    "locator_fields a scope object = Inr (dc_arguments c)"
    "ca_action a \<in> {''move'', ''drag''} \<Longrightarrow> \<not> has_locator a"
  using assms by (auto simp: driver_action_command_def and_then_Inr_iff)

lemma driver_tool_range:
  assumes "driver_tool a scope = Inr tool"
  shows "tool \<in> {''click'', ''drag'', ''scroll'', ''type_text'', ''set_value'', ''press_key'', ''hotkey'', ''move_cursor''}"
    and "tool = ''move_cursor'' \<longleftrightarrow> ca_action a = ''move''"
  using assms by (auto simp: driver_tool_def split: if_splits)

lemma action_fields_scope:
  assumes "action_fields os a scope object = Inr object'"
  shows "map_of object' ''scope'' = map_of object ''scope'' \<or> map_of object' ''scope'' = Some (JStr ''window'')"
proof (cases "ca_action a = ''move''")
  case True
  have "map_of object' ''scope'' = Some (JStr ''window'')" if "map_window_cursor_move o1 t = Inr object'" for o1 t
    using cursor_move_inside(3) [OF that] by (cases "wt_bounds t") blast
  with True assms show ?thesis
    by (auto simp: action_fields_def Let_def insert_xy_def split: DriverActionScope.splits if_splits)
next
  case False
  have scope: "''scope'' \<notin> action_keys" by (simp add: action_keys_def)
  from False assms show ?thesis
    by (auto simp: action_fields_def Let_def action_fields_other scope split: if_splits)
qed

lemma locator_fields_window:
  assumes "locator_fields a (WindowScope t) object = Inr object'"
  shows "k \<notin> {''x'', ''y'', ''element_index'', ''element_token''} \<Longrightarrow> map_of object' k = map_of object k"
    and "ca_element_token a = Some token \<Longrightarrow> map_of object' ''element_token'' = Some (JStr token)
           \<and> map_of object' ''x'' = None \<and> map_of object' ''y'' = None \<and> map_of object' ''element_index'' = None"
    and "ca_element_token a = None \<Longrightarrow> object' = object \<and> ca_element_index a = None"
  using assms by (auto simp: locator_fields_def is_window_scope_def split: option.splits if_splits)

lemma scope_arguments_window:
  "map_of (scope_arguments os tool a (WindowScope t) [(''session'', JStr session)]) ''session'' = Some (JStr session)"
  "map_of (scope_arguments os tool a (WindowScope t) [(''session'', JStr session)]) ''scope'' = None"
  "map_of (scope_arguments os tool a (WindowScope t) [(''session'', JStr session)]) ''element_index'' = None"
  "map_of (scope_arguments os tool a (WindowScope t) [(''session'', JStr session)]) ''element_token'' = None"
  "tool \<noteq> ''move_cursor'' \<Longrightarrow>
     map_of (scope_arguments os tool a (WindowScope t) [(''session'', JStr session)]) ''pid'' = Some (json_u32 (wt_pid t))
     \<and> map_of (scope_arguments os tool a (WindowScope t) [(''session'', JStr session)]) ''window_id'' = Some (json_u64 (wt_window_id t))"
  by (simp_all add: scope_arguments_def Let_def)

text \<open>The parts of a command that name its session and window.\<close>

definition command_bound :: "string \<Rightarrow> WindowTarget \<Rightarrow> DriverActionCommand \<Rightarrow> bool" where
  "command_bound session t c \<longleftrightarrow>
     map_of (dc_arguments c) ''session'' = Some (JStr session)
     \<and> map_of (dc_arguments c) ''scope'' \<in> {None, Some (JStr ''window'')}
     \<and> (dc_tool c \<noteq> ''move_cursor'' \<longrightarrow> map_of (dc_arguments c) ''pid'' = Some (json_u32 (wt_pid t))
          \<and> map_of (dc_arguments c) ''window_id'' = Some (json_u64 (wt_window_id t)))"

lemma action_arguments_bound:
  assumes "action_arguments os a session t = Inr c"
  shows "command_bound session t c"
proof -
  let ?start = "scope_arguments os (dc_tool c) a (WindowScope t) [(''session'', JStr session)]"
  from assms obtain object where fields: "action_fields os a (WindowScope t) ?start = Inr object"
    and locator: "locator_fields a (WindowScope t) object = Inr (dc_arguments c)"
    unfolding action_arguments_def by (elim driver_action_commandE)
  note start = scope_arguments_window [where os = os and tool = "dc_tool c" and a = a and t = t and session = session]
  have kept: "map_of (dc_arguments c) k = map_of ?start k"
    if "k \<notin> action_keys" "k \<notin> {''scope'', ''element_index'', ''element_token''}" for k
  proof -
    have "k \<notin> {''x'', ''y'', ''element_index'', ''element_token''}" "k \<noteq> ''scope''"
      using that by (auto simp: action_keys_def)
    with that(1) show ?thesis using locator_fields_window(1) [OF locator] action_fields_keeps [OF fields] by simp
  qed
  have "map_of (dc_arguments c) ''scope'' = map_of object ''scope''"
    by (rule locator_fields_window(1) [OF locator]) simp
  then have "map_of (dc_arguments c) ''scope'' \<in> {None, Some (JStr ''window'')}"
    using action_fields_scope [OF fields] start(2) by auto
  then show ?thesis using start kept by (auto simp: command_bound_def action_keys_def)
qed

text \<open>Every route to a command of a window.\<close>

lemma sdk_action_command_cases:
  assumes "sdk_action_command os a session t local_coordinates = Inr c"
  obtains (plain) "action_arguments os a session t = Inr c"
      "\<not> (os = Macos \<and> local_coordinates \<and> ca_action a = ''move'')"
  | (overlay) c0 where "action_arguments os a session t = Inr c0" "os = Macos" "ca_action a = ''move''"
      "dc_tool c = dc_tool c0" "map_window_cursor_move (AList.delete ''target'' (dc_arguments c0)) t = Inr (dc_arguments c)"
proof (cases "os = Macos \<and> local_coordinates \<and> ca_action a = ''move''")
  case True
  with assms obtain c0 arguments where "action_arguments os a session t = Inr c0"
    "map_window_cursor_move (AList.delete ''target'' (dc_arguments c0)) t = Inr arguments"
    "c = c0\<lparr>dc_arguments := arguments\<rparr>"
    by (auto simp: sdk_action_command_def and_then_Inr_iff)
  with True show thesis by (intro overlay) auto
next
  case False
  with assms show thesis by (intro plain) (auto simp: sdk_action_command_def and_then_Inr_iff split: if_splits)
qed

lemma action_arguments_tool:
  assumes "action_arguments os a session t = Inr c"
  shows "dc_tool c = ''move_cursor'' \<longleftrightarrow> ca_action a = ''move''"
  using assms driver_tool_range unfolding action_arguments_def by (metis driver_action_commandE)

lemma sdk_action_command_bound:
  assumes "sdk_action_command os a session t local_coordinates = Inr c"
  shows "command_bound session t c"
  using assms
proof (cases rule: sdk_action_command_cases)
  case plain
  then show ?thesis by (simp add: action_arguments_bound)
next
  case (overlay c0)
  have "map_of (dc_arguments c) ''session'' = map_of (dc_arguments c0) ''session''"
    using cursor_move_other [OF overlay(5), of "''session''"] by (simp add: action_keys_def)
  moreover have "map_of (dc_arguments c) ''scope'' = Some (JStr ''window'')"
    using cursor_move_inside(3) [OF overlay(5)] by (cases "wt_bounds t") blast
  moreover have "dc_tool c = ''move_cursor''"
    using action_arguments_tool [OF overlay(1)] overlay by simp
  ultimately show ?thesis using action_arguments_bound [OF overlay(1)] by (simp add: command_bound_def)
qed

text \<open>Where the cursor is moved in screen coordinates, it stays in the rectangle of the window.\<close>

lemma sdk_move_inside:
  assumes c: "sdk_action_command os a session t local_coordinates = Inr c" "dc_tool c = ''move_cursor''"
    and b: "wt_bounds t = (left, upper, width, height)" and os: "os \<noteq> Macos \<or> local_coordinates"
  shows "coordinate_between (dc_arguments c) ''x'' (sint left) (sint left + sint width)
    \<and> coordinate_between (dc_arguments c) ''y'' (sint upper) (sint upper + sint height)"
  using c(1)
proof (cases rule: sdk_action_command_cases)
  case plain
  have move: "ca_action a = ''move''" using action_arguments_tool [OF plain(1)] c(2) by simp
  with plain(2) os have nomac: "os \<noteq> Macos" by blast
  from plain(1) obtain object where
    "action_fields os a (WindowScope t) (scope_arguments os (dc_tool c) a (WindowScope t) [(''session'', JStr session)]) = Inr object"
    and locator: "locator_fields a (WindowScope t) object = Inr (dc_arguments c)" and none: "\<not> has_locator a"
    unfolding action_arguments_def using move by (elim driver_action_commandE) auto
  then obtain o1 where "map_window_cursor_move o1 t = Inr object"
    using move nomac by (auto simp: action_fields_def Let_def)
  moreover have "dc_arguments c = object"
    using locator_fields_window(3) [OF locator] none by (auto simp: has_locator_def)
  ultimately show ?thesis using cursor_move_inside(1,2) b by metis
next
  case (overlay c0)
  then show ?thesis using cursor_move_inside(1,2) b by metis
qed

lemma sdk_token_exclusive:
  assumes "sdk_action_command os a session t local_coordinates = Inr c"
  shows "(case ca_element_token a of
            Some token \<Rightarrow> map_of (dc_arguments c) ''element_token'' = Some (JStr token)
              \<and> map_of (dc_arguments c) ''x'' = None \<and> map_of (dc_arguments c) ''y'' = None
          | None \<Rightarrow> map_of (dc_arguments c) ''element_token'' = None \<and> ca_element_index a = None)"
proof -
  have none: "map_of object ''element_token'' = None"
    if "action_fields os a (WindowScope t) (scope_arguments os tool a (WindowScope t) [(''session'', JStr session)]) = Inr object"
    for tool object
    using action_fields_keeps [OF that, of "''element_token''"] scope_arguments_window(4) by (simp add: action_keys_def)
  from assms show ?thesis
  proof (cases rule: sdk_action_command_cases)
    case plain
    then show ?thesis unfolding action_arguments_def
    proof (elim driver_action_commandE)
      fix object
      assume "action_fields os a (WindowScope t) (scope_arguments os (dc_tool c) a (WindowScope t) [(''session'', JStr session)]) = Inr object"
        and locator: "locator_fields a (WindowScope t) object = Inr (dc_arguments c)"
      then show ?thesis using locator_fields_window(2,3) [OF locator] none by (auto split: option.split)
    qed
  next
    case (overlay c0)
    from overlay(1) obtain object where fields:
      "action_fields os a (WindowScope t) (scope_arguments os (dc_tool c0) a (WindowScope t) [(''session'', JStr session)]) = Inr object"
      and locator: "locator_fields a (WindowScope t) object = Inr (dc_arguments c0)" and "\<not> has_locator a"
      unfolding action_arguments_def using overlay(3) by (elim driver_action_commandE) auto
    then have a: "ca_element_token a = None" "ca_element_index a = None" by (auto simp: has_locator_def)
    have "map_of (dc_arguments c0) ''element_token'' = None"
      using none [OF fields] locator_fields_window(3) [OF locator a(1)] by simp
    moreover have "map_of (dc_arguments c) ''element_token'' = map_of (dc_arguments c0) ''element_token''"
      using cursor_move_other [OF overlay(5), of "''element_token''"] by (simp add: action_keys_def)
    ultimately show ?thesis using a by simp
  qed
qed

section \<open>The points of a command\<close>

text \<open>The points a command carries, and the point a drag without coordinates starts and ends at.\<close>

definition carries_point :: "DriverActionCommand \<Rightarrow> ComputerUsePoint \<Rightarrow> bool" where
  "carries_point c p \<longleftrightarrow>
     (\<exists>(kx, ky) \<in> {(''x'', ''y''), (''from_x'', ''from_y''), (''to_x'', ''to_y'')}.
        map_of (dc_arguments c) kx = Some (JNum (Float (pt_x p))) \<and> map_of (dc_arguments c) ky = Some (JNum (Float (pt_y p))))"

definition origin_point :: ComputerUsePoint where
  "origin_point = \<lparr>pt_x = f64_zero, pt_y = f64_zero\<rparr>"

lemma json_f64_Float [simp]: "json_f64 x = JNum (Float v) \<longleftrightarrow> f64_is_finite x \<and> x = v"
  by (simp add: json_f64_def)

lemma json_opt_Float [simp]: "json_opt json_f64 x = JNum (Float v) \<longleftrightarrow> x = Some v \<and> f64_is_finite v"
  "JNum (Float v) = json_opt json_f64 x \<longleftrightarrow> x = Some v \<and> f64_is_finite v"
  by (auto simp: json_opt_def json_f64_def split: option.split)

lemma scope_arguments_no_point:
  "k \<in> {''x'', ''y'', ''from_x'', ''from_y'', ''to_x'', ''to_y''} \<Longrightarrow>
   map_of (scope_arguments os tool a (WindowScope t) [(''session'', JStr session)]) k = None"
  by (auto simp: scope_arguments_def Let_def)

text \<open>Outside a drag only \<open>x\<close> and \<open>y\<close> can be set, from the coordinates of the action.\<close>

definition point_keys :: "string set" where
  "point_keys = {''x'', ''y'', ''from_x'', ''from_y'', ''to_x'', ''to_y''}"

definition own_xy :: "ComputerUseAction \<Rightarrow> (string \<rightharpoonup> json) \<Rightarrow> (string \<rightharpoonup> json) \<Rightarrow> bool" where
  "own_xy a f g \<longleftrightarrow>
     (g ''x'' = f ''x'' \<or> g ''x'' = Some (json_opt json_f64 (ca_x a)))
     \<and> (g ''y'' = f ''y'' \<or> g ''y'' = Some (json_opt json_f64 (ca_y a)))
     \<and> g ''from_x'' = f ''from_x'' \<and> g ''from_y'' = f ''from_y'' \<and> g ''to_x'' = f ''to_x'' \<and> g ''to_y'' = f ''to_y''"

lemma own_xy_refl: "own_xy a f f"
  by (simp add: own_xy_def)

lemma own_xy_same:
  assumes "own_xy a f g" and "\<And>k. k \<in> point_keys \<Longrightarrow> g' k = g k"
  shows "own_xy a f g'"
  using assms(1) unfolding own_xy_def by (simp only: assms(2) point_keys_def insert_iff simp_thms)

lemma own_xy_update:
  assumes "own_xy a f (map_of object)" "k \<notin> point_keys"
  shows "own_xy a f (map_of (AList.update k v object))"
proof (rule own_xy_same [OF assms(1)])
  fix k' assume "k' \<in> point_keys"
  with assms(2) have "k' \<noteq> k" by metis
  then show "map_of (AList.update k v object) k' = map_of object k'" by (simp add: update_conv')
qed

lemma own_xy_insert_opt:
  assumes "own_xy a f (map_of object)" "k \<notin> point_keys"
  shows "own_xy a f (map_of (insert_opt k h v object))"
  unfolding insert_opt_def using own_xy_update [OF assms] assms(1) by (cases v) simp_all

lemma own_xy_insert: "own_xy a f (map_of object) \<Longrightarrow> own_xy a f (map_of (insert_xy a object))"
  by (simp add: own_xy_def insert_xy_def)

lemma own_xy_window: "own_xy a f (map_of object) \<Longrightarrow> own_xy a f (map_of (insert_window_xy a scope object))"
  by (cases "ca_x a"; cases "ca_y a") (simp_all add: own_xy_def insert_window_xy_def json_opt_def)

lemma own_xy_scroll: "own_xy a f (map_of object) \<Longrightarrow> own_xy a f (map_of (insert_scroll_arguments a object))"
  by (erule own_xy_same)
     (simp add: insert_scroll_arguments_def Let_def case_prod_beta insert_opt_other point_keys_def, elim disjE; simp add: insert_opt_other)

lemmas own_xy_intros = own_xy_refl own_xy_update own_xy_insert_opt own_xy_insert own_xy_window own_xy_scroll

lemma outside_point_keys:
  "''button'' \<notin> point_keys" "''count'' \<notin> point_keys" "''text'' \<notin> point_keys" "''delay_ms'' \<notin> point_keys"
  "''value'' \<notin> point_keys" "''key'' \<notin> point_keys" "''modifiers'' \<notin> point_keys" "''keys'' \<notin> point_keys"
  by (simp_all add: point_keys_def)

lemma action_fields_xy:
  assumes "action_fields os a scope object = Inr object'" "ca_action a \<noteq> ''move''" "ca_action a \<noteq> ''drag''"
  shows "own_xy a (map_of object) (map_of object')"
  using assms unfolding action_fields_def Let_def
  by (simp split: if_split_asm)
     (hypsubst, (rule own_xy_intros outside_point_keys)+)+

text \<open>The ends of a drag.\<close>

definition drag_first :: "ComputerUseAction \<Rightarrow> ComputerUsePoint" where
  "drag_first a = (case ca_path a of p # _ \<Rightarrow> p
     | [] \<Rightarrow> \<lparr>pt_x = unwrap_or (ca_x a) f64_zero, pt_y = unwrap_or (ca_y a) f64_zero\<rparr>)"

definition drag_last :: "ComputerUseAction \<Rightarrow> ComputerUsePoint" where
  "drag_last a = (case ca_path a of [] \<Rightarrow> drag_first a | ps \<Rightarrow> last ps)"

lemma drag_arguments_points:
  "map_of (drag_arguments a object) ''x'' = map_of object ''x''"
  "map_of (drag_arguments a object) ''from_x'' = Some (json_f64 (pt_x (drag_first a)))"
  "map_of (drag_arguments a object) ''from_y'' = Some (json_f64 (pt_y (drag_first a)))"
  "map_of (drag_arguments a object) ''to_x'' = Some (json_f64 (pt_x (drag_last a)))"
  "map_of (drag_arguments a object) ''to_y'' = Some (json_f64 (pt_y (drag_last a)))"
  by (simp_all add: drag_arguments_def Let_def insert_opt_other drag_first_def [symmetric] drag_last_def [symmetric])

lemma drag_ends_points:
  assumes "(ca_x a = None) = (ca_y a = None)"
  shows "{drag_first a, drag_last a} \<subseteq> set (action_points a) \<or> action_points a = [] \<and> {drag_first a, drag_last a} = {origin_point}"
proof (cases "ca_path a")
  case Nil
  with assms show ?thesis
    by (cases "ca_x a"; cases "ca_y a") (simp_all add: action_points_def drag_first_def drag_last_def origin_point_def unwrap_or_def)
next
  case (Cons p ps)
  then show ?thesis by (auto simp: action_points_def drag_first_def drag_last_def)
qed

lemma action_arguments_points:
  assumes c: "action_arguments os a session t = Inr c" and "ca_action a \<noteq> ''move''"
    and pair: "(ca_x a = None) = (ca_y a = None)" and p: "carries_point c p"
  shows "p \<in> set (action_points a) \<or> ca_action a = ''drag'' \<and> action_points a = [] \<and> p = origin_point"
proof -
  let ?start = "scope_arguments os (dc_tool c) a (WindowScope t) [(''session'', JStr session)]"
  from c obtain object where fields: "action_fields os a (WindowScope t) ?start = Inr object"
    and locator: "locator_fields a (WindowScope t) object = Inr (dc_arguments c)"
    unfolding action_arguments_def by (elim driver_action_commandE)
  have le: "map_of (dc_arguments c) k \<in> {None, map_of object k}" if "k \<notin> {''element_index'', ''element_token''}" for k
    using locator_fields_window [OF locator] that by (cases "ca_element_token a"; cases "k \<in> {''x'', ''y''}") auto
  from p obtain kx ky where k: "(kx, ky) \<in> {(''x'', ''y''), (''from_x'', ''from_y''), (''to_x'', ''to_y'')}"
    and "map_of (dc_arguments c) kx = Some (JNum (Float (pt_x p)))" "map_of (dc_arguments c) ky = Some (JNum (Float (pt_y p)))"
    by (auto simp: carries_point_def)
  with le [of kx] le [of ky] have o: "map_of object kx = Some (JNum (Float (pt_x p)))" "map_of object ky = Some (JNum (Float (pt_y p)))"
    by auto
  have start: "map_of ?start ''x'' = None" "map_of ?start ''y'' = None" "map_of ?start ''from_x'' = None" "map_of ?start ''to_x'' = None"
    by (simp_all add: scope_arguments_def Let_def)
  show ?thesis
  proof (cases "ca_action a = ''drag''")
    case False
    have xy: "map_of object ''x'' \<in> {None, Some (json_opt json_f64 (ca_x a))}" "map_of object ''y'' \<in> {None, Some (json_opt json_f64 (ca_y a))}"
      "map_of object ''from_x'' = None" "map_of object ''to_x'' = None"
      using action_fields_xy [OF fields assms(2) False] start by (simp_all add: own_xy_def)
    from k have "kx = ''x'' \<and> ky = ''y''" using o(1) xy(3,4) by auto
    then have "ca_x a = Some (pt_x p)" "ca_y a = Some (pt_y p)" using o xy(1,2) by auto
    then show ?thesis by (simp add: action_points_def)
  next
    case True
    then have object: "object = drag_arguments a ?start" using fields by (simp add: action_fields_def)
    have "map_of object ''x'' = None" using start(1) by (simp add: object drag_arguments_points)
    then have "kx \<noteq> ''x''" using o(1) by auto
    with k consider "kx = ''from_x''" "ky = ''from_y''" | "kx = ''to_x''" "ky = ''to_y''" by blast
    then have "pt_x p = pt_x (drag_first a) \<and> pt_y p = pt_y (drag_first a) \<or> pt_x p = pt_x (drag_last a) \<and> pt_y p = pt_y (drag_last a)"
      using o by cases (simp_all add: object drag_arguments_points)
    then have "p = drag_first a \<or> p = drag_last a" by (auto intro: ComputerUsePoint.equality)
    then show ?thesis using drag_ends_points [OF pair] True by blast
  qed
qed

lemma sdk_command_points:
  assumes "sdk_action_command os a session t local_coordinates = Inr c" "dc_tool c \<noteq> ''move_cursor''"
    and "(ca_x a = None) = (ca_y a = None)" "carries_point c p"
  shows "p \<in> set (action_points a) \<or> ca_action a = ''drag'' \<and> action_points a = [] \<and> p = origin_point"
  using assms(1)
proof (cases rule: sdk_action_command_cases)
  case plain
  have "ca_action a \<noteq> ''move''" using action_arguments_tool [OF plain(1)] assms(2) by simp
  then show ?thesis by (rule action_arguments_points [OF plain(1) _ assms(3,4)])
next
  case (overlay c0)
  then show ?thesis using action_arguments_tool assms(2) by simp
qed

text \<open>A visual fallback admits a point only inside the screenshot and scales it to the window.\<close>

definition inside_screenshot :: "ComputerUseObservation \<Rightarrow> ComputerUsePoint \<Rightarrow> bool" where
  "inside_screenshot observation p \<longleftrightarrow>
     \<not> f64_le (f64_of_u32 (ob_width observation)) (pt_x p) \<and> \<not> f64_le (f64_of_u32 (ob_height observation)) (pt_y p)"

lemma map_point_inside: "map_point observation p = Inr q \<Longrightarrow> inside_screenshot observation p"
  by (auto simp: map_point_def inside_screenshot_def Let_def split: if_splits prod.splits)

lemma map_points_iff:
  "map_points observation ps = Inr qs \<longleftrightarrow> list_all2 (\<lambda>p q. map_point observation p = Inr q) ps qs"
  by (induction ps arbitrary: qs) (auto simp: and_then_Inr_iff list_all2_Cons1)

lemma visual_fallback_points:
  assumes "action_for_window_visual_fallback a observation = Inr a'"
  shows "list_all2 (\<lambda>p q. map_point observation p = Inr q) (action_points a) (action_points a')"
  using assms
  by (auto simp: action_for_window_visual_fallback_def and_then_Inr_iff map_points_iff action_points_def
      intro!: list_all2_appendI split: option.splits)

section \<open>Unique rows\<close>

definition row_index :: "json \<Rightarrow> u32 option" where
  "row_index element = Option.bind (as_u64 (json_index element ''element_index''))
     (\<lambda>n. if uint n < 2 ^ 32 then Some (ucast n :: u32) else None)"

definition row_token :: "json \<Rightarrow> string option" where
  "row_token element = Option.bind (as_str (json_index element ''element_token''))
     (\<lambda>t. if t \<noteq> [] \<and> char_count t \<le> MAX_ELEMENT_TOKEN_CHARS then Some t else None)"

lemma remember_token_alt:
  "remember_token element tokens =
     (case row_index element of
        None \<Rightarrow> tokens
      | Some index \<Rightarrow> AList.update index (if map_of tokens index = None then row_token element else None) tokens)"
  by (auto simp: remember_token_def row_index_def row_token_def Let_def split: option.split)

text \<open>The reference: an index is known by the token of its only row, and unusable when it has several.\<close>

lemma fold_remember_token:
  "map_of (fold remember_token elements []) index =
     (case filter (\<lambda>e. row_index e = Some index) elements of
        [] \<Rightarrow> None | [e] \<Rightarrow> Some (row_token e) | _ \<Rightarrow> Some None)"
proof (induction elements rule: rev_induct)
  case (snoc e es)
  then show ?case
    by (cases "filter (\<lambda>e. row_index e = Some index) es")
       (auto simp: remember_token_alt split: option.split list.splits)
qed simp

lemma observed_token_unique:
  assumes "map_of (observed_tokens accessibility) index = Some (Some token)"
  shows "\<exists>row. filter (\<lambda>e. row_index e = Some index)
      (unwrap_or (as_array (json_index accessibility ''elements'')) []) = [row] \<and> row_token row = Some token"
  using assms unfolding observed_tokens_def fold_remember_token by (auto split: list.splits)

lemma resolve_sdk_element_action_Some:
  assumes "resolve_sdk_element_action a observation s = Inr (Some a')"
  shows "\<exists>index tokens token. ca_element_index a = Some index \<and> cs_sdk_element_tokens s = Some tokens
    \<and> tokens_of_observation observation tokens \<and> map_of (et_tokens tokens) index = Some (Some token)
    \<and> a' = a\<lparr>ca_element_index := None, ca_element_token := Some token\<rparr>"
  using assms
  by (auto simp: resolve_sdk_element_action_def bind_eq_Some_conv split: option.splits if_splits)

end
