(* ===== verification/Core_Action.thy ===== *)
theory Core_Action
  imports Driver_Command
begin

text \<open>
  \<open>ComputerUseSession::perform_action\<close> of the core crate on a build that is not Windows
  (\<open>dcc-cua-core/src/runtime/session.rs\<close>, with \<open>gates.rs\<close>, \<open>observation.rs\<close>, \<open>input_target_policy.rs\<close>,
  \<open>linux_pixels.rs\<close> and \<open>error_contracts.rs\<close> beside it): the fences of an action, its translation and
  its dispatch to the native driver. The window inventory, the input gate of the desktop and the
  driver are parameters; the safety banner and the envelope of the reply are not modelled. The
  commands sent to the driver are kept in a log, and an exhausted evidence epoch or a row without
  bounds panics, which is \<open>None\<close>.
\<close>

section \<open>Driver errors and results\<close>

datatype ActionCompletion = ActionUnknown | ActionNotStarted | ActionCompleted

datatype DriverError =
    Configuration | InvalidArguments | DriverTool string string | ActionInterrupted ActionCompletion string
  | Transport | DriverProtocol | Shutdown | RuntimeAlreadyExists | DriverWorker | Remote

definition classify_driver_failure :: "string \<Rightarrow> ComputerUseErrorCode \<Rightarrow> ComputerUseErrorCode" where
  "classify_driver_failure code fallback =
     (let c = to_ascii_lowercase (str_trim code) in
      if c \<in> {''user_interrupted'', ''interrupted'', ''cancelled''} then UserInterrupted
      else if c \<in> {''interactive_desktop_unavailable'', ''interactive_input_surface_unavailable'',
          ''input_gate_stage=foreground_dispatch'', ''activation_gate_stage=foreground_dispatch''}
        then InteractiveDesktopUnavailable
      else if c = ''target_minimized'' then TargetMinimized
      else if c \<in> {''target_unavailable'', ''missing_window''} then TargetUnavailable
      else if c = ''invalid_target'' then InvalidTarget
      else if c \<in> {''browser_refused'', ''browser_scope_unavailable'', ''browser_wrong_target_refused'', ''browser_requires_setup''}
        then BrowserRefused
      else if c \<in> {''clipboard_refused'', ''clipboard_read_refused'', ''clipboard_write_refused''} then ClipboardRefused
      else if c \<in> {''recording_refused'', ''recording_not_granted''} then RecordingRefused
      else if c = ''no_accessibility_provider'' then NoAccessibilityProvider
      else if c \<in> {''backend_unavailable'', ''uia_timeout'', ''timeout''} then BackendUnavailable
      else if c = ''capture_failed'' then CaptureFailed
      else if c = ''stale_observation'' then StaleObservation
      else if c = ''completion_unknown'' then CompletionUnknown
      else if c \<in> {''invalid_action'', ''invalid_arguments''} then InvalidAction
      else fallback)"

fun driver_error_code :: "DriverError \<Rightarrow> ComputerUseErrorCode" where
  "driver_error_code Configuration = InvalidAction"
| "driver_error_code InvalidArguments = InvalidAction"
| "driver_error_code (DriverTool tool tool_code) = classify_driver_failure tool_code InputFailed"
| "driver_error_code (ActionInterrupted ActionUnknown reason) = CompletionUnknown"
| "driver_error_code (ActionInterrupted completion reason) = InputFailed"
| "driver_error_code _ = BackendUnavailable"

record ToolResult =
  tr_is_error :: bool
  tr_error_code :: "string option"
  tr_text :: string
  tr_raw_json :: string
  tr_images :: "(string \<times> string) list"
  tr_degraded :: bool

definition ensure_tool_ok :: "string \<Rightarrow> ToolResult \<Rightarrow> unit ComputerUseResult" where
  "ensure_tool_ok context r =
     guard (tr_is_error r)
       (classify_driver_failure (unwrap_or (tr_error_code r) []) InputFailed,
        context @ '': '' @ (if tr_text r = [] then tr_raw_json r else tr_text r))"

section \<open>Results of a native tool\<close>

definition MAX_NATIVE_TOOL_IMAGES :: nat where "MAX_NATIVE_TOOL_IMAGES = 8"
definition MAX_NATIVE_TOOL_IMAGE_BYTES :: nat where
  "MAX_NATIVE_TOOL_IMAGE_BYTES = MAX_BINARY_FRAME_BYTES"
definition MAX_NATIVE_TOOL_TOTAL_IMAGE_BYTES :: nat where
  "MAX_NATIVE_TOOL_TOTAL_IMAGE_BYTES = MAX_BINARY_FRAME_BYTES"

datatype ComputerUseToolStatus = Succeeded | Rejected

record ComputerUseToolResult =
  ct_status :: ComputerUseToolStatus
  ct_value :: json
  ct_text :: string
  ct_images :: "(string \<times> string) list"
  ct_degraded :: bool

text \<open>\<open>decode\<close> is the base64 decoder and \<open>parse\<close> the JSON reader; an image is a type and its bytes.\<close>

fun decode_images ::
  "(string \<Rightarrow> string + string) \<Rightarrow> nat \<Rightarrow> (string \<times> string) list \<Rightarrow> (string \<times> string) list ComputerUseResult" where
  "decode_images decode total_bytes [] = Inr []"
| "decode_images decode total_bytes ((mime, data_base64) # images) =
     and_then (guard (length data_base64 > MAX_NATIVE_TOOL_IMAGE_BYTES * 2)
       (CaptureFailed, ''CUA native tool image exceeds 64 MiB'')) (\<lambda>_.
     and_then (map_err (\<lambda>error. (CaptureFailed, error)) (decode data_base64)) (\<lambda>data.
     and_then (guard (data = []) (CaptureFailed, ''CUA native tool returned an empty image'')) (\<lambda>_.
     and_then (guard (length data > MAX_NATIVE_TOOL_IMAGE_BYTES)
       (CaptureFailed, ''CUA native tool image exceeds 64 MiB'')) (\<lambda>_.
     and_then (guard (2 ^ 64 \<le> total_bytes + length data \<or> total_bytes + length data > MAX_NATIVE_TOOL_TOTAL_IMAGE_BYTES)
       (CaptureFailed, ''CUA native tool images exceed 64 MiB in total'')) (\<lambda>_.
     and_then (decode_images decode (total_bytes + length data) images) (\<lambda>rest.
       Inr ((mime, data) # rest)))))))"

definition native_tool_result ::
  "(string \<Rightarrow> string + string) \<Rightarrow> (string \<Rightarrow> string + json) \<Rightarrow> ToolResult \<Rightarrow> ComputerUseToolResult ComputerUseResult" where
  "native_tool_result decode parse r =
     and_then (guard (length (tr_images r) > MAX_NATIVE_TOOL_IMAGES)
       (CaptureFailed, ''CUA native tool returned more than 8 images'')) (\<lambda>_.
     and_then (decode_images decode 0 (tr_images r)) (\<lambda>images.
     and_then (map_err (\<lambda>error. (BackendUnavailable, ''CUA native tool returned invalid JSON: '' @ error)) (parse (tr_raw_json r))) (\<lambda>value.
       Inr \<lparr>ct_status = Succeeded, ct_value = value, ct_text = tr_text r, ct_images = images,
            ct_degraded = tr_degraded r\<rparr>)))"

section \<open>Session and environment\<close>

record RuntimeSession =
  rs_active :: bool
  rs_upstream_active :: bool
  rs_last_upstream_session_refresh :: "nat option"
  rs_session_id :: string
  rs_scope :: ComputerUseTargetScope
  rs_target :: "WindowTarget option"
  rs_explicit_pixels :: bool
  rs_linux_pixels :: bool
  rs_native_task_authorization :: "NativeTaskAuthorization option"
  rs_fences :: fences
  rs_evidence :: ComputerUseSession
  rs_calls :: "DriverActionCommand list"

text \<open>
  \<open>ae_clock\<close> is read at numbered points. \<open>ae_call\<close> is the driver: a timeout is the outer error, a
  driver error the inner one.
\<close>

record action_env =
  ae_os :: target_os
  ae_clock :: clock
  ae_rows :: "json list ComputerUseResult"
  ae_pixels_target :: "WindowTarget ComputerUseResult"
  ae_input_available :: "nat \<Rightarrow> unit ComputerUseResult"
  ae_call :: "DriverActionCommand \<Rightarrow> (DriverError + ToolResult) ComputerUseResult"
  ae_error_text :: "DriverError \<Rightarrow> string"
  ae_base64 :: "string \<Rightarrow> string + string"
  ae_json :: "string \<Rightarrow> string + json"

type_synonym 'a core_step = "RuntimeSession \<Rightarrow> ('a ComputerUseResult \<times> RuntimeSession) option"

definition core_return :: "'a ComputerUseResult \<Rightarrow> 'a core_step" where
  "core_return r s = Some (r, s)"

definition core_then :: "'a core_step \<Rightarrow> ('a \<Rightarrow> 'b core_step) \<Rightarrow> 'b core_step" where
  "core_then m f s =
     (case m s of
        None \<Rightarrow> None
      | Some (Inl e, s') \<Rightarrow> Some (Inl e, s')
      | Some (Inr v, s') \<Rightarrow> f v s')"

definition core_invalidate :: "RuntimeSession \<Rightarrow> RuntimeSession option" where
  "core_invalidate s =
     map_option (\<lambda>evidence. s\<lparr>rs_evidence := evidence\<rparr>) (core_invalidate_action_observations (rs_evidence s))"

definition observation_lost :: "ComputerUseErrorCode \<Rightarrow> bool" where
  "observation_lost code \<longleftrightarrow>
     code \<in> {MissingWindow, InvalidTarget, TargetMinimized, TargetUnavailable, InteractiveDesktopUnavailable}"

definition core_finish_observation_sensitive_attempt :: "'a ComputerUseResult \<Rightarrow> 'a core_step" where
  "core_finish_observation_sensitive_attempt r s =
     (case r of
        Inr v \<Rightarrow> Some (r, s)
      | Inl (code, message) \<Rightarrow>
        (let s = (if code = MissingWindow then s\<lparr>rs_target := None\<rparr> else s)
         in if observation_lost code then map_option (\<lambda>s'. (r, s')) (core_invalidate s) else Some (r, s)))"

section \<open>Fences of an action\<close>

definition ensure_active :: "action_env \<Rightarrow> unit core_step" where
  "ensure_active env s =
     (let (permitted, fences) =
        (case rs_native_task_authorization s of
           None \<Rightarrow> (Inr (), rs_fences s)
         | Some a \<Rightarrow> native_validate (ae_clock env 0) a (rs_session_id s)
             (unwrap_or (sp_process_id (rs_scope s)) 0) (unwrap_or (sp_window_handle (rs_scope s)) 0) (rs_fences s));
        s = s\<lparr>rs_fences := fences\<rparr>
      in Some (and_then (map_err core_error permitted) (\<lambda>_.
           if rs_active s then Inr ()
           else Inl (BackendUnavailable, ''Computer Use session is not active'')), s))"

definition SESSION_REFRESH_INTERVAL_NS :: nat where "SESSION_REFRESH_INTERVAL_NS = 30 * 10 ^ 9"

definition upstream_session_refresh_due :: "world \<Rightarrow> RuntimeSession \<Rightarrow> bool" where
  "upstream_session_refresh_due w s \<longleftrightarrow>
     is_none_or (rs_last_upstream_session_refresh s) (\<lambda>refreshed. mono_ns w - refreshed \<ge> SESSION_REFRESH_INTERVAL_NS)"

definition require_current_upstream_session_for_evidence :: "world \<Rightarrow> unit core_step" where
  "require_current_upstream_session_for_evidence w s =
     (if \<not> rs_upstream_active s
      then map_option (Pair (Inl (BackendUnavailable, ''the upstream semantic session is unavailable; this session is restricted to explicitly approved exact-window visual fallback'')))
             (core_invalidate s)
      else if \<not> upstream_session_refresh_due w s then Some (Inr (), s)
      else map_option (Pair (Inl (SessionRefreshRequired, ''the upstream session requires a fresh exact-target refresh'')))
             (core_invalidate s))"

definition mark_foreground_by_z_index :: "WindowTarget list \<Rightarrow> WindowTarget list" where
  "mark_foreground_by_z_index windows =
     (case List.map_filter wt_z_index windows of
        [] \<Rightarrow> windows
      | z # zs \<Rightarrow>
        (let highest = fold (\<lambda>a b. if sint b < sint a then a else b) zs z
         in map (\<lambda>w. w\<lparr>wt_is_foreground := (wt_z_index w = Some highest)\<rparr>) windows))"

definition mark_foreground_window :: "WindowTarget list \<Rightarrow> WindowTarget list" where
  "mark_foreground_window windows =
     (if list_ex wt_is_foreground windows then windows else mark_foreground_by_z_index windows)"

fun window_rows :: "json list \<Rightarrow> panic + WindowTarget list" where
  "window_rows [] = Inr []"
| "window_rows (v # vs) =
     and_then (window_target_from_value v) (\<lambda>t.
     and_then (window_rows vs) (\<lambda>ts. Inr (case t of None \<Rightarrow> ts | Some t \<Rightarrow> t # ts)))"

text \<open>\<open>list_windows\<close>: a row that is not a window is skipped, one without bounds panics.\<close>

definition list_windows :: "action_env \<Rightarrow> (WindowTarget list ComputerUseResult) option" where
  "list_windows env =
     (case ae_rows env of
        Inl e \<Rightarrow> Some (Inl e)
      | Inr rows \<Rightarrow> (case window_rows rows of
           Inl _ \<Rightarrow> None
         | Inr windows \<Rightarrow> Some (Inr (mark_foreground_window windows))))"

definition session_target_policy :: "world \<Rightarrow> WindowTarget \<Rightarrow> unit core_step" where
  "session_target_policy w t s =
     (let (r, fences) = validate_target_policy_with_authorization w t (rs_session_id s)
        (rs_native_task_authorization s) (rs_fences s)
      in Some (r, s\<lparr>rs_fences := fences\<rparr>))"

definition resolve_target :: "action_env \<Rightarrow> WindowTarget core_step" where
  "resolve_target env s =
     (if ae_os env = Linux \<and> rs_linux_pixels s then Some (ae_pixels_target env, s)
      else case list_windows env of
        None \<Rightarrow> None
      | Some (Inl e) \<Rightarrow> Some (Inl e, s)
      | Some (Inr rows) \<Rightarrow>
        (case filter (scope_matches (rs_scope s)) rows of
           [target] \<Rightarrow> core_then (session_target_policy (ae_clock env 2) target) (\<lambda>_. core_return (Inr target)) s
         | matches \<Rightarrow> Some (Inl (MissingWindow,
             ''expected exactly one scoped window, found '' @ show_nat (length matches)), s)))"

definition revalidate_target :: "action_env \<Rightarrow> WindowTarget core_step" where
  "revalidate_target env =
     core_then (resolve_target env) (\<lambda>target s.
       case rs_target s of
         None \<Rightarrow> Some (Inl (MissingWindow, ''session target is missing''), s)
       | Some original \<Rightarrow>
         if wt_pid target \<noteq> wt_pid original \<or> wt_window_id target \<noteq> wt_window_id original
         then Some (Inl (TargetUnavailable, ''the exact target identity changed''), s)
         else Some (Inr target, s))"

text \<open>An attempt whose loss of the window also drops the evidence.\<close>

definition observed_attempt :: "'a core_step \<Rightarrow> 'a core_step" where
  "observed_attempt m s =
     (case m s of None \<Rightarrow> None | Some (r, s') \<Rightarrow> core_finish_observation_sensitive_attempt r s')"

definition revalidate_observed_target :: "action_env \<Rightarrow> WindowTarget core_step" where
  "revalidate_observed_target env = observed_attempt (revalidate_target env)"

definition ensure_target_available_for_action :: "WindowTarget \<Rightarrow> unit ComputerUseResult" where
  "ensure_target_available_for_action t =
     (if wt_is_minimized t
      then Inl (TargetMinimized, ''the exact target is minimized; issue the explicit restore_activate window operation, then take a fresh observation before retrying'')
      else if \<not> wt_is_on_screen t
      then Inl (TargetUnavailable, ''the exact target is unavailable; wait for a typed target_available event and take a fresh observation before retrying'')
      else Inr ())"

definition require_observed_target_available :: "action_env \<Rightarrow> WindowTarget core_step" where
  "require_observed_target_available env =
     core_then (revalidate_observed_target env) (\<lambda>target.
     core_then (observed_attempt (core_return (ensure_target_available_for_action target))) (\<lambda>_.
       core_return (Inr target)))"

definition require_observed_input_available :: "action_env \<Rightarrow> nat \<Rightarrow> unit core_step" where
  "require_observed_input_available env n =
     core_then (\<lambda>s. core_return (guard (ae_os env = Linux \<and> rs_explicit_pixels s)
         (BackendUnavailable, ''Linux X11 pixels-only sessions are read-only; input, activation, accessibility and recording are unsupported'')) s) (\<lambda>_.
       observed_attempt (core_return (ae_input_available env n)))"

definition reject_ambiguous_embedded_browser_navigation ::
  "ComputerUseAction \<Rightarrow> WindowTarget \<Rightarrow> unit ComputerUseResult" where
  "reject_ambiguous_embedded_browser_navigation a t =
     (let is_unscoped_text_input = (ca_action a \<in> {''type'', ''type_chars''} \<and> \<not> has_locator a
            \<and> ca_x a = None \<and> ca_y a = None);
          is_web_url = is_some_and (ca_text a) (\<lambda>text.
            starts_with ''https://'' (str_trim text) \<or> starts_with ''http://'' (str_trim text));
          app_name = str_trim (wt_app_name t);
          is_codex_app_shell = list_ex (eq_ignore_ascii_case app_name)
            [''ChatGPT.exe'', ''ChatGPT'', ''Codex.exe'', ''Codex'']
      in guard (is_unscoped_text_input \<and> is_web_url \<and> is_codex_app_shell)
           (invalid ''URL input into the Codex app shell requires an explicit semantic browser address element or a browser session''))"

section \<open>Dispatch\<close>

definition invalidate_local_session :: "RuntimeSession \<Rightarrow> RuntimeSession option" where
  "invalidate_local_session s =
     map_option (\<lambda>s'. s'\<lparr>rs_evidence := (rs_evidence s')\<lparr>cs_live_fence := None,
         cs_post_action_live_sequence_fence := None, cs_observation_transition_live_sequence_fence := None\<rparr>\<rparr>)
       (core_invalidate (s\<lparr>rs_active := False, rs_upstream_active := False, rs_explicit_pixels := False,
          rs_linux_pixels := False, rs_last_upstream_session_refresh := None, rs_target := None\<rparr>))"

definition finish_typed_dispatch_result ::
  "action_env \<Rightarrow> string \<Rightarrow> (DriverError + ToolResult) ComputerUseResult \<Rightarrow> ToolResult core_step" where
  "finish_typed_dispatch_result env context result s =
     (case result of
        Inr (Inr value) \<Rightarrow> map_option (Pair (Inr value)) (core_invalidate s)
      | Inr (Inl (ActionInterrupted ActionUnknown reason)) \<Rightarrow>
          map_option (Pair (Inl (CompletionUnknown, context @ '': '' @ reason))) (invalidate_local_session s)
      | Inr (Inl (ActionInterrupted ActionNotStarted reason)) \<Rightarrow>
          Some (Inl (InputFailed, context @ '': '' @ reason), s)
      | Inr (Inl (ActionInterrupted ActionCompleted reason)) \<Rightarrow>
          map_option (Pair (Inl (InputFailed, context @ '': '' @ reason))) (core_invalidate s)
      | Inr (Inl error) \<Rightarrow>
          (let message = context @ '': '' @ ae_error_text env error in
           case error of
             DriverTool _ _ \<Rightarrow> map_option (Pair (Inl (driver_error_code error, message))) (core_invalidate s)
           | Configuration \<Rightarrow> Some (Inl (driver_error_code error, message), s)
           | InvalidArguments \<Rightarrow> Some (Inl (driver_error_code error, message), s)
           | Shutdown \<Rightarrow> Some (Inl (driver_error_code error, message), s)
           | RuntimeAlreadyExists \<Rightarrow> Some (Inl (driver_error_code error, message), s)
           | _ \<Rightarrow> map_option (Pair (Inl (CompletionUnknown, message))) (invalidate_local_session s))
      | Inl (_, message) \<Rightarrow> map_option (Pair (Inl (CompletionUnknown, message))) (invalidate_local_session s))"

definition complete_core_action :: "ComputerUseToolResult \<Rightarrow> ComputerUseToolResult core_step" where
  "complete_core_action r s =
     Some (Inr r, s\<lparr>rs_evidence := (rs_evidence s)\<lparr>cs_post_action_live_sequence_fence := cs_live_fence (rs_evidence s)\<rparr>\<rparr>)"

definition dispatch_command :: "action_env \<Rightarrow> DriverActionCommand \<Rightarrow> ComputerUseToolResult core_step" where
  "dispatch_command env c =
     (let context = ''execute CUA '' @ dc_tool c in
      core_then (\<lambda>s. observed_attempt (finish_typed_dispatch_result env context (ae_call env c))
          (s\<lparr>rs_calls := rs_calls s @ [c]\<rparr>)) (\<lambda>result.
      core_then (observed_attempt (core_return (ensure_tool_ok context result))) (\<lambda>_.
      core_then (observed_attempt (core_return (native_tool_result (ae_base64 env) (ae_json env) result))) (\<lambda>result.
        complete_core_action result))))"

text \<open>\<open>{:?}\<close> of a string of lower case letters, digits, underscores and dots.\<close>

definition quoted :: "string \<Rightarrow> string" where
  "quoted s = [CHR 0x22] @ s @ [CHR 0x22]"

definition input_target_fence :: "WindowTarget \<Rightarrow> bool \<Rightarrow> json" where
  "input_target_fence t foreground_verified =
     JObj [(''process_id'', json_u32 (wt_pid t)), (''window_handle'', json_u64 (wt_window_id t)),
       (''exact_window'', JBool True), (''foreground_required'', JBool True),
       (''foreground_verified'', JBool foreground_verified)]"

definition explicit_input_backend_rejection :: "string \<Rightarrow> string" where
  "explicit_input_backend_rejection backend_id =
     ''input backend '' @ quoted backend_id @ '' is not supported on this platform''"

definition input_backend_rejection_result :: "string \<Rightarrow> string \<Rightarrow> WindowTarget \<Rightarrow> ComputerUseToolResult" where
  "input_backend_rejection_result backend_id reason t =
     \<lparr>ct_status = Rejected,
      ct_value = JObj [(''success'', JBool False), (''route'', JStr ''input_backend_selection''),
        (''delivery'', JObj [(''mode'', JStr ''foreground''), (''backend_id'', JStr backend_id),
           (''api_accepted'', JBool False), (''consumer_effect_confirmed'', JBool False),
           (''completion_known'', JBool False), (''verification_required'', JBool True),
           (''retry_safe'', JBool False), (''fallback_attempted'', JBool False),
           (''rejection_reason'', JStr reason), (''target_fence'', input_target_fence t (wt_is_foreground t))]),
        (''effect'', JStr ''not_attempted'')],
      ct_text = ''Rejected input backend '' @ quoted backend_id @ '' without attempting input: '' @ reason,
      ct_images = [], ct_degraded = True\<rparr>"

section \<open>perform\_action\<close>

text \<open>The fences before the translation: they end with the observation and the exact window.\<close>

definition require_current_observation :: "action_env \<Rightarrow> ComputerUseAction \<Rightarrow> ComputerUseObservation core_step" where
  "require_current_observation env a =
     core_then (\<lambda>s. core_return (case cs_observation (rs_evidence s) of
         None \<Rightarrow> Inl (StaleObservation, ''take a screenshot before performing Computer Use actions'')
       | Some observation \<Rightarrow> Inr observation) s) (\<lambda>observation.
     core_then (core_return (guard (ca_observation_id a \<noteq> Some (ob_observation_id observation))
         (StaleObservation, ''action observation_id does not match the latest screenshot''))) (\<lambda>_.
     core_then (\<lambda>s. if rs_upstream_active s
         then require_current_upstream_session_for_evidence (ae_clock env 1) s else Some (Inr (), s)) (\<lambda>_.
       core_return (Inr observation))))"

definition admit_action ::
  "action_env \<Rightarrow> ComputerUseAction \<Rightarrow> (ComputerUseObservation \<times> WindowTarget) core_step" where
  "admit_action env a =
     core_then (ensure_active env) (\<lambda>_.
     core_then (core_return (validate_action a)) (\<lambda>_.
     core_then (core_return (validate_window_action_coordinates a)) (\<lambda>_.
     core_then (require_current_observation env a) (\<lambda>observation.
     core_then (require_observed_target_available env) (\<lambda>target.
     core_then (core_return (guard (wt_window_id target \<noteq> ob_window_handle observation
           \<or> wt_pid target \<noteq> ob_process_id observation)
         (StaleObservation, ''the exact target window changed after the screenshot''))) (\<lambda>_.
     core_then (core_return (reject_ambiguous_embedded_browser_navigation a target)) (\<lambda>_.
     core_then (require_observed_input_available env 0) (\<lambda>_.
     core_then (core_return (validate_action_observation a observation)) (\<lambda>_.
       core_return (Inr (observation, target)))))))))))"

text \<open>Semantic resolution and window coordinates, as far as the observation needs them.\<close>

definition visual_fallback :: "ComputerUseObservation \<Rightarrow> bool" where
  "visual_fallback observation \<longleftrightarrow>
     json_index (ob_capture_provenance observation) ''accessibility_available'' = JBool False"

definition local_action ::
  "bool \<Rightarrow> ComputerUseAction \<Rightarrow> ComputerUseObservation \<Rightarrow> ComputerUseAction ComputerUseResult" where
  "local_action local_coordinates sdk_action observation =
     and_then (if local_coordinates then action_for_window_visual_fallback sdk_action observation else Inr sdk_action)
       (\<lambda>effective. Inr (unwrap_or (held_coordinate_click_as_drag effective) effective))"

definition effective_action ::
  "target_os \<Rightarrow> ComputerUseAction \<Rightarrow> ComputerUseObservation \<Rightarrow> ComputerUseSession
   \<Rightarrow> (ComputerUseAction \<times> bool) ComputerUseResult" where
  "effective_action os a observation s =
     and_then (if visual_fallback observation then Inr None else resolve_sdk_element_action a observation s) (\<lambda>resolved.
       let sdk_action = unwrap_or resolved a;
           local_coordinates = (visual_fallback observation \<or> action_uses_local_window_coordinates os sdk_action)
       in and_then (local_action local_coordinates sdk_action observation)
            (\<lambda>effective. Inr (effective, local_coordinates)))"

definition perform_action :: "action_env \<Rightarrow> ComputerUseAction \<Rightarrow> ComputerUseToolResult core_step" where
  "perform_action env a =
     core_then (admit_action env a) (\<lambda>(observation, target).
     case ca_input_backend_id a of
       Some backend_id \<Rightarrow> complete_core_action
         (input_backend_rejection_result backend_id (explicit_input_backend_rejection backend_id) target)
     | None \<Rightarrow>
       core_then (require_observed_input_available env 1) (\<lambda>_.
       core_then (\<lambda>s. core_return (effective_action (ae_os env) a observation (rs_evidence s)) s) (\<lambda>(effective, local_coordinates).
       core_then (require_current_upstream_session_for_evidence (ae_clock env 3)) (\<lambda>_.
       core_then (\<lambda>s. core_return (sdk_action_command (ae_os env) effective (rs_session_id s) target local_coordinates) s)
         (dispatch_command env)))))"

section \<open>Steps\<close>

lemma core_then_iff:
  "core_then m f s = Some (r, s') \<longleftrightarrow>
     (\<exists>e. m s = Some (Inl e, s') \<and> r = Inl e) \<or> (\<exists>v s1. m s = Some (Inr v, s1) \<and> f v s1 = Some (r, s'))"
  by (auto simp: core_then_def split: option.splits sum.splits prod.splits)

lemma core_then_Inr:
  "core_then m f s = Some (Inr w, s') \<longleftrightarrow> (\<exists>v s1. m s = Some (Inr v, s1) \<and> f v s1 = Some (Inr w, s'))"
  by (auto simp: core_then_iff)

lemma core_return_iff [simp]: "core_return r s = Some (r', s') \<longleftrightarrow> r = r' \<and> s = s'"
  by (auto simp: core_return_def)

lemma observed_attempt_Inr: "observed_attempt m s = Some (Inr v, s') \<longleftrightarrow> m s = Some (Inr v, s')"
  by (auto simp: observed_attempt_def core_finish_observation_sensitive_attempt_def Let_def
      split: option.splits prod.splits sum.splits if_splits)

text \<open>A condition on the session that a step keeps, whatever its outcome.\<close>

definition keeps :: "(RuntimeSession \<Rightarrow> bool) \<Rightarrow> 'a core_step \<Rightarrow> bool" where
  "keeps P m \<longleftrightarrow> (\<forall>s r s'. P s \<longrightarrow> m s = Some (r, s') \<longrightarrow> P s')"

lemma keepsD: "keeps P m \<Longrightarrow> P s \<Longrightarrow> m s = Some (r, s') \<Longrightarrow> P s'"
  by (auto simp: keeps_def)

lemma keeps_return: "keeps P (core_return r)" "keeps P (\<lambda>s. core_return (g s) s)"
  by (simp_all add: keeps_def)

lemma keeps_then: "keeps P m \<Longrightarrow> (\<And>v. keeps P (f v)) \<Longrightarrow> keeps P (core_then m f)"
  unfolding keeps_def core_then_iff by metis

text \<open>The contract of a condition that outlives the loss of the evidence and of the window.\<close>

locale lasting_condition =
  fixes P :: "RuntimeSession \<Rightarrow> bool"
  assumes lasts_invalidate: "P s \<Longrightarrow> core_invalidate s = Some s' \<Longrightarrow> P s'"
    and lasts_target: "P s \<Longrightarrow> P (s\<lparr>rs_target := None\<rparr>)"
begin

lemma lasts_finish: "keeps P (core_finish_observation_sensitive_attempt r)"
  by (auto simp: keeps_def core_finish_observation_sensitive_attempt_def Let_def
      intro: lasts_invalidate lasts_target split: sum.splits prod.splits if_splits)

lemma lasts_observed: "keeps P m \<Longrightarrow> keeps P (observed_attempt m)"
  using lasts_finish unfolding keeps_def observed_attempt_def
  by (fastforce split: option.splits prod.splits)

lemma lasts_upstream: "keeps P (require_current_upstream_session_for_evidence w)"
  by (auto simp: keeps_def require_current_upstream_session_for_evidence_def intro: lasts_invalidate split: if_splits)

end

text \<open>A step that sends nothing to the driver.\<close>

definition quiet :: "'a core_step \<Rightarrow> bool" where
  "quiet m \<longleftrightarrow> (\<forall>calls. keeps (\<lambda>s. rs_calls s = calls) m)"

lemma quiet_iff: "quiet m \<longleftrightarrow> (\<forall>s r s'. m s = Some (r, s') \<longrightarrow> rs_calls s' = rs_calls s)"
  by (auto simp: quiet_def keeps_def)

lemma quietD: "quiet m \<Longrightarrow> m s = Some (r, s') \<Longrightarrow> rs_calls s' = rs_calls s"
  by (simp add: quiet_iff)

lemma quiet_return [intro]: "quiet (core_return r)" "quiet (\<lambda>s. core_return (g s) s)"
  by (simp_all add: quiet_def keeps_return)

lemma quiet_then [intro]: "quiet m \<Longrightarrow> (\<And>v. quiet (f v)) \<Longrightarrow> quiet (core_then m f)"
  by (simp add: quiet_def keeps_then)

lemma core_invalidate_calls: "core_invalidate s = Some s' \<Longrightarrow> rs_calls s' = rs_calls s"
  by (auto simp: core_invalidate_def)

interpretation calls: lasting_condition "\<lambda>s. rs_calls s = calls" for calls
  by unfold_locales (auto dest: core_invalidate_calls)

lemma quiet_observed [intro]: "quiet m \<Longrightarrow> quiet (observed_attempt m)"
  by (simp add: quiet_def calls.lasts_observed)

lemma quiet_upstream [intro]: "quiet (require_current_upstream_session_for_evidence w)"
  by (simp add: quiet_def calls.lasts_upstream)

lemma quiet_active [intro]: "quiet (ensure_active env)"
  by (auto simp: quiet_iff ensure_active_def Let_def case_prod_beta)

lemma quiet_policy [intro]: "quiet (session_target_policy w t)"
  by (auto simp: quiet_iff session_target_policy_def case_prod_beta)

lemma quiet_resolve [intro]: "quiet (resolve_target env)"
proof -
  have "quiet (core_then (session_target_policy (ae_clock env 2) t) (\<lambda>_. core_return (Inr t)))" for t
    by (intro quiet_then quiet_policy quiet_return)
  then show ?thesis unfolding quiet_iff [of "resolve_target env"] resolve_target_def
    by (auto simp: quiet_iff split: if_splits option.splits sum.splits list.splits)
qed

lemma quiet_revalidate [intro]: "quiet (revalidate_target env)"
  unfolding revalidate_target_def
  by (rule quiet_then [OF quiet_resolve]) (auto simp: quiet_iff split: option.splits if_splits)

lemma quiet_target [intro]: "quiet (require_observed_target_available env)"
  unfolding require_observed_target_available_def revalidate_observed_target_def by blast

lemma quiet_input [intro]: "quiet (require_observed_input_available env n)"
  unfolding require_observed_input_available_def by (intro quiet_then quiet_return quiet_observed)

lemma quiet_if: "quiet m \<Longrightarrow> quiet (\<lambda>s. if p s then m s else Some (Inr v, s))"
  by (auto simp: quiet_iff split: if_splits)

lemma quiet_admit [intro]: "quiet (admit_action env a)"
  unfolding admit_action_def require_current_observation_def
  by (intro quiet_then quiet_return quiet_active quiet_target quiet_input quiet_if quiet_upstream)

lemma quiet_complete [intro]: "quiet (complete_core_action r)"
  by (auto simp: quiet_iff complete_core_action_def)

lemma quiet_finish [intro]: "quiet (finish_typed_dispatch_result env context result)"
  by (auto simp: quiet_iff finish_typed_dispatch_result_def invalidate_local_session_def Let_def
      dest!: core_invalidate_calls split: sum.splits prod.splits DriverError.splits ActionCompletion.splits)

lemma dispatch_calls:
  assumes "dispatch_command env c s = Some (r, s')"
  shows "rs_calls s' = rs_calls s @ [c]"
proof -
  define s0 where "s0 = s\<lparr>rs_calls := rs_calls s @ [c]\<rparr>"
  define rest where "rest = (\<lambda>result.
      core_then (observed_attempt (core_return (ensure_tool_ok (''execute CUA '' @ dc_tool c) result))) (\<lambda>_.
      core_then (observed_attempt (core_return (native_tool_result (ae_base64 env) (ae_json env) result))) (\<lambda>result.
        complete_core_action result)))"
  have "quiet (core_then (observed_attempt (finish_typed_dispatch_result env (''execute CUA '' @ dc_tool c) (ae_call env c))) rest)"
    unfolding rest_def by (intro quiet_then quiet_observed quiet_finish quiet_return quiet_complete)
  moreover have "core_then (observed_attempt (finish_typed_dispatch_result env (''execute CUA '' @ dc_tool c) (ae_call env c))) rest s0 = Some (r, s')"
    using assms unfolding dispatch_command_def Let_def rest_def s0_def by (simp add: core_then_def)
  ultimately have "rs_calls s' = rs_calls s0" by (rule quietD)
  then show ?thesis by (simp add: s0_def)
qed

section \<open>What the fences establish\<close>

text \<open>A fence that passes leaves the session as it was, but for the shared authorization fences.\<close>

lemma ensure_active_passed:
  "ensure_active env s = Some (Inr (), s') \<Longrightarrow> rs_active s \<and> (\<exists>f. s' = s\<lparr>rs_fences := f\<rparr>)"
  by (auto simp: ensure_active_def Let_def case_prod_beta and_then_Inr_iff split: if_splits)

lemma upstream_passed:
  "require_current_upstream_session_for_evidence w s = Some (Inr (), s') \<Longrightarrow>
     rs_upstream_active s \<and> \<not> upstream_session_refresh_due w s \<and> s' = s"
  by (auto simp: require_current_upstream_session_for_evidence_def split: if_splits)

lemma resolve_target_passed:
  assumes "resolve_target env s = Some (Inr t, s')"
  shows "(\<exists>f. s' = s\<lparr>rs_fences := f\<rparr>) \<and>
    (ae_os env = Linux \<and> rs_linux_pixels s \<or> scope_matches (rs_scope s) t
       \<and> is_ok (fst (validate_target_policy_with_authorization (ae_clock env 2) t (rs_session_id s)
            (rs_native_task_authorization s) (rs_fences s))))"
proof (cases "ae_os env = Linux \<and> rs_linux_pixels s")
  case True
  then have "s' = s\<lparr>rs_fences := rs_fences s\<rparr>" using assms by (simp add: resolve_target_def)
  with True show ?thesis by blast
next
  case False
  then obtain rows where rows: "filter (scope_matches (rs_scope s)) rows = [t]"
    and step: "core_then (session_target_policy (ae_clock env 2) t) (\<lambda>_. core_return (Inr t)) s = Some (Inr t, s')"
    using assms by (auto simp: resolve_target_def core_then_Inr split: option.splits sum.splits list.splits if_splits)
  have "t \<in> set (filter (scope_matches (rs_scope s)) rows)" by (simp add: rows)
  then have "scope_matches (rs_scope s) t" by simp
  moreover from step have "session_target_policy (ae_clock env 2) t s = Some (Inr (), s')"
    by (auto simp: core_then_Inr)
  ultimately show ?thesis by (auto simp: session_target_policy_def case_prod_beta)
qed

lemma revalidate_target_passed:
  assumes "revalidate_target env s = Some (Inr t, s')"
  shows "(\<exists>f. s' = s\<lparr>rs_fences := f\<rparr>) \<and>
    (ae_os env = Linux \<and> rs_linux_pixels s \<or> scope_matches (rs_scope s) t
       \<and> is_ok (fst (validate_target_policy_with_authorization (ae_clock env 2) t (rs_session_id s)
            (rs_native_task_authorization s) (rs_fences s))))
    \<and> (\<exists>original. rs_target s = Some original \<and> wt_pid t = wt_pid original \<and> wt_window_id t = wt_window_id original)"
proof -
  from assms obtain s1 where s1: "resolve_target env s = Some (Inr t, s1)" and "s' = s1"
    and "\<exists>original. rs_target s1 = Some original \<and> wt_pid t = wt_pid original \<and> wt_window_id t = wt_window_id original"
    by (auto simp: revalidate_target_def core_then_Inr split: option.splits if_splits)
  then show ?thesis using resolve_target_passed [OF s1] by auto
qed

text \<open>The window an action may reach.\<close>

definition admitted_target :: "action_env \<Rightarrow> RuntimeSession \<Rightarrow> WindowTarget \<Rightarrow> bool" where
  "admitted_target env s t \<longleftrightarrow>
     (\<exists>original. rs_target s = Some original \<and> wt_pid t = wt_pid original \<and> wt_window_id t = wt_window_id original)
     \<and> scope_matches (rs_scope s) t
     \<and> (\<exists>fences. is_ok (fst (validate_target_policy_with_authorization (ae_clock env 2) t (rs_session_id s)
          (rs_native_task_authorization s) fences)))
     \<and> \<not> wt_is_minimized t \<and> wt_is_on_screen t"

lemma target_available_passed:
  assumes "require_observed_target_available env s = Some (Inr t, s')"
    and "\<not> (ae_os env = Linux \<and> rs_linux_pixels s)"
  shows "(\<exists>f. s' = s\<lparr>rs_fences := f\<rparr>) \<and> admitted_target env s t"
proof -
  from assms(1) have rev: "revalidate_target env s = Some (Inr t, s')"
    and "ensure_target_available_for_action t = Inr ()"
    by (auto simp: require_observed_target_available_def revalidate_observed_target_def core_then_Inr
        observed_attempt_Inr)
  then have "\<not> wt_is_minimized t \<and> wt_is_on_screen t"
    by (auto simp: ensure_target_available_for_action_def split: if_splits)
  then show ?thesis using revalidate_target_passed [OF rev] assms(2)
    unfolding admitted_target_def by blast
qed

lemma input_passed:
  "require_observed_input_available env n s = Some (Inr (), s') \<Longrightarrow>
     s' = s \<and> ae_input_available env n = Inr () \<and> \<not> (ae_os env = Linux \<and> rs_explicit_pixels s)"
  by (auto simp: require_observed_input_available_def core_then_Inr observed_attempt_Inr)

text \<open>A pixels-only session of Linux has both its handle and its route.\<close>

definition pixels_wf :: "RuntimeSession \<Rightarrow> bool" where
  "pixels_wf s \<longleftrightarrow> (rs_linux_pixels s \<longrightarrow> rs_explicit_pixels s)"

definition action_admitted ::
  "action_env \<Rightarrow> ComputerUseAction \<Rightarrow> RuntimeSession \<Rightarrow> ComputerUseObservation \<Rightarrow> WindowTarget \<Rightarrow> bool" where
  "action_admitted env a s observation t \<longleftrightarrow>
     rs_active s \<and> validate_action a = Inr () \<and> validate_window_action_coordinates a = Inr ()
     \<and> cs_observation (rs_evidence s) = Some observation
     \<and> ca_observation_id a = Some (ob_observation_id observation)
     \<and> wt_window_id t = ob_window_handle observation \<and> wt_pid t = ob_process_id observation
     \<and> admitted_target env s t \<and> ae_input_available env 0 = Inr ()"

lemma upstream_if_passed:
  "(if rs_upstream_active s then require_current_upstream_session_for_evidence w s else Some (Inr (), s)) = Some (Inr (), s')
   \<Longrightarrow> s' = s"
  by (auto dest: upstream_passed split: if_splits)

lemma current_observation_passed:
  assumes "require_current_observation env a s = Some (Inr observation, s')"
  shows "s' = s \<and> cs_observation (rs_evidence s) = Some observation
    \<and> ca_observation_id a = Some (ob_observation_id observation)"
  using assms unfolding require_current_observation_def core_then_Inr core_return_iff
  by (auto dest: upstream_if_passed split: option.splits)

lemma admit_action_passed:
  assumes "admit_action env a s = Some (Inr (observation, t), s')" and wf: "pixels_wf s"
  shows "(\<exists>f. s' = s\<lparr>rs_fences := f\<rparr>) \<and> action_admitted env a s observation t"
proof -
  from assms(1) obtain s1 s2 s3 s4 where
    active: "ensure_active env s = Some (Inr (), s1)"
    and valid: "validate_action a = Inr ()" "validate_window_action_coordinates a = Inr ()"
    and current: "require_current_observation env a s1 = Some (Inr observation, s2)"
    and target: "require_observed_target_available env s2 = Some (Inr t, s3)"
    and ids: "wt_window_id t = ob_window_handle observation" "wt_pid t = ob_process_id observation"
    and input: "require_observed_input_available env 0 s3 = Some (Inr (), s4)" and "s' = s4"
    unfolding admit_action_def core_then_Inr core_return_iff by auto
  have obs: "cs_observation (rs_evidence s1) = Some observation" "ca_observation_id a = Some (ob_observation_id observation)"
    and s2: "s2 = s1" using current_observation_passed [OF current] by blast+
  obtain f where s1: "s1 = s\<lparr>rs_fences := f\<rparr>" and "rs_active s" using ensure_active_passed [OF active] by blast
  have s4: "s4 = s3" and gate: "ae_input_available env 0 = Inr ()" "\<not> (ae_os env = Linux \<and> rs_explicit_pixels s3)"
    using input_passed [OF input] by blast+
  have fields: "rs_explicit_pixels s3 = rs_explicit_pixels s2 \<and> rs_linux_pixels s2 = rs_linux_pixels s"
    using target s1 s2
    by (auto simp: require_observed_target_available_def revalidate_observed_target_def core_then_Inr
        observed_attempt_Inr dest!: revalidate_target_passed)
  have "\<not> (ae_os env = Linux \<and> rs_linux_pixels s2)"
    using fields gate(2) wf s1 s2 by (auto simp: pixels_wf_def)
  from target_available_passed [OF target this] obtain f' where s3: "s3 = s2\<lparr>rs_fences := f'\<rparr>"
    and "admitted_target env s2 t" by blast
  then have "admitted_target env s t" by (simp add: s1 s2 admitted_target_def)
  moreover have "s' = s\<lparr>rs_fences := f'\<rparr>" using \<open>s' = s4\<close> s4 s3 s2 s1 by simp
  ultimately show ?thesis
    using valid obs ids gate(1) \<open>rs_active s\<close> s1 by (auto simp: action_admitted_def)
qed

section \<open>What a command refers to\<close>

text \<open>An element token was given by the client, or is the only one of its row in this observation.\<close>

definition element_known :: "ComputerUseAction \<Rightarrow> ComputerUseObservation \<Rightarrow> ComputerUseSession \<Rightarrow> string \<Rightarrow> bool" where
  "element_known a observation evidence token \<longleftrightarrow>
     ca_element_token a = Some token
     \<or> (\<exists>index tokens. ca_element_token a = None \<and> ca_element_index a = Some index
          \<and> cs_sdk_element_tokens evidence = Some tokens \<and> tokens_of_observation observation tokens
          \<and> map_of (et_tokens tokens) index = Some (Some token))"

lemma held_click_token: "ca_element_token (unwrap_or (held_coordinate_click_as_drag a) a) = ca_element_token a"
  by (auto simp: unwrap_or_def held_coordinate_click_as_drag_def split: option.splits if_splits)

lemma visual_fallback_token:
  "action_for_window_visual_fallback a observation = Inr a' \<Longrightarrow> ca_element_token a' = ca_element_token a"
  by (auto simp: action_for_window_visual_fallback_def and_then_Inr_iff split: option.splits)

lemma effective_action_token:
  assumes "effective_action os a observation evidence = Inr (effective, local_coordinates)"
    and "ca_element_token effective = Some token"
  shows "element_known a observation evidence token"
proof -
  from assms(1) obtain resolved where
    resolved: "(if visual_fallback observation then Inr None else resolve_sdk_element_action a observation evidence) = Inr resolved"
    and "local_action local_coordinates (unwrap_or resolved a) observation = Inr effective"
    by (auto simp: effective_action_def Let_def and_then_Inr_iff)
  then have "ca_element_token effective = ca_element_token (unwrap_or resolved a)"
    by (auto simp: local_action_def and_then_Inr_iff held_click_token visual_fallback_token split: if_splits)
  with assms(2) have token: "ca_element_token (unwrap_or resolved a) = Some token" by simp
  show ?thesis
  proof (cases resolved)
    case None
    then show ?thesis using token by (simp add: unwrap_or_def element_known_def)
  next
    case (Some a')
    then have r: "resolve_sdk_element_action a observation evidence = Inr (Some a')"
      using resolved by (simp split: if_splits)
    have "ca_element_token a = None"
      using r by (auto simp: resolve_sdk_element_action_def split: option.splits)
    then show ?thesis using resolve_sdk_element_action_Some [OF r] token Some
      by (auto simp: element_known_def unwrap_or_def)
  qed
qed

section \<open>Spent evidence\<close>

text \<open>The observation is gone and the epoch of the evidence has moved past \<open>e\<close>.\<close>

definition spent :: "ActionEvidenceEpoch \<Rightarrow> RuntimeSession \<Rightarrow> bool" where
  "spent e s \<longleftrightarrow> cs_observation (rs_evidence s) = None \<and> e < cs_action_evidence_epoch (rs_evidence s)"

lemma core_invalidate_spent:
  "core_invalidate s = Some s' \<Longrightarrow> e \<le> cs_action_evidence_epoch (rs_evidence s) \<Longrightarrow> spent e s'"
  by (auto simp: core_invalidate_def core_invalidate_action_observations_def spent_def bind_eq_Some_conv
      dest: advanced_greater)

interpretation spent: lasting_condition "spent e" for e
  by unfold_locales (auto simp: spent_def dest: core_invalidate_spent [unfolded spent_def])

fun pre_dispatch :: "(DriverError + ToolResult) ComputerUseResult \<Rightarrow> bool" where
  "pre_dispatch (Inr (Inl (ActionInterrupted ActionNotStarted reason))) = True"
| "pre_dispatch (Inr (Inl Configuration)) = True"
| "pre_dispatch (Inr (Inl InvalidArguments)) = True"
| "pre_dispatch (Inr (Inl Shutdown)) = True"
| "pre_dispatch (Inr (Inl RuntimeAlreadyExists)) = True"
| "pre_dispatch _ = False"

lemma invalidate_local_spent:
  "invalidate_local_session s = Some s' \<Longrightarrow> spent (cs_action_evidence_epoch (rs_evidence s)) s'"
  by (auto simp: invalidate_local_session_def spent_def dest: core_invalidate_spent [unfolded spent_def])

lemma finish_typed_dispatch_spent:
  assumes "finish_typed_dispatch_result env context result s = Some (r, s')" "\<not> pre_dispatch result"
  shows "spent (cs_action_evidence_epoch (rs_evidence s)) s'"
  using assms
  by (auto simp: finish_typed_dispatch_result_def Let_def
      intro: core_invalidate_spent invalidate_local_spent
      split: sum.splits prod.splits DriverError.splits ActionCompletion.splits)

lemma keeps_complete: "keeps (spent e) (complete_core_action r)"
  by (auto simp: keeps_def complete_core_action_def spent_def)

lemma dispatch_spent:
  assumes "dispatch_command env c s = Some (r, s')" "\<not> pre_dispatch (ae_call env c)"
  shows "spent (cs_action_evidence_epoch (rs_evidence s)) s'"
proof -
  let ?P = "spent (cs_action_evidence_epoch (rs_evidence s))" and ?label = "''execute CUA '' @ dc_tool c"
  define rest where "rest = (\<lambda>result.
      core_then (observed_attempt (core_return (ensure_tool_ok ?label result))) (\<lambda>_.
      core_then (observed_attempt (core_return (native_tool_result (ae_base64 env) (ae_json env) result))) (\<lambda>result.
        complete_core_action result)))"
  have rest: "keeps ?P (rest result)" for result
    unfolding rest_def by (intro keeps_then spent.lasts_observed keeps_return keeps_complete)
  from assms(1) obtain r1 s1 where first: "observed_attempt (finish_typed_dispatch_result env ?label (ae_call env c))
        (s\<lparr>rs_calls := rs_calls s @ [c]\<rparr>) = Some (r1, s1)"
    and "s' = s1 \<or> (\<exists>v. r1 = Inr v \<and> rest v s1 = Some (r, s'))"
    unfolding dispatch_command_def Let_def core_then_iff rest_def by blast
  moreover from first obtain r0 s0 where
    "finish_typed_dispatch_result env ?label (ae_call env c) (s\<lparr>rs_calls := rs_calls s @ [c]\<rparr>) = Some (r0, s0)"
    and finish: "core_finish_observation_sensitive_attempt r0 s0 = Some (r1, s1)"
    by (auto simp: observed_attempt_def split: option.splits prod.splits)
  then have "?P s0" using finish_typed_dispatch_spent assms(2) by fastforce
  then have "?P s1" using keepsD [OF spent.lasts_finish _ finish] by blast
  ultimately show ?thesis using keepsD [OF rest] by blast
qed

section \<open>Properties\<close>

text \<open>
  The points of an action that is made local to the window, and of the command made from it. In a
  visual fallback the points sent are those of the client scaled from the screenshot.
\<close>

lemma list_all2_image: "list_all2 P xs ys \<Longrightarrow> y \<in> set ys \<Longrightarrow> \<exists>x \<in> set xs. P x y"
  by (induction rule: list_all2_induct) auto

text \<open>A held click becomes a drag from its point to its point.\<close>

lemma held_coordinate_clickE:
  obtains "unwrap_or (held_coordinate_click_as_drag a) a = a"
  | x y held where "unwrap_or (held_coordinate_click_as_drag a) a = held" "ca_action a = ''click''" "ca_action held = ''drag''"
      "action_points held = [\<lparr>pt_x = x, pt_y = y\<rparr>, \<lparr>pt_x = x, pt_y = y\<rparr>]" "\<lparr>pt_x = x, pt_y = y\<rparr> \<in> set (action_points a)"
      "ca_x held = None" "ca_y held = None"
proof (cases "held_coordinate_click_as_drag a")
  case None
  then show thesis using that(1) by (simp add: unwrap_or_def)
next
  case (Some held)
  then obtain x y where a: "ca_x a = Some x" "ca_y a = Some y" "ca_action a = ''click''"
    and held: "held = a\<lparr>ca_action := ''drag'', ca_x := None, ca_y := None,
      ca_path := replicate 2 \<lparr>pt_x = x, pt_y = y\<rparr>, ca_steps := Some 20\<rparr>"
    by (auto simp: held_coordinate_click_as_drag_def split: option.splits if_splits)
  show thesis
    using that(2) [of held x y] Some a(3)
    by (simp add: unwrap_or_def held action_points_def a(1,2) numeral_2_eq_2)
qed

lemma held_click_points:
  "set (action_points (unwrap_or (held_coordinate_click_as_drag a) a)) \<subseteq> set (action_points a)"
  "action_points (unwrap_or (held_coordinate_click_as_drag a) a) = [] \<longleftrightarrow> action_points a = []"
  "(ca_x a = None) = (ca_y a = None) \<Longrightarrow> (ca_x (unwrap_or (held_coordinate_click_as_drag a) a) = None)
     = (ca_y (unwrap_or (held_coordinate_click_as_drag a) a) = None)"
  "ca_action (unwrap_or (held_coordinate_click_as_drag a) a) = ''move'' \<longleftrightarrow> ca_action a = ''move''"
  "ca_action (unwrap_or (held_coordinate_click_as_drag a) a) = ''drag'' \<Longrightarrow>
     action_points (unwrap_or (held_coordinate_click_as_drag a) a) = [] \<Longrightarrow> ca_action a = ''drag''"
  by (cases rule: held_coordinate_clickE [of a]; force)+

lemma visual_fallback_action:
  assumes "action_for_window_visual_fallback a observation = Inr a'"
  shows "ca_action a' = ca_action a" "(ca_x a' = None) = (ca_x a = None)" "(ca_y a' = None) = (ca_y a = None)"
    "ca_action a = ''drag'' \<Longrightarrow> ca_path a = [] \<Longrightarrow> ca_x a \<noteq> None"
  using assms by (auto simp: action_for_window_visual_fallback_def and_then_Inr_iff split: option.splits)

lemma local_action_points:
  assumes "local_action local_coordinates a observation = Inr effective"
  shows "local_coordinates \<Longrightarrow> list_all (inside_screenshot observation) (action_points a)"
    and "p \<in> set (action_points effective) \<Longrightarrow>
      (if local_coordinates then \<exists>q \<in> set (action_points a). map_point observation q = Inr p else p \<in> set (action_points a))"
    and "action_points effective = [] \<longleftrightarrow> action_points a = []"
    and "(ca_x a = None) = (ca_y a = None) \<Longrightarrow> (ca_x effective = None) = (ca_y effective = None)"
    and "ca_action effective = ''move'' \<longleftrightarrow> ca_action a = ''move''"
    and "ca_action effective = ''drag'' \<Longrightarrow> action_points effective = [] \<Longrightarrow> ca_action a = ''drag''"
    and "local_coordinates \<Longrightarrow> (ca_x a = None) = (ca_y a = None) \<Longrightarrow> ca_action a = ''drag'' \<Longrightarrow> action_points a \<noteq> []"
proof -
  from assms obtain e where e: "(if local_coordinates then action_for_window_visual_fallback a observation else Inr a) = Inr e"
    and effective: "effective = unwrap_or (held_coordinate_click_as_drag e) e"
    by (auto simp: local_action_def and_then_Inr_iff)
  note held = held_click_points [of e, folded effective]
  show "list_all (inside_screenshot observation) (action_points a)" if local_coordinates
    using visual_fallback_points [of a observation e] e that map_point_inside
    by (fastforce simp: list_all2_conv_all_nth list_all_length)
  have points: "if local_coordinates then list_all2 (\<lambda>p q. map_point observation p = Inr q) (action_points a) (action_points e)
      else e = a" using e visual_fallback_points [of a observation e] by auto
  show "if local_coordinates then \<exists>q \<in> set (action_points a). map_point observation q = Inr p else p \<in> set (action_points a)"
    if "p \<in> set (action_points effective)"
  proof -
    have "p \<in> set (action_points e)" using held(1) that by blast
    with points show ?thesis by (cases local_coordinates) (auto dest: list_all2_image)
  qed
  show "action_points effective = [] \<longleftrightarrow> action_points a = []"
    using points held(2) by (auto split: if_splits)
  have same: "ca_action e = ca_action a" "(ca_x e = None) = (ca_x a = None)" "(ca_y e = None) = (ca_y a = None)"
    using e visual_fallback_action [of a observation e] by (auto split: if_splits)
  show "(ca_x a = None) = (ca_y a = None) \<Longrightarrow> (ca_x effective = None) = (ca_y effective = None)"
    "ca_action effective = ''move'' \<longleftrightarrow> ca_action a = ''move''"
    "ca_action effective = ''drag'' \<Longrightarrow> action_points effective = [] \<Longrightarrow> ca_action a = ''drag''"
    using held(3-5) same by simp_all
  show "action_points a \<noteq> []" if "local_coordinates" "(ca_x a = None) = (ca_y a = None)" "ca_action a = ''drag''"
    using visual_fallback_action(4) [of a observation e] e that by (auto simp: action_points_def)
qed

lemma effective_action_points:
  assumes "effective_action os a observation evidence = Inr (effective, local_coordinates)"
  obtains e where "local_action local_coordinates e observation = Inr effective"
    "action_points e = action_points a" "ca_action e = ca_action a" "ca_x e = ca_x a" "ca_y e = ca_y a"
    "local_coordinates = (visual_fallback observation \<or> ca_input_backend_id a \<noteq> None \<or> os \<noteq> Macos \<and> ca_action a = ''move'')"
proof -
  from assms obtain resolved where
    resolved: "(if visual_fallback observation then Inr None else resolve_sdk_element_action a observation evidence) = Inr resolved"
    and e: "local_action local_coordinates (unwrap_or resolved a) observation = Inr effective"
    and local: "local_coordinates = (visual_fallback observation \<or> action_uses_local_window_coordinates os (unwrap_or resolved a))"
    by (auto simp: effective_action_def Let_def and_then_Inr_iff)
  from resolved have "unwrap_or resolved a = a \<or> (\<exists>token. unwrap_or resolved a = a\<lparr>ca_element_index := None, ca_element_token := Some token\<rparr>)"
    using resolve_sdk_element_action_Some [of a observation evidence]
    by (cases resolved) (auto simp: unwrap_or_def split: if_splits)
  then show thesis using that [OF e] local
    by (auto simp: action_uses_local_window_coordinates_def action_points_def)
qed

text \<open>A point of a command is one of the client's, scaled in a visual fallback.\<close>

definition point_of_client :: "ComputerUseAction \<Rightarrow> ComputerUseObservation \<Rightarrow> ComputerUsePoint \<Rightarrow> bool" where
  "point_of_client a observation p \<longleftrightarrow>
     (if visual_fallback observation then \<exists>q \<in> set (action_points a). map_point observation q = Inr p
      else p \<in> set (action_points a) \<or> ca_action a = ''drag'' \<and> action_points a = [] \<and> p = origin_point)"

text \<open>
  What a command refers to. An element is named by a known token and then without coordinates. The
  cursor moves inside the window. In a visual fallback, and for a cursor move outside macOS, every
  point of the client lies inside the screenshot. The points of every other command are the client's.
\<close>

definition command_refers ::
  "target_os \<Rightarrow> ComputerUseAction \<Rightarrow> ComputerUseObservation \<Rightarrow> ComputerUseSession \<Rightarrow> WindowTarget \<Rightarrow> DriverActionCommand \<Rightarrow> bool" where
  "command_refers os a observation evidence t c \<longleftrightarrow>
     (\<forall>token. map_of (dc_arguments c) ''element_token'' = Some (JStr token) \<longrightarrow>
        element_known a observation evidence token
        \<and> map_of (dc_arguments c) ''x'' = None \<and> map_of (dc_arguments c) ''y'' = None)
     \<and> (dc_tool c = ''move_cursor'' \<and> (os \<noteq> Macos \<or> visual_fallback observation) \<longrightarrow>
        (case wt_bounds t of (left, upper, width, height) \<Rightarrow>
           coordinate_between (dc_arguments c) ''x'' (sint left) (sint left + sint width)
           \<and> coordinate_between (dc_arguments c) ''y'' (sint upper) (sint upper + sint height)))
     \<and> (visual_fallback observation \<or> os \<noteq> Macos \<and> ca_action a = ''move'' \<longrightarrow>
        list_all (inside_screenshot observation) (action_points a))
     \<and> (dc_tool c \<noteq> ''move_cursor'' \<longrightarrow> (\<forall>p. carries_point c p \<longrightarrow> point_of_client a observation p))"

lemma effective_command_refers:
  assumes effective: "effective_action os a observation evidence = Inr (effective, local_coordinates)"
    and c: "sdk_action_command os effective session t local_coordinates = Inr c"
    and pair: "(ca_x a = None) = (ca_y a = None)" and backend: "ca_input_backend_id a = None"
  shows "command_refers os a observation evidence t c"
proof -
  from effective_action_points [OF effective] obtain e where e: "local_action local_coordinates e observation = Inr effective"
    and same: "action_points e = action_points a" "ca_action e = ca_action a" "ca_x e = ca_x a" "ca_y e = ca_y a"
    and route: "local_coordinates = (visual_fallback observation \<or> os \<noteq> Macos \<and> ca_action a = ''move'')"
    by (simp add: backend) metis
  note points = local_action_points [OF e, unfolded same]
  have "element_known a observation evidence token \<and> map_of (dc_arguments c) ''x'' = None \<and> map_of (dc_arguments c) ''y'' = None"
    if "map_of (dc_arguments c) ''element_token'' = Some (JStr token)" for token
    using sdk_token_exclusive [OF c] that effective_action_token [OF effective, of token]
    by (cases "ca_element_token effective") auto
  moreover have "os \<noteq> Macos \<or> local_coordinates" if "os \<noteq> Macos \<or> visual_fallback observation"
    using that route by blast
  moreover have "point_of_client a observation p" if tool: "dc_tool c \<noteq> ''move_cursor''" and p: "carries_point c p" for p
  proof -
    from c have "dc_tool c = ''move_cursor'' \<longleftrightarrow> ca_action effective = ''move''"
      by (cases rule: sdk_action_command_cases) (simp_all add: action_arguments_tool)
    then have local: "local_coordinates = visual_fallback observation" using route tool points(5) by blast
    from sdk_command_points [OF c tool points(4) [OF pair] p] show ?thesis
    proof
      assume "p \<in> set (action_points effective)"
      from points(2) [OF this] show ?thesis by (simp add: point_of_client_def local split: if_splits)
    next
      assume drag: "ca_action effective = ''drag'' \<and> action_points effective = [] \<and> p = origin_point"
      then have "ca_action a = ''drag''" "action_points a = []" using points(3,6) by blast+
      moreover from this have "\<not> visual_fallback observation" using points(7) [OF _ pair] local by blast
      ultimately show ?thesis using drag by (simp add: point_of_client_def)
    qed
  qed
  ultimately show ?thesis unfolding command_refers_def
    using sdk_move_inside [OF c] points(1) route by (cases "wt_bounds t") auto
qed

lemma admitted_pair: "validate_action a = Inr () \<Longrightarrow> (ca_x a = None) = (ca_y a = None)"
  by (auto simp: validate_action_def validate_action_tokens_def and_then_Inr_iff guard_def split: if_splits)

lemma perform_action_cases:
  assumes "perform_action env a s = Some (r, s')"
  obtains (none) "rs_calls s' = rs_calls s"
  | (sent) observation t s1 s2 effective local_coordinates s3 c where
      "admit_action env a s = Some (Inr (observation, t), s1)" "ca_input_backend_id a = None"
      "require_observed_input_available env 1 s1 = Some (Inr (), s2)"
      "effective_action (ae_os env) a observation (rs_evidence s2) = Inr (effective, local_coordinates)"
      "require_current_upstream_session_for_evidence (ae_clock env 3) s2 = Some (Inr (), s3)"
      "sdk_action_command (ae_os env) effective (rs_session_id s3) t local_coordinates = Inr c"
      "dispatch_command env c s3 = Some (r, s')"
proof -
  note q = quietD [OF quiet_admit] quietD [OF quiet_complete] quietD [OF quiet_input] quietD [OF quiet_upstream]
  show thesis
  proof (cases "\<exists>observation t s1. admit_action env a s = Some (Inr (observation, t), s1)")
    case False
    then have "\<exists>e. admit_action env a s = Some (Inl e, s')"
      using assms by (auto simp: perform_action_def core_then_iff)
    then show thesis using q(1) by (intro none) blast
  next
    case True
    then obtain observation t s1 where admit: "admit_action env a s = Some (Inr (observation, t), s1)" by blast
    then have s1: "rs_calls s1 = rs_calls s" using q(1) by blast
    show thesis
    proof (cases "ca_input_backend_id a")
      case (Some backend_id)
      then show thesis using assms admit s1 q(2) by (intro none) (auto simp: perform_action_def core_then_iff)
    next
      case None
      with assms admit have "(\<exists>e. require_observed_input_available env 1 s1 = Some (Inl e, s'))
          \<or> (\<exists>s2. require_observed_input_available env 1 s1 = Some (Inr (), s2)
             \<and> (s' = s2 \<or> (\<exists>effective local_coordinates.
                 effective_action (ae_os env) a observation (rs_evidence s2) = Inr (effective, local_coordinates)
                 \<and> ((\<exists>e. require_current_upstream_session_for_evidence (ae_clock env 3) s2 = Some (Inl e, s'))
                    \<or> (\<exists>s3. require_current_upstream_session_for_evidence (ae_clock env 3) s2 = Some (Inr (), s3)
                       \<and> (s' = s3 \<or> (\<exists>c. sdk_action_command (ae_os env) effective (rs_session_id s3) t local_coordinates = Inr c
                            \<and> dispatch_command env c s3 = Some (r, s'))))))))"
        by (auto simp: perform_action_def core_then_iff)
      then show thesis using admit None s1 q(3,4) none sent by (elim disjE exE conjE) metis+
    qed
  qed
qed


lemma admit_action_frame:
  assumes "admit_action env a s = Some (Inr v, s')"
  shows "rs_evidence s' = rs_evidence s"
proof -
  from assms obtain s1 s2 s3 observation t where "ensure_active env s = Some (Inr (), s1)"
    "require_current_observation env a s1 = Some (Inr observation, s2)"
    and target: "require_observed_target_available env s2 = Some (Inr t, s3)"
    and "require_observed_input_available env 0 s3 = Some (Inr (), s')"
    unfolding admit_action_def core_then_Inr core_return_iff by auto
  moreover from target have "revalidate_target env s2 = Some (Inr t, s3)"
    by (auto simp: require_observed_target_available_def revalidate_observed_target_def core_then_Inr observed_attempt_Inr)
  then have "rs_evidence s3 = rs_evidence s2" using revalidate_target_passed by fastforce
  ultimately show ?thesis by (auto dest!: ensure_active_passed current_observation_passed input_passed)
qed

lemma admit_action_observation:
  assumes "admit_action env a s = Some (Inr v, s')"
  shows "cs_observation (rs_evidence s) \<noteq> None"
proof -
  from assms obtain s1 s2 observation where "ensure_active env s = Some (Inr (), s1)"
    and "require_current_observation env a s1 = Some (Inr observation, s2)"
    unfolding admit_action_def core_then_Inr core_return_iff by auto
  then show ?thesis by (auto dest!: ensure_active_passed current_observation_passed)
qed

text \<open>
  C7. One observation serves one action: when a command was sent and the driver does not report that
  it never started, the session has lost its observation and its evidence epoch has moved, whatever
  the answer was, and no further action is sent before a new observation.
\<close>

theorem action_consumes_observation:
  assumes "perform_action env a s = Some (r, s')" and "rs_calls s' = rs_calls s @ [c]"
    and "\<not> pre_dispatch (ae_call env c)"
  shows "cs_observation (rs_evidence s') = None
    \<and> cs_action_evidence_epoch (rs_evidence s) < cs_action_evidence_epoch (rs_evidence s')
    \<and> (\<forall>env' a' r' s''. perform_action env' a' s' = Some (r', s'') \<longrightarrow> rs_calls s'' = rs_calls s')"
  using assms(1)
proof (cases rule: perform_action_cases)
  case (sent observation t s1 s2 effective local_coordinates s3 c')
  have "rs_calls s3 = rs_calls s"
    using quietD [OF quiet_admit sent(1)] quietD [OF quiet_input sent(3)] quietD [OF quiet_upstream sent(5)] by simp
  then have "c' = c" using dispatch_calls [OF sent(7)] assms(2) by simp
  have "rs_evidence s3 = rs_evidence s1"
    using input_passed [OF sent(3)] upstream_passed [OF sent(5)] by simp
  also have "\<dots> = rs_evidence s" using sent(1) by (rule admit_action_frame)
  finally have "spent (cs_action_evidence_epoch (rs_evidence s)) s'"
    using dispatch_spent [OF sent(7)] assms(3) \<open>c' = c\<close> by simp
  moreover have "rs_calls s'' = rs_calls s'" if "perform_action env' a' s' = Some (r', s'')" for env' a' r' s''
    using that
  proof (cases rule: perform_action_cases)
    case (sent observation t s1)
    then show ?thesis using admit_action_observation calculation by (fastforce simp: spent_def)
  qed
  ultimately show ?thesis by (auto simp: spent_def)
qed (use assms(2) in simp)

section \<open>An example\<close>

lemma bound_zero: "bound (JNum (Float 0)) = Some 0"
proof -
  have finite: "f64_is_finite 0" by (simp add: f64_is_finite_def)
  have zero: "f64_units 0 = 0" using f64_zero_units(1) by (simp add: f64_zero_def)
  have small: "\<bar>- (2 ^ 31) :: int\<bar> < 2 ^ 53" "\<bar>2 ^ 31 - 1 :: int\<bar> < 2 ^ 53" by simp_all
  have "f64_le (f64_of_int (- (2 ^ 31))) 0" "f64_le 0 (f64_of_int (2 ^ 31 - 1))"
    unfolding f64_le_def f64_units_of_int(1) [OF small(1)] f64_units_of_int(1) [OF small(2)] zero
    using f64_finite_classes [OF finite] f64_finite_classes [OF f64_units_of_int(2) [OF small(1)]]
      f64_finite_classes [OF f64_units_of_int(2) [OF small(2)]] by simp_all
  then have "bound (JNum (Float 0)) = Some (of_int (f64_round_to_int 0))"
    using finite unfolding bound_def by (simp del: power_numeral)
  then show ?thesis by (simp add: f64_round_to_int_def zero)
qed

definition example_row :: json where
  "example_row = JObj [(''pid'', JNum (PosInt 42)), (''window_id'', JNum (PosInt 7)), (''app_name'', JStr ''blender''),
     (''title'', JStr ''Scene''), (''is_on_screen'', JBool True),
     (''bounds'', JObj [(''x'', JNum (Float 0)), (''y'', JNum (Float 0)), (''width'', JNum (Float 0)), (''height'', JNum (Float 0))])]"

definition example_shown_window :: WindowTarget where
  "example_shown_window = \<lparr>wt_pid = 42, wt_window_id = 7, wt_title = ''Scene'', wt_app_name = ''blender'',
     wt_bounds = (0, 0, 0, 0), wt_is_on_screen = True, wt_is_minimized = False, wt_z_index = None, wt_is_foreground = False\<rparr>"

definition example_tool_answer :: ToolResult where
  "example_tool_answer = \<lparr>tr_is_error = False, tr_error_code = None, tr_text = ''pressed'', tr_raw_json = ''{}'',
     tr_images = [], tr_degraded = False\<rparr>"

definition example_action_env :: action_env where
  "example_action_env = \<lparr>ae_os = Linux, ae_clock = (\<lambda>_. \<lparr>system_ns = 0, mono_ns = 0, symlink_metadata = (\<lambda>_. None),
       process_identity = (\<lambda>_ _. None)\<rparr>),
     ae_rows = Inr [example_row], ae_pixels_target = Inl (MissingWindow, []), ae_input_available = (\<lambda>_. Inr ()),
     ae_call = (\<lambda>_. Inr (Inr example_tool_answer)), ae_error_text = (\<lambda>_. []), ae_base64 = Inr, ae_json = (\<lambda>_. Inr JNull)\<rparr>"

definition example_core_observation :: ComputerUseObservation where
  "example_core_observation = \<lparr>ob_observation_id = ''obs-1'', ob_window_handle = 7, ob_process_id = 42,
     ob_window_title = ''Scene'', ob_width = 640, ob_height = 480, ob_source_rect = (0, 0, 640, 480),
     ob_capture_backend = ''x11'', ob_capture_provenance = JNull, ob_session_id = ''session''\<rparr>"

definition example_runtime_session :: RuntimeSession where
  "example_runtime_session = \<lparr>rs_active = True, rs_upstream_active = True, rs_last_upstream_session_refresh = Some 0,
     rs_session_id = ''session'', rs_scope = \<lparr>sp_process_id = Some 42, sp_window_handle = Some 7, sp_window_title = None\<rparr>,
     rs_target = Some example_shown_window, rs_explicit_pixels = False, rs_linux_pixels = False,
     rs_native_task_authorization = None, rs_fences = Map.empty,
     rs_evidence = \<lparr>cs_observation = Some example_core_observation, cs_sdk_element_tokens = None,
       cs_action_evidence_epoch = Epoch 0, cs_live_fence = None, cs_post_action_live_sequence_fence = None,
       cs_observation_transition_live_sequence_fence = None\<rparr>, rs_calls = []\<rparr>"

definition example_keypress :: ComputerUseAction where
  "example_keypress = \<lparr>ca_action = ''keypress'', ca_observation_id = Some ''obs-1'', ca_element_index = None,
     ca_element_token = None, ca_delivery_mode = None, ca_input_backend_id = None, ca_x = None, ca_y = None,
     ca_button = None, ca_scroll_x = None, ca_scroll_y = None, ca_scroll_by = None, ca_path = [], ca_text = None,
     ca_delay_ms = None, ca_duration_ms = None, ca_steps = None, ca_type_chars_only = False, ca_keys = [''a''],
     ca_modifiers = []\<rparr>"

definition example_press_command :: DriverActionCommand where
  "example_press_command = \<lparr>dc_tool = ''press_key'', dc_arguments = [(''session'', JStr ''session''), (''pid'', json_u32 42),
     (''window_id'', json_u64 7), (''delivery_mode'', JStr ''background''), (''key'', JStr ''a'')]\<rparr>"

lemma example_listed: "list_windows example_action_env = Some (Inr [example_shown_window])"
  by (simp add: list_windows_def example_action_env_def example_row_def window_target_from_value_def json_index_def
      bounds_def indexed_bound_def bound_zero mark_foreground_window_def mark_foreground_by_z_index_def
      example_shown_window_def unwrap_or_def List.map_filter_def)

lemma example_policy: "validate_target_policy example_shown_window = Inr ()"
proof -
  have "\<not> identity_refused False ''blender'' \<and> \<not> unverified_identity ''blender''" by code_simp
  then show ?thesis
    by (simp add: validate_target_policy_def validate_observed_application_identity_def validate_application_identity_def
        str_trim_graphic graphic_def example_shown_window_def)
qed

lemma example_valid: "validate_action example_keypress = Inr ()" "validate_window_action_coordinates example_keypress = Inr ()"
  by (simp_all add: validate_action_def validate_action_tokens_def validate_action_shape_def example_keypress_def
      ACTIONS_def action_limits action_points_def validate_window_action_coordinates_def)

definition example_spent_session :: RuntimeSession where
  "example_spent_session = example_runtime_session\<lparr>
     rs_evidence := (rs_evidence example_runtime_session)\<lparr>cs_observation := None, cs_action_evidence_epoch := Epoch 1\<rparr>,
     rs_calls := [example_press_command]\<rparr>"

lemma example_resolved:
  "resolve_target example_action_env example_runtime_session = Some (Inr example_shown_window, example_runtime_session)"
proof -
  have "session_target_policy w example_shown_window example_runtime_session = Some (Inr (), example_runtime_session)" for w
    by (simp add: session_target_policy_def validate_target_policy_with_authorization_def example_policy
        example_runtime_session_def)
  then show ?thesis
    by (simp add: resolve_target_def example_listed core_then_def core_return_def)
       (simp add: example_action_env_def example_runtime_session_def scope_matches_def example_shown_window_def)
qed

lemma example_fences:
  "ensure_active example_action_env example_runtime_session = Some (Inr (), example_runtime_session)"
  "require_current_upstream_session_for_evidence (ae_clock example_action_env n) example_runtime_session
     = Some (Inr (), example_runtime_session)"
  "require_observed_input_available example_action_env n example_runtime_session = Some (Inr (), example_runtime_session)"
  by (simp_all add: ensure_active_def require_current_upstream_session_for_evidence_def upstream_session_refresh_due_def
      SESSION_REFRESH_INTERVAL_NS_def require_observed_input_available_def core_then_def core_return_def
      observed_attempt_def core_finish_observation_sensitive_attempt_def example_action_env_def example_runtime_session_def)

lemma example_target:
  "require_observed_target_available example_action_env example_runtime_session
     = Some (Inr example_shown_window, example_runtime_session)"
proof -
  have "rs_target example_runtime_session = Some example_shown_window" by (simp add: example_runtime_session_def)
  then show ?thesis
    by (simp add: require_observed_target_available_def revalidate_observed_target_def observed_attempt_def
        revalidate_target_def example_resolved core_then_def core_return_def
        core_finish_observation_sensitive_attempt_def ensure_target_available_for_action_def)
       (simp add: example_shown_window_def)
qed

lemma example_observed:
  "require_current_observation example_action_env example_keypress example_runtime_session
     = Some (Inr example_core_observation, example_runtime_session)"
proof -
  have "cs_observation (rs_evidence example_runtime_session) = Some example_core_observation"
    "rs_upstream_active example_runtime_session"
    "ca_observation_id example_keypress = Some (ob_observation_id example_core_observation)"
    by (simp_all add: example_runtime_session_def example_keypress_def example_core_observation_def)
  then show ?thesis
    by (simp add: require_current_observation_def core_then_def core_return_def example_fences)
qed

lemma example_admitted:
  "admit_action example_action_env example_keypress example_runtime_session
   = Some (Inr (example_core_observation, example_shown_window), example_runtime_session)"
proof -
  have "reject_ambiguous_embedded_browser_navigation example_keypress example_shown_window = Inr ()"
    "validate_action_observation example_keypress example_core_observation = Inr ()"
    "wt_window_id example_shown_window = ob_window_handle example_core_observation"
    "wt_pid example_shown_window = ob_process_id example_core_observation"
    by (simp_all add: reject_ambiguous_embedded_browser_navigation_def validate_action_observation_def
        example_keypress_def example_core_observation_def example_shown_window_def json_index_def)
  then show ?thesis
    by (simp add: admit_action_def core_then_def core_return_def example_valid example_fences example_observed example_target)
qed

lemma example_command:
  "effective_action Linux example_keypress example_core_observation evidence = Inr (example_keypress, False)"
  "sdk_action_command Linux example_keypress ''session'' example_shown_window False = Inr example_press_command"
  by (simp_all add: effective_action_def visual_fallback_def resolve_sdk_element_action_def local_action_def
      action_uses_local_window_coordinates_def held_coordinate_click_as_drag_def json_index_def unwrap_or_def
      sdk_action_command_def action_arguments_def driver_action_command_def driver_tool_def scope_arguments_def
      action_fields_def locator_fields_def insert_window_xy_def is_window_scope_def has_locator_def
      example_press_command_def example_keypress_def example_core_observation_def example_shown_window_def)

lemma example_core_performed:
  "\<exists>r. perform_action example_action_env example_keypress example_runtime_session = Some (r, example_spent_session)"
proof -
  have parts: "ca_input_backend_id example_keypress = None" "ae_os example_action_env = Linux"
    "rs_session_id example_runtime_session = ''session''"
    by (simp_all add: example_keypress_def example_action_env_def example_runtime_session_def)
  have "\<exists>r. dispatch_command example_action_env example_press_command example_runtime_session = Some (r, example_spent_session)"
    by (simp add: dispatch_command_def core_then_def core_return_def observed_attempt_def finish_typed_dispatch_result_def
        core_finish_observation_sensitive_attempt_def core_invalidate_def core_invalidate_action_observations_def
        advanced_def checked_add_def ensure_tool_ok_def native_tool_result_def complete_core_action_def
        example_action_env_def example_tool_answer_def example_runtime_session_def example_spent_session_def)
  then show ?thesis
    by (simp add: perform_action_def core_then_def core_return_def example_admitted parts example_fences example_command)
qed


theorem action_consumes_observation_witness:
  "cs_observation (rs_evidence example_spent_session) = None
   \<and> cs_action_evidence_epoch (rs_evidence example_runtime_session) < cs_action_evidence_epoch (rs_evidence example_spent_session)"
proof -
  obtain r where r: "perform_action example_action_env example_keypress example_runtime_session = Some (r, example_spent_session)"
    using example_core_performed by blast
  have calls: "rs_calls example_spent_session = rs_calls example_runtime_session @ [example_press_command]"
    by (simp add: example_runtime_session_def example_spent_session_def)
  have "\<not> pre_dispatch (ae_call example_action_env example_press_command)" by (simp add: example_action_env_def)
  from action_consumes_observation [OF r calls this] show ?thesis by blast
qed

end
