(* ===== verification/Core_Tools.thy ===== *)
theory Core_Tools
  imports Core_Action
begin

text \<open>
  Native tools of the core crate: which names and arguments a client may pass
  (\<open>dcc-cua-core/src/policy.rs\<close>), and \<open>ComputerUseSession::call_tool\<close> (\<open>runtime/session.rs\<close>)
  with the fences of \<open>Core_Action\<close>. Of the cursor tools only the allow-list is modelled, not the
  session method that calls them. The list of action tools of the driver contract, the schemas of
  the driver and the JSON writer are parameters.
\<close>

section \<open>Requests\<close>

definition DEFAULT_SNAPSHOT_MAX_ELEMENTS :: u32 where "DEFAULT_SNAPSHOT_MAX_ELEMENTS = 512"
definition DEFAULT_SNAPSHOT_MAX_DEPTH :: u32 where "DEFAULT_SNAPSHOT_MAX_DEPTH = 16"
definition MAX_SNAPSHOT_ELEMENTS :: u32 where "MAX_SNAPSHOT_ELEMENTS = 2000"
definition MAX_SNAPSHOT_DEPTH :: u32 where "MAX_SNAPSHOT_DEPTH = 25"
definition MAX_NATIVE_TOOL_NAME_CHARS :: nat where "MAX_NATIVE_TOOL_NAME_CHARS = 128"
definition MAX_NATIVE_TOOL_ARGUMENT_BYTES :: nat where "MAX_NATIVE_TOOL_ARGUMENT_BYTES = 1024 * 1024"
definition MAX_ESCALATION_DETAIL_CHARS :: nat where "MAX_ESCALATION_DETAIL_CHARS = 200"

definition bounded_snapshot_elements :: "u32 \<Rightarrow> u32" where
  "bounded_snapshot_elements value =
     (if value = 0 then DEFAULT_SNAPSHOT_MAX_ELEMENTS else min value MAX_SNAPSHOT_ELEMENTS)"

definition bounded_snapshot_depth :: "u32 \<Rightarrow> u32" where
  "bounded_snapshot_depth value =
     (if value = 0 then DEFAULT_SNAPSHOT_MAX_DEPTH else min value MAX_SNAPSHOT_DEPTH)"

definition validate_verify_state_request :: "json \<Rightarrow> u64 option \<Rightarrow> u64 option \<Rightarrow> unit ComputerUseResult" where
  "validate_verify_state_request expect timeout_ms stable_samples =
     (case as_array expect of
        None \<Rightarrow> Inl (invalid ''verify_state expect must be an array'')
      | Some predicates \<Rightarrow>
        and_then (guard (\<not> (1 \<le> length predicates \<and> length predicates \<le> 8))
          (invalid ''verify_state expect must contain 1..8 predicates'')) (\<lambda>_.
        and_then (guard (is_some_and timeout_ms (\<lambda>v. v > 10000))
          (invalid ''verify_state timeout_ms must be at most 10000'')) (\<lambda>_.
        guard (is_some_and stable_samples (\<lambda>v. \<not> (1 \<le> v \<and> v \<le> 5)))
          (invalid ''verify_state stable_samples must be 1..5''))))"

definition escalation_reasons :: "string list" where
  "escalation_reasons = [''ax_tree_pixel_mismatch'', ''background_delivery_failed'', ''foreground_ineffective'',
     ''no_window_target'', ''uia_timeout'', ''other'']"

definition validate_escalation_request :: "string \<Rightarrow> string option \<Rightarrow> unit ComputerUseResult" where
  "validate_escalation_request reason detail =
     and_then (guard (reason \<notin> set escalation_reasons)
       (invalid (''unsupported CUA session escalation reason; allowed values: ''
          @ concat (List.map (\<lambda>r. if r = last escalation_reasons then r else r @ '', '') escalation_reasons)
          @ ''. Use uia_timeout after an exact-window UIAutomation timeout or background_delivery_failed after a delivery failure''))) (\<lambda>_.
     guard (is_some_and detail (\<lambda>v. char_count v > MAX_ESCALATION_DETAIL_CHARS))
       (invalid ''CUA session escalation detail exceeds 200 characters''))"

definition validate_native_tool_request ::
  "(json \<Rightarrow> string + string) \<Rightarrow> string \<Rightarrow> json \<Rightarrow> unit ComputerUseResult" where
  "validate_native_tool_request encode name arguments =
     and_then (guard (name = [] \<or> char_count name > MAX_NATIVE_TOOL_NAME_CHARS
         \<or> \<not> list_all (\<lambda>c. is_ascii_alphanumeric c \<or> c = CHR ''_'') name)
       (invalid ''native CUA tool name must be 1..128 ASCII letters, digits, or underscores'')) (\<lambda>_.
     and_then (guard (as_object arguments = None)
       (invalid ''native CUA tool arguments must be a JSON object'')) (\<lambda>_.
     and_then (map_err invalid (encode arguments)) (\<lambda>encoded.
     and_then (guard (length encoded > MAX_NATIVE_TOOL_ARGUMENT_BYTES)
       (invalid ''native CUA tool arguments exceed 1 MiB'')) (\<lambda>_.
     guard (is_some_and (as_object arguments) (list_ex (\<lambda>(key, _). starts_with ''_'' key)))
       (invalid ''native CUA reserved arguments are host-owned'')))))"

definition cursor_tool_allowed :: "string \<Rightarrow> bool" where
  "cursor_tool_allowed name \<longleftrightarrow>
     name \<in> {''move_cursor'', ''set_agent_cursor_enabled'', ''set_agent_cursor_motion'', ''get_agent_cursor_state'',
       ''set_agent_cursor_theme''}"

definition native_tool_allowed_globally :: "string \<Rightarrow> bool" where
  "native_tool_allowed_globally name \<longleftrightarrow>
     name \<in> {''check_permissions'', ''health_report'', ''get_accessibility_tree'', ''get_config'', ''set_config'',
       ''replay_trajectory'', ''install_ffmpeg''}"

definition validate_unscoped_native_tool_route :: "string \<Rightarrow> unit ComputerUseResult" where
  "validate_unscoped_native_tool_route name =
     guard (\<not> native_tool_allowed_globally name)
       (invalid (''CUA tool '' @ quoted name @ '' must use its dedicated or window-bound route''))"

definition DEDICATED_TOOLS :: "string list" where
  "DEDICATED_TOOLS = [''list_windows'', ''get_window_state'', ''zoom'', ''verify_state'', ''clipboard_read'',
     ''clipboard_write'', ''get_desktop_state'', ''get_accessibility_tree'', ''set_agent_cursor_enabled'',
     ''set_agent_cursor_motion'', ''get_agent_cursor_state'', ''set_agent_cursor_theme'', ''start_recording'',
     ''stop_recording'', ''get_recording_state'', ''get_browser_state'', ''page'', ''get_session_state'',
     ''run_script'', ''run_steps'']"

definition native_tool_allowed_in_window_session :: "(string \<Rightarrow> bool) \<Rightarrow> string \<Rightarrow> bool" where
  "native_tool_allowed_in_window_session is_action_result_tool name \<longleftrightarrow>
     \<not> (name \<in> set DEDICATED_TOOLS \<or> starts_with ''browser_'' name \<or> is_action_result_tool name)
     \<and> name \<notin> {''launch_app'', ''kill_app'', ''bring_to_front'', ''start_session'', ''escalate_session'', ''end_session''}"

section \<open>Tool calls of a window session\<close>

text \<open>\<open>tl_env n\<close> is the environment of the \<open>n\<close>-th fence of the call.\<close>

record tool_env =
  tl_env :: "nat \<Rightarrow> action_env"
  tl_window_observable :: "nat \<Rightarrow> unit ComputerUseResult"
  tl_schema :: "string \<Rightarrow> json ComputerUseResult"
  tl_is_action_result_tool :: "string \<Rightarrow> bool"
  tl_encode :: "json \<Rightarrow> string + string"

text \<open>The keys the Host owns: a client value is dropped, and refused where the tool has no such input.\<close>

fun drop_reserved :: "arguments \<Rightarrow> string list \<Rightarrow> arguments \<Rightarrow> arguments ComputerUseResult" where
  "drop_reserved properties [] object = Inr object"
| "drop_reserved properties (key # keys) object =
     (if map_of object key \<noteq> None \<and> map_of properties key = None
      then Inl (invalid (''native CUA tool argument '' @ quoted key @ '' is not target-bindable''))
      else drop_reserved properties keys (AList.delete key object))"

definition bind_property :: "arguments \<Rightarrow> string \<Rightarrow> json \<Rightarrow> arguments \<Rightarrow> arguments" where
  "bind_property properties key value object =
     (if map_of properties key \<noteq> None then AList.update key value object else object)"

definition bind_arguments :: "arguments \<Rightarrow> string \<Rightarrow> WindowTarget \<Rightarrow> arguments \<Rightarrow> arguments ComputerUseResult" where
  "bind_arguments properties session t object =
     and_then (drop_reserved properties [''pid'', ''window_id'', ''session''] object) (\<lambda>object.
       Inr (bind_property properties ''session'' (JStr session)
             (bind_property properties ''window_id'' (json_u64 (wt_window_id t))
               (bind_property properties ''pid'' (json_u32 (wt_pid t)) object))))"

definition schema_properties :: "string \<Rightarrow> json \<Rightarrow> arguments ComputerUseResult" where
  "schema_properties name schema =
     (case as_object (json_index schema ''properties'') of
        Some properties \<Rightarrow> Inr properties
      | None \<Rightarrow> Inl (BackendUnavailable, ''CUA tool '' @ quoted name @ '' returned an invalid input schema''))"

definition require_window_observable :: "tool_env \<Rightarrow> nat \<Rightarrow> unit core_step" where
  "require_window_observable env n = observed_attempt (core_return (tl_window_observable env n))"

definition dispatch_tool :: "tool_env \<Rightarrow> DriverActionCommand \<Rightarrow> ComputerUseToolResult core_step" where
  "dispatch_tool env c =
     (let context = ''call CUA '' @ dc_tool c in
      core_then (\<lambda>s. observed_attempt (finish_typed_dispatch_result (tl_env env 1) context (ae_call (tl_env env 1) c))
          (s\<lparr>rs_calls := rs_calls s @ [c]\<rparr>)) (\<lambda>result.
      core_then (observed_attempt (core_return (ensure_tool_ok context result))) (\<lambda>_.
      core_then (require_window_observable env 1) (\<lambda>_.
      core_then (require_observed_target_available (tl_env env 2)) (\<lambda>_.
        core_return (native_tool_result (ae_base64 (tl_env env 1)) (ae_json (tl_env env 1)) result))))))"

definition admit_tool :: "tool_env \<Rightarrow> string \<Rightarrow> json \<Rightarrow> arguments core_step" where
  "admit_tool env name arguments =
     core_then (core_return (validate_native_tool_request (tl_encode env) name arguments)) (\<lambda>_.
     core_then (core_return (guard (\<not> native_tool_allowed_in_window_session (tl_is_action_result_tool env) name)
       (invalid (''CUA tool '' @ quoted name @ '' must use its dedicated typed route'')))) (\<lambda>_.
     core_then (ensure_active (tl_env env 0)) (\<lambda>_.
     core_then (require_current_upstream_session_for_evidence (ae_clock (tl_env env 0) 1)) (\<lambda>_.
     core_then (require_observed_input_available (tl_env env 0) 0) (\<lambda>_.
     core_then (require_observed_target_available (tl_env env 0)) (\<lambda>target.
     core_then (core_return (tl_schema env name)) (\<lambda>schema.
     core_then (core_return (schema_properties name schema)) (\<lambda>properties.
     core_then (\<lambda>s. core_return (bind_arguments properties (rs_session_id s) target
         (unwrap_or (as_object arguments) [])) s) (\<lambda>object.
     core_then (observed_attempt (core_return (guard
         (map_of properties ''pid'' = None \<and> map_of properties ''window_id'' = None)
         (InvalidTarget, ''CUA tool '' @ quoted name @ '' is not bindable to an exact window session'')))) (\<lambda>_.
     core_then (require_observed_target_available (tl_env env 1)) (\<lambda>_.
     core_then (require_window_observable env 0) (\<lambda>_.
       core_return (Inr object)))))))))))))"

definition call_tool :: "tool_env \<Rightarrow> string \<Rightarrow> json \<Rightarrow> ComputerUseToolResult core_step" where
  "call_tool env name arguments =
     core_then (admit_tool env name arguments)
       (\<lambda>object. dispatch_tool env \<lparr>dc_tool = name, dc_arguments = object\<rparr>)"

section \<open>What a tool call carries\<close>

lemma drop_reserved_keeps:
  "drop_reserved properties keys object = Inr object' \<Longrightarrow>
     map_of object' k = (if k \<in> set keys then None else map_of object k)"
  by (induction keys arbitrary: object) (auto split: if_splits)

lemma bind_arguments_bound:
  assumes "bind_arguments properties session t object = Inr object'"
  shows "map_of object' ''pid'' = (if map_of properties ''pid'' = None then None else Some (json_u32 (wt_pid t)))"
    and "map_of object' ''window_id'' = (if map_of properties ''window_id'' = None then None else Some (json_u64 (wt_window_id t)))"
    and "map_of object' ''session'' = (if map_of properties ''session'' = None then None else Some (JStr session))"
    and "k \<notin> {''pid'', ''window_id'', ''session''} \<Longrightarrow> map_of object' k = map_of object k"
proof -
  from assms obtain o1 where d: "drop_reserved properties [''pid'', ''window_id'', ''session''] object = Inr o1"
    and o': "object' = bind_property properties ''session'' (JStr session)
             (bind_property properties ''window_id'' (json_u64 (wt_window_id t))
               (bind_property properties ''pid'' (json_u32 (wt_pid t)) o1))"
    by (auto simp: bind_arguments_def and_then_Inr_iff simp del: drop_reserved.simps)
  note kept = drop_reserved_keeps [OF d]
  show "map_of object' ''pid'' = (if map_of properties ''pid'' = None then None else Some (json_u32 (wt_pid t)))"
    "map_of object' ''window_id'' = (if map_of properties ''window_id'' = None then None else Some (json_u64 (wt_window_id t)))"
    "map_of object' ''session'' = (if map_of properties ''session'' = None then None else Some (JStr session))"
    "k \<notin> {''pid'', ''window_id'', ''session''} \<Longrightarrow> map_of object' k = map_of object k"
    by (simp_all add: o' bind_property_def kept)
qed

lemma quiet_observable [intro]: "quiet (require_window_observable env n)"
  unfolding require_window_observable_def by blast

lemma dispatch_tool_calls:
  assumes "dispatch_tool env c s = Some (r, s')"
  shows "rs_calls s' = rs_calls s @ [c]"
proof -
  define s0 where "s0 = s\<lparr>rs_calls := rs_calls s @ [c]\<rparr>"
  define ctx where "ctx = ''call CUA '' @ dc_tool c"
  define rest where "rest = (\<lambda>result.
      core_then (observed_attempt (core_return (ensure_tool_ok ctx result))) (\<lambda>_.
      core_then (require_window_observable env 1) (\<lambda>_.
      core_then (require_observed_target_available (tl_env env 2)) (\<lambda>_.
        core_return (native_tool_result (ae_base64 (tl_env env 1)) (ae_json (tl_env env 1)) result)))))"
  let ?send = "observed_attempt (finish_typed_dispatch_result (tl_env env 1) ctx (ae_call (tl_env env 1) c))"
  have "quiet (core_then ?send rest)"
    unfolding rest_def
    by (intro quiet_then quiet_observed quiet_finish quiet_return quiet_observable quiet_target)
  moreover have "core_then ?send rest s0 = Some (r, s')"
    using assms unfolding dispatch_tool_def Let_def rest_def s0_def ctx_def by (simp add: core_then_def)
  ultimately have "rs_calls s' = rs_calls s0" by (rule quietD)
  then show ?thesis by (simp add: s0_def)
qed

definition tool_call_bound :: "string \<Rightarrow> arguments \<Rightarrow> string \<Rightarrow> WindowTarget \<Rightarrow> DriverActionCommand \<Rightarrow> bool" where
  "tool_call_bound name object session t c \<longleftrightarrow>
     dc_tool c = name
     \<and> map_of (dc_arguments c) ''pid'' \<in> {None, Some (json_u32 (wt_pid t))}
     \<and> map_of (dc_arguments c) ''window_id'' \<in> {None, Some (json_u64 (wt_window_id t))}
     \<and> (map_of (dc_arguments c) ''pid'', map_of (dc_arguments c) ''window_id'') \<noteq> (None, None)
     \<and> map_of (dc_arguments c) ''session'' \<in> {None, Some (JStr session)}
     \<and> (\<forall>k. k \<notin> {''pid'', ''window_id'', ''session''} \<longrightarrow> map_of (dc_arguments c) k = map_of object k)"

lemma tool_call_boundI:
  assumes "bind_arguments properties session t object = Inr object'"
    and "\<not> (map_of properties ''pid'' = None \<and> map_of properties ''window_id'' = None)"
  shows "tool_call_bound name object session t \<lparr>dc_tool = name, dc_arguments = object'\<rparr>"
  using assms(2) by (auto simp: tool_call_bound_def bind_arguments_bound [OF assms(1)])

lemma quiet_admit_tool: "quiet (admit_tool env name arguments)"
  unfolding admit_tool_def
  by (intro quiet_then quiet_return quiet_active quiet_upstream quiet_input quiet_target quiet_observed quiet_observable)

definition tool_admitted :: "tool_env \<Rightarrow> string \<Rightarrow> json \<Rightarrow> RuntimeSession \<Rightarrow> WindowTarget \<Rightarrow> bool" where
  "tool_admitted env name arguments s t \<longleftrightarrow>
     validate_native_tool_request (tl_encode env) name arguments = Inr ()
     \<and> native_tool_allowed_in_window_session (tl_is_action_result_tool env) name
     \<and> rs_active s \<and> rs_upstream_active s \<and> ae_input_available (tl_env env 0) 0 = Inr ()
     \<and> admitted_target (tl_env env 0) s t"

lemma target_available_frame:
  assumes "require_observed_target_available env s = Some (Inr t, s')"
  shows "\<exists>f. s' = s\<lparr>rs_fences := f\<rparr>"
proof -
  from assms have "revalidate_target env s = Some (Inr t, s')"
    by (auto simp: require_observed_target_available_def revalidate_observed_target_def core_then_Inr observed_attempt_Inr)
  then show ?thesis using revalidate_target_passed by blast
qed

lemma admit_tool_passed:
  assumes "admit_tool env name arguments s = Some (Inr object', s')" and wf: "pixels_wf s"
  shows "\<exists>t. tool_admitted env name arguments s t
    \<and> tool_call_bound name (unwrap_or (as_object arguments) []) (rs_session_id s) t \<lparr>dc_tool = name, dc_arguments = object'\<rparr>"
proof -
  from assms(1) obtain s1 s2 s3 s4 t properties where
    request: "validate_native_tool_request (tl_encode env) name arguments = Inr ()"
      "native_tool_allowed_in_window_session (tl_is_action_result_tool env) name"
    and active: "ensure_active (tl_env env 0) s = Some (Inr (), s1)"
    and up: "require_current_upstream_session_for_evidence (ae_clock (tl_env env 0) 1) s1 = Some (Inr (), s2)"
    and input: "require_observed_input_available (tl_env env 0) 0 s2 = Some (Inr (), s3)"
    and target: "require_observed_target_available (tl_env env 0) s3 = Some (Inr t, s4)"
    and bound: "bind_arguments properties (rs_session_id s4) t (unwrap_or (as_object arguments) []) = Inr object'"
    and bindable: "\<not> (map_of properties ''pid'' = None \<and> map_of properties ''window_id'' = None)"
    unfolding admit_tool_def core_then_Inr core_return_iff observed_attempt_Inr by auto
  obtain f where s1: "s1 = s\<lparr>rs_fences := f\<rparr>" and "rs_active s" using ensure_active_passed [OF active] by blast
  have s2: "s2 = s1" "rs_upstream_active s1" using upstream_passed [OF up] by blast+
  have s3: "s3 = s2" "ae_input_available (tl_env env 0) 0 = Inr ()" "\<not> (ae_os (tl_env env 0) = Linux \<and> rs_explicit_pixels s2)"
    using input_passed [OF input] by blast+
  have "\<not> (ae_os (tl_env env 0) = Linux \<and> rs_linux_pixels s3)"
    using wf s1 s2 s3 by (auto simp: pixels_wf_def)
  then have "admitted_target (tl_env env 0) s3 t" using target_available_passed [OF target] by blast
  moreover have "rs_session_id s4 = rs_session_id s" using target_available_frame [OF target] s1 s2 s3 by auto
  ultimately show ?thesis
    using request \<open>rs_active s\<close> s1 s2 s3 tool_call_boundI [OF bound bindable, of name]
    by (auto simp: tool_admitted_def admitted_target_def)
qed

section \<open>Properties\<close>

text \<open>
  C35. A native tool of a window session is called at most once per request, only for an admitted
  request on an active session whose exact window passed its fences, and only under a name that is
  no dedicated, browser, action or lifecycle tool. The process, window and session of the call are
  those of the session, whatever the client wrote there, at least one of process and window is
  present, and every other argument is the client's.
\<close>

theorem native_tool_call_bound:
  assumes "call_tool env name arguments s = Some (r, s')" and "pixels_wf s"
  shows "rs_calls s' = rs_calls s \<or> (\<exists>t c. rs_calls s' = rs_calls s @ [c]
    \<and> tool_admitted env name arguments s t
    \<and> tool_call_bound name (unwrap_or (as_object arguments) []) (rs_session_id s) t c)"
proof (cases "\<exists>object s1. admit_tool env name arguments s = Some (Inr object, s1)")
  case False
  then show ?thesis using assms(1) quietD [OF quiet_admit_tool] by (auto simp: call_tool_def core_then_iff)
next
  case True
  then obtain object s1 where admit: "admit_tool env name arguments s = Some (Inr object, s1)" by blast
  then have "dispatch_tool env \<lparr>dc_tool = name, dc_arguments = object\<rparr> s1 = Some (r, s')"
    using assms(1) by (simp add: call_tool_def core_then_def)
  from dispatch_tool_calls [OF this] show ?thesis
    using quietD [OF quiet_admit_tool admit] admit_tool_passed [OF admit assms(2)] by auto
qed

definition example_tool_env :: tool_env where
  "example_tool_env = \<lparr>tl_env = (\<lambda>_. example_action_env),
     tl_window_observable = (\<lambda>n. if n = 0 then Inr () else Inl (BackendUnavailable, [])),
     tl_schema = (\<lambda>_. Inr (JObj [(''properties'', JObj [(''pid'', JNull)])])),
     tl_is_action_result_tool = (\<lambda>_. False), tl_encode = (\<lambda>_. Inr ''{}'')\<rparr>"

definition example_tool_command :: DriverActionCommand where
  "example_tool_command = \<lparr>dc_tool = ''inspect'', dc_arguments = [(''pid'', json_u32 42)]\<rparr>"

lemma example_tool_admitted:
  "admit_tool example_tool_env ''inspect'' (JObj [(''pid'', JNull)]) example_runtime_session
   = Some (Inr [(''pid'', json_u32 42)], example_runtime_session)"
proof -
  have "validate_native_tool_request (tl_encode example_tool_env) ''inspect'' (JObj [(''pid'', JNull)]) = Inr ()"
    by (simp add: validate_native_tool_request_def char_count_graphic graphic_def MAX_NATIVE_TOOL_NAME_CHARS_def
        MAX_NATIVE_TOOL_ARGUMENT_BYTES_def is_ascii_alphanumeric_def example_tool_env_def starts_with_def)
  moreover have "native_tool_allowed_in_window_session (tl_is_action_result_tool example_tool_env) ''inspect''"
    by (simp add: native_tool_allowed_in_window_session_def DEDICATED_TOOLS_def starts_with_def example_tool_env_def)
  moreover have "bind_arguments [(''pid'', JNull)] session example_shown_window [(''pid'', JNull)] = Inr [(''pid'', json_u32 42)]"
    for session by (simp add: bind_arguments_def bind_property_def example_shown_window_def)
  ultimately show ?thesis
    by (simp add: admit_tool_def core_then_def core_return_def example_tool_env_def example_fences
        example_fences(2) [where n = 1, simplified] example_target schema_properties_def json_index_def unwrap_or_def
        observed_attempt_def core_finish_observation_sensitive_attempt_def require_window_observable_def)
qed

lemma example_tool_called:
  "\<exists>r s. call_tool example_tool_env ''inspect'' (JObj [(''pid'', JNull)]) example_runtime_session = Some (r, s)
     \<and> rs_calls s = [example_tool_command]"
proof -
  have "\<exists>r s. dispatch_tool example_tool_env example_tool_command example_runtime_session = Some (r, s)"
    by (simp add: dispatch_tool_def core_then_def core_return_def observed_attempt_def finish_typed_dispatch_result_def
        core_finish_observation_sensitive_attempt_def core_invalidate_def core_invalidate_action_observations_def
        advanced_def checked_add_def ensure_tool_ok_def require_window_observable_def observation_lost_def
        example_tool_env_def example_action_env_def example_tool_answer_def example_runtime_session_def)
  then obtain r s where "dispatch_tool example_tool_env example_tool_command example_runtime_session = Some (r, s)" by blast
  moreover from this have "rs_calls s = [example_tool_command]"
    using dispatch_tool_calls by (fastforce simp: example_runtime_session_def)
  ultimately show ?thesis
    by (simp add: call_tool_def core_then_def example_tool_admitted example_tool_command_def)
qed

theorem native_tool_call_bound_witness:
  "\<exists>t c. c = example_tool_command \<and> tool_call_bound ''inspect'' [(''pid'', JNull)] ''session'' t c"
proof -
  obtain r s where call: "call_tool example_tool_env ''inspect'' (JObj [(''pid'', JNull)]) example_runtime_session = Some (r, s)"
    and calls: "rs_calls s = [example_tool_command]"
    using example_tool_called by blast
  have session: "pixels_wf example_runtime_session" "rs_calls example_runtime_session = []"
    "rs_session_id example_runtime_session = ''session''"
    by (simp_all add: pixels_wf_def example_runtime_session_def)
  from native_tool_call_bound [OF call session(1)] show ?thesis
    using session(2,3) calls by (auto simp: unwrap_or_def)
qed

end
