(* ===== verification/Desktop_Session.thy ===== *)
theory Desktop_Session
  imports Core_Action
begin

text \<open>
  \<open>ComputerUseDesktopSession\<close> of the core crate (\<open>dcc-cua-core/src/runtime.rs\<close>): screen-absolute input
  against the latest desktop snapshot. The driver, the desktop gates and the snapshot of the screen
  are parameters; the calls to the driver are kept in a log. An action answers the result of the
  driver: the fields \<open>success\<close>, \<open>action\<close> and the marker that the code wraps around it are not modelled,
  nor are the details that \<open>map_driver_error\<close> attaches to a timed-out window query.
\<close>

section \<open>Session and environment\<close>

record DesktopSession =
  ds_session_id :: string
  ds_marker_label :: string
  ds_active :: bool
  ds_marker_visible :: bool
  ds_latest_observation_id :: "string option"
  ds_calls :: "DriverActionCommand list"

definition MOUSE_CURSOR_THEME :: string where "MOUSE_CURSOR_THEME = ''com.dcc-mcp.cursor''"

text \<open>\<open>de_snapshot\<close> is \<open>None\<close> when the snapshot timed out; it answers the id of the observation.\<close>

record desktop_env =
  de_os :: target_os
  de_observation_available :: "unit ComputerUseResult"
  de_input_available :: "unit ComputerUseResult"
  de_call :: "DriverActionCommand \<Rightarrow> (DriverError + ToolResult) ComputerUseResult"
  de_enable_marker :: "unit ComputerUseResult"
  de_snapshot :: "(string ComputerUseResult) option"
  de_error_text :: "DriverError \<Rightarrow> string"
  de_base64 :: "string \<Rightarrow> string + string"
  de_json :: "string \<Rightarrow> string + json"

definition map_driver_error :: "(DriverError \<Rightarrow> string) \<Rightarrow> string \<Rightarrow> DriverError \<Rightarrow> ComputerUseErrorCode \<times> string" where
  "map_driver_error show context error = (driver_error_code error, context @ '': '' @ show error)"

definition call_driver_tool ::
  "desktop_env \<Rightarrow> string \<Rightarrow> DriverActionCommand \<Rightarrow> ToolResult ComputerUseResult" where
  "call_driver_tool env operation c =
     and_then (de_call env c) (map_err (map_driver_error (de_error_text env) operation))"

section \<open>Operations\<close>

text \<open>\<open>label\<close> is the localized label of the marker.\<close>

definition desktop_session_new :: "string \<Rightarrow> string \<Rightarrow> DesktopSession ComputerUseResult" where
  "desktop_session_new label session_id =
     (if str_trim session_id = [] then Inl (invalid ''desktop session_id must not be empty'')
      else Inr \<lparr>ds_session_id = session_id, ds_marker_label = label, ds_active = False, ds_marker_visible = False,
                ds_latest_observation_id = None, ds_calls = []\<rparr>)"

definition log_call :: "DriverActionCommand \<Rightarrow> DesktopSession \<Rightarrow> DesktopSession" where
  "log_call c s = s\<lparr>ds_calls := ds_calls s @ [c]\<rparr>"

definition start_command :: "DesktopSession \<Rightarrow> DriverActionCommand" where
  "start_command s = \<lparr>dc_tool = ''start_session'', dc_arguments =
     [(''session'', JStr (ds_session_id s)), (''capture_scope'', JStr ''desktop''),
      (''cursor_theme'', JObj [(''theme_id'', JStr MOUSE_CURSOR_THEME), (''reduced_motion'', JStr ''auto'')]),
      (''_public_session_label'', JStr (ds_marker_label s))]\<rparr>"

definition desktop_start :: "desktop_env \<Rightarrow> DesktopSession \<Rightarrow> unit ComputerUseResult \<times> DesktopSession" where
  "desktop_start env s =
     (if ds_active s then (Inl (invalid ''desktop session is already active''), s)
      else case de_observation_available env of
        Inl e \<Rightarrow> (Inl e, s)
      | Inr _ \<Rightarrow>
        (let c = start_command s; s = log_call c s in
         case and_then (call_driver_tool env ''start CUA desktop session'' c) (\<lambda>result.
                and_then (ensure_tool_ok ''start CUA desktop session'' result) (\<lambda>_. de_enable_marker env)) of
           Inl e \<Rightarrow> (Inl e, s)
         | Inr _ \<Rightarrow> (Inr (), s\<lparr>ds_active := True, ds_marker_visible := True\<rparr>)))"

definition desktop_screenshot :: "desktop_env \<Rightarrow> DesktopSession \<Rightarrow> string ComputerUseResult \<times> DesktopSession" where
  "desktop_screenshot env s =
     (if \<not> ds_active s then (Inl (invalid ''desktop session is not active''), s)
      else case de_snapshot env of
        None \<Rightarrow> (Inl (InputFailed, ''CUA desktop snapshot timed out; the desktop session was invalidated''), s)
      | Some (Inl e) \<Rightarrow> (Inl e, s)
      | Some (Inr observation_id) \<Rightarrow> (Inr observation_id, s\<lparr>ds_latest_observation_id := Some observation_id\<rparr>))"

definition desktop_admission :: "desktop_env \<Rightarrow> ComputerUseAction \<Rightarrow> DesktopSession \<Rightarrow> DriverActionCommand ComputerUseResult" where
  "desktop_admission env a s =
     and_then (guard (\<not> ds_active s) (invalid ''desktop session is not active'')) (\<lambda>_.
     and_then (validate_action a) (\<lambda>_.
     and_then (guard (has_locator a \<or> ca_action a \<in> {''set_text'', ''set_value''})
       (invalid ''desktop actions support only screen-coordinate input'')) (\<lambda>_.
     and_then (guard (\<not> (ds_latest_observation_id s \<noteq> None \<and> ca_observation_id a = ds_latest_observation_id s))
       (StaleObservation, ''take a fresh desktop snapshot before acting'')) (\<lambda>_.
     and_then (de_input_available env) (\<lambda>_.
       desktop_action_arguments (de_os env) a (ds_session_id s))))))"

definition desktop_perform_action ::
  "desktop_env \<Rightarrow> ComputerUseAction \<Rightarrow> DesktopSession \<Rightarrow> ComputerUseToolResult ComputerUseResult \<times> DesktopSession" where
  "desktop_perform_action env a s =
     (case desktop_admission env a s of
        Inl e \<Rightarrow> (Inl e, s)
      | Inr c \<Rightarrow>
        (let s = log_call c s; context = ''execute desktop CUA '' @ dc_tool c in
         case and_then (call_driver_tool env context c) (\<lambda>result.
                and_then (ensure_tool_ok context result) (\<lambda>_. native_tool_result (de_base64 env) (de_json env) result)) of
           Inl e \<Rightarrow> (Inl e, s)
         | Inr r \<Rightarrow> (Inr r, s\<lparr>ds_latest_observation_id := None\<rparr>)))"

definition end_command :: "string \<Rightarrow> DriverActionCommand" where
  "end_command session_id = \<lparr>dc_tool = ''end_session'', dc_arguments = [(''session'', JStr session_id)]\<rparr>"

definition desktop_closed :: "DesktopSession \<Rightarrow> DesktopSession" where
  "desktop_closed s = s\<lparr>ds_active := False, ds_marker_visible := False, ds_latest_observation_id := None\<rparr>"

definition desktop_stop :: "desktop_env \<Rightarrow> DesktopSession \<Rightarrow> unit ComputerUseResult \<times> DesktopSession" where
  "desktop_stop env s =
     (if \<not> ds_active s then (Inr (), s)
      else let c = end_command (ds_session_id s); s = log_call c s in
        case call_driver_tool env ''stop CUA desktop session'' c of
          Inl e \<Rightarrow> (Inl e, desktop_closed s)
        | Inr result \<Rightarrow>
          (case ensure_tool_ok ''stop CUA desktop session'' result of
             Inl e \<Rightarrow> (Inl e, s)
           | Inr _ \<Rightarrow> (Inr (), desktop_closed s)))"

section \<open>Runs\<close>

text \<open>Any sequence of operations, each in an environment of its own.\<close>

inductive desktop_step :: "DesktopSession \<Rightarrow> DesktopSession \<Rightarrow> bool" where
  start: "desktop_step s (snd (desktop_start env s))"
| screenshot: "desktop_step s (snd (desktop_screenshot env s))"
| action: "desktop_step s (snd (desktop_perform_action env a s))"
| stop: "desktop_step s (snd (desktop_stop env s))"

inductive_cases desktop_stepE: "desktop_step s s'"

text \<open>A session that is not active has no marker, and one that holds an observation has been active.\<close>

definition desktop_inv :: "DesktopSession \<Rightarrow> bool" where
  "desktop_inv s \<longleftrightarrow> ds_marker_visible s = ds_active s \<and> (\<not> ds_active s \<longrightarrow> ds_latest_observation_id s = None)"

lemma desktop_inv_new: "desktop_session_new label session_id = Inr s \<Longrightarrow> desktop_inv s"
  by (auto simp: desktop_session_new_def desktop_inv_def split: if_splits)

lemma desktop_inv_step: "desktop_step s s' \<Longrightarrow> desktop_inv s \<Longrightarrow> desktop_inv s' \<and> ds_session_id s' = ds_session_id s"
  by (erule desktop_stepE)
     (auto simp: desktop_inv_def desktop_start_def desktop_screenshot_def desktop_perform_action_def desktop_stop_def
       desktop_closed_def log_call_def Let_def desktop_admission_def and_then_Inr_iff
       split: sum.splits option.splits if_splits)

lemma desktop_inv_run:
  "desktop_step\<^sup>*\<^sup>* s s' \<Longrightarrow> desktop_inv s \<Longrightarrow> desktop_inv s' \<and> ds_session_id s' = ds_session_id s"
  by (induction rule: rtranclp_induct) (auto dest: desktop_inv_step)

section \<open>Desktop commands\<close>

lemma scope_arguments_desktop:
  "map_of (scope_arguments os tool a DesktopScope [(''session'', JStr session)]) k =
     (if k = ''scope'' then Some (JStr ''desktop'') else if k = ''session'' then Some (JStr session) else None)"
  by (simp add: scope_arguments_def)

lemma action_fields_desktop_scope:
  assumes "action_fields os a DesktopScope object = Inr object'"
  shows "map_of object' ''scope'' = map_of object ''scope''"
proof -
  have scope: "''scope'' \<notin> action_keys" by (simp add: action_keys_def)
  from assms show ?thesis
    by (auto simp: action_fields_def Let_def action_fields_other scope split: if_splits)
qed

lemma desktop_command_unbound:
  assumes "desktop_action_arguments os a session = Inr c"
  shows "map_of (dc_arguments c) ''session'' = Some (JStr session)
    \<and> map_of (dc_arguments c) ''scope'' = Some (JStr ''desktop'')
    \<and> map_of (dc_arguments c) ''pid'' = None \<and> map_of (dc_arguments c) ''window_id'' = None
    \<and> map_of (dc_arguments c) ''element_token'' = None"
proof -
  from assms obtain object where
    fields: "action_fields os a DesktopScope (scope_arguments os (dc_tool c) a DesktopScope [(''session'', JStr session)]) = Inr object"
    and "locator_fields a DesktopScope object = Inr (dc_arguments c)"
    unfolding desktop_action_arguments_def by (elim driver_action_commandE)
  then have "dc_arguments c = object" by (simp add: locator_fields_def is_window_scope_def)
  moreover have "map_of object k = map_of (scope_arguments os (dc_tool c) a DesktopScope [(''session'', JStr session)]) k"
    if "k \<notin> action_keys" "k \<noteq> ''scope''" for k using that by (rule action_fields_keeps [OF fields])
  ultimately show ?thesis using action_fields_desktop_scope [OF fields]
    by (simp add: scope_arguments_desktop action_keys_def)
qed

section \<open>Properties\<close>

text \<open>
  C37. In every run of a new desktop session an action sends at most one command, only while the
  session is active and shows its marker, within the limits of \<open>validate_action\<close>, against the latest
  snapshot of the session, and as screen-absolute input: the command names the session and the
  desktop scope and never a window, a process or an element.
\<close>

theorem desktop_action_bound:
  assumes "desktop_session_new label session_id = Inr s0" and "desktop_step\<^sup>*\<^sup>* s0 s"
    and "desktop_perform_action env a s = (r, s')"
  shows "ds_calls s' = ds_calls s \<or> (\<exists>c. ds_calls s' = ds_calls s @ [c]
    \<and> ds_active s \<and> ds_marker_visible s \<and> validate_action a = Inr () \<and> de_input_available env = Inr ()
    \<and> (\<exists>observation_id. ds_latest_observation_id s = Some observation_id \<and> ca_observation_id a = Some observation_id)
    \<and> map_of (dc_arguments c) ''session'' = Some (JStr session_id)
    \<and> map_of (dc_arguments c) ''scope'' = Some (JStr ''desktop'')
    \<and> map_of (dc_arguments c) ''pid'' = None \<and> map_of (dc_arguments c) ''window_id'' = None
    \<and> map_of (dc_arguments c) ''element_token'' = None)"
proof -
  have inv: "desktop_inv s" and id: "ds_session_id s = session_id"
    using desktop_inv_run [OF assms(2) desktop_inv_new [OF assms(1)]] assms(1)
    by (auto simp: desktop_session_new_def split: if_splits)
  show ?thesis
  proof (cases "desktop_admission env a s")
    case (Inl e)
    then show ?thesis using assms(3) by (simp add: desktop_perform_action_def)
  next
    case (Inr c)
    then have "ds_calls s' = ds_calls s @ [c]"
      using assms(3) by (auto simp: desktop_perform_action_def log_call_def Let_def split: sum.splits)
    moreover have "ds_active s" "validate_action a = Inr ()" "de_input_available env = Inr ()"
      "ds_latest_observation_id s \<noteq> None" "ca_observation_id a = ds_latest_observation_id s"
      "desktop_action_arguments (de_os env) a session_id = Inr c"
      using Inr id by (auto simp: desktop_admission_def and_then_Inr_iff)
    ultimately show ?thesis using inv desktop_command_unbound by (auto simp: desktop_inv_def)
  qed
qed

text \<open>
  C38. A desktop action whose call times out or is interrupted with an unknown completion leaves the
  observation in place: the same action against the same snapshot is sent again. A snapshot that
  times out says that the session was invalidated and changes nothing.
\<close>

theorem desktop_failure_keeps_observation:
  assumes "desktop_admission env a s = Inr c" and "de_call env c = Inl e \<or> de_call env c = Inr (Inl error)"
    and "de_snapshot env = None"
  shows "ds_calls (snd (desktop_perform_action env a (snd (desktop_perform_action env a s)))) = ds_calls s @ [c, c]
    \<and> fst (desktop_screenshot env s) = Inl (InputFailed, ''CUA desktop snapshot timed out; the desktop session was invalidated'')
    \<and> snd (desktop_screenshot env s) = s"
proof -
  have "\<exists>e. call_driver_tool env operation c = Inl e" for operation
    using assms(2) by (auto simp: call_driver_tool_def)
  then obtain e' where failed: "call_driver_tool env (''execute desktop CUA '' @ dc_tool c) c = Inl e'" by blast
  then have step: "snd (desktop_perform_action env a t) = log_call c t" if "desktop_admission env a t = Inr c" for t
    using that by (simp add: desktop_perform_action_def Let_def)
  have "desktop_admission env a (log_call c s) = desktop_admission env a s"
    by (simp add: desktop_admission_def log_call_def)
  then have "snd (desktop_perform_action env a (snd (desktop_perform_action env a s))) = log_call c (log_call c s)"
    using step assms(1) by simp
  moreover have "ds_active s" using assms(1) by (auto simp: desktop_admission_def and_then_Inr_iff)
  ultimately show ?thesis using assms(3) by (simp add: log_call_def desktop_screenshot_def)
qed

definition example_desktop_env :: desktop_env where
  "example_desktop_env = \<lparr>de_os = Linux, de_observation_available = Inr (), de_input_available = Inr (),
     de_call = (\<lambda>_. Inl (InputFailed, ''timed out'')), de_enable_marker = Inr (), de_snapshot = None,
     de_error_text = (\<lambda>_. []), de_base64 = Inr, de_json = (\<lambda>_. Inr JNull)\<rparr>"

definition example_desktop_session :: DesktopSession where
  "example_desktop_session = \<lparr>ds_session_id = ''desktop'', ds_marker_label = ''Agent'', ds_active = True, ds_marker_visible = True,
     ds_latest_observation_id = Some ''obs-1'', ds_calls = []\<rparr>"

definition example_desktop_command :: DriverActionCommand where
  "example_desktop_command = \<lparr>dc_tool = ''press_key'', dc_arguments = [(''session'', JStr ''desktop''),
     (''scope'', JStr ''desktop''), (''key'', JStr ''a'')]\<rparr>"

lemma example_desktop_admission:
  "desktop_admission example_desktop_env example_keypress example_desktop_session = Inr example_desktop_command"
proof -
  have "desktop_action_arguments Linux example_keypress ''desktop'' = Inr example_desktop_command"
    by (simp add: desktop_action_arguments_def driver_action_command_def driver_tool_def scope_arguments_def
        action_fields_def locator_fields_def insert_window_xy_def is_window_scope_def has_locator_def
        example_desktop_command_def example_keypress_def)
  moreover have "\<not> has_locator example_keypress" "ca_action example_keypress = ''keypress''"
    "ca_observation_id example_keypress = Some ''obs-1''"
    by (simp_all add: has_locator_def example_keypress_def)
  ultimately show ?thesis
    by (simp add: desktop_admission_def example_valid example_desktop_env_def example_desktop_session_def)
qed

theorem desktop_failure_keeps_observation_witness:
  "ds_calls (snd (desktop_perform_action example_desktop_env example_keypress
     (snd (desktop_perform_action example_desktop_env example_keypress example_desktop_session))))
   = [example_desktop_command, example_desktop_command]"
  using desktop_failure_keeps_observation [OF example_desktop_admission, of "(InputFailed, ''timed out'')"]
  by (simp add: example_desktop_env_def example_desktop_session_def)

definition example_live_env :: desktop_env where
  "example_live_env = example_desktop_env\<lparr>de_call := (\<lambda>_. Inr (Inr example_tool_answer)), de_snapshot := Some (Inr ''obs-1'')\<rparr>"

definition example_desktop_new :: DesktopSession where
  "example_desktop_new = \<lparr>ds_session_id = ''desktop'', ds_marker_label = ''Agent'', ds_active = False,
     ds_marker_visible = False, ds_latest_observation_id = None, ds_calls = []\<rparr>"

definition example_desktop_observed :: DesktopSession where
  "example_desktop_observed = example_desktop_session\<lparr>ds_calls := [start_command example_desktop_new]\<rparr>"

lemma example_desktop_run: "desktop_step\<^sup>*\<^sup>* example_desktop_new example_desktop_observed"
proof -
  let ?started = "example_desktop_observed\<lparr>ds_latest_observation_id := None\<rparr>"
  have "snd (desktop_start example_live_env example_desktop_new) = ?started"
    by (simp add: desktop_start_def call_driver_tool_def ensure_tool_ok_def log_call_def example_live_env_def
        example_desktop_env_def example_tool_answer_def example_desktop_observed_def example_desktop_session_def
        example_desktop_new_def)
  then have "desktop_step example_desktop_new ?started" using desktop_step.start by metis
  moreover have "snd (desktop_screenshot example_live_env ?started) = example_desktop_observed"
    by (simp add: desktop_screenshot_def example_live_env_def example_desktop_observed_def example_desktop_session_def)
  then have "desktop_step ?started example_desktop_observed" using desktop_step.screenshot by metis
  ultimately show ?thesis by simp
qed

theorem desktop_action_bound_witness:
  "\<exists>c. ds_calls (snd (desktop_perform_action example_live_env example_keypress example_desktop_observed))
      = [start_command example_desktop_new, c] \<and> map_of (dc_arguments c) ''scope'' = Some (JStr ''desktop'')"
proof -
  have new: "desktop_session_new ''Agent'' ''desktop'' = Inr example_desktop_new"
    by (simp add: desktop_session_new_def str_trim_graphic graphic_def example_desktop_new_def)
  obtain r s' where step: "desktop_perform_action example_live_env example_keypress example_desktop_observed = (r, s')"
    by fastforce
  have "desktop_admission example_live_env example_keypress example_desktop_observed
      = desktop_admission example_desktop_env example_keypress example_desktop_session"
    by (simp add: desktop_admission_def example_live_env_def example_desktop_observed_def)
  then have "ds_calls s' \<noteq> ds_calls example_desktop_observed"
    using step by (auto simp: desktop_perform_action_def example_desktop_admission log_call_def Let_def split: sum.splits)
  then show ?thesis using desktop_action_bound [OF new example_desktop_run step] step
    by (auto simp: example_desktop_observed_def)
qed

end
