(* ===== verification/Semantic_Profiles.thy ===== *)
theory Semantic_Profiles
  imports Action_Validation
begin

text \<open>
  Application profiles (\<open>dcc-cua-semantic-profiles/src/lib.rs\<close>): the declared surfaces, targets, flows
  and state sources of an application, their validation, how a profile matches a window, a URL and an
  element, and the inheritance of a parent profile. The URL parser and the version parser are
  parameters, and so is the Unicode table behind \<open>to_lowercase\<close>; the profiles shipped as JSON assets
  are not modelled.
\<close>

section \<open>Profiles\<close>

datatype SemanticRoute = UnrealTypedApi | Accessibility | BrowserDom | OsNativeDialog | VisualFallback
datatype DialogStyle = OsNative | HostOwned | ApplicationRendered
datatype StateSourceType = LoopbackHttpJson
datatype StateSourceMode = ReadOnly

type_synonym aliases = "(string \<times> string list) list"

record ProfileBinding =
  pb_require_exact_pid :: bool
  pb_require_exact_window_handle :: bool
  pb_require_window_version_match :: bool
  pb_fail_closed_on_ambiguity :: bool

record CapabilityProbe =
  cp_id :: string
  cp_route :: SemanticRoute
  cp_capabilities :: "string list"
  cp_optional :: bool

record ProfileFlow =
  pf_id :: string
  pf_surface_id :: string
  pf_action_target_id :: string
  pf_verify_target_id :: string
  pf_route :: SemanticRoute
  pf_requires_fresh_snapshot :: bool
  pf_requires_post_action_verification :: bool
  pf_prohibit_coordinates :: bool
  pf_prohibit_keyboard_shortcuts :: bool

record ProfileApplication =
  pa_family :: string
  pa_versions :: "string list"

record ProfileReference =
  pr_id :: string
  pr_version :: string

record StateSource =
  so_id :: string
  so_source_type :: StateSourceType
  so_mode :: StateSourceMode
  so_url :: string
  so_expected_schema_version :: string
  so_schema_version_pointer :: string
  so_tick_pointer :: string
  so_use_etag :: bool
  so_timeout_ms :: u64
  so_max_response_bytes :: u64
  so_optional :: bool

record ProfileSelector =
  sl_application_names :: "string list"
  sl_window_title_contains :: "string list"
  sl_localized_window_title_contains :: aliases
  sl_url_hosts :: "string list"

record SemanticFallback =
  sf_profile_id :: string
  sf_surface_id :: string

record SemanticTarget =
  st_id :: string
  st_label :: string
  st_role :: string
  st_names :: "string list"
  st_localized_names :: aliases
  st_automation_ids :: "string list"
  st_supported_actions :: "string list"
  st_key_bindings :: aliases
  st_fallback :: "SemanticFallback option"

record SemanticSurface =
  su_id :: string
  su_label :: string
  su_role :: string
  su_route :: SemanticRoute
  su_targets :: "SemanticTarget list"

record ProfileSettings =
  ps_dialog_style :: DialogStyle
  ps_preferred_route :: SemanticRoute
  ps_default_locale :: "string option"
  ps_destructive_confirmation_required :: bool

record SemanticProfile =
  sp_schema_version :: u32
  sp_id :: string
  sp_profile_version :: string
  sp_application :: ProfileApplication
  sp_extends :: "ProfileReference option"
  sp_display_name :: string
  sp_selectors :: "ProfileSelector list"
  sp_surfaces :: "SemanticSurface list"
  sp_state_sources :: "StateSource list"
  sp_binding :: ProfileBinding
  sp_capability_probes :: "CapabilityProbe list"
  sp_flows :: "ProfileFlow list"
  sp_settings :: ProfileSettings

definition PROFILE_SCHEMA_VERSION :: u32 where "PROFILE_SCHEMA_VERSION = 3"

datatype ProfileError =
    InvalidJson string
  | UnsupportedSchema string u32
  | MissingId
  | InvalidIdentifier string string string
  | InvalidProfileVersion string string
  | InvalidApplication string
  | InvalidParent string
  | ParentVersionMismatch string string string
  | ParentApplicationMismatch string string
  | MissingSelector string
  | DuplicateSurface string string
  | DuplicateTarget string string string
  | InvalidFallback string string
  | InvalidKeyBinding string string string
  | InvalidLocale string string
  | InvalidLocalizedAliases string string
  | DuplicateStateSource string string
  | InvalidStateSourceUrl string string
  | InvalidStateContract string string
  | InvalidStateSourceBounds string string
  | DuplicateCapabilityProbe string string
  | EmptyCapabilityProbe string string
  | InvalidCapabilityProbeRoute string string
  | DuplicateFlow string string
  | InvalidFlowReference string string
  | FlowRouteMismatch string string
  | InvalidFlowActions string string
  | UnsafeFlowPolicy string string

text \<open>
  \<open>pe_lowercase\<close> is \<open>str::to_lowercase\<close>, \<open>pe_version_ok\<close> whether \<open>semver::Version::parse\<close> accepts,
  \<open>pe_requirement\<close> a parsed \<open>VersionReq\<close> as the versions it matches.
\<close>

record state_url = url +
  host_str :: "string option"
  port :: "16 word option"

record profile_externs =
  pe_lowercase :: "string \<Rightarrow> string"
  pe_version_ok :: "string \<Rightarrow> bool"
  pe_requirement :: "string \<Rightarrow> (string \<Rightarrow> bool) option"
  pe_url_parse :: "string \<Rightarrow> state_url option"

section \<open>Text\<close>

fun split_seq :: "('a \<Rightarrow> bool) \<Rightarrow> 'a list \<Rightarrow> 'a list list" where
  "split_seq p [] = [[]]"
| "split_seq p (c # s) =
     (if p c then [] # split_seq p s
      else (case split_seq p s of [] \<Rightarrow> [[c]] | w # ws \<Rightarrow> (c # w) # ws))"

fun join_with :: "'a list \<Rightarrow> 'a list list \<Rightarrow> 'a list" where
  "join_with separator [] = []"
| "join_with separator [w] = w"
| "join_with separator (w # ws) = w @ separator @ join_with separator ws"

definition split_whitespace :: "string \<Rightarrow> string list" where
  "split_whitespace s = map utf8_encode (filter (\<lambda>w. w \<noteq> []) (split_seq is_whitespace (utf8_chars s)))"

definition normalize_text :: "profile_externs \<Rightarrow> string \<Rightarrow> string" where
  "normalize_text ex value = pe_lowercase ex (join_with '' '' (split_whitespace value))"

definition version_separator :: "nat \<Rightarrow> bool" where
  "version_separator c \<longleftrightarrow> \<not> (c < 128 \<and> is_ascii_alphanumeric (char_of c)) \<and> c \<noteq> 46"

definition contains_version_token :: "string \<Rightarrow> string \<Rightarrow> bool" where
  "contains_version_token value version \<longleftrightarrow>
     list_ex (\<lambda>token. eq_ignore_ascii_case (utf8_encode token) version) (split_seq version_separator (utf8_chars value))"

definition is_ascii_letter :: "char \<Rightarrow> bool" where
  "is_ascii_letter c \<longleftrightarrow> is_ascii_alphanumeric c \<and> \<not> is_ascii_digit c"

definition valid_locale_tag :: "string \<Rightarrow> bool" where
  "valid_locale_tag value \<longleftrightarrow>
     value \<noteq> [] \<and> length value \<le> 35 \<and> str_trim value = value
     \<and> (case split_on (\<lambda>c. c = CHR ''-'') value of
          [] \<Rightarrow> False
        | language # parts \<Rightarrow>
          2 \<le> length language \<and> length language \<le> 8 \<and> list_all is_ascii_letter language
          \<and> list_all (\<lambda>part. 1 \<le> length part \<and> length part \<le> 8 \<and> list_all is_ascii_alphanumeric part) parts)"

definition identifier_char :: "char \<Rightarrow> bool" where
  "identifier_char c \<longleftrightarrow> is_ascii_lowercase c \<or> is_ascii_digit c \<or> c \<in> {CHR ''-'', CHR ''_'', CHR ''.''}"

definition validate_identifier :: "string \<Rightarrow> string \<Rightarrow> string \<Rightarrow> ProfileError + unit" where
  "validate_identifier profile_id value field =
     guard (value = [] \<or> 80 < length value \<or> \<not> list_all identifier_char value)
       (InvalidIdentifier profile_id field value)"

definition valid_json_pointer :: "string \<Rightarrow> bool" where
  "valid_json_pointer pointer \<longleftrightarrow>
     pointer \<noteq> [] \<and> length pointer \<le> 256 \<and> starts_with ''/'' pointer \<and> \<not> has_control pointer"

definition validate_localized_aliases :: "string \<Rightarrow> aliases \<Rightarrow> ProfileError + unit" where
  "validate_localized_aliases profile_id =
     all_ok (\<lambda>(locale, values).
       and_then (guard (\<not> valid_locale_tag locale) (InvalidLocale profile_id locale)) (\<lambda>_.
         guard (values = [] \<or> list_ex (\<lambda>value. str_trim value = []) values)
           (InvalidLocalizedAliases profile_id locale)))"

section \<open>Validation\<close>

definition supports_action :: "SemanticTarget \<Rightarrow> string \<Rightarrow> bool" where
  "supports_action t action \<longleftrightarrow> list_ex (\<lambda>candidate. eq_ignore_ascii_case candidate action) (st_supported_actions t)"

definition key_binding :: "SemanticTarget \<Rightarrow> string \<Rightarrow> string list option" where
  "key_binding t action =
     map_option snd (find (\<lambda>(candidate, keys). eq_ignore_ascii_case candidate action) (st_key_bindings t))"

definition state_source_validate :: "profile_externs \<Rightarrow> string \<Rightarrow> StateSource \<Rightarrow> ProfileError + unit" where
  "state_source_validate ex profile_id s =
     (case pe_url_parse ex (so_url s) of
        None \<Rightarrow> Inl (InvalidStateSourceUrl profile_id (so_id s))
      | Some u \<Rightarrow>
        and_then (guard (so_source_type s \<noteq> LoopbackHttpJson \<or> so_mode s \<noteq> ReadOnly \<or> scheme u \<noteq> ''http''
            \<or> host_str u \<notin> {Some ''127.0.0.1'', Some ''[::1]'', Some ''::1''}
            \<or> port u = None \<or> username u \<noteq> [] \<or> password u \<noteq> None \<or> query u \<noteq> None \<or> fragment u \<noteq> None)
          (InvalidStateSourceUrl profile_id (so_id s))) (\<lambda>_.
        and_then (guard (str_trim (so_expected_schema_version s) = [] \<or> 64 < length (so_expected_schema_version s)
            \<or> \<not> valid_json_pointer (so_schema_version_pointer s) \<or> \<not> valid_json_pointer (so_tick_pointer s))
          (InvalidStateContract profile_id (so_id s))) (\<lambda>_.
        guard (\<not> (50 \<le> so_timeout_ms s \<and> so_timeout_ms s \<le> 10000)
            \<or> \<not> (1024 \<le> so_max_response_bytes s \<and> so_max_response_bytes s \<le> 8 * 1024 * 1024))
          (InvalidStateSourceBounds profile_id (so_id s)))))"

text \<open>A loop that checks an identifier, then refuses a repeated one, then looks at the entry.\<close>

fun each_fresh ::
  "('a \<Rightarrow> string) \<Rightarrow> ('a \<Rightarrow> 'e + unit) \<Rightarrow> ('a \<Rightarrow> 'e) \<Rightarrow> ('a \<Rightarrow> 'e + unit) \<Rightarrow> string list \<Rightarrow> 'a list \<Rightarrow> 'e + unit" where
  "each_fresh key identifier duplicate body seen [] = Inr ()"
| "each_fresh key identifier duplicate body seen (x # xs) =
     and_then (identifier x) (\<lambda>_.
     and_then (guard (key x \<in> set seen) (duplicate x)) (\<lambda>_.
     and_then (body x) (\<lambda>_. each_fresh key identifier duplicate body (key x # seen) xs)))"

definition has_titles :: "ProfileSelector \<Rightarrow> bool" where
  "has_titles sl \<longleftrightarrow> sl_window_title_contains sl \<noteq> []
     \<or> list_ex (\<lambda>(locale, values). values \<noteq> []) (sl_localized_window_title_contains sl)"

definition has_selector :: "SemanticProfile \<Rightarrow> bool" where
  "has_selector p \<longleftrightarrow>
     list_ex (\<lambda>sl. sl_application_names sl \<noteq> [] \<or> has_titles sl \<or> sl_url_hosts sl \<noteq> []) (sp_selectors p)"

definition profile_surface :: "SemanticProfile \<Rightarrow> string \<Rightarrow> SemanticSurface option" where
  "profile_surface p surface_id = find (\<lambda>surface. su_id surface = surface_id) (sp_surfaces p)"

definition validate_profile_target :: "string \<Rightarrow> SemanticTarget \<Rightarrow> ProfileError + unit" where
  "validate_profile_target profile_id t =
     and_then (case st_fallback t of
         None \<Rightarrow> Inr ()
       | Some fallback \<Rightarrow>
         and_then (validate_identifier profile_id (sf_profile_id fallback) ''surfaces[].targets[].fallback.profile_id'') (\<lambda>_.
           validate_identifier profile_id (sf_surface_id fallback) ''surfaces[].targets[].fallback.surface_id'')) (\<lambda>_.
     and_then (all_ok (\<lambda>(action, keys).
         guard (\<not> supports_action t action \<or> keys = [] \<or> 4 < length keys
             \<or> list_ex (\<lambda>key. key = [] \<or> 32 < char_count key) keys)
           (InvalidKeyBinding profile_id (st_id t) action)) (st_key_bindings t)) (\<lambda>_.
       validate_localized_aliases profile_id (st_localized_names t)))"

definition validate_surface :: "string \<Rightarrow> SemanticSurface \<Rightarrow> ProfileError + unit" where
  "validate_surface profile_id surface =
     each_fresh st_id (\<lambda>t. validate_identifier profile_id (st_id t) ''surfaces[].targets[].id'')
       (\<lambda>t. DuplicateTarget profile_id (su_id surface) (st_id t)) (validate_profile_target profile_id) [] (su_targets surface)"

definition validate_probe :: "string \<Rightarrow> CapabilityProbe \<Rightarrow> ProfileError + unit" where
  "validate_probe profile_id probe =
     and_then (guard (cp_capabilities probe = []
         \<or> list_ex (\<lambda>capability. str_trim capability = [] \<or> 128 < length capability) (cp_capabilities probe))
       (EmptyCapabilityProbe profile_id (cp_id probe))) (\<lambda>_.
     guard (cp_route probe \<notin> {BrowserDom, Accessibility}) (InvalidCapabilityProbeRoute profile_id (cp_id probe)))"

definition validate_flow :: "SemanticProfile \<Rightarrow> ProfileFlow \<Rightarrow> ProfileError + unit" where
  "validate_flow p flow =
     (case profile_surface p (pf_surface_id flow) of
        None \<Rightarrow> Inl (InvalidFlowReference (sp_id p) (pf_id flow))
      | Some surface \<Rightarrow>
        (case (find (\<lambda>t. st_id t = pf_action_target_id flow) (su_targets surface),
               find (\<lambda>t. st_id t = pf_verify_target_id flow) (su_targets surface)) of
           (Some action_target, Some verify_target) \<Rightarrow>
             and_then (guard (\<not> supports_action action_target ''click'' \<or> \<not> supports_action verify_target ''verify'')
               (InvalidFlowActions (sp_id p) (pf_id flow))) (\<lambda>_.
             and_then (guard (su_route surface \<noteq> pf_route flow) (FlowRouteMismatch (sp_id p) (pf_id flow))) (\<lambda>_.
             guard (\<not> pf_requires_fresh_snapshot flow \<or> \<not> pf_requires_post_action_verification flow
                 \<or> \<not> pf_prohibit_coordinates flow \<or> \<not> pf_prohibit_keyboard_shortcuts flow)
               (UnsafeFlowPolicy (sp_id p) (pf_id flow))))
         | _ \<Rightarrow> Inl (InvalidFlowReference (sp_id p) (pf_id flow))))"

definition validate_heading :: "profile_externs \<Rightarrow> SemanticProfile \<Rightarrow> ProfileError + unit" where
  "validate_heading ex p =
     and_then (guard (sp_schema_version p \<noteq> PROFILE_SCHEMA_VERSION) (UnsupportedSchema (sp_id p) (sp_schema_version p))) (\<lambda>_.
     and_then (guard (str_trim (sp_id p) = []) MissingId) (\<lambda>_.
     and_then (validate_identifier (sp_id p) (sp_id p) ''id'') (\<lambda>_.
     and_then (guard (\<not> pe_version_ok ex (sp_profile_version p))
       (InvalidProfileVersion (sp_id p) (sp_profile_version p))) (\<lambda>_.
     and_then (guard (str_trim (pa_family (sp_application p)) = [] \<or> 80 < char_count (pa_family (sp_application p))
         \<or> list_ex (\<lambda>version. str_trim version = [] \<or> 32 < char_count version) (pa_versions (sp_application p)))
       (InvalidApplication (sp_id p))) (\<lambda>_.
     and_then (guard (is_some_and (sp_extends p) (\<lambda>parent.
         str_trim (pr_id parent) = [] \<or> pr_id parent = sp_id p \<or> pe_requirement ex (pr_version parent) = None))
       (InvalidParent (sp_id p))) (\<lambda>_.
     and_then (guard (\<not> has_selector p \<and> sp_extends p = None) (MissingSelector (sp_id p))) (\<lambda>_.
     case ps_default_locale (sp_settings p) of
       None \<Rightarrow> Inr ()
     | Some locale \<Rightarrow> guard (\<not> valid_locale_tag locale) (InvalidLocale (sp_id p) locale))))))))"

definition profile_validate :: "profile_externs \<Rightarrow> SemanticProfile \<Rightarrow> ProfileError + unit" where
  "profile_validate ex p =
     and_then (validate_heading ex p) (\<lambda>_.
     and_then (all_ok (\<lambda>sl. validate_localized_aliases (sp_id p) (sl_localized_window_title_contains sl)) (sp_selectors p)) (\<lambda>_.
     and_then (each_fresh so_id (\<lambda>s. validate_identifier (sp_id p) (so_id s) ''state_sources[].id'')
       (\<lambda>s. DuplicateStateSource (sp_id p) (so_id s)) (state_source_validate ex (sp_id p)) [] (sp_state_sources p)) (\<lambda>_.
     and_then (each_fresh su_id (\<lambda>s. validate_identifier (sp_id p) (su_id s) ''surfaces[].id'')
       (\<lambda>s. DuplicateSurface (sp_id p) (su_id s)) (validate_surface (sp_id p)) [] (sp_surfaces p)) (\<lambda>_.
     and_then (each_fresh cp_id (\<lambda>c. validate_identifier (sp_id p) (cp_id c) ''capability_probes[].id'')
       (\<lambda>c. DuplicateCapabilityProbe (sp_id p) (cp_id c)) (validate_probe (sp_id p)) [] (sp_capability_probes p)) (\<lambda>_.
     each_fresh pf_id (\<lambda>f. validate_identifier (sp_id p) (pf_id f) ''flows[].id'')
       (\<lambda>f. DuplicateFlow (sp_id p) (pf_id f)) (validate_flow p) [] (sp_flows p))))))"

section \<open>Matching\<close>

definition window_selector :: "profile_externs \<Rightarrow> string \<Rightarrow> string \<Rightarrow> ProfileSelector \<Rightarrow> bool" where
  "window_selector ex application_name window_title sl \<longleftrightarrow>
     \<not> (sl_application_names sl = [] \<and> \<not> has_titles sl)
     \<and> (sl_application_names sl = []
        \<or> list_ex (\<lambda>name. normalize_text ex name = normalize_text ex application_name) (sl_application_names sl))
     \<and> (\<not> has_titles sl
        \<or> list_ex (\<lambda>value. str_contains (normalize_text ex value) (normalize_text ex window_title))
            (sl_window_title_contains sl @ concat (map snd (sl_localized_window_title_contains sl))))"

definition profile_matches_window :: "profile_externs \<Rightarrow> SemanticProfile \<Rightarrow> string \<Rightarrow> string \<Rightarrow> bool" where
  "profile_matches_window ex p application_name window_title \<longleftrightarrow>
     list_ex (window_selector ex application_name window_title) (sp_selectors p)
     \<and> (pa_versions (sp_application p) = []
        \<or> list_ex (\<lambda>version. contains_version_token application_name version \<or> contains_version_token window_title version)
            (pa_versions (sp_application p)))"

definition matches_bound_window ::
  "profile_externs \<Rightarrow> SemanticProfile \<Rightarrow> string \<Rightarrow> string \<Rightarrow> u32 option \<Rightarrow> u64 option \<Rightarrow> string option \<Rightarrow> bool" where
  "matches_bound_window ex p application_name window_title process_id window_handle window_version \<longleftrightarrow>
     profile_matches_window ex p application_name window_title
     \<and> (\<not> pb_require_exact_pid (sp_binding p) \<or> is_some_and process_id (\<lambda>value. value \<noteq> 0))
     \<and> (\<not> pb_require_exact_window_handle (sp_binding p) \<or> is_some_and window_handle (\<lambda>value. value \<noteq> 0))
     \<and> (\<not> pb_require_window_version_match (sp_binding p) \<or> is_some_and window_version (\<lambda>value. str_trim value \<noteq> []))
     \<and> (pa_versions (sp_application p) = []
        \<or> is_some_and window_version (\<lambda>version. list_ex (contains_version_token version) (pa_versions (sp_application p))))"

function trim_start_www :: "string \<Rightarrow> string" where
  "trim_start_www s = (if starts_with ''www.'' s then trim_start_www (drop 4 s) else s)"
  by pat_completeness auto
termination
proof (relation "measure length")
  show "(drop 4 s, s) \<in> measure length" if "starts_with ''www.'' s" for s
    using that by (cases s) (simp_all add: starts_with_def)
qed simp

declare trim_start_www.simps [simp del]

definition normalize_host :: "string \<Rightarrow> string" where
  "normalize_host value = to_ascii_lowercase (trim_start_www (str_trim value))"

fun after_first :: "string \<Rightarrow> string \<Rightarrow> string option" where
  "after_first p [] = (if p = [] then Some [] else None)"
| "after_first p (c # s) = (if starts_with p (c # s) then Some (drop (length p) (c # s)) else after_first p s)"

definition url_host :: "string \<Rightarrow> string" where
  "url_host u =
     (let authority = (case after_first ''://'' u of None \<Rightarrow> u | Some rest \<Rightarrow> rest)
      in normalize_host (hd (split_on (\<lambda>c. c = CHR '':'') (hd (split_on slash authority)))))"

definition matches_url :: "SemanticProfile \<Rightarrow> string \<Rightarrow> bool" where
  "matches_url p u \<longleftrightarrow>
     url_host u \<noteq> []
     \<and> list_ex (\<lambda>sl. list_ex (\<lambda>candidate.
           url_host u = normalize_host candidate \<or> ends_with (CHR ''.'' # normalize_host candidate) (url_host u))
         (sl_url_hosts sl)) (sp_selectors p)"

definition matches_element :: "profile_externs \<Rightarrow> SemanticTarget \<Rightarrow> json \<Rightarrow> bool" where
  "matches_element ex t element =
     (let values = map (normalize_text ex) (List.map_filter (\<lambda>field. as_str (json_index element field))
            [''name'', ''text'', ''value'', ''automation_id'']);
          role = unwrap_or (as_str (json_index element ''role'')) [];
          automation_id = unwrap_or (as_str (json_index element ''automation_id'')) [];
          role_matches = (normalize_text ex (st_role t) = normalize_text ex role);
          has_names = (st_names t \<noteq> [] \<or> list_ex (\<lambda>(locale, names). names \<noteq> []) (st_localized_names t));
          name_matches = list_ex (\<lambda>name. normalize_text ex name \<in> set values)
            (st_names t @ concat (map snd (st_localized_names t)));
          automation_matches = list_ex (\<lambda>i. normalize_text ex i = normalize_text ex automation_id) (st_automation_ids t)
      in if \<not> has_names \<and> st_automation_ids t = [] then role_matches
         else role_matches \<and> (name_matches \<or> automation_matches))"

definition state_source :: "SemanticProfile \<Rightarrow> string \<Rightarrow> StateSource option" where
  "state_source p source_id = find (\<lambda>source. eq_ignore_ascii_case (so_id source) source_id) (sp_state_sources p)"

definition target_named :: "profile_externs \<Rightarrow> string \<Rightarrow> SemanticTarget \<Rightarrow> bool" where
  "target_named ex q t \<longleftrightarrow>
     eq_ignore_ascii_case (st_id t) q
     \<or> str_contains q (normalize_text ex (st_label t))
     \<or> list_ex (\<lambda>name. normalize_text ex name = q) (st_names t @ concat (map snd (st_localized_names t)))
     \<or> list_ex (\<lambda>automation_id. normalize_text ex automation_id = q) (st_automation_ids t)"

definition profile_resolve_target :: "profile_externs \<Rightarrow> SemanticProfile \<Rightarrow> string \<Rightarrow> string \<Rightarrow> SemanticTarget option" where
  "profile_resolve_target ex p surface_id q =
     Option.bind (profile_surface p surface_id) (\<lambda>surface. find (target_named ex (normalize_text ex q)) (su_targets surface))"

definition find_elements :: "profile_externs \<Rightarrow> SemanticProfile \<Rightarrow> string \<Rightarrow> json \<Rightarrow> string \<Rightarrow> json list" where
  "find_elements ex p surface_id root q =
     (case profile_resolve_target ex p surface_id q of
        None \<Rightarrow> []
      | Some t \<Rightarrow> filter (matches_element ex t) (unwrap_or (as_array (json_index root ''elements'')) []))"

definition find_unique_element :: "profile_externs \<Rightarrow> SemanticProfile \<Rightarrow> string \<Rightarrow> json \<Rightarrow> string \<Rightarrow> json option" where
  "find_unique_element ex p surface_id root q =
     (case find_elements ex p surface_id root q of [element] \<Rightarrow> Some element | _ \<Rightarrow> None)"

section \<open>Inheritance\<close>

text \<open>Replace the first entry with the key of \<open>value\<close>, or add \<open>value\<close> at the end.\<close>

fun upsert :: "('a \<Rightarrow> string) \<Rightarrow> ('a \<Rightarrow> 'a \<Rightarrow> 'a) \<Rightarrow> 'a \<Rightarrow> 'a list \<Rightarrow> 'a list" where
  "upsert key combine value [] = [value]"
| "upsert key combine value (x # xs) =
     (if key x = key value then combine x value # xs else x # upsert key combine value xs)"

definition merge_by_id :: "('a \<Rightarrow> string) \<Rightarrow> 'a list \<Rightarrow> 'a list \<Rightarrow> 'a list" where
  "merge_by_id key parent child = fold (upsert key (\<lambda>_ value. value)) child parent"

definition merge_surface :: "SemanticSurface \<Rightarrow> SemanticSurface \<Rightarrow> SemanticSurface" where
  "merge_surface inherited surface = surface\<lparr>su_targets := merge_by_id st_id (su_targets inherited) (su_targets surface)\<rparr>"

definition merge_surfaces :: "SemanticSurface list \<Rightarrow> SemanticSurface list \<Rightarrow> SemanticSurface list" where
  "merge_surfaces parent child = fold (upsert su_id merge_surface) child parent"

definition merge_profile :: "SemanticProfile \<Rightarrow> SemanticProfile \<Rightarrow> SemanticProfile" where
  "merge_profile parent child =
     child\<lparr>sp_selectors := (if sp_selectors child = [] then sp_selectors parent else sp_selectors child),
       sp_state_sources := merge_by_id so_id (sp_state_sources parent) (sp_state_sources child),
       sp_surfaces := merge_surfaces (sp_surfaces parent) (sp_surfaces child)\<rparr>"

definition resolve_profile :: "profile_externs \<Rightarrow> SemanticProfile \<Rightarrow> SemanticProfile \<Rightarrow> ProfileError + SemanticProfile" where
  "resolve_profile ex parent child =
     and_then (profile_validate ex parent) (\<lambda>_.
     and_then (profile_validate ex child) (\<lambda>_.
     case sp_extends child of
       None \<Rightarrow> Inr child
     | Some reference \<Rightarrow>
       (case pe_requirement ex (pr_version reference) of
          None \<Rightarrow> Inl (InvalidParent (sp_id child))
        | Some requirement \<Rightarrow>
          and_then (guard (\<not> pe_version_ok ex (sp_profile_version parent))
            (InvalidProfileVersion (sp_id parent) (sp_profile_version parent))) (\<lambda>_.
          and_then (guard (pr_id reference \<noteq> sp_id parent \<or> \<not> requirement (sp_profile_version parent))
            (ParentVersionMismatch (sp_id child) (pr_id reference) (pr_version reference))) (\<lambda>_.
          and_then (guard (\<not> eq_ignore_ascii_case (pa_family (sp_application child)) (pa_family (sp_application parent)))
            (ParentApplicationMismatch (sp_id child) (pa_family (sp_application parent)))) (\<lambda>_.
          and_then (profile_validate ex (merge_profile parent child)) (\<lambda>_.
            Inr (merge_profile parent child))))))))"

section \<open>Merging by id\<close>

lemma each_fresh_Inr [result_simps]:
  "each_fresh key identifier duplicate body seen xs = Inr u \<longleftrightarrow>
     (\<forall>x\<in>set xs. identifier x = Inr () \<and> body x = Inr ()) \<and> distinct (map key xs) \<and> set (map key xs) \<inter> set seen = {}"
  by (induction xs arbitrary: seen) (auto simp: and_then_Inr_iff)

lemma find_by_key: "distinct (map key xs) \<Longrightarrow> find (\<lambda>x. key x = k) xs = map_of (map (\<lambda>x. (key x, x)) xs) k"
  by (induction xs) auto

lemma upsert_new: "key v \<notin> key ` set xs \<Longrightarrow> upsert key f v xs = xs @ [v]"
  by (induction xs) auto

lemma upsert_old: "distinct (map key xs) \<Longrightarrow> key v \<in> key ` set xs \<Longrightarrow>
  upsert key f v xs = map (\<lambda>x. if key x = key v then f x v else x) xs"
proof (induction xs)
  case (Cons x xs)
  then have "map (\<lambda>x. if key x = key v then f x v else x) xs = xs" if "key x = key v"
    using that by (intro map_idI) (auto intro: rev_image_eqI)
  with Cons show ?case by auto
qed simp

text \<open>An inherited entry, replaced by the own entry with its key if there is one.\<close>

definition own_entry :: "('a \<Rightarrow> string) \<Rightarrow> ('a \<Rightarrow> 'a \<Rightarrow> 'a) \<Rightarrow> 'a list \<Rightarrow> 'a \<Rightarrow> 'a" where
  "own_entry key combine child x = (case find (\<lambda>y. key y = key x) child of Some y \<Rightarrow> combine x y | None \<Rightarrow> x)"

lemma find_append_case: "find P (xs @ ys) = (case find P xs of Some x \<Rightarrow> Some x | None \<Rightarrow> find P ys)"
  by (induction xs) auto

lemma find_fresh: "key x \<notin> key ` set xs \<Longrightarrow> find (\<lambda>y. key y = key x) xs = None"
  by (induction xs) auto

lemma own_entry_snoc:
  "key v \<notin> key ` set child \<Longrightarrow> own_entry key combine (child @ [v]) x =
     (if key x = key v then combine x v else own_entry key combine child x)"
proof -
  assume fresh: "key v \<notin> key ` set child"
  have "find (\<lambda>y. key y = key v) child = None"
    using fresh by (rule find_fresh)
  then show ?thesis by (auto simp: own_entry_def find_append_case split: option.splits)
qed

lemma own_entry_same: "key x \<notin> key ` set child \<Longrightarrow> own_entry key combine child x = x"
  by (simp add: own_entry_def find_fresh)

text \<open>
  The contract of the two merges: the combination of an inherited and an own entry keeps the key,
  and an entry combined with itself, or combined once more, stays as it is.
\<close>

locale keyed_merge =
  fixes key :: "'a \<Rightarrow> string" and combine :: "'a \<Rightarrow> 'a \<Rightarrow> 'a" and valid :: "'a \<Rightarrow> bool"
  assumes combine_key: "key x = key y \<Longrightarrow> key (combine x y) = key y"
    and combine_again: "valid x \<Longrightarrow> valid y \<Longrightarrow> combine x (combine x y) = combine x y"
    and combine_self: "valid x \<Longrightarrow> combine x x = x"
begin

lemma own_key [simp]: "key (own_entry key combine child x) = key x"
  by (auto simp: own_entry_def find_Some_iff combine_key split: option.splits)

lemma merge_closed:
  assumes "distinct (map key parent)" "distinct (map key child)"
  shows "fold (upsert key combine) child parent =
    map (own_entry key combine child) parent @ filter (\<lambda>y. key y \<notin> key ` set parent) child"
  using assms
proof (induction child rule: rev_induct)
  case Nil
  then show ?case by (simp add: own_entry_def)
next
  case (snoc v child)
  let ?old = "map (own_entry key combine child) parent" and ?new = "filter (\<lambda>y. key y \<notin> key ` set parent) child"
  let ?put = "\<lambda>x. if key x = key v then combine x v else x"
  have step: "fold (upsert key combine) (child @ [v]) parent = upsert key combine v (?old @ ?new)"
    using snoc by simp
  have fresh: "key v \<notin> key ` set child" using snoc.prems by simp
  have keys: "key ` set (?old @ ?new) = key ` set parent \<union> key ` set ?new"
    by (simp only: set_append set_map image_Un image_image own_key)
  show ?case
  proof (cases "key v \<in> key ` set parent")
    case True
    have "map key (?old @ ?new) = map key parent @ map key ?new" by simp
    moreover have "distinct (map key parent @ map key ?new)"
      using snoc.prems by (auto simp: distinct_map_filter) (metis image_eqI)
    ultimately have "distinct (map key (?old @ ?new))" by (simp only:)
    then have "upsert key combine v (?old @ ?new) = map ?put (?old @ ?new)"
      using True keys by (intro upsert_old) auto
    moreover have "map ?put ?new = ?new"
      using fresh by (intro map_idI) (auto intro: rev_image_eqI)
    moreover have "own_entry key combine child x = x" if "key x = key v" for x
      using that fresh by (simp add: own_entry_same)
    then have "map ?put ?old = map (own_entry key combine (child @ [v])) parent"
      using fresh by (simp add: own_entry_snoc)
    ultimately show ?thesis using True step by simp
  next
    case False
    then have "key v \<notin> key ` set (?old @ ?new)" using keys fresh by auto
    then have "upsert key combine v (?old @ ?new) = (?old @ ?new) @ [v]" by (rule upsert_new)
    moreover have "map (own_entry key combine (child @ [v])) parent = ?old"
      using False fresh by (intro map_cong refl) (auto simp: own_entry_snoc intro: rev_image_eqI)
    ultimately show ?thesis using False step by simp
  qed
qed

lemma merge_keys:
  assumes "distinct (map key parent)" "distinct (map key child)"
  shows "map key (fold (upsert key combine) child parent) =
    map key parent @ filter (\<lambda>k. k \<notin> key ` set parent) (map key child)"
  unfolding merge_closed [OF assms] by (simp add: filter_map o_def)

lemma merge_distinct:
  assumes "distinct (map key parent)" "distinct (map key child)"
  shows "distinct (map key (fold (upsert key combine) child parent))"
  unfolding merge_keys [OF assms] using assms by auto

lemma find_map_own:
  "find (\<lambda>x. key x = k) (map (own_entry key combine child) xs) =
     map_option (own_entry key combine child) (find (\<lambda>x. key x = k) xs)"
  by (induction xs) auto

text \<open>An entry of the result: the own one over the inherited one.\<close>

lemma merge_find:
  assumes "distinct (map key parent)" "distinct (map key child)"
  shows "find (\<lambda>x. key x = k) (fold (upsert key combine) child parent) =
    (case find (\<lambda>x. key x = k) parent of
       None \<Rightarrow> find (\<lambda>x. key x = k) child
     | Some x \<Rightarrow> Some (case find (\<lambda>y. key y = k) child of None \<Rightarrow> x | Some y \<Rightarrow> combine x y))"
proof (cases "find (\<lambda>x. key x = k) parent")
  case None
  then have absent: "k \<notin> key ` set parent" by (auto simp: find_None_iff)
  then have "find (\<lambda>x. key x = k) (filter (\<lambda>y. key y \<notin> key ` set parent) child) = find (\<lambda>x. key x = k) child"
    by (induction child) auto
  then show ?thesis
    unfolding merge_closed [OF assms] by (simp add: find_append_case find_map_own None)
next
  case (Some x)
  then have "key x = k" by (auto simp: find_Some_iff)
  then show ?thesis
    unfolding merge_closed [OF assms] by (simp add: find_append_case find_map_own Some own_entry_def split: option.splits)
qed

lemma merge_again:
  assumes "distinct (map key parent)" "distinct (map key child)" "list_all valid parent" "list_all valid child"
  shows "fold (upsert key combine) (fold (upsert key combine) child parent) parent = fold (upsert key combine) child parent"
proof -
  let ?m = "fold (upsert key combine) child parent"
  let ?new = "filter (\<lambda>y. key y \<notin> key ` set parent) child"
  have "own_entry key combine ?m x = own_entry key combine child x" if x: "x \<in> set parent" for x
  proof -
    have inherited: "find (\<lambda>y. key y = key x) parent = Some x"
      using assms(1) x by (induction parent) auto
    have "valid x" using assms(3) x by (simp add: list_all_iff)
    moreover have "valid y" if "find (\<lambda>y. key y = key x) child = Some y" for y
      using that assms(4) by (auto simp: find_Some_iff list_all_length)
    ultimately show ?thesis
      by (simp add: own_entry_def merge_find [OF assms(1,2)] inherited combine_again combine_self split: option.splits)
  qed
  then have "map (own_entry key combine ?m) parent = map (own_entry key combine child) parent" by simp
  moreover have "filter (\<lambda>y. key y \<notin> key ` set parent) ?m = ?new"
    unfolding merge_closed [OF assms(1,2)] by (auto simp: filter_empty_conv)
  ultimately show ?thesis
    using merge_closed [OF assms(1) merge_distinct [OF assms(1,2)]] merge_closed [OF assms(1,2)] by simp
qed

end

interpretation by_id: keyed_merge key "\<lambda>_ v. v" "\<lambda>_. True" for key
  by unfold_locales simp_all

lemma merge_by_id_self:
  assumes "distinct (map key xs)"
  shows "merge_by_id key xs xs = xs"
proof -
  have "own_entry key (\<lambda>_ v. v) xs x = x" if "x \<in> set xs" for x
    using assms that by (induction xs) (auto simp: own_entry_def)
  then show ?thesis
    unfolding merge_by_id_def by_id.merge_closed [OF assms assms] by (simp add: map_idI)
qed

definition surface_wf :: "SemanticSurface \<Rightarrow> bool" where
  "surface_wf s \<longleftrightarrow> distinct (map st_id (su_targets s))"

interpretation by_surface: keyed_merge su_id merge_surface surface_wf
proof unfold_locales
  show "merge_surface x (merge_surface x y) = merge_surface x y" if "surface_wf x" "surface_wf y" for x y
    using that by (simp add: merge_surface_def merge_by_id_def by_id.merge_again surface_wf_def list_all_iff)
qed (simp_all add: merge_surface_def surface_wf_def merge_by_id_self)

section \<open>Valid profiles\<close>

definition profile_target :: "SemanticProfile \<Rightarrow> string \<Rightarrow> string \<Rightarrow> SemanticTarget option" where
  "profile_target p surface_id target_id =
     Option.bind (profile_surface p surface_id) (\<lambda>s. find (\<lambda>t. st_id t = target_id) (su_targets s))"

lemma valid_profile:
  assumes "profile_validate ex p = Inr ()"
  shows "distinct (map so_id (sp_state_sources p))" "distinct (map su_id (sp_surfaces p))"
    and "list_all surface_wf (sp_surfaces p)"
    and "\<And>s. s \<in> set (sp_state_sources p) \<Longrightarrow> state_source_validate ex (sp_id p) s = Inr ()"
    and "\<And>f. f \<in> set (sp_flows p) \<Longrightarrow> validate_flow p f = Inr ()"
    and "\<And>c. c \<in> set (sp_capability_probes p) \<Longrightarrow> validate_probe (sp_id p) c = Inr ()"
  using assms unfolding profile_validate_def and_then_Inr_iff each_fresh_Inr
  by (auto simp: list_all_iff surface_wf_def validate_surface_def each_fresh_Inr)

lemma valid_flow:
  assumes "profile_validate ex p = Inr ()" "f \<in> set (sp_flows p)"
  obtains a v where "profile_target p (pf_surface_id f) (pf_action_target_id f) = Some a" "supports_action a ''click''"
    and "profile_target p (pf_surface_id f) (pf_verify_target_id f) = Some v" "supports_action v ''verify''"
    and "map_option su_route (profile_surface p (pf_surface_id f)) = Some (pf_route f)"
    and "pf_requires_fresh_snapshot f" "pf_requires_post_action_verification f"
    and "pf_prohibit_coordinates f" "pf_prohibit_keyboard_shortcuts f"
  using valid_profile(5) [OF assms]
  by (auto simp: validate_flow_def profile_target_def and_then_Inr_iff split: option.splits)

lemma unique_by_key:
  assumes "distinct (map key xs)" "find (\<lambda>x. key x = k) xs = Some x"
  shows "\<exists>!y. y \<in> set xs \<and> key y = k"
  using assms by (induction xs) (auto split: if_splits intro: rev_image_eqI)

section \<open>What validation promises\<close>

definition flow_fenced :: "SemanticProfile \<Rightarrow> ProfileFlow \<Rightarrow> bool" where
  "flow_fenced p f \<longleftrightarrow> (\<exists>surface. profile_surface p (pf_surface_id f) = Some surface
     \<and> (\<exists>!s. s \<in> set (sp_surfaces p) \<and> su_id s = pf_surface_id f) \<and> su_route surface = pf_route f
     \<and> (\<exists>!t. t \<in> set (su_targets surface) \<and> st_id t = pf_action_target_id f)
     \<and> (\<exists>!t. t \<in> set (su_targets surface) \<and> st_id t = pf_verify_target_id f)
     \<and> is_some_and (profile_target p (pf_surface_id f) (pf_action_target_id f)) (\<lambda>t. supports_action t ''click'')
     \<and> is_some_and (profile_target p (pf_surface_id f) (pf_verify_target_id f)) (\<lambda>t. supports_action t ''verify'')
     \<and> pf_requires_fresh_snapshot f \<and> pf_requires_post_action_verification f
     \<and> pf_prohibit_coordinates f \<and> pf_prohibit_keyboard_shortcuts f)"

definition source_fenced :: "profile_externs \<Rightarrow> StateSource \<Rightarrow> bool" where
  "source_fenced ex s \<longleftrightarrow> (\<exists>u. pe_url_parse ex (so_url s) = Some u \<and> scheme u = ''http''
     \<and> host_str u \<in> {Some ''127.0.0.1'', Some ''[::1]'', Some ''::1''} \<and> port u \<noteq> None
     \<and> username u = [] \<and> password u = None \<and> query u = None \<and> fragment u = None
     \<and> unat (so_timeout_ms s) \<le> 10000 \<and> unat (so_max_response_bytes s) \<le> 8388608)"

lemma flow_fencedI:
  assumes "profile_validate ex p = Inr ()" "f \<in> set (sp_flows p)"
  shows "flow_fenced p f"
proof -
  from valid_flow [OF assms] obtain a v where flow:
    "profile_target p (pf_surface_id f) (pf_action_target_id f) = Some a" "supports_action a ''click''"
    "profile_target p (pf_surface_id f) (pf_verify_target_id f) = Some v" "supports_action v ''verify''"
    "map_option su_route (profile_surface p (pf_surface_id f)) = Some (pf_route f)"
    "pf_requires_fresh_snapshot f" "pf_requires_post_action_verification f"
    "pf_prohibit_coordinates f" "pf_prohibit_keyboard_shortcuts f" .
  from flow(5) obtain surface where surface: "profile_surface p (pf_surface_id f) = Some surface"
    and route: "su_route surface = pf_route f" by auto
  have own: "surface \<in> set (sp_surfaces p)"
    using surface by (auto simp: profile_surface_def find_Some_iff)
  then have targets: "distinct (map st_id (su_targets surface))"
    using valid_profile(3) [OF assms(1)] by (simp add: list_all_iff surface_wf_def)
  have "\<exists>!s. s \<in> set (sp_surfaces p) \<and> su_id s = pf_surface_id f"
    using unique_by_key [OF valid_profile(2) [OF assms(1)]] surface by (simp add: profile_surface_def)
  moreover have "\<exists>!t. t \<in> set (su_targets surface) \<and> st_id t = pf_action_target_id f"
    using unique_by_key [OF targets] flow(1) surface by (simp add: profile_target_def)
  moreover have "\<exists>!t. t \<in> set (su_targets surface) \<and> st_id t = pf_verify_target_id f"
    using unique_by_key [OF targets] flow(3) surface by (simp add: profile_target_def)
  ultimately show ?thesis
    unfolding flow_fenced_def using flow surface route by (simp add: is_some_and_def)
qed

lemma source_fencedI: "state_source_validate ex profile_id s = Inr () \<Longrightarrow> source_fenced ex s"
  by (auto simp: state_source_validate_def source_fenced_def and_then_Inr_iff word_le_nat_alt split: option.splits)

section \<open>Resolved profiles\<close>

lemma profile_target_merge:
  assumes "profile_validate ex parent = Inr ()" "profile_validate ex child = Inr ()"
  shows "profile_target (merge_profile parent child) surface_id target_id =
    (case profile_target child surface_id target_id of
       Some t \<Rightarrow> Some t
     | None \<Rightarrow> profile_target parent surface_id target_id)"
proof -
  note wf = valid_profile [OF assms(1)] valid_profile [OF assms(2)]
  have distinct: "distinct (map st_id (su_targets s))"
    if "profile_surface p surface_id = Some s" "list_all surface_wf (sp_surfaces p)" for p s
    using that by (auto simp: profile_surface_def find_Some_iff list_all_length surface_wf_def)
  have "profile_surface (merge_profile parent child) surface_id =
      (case profile_surface parent surface_id of
         None \<Rightarrow> profile_surface child surface_id
       | Some x \<Rightarrow> Some (case profile_surface child surface_id of None \<Rightarrow> x | Some y \<Rightarrow> merge_surface x y))"
    unfolding profile_surface_def
    by (simp add: by_surface.merge_find [OF wf(2,8)] merge_profile_def merge_surfaces_def)
  moreover have "find (\<lambda>t. st_id t = target_id) (su_targets (merge_surface x y)) =
      (case find (\<lambda>t. st_id t = target_id) (su_targets y) of
         Some t \<Rightarrow> Some t | None \<Rightarrow> find (\<lambda>t. st_id t = target_id) (su_targets x))"
    if "profile_surface parent surface_id = Some x" "profile_surface child surface_id = Some y" for x y
    using by_id.merge_find [OF distinct [OF that(1) wf(3)] distinct [OF that(2) wf(9)]]
    by (simp add: merge_surface_def merge_by_id_def split: option.splits)
  ultimately show ?thesis
    by (simp add: profile_target_def split: option.split)
qed

lemma merge_profile_again:
  assumes "profile_validate ex parent = Inr ()" "profile_validate ex child = Inr ()"
  shows "merge_profile parent (merge_profile parent child) = merge_profile parent child"
proof -
  note wf = valid_profile [OF assms(1)] valid_profile [OF assms(2)]
  have "merge_by_id so_id (sp_state_sources parent) (merge_by_id so_id (sp_state_sources parent) (sp_state_sources child)) =
      merge_by_id so_id (sp_state_sources parent) (sp_state_sources child)"
    using wf(1,7) by (simp add: merge_by_id_def by_id.merge_again list_all_iff)
  moreover have "merge_surfaces (sp_surfaces parent) (merge_surfaces (sp_surfaces parent) (sp_surfaces child)) =
      merge_surfaces (sp_surfaces parent) (sp_surfaces child)"
    using wf(2,3,8,9) by (simp add: merge_surfaces_def by_surface.merge_again)
  ultimately show ?thesis by (simp add: merge_profile_def)
qed

lemma resolve_profile_Inr:
  assumes "resolve_profile ex parent child = Inr r" "sp_extends child = Some reference"
  obtains requirement where "profile_validate ex parent = Inr ()" "profile_validate ex child = Inr ()"
    "profile_validate ex r = Inr ()" "r = merge_profile parent child"
    "pe_requirement ex (pr_version reference) = Some requirement" "pe_version_ok ex (sp_profile_version parent)"
    "pr_id reference = sp_id parent" "requirement (sp_profile_version parent)"
    "eq_ignore_ascii_case (pa_family (sp_application child)) (pa_family (sp_application parent))"
proof (cases "pe_requirement ex (pr_version reference)")
  case None
  then show ?thesis using assms by (simp add: resolve_profile_def and_then_Inr_iff)
next
  case (Some requirement)
  with assms have parts: "profile_validate ex parent = Inr ()" "profile_validate ex child = Inr ()"
    "profile_validate ex (merge_profile parent child) = Inr () \<and> merge_profile parent child = r"
    "pe_version_ok ex (sp_profile_version parent)" "pr_id reference = sp_id parent" "requirement (sp_profile_version parent)"
    "eq_ignore_ascii_case (pa_family (sp_application child)) (pa_family (sp_application parent))"
    by (auto simp: resolve_profile_def and_then_Inr_iff)
  show ?thesis
    by (rule that [OF parts(1,2) _ _ Some parts(4-7)]) (use parts(3) in auto)
qed

section \<open>Examples\<close>

definition example_profile_externs :: profile_externs where
  "example_profile_externs = \<lparr>pe_lowercase = to_ascii_lowercase, pe_version_ok = (\<lambda>v. v = ''1.0.0''),
     pe_requirement = (\<lambda>r. if r = ''^1'' then Some (\<lambda>v. v = ''1.0.0'') else None), pe_url_parse = (\<lambda>_. None)\<rparr>"

definition example_target :: "string \<Rightarrow> SemanticTarget" where
  "example_target i = \<lparr>st_id = i, st_label = i, st_role = ''button'', st_names = [], st_localized_names = [],
     st_automation_ids = [], st_supported_actions = [''click'', ''verify''], st_key_bindings = [], st_fallback = None\<rparr>"

definition example_profile :: "string \<Rightarrow> ProfileReference option \<Rightarrow> ProfileSelector list \<Rightarrow> SemanticProfile" where
  "example_profile i extends selectors =
     \<lparr>sp_schema_version = 3, sp_id = i, sp_profile_version = ''1.0.0'',
      sp_application = \<lparr>pa_family = ''maya'', pa_versions = []\<rparr>, sp_extends = extends, sp_display_name = i,
      sp_selectors = selectors,
      sp_surfaces = [\<lparr>su_id = ''s'', su_label = ''s'', su_role = ''window'', su_route = Accessibility,
        su_targets = [example_target ''t'']\<rparr>],
      sp_state_sources = [],
      sp_binding = \<lparr>pb_require_exact_pid = True, pb_require_exact_window_handle = True,
        pb_require_window_version_match = True, pb_fail_closed_on_ambiguity = True\<rparr>,
      sp_capability_probes = [],
      sp_flows = [\<lparr>pf_id = ''f'', pf_surface_id = ''s'', pf_action_target_id = ''t'', pf_verify_target_id = ''t'',
        pf_route = Accessibility, pf_requires_fresh_snapshot = True, pf_requires_post_action_verification = True,
        pf_prohibit_coordinates = True, pf_prohibit_keyboard_shortcuts = True\<rparr>],
      sp_settings = \<lparr>ps_dialog_style = HostOwned, ps_preferred_route = Accessibility, ps_default_locale = None,
        ps_destructive_confirmation_required = True\<rparr>\<rparr>"

definition example_selector :: "string list \<Rightarrow> ProfileSelector" where
  "example_selector hosts = \<lparr>sl_application_names = [], sl_window_title_contains = [],
     sl_localized_window_title_contains = [], sl_url_hosts = hosts\<rparr>"

definition example_reference :: ProfileReference where
  "example_reference = \<lparr>pr_id = ''base'', pr_version = ''^1''\<rparr>"

lemma example_identifiers:
  "validate_identifier p ''base'' field = Inr ()" "validate_identifier p ''leaf'' field = Inr ()"
  "validate_identifier p ''s'' field = Inr ()" "validate_identifier p ''t'' field = Inr ()"
  "validate_identifier p ''f'' field = Inr ()"
  by (simp_all add: validate_identifier_def identifier_char_def is_ascii_lowercase_def)

lemma example_trims [simp]:
  "str_trim ''base'' = ''base''" "str_trim ''leaf'' = ''leaf''" "str_trim ''maya'' = ''maya''"
  by (simp_all add: str_trim_graphic graphic_def)

lemma example_profile_valid:
  assumes "i \<in> {''base'', ''leaf''}" and "list_all (\<lambda>sl. sl_localized_window_title_contains sl = []) selectors"
    and "extends = None \<and> has_selector (example_profile i extends selectors) \<or> extends = Some example_reference \<and> i = ''leaf''"
  shows "profile_validate example_profile_externs (example_profile i extends selectors) = Inr ()"
proof -
  have "char_count ''maya'' = 4" by (simp add: char_count_graphic graphic_def)
  moreover have "validate_localized_aliases i [] = Inr ()" by (simp add: validate_localized_aliases_def)
  moreover have "supports_action (example_target ''t'') ''click''" "supports_action (example_target ''t'') ''verify''"
    by (simp_all add: supports_action_def example_target_def eq_ignore_ascii_case_def)
  ultimately show ?thesis
    using assms
    by (auto simp: profile_validate_def validate_heading_def example_profile_def and_then_Inr_iff example_identifiers
        all_ok_Inr_iff list_all_iff validate_surface_def validate_profile_target_def validate_flow_def profile_surface_def
        example_reference_def example_profile_externs_def PROFILE_SCHEMA_VERSION_def is_some_and_def
        example_target_def)
qed

lemma example_profile_resolved:
  assumes "list_all (\<lambda>sl. sl_localized_window_title_contains sl = []) selectors"
  shows "\<exists>r. resolve_profile example_profile_externs (example_profile ''base'' None [example_selector [''fab.com'']])
      (example_profile ''leaf'' (Some example_reference) selectors) = Inr r
    \<and> sp_selectors r = (if selectors = [] then [example_selector [''fab.com'']] else selectors)"
proof -
  let ?parent = "example_profile ''base'' None [example_selector [''fab.com'']]"
  let ?child = "example_profile ''leaf'' (Some example_reference) selectors"
  have "has_selector ?parent"
    by (simp add: has_selector_def example_profile_def example_selector_def)
  then have "profile_validate example_profile_externs ?parent = Inr ()"
    by (intro example_profile_valid) (simp_all add: example_selector_def)
  moreover have "profile_validate example_profile_externs ?child = Inr ()"
    using assms by (intro example_profile_valid) simp_all
  moreover have merged: "merge_profile ?parent ?child = example_profile ''leaf'' (Some example_reference)
      (if selectors = [] then [example_selector [''fab.com'']] else selectors)"
    by (simp add: merge_profile_def example_profile_def merge_surfaces_def merge_surface_def merge_by_id_def)
  moreover have "profile_validate example_profile_externs (merge_profile ?parent ?child) = Inr ()"
    unfolding merged using assms by (intro example_profile_valid) (simp_all add: example_selector_def)
  ultimately show ?thesis
    by (simp add: resolve_profile_def example_profile_def example_reference_def example_profile_externs_def
        eq_ignore_ascii_case_def)
qed

section \<open>Hosts\<close>

lemma split_on_prefix: "list_all (\<lambda>c. \<not> P c) s \<Longrightarrow> P c \<Longrightarrow> split_on P (s @ c # rest) = s # split_on P rest"
  by (induction s) auto

lemma hd_split_on: "hd (split_on P s) = takeWhile (\<lambda>c. \<not> P c) s"
  by (induction s) (auto split: list.splits)

lemma url_host_colon:
  assumes "CHR '':'' \<notin> set host" "CHR ''/'' \<notin> set host"
  shows "url_host (''https://'' @ host @ '':'' @ rest) = normalize_host host"
proof -
  let ?authority = "host @ CHR '':'' # rest"
  have "after_first ''://'' (''https://'' @ ?authority) = Some ?authority"
    by (simp add: starts_with_def)
  moreover have "takeWhile (\<lambda>c. \<not> slash c) ?authority = host @ CHR '':'' # takeWhile (\<lambda>c. \<not> slash c) rest"
    using assms(2) by (subst takeWhile_append2) auto
  moreover have "takeWhile (\<lambda>c. \<not> c = CHR '':'') (host @ CHR '':'' # xs) = host" for xs
    using assms(1) by (subst takeWhile_append2) auto
  ultimately show ?thesis by (simp add: url_host_def hd_split_on)
qed

section \<open>Properties\<close>

text \<open>
  C39. Every flow of a valid profile names one surface and, on it, exactly one target that supports the
  click and exactly one that supports the verification, over the route of that surface; it demands a
  fresh snapshot and a verification and forbids coordinates and shortcuts. Every state source is read
  from a literal loopback address with an explicit port and no credentials, within its time and size
  bounds, and capabilities are probed only through the document or the accessibility tree.
\<close>

theorem valid_profile_fenced:
  assumes "profile_validate ex p = Inr ()"
  shows "(\<forall>f\<in>set (sp_flows p). flow_fenced p f) \<and> (\<forall>s\<in>set (sp_state_sources p). source_fenced ex s)
    \<and> (\<forall>c\<in>set (sp_capability_probes p). cp_route c \<in> {BrowserDom, Accessibility})"
  using flow_fencedI [OF assms] source_fencedI valid_profile(4,6) [OF assms]
  by (fastforce simp: validate_probe_def and_then_Inr_iff)

theorem valid_profile_fenced_witness:
  "flow_fenced (example_profile ''base'' None [example_selector [''fab.com'']])
     (hd (sp_flows (example_profile ''base'' None [example_selector [''fab.com'']])))"
proof -
  have "has_selector (example_profile ''base'' None [example_selector [''fab.com'']])"
    by (simp add: has_selector_def example_profile_def example_selector_def)
  then have "profile_validate example_profile_externs (example_profile ''base'' None [example_selector [''fab.com'']]) = Inr ()"
    by (intro example_profile_valid) (simp_all add: example_selector_def)
  from valid_profile_fenced [OF this] show ?thesis by (simp add: example_profile_def)
qed

text \<open>
  C40. A profile that extends another is resolved only against the parent it names, in a version it
  accepts and for the same application family; the result is valid. Each of its targets is the
  child's own where the child declares it and the parent's otherwise, so that no flow acts on another
  target than the child declared; resolving the result once more changes nothing.
\<close>

theorem resolved_profile_exact:
  assumes "resolve_profile ex parent child = Inr r" and "sp_extends child = Some reference"
  shows "profile_validate ex r = Inr () \<and> pr_id reference = sp_id parent
    \<and> (\<exists>requirement. pe_requirement ex (pr_version reference) = Some requirement \<and> requirement (sp_profile_version parent))
    \<and> eq_ignore_ascii_case (pa_family (sp_application r)) (pa_family (sp_application parent))
    \<and> (\<forall>surface_id target_id. profile_target r surface_id target_id =
        (case profile_target child surface_id target_id of
           Some t \<Rightarrow> Some t | None \<Rightarrow> profile_target parent surface_id target_id))
    \<and> (\<forall>f\<in>set (sp_flows r). f \<in> set (sp_flows child)
        \<and> profile_target r (pf_surface_id f) (pf_action_target_id f) = profile_target child (pf_surface_id f) (pf_action_target_id f)
        \<and> profile_target r (pf_surface_id f) (pf_verify_target_id f) = profile_target child (pf_surface_id f) (pf_verify_target_id f))
    \<and> resolve_profile ex parent r = Inr r"
  using assms
proof (rule resolve_profile_Inr)
  fix requirement
  assume valid: "profile_validate ex parent = Inr ()" "profile_validate ex child = Inr ()" "profile_validate ex r = Inr ()"
    and r: "r = merge_profile parent child"
    and version: "pe_requirement ex (pr_version reference) = Some requirement" "pe_version_ok ex (sp_profile_version parent)"
      "pr_id reference = sp_id parent" "requirement (sp_profile_version parent)"
    and family: "eq_ignore_ascii_case (pa_family (sp_application child)) (pa_family (sp_application parent))"
  have kept: "sp_extends r = sp_extends child" "sp_application r = sp_application child" "sp_flows r = sp_flows child"
    by (simp_all add: r merge_profile_def)
  have again: "merge_profile parent r = r"
    unfolding r by (rule merge_profile_again [OF valid(1,2)])
  have "resolve_profile ex parent r = Inr r"
    using valid version family assms(2) by (simp add: resolve_profile_def kept again)
  moreover have target: "profile_target r surface_id target_id =
      (case profile_target child surface_id target_id of
         Some t \<Rightarrow> Some t | None \<Rightarrow> profile_target parent surface_id target_id)" for surface_id target_id
    unfolding r by (rule profile_target_merge [OF valid(1,2)])
  moreover have "profile_target r (pf_surface_id f) (pf_action_target_id f) = profile_target child (pf_surface_id f) (pf_action_target_id f)
      \<and> profile_target r (pf_surface_id f) (pf_verify_target_id f) = profile_target child (pf_surface_id f) (pf_verify_target_id f)"
    if "f \<in> set (sp_flows child)" for f
    by (rule valid_flow [OF valid(2) that]) (simp add: target)
  ultimately show ?thesis using valid version family kept by simp
qed

theorem resolved_profile_exact_witness:
  "\<exists>r. resolve_profile example_profile_externs (example_profile ''base'' None [example_selector [''fab.com'']])
      (example_profile ''leaf'' (Some example_reference) []) = Inr r
    \<and> profile_validate example_profile_externs r = Inr () \<and> is_some_and (profile_target r ''s'' ''t'') (\<lambda>t. st_id t = ''t'')"
proof -
  obtain r where r: "resolve_profile example_profile_externs (example_profile ''base'' None [example_selector [''fab.com'']])
      (example_profile ''leaf'' (Some example_reference) []) = Inr r"
    using example_profile_resolved [of "[]"] by auto
  have "sp_extends (example_profile ''leaf'' (Some example_reference) []) = Some example_reference"
    by (simp add: example_profile_def)
  from resolved_profile_exact [OF r this] r show ?thesis
    by (auto simp: profile_target_def profile_surface_def example_profile_def example_target_def is_some_and_def)
qed

text \<open>
  The promise beside the selector check, that a resolved profile always has a selector, does not
  hold: a child with one empty selector is resolved against a parent with a proper one, because the
  result still names its parent and is excused from the check. It matches no window and no URL.
\<close>

theorem resolved_profile_without_selector:
  "\<exists>ex parent child r. resolve_profile ex parent child = Inr r \<and> has_selector parent \<and> sp_selectors child \<noteq> []
     \<and> \<not> has_selector r \<and> (\<forall>application_name window_title. \<not> profile_matches_window ex r application_name window_title)
     \<and> (\<forall>u. \<not> matches_url r u)"
proof -
  obtain r where r: "resolve_profile example_profile_externs (example_profile ''base'' None [example_selector [''fab.com'']])
      (example_profile ''leaf'' (Some example_reference) [example_selector []]) = Inr r"
    and selectors: "sp_selectors r = [example_selector []]"
    using example_profile_resolved [of "[example_selector []]"] by (auto simp: example_selector_def)
  have "has_selector (example_profile ''base'' None [example_selector [''fab.com'']])"
    by (simp add: has_selector_def example_profile_def example_selector_def)
  moreover have "sp_selectors (example_profile ''leaf'' (Some example_reference) [example_selector []]) \<noteq> []"
    by (simp add: example_profile_def)
  moreover have "\<not> has_selector r" "\<not> profile_matches_window ex r a t" "\<not> matches_url r u" for ex a t u
    using selectors by (simp_all add: has_selector_def has_titles_def profile_matches_window_def window_selector_def
        matches_url_def example_selector_def)
  ultimately show ?thesis using r by blast
qed

text \<open>
  A profile recognises a page by the text before the first colon of the authority: whatever
  follows, a URL that starts with a declared host and a colon matches, although that text is a user
  name whenever an at sign follows, and the page comes from another host.
\<close>

theorem url_match_ignores_userinfo:
  assumes "sl \<in> set (sp_selectors p)" "host \<in> set (sl_url_hosts sl)" "normalize_host host \<noteq> []"
    and "CHR '':'' \<notin> set host" "CHR ''/'' \<notin> set host"
  shows "matches_url p (''https://'' @ host @ '':'' @ rest)"
proof -
  have "url_host (''https://'' @ host @ '':'' @ rest) = normalize_host host"
    using assms(4,5) by (rule url_host_colon)
  then show ?thesis
    using assms(1-3) by (auto simp: matches_url_def list_ex_iff)
qed

theorem url_match_ignores_userinfo_witness:
  "matches_url (example_profile ''base'' None [example_selector [''fab.com'']]) ''https://fab.com:x@other.example/''"
proof -
  have "normalize_host ''fab.com'' \<noteq> []"
    by (simp add: normalize_host_def str_trim_graphic graphic_def trim_start_www.simps starts_with_def to_ascii_lowercase_def)
  from url_match_ignores_userinfo [OF _ _ this, of "example_selector [''fab.com'']"
      "example_profile ''base'' None [example_selector [''fab.com'']]" "''x@other.example/''"]
  show ?thesis by (simp add: example_profile_def example_selector_def)
qed

end
