(* ===== verification/Spec2Isabelle.thy ===== *)
theory Spec2Isabelle
  imports Cross_Client_Runs Extension_Routing Session_Health Core_Tools Desktop_Session Semantic_Profiles
begin

text \<open>
  \<^bold>\<open>Verification library of the DCC-CUA Host.\<close>

  DCC-CUA lets a model operate desktop applications. A client opens a \<^emph>\<open>window session\<close> on the Host
  (\<open>crates/dcc-cua-host\<close>), observes the window and asks for actions; the Host decides what is
  allowed and drives the operating system through the core crate (\<open>crates/dcc-cua-core\<close>) and the
  browser adapter (\<open>crates/dcc-cua-browser\<close>). The security of the program is in the Host: grants of
  the client, action-time confirmations of the user, task authorizations that a trusted embedding
  registers or signs, evidence that an action refers to what was last observed, and secrets that
  must not leave the vault. This development models that part, the wire protocol and browser
  extensions that feed it, and the part of the core that turns an admitted action into one command
  to the native driver, all on the non-Windows build.

  \<^bold>\<open>Parts, theories and sources.\<close> Paths are below \<open>src/crates\<close>.

  \<^item> \<open>Prelude\<close>, \<open>Externals\<close>: results as sums (\<open>and_then\<close>, \<open>guard\<close>, \<open>all_ok\<close>), saturating and checked
    word arithmetic, UTF-8, base64url, JSON values, clocks and file metadata (\<open>world\<close>), and the
    record \<open>externs\<close> of library functions that are parameters: the URL parser, the JSON writer and
    SHA-256.
  \<^item> \<open>Host_Error\<close>: \<open>dcc-cua-host/src/error_contract.rs\<close>, \<open>wire.rs\<close> (error codes),
    \<open>dcc-cua-core/src/contracts.rs\<close>.
  \<^item> \<open>Recording_Authorization\<close>: the fence of \<open>dcc-cua-showcase/src/recording_authorization.rs\<close> and
    \<open>dcc-cua-core/src/native_task_authorization.rs\<close>.
  \<^item> \<open>Action_Scope\<close>, \<open>Task_Grant\<close>, \<open>Action_Confirmation\<close>, \<open>Task_Authorization\<close>: the files
    \<open>task_authorization_scope.rs\<close>, \<open>task_grant.rs\<close>, \<open>action_confirmation.rs\<close> and
    \<open>task_authorization.rs\<close> of the Host. The task authorization host and the confirmation host are
    state transformers given as parameters.
  \<^item> \<open>Broker\<close>, \<open>Broker_Runs\<close>: \<open>task_authorization_broker.rs\<close>, its registry and the handles it shares,
    as a step relation in which issuer, Host and handle holders interleave.
  \<^item> \<open>Cross_Client\<close>, \<open>Cross_Client_Runs\<close>: \<open>cross_client_task_authorization.rs\<close>, challenges and signed
    decisions over a broker; signature verification is a parameter.
  \<^item> \<open>Session_Events\<close>: \<open>session_events.rs\<close> and \<open>dcc-cua-core/src/input_state.rs\<close>.
  \<^item> \<open>Request_Payloads\<close>, \<open>Host_Action\<close>, \<open>Host_Request\<close>: the payload types of the core and protocol
    crates, \<open>Request\<close> and \<open>HostAction\<close> of \<open>lib.rs\<close>, and \<open>action_policy.rs\<close>.
  \<^item> \<open>Extension_Input\<close>: \<open>extension_input.rs\<close>.
  \<^item> \<open>Session_State\<close>, \<open>Session_Evidence\<close>: \<open>session_state.rs\<close>, \<open>session_identity.rs\<close> and
    \<open>request_handler/evidence_epoch.rs\<close>; of the core session only the fields the Host reads.
  \<^item> \<open>Browser_Session\<close>, \<open>Browser_Operations\<close>, \<open>Browser_Runs\<close>: the browser adapter over a native tool
    that is a parameter.
  \<^item> \<open>Authorization_Scope\<close>: how a lease enters a session and limits its requests
    (\<open>task_authorization_scope.rs\<close>).
  \<^item> \<open>Host_Services\<close>, \<open>Request_Handler\<close>: \<open>secret_vault.rs\<close>, \<open>request_contract.rs\<close>, the admission of a
    request (\<open>lib.rs\<close>, \<open>request_handler/session_helpers.rs\<close>) and the handlers of
    \<open>request_handler.rs\<close> for clipboard, recording, live observation, browser requests and actions.
    A handler is a computation over the session, the states of the services and a log of the calls
    it makes; the core session is the record \<open>core_driver\<close> of parameters.
  \<^item> \<open>Handler_Effects\<close>, \<open>Handler_Requests\<close>: what the handlers may do, by an effect contract
    (the locale \<open>handler_effect\<close>) composed along them.
  \<^item> \<open>Wire\<close>: frames and envelopes of \<open>dcc-cua-protocol/src/lib.rs\<close> and the Host's \<open>wire.rs\<close>, over a
    stream that hands out its bytes in pieces.
  \<^item> \<open>Extension_Registry\<close>, \<open>Extension_Invariant\<close>, \<open>Extension_Runs\<close>, \<open>Extension_Routing\<close>:
    \<open>browser_extension.rs\<close>, the providers with their command queues and pending calls as a step
    relation of all connections, and the requests that reach them.
  \<^item> \<open>Session_Health\<close>: \<open>dcc-cua-core/src/session_health.rs\<close>.
  \<^item> \<open>Float64\<close>, \<open>Target_Policy\<close>: double precision arithmetic on bit patterns for the coordinates, and
    \<open>sensitive_target_policy.rs\<close> with \<open>window_target.rs\<close> of the core.
  \<^item> \<open>Action_Validation\<close>, \<open>Driver_Command\<close>: \<open>policy.rs\<close> and \<open>runtime/sdk_action_compat.rs\<close> of the core,
    the limits of an action and the driver command it is translated to.
  \<^item> \<open>Core_Action\<close>, \<open>Core_Tools\<close>: \<open>perform_action\<close> and \<open>call_tool\<close> of \<open>runtime/session.rs\<close> with the gates
    beside it, as steps over \<open>RuntimeSession\<close> that log what is sent to the driver; the locale
    \<open>lasting_condition\<close> states what a step may not lose.
  \<^item> \<open>Desktop_Session\<close>: the desktop session of \<open>runtime.rs\<close>.
  \<^item> \<open>Semantic_Profiles\<close>: \<open>dcc-cua-semantic-profiles/src/lib.rs\<close>, application profiles and their
    inheritance; the locale \<open>keyed_merge\<close> states what both merges of a child into its parent share.

  \<^bold>\<open>What the lemmas show.\<close> Task authorizations: revocation is final in every interleaving, an
  authorization binds one session, the registry keeps its invariant, a challenge is decided at most
  as often as it was prepared, a leased action lies inside its lease. Evidence: after an
  invalidation no earlier observation is accepted, one browser snapshot serves one mutation, the
  event pages are complete or ask for a resynchronisation. Handlers: an action, a browser tool or a
  secret passes only with its admission, grants, policy, evidence and confirmation. Wire: what is
  written is read back, however the stream cuts it. Extensions: an answer reaches the call it answers,
  a pairing has one owner, a command goes out only authorized and one snapshot serves one input.
  Core: an action becomes at most one command, to the window of its observation, and uses the
  observation up; its points are the client's own, inside the screenshot in a visual fallback, a cursor
  mapped to the screen stays in the window, and an element is named by the client's token or the only
  token of its row (whether a click lies inside the window is otherwise left to the driver);
  tool arguments cannot name another
  window; restricted programs are never targets; a desktop action follows the latest snapshot.
  Profiles: a valid profile acts only through named, unique targets, inheritance overrides target by
  target and is idempotent. Health: input is reported safe only while the recording advances. Grants, scopes,
  policy tiers and payloads: exact characterisations of what validation accepts, on every branch.

  \<^bold>\<open>Choices and bounds.\<close> Strings are UTF-8 byte strings, so \<open>chars().count()\<close> is \<open>char_count\<close>. UUIDs
  are drawn from a parameter; where a loop draws until it finds a free id, the function returns
  \<open>None\<close> when the draws run out, and termination is proved from a draw that is free. Clocks are read
  at numbered points of an operation, so that time may pass, or run backwards, between two readings.
  Locks are atomic steps. Panics are values: \<open>None\<close> for a step of the core, a result of their own
  elsewhere. Doubles are their 64 bits and every operation rounds the exact result to nearest even;
  only its NaN payloads are not those of a processor. \<open>en_sleeps\<close> is the number of sleeps of a post-action
  delay; every theorem holds for each value.

  \<^bold>\<open>Not modelled.\<close> The Windows build and its platform crate; capture and live observation of the
  core, and the start, stop, clipboard and recording routes of its sessions (to the Host handlers the
  core is the parameter \<open>core_driver\<close>, to the core the driver and the window inventory are
  parameters); endpoints and sockets, shared memory and image attachments, serde decoding of
  requests, waits against the wall clock, the client library, the command line and MCP server, the
  indicator, profile packages on disk and examples. Of \<open>request_handler.rs\<close> the requests for snapshots, window state
  and frames, menus, queries, desktop sessions, and the opening and stopping of sessions are left out:
  they compose session state that is modelled with capture calls that are not.
\<close>

end
